(* ===== verification/Source.thy ===== *)
theory Source
  imports Prelude
begin

text \<open>
  \<^verbatim>\<open>src/quawk/source.py\<close>: physical source files, source points and spans, the resolution of
  a point to a line and column, and the cursor that presents an ordered list of files as one
  logical character stream (a file that does not end in a newline is followed by a synthetic
  one).

  A \<open>ProgramSource\<close> is a record of its files and of \<open>ps_ref\<close>, its Python object identity,
  which \<open>combine_spans\<close> compares with \<open>is\<close>.  The cursor's methods normalise the cursor
  before they read it, so each of them returns the changed cursor beside its result.
\<close>

section \<open>Files, points, spans\<close>

record resolved_location =
  rl_source_name :: string
  rl_line :: nat
  rl_column :: nat
  rl_line_text :: string

record source_point =
  sp_file_index :: int
  sp_offset :: int

record source_file =
  sf_name :: string
  sf_text :: string
  sf_line_starts :: "nat list"

record program_source =
  ps_ref :: nat
  ps_files :: "source_file list"

record source_span =
  ss_source :: program_source
  ss_start :: source_point
  ss_end :: source_point

fun line_starts_from :: "nat \<Rightarrow> string \<Rightarrow> nat list" where
  "line_starts_from i [] = []"
| "line_starts_from i (c # cs) =
     (if c = newline then (i + 1) # line_starts_from (i + 1) cs else line_starts_from (i + 1) cs)"

definition build_line_starts :: "string \<Rightarrow> nat list" where
  "build_line_starts text = 0 # line_starts_from 0 text"

definition source_file_create :: "string \<Rightarrow> string \<Rightarrow> source_file" where
  "source_file_create name text =
     \<lparr>sf_name = name, sf_text = text, sf_line_starts = build_line_starts text\<rparr>"

text \<open>The loop of \<open>resolve\<close> that walks back over trailing newlines.\<close>

fun skip_back_newlines :: "string \<Rightarrow> nat \<Rightarrow> nat" where
  "skip_back_newlines text 0 = 0"
| "skip_back_newlines text (Suc n) =
     (if text ! n = newline then skip_back_newlines text n else Suc n)"

definition effective_offset :: "string \<Rightarrow> int \<Rightarrow> nat" where
  "effective_offset text offset =
     (let clamped = min (nat (max offset 0)) (length text)
      in if clamped = length text then skip_back_newlines text clamped else clamped)"

definition sf_resolve :: "source_file \<Rightarrow> int \<Rightarrow> resolved_location" where
  "sf_resolve f offset =
     (let text = sf_text f;
          eff = effective_offset text offset;
          line_index = bisect_right (sf_line_starts f) eff - 1;
          line_start = sf_line_starts f ! line_index;
          next_line_start =
            (if line_index + 1 < length (sf_line_starts f)
             then sf_line_starts f ! (line_index + 1) else length text);
          line_text = rstrip_newlines (drop line_start (take next_line_start text))
      in \<lparr>rl_source_name = sf_name f, rl_line = line_index + 1,
          rl_column = (eff - line_start) + 1, rl_line_text = line_text\<rparr>)"

definition from_inline :: "nat \<Rightarrow> string \<Rightarrow> program_source" where
  "from_inline ref text = \<lparr>ps_ref = ref, ps_files = [source_file_create ''<inline>'' text]\<rparr>"

definition from_files :: "nat \<Rightarrow> (string \<times> string) list \<Rightarrow> program_source" where
  "from_files ref files =
     \<lparr>ps_ref = ref, ps_files = map (\<lambda>(name, text). source_file_create name text) files\<rparr>"

definition mk_point :: "int \<Rightarrow> int \<Rightarrow> source_point" where
  "mk_point file_index offset = \<lparr>sp_file_index = file_index, sp_offset = offset\<rparr>"

definition mk_span :: "program_source \<Rightarrow> source_point \<Rightarrow> source_point \<Rightarrow> source_span" where
  "mk_span src start stop = \<lparr>ss_source = src, ss_start = start, ss_end = stop\<rparr>"

definition ps_resolve :: "program_source \<Rightarrow> source_point \<Rightarrow> resolved_location" where
  "ps_resolve src p =
     (if ps_files src = [] then
        \<lparr>rl_source_name = ''<inline>'', rl_line = 1, rl_column = 1, rl_line_text = []\<rparr>
      else
        let file_index = min (max (sp_file_index p) 0) (int (length (ps_files src)) - 1)
        in sf_resolve (ps_files src ! nat file_index) (sp_offset p))"

definition eof_point :: "program_source \<Rightarrow> source_point" where
  "eof_point src =
     (if ps_files src = [] then mk_point 0 0
      else let last_index = length (ps_files src) - 1
           in mk_point (int last_index) (int (length (sf_text (ps_files src ! last_index)))))"

definition start_location :: "source_span \<Rightarrow> resolved_location" where
  "start_location sp = ps_resolve (ss_source sp) (ss_start sp)"

definition format_start :: "source_span \<Rightarrow> string" where
  "format_start sp =
     (let loc = start_location sp
      in rl_source_name loc @ '':'' @ nat_to_string (rl_line loc) @ '':''
         @ nat_to_string (rl_column loc))"

text \<open>\<open>combine_spans\<close> raises \<open>ValueError\<close> (here \<^const>\<open>Inl\<close> its message) when the two spans
  belong to different source objects.\<close>

definition combine_spans :: "source_span \<Rightarrow> source_span \<Rightarrow> string + source_span" where
  "combine_spans start stop =
     (if ps_ref (ss_source start) \<noteq> ps_ref (ss_source stop)
      then Inl ''cannot combine spans from different sources''
      else Inr (mk_span (ss_source start) (ss_start start) (ss_end stop)))"

section \<open>The cursor\<close>

record cursor =
  cu_source :: program_source
  cu_file :: nat
  cu_offset :: nat
  cu_boundary :: bool

definition cursor_init :: "program_source \<Rightarrow> cursor" where
  "cursor_init src = \<lparr>cu_source = src, cu_file = 0, cu_offset = 0, cu_boundary = False\<rparr>"

abbreviation cu_files :: "cursor \<Rightarrow> source_file list" where
  "cu_files c \<equiv> ps_files (cu_source c)"

function cu_normalize :: "cursor \<Rightarrow> cursor" where
  "cu_normalize c =
     (if cu_files c \<noteq> [] \<and> cu_file c < length (cu_files c) then
        if cu_boundary c then c
        else let text = sf_text (cu_files c ! cu_file c) in
          if cu_offset c < length text then c
          else if cu_file c + 1 \<ge> length (cu_files c) then c
          else if ends_with_newline text
            then cu_normalize (c\<lparr>cu_file := cu_file c + 1, cu_offset := 0\<rparr>)
          else c\<lparr>cu_boundary := True\<rparr>
      else c)"
  by pat_completeness auto
termination
  by (relation "measure (\<lambda>c. length (cu_files c) - cu_file c)") auto

declare cu_normalize.simps [simp del]

text \<open>\<open>is_at_end\<close> on a cursor that is already normalised.\<close>

definition at_end :: "cursor \<Rightarrow> bool" where
  "at_end c \<longleftrightarrow>
     (if cu_files c = [] then True
      else if cu_boundary c then False
      else cu_file c = length (cu_files c) - 1
           \<and> cu_offset c \<ge> length (sf_text (cu_files c ! (length (cu_files c) - 1))))"

definition is_at_end :: "cursor \<Rightarrow> bool \<times> cursor" where
  "is_at_end c = (let c' = cu_normalize c in (at_end c', c'))"

definition cu_point :: "cursor \<Rightarrow> source_point \<times> cursor" where
  "cu_point c =
     (let c = cu_normalize c in
      (if cu_boundary c \<and> cu_file c < length (cu_files c)
       then mk_point (int (cu_file c)) (int (length (sf_text (cu_files c ! cu_file c))))
       else if at_end c then eof_point (cu_source c)
       else mk_point (int (cu_file c)) (int (cu_offset c)), c))"

text \<open>\<open>peek()\<close> on a normalised cursor.  The last two lookups are Python index expressions;
  \<^const>\<open>None\<close> stands for their \<open>IndexError\<close>, which the invariant \<open>cu_ok\<close> below excludes.\<close>

definition cu_char :: "cursor \<Rightarrow> char option" where
  "cu_char c =
     (if at_end c then None
      else if cu_boundary c then Some newline
      else case nth_opt (cu_files c) (cu_file c) of
             None \<Rightarrow> None
           | Some f \<Rightarrow> nth_opt (sf_text f) (cu_offset c))"

definition cu_advance :: "cursor \<Rightarrow> char option \<times> cursor" where
  "cu_advance c =
     (let c = cu_normalize c in
      case cu_char c of
        None \<Rightarrow> (None, c)
      | Some ch \<Rightarrow>
          if cu_boundary c
          then (Some ch, c\<lparr>cu_file := cu_file c + 1, cu_offset := 0, cu_boundary := False\<rparr>)
          else (Some ch, c\<lparr>cu_offset := cu_offset c + 1\<rparr>))"

text \<open>The probe loop of \<open>peek(offset)\<close>: advance a copy \<open>offset\<close> times, then read it.\<close>

fun probe_char :: "nat \<Rightarrow> cursor \<Rightarrow> char option" where
  "probe_char 0 c = cu_char (cu_normalize c)"
| "probe_char (Suc n) c =
     (case cu_advance c of
        (None, _) \<Rightarrow> None
      | (Some _, c') \<Rightarrow> probe_char n c')"

definition cu_peek :: "nat \<Rightarrow> cursor \<Rightarrow> char option \<times> cursor" where
  "cu_peek offset c =
     (let c' = cu_normalize c
      in (if offset = 0 then cu_char c' else probe_char offset c', c'))"

end
