(* ===== verification/Char_Stream.thy ===== *)
theory Char_Stream
  imports Prelude
begin

text \<open>
  The interface between the source cursor and the scanner: a stream of characters that can
  be peeked at and advanced, described by the text that remains to be read (its view).  The
  scanner's loops terminate, and its results are determined, by these laws alone; the
  positioned extension adds what the scanner's spans rely on.  The interpretation on the
  cursor of \<^verbatim>\<open>source.py\<close> is in the theory \<open>Source_Lemmas\<close>.
\<close>

locale char_stream =
  fixes peek :: "nat \<Rightarrow> 'c \<Rightarrow> char option \<times> 'c"
    and advance :: "'c \<Rightarrow> char option \<times> 'c"
    and view :: "'c \<Rightarrow> string"
  assumes peek_char: "fst (peek k c) = nth_opt (view c) k"
    and peek_view: "view (snd (peek k c)) = view c"
    and advance_char: "fst (advance c) = nth_opt (view c) 0"
    and advance_view: "view (snd (advance c)) = drop 1 (view c)"
begin

lemma peek_pair: "peek k c = (nth_opt (view c) k, snd (peek k c))"
  by (simp add: peek_char [symmetric])

lemma advance_pair: "advance c = (nth_opt (view c) 0, snd (advance c))"
  by (simp add: advance_char [symmetric])

lemma peek_NoneD: "peek 0 c = (None, c') \<Longrightarrow> view c = [] \<and> view c' = []"
  using peek_char [of 0 c] peek_view [of 0 c] by simp

lemma peek_SomeD: "peek 0 c = (Some ch, c') \<Longrightarrow> \<exists>cs. view c = ch # cs \<and> view c' = ch # cs"
  using peek_char [of 0 c] peek_view [of 0 c] nth_opt_drop_0 [of "view c" 0 ch] by auto

lemma advance_Cons:
  "view c = ch # cs \<Longrightarrow> fst (advance c) = Some ch \<and> view (snd (advance c)) = cs"
  by (simp add: advance_char advance_view)

lemma peek_advance_less:
  "peek 0 c = (Some ch, c') \<Longrightarrow> length (view (snd (advance c'))) < length (view c)"
  by (drule peek_SomeD) (auto simp: advance_view)

lemma advance_less:
  "view c \<noteq> [] \<Longrightarrow> length (view (snd (advance c))) < length (view c)"
  by (cases "view c") (auto simp: advance_view)

end

text \<open>A stream that also reports where it stands, in a strict order that reading increases.\<close>

locale positioned_stream = char_stream peek advance view
  for peek :: "nat \<Rightarrow> 'c \<Rightarrow> char option \<times> 'c"
    and advance :: "'c \<Rightarrow> char option \<times> 'c"
    and view :: "'c \<Rightarrow> string" +
  fixes point :: "'c \<Rightarrow> 'p \<times> 'c"
    and before :: "'p \<Rightarrow> 'p \<Rightarrow> bool"
  assumes point_view: "view (snd (point c)) = view c"
    and point_point: "fst (point (snd (point c))) = fst (point c)"
    and point_peek: "fst (point (snd (peek k c))) = fst (point c)"
    and point_advance: "view c \<noteq> [] \<Longrightarrow> before (fst (point c)) (fst (point (snd (advance c))))"
    and point_stuck: "view c = [] \<Longrightarrow> fst (point (snd (advance c))) = fst (point c)"
    and before_trans: "before p q \<Longrightarrow> before q r \<Longrightarrow> before p r"
begin

text \<open>\<open>reached c c'\<close>: the stream has not been read since \<open>c\<close>, or both the position and the text
  that is left have made progress.\<close>

definition reached :: "'c \<Rightarrow> 'c \<Rightarrow> bool" where
  "reached c c' \<longleftrightarrow>
     (view c' = view c \<and> fst (point c) = fst (point c'))
     \<or> (length (view c') < length (view c) \<and> before (fst (point c)) (fst (point c')))"

lemma reached_refl: "reached c c"
  by (simp add: reached_def)

lemma reached_trans: "reached c d \<Longrightarrow> reached d e \<Longrightarrow> reached c e"
  by (auto simp: reached_def dest: before_trans)

lemma reached_advance: "reached c (snd (advance c))"
proof (cases "view c = []")
  case True
  then show ?thesis by (simp add: reached_def point_stuck advance_view)
next
  case False
  then show ?thesis by (simp add: reached_def point_advance advance_less)
qed

lemma reached_peek: "reached c (snd (peek k c))"
  by (simp add: reached_def point_peek peek_view)

lemma reached_point: "reached c (snd (point c))"
  by (simp add: reached_def point_point point_view)

lemma reached_before:
  "reached c c' \<Longrightarrow> view c' \<noteq> view c \<Longrightarrow> before (fst (point c)) (fst (point c'))"
  by (auto simp: reached_def)

end

end
