(* ===== verification/Source_Lemmas.thy ===== *)
theory Source_Lemmas
  imports Source Char_Stream
begin

text \<open>
  What \<^verbatim>\<open>source.py\<close> guarantees: the cursor is a positioned character stream over the logical
  text of the files, and a point resolves to the line and column that hold it.
\<close>

section \<open>The logical text\<close>

definition file_separator :: "source_file \<Rightarrow> source_file list \<Rightarrow> string" where
  "file_separator f fs = (if fs = [] \<or> ends_with_newline (sf_text f) then [] else [newline])"

fun logical_text :: "source_file list \<Rightarrow> string" where
  "logical_text [] = []"
| "logical_text (f # fs) = sf_text f @ file_separator f fs @ logical_text fs"

definition cu_view :: "cursor \<Rightarrow> string" where
  "cu_view c =
     (if cu_files c = [] then []
      else if cu_boundary c then newline # logical_text (drop (cu_file c + 1) (cu_files c))
      else case drop (cu_file c) (cu_files c) of
             [] \<Rightarrow> []
           | f # fs \<Rightarrow> drop (cu_offset c) (sf_text f) @ file_separator f fs @ logical_text fs)"

lemma cu_view_init: "cu_view (cursor_init src) = logical_text (ps_files src)"
  by (cases "ps_files src") (auto simp: cu_view_def cursor_init_def)

lemma drop_cu_file:
  "cu_file c < length (cu_files c) \<Longrightarrow>
     drop (cu_file c) (cu_files c) = (cu_files c ! cu_file c) # drop (cu_file c + 1) (cu_files c)"
  by (simp add: Cons_nth_drop_Suc)

lemma cu_view_unfold:
  "cu_file c < length (cu_files c) \<Longrightarrow> \<not> cu_boundary c \<Longrightarrow>
     cu_view c = drop (cu_offset c) (sf_text (cu_files c ! cu_file c))
       @ file_separator (cu_files c ! cu_file c) (drop (cu_file c + 1) (cu_files c))
       @ logical_text (drop (cu_file c + 1) (cu_files c))"
  by (auto simp: cu_view_def drop_cu_file)

lemma cu_view_next_file:
  "cu_files c \<noteq> [] \<Longrightarrow>
     cu_view (c\<lparr>cu_file := n, cu_offset := 0, cu_boundary := False\<rparr>) = logical_text (drop n (cu_files c))"
  by (auto simp: cu_view_def split: list.split)

lemma cu_source_normalize [simp]: "cu_source (cu_normalize c) = cu_source c"
proof (induction c rule: cu_normalize.induct)
  case (1 c)
  then show ?case
    by (subst cu_normalize.simps) (auto simp: Let_def)
qed

lemma cu_normalize_file: "cu_file c \<le> cu_file (cu_normalize c)"
proof (induction c rule: cu_normalize.induct)
  case (1 c)
  show ?case
  proof (cases "cu_files c \<noteq> [] \<and> cu_file c < length (cu_files c) \<and> \<not> cu_boundary c \<and>
      \<not> cu_offset c < length (sf_text (cu_files c ! cu_file c)) \<and>
      \<not> cu_file c + 1 \<ge> length (cu_files c) \<and>
      ends_with_newline (sf_text (cu_files c ! cu_file c))")
    case True
    then show ?thesis using 1 by (subst cu_normalize.simps) (auto simp: Let_def)
  next
    case False
    then show ?thesis by (subst cu_normalize.simps) (auto simp: Let_def)
  qed
qed

text \<open>A normalised cursor: either at a boundary, or before a character, or exhausted.\<close>

definition cu_normal :: "cursor \<Rightarrow> bool" where
  "cu_normal c \<longleftrightarrow>
     cu_files c = [] \<or> length (cu_files c) \<le> cu_file c \<or> cu_boundary c
     \<or> cu_offset c < length (sf_text (cu_files c ! cu_file c))
     \<or> cu_file c + 1 = length (cu_files c)"

lemma cu_normalize_normal: "cu_normal (cu_normalize c)"
proof (induction c rule: cu_normalize.induct)
  case (1 c)
  then show ?case
    by (subst cu_normalize.simps) (auto simp: Let_def cu_normal_def)
qed

lemma cu_normal_fixed: "cu_normal c \<Longrightarrow> cu_normalize c = c"
  by (subst cu_normalize.simps) (auto simp: Let_def cu_normal_def)

lemma cu_normalize_idem [simp]: "cu_normalize (cu_normalize c) = cu_normalize c"
  by (rule cu_normal_fixed) (rule cu_normalize_normal)

lemma cu_view_normalize [simp]: "cu_view (cu_normalize c) = cu_view c"
proof (induction c rule: cu_normalize.induct)
  case (1 c)
  let ?text = "sf_text (cu_files c ! cu_file c)"
  show ?case
  proof (cases "cu_files c \<noteq> [] \<and> cu_file c < length (cu_files c) \<and> \<not> cu_boundary c \<and>
      \<not> cu_offset c < length ?text \<and> \<not> cu_file c + 1 \<ge> length (cu_files c)")
    case False
    then have "cu_normalize c = c"
      by (subst cu_normalize.simps) (auto simp: Let_def)
    then show ?thesis by simp
  next
    case live: True
    then have rest: "drop (cu_file c + 1) (cu_files c) \<noteq> []" by simp
    show ?thesis
    proof (cases "ends_with_newline ?text")
      case True
      let ?c = "c\<lparr>cu_file := cu_file c + 1, cu_offset := 0\<rparr>"
      have step: "cu_normalize c = cu_normalize ?c"
        using live True by (subst cu_normalize.simps) (simp add: Let_def)
      have IH: "cu_view (cu_normalize ?c) = cu_view ?c"
        using 1 live True by simp
      have "cu_view ?c = logical_text (drop (cu_file c + 1) (cu_files c))"
        using live cu_view_next_file [of ?c "cu_file c + 1"] by (cases c) simp
      also have "\<dots> = cu_view c"
        using live True by (simp add: cu_view_unfold file_separator_def)
      finally show ?thesis using step IH by simp
    next
      case False
      have "cu_normalize c = c\<lparr>cu_boundary := True\<rparr>"
        using live False by (subst cu_normalize.simps) (simp add: Let_def)
      then show ?thesis
        using live False rest by (simp add: cu_view_unfold file_separator_def) (simp add: cu_view_def)
    qed
  qed
qed

section \<open>The cursor as a character stream\<close>

lemma cu_char_view: "cu_normal c \<Longrightarrow> cu_char c = nth_opt (cu_view c) 0"
proof (cases "cu_files c = [] \<or> cu_boundary c \<or> length (cu_files c) \<le> cu_file c")
  case True
  then have "cu_view c = (if cu_files c \<noteq> [] \<and> cu_boundary c
      then newline # logical_text (drop (cu_file c + 1) (cu_files c)) else [])"
    by (auto simp: cu_view_def)
  with True show ?thesis
    by (auto simp: cu_char_def at_end_def)
next
  case False
  assume "cu_normal c"
  with False have "cu_offset c < length (sf_text (cu_files c ! cu_file c)) \<or>
      cu_file c + 1 = length (cu_files c)"
    by (auto simp: cu_normal_def)
  with False show ?thesis
    by (auto simp: cu_char_def at_end_def cu_view_unfold nth_opt_def nth_append
        file_separator_def)
qed

lemma cu_advance_char: "fst (cu_advance c) = cu_char (cu_normalize c)"
  by (auto simp: cu_advance_def Let_def split: option.split)

lemma cu_advance_fst: "fst (cu_advance c) = nth_opt (cu_view c) 0"
  using cu_char_view [OF cu_normalize_normal, of c] by (simp add: cu_advance_char)

lemma cu_advance_normal_view:
  assumes "cu_normal c" and "cu_char c = Some ch"
  shows "cu_view (if cu_boundary c
      then c\<lparr>cu_file := cu_file c + 1, cu_offset := 0, cu_boundary := False\<rparr>
      else c\<lparr>cu_offset := cu_offset c + 1\<rparr>) = drop 1 (cu_view c)"
proof (cases "cu_boundary c")
  case True
  with assms show ?thesis
    using cu_view_next_file [of c "cu_file c + 1"]
    by (auto simp: cu_char_def at_end_def cu_view_def split: if_splits)
next
  case False
  with assms have "cu_file c < length (cu_files c)" "cu_files c \<noteq> []"
    "cu_offset c < length (sf_text (cu_files c ! cu_file c))"
    by (auto simp: cu_char_def at_end_def split: if_splits option.splits)
  with False show ?thesis
    by (simp add: cu_view_unfold Cons_nth_drop_Suc [symmetric])
qed

lemma cu_advance_view: "cu_view (snd (cu_advance c)) = drop 1 (cu_view c)"
proof (cases "cu_char (cu_normalize c)")
  case None
  then have "nth_opt (cu_view c) 0 = None"
    using cu_char_view [OF cu_normalize_normal, of c] by simp
  then have "cu_view c = []" by simp
  with None show ?thesis by (simp add: cu_advance_def Let_def)
next
  case (Some ch)
  then have "snd (cu_advance c) =
      (let d = cu_normalize c in if cu_boundary d
       then d\<lparr>cu_file := cu_file d + 1, cu_offset := 0, cu_boundary := False\<rparr>
       else d\<lparr>cu_offset := cu_offset d + 1\<rparr>)"
    by (simp add: cu_advance_def Let_def)
  then show ?thesis
    using cu_advance_normal_view [OF cu_normalize_normal Some] by (simp add: Let_def)
qed

lemma probe_char_view: "probe_char n c = nth_opt (cu_view c) n"
proof (induction n arbitrary: c)
  case 0
  then show ?case using cu_char_view [OF cu_normalize_normal, of c] by simp
next
  case (Suc n)
  have "cu_advance c = (nth_opt (cu_view c) 0, snd (cu_advance c))"
    by (metis cu_advance_fst prod.collapse)
  moreover have "probe_char n (snd (cu_advance c)) = nth_opt (drop 1 (cu_view c)) n"
    by (simp add: Suc cu_advance_view)
  ultimately show ?case
    by (cases "nth_opt (cu_view c) 0") (auto simp: nth_opt_drop split: prod.split)
qed

lemma cu_peek_fst: "fst (cu_peek k c) = nth_opt (cu_view c) k"
  using cu_char_view [OF cu_normalize_normal, of c]
  by (simp add: cu_peek_def Let_def probe_char_view)

lemma cu_peek_snd: "snd (cu_peek k c) = cu_normalize c"
  by (simp add: cu_peek_def Let_def)

section \<open>Positions\<close>

definition point_before :: "source_point \<Rightarrow> source_point \<Rightarrow> bool" where
  "point_before p q \<longleftrightarrow>
     sp_file_index p < sp_file_index q
     \<or> (sp_file_index p = sp_file_index q \<and> sp_offset p < sp_offset q)"

lemma point_before_trans: "point_before p q \<Longrightarrow> point_before q r \<Longrightarrow> point_before p r"
  by (auto simp: point_before_def)

lemma cu_point_snd [simp]: "snd (cu_point c) = cu_normalize c"
  by (simp add: cu_point_def Let_def)

lemma cu_point_normalize [simp]: "fst (cu_point (cu_normalize c)) = fst (cu_point c)"
  by (simp add: cu_point_def Let_def)

lemma cu_point_file:
  "cu_files c \<noteq> [] \<Longrightarrow> sp_file_index (fst (cu_point c)) = int (cu_file (cu_normalize c))"
  by (auto simp: cu_point_def Let_def eof_point_def mk_point_def at_end_def)

lemma cu_point_inside:
  assumes "cu_files c \<noteq> []" and "cu_file c < length (cu_files c)" and "\<not> cu_boundary c"
    and "cu_offset c < length (sf_text (cu_files c ! cu_file c))"
  shows "fst (cu_point c) = mk_point (int (cu_file c)) (int (cu_offset c))"
proof -
  have "cu_normalize c = c"
    by (rule cu_normal_fixed) (use assms in \<open>simp add: cu_normal_def\<close>)
  moreover have "\<not> at_end c" using assms by (auto simp: at_end_def)
  ultimately show ?thesis using assms by (simp add: cu_point_def Let_def)
qed

text \<open>Stepping over the last character of a file still moves the reported point forward.\<close>

lemma cu_point_step:
  assumes "cu_files c \<noteq> []" and "cu_file c < length (cu_files c)" and "\<not> cu_boundary c"
    and "cu_offset c < length (sf_text (cu_files c ! cu_file c))"
  shows "point_before (mk_point (int (cu_file c)) (int (cu_offset c)))
           (fst (cu_point (c\<lparr>cu_offset := cu_offset c + 1\<rparr>)))"
proof -
  let ?e = "c\<lparr>cu_offset := cu_offset c + 1\<rparr>"
  let ?text = "sf_text (cu_files c ! cu_file c)"
  show ?thesis
  proof (cases "cu_offset c + 1 < length ?text")
    case True
    with assms cu_point_inside [of ?e] show ?thesis
      by (simp add: point_before_def mk_point_def)
  next
    case False
    with assms have len: "length ?text = cu_offset c + 1" by simp
    consider (last) "cu_file c + 1 = length (cu_files c)"
      | (newline) "cu_file c + 1 < length (cu_files c)" "ends_with_newline ?text"
      | (gap) "cu_file c + 1 < length (cu_files c)" "\<not> ends_with_newline ?text"
      using assms by linarith
    then show ?thesis
    proof cases
      case last
      then have n: "cu_normalize ?e = ?e"
        by (intro cu_normal_fixed) (simp add: cu_normal_def)
      have i: "length (cu_files c) - 1 = cu_file c" using last by simp
      have "fst (cu_point ?e) = mk_point (int (cu_file c)) (int (cu_offset c + 1))"
        using assms len n i by (simp add: cu_point_def Let_def at_end_def eof_point_def)
      then show ?thesis by (simp add: point_before_def mk_point_def)
    next
      case newline
      then have "cu_normalize ?e = cu_normalize (?e\<lparr>cu_file := cu_file c + 1, cu_offset := 0\<rparr>)"
        using assms len by (subst cu_normalize.simps) (simp add: Let_def)
      then have "cu_file c + 1 \<le> cu_file (cu_normalize ?e)"
        using cu_normalize_file [of "?e\<lparr>cu_file := cu_file c + 1, cu_offset := 0\<rparr>"] by simp
      then show ?thesis
        using assms cu_point_file [of ?e] by (simp add: point_before_def mk_point_def)
    next
      case gap
      then have "cu_normalize ?e = ?e\<lparr>cu_boundary := True\<rparr>"
        using assms len by (subst cu_normalize.simps) (simp add: Let_def)
      then have "fst (cu_point ?e) = mk_point (int (cu_file c)) (int (cu_offset c + 1))"
        using assms len by (simp add: cu_point_def Let_def)
      then show ?thesis by (simp add: point_before_def mk_point_def)
    qed
  qed
qed

lemma cu_point_advance_normal:
  assumes "cu_normal c" and "cu_char c = Some ch"
  shows "point_before (fst (cu_point c))
    (fst (cu_point (if cu_boundary c
      then c\<lparr>cu_file := cu_file c + 1, cu_offset := 0, cu_boundary := False\<rparr>
      else c\<lparr>cu_offset := cu_offset c + 1\<rparr>)))"
proof (cases "cu_boundary c")
  case True
  let ?e = "c\<lparr>cu_file := cu_file c + 1, cu_offset := 0, cu_boundary := False\<rparr>"
  have files: "cu_files c \<noteq> []" using assms(2) by (auto simp: cu_char_def at_end_def)
  have "cu_file c + 1 \<le> cu_file (cu_normalize ?e)"
    using cu_normalize_file [of ?e] by simp
  then show ?thesis
    using True files cu_point_file [of ?e] cu_point_file [of c] cu_normal_fixed [OF assms(1)]
    by (simp add: point_before_def)
next
  case False
  with assms have "cu_file c < length (cu_files c)" "cu_files c \<noteq> []"
    "cu_offset c < length (sf_text (cu_files c ! cu_file c))"
    by (auto simp: cu_char_def at_end_def split: if_splits option.splits)
  with False show ?thesis
    using cu_point_step [of c] cu_point_inside [of c] by simp
qed

lemma cu_advance_snd:
  "snd (cu_advance c) =
     (let d = cu_normalize c in
      case cu_char d of
        None \<Rightarrow> d
      | Some ch \<Rightarrow> if cu_boundary d
          then d\<lparr>cu_file := cu_file d + 1, cu_offset := 0, cu_boundary := False\<rparr>
          else d\<lparr>cu_offset := cu_offset d + 1\<rparr>)"
  by (auto simp: cu_advance_def Let_def split: option.split)

lemma cu_point_advance:
  assumes "cu_view c \<noteq> []"
  shows "point_before (fst (cu_point c)) (fst (cu_point (snd (cu_advance c))))"
proof -
  have "cu_char (cu_normalize c) = Some (cu_view c ! 0)"
    using assms cu_char_view [OF cu_normalize_normal, of c] by (simp add: nth_opt_lt)
  from cu_point_advance_normal [OF cu_normalize_normal this] this show ?thesis
    by (simp add: cu_advance_snd Let_def)
qed

lemma cu_point_stuck:
  assumes "cu_view c = []"
  shows "fst (cu_point (snd (cu_advance c))) = fst (cu_point c)"
proof -
  have "cu_char (cu_normalize c) = None"
    using assms cu_char_view [OF cu_normalize_normal, of c] by simp
  then show ?thesis by (simp add: cu_advance_snd Let_def)
qed

interpretation cur: positioned_stream cu_peek cu_advance cu_view cu_point point_before
proof unfold_locales
  fix k c
  show "fst (cu_peek k c) = nth_opt (cu_view c) k" by (rule cu_peek_fst)
  show "cu_view (snd (cu_peek k c)) = cu_view c" by (simp add: cu_peek_snd)
  show "fst (cu_advance c) = nth_opt (cu_view c) 0" by (rule cu_advance_fst)
  show "cu_view (snd (cu_advance c)) = drop 1 (cu_view c)" by (rule cu_advance_view)
  show "cu_view (snd (cu_point c)) = cu_view c" by simp
  show "fst (cu_point (snd (cu_point c))) = fst (cu_point c)" by simp
  show "fst (cu_point (snd (cu_peek k c))) = fst (cu_point c)" by (simp add: cu_peek_snd)
  show "cu_view c \<noteq> [] \<Longrightarrow> point_before (fst (cu_point c)) (fst (cu_point (snd (cu_advance c))))"
    by (rule cu_point_advance)
  show "cu_view c = [] \<Longrightarrow> fst (cu_point (snd (cu_advance c))) = fst (cu_point c)"
    by (rule cu_point_stuck)
next
  fix p q r
  show "point_before p q \<Longrightarrow> point_before q r \<Longrightarrow> point_before p r"
    by (rule point_before_trans)
qed

lemma cu_source_advance [simp]: "cu_source (snd (cu_advance c)) = cu_source c"
  by (simp add: cu_advance_snd Let_def split: option.split)

lemma cu_source_peek [simp]: "cu_source (snd (cu_peek k c)) = cu_source c"
  by (simp add: cu_peek_snd)

lemmas cursor_views [view_simps] =
  cur.peek_view cur.advance_view cur.point_view cur.peek_char cur.advance_char

end
