(* ===== verification/Source_Props.thy ===== *)
theory Source_Props
  imports Source_Lemmas
begin

text \<open>
  The correctness statements of \<^verbatim>\<open>source.py\<close>: the cursor reads exactly the logical text and
  never indexes outside the files, and an offset resolves to the line and column that hold it.
\<close>

section \<open>Line starts\<close>

lemma line_starts_from_append:
  "line_starts_from i (a @ b) = line_starts_from i a @ line_starts_from (i + length a) b"
  by (induction a arbitrary: i) simp_all

lemma length_line_starts_from: "length (line_starts_from i a) = count_list a newline"
  by (induction a arbitrary: i) simp_all

lemma line_starts_from_bounds: "y \<in> set (line_starts_from i a) \<Longrightarrow> i < y \<and> y \<le> i + length a"
  by (induction a arbitrary: i) (force split: if_splits)+

lemma last_line_start:
  "last (i # line_starts_from i a) = i + length a - length (takeWhile (\<lambda>c. c \<noteq> newline) (rev a))"
proof (induction a rule: rev_induct)
  case Nil
  then show ?case by simp
next
  case (snoc c a)
  have "length (takeWhile (\<lambda>c. c \<noteq> newline) (rev a)) \<le> length a"
    by (metis length_rev length_takeWhile_le)
  with snoc show ?case
    by (cases "c = newline") (auto simp: line_starts_from_append)
qed

lemma line_starts_from_none: "newline \<notin> set b \<Longrightarrow> line_starts_from n b = []"
  by (induction b arbitrary: n) auto

lemma line_starts_from_some:
  "newline \<in> set b \<Longrightarrow>
     \<exists>more. line_starts_from n b = (n + length (takeWhile (\<lambda>c. c \<noteq> newline) b) + 1) # more"
proof (induction b arbitrary: n)
  case Nil
  then show ?case by simp
next
  case (Cons c b)
  show ?case
  proof (cases "c = newline")
    case True
    then show ?thesis by simp
  next
    case False
    with Cons.prems have "newline \<in> set b" by auto
    from Cons.IH [OF this, of "n + 1"] False show ?thesis by auto
  qed
qed

lemma bisect_line_starts:
  "bisect_right (build_line_starts (a @ b)) (length a) = Suc (count_list a newline)"
proof -
  have "takeWhile (\<lambda>y. y \<le> length a) (line_starts_from 0 a @ line_starts_from (length a) b) =
      line_starts_from 0 a @ takeWhile (\<lambda>y. y \<le> length a) (line_starts_from (length a) b)"
    by (rule takeWhile_append2) (use line_starts_from_bounds [of _ 0 a] in auto)
  also have "takeWhile (\<lambda>y. y \<le> length a) (line_starts_from (length a) b) = []"
    using line_starts_from_bounds [of _ "length a" b]
    by (cases "line_starts_from (length a) b") force+
  finally show ?thesis
    by (simp add: bisect_right_def build_line_starts_def line_starts_from_append
        length_line_starts_from)
qed

lemma skip_back_newlines_le: "skip_back_newlines text n \<le> n"
  by (induction n) auto

lemma effective_offset_le: "effective_offset text offset \<le> length text"
  unfolding effective_offset_def Let_def
  using skip_back_newlines_le [of "text" "length text"] by auto

lemma rstrip_line:
  assumes "newline \<notin> set xs"
  shows "rstrip_newlines xs = xs" and "rstrip_newlines (xs @ [newline]) = xs"
  using assms by (cases xs rule: rev_cases, auto simp: rstrip_newlines_def)+

text \<open>The line that holds position \<open>length a\<close> of the text \<open>a @ b\<close>.\<close>

definition line_before :: "string \<Rightarrow> string" where
  "line_before a = rev (takeWhile (\<lambda>c. c \<noteq> newline) (rev a))"

definition line_after :: "string \<Rightarrow> string" where
  "line_after b = takeWhile (\<lambda>c. c \<noteq> newline) b"

lemma line_before_suffix: "\<exists>pre. a = pre @ line_before a"
  unfolding line_before_def
  by (metis rev_append rev_rev_ident takeWhile_dropWhile_id)

lemma newline_notin_takeWhile: "newline \<notin> set (takeWhile (\<lambda>c. c \<noteq> newline) xs)"
  by (auto dest: set_takeWhileD)

lemma newline_notin_line: "newline \<notin> set (line_before a @ line_after b)"
  using newline_notin_takeWhile [of "rev a"] newline_notin_takeWhile [of b]
  by (auto simp: line_before_def line_after_def)

definition line_start :: "string \<Rightarrow> nat" where
  "line_start a = length a - length (line_before a)"

lemma line_start_prefix:
  obtains pre where "a = pre @ line_before a" "line_start a = length pre"
proof -
  obtain pre where a: "a = pre @ line_before a" using line_before_suffix by blast
  have "line_start a = length pre"
    unfolding line_start_def by (subst (1) a) simp
  with a show thesis by (rule that)
qed

lemma line_starts_split:
  "build_line_starts (a @ b) = (0 # line_starts_from 0 a) @ line_starts_from (length a) b"
  by (simp add: build_line_starts_def line_starts_from_append)

lemma line_start_nth: "build_line_starts (a @ b) ! count_list a newline = line_start a"
proof -
  have "build_line_starts (a @ b) ! count_list a newline = (0 # line_starts_from 0 a) ! count_list a newline"
    unfolding line_starts_split by (rule nth_append_left) (simp add: length_line_starts_from)
  also have "\<dots> = last (0 # line_starts_from 0 a)"
    by (subst last_conv_nth) (simp_all add: length_line_starts_from)
  also have "\<dots> = line_start a"
    by (simp only: last_line_start) (simp add: line_start_def line_before_def)
  finally show ?thesis .
qed

lemma next_line_start:
  "(if count_list a newline + 1 < length (build_line_starts (a @ b))
    then build_line_starts (a @ b) ! (count_list a newline + 1) else length (a @ b))
   = length a + length (line_after b) + (if newline \<in> set b then 1 else 0)"
proof (cases "newline \<in> set b")
  case True
  obtain more where "line_starts_from (length a) b = (length a + length (line_after b) + 1) # more"
    using line_starts_from_some [OF True] unfolding line_after_def by blast
  then show ?thesis
    using True by (simp add: line_starts_split nth_append length_line_starts_from)
next
  case False
  then have "line_starts_from (length a) b = []" by (rule line_starts_from_none)
  moreover have "line_after b = b"
    using False by (auto simp: line_after_def takeWhile_eq_all_conv)
  ultimately show ?thesis using False by (simp add: line_starts_split length_line_starts_from)
qed

lemma line_text_slice:
  "rstrip_newlines (drop (line_start a) (take (length a + length (line_after b) +
     (if newline \<in> set b then 1 else 0)) (a @ b))) = line_before a @ line_after b"
proof -
  obtain pre where a: "a = pre @ line_before a" "line_start a = length pre" by (rule line_start_prefix)
  obtain post where b: "b = line_after b @ post"
      and post: "newline \<in> set b \<Longrightarrow> \<exists>more. post = newline # more"
  proof
    show "b = line_after b @ dropWhile (\<lambda>c. c \<noteq> newline) b"
      by (simp add: line_after_def)
    show "\<exists>more. dropWhile (\<lambda>c. c \<noteq> newline) b = newline # more" if "newline \<in> set b"
      using that by (induction b) auto
  qed
  have whole: "a @ b = pre @ line_before a @ line_after b @ post"
    using a(1) b by (metis append.assoc)
  have "length a = length pre + length (line_before a)"
    by (subst (1) a(1)) simp
  then have slice: "drop (line_start a) (take (length a + length (line_after b) + n) (a @ b)) =
      line_before a @ line_after b @ take n post" for n
    by (simp add: a(2) whole del: append_assoc)
  show ?thesis
    unfolding slice using post newline_notin_line [of a b]
    by (auto simp: rstrip_line simp flip: append_assoc)
qed

lemma sf_resolve_split:
  assumes "text = a @ b" and "effective_offset text offset = length a"
  shows "sf_resolve (source_file_create name text) offset =
    \<lparr>rl_source_name = name, rl_line = Suc (count_list a newline),
     rl_column = Suc (length (line_before a)), rl_line_text = line_before a @ line_after b\<rparr>"
proof -
  have idx: "bisect_right (build_line_starts text) (length a) - 1 = count_list a newline"
    using bisect_line_starts [of a b] assms(1) by simp
  have col: "length a - line_start a = length (line_before a)"
    using line_start_prefix [of a] by (metis add_diff_cancel_left' length_append)
  show ?thesis
    by (simp only: sf_resolve_def source_file_create_def Let_def source_file.select_convs
        assms(2) idx) (simp only: assms(1) line_start_nth next_line_start line_text_slice, simp add: col)
qed

section \<open>The cursor stays inside the files\<close>

text \<open>The invariant that excludes the \<open>IndexError\<close> of \<open>peek\<close> and \<open>point\<close>.\<close>

definition cu_ok :: "cursor \<Rightarrow> bool" where
  "cu_ok c \<longleftrightarrow>
     cu_files c = [] \<or>
     (cu_file c < length (cu_files c) \<and> (cu_boundary c \<longrightarrow> cu_file c + 1 < length (cu_files c)))"

lemma cu_ok_init: "cu_ok (cursor_init src)"
  by (cases "ps_files src") (auto simp: cu_ok_def cursor_init_def)

lemma cu_ok_normalize: "cu_ok c \<Longrightarrow> cu_ok (cu_normalize c)"
proof (induction c rule: cu_normalize.induct)
  case (1 c)
  then show ?case
    by (subst cu_normalize.simps) (auto simp: Let_def cu_ok_def)
qed

lemma cu_ok_peek: "cu_ok c \<Longrightarrow> cu_ok (snd (cu_peek k c))"
  by (simp add: cu_peek_snd cu_ok_normalize)

lemma cu_ok_advance:
  assumes "cu_ok c"
  shows "cu_ok (snd (cu_advance c))"
proof -
  have "cu_ok (cu_normalize c)" using assms by (rule cu_ok_normalize)
  then show ?thesis
    by (auto simp: cu_advance_snd Let_def cu_ok_def split: option.split)
qed

definition advance_n :: "nat \<Rightarrow> cursor \<Rightarrow> cursor" where
  "advance_n n = (\<lambda>c. snd (cu_advance c)) ^^ n"

lemma advance_n_view: "cu_view (advance_n n c) = drop n (cu_view c)"
  by (induction n arbitrary: c) (auto simp: advance_n_def cur.advance_view drop_drop)

lemma advance_n_ok: "cu_ok c \<Longrightarrow> cu_ok (advance_n n c)"
  by (induction n arbitrary: c) (auto simp: advance_n_def cu_ok_advance)

section \<open>Properties\<close>

text \<open>C7: the cursor presents the ordered files as one character stream.  After any number
  \<open>n\<close> of \<open>advance\<close> calls, \<open>peek(k)\<close> is the character at position \<open>n + k\<close> of the logical text
  (the files' texts, with one synthetic newline after each file but the last that does not end
  in one) or \<open>None\<close> past its end, and the cursor still indexes inside the files, so neither
  method can raise \<open>IndexError\<close>.\<close>

theorem cursor_reads_logical_text:
  "fst (cu_peek k (advance_n n (cursor_init src))) = nth_opt (logical_text (ps_files src)) (n + k)
   \<and> fst (cu_advance (advance_n n (cursor_init src))) = nth_opt (logical_text (ps_files src)) n
   \<and> cu_ok (advance_n n (cursor_init src))"
  by (simp add: cur.peek_char cur.advance_char advance_n_view cu_view_init nth_opt_drop
      advance_n_ok cu_ok_init)

text \<open>C10: \<open>resolve\<close> is correct for every offset, in range or not.  The offset is clamped into the
  text (and moved before trailing newlines at the end of the file); the line is one more than
  the number of newlines before it, the column one more than its distance from the last of
  them, and the line text is that line without its newline.\<close>

theorem resolve_correct:
  "let a = take (effective_offset text offset) text;
       b = drop (effective_offset text offset) text
   in sf_resolve (source_file_create name text) offset =
      \<lparr>rl_source_name = name, rl_line = Suc (count_list a newline),
       rl_column = Suc (length (line_before a)), rl_line_text = line_before a @ line_after b\<rparr>"
proof -
  let ?e = "effective_offset text offset"
  have "text = take ?e text @ drop ?e text" by simp
  moreover have "?e = length (take ?e text)" using effective_offset_le by simp
  ultimately show ?thesis
    unfolding Let_def by (rule sf_resolve_split)
qed

end
