(* ===== verification/Diagnostics.thy ===== *)
theory Diagnostics
  imports Source
begin

text \<open>
  \<^verbatim>\<open>src/quawk/diagnostics.py\<close>: the exceptions of the pipeline as values, and the rendering of a
  compiler error with its source line and caret.  Beside the three \<open>QuawkError\<close> classes the
  datatype has the built-in exceptions the modelled code raises or can run into on values of the
  annotated types; the \<open>RecursionError\<close> of Python's stack on deeply nested input and the
  \<open>MemoryError\<close> of a full heap are not among them.  \<open>OutOfFuel\<close>
  is the model's own, the value of a recursion cut off by its bound, and every function that
  mentions it is proved never to return it.
\<close>

datatype semantic_error_code =
    DUPLICATE_FUNCTION_DEFINITION
  | FUNCTION_PARAMETER_CONFLICT
  | DUPLICATE_PARAMETER_NAME
  | BREAK_OUTSIDE_LOOP
  | CONTINUE_OUTSIDE_LOOP
  | NEXT_OUTSIDE_RECORD_ACTION
  | NEXTFILE_OUTSIDE_RECORD_ACTION
  | ASSIGN_TO_FUNCTION_NAME
  | RETURN_OUTSIDE_FUNCTION
  | UNDEFINED_FUNCTION_CALL
  | INVALID_BUILTIN_CALL
  | INVALID_INCREMENT_TARGET
  | INVALID_FOR_IN_ITERABLE

fun code_text :: "semantic_error_code \<Rightarrow> string" where
  "code_text DUPLICATE_FUNCTION_DEFINITION = ''SEM001''"
| "code_text FUNCTION_PARAMETER_CONFLICT = ''SEM002''"
| "code_text DUPLICATE_PARAMETER_NAME = ''SEM003''"
| "code_text BREAK_OUTSIDE_LOOP = ''SEM004''"
| "code_text CONTINUE_OUTSIDE_LOOP = ''SEM005''"
| "code_text NEXT_OUTSIDE_RECORD_ACTION = ''SEM006''"
| "code_text NEXTFILE_OUTSIDE_RECORD_ACTION = ''SEM007''"
| "code_text ASSIGN_TO_FUNCTION_NAME = ''SEM008''"
| "code_text RETURN_OUTSIDE_FUNCTION = ''SEM009''"
| "code_text UNDEFINED_FUNCTION_CALL = ''SEM010''"
| "code_text INVALID_BUILTIN_CALL = ''SEM011''"
| "code_text INVALID_INCREMENT_TARGET = ''SEM012''"
| "code_text INVALID_FOR_IN_ITERABLE = ''SEM013''"

lemma code_text_inj: "code_text a = code_text b \<longleftrightarrow> a = b"
  by (cases a; cases b) simp_all

datatype exn =
    LexError string source_span
  | ParseError string source_span
  | SemanticError string source_span semantic_error_code
  | ValueError string
  | OverflowError string
  | RuntimeError string
  | AssertionError string
  | AttributeError string
  | IndexError
  | KeyError string
  | UnboundLocalError string
  | OutOfFuel

text \<open>The \<open>span\<close>, \<open>message\<close> and \<open>code\<close> of a \<open>QuawkError\<close>; \<^const>\<open>None\<close> for any other exception.\<close>

fun quawk_error :: "exn \<Rightarrow> (string \<times> source_span \<times> string option) option" where
  "quawk_error (LexError m sp) = Some (m, sp, None)"
| "quawk_error (ParseError m sp) = Some (m, sp, None)"
| "quawk_error (SemanticError m sp code) = Some (m, sp, Some (code_text code))"
| "quawk_error (ValueError m) = None"
| "quawk_error (OverflowError m) = None"
| "quawk_error (RuntimeError m) = None"
| "quawk_error (AssertionError m) = None"
| "quawk_error (AttributeError m) = None"
| "quawk_error IndexError = None"
| "quawk_error (KeyError m) = None"
| "quawk_error (UnboundLocalError m) = None"
| "quawk_error OutOfFuel = None"

definition format_error :: "string \<Rightarrow> source_span \<Rightarrow> string option \<Rightarrow> string" where
  "format_error message sp code =
     (let loc = start_location sp;
          caret_indent = replicate (rl_column loc - 1) CHR '' '';
          text = (case code of None \<Rightarrow> [] | Some c \<Rightarrow> ''['' @ c @ '']'')
      in format_start sp @ '': error'' @ text @ '': '' @ message @ [newline]
         @ rl_line_text loc @ [newline] @ caret_indent @ ''^'' @ [newline])"

text \<open>\<^const>\<open>combine_spans\<close> with its \<open>ValueError\<close> as an exception of the pipeline.\<close>

definition combineE :: "source_span \<Rightarrow> source_span \<Rightarrow> exn + source_span" where
  "combineE start stop =
     (case combine_spans start stop of Inl m \<Rightarrow> Inl (ValueError m) | Inr sp \<Rightarrow> Inr sp)"

lemma combineE_same [simp]:
  "ps_ref (ss_source start) = ps_ref (ss_source stop) \<Longrightarrow>
     combineE start stop = Inr (mk_span (ss_source start) (ss_start start) (ss_end stop))"
  by (simp add: combineE_def combine_spans_def)

end
