(* ===== verification/Tokens.thy ===== *)
theory Tokens
  imports Diagnostics
begin

text \<open>
  \<^verbatim>\<open>src/quawk/lexer.py\<close>, first half: the token kinds, the tables that give fixed tokens their
  text, and the rendering of a token list for \<open>quawk --lex\<close>.
\<close>

section \<open>Tokens\<close>

datatype (plugins only: size code) token_kind =
    TBegin | TBreak | TContinue | TDelete | TDo | TEnd | TElse | TExit | TFor | TFunction | TIf
  | TIn | TNext | TNextfile | TPrint | TPrintf | TReturn | TWhile
  | TIdent | TString | TNumber | TRegex
  | TLess | TLessEqual | TGreater | TGreaterEqual | TGreaterGreater | TEqualEqual | TNotEqual
  | TOrOr | TPipe | TAndAnd | TMatch | TNotMatch
  | TPlus | TMinus | TStar | TSlash | TPercent | TCaret | TBang
  | TEqual | TPlusEqual | TMinusEqual | TStarEqual | TSlashEqual | TPercentEqual | TCaretEqual
  | TPlusPlus | TMinusMinus | TDollar | TQuestion | TColon
  | TLbrace | TRbrace | TLparen | TRparen | TLbracket | TRbracket
  | TComma | TSemicolon | TNewline | TEof

primrec kind_name :: "token_kind \<Rightarrow> string" where
  "kind_name TBegin = ''BEGIN''" | "kind_name TBreak = ''BREAK''"
| "kind_name TContinue = ''CONTINUE''" | "kind_name TDelete = ''DELETE''"
| "kind_name TDo = ''DO''" | "kind_name TEnd = ''END''" | "kind_name TElse = ''ELSE''"
| "kind_name TExit = ''EXIT''" | "kind_name TFor = ''FOR''"
| "kind_name TFunction = ''FUNCTION''" | "kind_name TIf = ''IF''" | "kind_name TIn = ''IN''"
| "kind_name TNext = ''NEXT''" | "kind_name TNextfile = ''NEXTFILE''"
| "kind_name TPrint = ''PRINT''" | "kind_name TPrintf = ''PRINTF''"
| "kind_name TReturn = ''RETURN''" | "kind_name TWhile = ''WHILE''"
| "kind_name TIdent = ''IDENT''" | "kind_name TString = ''STRING''"
| "kind_name TNumber = ''NUMBER''" | "kind_name TRegex = ''REGEX''"
| "kind_name TLess = ''LESS''" | "kind_name TLessEqual = ''LESS_EQUAL''"
| "kind_name TGreater = ''GREATER''" | "kind_name TGreaterEqual = ''GREATER_EQUAL''"
| "kind_name TGreaterGreater = ''GREATER_GREATER''"
| "kind_name TEqualEqual = ''EQUAL_EQUAL''" | "kind_name TNotEqual = ''NOT_EQUAL''"
| "kind_name TOrOr = ''OR_OR''" | "kind_name TPipe = ''PIPE''"
| "kind_name TAndAnd = ''AND_AND''" | "kind_name TMatch = ''MATCH''"
| "kind_name TNotMatch = ''NOT_MATCH''" | "kind_name TPlus = ''PLUS''"
| "kind_name TMinus = ''MINUS''" | "kind_name TStar = ''STAR''"
| "kind_name TSlash = ''SLASH''" | "kind_name TPercent = ''PERCENT''"
| "kind_name TCaret = ''CARET''" | "kind_name TBang = ''BANG''"
| "kind_name TEqual = ''EQUAL''" | "kind_name TPlusEqual = ''PLUS_EQUAL''"
| "kind_name TMinusEqual = ''MINUS_EQUAL''" | "kind_name TStarEqual = ''STAR_EQUAL''"
| "kind_name TSlashEqual = ''SLASH_EQUAL''" | "kind_name TPercentEqual = ''PERCENT_EQUAL''"
| "kind_name TCaretEqual = ''CARET_EQUAL''" | "kind_name TPlusPlus = ''PLUS_PLUS''"
| "kind_name TMinusMinus = ''MINUS_MINUS''" | "kind_name TDollar = ''DOLLAR''"
| "kind_name TQuestion = ''QUESTION''" | "kind_name TColon = ''COLON''"
| "kind_name TLbrace = ''LBRACE''" | "kind_name TRbrace = ''RBRACE''"
| "kind_name TLparen = ''LPAREN''" | "kind_name TRparen = ''RPAREN''"
| "kind_name TLbracket = ''LBRACKET''" | "kind_name TRbracket = ''RBRACKET''"
| "kind_name TComma = ''COMMA''" | "kind_name TSemicolon = ''SEMICOLON''"
| "kind_name TNewline = ''NEWLINE''" | "kind_name TEof = ''EOF''"

definition KEYWORDS :: "(string \<times> token_kind) list" where
  "KEYWORDS =
     [(''BEGIN'', TBegin), (''break'', TBreak), (''continue'', TContinue), (''delete'', TDelete),
      (''do'', TDo), (''END'', TEnd), (''else'', TElse), (''exit'', TExit), (''for'', TFor),
      (''function'', TFunction), (''if'', TIf), (''in'', TIn), (''next'', TNext),
      (''nextfile'', TNextfile), (''print'', TPrint), (''printf'', TPrintf),
      (''return'', TReturn), (''while'', TWhile)]"

definition OPERATOR_TEXT :: "(token_kind \<times> string) list" where
  "OPERATOR_TEXT =
     [(TLess, ''<''), (TLessEqual, ''<=''), (TGreater, ''>''), (TGreaterEqual, ''>=''),
      (TGreaterGreater, ''>>''), (TEqualEqual, ''==''), (TNotEqual, ''!=''), (TOrOr, ''||''),
      (TPipe, ''|''), (TAndAnd, ''&&''), (TMatch, ''~''), (TNotMatch, ''!~''), (TPlus, ''+''),
      (TMinus, ''-''), (TStar, ''*''), (TSlash, ''/''), (TPercent, ''%''), (TCaret, ''^''),
      (TBang, ''!''), (TEqual, ''=''), (TPlusEqual, ''+=''), (TMinusEqual, ''-=''),
      (TStarEqual, ''*=''), (TSlashEqual, ''/=''), (TPercentEqual, ''%=''),
      (TCaretEqual, ''^=''), (TPlusPlus, ''++''), (TMinusMinus, ''--''), (TDollar, ''$''),
      (TQuestion, ''?''), (TColon, '':''), (TLbrace, ''{''), (TRbrace, ''}''), (TLparen, ''(''),
      (TRparen, '')''), (TLbracket, ''[''), (TRbracket, '']''), (TComma, '',''),
      (TSemicolon, '';''), (TNewline, [newline])]"

definition FIXED_TOKEN_TEXT :: "(token_kind \<times> string) list" where
  "FIXED_TOKEN_TEXT = map (\<lambda>(text, kind). (kind, text)) KEYWORDS @ OPERATOR_TEXT"

definition PUNCTUATION_KINDS :: "(char \<times> token_kind) list" where
  "PUNCTUATION_KINDS =
     [(CHR ''<'', TLess), (CHR ''>'', TGreater), (CHR ''|'', TPipe), (CHR ''+'', TPlus),
      (CHR ''-'', TMinus), (CHR ''*'', TStar), (CHR ''%'', TPercent), (CHR ''^'', TCaret),
      (CHR ''!'', TBang), (CHR ''~'', TMatch), (CHR ''$'', TDollar), (CHR ''='', TEqual),
      (CHR ''?'', TQuestion), (CHR '':'', TColon), (CHR ''{'', TLbrace), (CHR ''}'', TRbrace),
      (CHR ''('', TLparen), (CHR '')'', TRparen), (CHR ''['', TLbracket),
      (CHR '']'', TRbracket), (CHR '','', TComma), (CHR '';'', TSemicolon)]"

definition MULTI_CHAR_TOKEN_KINDS :: "(string \<times> token_kind) list" where
  "MULTI_CHAR_TOKEN_KINDS =
     [(''<='', TLessEqual), (''>='', TGreaterEqual), (''>>'', TGreaterGreater),
      (''=='', TEqualEqual), (''!='', TNotEqual), (''||'', TOrOr), (''&&'', TAndAnd),
      (''!~'', TNotMatch), (''+='', TPlusEqual), (''-='', TMinusEqual), (''*='', TStarEqual),
      (''/='', TSlashEqual), (''%='', TPercentEqual), (''^='', TCaretEqual),
      (''++'', TPlusPlus), (''--'', TMinusMinus)]"

record token =
  tk_kind :: token_kind
  tk_span :: source_span
  tk_text :: "string option"

definition mk_token :: "token_kind \<Rightarrow> source_span \<Rightarrow> string option \<Rightarrow> token" where
  "mk_token kind sp text = \<lparr>tk_kind = kind, tk_span = sp, tk_text = text\<rparr>"

definition display_text :: "token \<Rightarrow> string option" where
  "display_text t =
     (case tk_text t of Some s \<Rightarrow> Some s | None \<Rightarrow> map_of FIXED_TOKEN_TEXT (tk_kind t))"

definition format_token :: "token \<Rightarrow> string" where
  "format_token t =
     (case display_text t of
        None \<Rightarrow> kind_name (tk_kind t) @ '' span='' @ format_start (tk_span t)
      | Some s \<Rightarrow> kind_name (tk_kind t) @ '' text='' @ py_repr s @ '' span=''
                  @ format_start (tk_span t))"

definition format_tokens :: "token list \<Rightarrow> string" where
  "format_tokens tokens = join_with [newline] (map format_token tokens) @ [newline]"

end
