(* ===== verification/Lex_Spec.thy ===== *)
theory Lex_Spec
  imports Tokens
begin

text \<open>
  The lexical grammar of quawk as a function of the program text alone: what one step of the
  scanner reads from a text, independently of files, cursors and spans.  A step yields a token
  (its kind and its text) or ignored trivia, the characters it consumed and the text that is
  left; or the message of the lexical error.  The theory \<open>Lexer_Refine\<close> shows that the scanner of
  \<^verbatim>\<open>lexer.py\<close> implements this function on the logical text of the source files.
\<close>

type_synonym abs_token = "token_kind \<times> string option"

type_synonym lex_step = "abs_token option \<times> string \<times> string"

definition is_horizontal_space :: "char \<Rightarrow> bool" where
  "is_horizontal_space ch \<longleftrightarrow> ch \<in> set [CHR '' '', CHR 0x09, CHR 0x0D, CHR 0x0C, CHR 0x0B]"

definition OPERAND_NEXT_KINDS :: "token_kind list" where
  "OPERAND_NEXT_KINDS =
     [TAndAnd, TBang, TCaret, TColon, TComma, TDollar, TDo, TElse, TEqual, TEqualEqual, TExit,
      TGreater, TGreaterEqual, TIf, TIn, TLbrace, TLbracket, TLess, TLessEqual, TLparen, TMatch,
      TMinus, TNewline, TNotEqual, TNotMatch, TOrOr, TPercent, TPlus, TPlusEqual, TMinusEqual,
      TStarEqual, TSlashEqual, TPercentEqual, TCaretEqual, TPrint, TPrintf, TQuestion, TReturn,
      TSemicolon, TSlash, TStar]"

definition next_expect_operand :: "bool \<Rightarrow> token_kind \<Rightarrow> bool" where
  "next_expect_operand was kind =
     (if kind \<in> set [TPlusPlus, TMinusMinus] then was else kind \<in> set OPERAND_NEXT_KINDS)"

text \<open>The characters up to a closing delimiter and the text after it.\<close>

fun string_body :: "bool \<Rightarrow> string \<Rightarrow> (string \<times> string) option" where
  "string_body escaped [] = None"
| "string_body escaped (c # cs) =
     (if c = newline \<and> \<not> escaped then None
      else if \<not> escaped \<and> c = dquote then Some ([c], cs)
      else map_option (\<lambda>(chars, rest). (c # chars, rest))
             (string_body (\<not> escaped \<and> c = backslash) cs))"

fun regex_body :: "bool \<Rightarrow> bool \<Rightarrow> string \<Rightarrow> (string \<times> string) option" where
  "regex_body escaped cls [] = None"
| "regex_body escaped cls (c # cs) =
     (if c = newline \<and> \<not> escaped then None
      else if \<not> escaped \<and> c = CHR ''/'' \<and> \<not> cls then Some ([c], cs)
      else map_option (\<lambda>(chars, rest). (c # chars, rest))
             (regex_body (\<not> escaped \<and> c = backslash)
                (if escaped then cls
                 else if c = CHR ''['' then True
                 else if c = CHR '']'' then False else cls) cs))"

definition number_body :: "string \<Rightarrow> string \<times> string" where
  "number_body cs =
     (let ds = takeWhile is_digit cs; rest = dropWhile is_digit cs
      in if nth_opt rest 0 = Some CHR ''.''
         then (ds @ take 1 rest @ takeWhile is_digit (drop 1 rest), dropWhile is_digit (drop 1 rest))
         else (ds, rest))"

definition two_chars :: "string \<Rightarrow> token_kind option" where
  "two_chars cs =
     (case cs of a # b # _ \<Rightarrow> map_of MULTI_CHAR_TOKEN_KINDS [a, b] | _ \<Rightarrow> None)"

definition is_word_char :: "char \<Rightarrow> bool" where
  "is_word_char ch \<longleftrightarrow> is_alnum ch \<or> ch = CHR ''_''"

definition word_token :: "string \<Rightarrow> abs_token" where
  "word_token w =
     (case map_of KEYWORDS w of
        None \<Rightarrow> (TIdent, Some w)
      | Some k \<Rightarrow> (k, if k = TIdent then Some w else None))"

definition fixed_step :: "token_kind \<Rightarrow> nat \<Rightarrow> string \<Rightarrow> string + lex_step" where
  "fixed_step kind n s = Inr (Some (kind, None), take n s, drop n s)"

definition trivia_step :: "(char \<Rightarrow> bool) \<Rightarrow> string \<Rightarrow> string + lex_step" where
  "trivia_step p s = Inr (None, takeWhile p s, dropWhile p s)"

definition slash_step :: "bool \<Rightarrow> string \<Rightarrow> string + lex_step" where
  "slash_step expect s =
     (if \<not> expect then
        if nth_opt s 1 = Some CHR ''='' then fixed_step TSlashEqual 2 s else fixed_step TSlash 1 s
      else case regex_body False False (drop 1 s) of
             None \<Rightarrow> Inl ''unterminated regex literal''
           | Some (chars, rest) \<Rightarrow>
               Inr (Some (TRegex, Some (take 1 s @ chars)), take 1 s @ chars, rest))"

definition operand_step :: "char \<Rightarrow> string \<Rightarrow> string + lex_step" where
  "operand_step ch s =
     (if ch = dquote then
        case string_body False (drop 1 s) of
          None \<Rightarrow> Inl ''unterminated string literal''
        | Some (chars, rest) \<Rightarrow>
            Inr (Some (TString, Some (take 1 s @ chars)), take 1 s @ chars, rest)
      else if is_alpha ch \<or> ch = CHR ''_'' then
        let w = takeWhile is_word_char s in Inr (Some (word_token w), w, dropWhile is_word_char s)
      else if is_digit ch then
        let (w, rest) = number_body s in Inr (Some (TNumber, Some w), w, rest)
      else Inl (''unexpected character: '' @ py_repr [ch]))"

definition plain_step :: "char \<Rightarrow> string \<Rightarrow> string + lex_step" where
  "plain_step ch s =
     (case two_chars s of
        Some kind \<Rightarrow> fixed_step kind 2 s
      | None \<Rightarrow>
          (case map_of PUNCTUATION_KINDS ch of
             Some kind \<Rightarrow> fixed_step kind 1 s
           | None \<Rightarrow> operand_step ch s))"

definition lex_step :: "bool \<Rightarrow> char \<Rightarrow> string \<Rightarrow> string + lex_step" where
  "lex_step expect ch cs =
     (if is_horizontal_space ch then trivia_step is_horizontal_space (ch # cs)
      else if ch = backslash \<and> nth_opt cs 0 = Some newline then
        Inr (None, take 2 (ch # cs), drop 2 (ch # cs))
      else if ch = newline then fixed_step TNewline 1 (ch # cs)
      else if ch = CHR ''#'' then trivia_step (\<lambda>c. c \<noteq> newline) (ch # cs)
      else if ch = CHR ''/'' then slash_step expect (ch # cs)
      else plain_step ch (ch # cs))"

section \<open>A step consumes a non-empty prefix\<close>

definition splits :: "string \<Rightarrow> lex_step \<Rightarrow> bool" where
  "splits s r = (case r of (_, w, rest) \<Rightarrow> w @ rest = s \<and> w \<noteq> [])"

lemma string_body_split: "string_body e cs = Some (w, rest) \<Longrightarrow> w @ rest = cs"
  by (induction e cs arbitrary: w rule: string_body.induct) (auto split: if_splits)

lemma regex_body_split: "regex_body e k cs = Some (w, rest) \<Longrightarrow> w @ rest = cs"
  by (induction e k cs arbitrary: w rule: regex_body.induct) (auto split: if_splits)

lemma number_body_split: "fst (number_body cs) @ snd (number_body cs) = cs"
proof -
  have "take 1 xs @ takeWhile p (drop 1 xs) @ dropWhile p (drop 1 xs) = xs" for p and xs :: string
    by (simp del: One_nat_def)
  then show ?thesis by (simp add: number_body_def Let_def del: One_nat_def)
qed

lemma number_body_nonempty: "is_digit ch \<Longrightarrow> fst (number_body (ch # cs)) \<noteq> []"
  by (simp add: number_body_def Let_def)

lemma two_chars_Some: "two_chars s = Some k \<Longrightarrow> 2 \<le> length s"
  by (auto simp: two_chars_def split: list.splits)

lemma is_word_char_start: "is_alpha ch \<or> ch = CHR ''_'' \<Longrightarrow> is_word_char ch"
  by (auto simp: is_word_char_def is_alnum_def)

lemma fixed_step_splits: "fixed_step k n s = Inr r \<Longrightarrow> 0 < n \<Longrightarrow> s \<noteq> [] \<Longrightarrow> splits s r"
  by (auto simp: fixed_step_def splits_def)

lemma trivia_step_splits: "trivia_step p (ch # cs) = Inr r \<Longrightarrow> p ch \<Longrightarrow> splits (ch # cs) r"
  by (auto simp: trivia_step_def splits_def)

lemma slash_step_splits: "slash_step e (ch # cs) = Inr r \<Longrightarrow> splits (ch # cs) r"
  by (auto simp: slash_step_def splits_def fixed_step_def dest: regex_body_split
      split: if_splits option.splits)

lemma operand_step_splits: "operand_step ch (ch # cs) = Inr r \<Longrightarrow> splits (ch # cs) r"
  using number_body_split [of "ch # cs"] number_body_nonempty [of ch cs]
  by (auto simp: operand_step_def splits_def Let_def is_word_char_start
      dest: string_body_split split: if_splits option.splits prod.splits)

lemma plain_step_splits: "plain_step ch (ch # cs) = Inr r \<Longrightarrow> splits (ch # cs) r"
  by (auto simp: plain_step_def intro: fixed_step_splits operand_step_splits split: option.splits)

lemma lex_step_splits: "lex_step expect ch cs = Inr r \<Longrightarrow> splits (ch # cs) r"
  unfolding lex_step_def
  by (simp split: if_split_asm add: slash_step_splits plain_step_splits trivia_step_splits
      fixed_step_splits) (auto simp: splits_def intro: trivia_step_splits)

lemma lex_step_shorter:
  "lex_step expect ch cs = Inr (t, w, rest) \<Longrightarrow> length rest < Suc (length cs)"
  by (drule lex_step_splits, cases w) (auto simp: splits_def)

text \<open>The whole text: its tokens up to the final \<^const>\<open>TEof\<close>.\<close>

function lex_text :: "bool \<Rightarrow> string \<Rightarrow> string + abs_token list" where
  "lex_text expect [] = Inr [(TEof, None)]"
| "lex_text expect (ch # cs) =
     (case lex_step expect ch cs of
        Inl msg \<Rightarrow> Inl msg
      | Inr (None, _, rest) \<Rightarrow> lex_text expect rest
      | Inr (Some t, _, rest) \<Rightarrow>
          bindE (lex_text (next_expect_operand expect (fst t)) rest) (\<lambda>ts. Inr (t # ts)))"
  by pat_completeness auto
termination
  by (relation "measure (\<lambda>(e, cs). length cs)") (auto dest: lex_step_shorter)

declare lex_text.simps [simp del]

end
