(* ===== verification/Lexer.thy ===== *)
theory Lexer
  imports Source_Lemmas Lex_Spec
begin

text \<open>
  \<^verbatim>\<open>src/quawk/lexer.py\<close>: the scanner.  Its state is the source,
  its cursor and the flag \<open>expect_operand\<close> that decides whether a slash opens a regular
  expression.  Each \<open>while\<close> loop over the cursor is a recursive function; all of them terminate
  because every iteration reads a character of the finite logical text (the laws of the locale
  \<open>positioned_stream\<close>).
\<close>

section \<open>The scanner\<close>

record lexer =
  lx_source :: program_source
  lx_cursor :: cursor
  lx_expect_operand :: bool

definition lexer_init :: "program_source \<Rightarrow> lexer" where
  "lexer_init src =
     \<lparr>lx_source = src, lx_cursor = cursor_init src, lx_expect_operand = True\<rparr>"

abbreviation set_cursor :: "cursor \<Rightarrow> lexer \<Rightarrow> lexer" where
  "set_cursor c lx \<equiv> lx\<lparr>lx_cursor := c\<rparr>"

text \<open>\<open>take_while\<close>; the predicate is a Python callable, so it may carry a state of its own (that of
  \<open>scan_number\<close> does).\<close>

function take_while_c :: "('s \<Rightarrow> char \<Rightarrow> bool \<times> 's) \<Rightarrow> 's \<Rightarrow> cursor \<Rightarrow> string \<times> cursor" where
  "take_while_c pred s c =
     (case cu_peek 0 c of
        (None, c') \<Rightarrow> ([], c')
      | (Some ch, c') \<Rightarrow>
          (case pred s ch of
             (False, _) \<Rightarrow> ([], c')
           | (True, s') \<Rightarrow>
               (let (chars, c'') = take_while_c pred s' (snd (cu_advance c'))
                in (ch # chars, c''))))"
  by pat_completeness auto
termination
  by (relation "measure (\<lambda>(p, s, c). length (cu_view c))") (auto dest: cur.peek_advance_less [OF sym])

declare take_while_c.simps [simp del]

definition take_while_plain :: "(char \<Rightarrow> bool) \<Rightarrow> cursor \<Rightarrow> string \<times> cursor" where
  "take_while_plain p = take_while_c (\<lambda>_ ch. (p ch, ())) ()"

definition skip_horizontal_whitespace :: "cursor \<Rightarrow> cursor" where
  "skip_horizontal_whitespace c =
     snd (take_while_plain is_horizontal_space c)"

definition skip_comment :: "cursor \<Rightarrow> cursor" where
  "skip_comment c = snd (take_while_plain (\<lambda>ch. ch \<noteq> newline) c)"

text \<open>\<open>finish_token\<close> updates the scanner's context; every caller has just read \<open>cursor.point()\<close> as
  the end of the token's span, which \<open>emit\<close> does for all of them.\<close>

definition finish_token :: "token \<Rightarrow> lexer \<Rightarrow> token \<times> lexer" where
  "finish_token t lx =
     (t, lx\<lparr>lx_expect_operand := next_expect_operand (lx_expect_operand lx) (tk_kind t)\<rparr>)"

definition emit :: "token_kind \<Rightarrow> source_point \<Rightarrow> string option \<Rightarrow> lexer \<Rightarrow> token \<times> lexer" where
  "emit kind start text lx =
     (let (stop, c) = cu_point (lx_cursor lx)
      in finish_token (mk_token kind (mk_span (lx_source lx) start stop) text) (set_cursor c lx))"

definition advance_lx :: "lexer \<Rightarrow> lexer" where
  "advance_lx lx = set_cursor (snd (cu_advance (lx_cursor lx))) lx"

definition scan_multi_char_operator :: "source_point \<Rightarrow> lexer \<Rightarrow> (token option) \<times> lexer" where
  "scan_multi_char_operator start lx =
     (let (first, c) = cu_peek 0 (lx_cursor lx);
          (second, c) = cu_peek 1 c;
          lx = set_cursor c lx
      in case (first, second) of
           (Some a, Some b) \<Rightarrow>
             (case map_of MULTI_CHAR_TOKEN_KINDS [a, b] of
                None \<Rightarrow> (None, lx)
              | Some kind \<Rightarrow>
                  (let (t, lx) = emit kind start None (advance_lx (advance_lx lx))
                   in (Some t, lx)))
         | _ \<Rightarrow> (None, lx))"

definition scan_identifier_or_keyword :: "source_point \<Rightarrow> lexer \<Rightarrow> token \<times> lexer" where
  "scan_identifier_or_keyword start lx =
     (let (text, c) = take_while_plain (\<lambda>ch. is_alnum ch \<or> ch = CHR ''_'') (lx_cursor lx);
          kind = (case map_of KEYWORDS text of None \<Rightarrow> TIdent | Some k \<Rightarrow> k);
          token_text = (if kind = TIdent then Some text else None)
      in emit kind start token_text (set_cursor c lx))"

text \<open>The loop of \<open>scan_string_literal\<close>: the characters read, and whether the closing quote was
  reached (\<open>False\<close>: an unescaped newline or the end of the program).\<close>

function string_loop :: "bool \<Rightarrow> cursor \<Rightarrow> string \<times> bool \<times> cursor" where
  "string_loop escaped c =
     (case cu_peek 0 c of
        (None, c') \<Rightarrow> ([], False, c')
      | (Some ch, c') \<Rightarrow>
          if ch = newline \<and> \<not> escaped then ([], False, c')
          else
            let c'' = snd (cu_advance c') in
            if escaped then (let (chars, r) = string_loop False c'' in (ch # chars, r))
            else if ch = backslash then (let (chars, r) = string_loop True c'' in (ch # chars, r))
            else if ch = dquote then ([ch], True, c'')
            else (let (chars, r) = string_loop False c'' in (ch # chars, r)))"
  by pat_completeness auto
termination
  by (relation "measure (\<lambda>(e, c). length (cu_view c))") (auto dest: cur.peek_advance_less [OF sym])

declare string_loop.simps [simp del]

definition lex_error :: "string \<Rightarrow> source_point \<Rightarrow> lexer \<Rightarrow> exn" where
  "lex_error message start lx =
     LexError message (mk_span (lx_source lx) start (fst (cu_point (lx_cursor lx))))"

definition scan_string_literal :: "source_point \<Rightarrow> lexer \<Rightarrow> exn + token \<times> lexer" where
  "scan_string_literal start lx =
     (let (first, c) = cu_advance (lx_cursor lx);
          (chars, closed, c) = string_loop False c;
          lx = set_cursor c lx;
          text = (case first of None \<Rightarrow> [] | Some ch \<Rightarrow> [ch]) @ chars
      in if closed then Inr (emit TString start (Some text) lx)
         else Inl (lex_error ''unterminated string literal'' start lx))"

definition number_continues :: "bool \<Rightarrow> char \<Rightarrow> bool \<times> bool" where
  "number_continues seen_decimal ch =
     (if is_digit ch then (True, seen_decimal)
      else if ch = CHR ''.'' \<and> \<not> seen_decimal then (True, True)
      else (False, seen_decimal))"

definition scan_number :: "source_point \<Rightarrow> lexer \<Rightarrow> token \<times> lexer" where
  "scan_number start lx =
     (let (text, c) = take_while_c number_continues False (lx_cursor lx)
      in emit TNumber start (Some text) (set_cursor c lx))"

function regex_loop :: "bool \<Rightarrow> bool \<Rightarrow> cursor \<Rightarrow> string \<times> bool \<times> cursor" where
  "regex_loop escaped in_char_class c =
     (case cu_peek 0 c of
        (None, c') \<Rightarrow> ([], False, c')
      | (Some ch, c') \<Rightarrow>
          if ch = newline \<and> \<not> escaped then ([], False, c')
          else
            let c'' = snd (cu_advance c') in
            if escaped then (let (chars, r) = regex_loop False in_char_class c'' in (ch # chars, r))
            else if ch = backslash
              then (let (chars, r) = regex_loop True in_char_class c'' in (ch # chars, r))
            else if ch = CHR ''['' \<and> \<not> in_char_class
              then (let (chars, r) = regex_loop False True c'' in (ch # chars, r))
            else if ch = CHR '']'' \<and> in_char_class
              then (let (chars, r) = regex_loop False False c'' in (ch # chars, r))
            else if ch = CHR ''/'' \<and> \<not> in_char_class then ([ch], True, c'')
            else (let (chars, r) = regex_loop False in_char_class c'' in (ch # chars, r)))"
  by pat_completeness auto
termination
  by (relation "measure (\<lambda>(e, k, c). length (cu_view c))") (auto dest: cur.peek_advance_less [OF sym])

declare regex_loop.simps [simp del]

definition scan_regex_literal :: "source_point \<Rightarrow> lexer \<Rightarrow> exn + token \<times> lexer" where
  "scan_regex_literal start lx =
     (let (first, c) = cu_advance (lx_cursor lx);
          (chars, closed, c) = regex_loop False False c;
          lx = set_cursor c lx;
          text = (case first of None \<Rightarrow> [] | Some ch \<Rightarrow> [ch]) @ chars
      in if closed then Inr (emit TRegex start (Some text) lx)
         else Inl (lex_error ''unterminated regex literal'' start lx))"

definition scan_slash_or_regex :: "source_point \<Rightarrow> lexer \<Rightarrow> exn + token \<times> lexer" where
  "scan_slash_or_regex start lx =
     (if \<not> lx_expect_operand lx then
        let (second, c) = cu_peek 1 (lx_cursor lx); lx = set_cursor c lx in
        if second = Some CHR ''='' then
          Inr (emit TSlashEqual start None (advance_lx (advance_lx lx)))
        else Inr (emit TSlash start None (advance_lx lx))
      else scan_regex_literal start lx)"

text \<open>\<open>scan_token\<close>: one token, or \<^const>\<open>None\<close> after ignored trivia.  Its last part, for a
  character that starts neither trivia nor a slash, is \<open>scan_plain_token\<close>.\<close>

definition scan_plain_token ::
    "source_point \<Rightarrow> char \<Rightarrow> lexer \<Rightarrow> exn + (token option) \<times> lexer" where
  "scan_plain_token start ch lx =
     (case scan_multi_char_operator start lx of
        (Some t, lx) \<Rightarrow> Inr (Some t, lx)
      | (None, lx) \<Rightarrow>
          (case map_of PUNCTUATION_KINDS ch of
             Some kind \<Rightarrow>
               (let (t, lx) = emit kind start None (advance_lx lx) in Inr (Some t, lx))
           | None \<Rightarrow>
               if ch = dquote then
                 bindE (scan_string_literal start lx) (\<lambda>(t, lx). Inr (Some t, lx))
               else if is_alpha ch \<or> ch = CHR ''_'' then
                 (let (t, lx) = scan_identifier_or_keyword start lx in Inr (Some t, lx))
               else if is_digit ch then
                 (let (t, lx) = scan_number start lx in Inr (Some t, lx))
               else
                 Inl (lex_error (''unexpected character: '' @ py_repr [ch]) start
                       (advance_lx lx))))"

definition scan_token :: "lexer \<Rightarrow> exn + (token option) \<times> lexer" where
  "scan_token lx =
     (case cu_peek 0 (lx_cursor lx) of
        (None, c) \<Rightarrow>
          (let (eof, c) = cu_point c
           in Inr (Some (mk_token TEof (mk_span (lx_source lx) eof eof) None), set_cursor c lx))
      | (Some ch, c) \<Rightarrow>
          if is_horizontal_space ch then
            Inr (None, set_cursor (skip_horizontal_whitespace c) lx)
          else
            let (second, c) = (if ch = backslash then cu_peek 1 c else (None, c));
                lx = set_cursor c lx in
            if ch = backslash \<and> second = Some newline then
              Inr (None, advance_lx (advance_lx lx))
            else
              let (start, c) = cu_point (lx_cursor lx); lx = set_cursor c lx in
              if ch = newline then
                (let (t, lx) = emit TNewline start None (advance_lx lx) in Inr (Some t, lx))
              else if ch = CHR ''#'' then
                Inr (None, set_cursor (skip_comment (lx_cursor lx)) lx)
              else if ch = CHR ''/'' then
                bindE (scan_slash_or_regex start lx) (\<lambda>(t, lx). Inr (Some t, lx))
              else scan_plain_token start ch lx)"

end
