(* ===== verification/Lexer_Refine.thy ===== *)
theory Lexer_Refine
  imports Lexer
begin

text \<open>
  The scanner of \<^verbatim>\<open>lexer.py\<close> implements the lexical grammar of \<open>Lex_Spec\<close>: on every cursor it
  reads exactly what the grammar reads from the logical text that is left, keeps the source, and
  never moves backwards.  From this follow the termination of \<open>scan_tokens\<close>, its functional
  correctness and the order of the spans it produces.
\<close>

section \<open>The loops over the cursor\<close>

abbreviation lx_view :: "lexer \<Rightarrow> string" where
  "lx_view lx \<equiv> cu_view (lx_cursor lx)"

text \<open>Where a piece of the scanner leaves the cursor: same source, not before where it started.\<close>

definition onward :: "cursor \<Rightarrow> cursor \<Rightarrow> bool" where
  "onward c c' \<longleftrightarrow> cu_source c' = cu_source c \<and> cur.reached c c'"

lemma onward_refl [simp]: "onward c c"
  by (simp add: onward_def cur.reached_refl)

lemma onward_trans: "onward c d \<Longrightarrow> onward d e \<Longrightarrow> onward c e"
  by (auto simp: onward_def intro: cur.reached_trans)

lemma onward_peek [simp]: "onward c (snd (cu_peek k c))"
  by (simp add: onward_def cur.reached_peek)

lemma onward_advance [simp]: "onward c (snd (cu_advance c))"
  by (simp add: onward_def cur.reached_advance)

lemma onward_point [simp]: "onward c (snd (cu_point c))"
  using cur.reached_point [of c] by (simp add: onward_def)

text \<open>One iteration of every loop: peek at the character that decides, then step over it.\<close>

definition stepped :: "cursor \<Rightarrow> cursor" where
  "stepped c = snd (cu_advance (snd (cu_peek 0 c)))"

lemma stepped_onward [simp]: "onward c (stepped c)"
  unfolding stepped_def by (rule onward_trans [OF onward_peek onward_advance])

lemma stepped_view [simp]: "cu_view (stepped c) = drop 1 (cu_view c)"
  by (simp add: stepped_def view_simps)

lemma onward_stepped: "onward (stepped c) d \<Longrightarrow> onward c d"
  by (rule onward_trans [OF stepped_onward])

lemma peek_Nil: "cu_view c = [] \<Longrightarrow> cu_peek 0 c = (None, snd (cu_peek 0 c))"
  using cur.peek_pair [of 0 c] by simp

lemma peek_Cons: "cu_view c = ch # cs \<Longrightarrow> cu_peek 0 c = (Some ch, snd (cu_peek 0 c))"
  using cur.peek_pair [of 0 c] by simp

subsection \<open>\<open>take_while\<close>\<close>

lemma take_while_Nil: "cu_view c = [] \<Longrightarrow> take_while_c p s c = ([], snd (cu_peek 0 c))"
  by (subst take_while_c.simps, subst peek_Nil) simp_all

lemma take_while_Cons:
  assumes "cu_view c = ch # cs"
  shows "take_while_c p s c =
       (if fst (p s ch)
        then (let (w, d) = take_while_c p (snd (p s ch)) (stepped c) in (ch # w, d))
        else ([], snd (cu_peek 0 c)))"
  by (subst take_while_c.simps, subst peek_Cons [OF assms])
    (auto simp: stepped_def split: prod.splits bool.splits)

fun take_while_l :: "('s \<Rightarrow> char \<Rightarrow> bool \<times> 's) \<Rightarrow> 's \<Rightarrow> string \<Rightarrow> string \<times> string" where
  "take_while_l p s [] = ([], [])"
| "take_while_l p s (ch # cs) =
     (if fst (p s ch) then (let (w, rest) = take_while_l p (snd (p s ch)) cs in (ch # w, rest))
      else ([], ch # cs))"

lemma take_while_refines:
  "take_while_c p s c = (w, d) \<Longrightarrow> take_while_l p s (cu_view c) = (w, cu_view d) \<and> onward c d"
proof (induction "cu_view c" arbitrary: c s w)
  case Nil
  then have "w = []" "d = snd (cu_peek 0 c)" using take_while_Nil [of c p s] by auto
  then show ?case using Nil by (simp add: view_simps)
next
  case (Cons ch cs)
  have view: "cu_view (stepped c) = cs" by (simp add: Cons(2) [symmetric])
  show ?case
    using take_while_Cons [OF Cons(2) [symmetric], of p s] Cons(3) Cons(1) [OF view [symmetric]]
    by (auto simp: Cons(2) [symmetric] view_simps onward_stepped split: if_splits prod.splits)
qed

lemma take_while_l_plain:
  "take_while_l (\<lambda>_ ch. (p ch, ())) () cs = (takeWhile p cs, dropWhile p cs)"
  by (induction cs) simp_all

lemma number_continues_simps:
  "fst (number_continues b ch) \<longleftrightarrow> is_digit ch \<or> (ch = CHR ''.'' \<and> \<not> b)"
  "snd (number_continues b ch) \<longleftrightarrow> b \<or> (\<not> is_digit ch \<and> ch = CHR ''.'')"
  by (auto simp: number_continues_def)

lemma take_while_l_decimal:
  "take_while_l number_continues True cs = (takeWhile is_digit cs, dropWhile is_digit cs)"
  by (induction cs) (simp_all add: number_continues_simps)

lemma take_while_l_number: "take_while_l number_continues False cs = number_body cs"
proof (induction cs)
  case Nil
  then show ?case by (simp add: number_body_def)
next
  case (Cons c cs)
  then show ?case
    by (cases "is_digit c")
      (auto simp: number_continues_simps number_body_def take_while_l_decimal Let_def)
qed

lemma take_while_plain_refines:
  "take_while_plain p c = (w, d) \<Longrightarrow>
     w = takeWhile p (cu_view c) \<and> cu_view d = dropWhile p (cu_view c) \<and> onward c d"
  by (auto simp: take_while_plain_def take_while_l_plain dest: take_while_refines)

subsection \<open>Delimited literals\<close>

lemma string_loop_Nil: "cu_view c = [] \<Longrightarrow> string_loop e c = ([], False, snd (cu_peek 0 c))"
  by (subst string_loop.simps, subst peek_Nil) simp_all

lemma string_loop_Cons:
  assumes "cu_view c = ch # cs"
  shows "string_loop e c =
       (if ch = newline \<and> \<not> e then ([], False, snd (cu_peek 0 c))
        else if \<not> e \<and> ch = dquote then ([ch], True, stepped c)
        else (let (w, r) = string_loop (\<not> e \<and> ch = backslash) (stepped c) in (ch # w, r)))"
  by (subst string_loop.simps, subst peek_Cons [OF assms]) (auto simp: stepped_def Let_def)

lemma string_loop_refines:
  "string_loop e c = (w, closed, d) \<Longrightarrow>
     string_body e (cu_view c) = (if closed then Some (w, cu_view d) else None) \<and> onward c d"
proof (induction "cu_view c" arbitrary: c e w)
  case Nil
  then show ?case using string_loop_Nil [of c e] by (cases e) (auto simp: Nil(1) [symmetric] view_simps)
next
  case (Cons ch cs)
  have view: "cu_view (stepped c) = cs" by (simp add: Cons(2) [symmetric])
  show ?case
    using string_loop_Cons [OF Cons(2) [symmetric], of e] Cons(3) Cons(1) [OF view [symmetric]]
    by (auto simp: Cons(2) [symmetric] onward_stepped split: if_splits prod.splits)
qed

lemma regex_loop_Nil: "cu_view c = [] \<Longrightarrow> regex_loop e k c = ([], False, snd (cu_peek 0 c))"
  by (subst regex_loop.simps, subst peek_Nil) simp_all

lemma regex_loop_Cons:
  assumes "cu_view c = ch # cs"
  shows "regex_loop e k c =
       (if ch = newline \<and> \<not> e then ([], False, snd (cu_peek 0 c))
        else if \<not> e \<and> ch = CHR ''/'' \<and> \<not> k then ([ch], True, stepped c)
        else (let (w, r) = regex_loop (\<not> e \<and> ch = backslash)
                (if e then k else if ch = CHR ''['' then True else if ch = CHR '']'' then False else k)
                (stepped c) in (ch # w, r)))"
  by (subst regex_loop.simps, subst peek_Cons [OF assms]) (auto simp: stepped_def Let_def)

lemma regex_loop_refines:
  "regex_loop e k c = (w, closed, d) \<Longrightarrow>
     regex_body e k (cu_view c) = (if closed then Some (w, cu_view d) else None) \<and> onward c d"
proof (induction "cu_view c" arbitrary: c e k w)
  case Nil
  then show ?case using regex_loop_Nil [of c e k] by (cases e) (auto simp: Nil(1) [symmetric] view_simps)
next
  case (Cons ch cs)
  have view: "cu_view (stepped c) = cs" by (simp add: Cons(2) [symmetric])
  show ?case
    using regex_loop_Cons [OF Cons(2) [symmetric], of e k] Cons(3) Cons(1) [OF view [symmetric]]
    by (auto simp: Cons(2) [symmetric] onward_stepped split: if_split_asm prod.splits)
qed

section \<open>One call of \<open>scan_token\<close>\<close>

text \<open>Every reading of the cursor leaves it normalised, and nothing else.\<close>

definition pt :: "cursor \<Rightarrow> source_point" where
  "pt c = fst (cu_point c)"

lemma peek_eq: "cu_peek k c = (nth_opt (cu_view c) k, cu_normalize c)"
  using cur.peek_pair [of k c] by (simp add: cu_peek_snd)

lemma point_eq: "cu_point c = (pt c, cu_normalize c)"
  by (simp add: pt_def prod_eq_iff)

lemma pt_normalize [simp]: "pt (cu_normalize c) = pt c"
  by (simp add: pt_def)

lemma advance_normalize [simp]: "cu_advance (cu_normalize c) = cu_advance c"
  by (simp add: cu_advance_def)

lemma onward_normalize [simp]: "onward c (cu_normalize c)"
  using onward_peek [of c 0] by (simp add: cu_peek_snd)

lemma onward_from_normalize [simp]: "onward (cu_normalize c) d = onward c d"
  by (auto simp: onward_def cur.reached_def)

lemma onward_to_normalize [simp]: "onward c (cu_normalize d) = onward c d"
  by (auto simp: onward_def cur.reached_def)

abbreviation normal_lx :: "lexer \<Rightarrow> lexer" where
  "normal_lx lx \<equiv> set_cursor (cu_normalize (lx_cursor lx)) lx"

definition abs_token :: "token \<Rightarrow> abs_token" where
  "abs_token t = (tk_kind t, tk_text t)"

text \<open>What a call that started at the cursor of \<open>lx\<close> leaves behind.\<close>

definition moved :: "lexer \<Rightarrow> lexer \<Rightarrow> bool" where
  "moved lx lx' \<longleftrightarrow> lx_source lx' = lx_source lx \<and> onward (lx_cursor lx) (lx_cursor lx')"

definition produced :: "lexer \<Rightarrow> token option \<Rightarrow> lexer \<Rightarrow> bool" where
  "produced lx to lx' \<longleftrightarrow>
     (case to of
        None \<Rightarrow> lx_expect_operand lx' = lx_expect_operand lx
      | Some t \<Rightarrow>
          lx_expect_operand lx' = next_expect_operand (lx_expect_operand lx) (tk_kind t)
          \<and> tk_span t = mk_span (lx_source lx) (pt (lx_cursor lx)) (pt (lx_cursor lx')))"

definition agrees :: "lexer \<Rightarrow> exn + (token option) \<times> lexer \<Rightarrow> string + lex_step \<Rightarrow> bool" where
  "agrees lx r s \<longleftrightarrow>
     (case s of
        Inl msg \<Rightarrow>
          (\<exists>d. onward (lx_cursor lx) d
               \<and> r = Inl (LexError msg (mk_span (lx_source lx) (pt (lx_cursor lx)) (pt d))))
      | Inr (a, w, rest) \<Rightarrow>
          (\<exists>to lx'. r = Inr (to, lx') \<and> moved lx lx' \<and> produced lx to lx' \<and> lx_view lx' = rest
               \<and> map_option abs_token to = a))"

lemma emit_eq:
  "emit kind start text lx =
     (mk_token kind (mk_span (lx_source lx) start (pt (lx_cursor lx))) text,
      lx\<lparr>lx_cursor := cu_normalize (lx_cursor lx),
         lx_expect_operand := next_expect_operand (lx_expect_operand lx) kind\<rparr>)"
  by (simp add: emit_def finish_token_def point_eq mk_token_def)

lemma agrees_emit:
  assumes "onward (lx_cursor lx) c" and "cu_view c = rest" and "(kind, text) = a"
  shows "agrees lx (let (t, lx) = emit kind (pt (lx_cursor lx)) text (set_cursor c lx)
                    in Inr (Some t, lx)) (Inr (Some a, w, rest))"
  using assms by (auto simp: agrees_def emit_eq moved_def produced_def abs_token_def mk_token_def)

lemma agrees_trivia:
  "onward (lx_cursor lx) c \<Longrightarrow> cu_view c = rest \<Longrightarrow>
     agrees lx (Inr (None, set_cursor c lx)) (Inr (None, w, rest))"
  by (auto simp: agrees_def moved_def produced_def)

lemma agrees_error:
  "onward (lx_cursor lx) c \<Longrightarrow> m = msg \<Longrightarrow>
     agrees lx (Inl (lex_error m (pt (lx_cursor lx)) (set_cursor c lx))) (Inl msg)"
  by (auto simp: agrees_def lex_error_def pt_def)

abbreviation adv :: "cursor \<Rightarrow> cursor" where
  "adv c \<equiv> snd (cu_advance c)"

lemma onward_adv: "onward c d \<Longrightarrow> onward c (adv d)"
  by (rule onward_trans [OF _ onward_advance])

lemma agrees_fixed1:
  "agrees lx (let (t, lx) = emit kind (pt (lx_cursor lx)) None (advance_lx (normal_lx lx))
              in Inr (Some t, lx)) (fixed_step kind 1 (lx_view lx))"
  using agrees_emit [of lx "adv (lx_cursor lx)" _ kind None]
  by (simp add: fixed_step_def advance_lx_def view_simps)

lemma agrees_fixed2:
  "agrees lx (let (t, lx) = emit kind (pt (lx_cursor lx)) None (advance_lx (advance_lx (normal_lx lx)))
              in Inr (Some t, lx)) (fixed_step kind 2 (lx_view lx))"
  using agrees_emit [of lx "adv (adv (lx_cursor lx))" _ kind None]
  by (simp add: fixed_step_def advance_lx_def view_simps onward_adv numeral_2_eq_2)

text \<open>The scanning procedures, each started on a normalised cursor with its start point read.\<close>

lemma Inr_pair: "(case r of (t, lx') \<Rightarrow> Inr (Some t, lx')) = Inr (map_prod Some id r)"
  by (cases r) simp

lemma agrees_emit':
  assumes "onward (lx_cursor lx) c" and "cu_view c = rest" and "(kind, text) = a"
  shows "agrees lx (Inr (map_prod Some id (emit kind (pt (lx_cursor lx)) text (set_cursor c lx))))
           (Inr (Some a, w, rest))"
  using agrees_emit [OF assms] by (simp add: Inr_pair)

lemma scan_identifier_agrees:
  assumes "is_alpha ch \<or> ch = CHR ''_''"
  shows "agrees lx
     (Inr (map_prod Some id (scan_identifier_or_keyword (pt (lx_cursor lx)) (normal_lx lx))))
     (Inr (Some (word_token (takeWhile is_word_char (lx_view lx))), takeWhile is_word_char (lx_view lx),
           dropWhile is_word_char (lx_view lx)))"
proof -
  obtain w d where tw: "take_while_plain (\<lambda>ch. is_alnum ch \<or> ch = CHR ''_'') (cu_normalize (lx_cursor lx)) = (w, d)"
    by fastforce
  have p: "(\<lambda>ch. is_alnum ch \<or> ch = CHR ''_'') = is_word_char" by (auto simp: is_word_char_def)
  from take_while_plain_refines [OF tw] p
  have "w = takeWhile is_word_char (lx_view lx)" "cu_view d = dropWhile is_word_char (lx_view lx)"
    "onward (lx_cursor lx) d" by simp_all
  moreover have "word_token w =
      (case map_of KEYWORDS w of None \<Rightarrow> TIdent | Some k \<Rightarrow> k,
       if (case map_of KEYWORDS w of None \<Rightarrow> TIdent | Some k \<Rightarrow> k) = TIdent then Some w else None)"
    by (simp add: word_token_def split: option.split)
  ultimately show ?thesis
    by (simp add: scan_identifier_or_keyword_def tw Let_def agrees_emit')
qed

lemma scan_number_agrees:
  "agrees lx (Inr (map_prod Some id (scan_number (pt (lx_cursor lx)) (normal_lx lx))))
     (case number_body (lx_view lx) of (w, rest) \<Rightarrow> Inr (Some (TNumber, Some w), w, rest))"
proof -
  obtain w d where tw: "take_while_c number_continues False (cu_normalize (lx_cursor lx)) = (w, d)"
    by fastforce
  from take_while_refines [OF tw]
  have "number_body (lx_view lx) = (w, cu_view d)" "onward (lx_cursor lx) d"
    by (simp_all add: take_while_l_number)
  then show ?thesis by (simp add: scan_number_def tw Let_def agrees_emit')
qed

lemma agrees_bind_Some:
  "agrees lx (bindE (if b then Inr r else Inl e) (\<lambda>(t, lx'). Inr (Some t, lx'))) s \<longleftrightarrow>
     (if b then agrees lx (Inr (map_prod Some id r)) s else agrees lx (Inl e) s)"
  by (cases r) simp

lemma scan_string_agrees:
  assumes view: "lx_view lx = dquote # cs"
  shows "agrees lx
     (bindE (scan_string_literal (pt (lx_cursor lx)) (normal_lx lx)) (\<lambda>(t, lx'). Inr (Some t, lx')))
     (operand_step dquote (dquote # cs))"
proof -
  obtain e where adv: "cu_advance (lx_cursor lx) = (Some dquote, e)"
    using cur.advance_pair [of "lx_cursor lx"] view by auto
  have e: "cu_view e = cs" "onward (lx_cursor lx) e"
    using adv view cur.advance_view [of "lx_cursor lx"] onward_advance [of "lx_cursor lx"] by simp_all
  obtain w closed d where sl: "string_loop False e = (w, closed, d)"
    by (metis prod_cases3)
  from string_loop_refines [OF sl] e
  have "string_body False cs = (if closed then Some (w, cu_view d) else None)"
    "onward (lx_cursor lx) d"
    by (auto intro: onward_trans)
  then show ?thesis
    by (cases closed) (simp_all add: scan_string_literal_def adv sl Let_def operand_step_def
        agrees_emit [unfolded Let_def] agrees_error)
qed

lemma scan_slash_agrees:
  assumes view: "lx_view lx = CHR ''/'' # cs"
  shows "agrees lx
     (bindE (scan_slash_or_regex (pt (lx_cursor lx)) (normal_lx lx)) (\<lambda>(t, lx'). Inr (Some t, lx')))
     (slash_step (lx_expect_operand lx) (CHR ''/'' # cs))"
proof (cases "lx_expect_operand lx")
  case False
  then show ?thesis
    using agrees_fixed1 [of lx TSlash] agrees_fixed2 [of lx TSlashEqual] view
    by (auto simp: scan_slash_or_regex_def slash_step_def peek_eq Let_def Inr_pair)
next
  case True
  obtain e where adv: "cu_advance (lx_cursor lx) = (Some CHR ''/'', e)"
    using cur.advance_pair [of "lx_cursor lx"] view by auto
  have e: "cu_view e = cs" "onward (lx_cursor lx) e"
    using adv view cur.advance_view [of "lx_cursor lx"] onward_advance [of "lx_cursor lx"] by simp_all
  obtain w closed d where rl: "regex_loop False False e = (w, closed, d)"
    by (metis prod_cases3)
  from regex_loop_refines [OF rl] e
  have "regex_body False False cs = (if closed then Some (w, cu_view d) else None)"
    "onward (lx_cursor lx) d"
    by (auto intro: onward_trans)
  with True show ?thesis
    by (cases closed) (simp_all add: scan_slash_or_regex_def scan_regex_literal_def adv rl
        Let_def slash_step_def agrees_emit [unfolded Let_def] agrees_error)
qed

lemma scan_multi_char_eq:
  "scan_multi_char_operator start (normal_lx lx) =
     (case two_chars (lx_view lx) of
        None \<Rightarrow> (None, normal_lx lx)
      | Some kind \<Rightarrow>
          (case emit kind start None (advance_lx (advance_lx (normal_lx lx))) of
             (t, lx') \<Rightarrow> (Some t, lx')))"
  by (auto simp: scan_multi_char_operator_def peek_eq two_chars_def Let_def
      split: list.split option.split)

text \<open>The refinement of one call: on a non-empty text it is the step of the lexical grammar.\<close>

lemma plain_token_agrees:
  assumes view: "lx_view lx = ch # cs"
  shows "agrees lx (scan_plain_token (pt (lx_cursor lx)) ch (normal_lx lx)) (plain_step ch (ch # cs))"
proof (cases "two_chars (ch # cs)")
  case (Some kind)
  then show ?thesis
    using agrees_fixed2 [of lx kind] view
    by (auto simp: scan_plain_token_def scan_multi_char_eq plain_step_def Let_def split: prod.split)
next
  case none: None
  show ?thesis
  proof (cases "map_of PUNCTUATION_KINDS ch")
    case (Some kind)
    with none show ?thesis
      using agrees_fixed1 [of lx kind] view by (simp add: scan_plain_token_def scan_multi_char_eq plain_step_def)
  next
    case None
    have err: "agrees lx (Inl (lex_error m (pt (lx_cursor lx)) (advance_lx (normal_lx lx)))) (Inl m)" for m
      using agrees_error [of lx "adv (lx_cursor lx)" m m] by (simp add: advance_lx_def)
    consider "ch = dquote" | "ch \<noteq> dquote" "is_alpha ch \<or> ch = CHR ''_''"
      | "ch \<noteq> dquote" "\<not> (is_alpha ch \<or> ch = CHR ''_'')" "is_digit ch"
      | "ch \<noteq> dquote" "\<not> (is_alpha ch \<or> ch = CHR ''_'')" "\<not> is_digit ch" by blast
    then show ?thesis
    proof cases
      case 1
      with none None view show ?thesis
        using scan_string_agrees [of lx cs] by (simp add: scan_plain_token_def scan_multi_char_eq plain_step_def)
    next
      case 2
      with none None view show ?thesis
        using scan_identifier_agrees [of ch lx]
        by (simp add: scan_plain_token_def scan_multi_char_eq plain_step_def operand_step_def Inr_pair Let_def)
    next
      case 3
      with none None view show ?thesis
        using scan_number_agrees [of lx]
        by (simp add: scan_plain_token_def scan_multi_char_eq plain_step_def operand_step_def Inr_pair)
    next
      case 4
      with none None view show ?thesis
        using err by (simp add: scan_plain_token_def scan_multi_char_eq plain_step_def operand_step_def)
    qed
  qed
qed

lemma advance2_normal: "advance_lx (advance_lx (normal_lx lx)) = set_cursor (adv (adv (lx_cursor lx))) lx"
  by (simp add: advance_lx_def)

lemma scan_token_agrees:
  assumes view: "lx_view lx = ch # cs"
  shows "agrees lx (scan_token lx) (lex_step (lx_expect_operand lx) ch cs)"
proof -
  let ?c = "cu_normalize (lx_cursor lx)"
  note scan = scan_token_def peek_eq point_eq view Let_def lex_step_def
  consider "is_horizontal_space ch"
    | "\<not> is_horizontal_space ch" "ch = backslash" "nth_opt cs 0 = Some newline"
    | "\<not> is_horizontal_space ch" "\<not> (ch = backslash \<and> nth_opt cs 0 = Some newline)" "ch = newline"
    | "\<not> is_horizontal_space ch" "\<not> (ch = backslash \<and> nth_opt cs 0 = Some newline)" "ch = CHR ''#''"
    | "\<not> is_horizontal_space ch" "\<not> (ch = backslash \<and> nth_opt cs 0 = Some newline)" "ch = CHR ''/''"
    | "\<not> is_horizontal_space ch" "\<not> (ch = backslash \<and> nth_opt cs 0 = Some newline)"
      "ch \<noteq> newline" "ch \<noteq> CHR ''#''" "ch \<noteq> CHR ''/''" by blast
  then show ?thesis
  proof cases
    case 1
    obtain w d where tw: "take_while_plain is_horizontal_space ?c = (w, d)" by fastforce
    from take_while_plain_refines [OF tw] 1 show ?thesis
      by (simp add: scan skip_horizontal_whitespace_def tw trivia_step_def agrees_trivia)
  next
    case 2
    then have "agrees lx (Inr (None, advance_lx (advance_lx (normal_lx lx))))
        (Inr (None, take 2 (ch # cs), drop 2 (ch # cs)))"
      by (simp add: advance2_normal agrees_trivia onward_adv view_simps view numeral_2_eq_2)
    with 2 show ?thesis by (simp add: scan)
  next
    case 3
    then show ?thesis
      using agrees_fixed1 [of lx TNewline] view by (simp add: scan)
  next
    case 4
    obtain w d where tw: "take_while_plain (\<lambda>c. c \<noteq> newline) ?c = (w, d)" by fastforce
    from take_while_plain_refines [OF tw] 4 show ?thesis
      by (simp add: scan skip_comment_def tw trivia_step_def agrees_trivia)
  next
    case 5
    then show ?thesis
      using scan_slash_agrees [of lx cs] view by (simp add: scan)
  next
    case 6
    then show ?thesis
      using plain_token_agrees [OF view] by (cases "ch = backslash") (auto simp: scan)
  qed
qed

lemma scan_token_eof:
  assumes "lx_view lx = []"
  shows "scan_token lx =
    Inr (Some (mk_token TEof (mk_span (lx_source lx) (pt (lx_cursor lx)) (pt (lx_cursor lx))) None),
         normal_lx lx)"
  using assms by (simp add: scan_token_def peek_eq point_eq Let_def)

section \<open>\<open>scan_tokens\<close>\<close>

lemma tables_no_eof:
  "map_of MULTI_CHAR_TOKEN_KINDS s \<noteq> Some TEof" "map_of PUNCTUATION_KINDS c \<noteq> Some TEof"
  "map_of KEYWORDS s \<noteq> Some TEof"
  using map_of_SomeD [of MULTI_CHAR_TOKEN_KINDS s TEof] map_of_SomeD [of PUNCTUATION_KINDS c TEof]
    map_of_SomeD [of KEYWORDS s TEof]
  by (auto simp: MULTI_CHAR_TOKEN_KINDS_def PUNCTUATION_KINDS_def KEYWORDS_def)

lemma two_chars_no_eof: "two_chars s \<noteq> Some TEof"
  by (auto simp: two_chars_def tables_no_eof split: list.split)

lemma word_token_no_eof: "word_token w \<noteq> (TEof, txt)"
  using tables_no_eof(3) [of w] by (auto simp: word_token_def split: option.split)

lemma plain_step_no_eof: "plain_step ch s = Inr (Some (k, txt), w, rest) \<Longrightarrow> k \<noteq> TEof"
  by (auto simp: plain_step_def operand_step_def fixed_step_def tables_no_eof two_chars_no_eof
      word_token_no_eof Let_def split: option.splits if_splits prod.splits)

lemma lex_step_no_eof: "lex_step e ch cs = Inr (Some (k, txt), w, rest) \<Longrightarrow> k \<noteq> TEof"
  by (auto simp: lex_step_def slash_step_def fixed_step_def trivia_step_def
      dest: plain_step_no_eof split: if_splits option.splits)

text \<open>A call that returns anything but the EOF token has read at least one character.\<close>

lemma scan_token_less:
  assumes "scan_token lx = Inr (to, lx')" and "\<forall>t. to = Some t \<longrightarrow> tk_kind t \<noteq> TEof"
  shows "length (lx_view lx') < length (lx_view lx)"
proof (cases "lx_view lx")
  case Nil
  with assms scan_token_eof [OF Nil] show ?thesis by (auto simp: mk_token_def)
next
  case (Cons ch cs)
  from scan_token_agrees [OF Cons] assms(1) obtain a w
    where "lex_step (lx_expect_operand lx) ch cs = Inr (a, w, lx_view lx')"
    by (auto simp: agrees_def split: sum.splits)
  with Cons show ?thesis using lex_step_shorter by fastforce
qed

function scan_tokens :: "lexer \<Rightarrow> exn + token list" where
  "scan_tokens lx =
     bindE (scan_token lx) (\<lambda>(token, lx').
       case token of
         None \<Rightarrow> scan_tokens lx'
       | Some t \<Rightarrow>
           if tk_kind t = TEof then Inr [t] else bindE (scan_tokens lx') (\<lambda>ts. Inr (t # ts)))"
  by pat_completeness auto
termination
  by (relation "measure (\<lambda>lx. length (lx_view lx))") (auto intro: scan_token_less)

declare scan_tokens.simps [simp del]

definition lex_program :: "program_source \<Rightarrow> exn + token list" where
  "lex_program source = scan_tokens (lexer_init source)"

end
