(* ===== verification/Lexer_Props.thy ===== *)
theory Lexer_Props
  imports Lexer_Refine
begin

text \<open>
  The properties of the lexer: it computes the lexical grammar of the logical text, it always
  ends with one EOF token, and its spans are ordered and lie in the source.
\<close>

section \<open>Functional correctness\<close>

lemma scan_tokens_eof:
  "lx_view lx = [] \<Longrightarrow>
     scan_tokens lx =
       Inr [mk_token TEof (mk_span (lx_source lx) (pt (lx_cursor lx)) (pt (lx_cursor lx))) None]"
  by (simp add: scan_tokens.simps [of lx] scan_token_eof mk_token_def)

lemma scan_tokens_refines:
  "case lex_text (lx_expect_operand lx) (lx_view lx) of
     Inl msg \<Rightarrow> \<exists>sp. scan_tokens lx = Inl (LexError msg sp)
   | Inr ts \<Rightarrow> \<exists>toks. scan_tokens lx = Inr toks \<and> map abs_token toks = ts"
proof (induction lx rule: scan_tokens.induct)
  case (1 lx)
  show ?case
  proof (cases "lx_view lx")
    case Nil
    then show ?thesis by (simp add: lex_text.simps scan_tokens_eof abs_token_def mk_token_def)
  next
    case (Cons ch cs)
    note agree = scan_token_agrees [OF Cons]
    show ?thesis
    proof (cases "lex_step (lx_expect_operand lx) ch cs")
      case (Inl msg)
      with agree Cons show ?thesis
        by (auto simp: lex_text.simps scan_tokens.simps [of lx] agrees_def)
    next
      case (Inr r)
      obtain a w rest where r: "r = (a, w, rest)" by (cases r)
      with agree Inr obtain to lx' where scan: "scan_token lx = Inr (to, lx')"
        and rest: "lx_view lx' = rest" and "produced lx to lx'" and a: "map_option abs_token to = a"
        by (auto simp: agrees_def)
      show ?thesis
      proof (cases to)
        case None
        with 1 [OF scan refl] Inr r scan rest a Cons \<open>produced lx to lx'\<close> show ?thesis
          by (auto simp: lex_text.simps scan_tokens.simps [of lx] produced_def split: sum.splits)
      next
        case (Some t)
        then have "tk_kind t \<noteq> TEof"
          using Inr r a by (auto simp: abs_token_def dest: lex_step_no_eof)
        with 1 [OF scan refl] Some Inr r scan rest a Cons \<open>produced lx to lx'\<close> show ?thesis
          by (auto simp: lex_text.simps scan_tokens.simps [of lx] produced_def abs_token_def
              split: sum.splits)
      qed
    qed
  qed
qed

text \<open>C4: the tokens that \<open>lex_program\<close> produces, and its lexical errors, are those of the lexical grammar
  on the logical text: how the program is cut into \<open>-f\<close> files does not matter beyond the newline
  that separates them, every lexical error is a \<open>LexError\<close> with the grammar's message, and no
  input makes the scanner loop.\<close>

theorem lex_implements_grammar:
  "case lex_text True (logical_text (ps_files src)) of
     Inl msg \<Rightarrow> \<exists>sp. lex_program src = Inl (LexError msg sp)
   | Inr ts \<Rightarrow> \<exists>toks. lex_program src = Inr toks \<and> map abs_token toks = ts"
  using scan_tokens_refines [of "lexer_init src"]
  by (auto simp: lex_program_def lexer_init_def cu_view_init split: sum.splits)

section \<open>Spans\<close>

definition point_le :: "source_point \<Rightarrow> source_point \<Rightarrow> bool" where
  "point_le p q \<longleftrightarrow> p = q \<or> point_before p q"

text \<open>A token stream over a source, from a position on: every token lies in the source and
  starts where the one before it ended or later, only the last one is EOF, and it alone is
  empty.\<close>

fun stream_from :: "program_source \<Rightarrow> source_point \<Rightarrow> token list \<Rightarrow> bool" where
  "stream_from src p [] \<longleftrightarrow> False"
| "stream_from src p (t # ts) \<longleftrightarrow>
     ss_source (tk_span t) = src \<and> point_le p (ss_start (tk_span t))
     \<and> (if ts = [] then tk_kind t = TEof \<and> ss_start (tk_span t) = ss_end (tk_span t)
        else tk_kind t \<noteq> TEof \<and> point_before (ss_start (tk_span t)) (ss_end (tk_span t))
             \<and> stream_from src (ss_end (tk_span t)) ts)"

lemma point_le_trans: "point_le p q \<Longrightarrow> point_le q r \<Longrightarrow> point_le p r"
  by (auto simp: point_le_def intro: point_before_trans)

lemma point_le_before: "point_le p q \<Longrightarrow> point_before q r \<Longrightarrow> point_le p r"
  by (auto simp: point_le_def intro: point_before_trans)

lemma point_le_refl [simp]: "point_le p p"
  by (simp add: point_le_def)

lemma onward_point_le: "onward c d \<Longrightarrow> point_le (pt c) (pt d)"
  by (auto simp: onward_def cur.reached_def point_le_def pt_def)

lemma onward_point_before: "onward c d \<Longrightarrow> cu_view d \<noteq> cu_view c \<Longrightarrow> point_before (pt c) (pt d)"
  by (auto simp: onward_def pt_def intro: cur.reached_before)

lemma stream_from_earlier: "stream_from src q ts \<Longrightarrow> point_le p q \<Longrightarrow> stream_from src p ts"
  by (cases ts) (auto intro: point_le_trans)

lemma scan_tokens_spans:
  "case scan_tokens lx of
     Inl e \<Rightarrow> (\<exists>m p q. e = LexError m (mk_span (lx_source lx) p q)
                 \<and> point_le (pt (lx_cursor lx)) p \<and> point_le p q)
   | Inr toks \<Rightarrow> stream_from (lx_source lx) (pt (lx_cursor lx)) toks"
proof (induction lx rule: scan_tokens.induct)
  case (1 lx)
  show ?case
  proof (cases "lx_view lx")
    case Nil
    then show ?thesis by (simp add: scan_tokens_eof mk_token_def mk_span_def point_le_def)
  next
    case (Cons ch cs)
    note agree = scan_token_agrees [OF Cons]
    show ?thesis
    proof (cases "lex_step (lx_expect_operand lx) ch cs")
      case (Inl msg)
      with agree show ?thesis
        by (auto simp: scan_tokens.simps [of lx] agrees_def intro!: exI onward_point_le)
    next
      case (Inr r)
      obtain a w rest where r: "r = (a, w, rest)" by (cases r)
      with agree Inr obtain to lx' where scan: "scan_token lx = Inr (to, lx')"
        and rest: "lx_view lx' = rest" and prod: "produced lx to lx'" and mv: "moved lx lx'"
        and a: "map_option abs_token to = a"
        by (auto simp: agrees_def)
      have neq: "lx_view lx' \<noteq> lx_view lx"
        using lex_step_splits [OF Inr] r rest Cons by (auto simp: splits_def)
      have before: "point_before (pt (lx_cursor lx)) (pt (lx_cursor lx'))"
        and src: "lx_source lx' = lx_source lx"
        using mv neq onward_point_before by (auto simp: moved_def)
      then have le: "point_le (pt (lx_cursor lx)) (pt (lx_cursor lx'))" by (simp add: point_le_def)
      show ?thesis
      proof (cases to)
        case None
        with 1 [OF scan refl] scan le src show ?thesis
          by (auto simp: scan_tokens.simps [of lx] split: sum.splits
              intro: point_le_trans stream_from_earlier)
      next
        case (Some t)
        then have "tk_kind t \<noteq> TEof"
          using Inr r a by (auto simp: abs_token_def dest: lex_step_no_eof)
        moreover have "tk_span t = mk_span (lx_source lx) (pt (lx_cursor lx)) (pt (lx_cursor lx'))"
          using prod Some by (simp add: produced_def)
        ultimately show ?thesis
          using 1 [OF scan refl] Some scan le before src
          by (auto simp: scan_tokens.simps [of lx] mk_span_def
              split: sum.splits intro: point_le_trans)
      qed
    qed
  qed
qed

text \<open>C8: the spans of the tokens of a program refer to its source and are in order and without overlap,
  each non-empty except the last, which is the one EOF token of the stream; a lexical error points into the same
  source, from a point of the program onwards.\<close>

theorem lex_spans_ordered:
  "case lex_program src of
     Inl e \<Rightarrow> (\<exists>m p q. e = LexError m (mk_span src p q) \<and> point_le p q)
   | Inr toks \<Rightarrow> stream_from src (fst (cu_point (cursor_init src))) toks"
  using scan_tokens_spans [of "lexer_init src"]
  by (auto simp: lex_program_def lexer_init_def pt_def split: sum.splits)

end
