(* ===== verification/Lexer_Roundtrip.thy ===== *)
theory Lexer_Roundtrip
  imports Lexer_Props
begin

text \<open>
  Rendering and lexing are inverse: the texts of a token sequence, separated by blanks, are lexed
  back to that sequence.  \<open>renderable\<close> says which sequences have a text: identifiers are words that
  are not keywords, literals are complete, and a slash or a regular expression stands where the
  scanner's context flag expects it.
\<close>

section \<open>Rendering\<close>

definition render_token :: "abs_token \<Rightarrow> string" where
  "render_token t =
     (case snd t of
        Some s \<Rightarrow> s
      | None \<Rightarrow> (case map_of FIXED_TOKEN_TEXT (fst t) of None \<Rightarrow> [] | Some s \<Rightarrow> s))"

definition render :: "abs_token list \<Rightarrow> string" where
  "render ts = concat (map (\<lambda>t. render_token t @ '' '') ts)"

definition is_word :: "string \<Rightarrow> bool" where
  "is_word w \<longleftrightarrow> w \<noteq> [] \<and> list_all is_word_char w \<and> (is_alpha (hd w) \<or> hd w = CHR ''_'')"

definition token_ok :: "bool \<Rightarrow> abs_token \<Rightarrow> bool" where
  "token_ok expect t =
     (case t of
        (k, Some s) \<Rightarrow>
          (k = TIdent \<and> is_word s \<and> map_of KEYWORDS s = None)
          \<or> (k = TNumber \<and> s \<noteq> [] \<and> is_digit (hd s) \<and> number_body s = (s, []))
          \<or> (k = TString \<and> s \<noteq> [] \<and> hd s = dquote \<and> string_body False (tl s) = Some (tl s, []))
          \<or> (k = TRegex \<and> expect \<and> s \<noteq> [] \<and> hd s = CHR ''/''
             \<and> regex_body False False (tl s) = Some (tl s, []))
      | (k, None) \<Rightarrow>
          k \<notin> set [TIdent, TNumber, TString, TRegex, TEof]
          \<and> (k \<in> set [TSlash, TSlashEqual] \<longrightarrow> \<not> expect))"

fun renderable :: "bool \<Rightarrow> abs_token list \<Rightarrow> bool" where
  "renderable expect [] \<longleftrightarrow> True"
| "renderable expect (t # ts) \<longleftrightarrow>
     token_ok expect t \<and> renderable (next_expect_operand expect (fst t)) ts"

section \<open>One token followed by a blank\<close>

lemma string_body_extend:
  "string_body e cs = Some (w, r) \<Longrightarrow> string_body e (cs @ x) = Some (w, r @ x)"
  by (induction e cs arbitrary: w rule: string_body.induct) (auto split: if_splits)

lemma regex_body_extend:
  "regex_body e k cs = Some (w, r) \<Longrightarrow> regex_body e k (cs @ x) = Some (w, r @ x)"
  by (induction e k cs arbitrary: w rule: regex_body.induct) (auto split: if_splits)

lemma blank_classes [simp]:
  "\<not> is_digit CHR '' ''" "\<not> is_word_char CHR '' ''" "is_horizontal_space CHR '' ''"
  by code_simp+

lemma takeWhile_blank:
  "list_all p w \<Longrightarrow> \<not> p b \<Longrightarrow> takeWhile p (w @ b # r) = w \<and> dropWhile p (w @ b # r) = b # r"
  by (induction w) auto

lemma number_body_blank:
  assumes "number_body w = (w, [])"
  shows "number_body (w @ CHR '' '' # r) = (w, CHR '' '' # r)"
proof (cases "list_all is_digit w")
  case True
  then show ?thesis using takeWhile_blank [of is_digit w "CHR '' ''" r] by (simp add: number_body_def)
next
  case False
  then obtain ds c cs where w: "w = ds @ c # cs" "list_all is_digit ds" "\<not> is_digit c"
    using split_list_first_prop [of w "\<lambda>c. \<not> is_digit c"] by (auto simp: list_all_iff)
  with assms takeWhile_blank [of is_digit ds c cs] have "c = CHR ''.''" "takeWhile is_digit cs = cs"
    by (auto simp: number_body_def Let_def split: if_splits)
  then have "list_all is_digit cs" by (simp add: list_all_iff takeWhile_eq_all_conv)
  with w \<open>c = CHR ''.''\<close> takeWhile_blank [of is_digit ds c "cs @ CHR '' '' # r"]
    takeWhile_blank [of is_digit cs "CHR '' ''" r] show ?thesis
    by (simp add: number_body_def)
qed

text \<open>The first characters of operators, words, numbers and literals are disjoint classes.\<close>

definition special_chars :: "char list" where
  "special_chars =
     [CHR '' '', CHR 0x09, CHR 0x0D, CHR 0x0C, CHR 0x0B, newline, backslash, dquote, CHR ''#'', CHR ''/'']
     @ map fst PUNCTUATION_KINDS @ map (hd \<circ> fst) MULTI_CHAR_TOKEN_KINDS"

lemma special_not_word: "c \<in> set special_chars \<Longrightarrow> \<not> is_alpha c \<and> c \<noteq> CHR ''_'' \<and> \<not> is_digit c"
proof -
  have "list_all (\<lambda>c. \<not> is_alpha c \<and> c \<noteq> CHR ''_'' \<and> \<not> is_digit c) special_chars" by code_simp
  then show "c \<in> set special_chars \<Longrightarrow> \<not> is_alpha c \<and> c \<noteq> CHR ''_'' \<and> \<not> is_digit c"
    by (auto simp: list_all_iff)
qed

lemma two_chars_special: "two_chars (c # cs) = Some k \<Longrightarrow> c \<in> set special_chars"
  by (auto simp: two_chars_def special_chars_def image_iff dest!: map_of_SomeD split: list.splits)
    (metis fst_conv list.sel(1))

lemma punctuation_special: "map_of PUNCTUATION_KINDS c = Some k \<Longrightarrow> c \<in> set special_chars"
  by (auto simp: special_chars_def image_iff dest!: map_of_SomeD) (metis fst_conv)

lemma lex_step_operand:
  assumes "is_alpha c \<or> c = CHR ''_'' \<or> is_digit c"
  shows "lex_step e c cs = operand_step c (c # cs)"
proof -
  have ns: "c \<notin> set special_chars" using assms special_not_word by blast
  then have "two_chars (c # cs) = None" "map_of PUNCTUATION_KINDS c = None"
    using two_chars_special punctuation_special by fastforce+
  with ns show ?thesis
    by (simp add: lex_step_def plain_step_def special_chars_def is_horizontal_space_def)
qed

lemma lex_step_word:
  assumes "is_word (c # w)"
  shows "lex_step e c (w @ CHR '' '' # r) =
    Inr (Some (word_token (c # w)), c # w, CHR '' '' # r)"
proof -
  have c: "is_alpha c \<or> c = CHR ''_''" using assms by (simp add: is_word_def)
  then have "c \<noteq> dquote" using special_not_word [of dquote] by (auto simp: special_chars_def)
  with c assms takeWhile_blank [of is_word_char "c # w" "CHR '' ''" r] show ?thesis
    by (auto simp: lex_step_operand operand_step_def is_word_def Let_def)
qed

lemma lex_step_number:
  assumes "is_digit c" and "number_body (c # w) = (c # w, [])"
  shows "lex_step e c (w @ CHR '' '' # r) = Inr (Some (TNumber, Some (c # w)), c # w, CHR '' '' # r)"
proof -
  have "c \<noteq> dquote" "c \<noteq> CHR ''_''" "\<not> is_alpha c"
    using assms(1) special_not_word [of dquote]
    by (auto simp: special_chars_def is_digit_def is_alpha_def Let_def)
  with assms number_body_blank [OF assms(2), of r] show ?thesis
    by (simp add: lex_step_operand operand_step_def)
qed

lemma no_operator_dquote: "two_chars (dquote # cs) = None" "map_of PUNCTUATION_KINDS dquote = None"
  by (auto simp: two_chars_def PUNCTUATION_KINDS_def MULTI_CHAR_TOKEN_KINDS_def split: list.split)

lemma lex_step_string:
  "string_body False w = Some (w, []) \<Longrightarrow>
     lex_step e dquote (w @ CHR '' '' # r)
       = Inr (Some (TString, Some (dquote # w)), dquote # w, CHR '' '' # r)"
  using string_body_extend [of False w w "[]" "CHR '' '' # r"]
  by (simp add: lex_step_def plain_step_def operand_step_def is_horizontal_space_def
      no_operator_dquote)

lemma lex_step_regex:
  "regex_body False False w = Some (w, []) \<Longrightarrow>
     lex_step True CHR ''/'' (w @ CHR '' '' # r)
       = Inr (Some (TRegex, Some (CHR ''/'' # w)), CHR ''/'' # w, CHR '' '' # r)"
  using regex_body_extend [of False False w w "[]" "CHR '' '' # r"]
  by (simp add: lex_step_def slash_step_def is_horizontal_space_def)

text \<open>Fixed tokens: the keyword table against the word scanner, the operator tables against the
  operator scanner.\<close>

lemma keywords_are_words: "(s, k) \<in> set KEYWORDS \<Longrightarrow> is_word s \<and> word_token s = (k, None)"
proof -
  have "list_all (\<lambda>(s, k). is_word s \<and> word_token s = (k, None)) KEYWORDS" by code_simp
  then show "(s, k) \<in> set KEYWORDS \<Longrightarrow> is_word s \<and> word_token s = (k, None)"
    by (auto simp: list_all_iff)
qed

lemma two_chars_blank: "two_chars (c # CHR '' '' # r) = None"
  by (simp add: two_chars_def MULTI_CHAR_TOKEN_KINDS_def)

definition trivia_chars :: "char list" where
  "trivia_chars =
     [CHR '' '', CHR 0x09, CHR 0x0D, CHR 0x0C, CHR 0x0B, newline, backslash, CHR ''#'']"

lemma multi_char_table:
  "list_all (\<lambda>(s, k). length s = 2 \<and> map_of MULTI_CHAR_TOKEN_KINDS s = Some k
      \<and> hd s \<notin> set trivia_chars) MULTI_CHAR_TOKEN_KINDS"
  by code_simp

lemma multi_char_first:
  assumes "(s, k) \<in> set MULTI_CHAR_TOKEN_KINDS"
  obtains a b where "s = [a, b]" and "map_of MULTI_CHAR_TOKEN_KINDS [a, b] = Some k"
    and "a \<notin> set trivia_chars"
proof -
  have facts: "length s = 2 \<and> map_of MULTI_CHAR_TOKEN_KINDS s = Some k \<and> hd s \<notin> set trivia_chars"
    using multi_char_table assms by (auto simp only: list_all_iff prod.case dest: bspec)
  then obtain a b where "s = [a, b]" by (auto simp: numeral_2_eq_2 length_Suc_conv)
  with facts that show thesis by auto
qed

lemma lex_step_plain:
  "c \<notin> set trivia_chars \<Longrightarrow> c \<noteq> CHR ''/'' \<Longrightarrow> lex_step e c cs = plain_step c (c # cs)"
  by (simp add: lex_step_def trivia_chars_def is_horizontal_space_def)

lemma lex_step_multi:
  assumes "(s, k) \<in> set MULTI_CHAR_TOKEN_KINDS" and "hd s \<noteq> CHR ''/''"
  shows "lex_step e (hd s) (tl s @ CHR '' '' # r) = Inr (Some (k, None), s, CHR '' '' # r)"
proof -
  obtain a b where "s = [a, b]" "map_of MULTI_CHAR_TOKEN_KINDS [a, b] = Some k" "a \<notin> set trivia_chars"
    using assms(1) by (rule multi_char_first)
  with assms(2) show ?thesis
    by (simp add: lex_step_plain plain_step_def fixed_step_def two_chars_def)
qed

lemma lex_step_punctuation:
  assumes "(c, k) \<in> set PUNCTUATION_KINDS"
  shows "lex_step e c (CHR '' '' # r) = Inr (Some (k, None), [c], CHR '' '' # r)"
proof -
  have "map_of PUNCTUATION_KINDS c = Some k"
    using assms by (rule map_of_is_SomeI [rotated]) (simp add: PUNCTUATION_KINDS_def)
  moreover have "c \<notin> set trivia_chars" "c \<noteq> CHR ''/''"
    using assms by (auto simp: PUNCTUATION_KINDS_def trivia_chars_def)
  ultimately show ?thesis
    by (simp add: lex_step_plain plain_step_def fixed_step_def two_chars_blank)
qed

lemma fixed_kinds:
  "map fst FIXED_TOKEN_TEXT =
     [TBegin, TBreak, TContinue, TDelete, TDo, TEnd, TElse, TExit, TFor, TFunction, TIf, TIn, TNext,
      TNextfile, TPrint, TPrintf, TReturn, TWhile, TLess, TLessEqual, TGreater, TGreaterEqual,
      TGreaterGreater, TEqualEqual, TNotEqual, TOrOr, TPipe, TAndAnd, TMatch, TNotMatch, TPlus,
      TMinus, TStar, TSlash, TPercent, TCaret, TBang, TEqual, TPlusEqual, TMinusEqual, TStarEqual,
      TSlashEqual, TPercentEqual, TCaretEqual, TPlusPlus, TMinusMinus, TDollar, TQuestion, TColon,
      TLbrace, TRbrace, TLparen, TRparen, TLbracket, TRbracket, TComma, TSemicolon, TNewline]"
  by (simp add: FIXED_TOKEN_TEXT_def KEYWORDS_def OPERATOR_TEXT_def)

lemma fixed_token_has_text:
  "k \<notin> set [TIdent, TNumber, TString, TRegex, TEof] \<Longrightarrow> k \<in> fst ` set FIXED_TOKEN_TEXT"
  unfolding set_map [symmetric] fixed_kinds by (cases k) simp_all

lemma fixed_token_tables:
  "list_all (\<lambda>(k, s). (s, k) \<in> set KEYWORDS
      \<or> (s, k) \<in> set MULTI_CHAR_TOKEN_KINDS \<and> k \<noteq> TSlashEqual
      \<or> (length s = 1 \<and> (hd s, k) \<in> set PUNCTUATION_KINDS)
      \<or> k \<in> set [TSlash, TSlashEqual, TNewline]) FIXED_TOKEN_TEXT"
  by code_simp

lemma fixed_token_cases:
  assumes "k \<notin> set [TIdent, TNumber, TString, TRegex, TEof]"
  obtains s where "map_of FIXED_TOKEN_TEXT k = Some s" and "(s, k) \<in> set KEYWORDS"
  | s where "map_of FIXED_TOKEN_TEXT k = Some s" and "(s, k) \<in> set MULTI_CHAR_TOKEN_KINDS"
      and "k \<noteq> TSlashEqual"
  | c where "map_of FIXED_TOKEN_TEXT k = Some [c]" and "(c, k) \<in> set PUNCTUATION_KINDS"
  | "k = TSlash" | "k = TSlashEqual" | "k = TNewline"
proof -
  obtain s where s: "map_of FIXED_TOKEN_TEXT k = Some s"
    using fixed_token_has_text [OF assms] by (metis map_of_eq_None_iff option.exhaust)
  have "(k, s) \<in> set FIXED_TOKEN_TEXT" using s by (rule map_of_SomeD)
  with fixed_token_tables have
    "(s, k) \<in> set KEYWORDS \<or> (s, k) \<in> set MULTI_CHAR_TOKEN_KINDS \<and> k \<noteq> TSlashEqual
      \<or> (length s = 1 \<and> (hd s, k) \<in> set PUNCTUATION_KINDS) \<or> k \<in> set [TSlash, TSlashEqual, TNewline]"
    by (auto simp only: list_all_iff prod.case dest: bspec)
  moreover have "length s = 1 \<Longrightarrow> s = [hd s]" by (cases s) auto
  ultimately show thesis using s that by auto
qed

lemma slash_texts:
  "map_of FIXED_TOKEN_TEXT TSlash = Some ''/''" "map_of FIXED_TOKEN_TEXT TSlashEqual = Some ''/=''"
  "map_of FIXED_TOKEN_TEXT TNewline = Some [newline]"
  by (simp_all add: FIXED_TOKEN_TEXT_def KEYWORDS_def OPERATOR_TEXT_def)

lemma multi_char_slash:
  "(s, k) \<in> set MULTI_CHAR_TOKEN_KINDS \<Longrightarrow> k \<noteq> TSlashEqual \<Longrightarrow> s \<noteq> [] \<and> hd s \<noteq> CHR ''/''"
  by (auto simp: MULTI_CHAR_TOKEN_KINDS_def)

text \<open>A token's text followed by a blank is read back as that token.\<close>

definition reads_back :: "bool \<Rightarrow> abs_token \<Rightarrow> bool" where
  "reads_back e t \<longleftrightarrow>
     (\<forall>r. \<exists>c w. render_token t = c # w
            \<and> lex_step e c (w @ CHR '' '' # r) = Inr (Some t, c # w, CHR '' '' # r))"

lemma word_reads_back: "is_word w \<Longrightarrow> word_token w = t \<Longrightarrow> render_token t = w \<Longrightarrow> reads_back e t"
  using lex_step_word [of "hd w" "tl w" e] by (cases w) (auto simp: reads_back_def is_word_def)

lemma fixed_reads_back:
  assumes "k \<notin> set [TIdent, TNumber, TString, TRegex, TEof]"
    and "k \<in> set [TSlash, TSlashEqual] \<longrightarrow> \<not> e"
  shows "reads_back e (k, None)"
proof (rule fixed_token_cases [OF assms(1)])
  fix s assume "map_of FIXED_TOKEN_TEXT k = Some s" "(s, k) \<in> set KEYWORDS"
  with keywords_are_words [of s k] show ?thesis
    by (auto intro!: word_reads_back simp: render_token_def)
next
  fix s assume s: "map_of FIXED_TOKEN_TEXT k = Some s" "(s, k) \<in> set MULTI_CHAR_TOKEN_KINDS"
    "k \<noteq> TSlashEqual"
  then obtain a b where "s = a # b" "a \<noteq> CHR ''/''" using multi_char_slash [of s k] by (cases s) auto
  with s show ?thesis
    using lex_step_multi [of s k e] by (auto simp: reads_back_def render_token_def)
next
  fix c assume "map_of FIXED_TOKEN_TEXT k = Some [c]" "(c, k) \<in> set PUNCTUATION_KINDS"
  then show ?thesis using lex_step_punctuation by (auto simp: reads_back_def render_token_def)
next
  assume "k = TSlash"
  with assms(2) show ?thesis
    by (auto simp: reads_back_def render_token_def slash_texts lex_step_def slash_step_def
        fixed_step_def is_horizontal_space_def)
next
  assume "k = TSlashEqual"
  with assms(2) show ?thesis
    by (auto simp: reads_back_def render_token_def slash_texts lex_step_def slash_step_def
        fixed_step_def is_horizontal_space_def)
next
  assume "k = TNewline"
  then show ?thesis
    by (auto simp: reads_back_def render_token_def slash_texts lex_step_def fixed_step_def
        is_horizontal_space_def)
qed

lemma token_ok_reads_back:
  assumes "token_ok e t"
  shows "reads_back e t"
proof (cases "snd t")
  case None
  with assms fixed_reads_back [of "fst t" e] show ?thesis
    by (cases t) (auto simp: token_ok_def)
next
  case (Some s)
  obtain k where t: "t = (k, Some s)" using Some by (cases t) auto
  from assms consider
      "k = TIdent" "is_word s" "map_of KEYWORDS s = None"
    | "k = TNumber" "s \<noteq> []" "is_digit (hd s)" "number_body s = (s, [])"
    | "k = TString" "s \<noteq> []" "hd s = dquote" "string_body False (tl s) = Some (tl s, [])"
    | "k = TRegex" "e" "s \<noteq> []" "hd s = CHR ''/''" "regex_body False False (tl s) = Some (tl s, [])"
    by (auto simp: token_ok_def t)
  then show ?thesis
  proof cases
    case 1
    then show ?thesis
      using word_reads_back [of s t e] by (simp add: t render_token_def word_token_def)
  next
    case 2
    then show ?thesis
      using lex_step_number [of "hd s" "tl s"] by (cases s) (auto simp: t reads_back_def render_token_def)
  next
    case 3
    then show ?thesis
      using lex_step_string [of "tl s"] by (cases s) (auto simp: t reads_back_def render_token_def)
  next
    case 4
    then show ?thesis
      using lex_step_regex [of "tl s"] by (cases s) (auto simp: t reads_back_def render_token_def)
  qed
qed

section \<open>The whole sequence\<close>

lemma lex_text_skip_blanks: "lex_text e (dropWhile is_horizontal_space cs) = lex_text e cs"
proof (cases cs)
  case (Cons c r)
  then show ?thesis
    by (cases "is_horizontal_space c") (simp_all add: lex_text.simps(2) lex_step_def trivia_step_def)
qed simp

lemma lex_text_blank: "lex_text e (CHR '' '' # cs) = lex_text e cs"
  by (simp add: lex_text.simps(2) lex_step_def trivia_step_def lex_text_skip_blanks)

lemma lex_text_render:
  "renderable e ts \<Longrightarrow> lex_text e (render ts) = Inr (ts @ [(TEof, None)])"
proof (induction ts arbitrary: e)
  case Nil
  then show ?case by (simp add: render_def lex_text.simps)
next
  case (Cons t ts)
  then have IH: "lex_text (next_expect_operand e (fst t)) (render ts) = Inr (ts @ [(TEof, None)])"
    and "reads_back e t" by (auto intro: token_ok_reads_back)
  then obtain c w where w: "render_token t = c # w"
    and "lex_step e c (w @ CHR '' '' # render ts) = Inr (Some t, c # w, CHR '' '' # render ts)"
    unfolding reads_back_def by blast
  moreover have "render (t # ts) = c # w @ CHR '' '' # render ts" using w by (simp add: render_def)
  ultimately show ?case
    using IH by (simp add: lex_text.simps(2) [of e c] lex_text_blank)
qed

lemma lexed_render:
  assumes "renderable True ts"
  obtains toks where "lex_program (from_inline ref (render ts)) = Inr toks"
    "map abs_token toks = ts @ [(TEof, None)]"
  using scan_tokens_refines [of "lexer_init (from_inline ref (render ts))"] lex_text_render [OF assms]
  by (auto simp: lex_program_def lexer_init_def cu_view_init from_inline_def source_file_create_def
      file_separator_def split: sum.splits)

text \<open>C9: every sequence of tokens that has a text is lexed back from its text: the tokens'
  texts separated by blanks give the same kinds and texts, then EOF.  In particular every keyword
  and operator of the tables is recognised, literals keep their exact text, and the context flag
  puts division and regular expressions where the grammar has them.\<close>

theorem lex_render_roundtrip:
  assumes "renderable True ts"
  shows "\<exists>toks. lex_program (from_inline ref (render ts)) = Inr toks
           \<and> map abs_token toks = ts @ [(TEof, None)]"
  using lexed_render [OF assms] by metis

definition sample_tokens :: "abs_token list" where
  "sample_tokens =
     [(TIdent, Some ''x''), (TEqual, None), (TNumber, Some ''1.5''), (TSlash, None),
      (TIdent, Some ''y''), (TNewline, None), (TRegex, Some ''/[/]/''), (TLbrace, None),
      (TPrint, None), (TString, Some [dquote, CHR ''a'', dquote]), (TRbrace, None)]"

lemma lex_render_roundtrip_witness:
  "\<exists>toks. lex_program (from_inline 0 (render sample_tokens)) = Inr toks
     \<and> map abs_token toks = sample_tokens @ [(TEof, None)]"
  by (rule lex_render_roundtrip) code_simp

end
