(* ===== verification/Py_Float.thy ===== *)
theory Py_Float
  imports Prelude
begin

text \<open>
  Python's \<open>float(text)\<close> and \<open>int(text)\<close> on the texts the scanner produces for number tokens:
  digits (of any script, see \<^const>\<open>is_digit\<close>) with at most one decimal point.  \<open>float\<close> is the
  correctly rounded IEEE 754 double: \<open>Double m e\<close> stands for \<open>m * 2 ^ e\<close> with a 53 bit
  significand, ties go to the even significand, and an exponent above 971 is infinite.  A
  digit that is not an ASCII decimal digit (a superscript, which \<open>str.isdigit\<close> accepts) makes
  both conversions raise \<open>ValueError\<close>, here \<^const>\<open>Inl\<close> its message.
\<close>

datatype py_float = Double int int | Infinity

function bit_length :: "int \<Rightarrow> int" where
  "bit_length n = (if n \<le> 0 then 0 else 1 + bit_length (n div 2))"
  by pat_completeness auto
termination
  by (relation "measure nat") auto

declare bit_length.simps [simp del]

definition scale_num :: "int \<Rightarrow> int \<Rightarrow> int" where
  "scale_num n e = (if e < 0 then n * 2 ^ nat (- e) else n)"

definition scale_den :: "int \<Rightarrow> int \<Rightarrow> int" where
  "scale_den d e = (if e < 0 then d else d * 2 ^ nat e)"

definition round_half_even :: "int \<Rightarrow> int \<Rightarrow> int" where
  "round_half_even num den =
     (let q = num div den; r = num mod den
      in if den < 2 * r \<or> (2 * r = den \<and> q mod 2 = 1) then q + 1 else q)"

text \<open>The exponent that leaves a 53 bit quotient, not below that of the subnormals.\<close>

definition double_exponent :: "int \<Rightarrow> int \<Rightarrow> int" where
  "double_exponent n d =
     (let e = bit_length n - bit_length d - 53;
          e' = (if scale_num n e div scale_den d e < 9007199254740992 then e else e + 1)
      in max e' (- 1074))"

text \<open>The double nearest to \<open>n / d\<close>, for \<open>0 \<le> n\<close> and \<open>0 < d\<close>; \<open>9007199254740992\<close> is \<open>2 ^ 53\<close>.\<close>

definition float_of_ratio :: "int \<Rightarrow> int \<Rightarrow> py_float" where
  "float_of_ratio n d =
     (if n = 0 then Double 0 0
      else let e = double_exponent n d;
               m = round_half_even (scale_num n e) (scale_den d e);
               (m', e') = (if m = 9007199254740992 then (4503599627370496, e + 1) else (m, e))
           in if 971 < e' then Infinity else Double m' e')"

definition digit_value :: "char \<Rightarrow> int" where
  "digit_value c = int (of_char c) - 48"

definition digits_value :: "string \<Rightarrow> int" where
  "digits_value s = foldl (\<lambda>n c. 10 * n + digit_value c) 0 s"

definition py_float_of :: "string \<Rightarrow> string + py_float" where
  "py_float_of s =
     (let whole = takeWhile (\<lambda>c. c \<noteq> CHR ''.'') s;
          frac = drop (Suc (length whole)) s
      in if list_all is_ascii_digit (whole @ frac) \<and> whole @ frac \<noteq> []
         then Inr (float_of_ratio (digits_value (whole @ frac)) (10 ^ length frac))
         else Inl (''could not convert string to float: '' @ py_repr s))"

text \<open>\<open>int(s)\<close>; Python refuses more than 4300 digits.\<close>

definition py_int_of :: "string \<Rightarrow> string + int" where
  "py_int_of s =
     (if list_all is_ascii_digit s \<and> s \<noteq> []
      then if length s \<le> 4300 then Inr (digits_value s)
           else Inl (''Exceeds the limit (4300 digits) for integer string conversion: value has ''
                     @ nat_to_string (length s)
                     @ '' digits; use sys.set_int_max_str_digits() to increase the limit'')
      else Inl (''invalid literal for int() with base 10: '' @ py_repr s))"

section \<open>Rounding is to the nearest\<close>

lemma round_half_even_nearest:
  assumes "0 < den"
  shows "2 * \<bar>round_half_even num den * den - num\<bar> \<le> den"
proof -
  define q where "q = num div den"
  define r where "r = num mod den"
  have num: "num = q * den + r" by (simp add: q_def r_def)
  have r: "0 \<le> r" "r < den" using assms by (simp_all add: r_def)
  show ?thesis
  proof (cases "den < 2 * r \<or> (2 * r = den \<and> q mod 2 = 1)")
    case True
    then have "round_half_even num den = q + 1"
      by (simp add: round_half_even_def Let_def q_def r_def)
    then have "round_half_even num den * den - num = den - r"
      by (simp add: num algebra_simps)
    then show ?thesis using True r by auto
  next
    case False
    then have "round_half_even num den = q"
      by (simp add: round_half_even_def Let_def q_def r_def)
    then have "round_half_even num den * den - num = - r"
      by (simp add: num)
    then show ?thesis using False r by auto
  qed
qed

end
