(* ===== verification/Ast.thy ===== *)
theory Ast
  imports Diagnostics Py_Float
begin

text \<open>
  \<^verbatim>\<open>src/quawk/ast.py\<close> and \<^verbatim>\<open>src/quawk/ast_walk.py\<close>: the abstract syntax tree, one datatype
  constructor per node class with the class's fields in order (the \<open>span\<close> last), the derived
  attributes, the conversion of an expression to an lvalue, and the child traversals.
\<close>

section \<open>Operators\<close>

datatype assign_op = AssignPlain | AssignAdd | AssignSub | AssignMul | AssignDiv | AssignMod
  | AssignPow

datatype binary_op = OpAdd | OpSub | OpMul | OpDiv | OpMod | OpPow
  | OpLess | OpLessEqual | OpGreater | OpGreaterEqual | OpEqual | OpNotEqual
  | OpLogicalAnd | OpLogicalOr | OpMatch | OpNotMatch | OpIn | OpConcat

datatype redirect_kind = RedirectWrite | RedirectAppend | RedirectPipe

datatype unary_op = UPlus | UMinus | UNot | PreInc | PreDec

datatype postfix_op = PostInc | PostDec

section \<open>Expressions and lvalues\<close>

datatype expr =
    StringLiteralExpr string string source_span
  | NumericLiteralExpr py_float string source_span
  | RegexLiteralExpr string source_span
  | NameExpr string source_span
  | FieldExpr field_index source_span
  | CallExpr string "expr list" source_span
  | ArrayIndexExpr string expr "expr list" source_span
  | GetlineExpr "lvalue option" "expr option" source_span
  | BinaryExpr expr binary_op expr source_span
  | ConditionalExpr expr expr expr source_span
  | AssignExpr lvalue assign_op expr source_span
  | UnaryExpr unary_op expr source_span
  | PostfixExpr expr postfix_op source_span
and lvalue =
    NameLValue string source_span
  | ArrayLValue string "expr list" source_span
  | FieldLValue expr source_span
and field_index = IntIndex int | ExprIndex expr

fun expr_span :: "expr \<Rightarrow> source_span" where
  "expr_span (StringLiteralExpr _ _ sp) = sp"
| "expr_span (NumericLiteralExpr _ _ sp) = sp"
| "expr_span (RegexLiteralExpr _ sp) = sp"
| "expr_span (NameExpr _ sp) = sp"
| "expr_span (FieldExpr _ sp) = sp"
| "expr_span (CallExpr _ _ sp) = sp"
| "expr_span (ArrayIndexExpr _ _ _ sp) = sp"
| "expr_span (GetlineExpr _ _ sp) = sp"
| "expr_span (BinaryExpr _ _ _ sp) = sp"
| "expr_span (ConditionalExpr _ _ _ sp) = sp"
| "expr_span (AssignExpr _ _ _ sp) = sp"
| "expr_span (UnaryExpr _ _ sp) = sp"
| "expr_span (PostfixExpr _ _ sp) = sp"

fun lvalue_span :: "lvalue \<Rightarrow> source_span" where
  "lvalue_span (NameLValue _ sp) = sp"
| "lvalue_span (ArrayLValue _ _ sp) = sp"
| "lvalue_span (FieldLValue _ sp) = sp"

text \<open>\<open>expression_to_lvalue\<close>; the index of a constant field becomes a numeric literal node, whose
  value is \<open>float(index)\<close> and whose text is \<open>str(index)\<close>.  \<open>float\<close> of an integer beyond the largest
  double raises \<open>OverflowError\<close>.\<close>

definition float_of_int :: "int \<Rightarrow> exn + py_float" where
  "float_of_int i =
     (case float_of_ratio i 1 of
        Infinity \<Rightarrow> Inl (OverflowError ''int too large to convert to float'')
      | Double m e \<Rightarrow> Inr (Double m e))"

fun expression_to_lvalue :: "expr \<Rightarrow> exn + lvalue option" where
  "expression_to_lvalue (NameExpr name sp) = Inr (Some (NameLValue name sp))"
| "expression_to_lvalue (ArrayIndexExpr array_name index extra sp) =
     Inr (Some (ArrayLValue array_name (index # extra) sp))"
| "expression_to_lvalue (FieldExpr (IntIndex i) sp) =
     bindE (float_of_int i) (\<lambda>v.
       Inr (Some (FieldLValue (NumericLiteralExpr v (int_to_string i) sp) sp)))"
| "expression_to_lvalue (FieldExpr (ExprIndex e) sp) = Inr (Some (FieldLValue e sp))"
| "expression_to_lvalue _ = Inr None"

section \<open>Statements\<close>

record output_redirect =
  or_kind :: redirect_kind
  or_target :: expr
  or_span :: source_span

datatype stmt =
    PrintStmt "expr list" source_span "output_redirect option"
  | PrintfStmt "expr list" source_span "output_redirect option"
  | AssignStmt lvalue assign_op expr source_span
  | BlockStmt "stmt list" source_span
  | BreakStmt source_span
  | ContinueStmt source_span
  | NextStmt source_span
  | NextFileStmt source_span
  | ExitStmt "expr option" source_span
  | ExprStmt expr source_span
  | DeleteStmt lvalue source_span
  | IfStmt expr stmt "stmt option" source_span
  | WhileStmt expr stmt source_span
  | DoWhileStmt stmt expr source_span
  | ForStmt "expr list" "expr option" "expr list" stmt source_span
  | ForInStmt string expr stmt source_span
  | ReturnStmt "expr option" source_span

fun stmt_span :: "stmt \<Rightarrow> source_span" where
  "stmt_span (PrintStmt _ sp _) = sp"
| "stmt_span (PrintfStmt _ sp _) = sp"
| "stmt_span (AssignStmt _ _ _ sp) = sp"
| "stmt_span (BlockStmt _ sp) = sp"
| "stmt_span (BreakStmt sp) = sp"
| "stmt_span (ContinueStmt sp) = sp"
| "stmt_span (NextStmt sp) = sp"
| "stmt_span (NextFileStmt sp) = sp"
| "stmt_span (ExitStmt _ sp) = sp"
| "stmt_span (ExprStmt _ sp) = sp"
| "stmt_span (DeleteStmt _ sp) = sp"
| "stmt_span (IfStmt _ _ _ sp) = sp"
| "stmt_span (WhileStmt _ _ sp) = sp"
| "stmt_span (DoWhileStmt _ _ sp) = sp"
| "stmt_span (ForStmt _ _ _ _ sp) = sp"
| "stmt_span (ForInStmt _ _ _ sp) = sp"
| "stmt_span (ReturnStmt _ sp) = sp"

text \<open>The attributes of \<open>AssignStmt\<close> (and \<open>DeleteStmt\<close>), which all read the target.\<close>

fun target_name :: "lvalue \<Rightarrow> string option" where
  "target_name (NameLValue name _) = Some name"
| "target_name (ArrayLValue name _ _) = Some name"
| "target_name _ = None"

fun target_index :: "lvalue \<Rightarrow> expr option" where
  "target_index (ArrayLValue _ (s # _) _) = Some s"
| "target_index _ = None"

fun target_extra_indexes :: "lvalue \<Rightarrow> expr list" where
  "target_extra_indexes (ArrayLValue _ subscripts _) = drop 1 subscripts"
| "target_extra_indexes _ = []"

fun target_field_index :: "lvalue \<Rightarrow> expr option" where
  "target_field_index (FieldLValue index _) = Some index"
| "target_field_index _ = None"

section \<open>Programs\<close>

record action =
  ac_statements :: "stmt list"
  ac_span :: source_span

datatype pattern =
    BeginPattern source_span
  | EndPattern source_span
  | ExprPattern expr source_span
  | RangePattern pattern pattern source_span

fun pattern_span :: "pattern \<Rightarrow> source_span" where
  "pattern_span (BeginPattern sp) = sp"
| "pattern_span (EndPattern sp) = sp"
| "pattern_span (ExprPattern _ sp) = sp"
| "pattern_span (RangePattern _ _ sp) = sp"

record function_def =
  fd_name :: string
  fd_params :: "string list"
  fd_param_spans :: "source_span list"
  fd_body :: action
  fd_span :: source_span

record pattern_action =
  pa_pattern :: "pattern option"
  pa_action :: "action option"
  pa_span :: source_span

datatype item = FunctionDef function_def | PatternAction pattern_action

fun item_span :: "item \<Rightarrow> source_span" where
  "item_span (FunctionDef f) = fd_span f"
| "item_span (PatternAction p) = pa_span p"

record program =
  pr_items :: "item list"
  pr_span :: source_span

section \<open>Traversal (\<^verbatim>\<open>ast_walk.py\<close>)\<close>

fun lvalue_expressions :: "lvalue \<Rightarrow> expr list" where
  "lvalue_expressions (ArrayLValue _ subscripts _) = subscripts"
| "lvalue_expressions (FieldLValue index _) = [index]"
| "lvalue_expressions (NameLValue _ _) = []"

fun expression_children :: "expr \<Rightarrow> expr list" where
  "expression_children (ArrayIndexExpr _ index extra _) = index # extra"
| "expression_children (BinaryExpr left _ right _) = [left, right]"
| "expression_children (ConditionalExpr test if_true if_false _) = [test, if_true, if_false]"
| "expression_children (AssignExpr target _ value _) = lvalue_expressions target @ [value]"
| "expression_children (UnaryExpr _ operand _) = [operand]"
| "expression_children (PostfixExpr operand _ _) = [operand]"
| "expression_children (FieldExpr (ExprIndex index) _) = [index]"
| "expression_children (FieldExpr (IntIndex _) _) = []"
| "expression_children (CallExpr _ args _) = args"
| "expression_children (GetlineExpr target source _) =
     (case target of None \<Rightarrow> [] | Some lv \<Rightarrow> lvalue_expressions lv)
     @ (case source of None \<Rightarrow> [] | Some e \<Rightarrow> [e])"
| "expression_children (StringLiteralExpr _ _ _) = []"
| "expression_children (NumericLiteralExpr _ _ _) = []"
| "expression_children (RegexLiteralExpr _ _) = []"
| "expression_children (NameExpr _ _) = []"

text \<open>Every recursion over the tree below terminates because children are smaller.\<close>

lemma lvalue_expressions_size [termination_simp]:
  "e \<in> set (lvalue_expressions lv) \<Longrightarrow> size e < size lv"
  by (cases lv) (auto dest: size_list_estimation' [OF _ le_refl] simp: less_Suc_eq_le)

lemma expression_children_size [termination_simp]:
  assumes "e' \<in> set (expression_children e)"
  shows "size e' < size e"
proof -
  have list: "x \<in> set xs \<Longrightarrow> size x < size_list size xs + 1 + n" for x :: expr and xs n
    using size_list_estimation' [of x xs "size x" size] by simp
  show ?thesis
    using assms
    by (cases e rule: expression_children.cases)
       (auto dest!: lvalue_expressions_size split: option.splits, auto dest!: list [where n = 0])
qed

section \<open>Examples\<close>

text \<open>The span of the nodes of the example programs: the start of an empty inline source.\<close>

definition inline_span :: source_span where
  "inline_span = mk_span (from_inline 0 []) (mk_point 0 0) (mk_point 0 0)"

end
