(* ===== verification/Parser.thy ===== *)
theory Parser
  imports Ast Tokens
begin

text \<open>
  \<^verbatim>\<open>src/quawk/parser.py\<close>: the recursive-descent parser.  Its state is the token list and an index;
  a method is a function from the state to an exception or to its result and the next state.

  The methods are mutually recursive.  Every cycle of the grammar that comes back to an
  expression or a statement goes through one of the entry points collected in the record \<open>recs\<close>;
  each method below takes that record as its first argument and is otherwise the source's code.
  \<open>rec_parsers\<close> ties the knot with a depth bound, and the loops carry the number of remaining
  tokens as theirs; the theory \<open>Parser_Total\<close> proves that neither bound is ever hit.
\<close>

section \<open>The state and its primitives\<close>

record parser =
  pz_tokens :: "token list"
  pz_index :: nat

type_synonym 'a parse = "parser \<Rightarrow> exn + 'a \<times> parser"

definition retP :: "'a \<Rightarrow> 'a parse" where
  "retP x p = Inr (x, p)"

definition bindP :: "'a parse \<Rightarrow> ('a \<Rightarrow> 'b parse) \<Rightarrow> 'b parse" where
  "bindP m f p = bindE (m p) (\<lambda>(x, p'). f x p')"

definition raiseP :: "exn \<Rightarrow> 'a parse" where
  "raiseP e p = Inl e"

definition liftP :: "exn + 'a \<Rightarrow> 'a parse" where
  "liftP r p = bindE r (\<lambda>x. Inr (x, p))"

definition remaining :: "parser \<Rightarrow> nat" where
  "remaining p = length (pz_tokens p) - pz_index p"

text \<open>A loop that is given the number of remaining tokens as its bound.\<close>

definition with_fuel :: "(nat \<Rightarrow> 'a parse) \<Rightarrow> 'a parse" where
  "with_fuel loop p = loop (remaining p) p"

definition current :: "token parse" where
  "current p =
     (case nth_opt (pz_tokens p) (pz_index p) of
        None \<Rightarrow> Inl IndexError
      | Some t \<Rightarrow> Inr (t, p))"

definition next_token :: "unit parse" where
  "next_token p = Inr ((), p\<lparr>pz_index := pz_index p + 1\<rparr>)"

definition advance :: "token parse" where
  "advance =
     bindP current (\<lambda>token.
       if tk_kind token \<noteq> TEof then bindP next_token (\<lambda>_. retP token) else retP token)"

definition current_kind :: "token_kind parse" where
  "current_kind = bindP current (\<lambda>token. retP (tk_kind token))"

definition check :: "token_kind \<Rightarrow> bool parse" where
  "check kind = bindP current (\<lambda>token. retP (tk_kind token = kind))"

definition peek_kind :: "token_kind parse" where
  "peek_kind p =
     (case nth_opt (pz_tokens p) (min (pz_index p + 1) (length (pz_tokens p) - 1)) of
        None \<Rightarrow> Inl IndexError
      | Some t \<Rightarrow> Inr (tk_kind t, p))"

definition expect :: "token_kind \<Rightarrow> token parse" where
  "expect kind =
     bindP current (\<lambda>token.
       if tk_kind token \<noteq> kind
       then raiseP (ParseError (''expected '' @ kind_name kind @ '', got '' @ kind_name (tk_kind token))
                     (tk_span token))
       else bindP next_token (\<lambda>_. retP token))"

function separators_loop :: "bool \<Rightarrow> bool parse" where
  "separators_loop consumed p =
     (case nth_opt (pz_tokens p) (pz_index p) of
        None \<Rightarrow> Inl IndexError
      | Some t \<Rightarrow>
          if tk_kind t = TNewline \<or> tk_kind t = TSemicolon
          then separators_loop True (p\<lparr>pz_index := pz_index p + 1\<rparr>)
          else Inr (consumed, p))"
  by pat_completeness auto
termination
  by (relation "measure (\<lambda>(b, p). remaining p)") (auto simp: remaining_def)

declare separators_loop.simps [simp del]

definition consume_separators :: "bool parse" where
  "consume_separators = separators_loop False"

definition is_statement_terminator :: "bool parse" where
  "is_statement_terminator =
     bindP current_kind (\<lambda>k. retP (k \<in> set [TRbrace, TNewline, TSemicolon]))"

definition PRINT_REDIRECT_START_KINDS :: "token_kind list" where
  "PRINT_REDIRECT_START_KINDS = [TGreater, TGreaterGreater, TPipe]"

definition is_output_redirect_start :: "bool parse" where
  "is_output_redirect_start =
     bindP current_kind (\<lambda>k. retP (k \<in> set PRINT_REDIRECT_START_KINDS))"

text \<open>\<open>token.text or ""\<close>.\<close>

definition text_of :: "token \<Rightarrow> string" where
  "text_of t = (case tk_text t of None \<Rightarrow> [] | Some s \<Rightarrow> s)"

section \<open>Token tables\<close>

definition ASSIGNMENT_TOKEN_KINDS :: "token_kind list" where
  "ASSIGNMENT_TOKEN_KINDS =
     [TEqual, TPlusEqual, TMinusEqual, TStarEqual, TSlashEqual, TPercentEqual, TCaretEqual]"

text \<open>The payload of the (unreachable) assertion message is the kind's name, not its \<open>repr\<close>.\<close>

definition assignment_op_from_token :: "token_kind \<Rightarrow> exn + assign_op" where
  "assignment_op_from_token kind =
     (case map_of [(TEqual, AssignPlain), (TPlusEqual, AssignAdd), (TMinusEqual, AssignSub),
                   (TStarEqual, AssignMul), (TSlashEqual, AssignDiv), (TPercentEqual, AssignMod),
                   (TCaretEqual, AssignPow)] kind of
        Some op \<Rightarrow> Inr op
      | None \<Rightarrow> Inl (AssertionError (''unhandled assignment token: '' @ kind_name kind)))"

definition comparison_op_from_token :: "token_kind \<Rightarrow> binary_op option" where
  "comparison_op_from_token =
     map_of [(TLess, OpLess), (TLessEqual, OpLessEqual), (TGreater, OpGreater),
             (TGreaterEqual, OpGreaterEqual), (TEqualEqual, OpEqual), (TNotEqual, OpNotEqual)]"

definition match_op_from_token :: "token_kind \<Rightarrow> binary_op option" where
  "match_op_from_token = map_of [(TMatch, OpMatch), (TNotMatch, OpNotMatch)]"

definition additive_op_from_token :: "token_kind \<Rightarrow> binary_op option" where
  "additive_op_from_token = map_of [(TPlus, OpAdd), (TMinus, OpSub)]"

definition multiplicative_op_from_token :: "token_kind \<Rightarrow> binary_op option" where
  "multiplicative_op_from_token = map_of [(TStar, OpMul), (TSlash, OpDiv), (TPercent, OpMod)]"

definition unary_op_from_token :: "token_kind \<Rightarrow> unary_op option" where
  "unary_op_from_token =
     map_of [(TPlus, UPlus), (TMinus, UMinus), (TBang, UNot), (TPlusPlus, PreInc),
             (TMinusMinus, PreDec)]"

definition postfix_op_from_token :: "token_kind \<Rightarrow> postfix_op option" where
  "postfix_op_from_token = map_of [(TPlusPlus, PostInc), (TMinusMinus, PostDec)]"

definition is_expression_start :: "token_kind \<Rightarrow> bool" where
  "is_expression_start kind \<longleftrightarrow>
     kind \<in> set [TString, TNumber, TRegex, TIdent, TDollar, TLparen, TPlus, TMinus, TBang,
                 TPlusPlus, TMinusMinus]"

section \<open>String literals\<close>

text \<open>The loop of \<open>decode_string_literal\<close> over the text between the quotes.\<close>

fun decode_loop :: "source_span \<Rightarrow> string \<Rightarrow> exn + string" where
  "decode_loop sp [] = Inr []"
| "decode_loop sp [c] =
     (if c = backslash
      then Inl (ParseError ''unterminated escape sequence in string literal'' sp)
      else Inr [c])"
| "decode_loop sp (c # escaped # rest) =
     (if c \<noteq> backslash then bindE (decode_loop sp (escaped # rest)) (\<lambda>s. Inr (c # s))
      else if escaped = backslash \<or> escaped = dquote
        then bindE (decode_loop sp rest) (\<lambda>s. Inr (escaped # s))
      else if escaped = CHR ''n'' then bindE (decode_loop sp rest) (\<lambda>s. Inr (newline # s))
      else if escaped = CHR ''t'' then bindE (decode_loop sp rest) (\<lambda>s. Inr (CHR 0x09 # s))
      else Inl (ParseError (''unsupported escape sequence: '' @ [backslash, escaped]) sp))"

definition decode_string_literal :: "token \<Rightarrow> exn + string" where
  "decode_string_literal token = decode_loop (tk_span token) (butlast (drop 1 (text_of token)))"

section \<open>Expressions\<close>

record recs =
  r_expression :: "token_kind list \<Rightarrow> expr parse"
  r_conditional :: "expr parse"
  r_power :: "expr parse"
  r_unary :: "expr parse"
  r_statement :: "stmt parse"

subsection \<open>Loops\<close>

text \<open>\<open>while\<close> a comma follows: skip it and parse one more element.\<close>

fun comma_loop :: "nat \<Rightarrow> 'a parse \<Rightarrow> 'a list parse" where
  "comma_loop 0 element p = Inl OutOfFuel"
| "comma_loop (Suc n) element p =
     bindP (check TComma) (\<lambda>more.
       if more then
         bindP advance (\<lambda>_.
         bindP element (\<lambda>x.
         bindP (comma_loop n element) (\<lambda>xs. retP (x # xs))))
       else retP []) p"

definition comma_separated :: "'a parse \<Rightarrow> 'a list parse" where
  "comma_separated element =
     bindP element (\<lambda>x. bindP (with_fuel (\<lambda>n. comma_loop n element)) (\<lambda>xs. retP (x # xs)))"

text \<open>The loop shared by the left-associative binary levels: \<open>op\<close> is the level's table.\<close>

fun binary_loop ::
    "nat \<Rightarrow> (token_kind \<Rightarrow> binary_op option) \<Rightarrow> token_kind list \<Rightarrow> expr parse \<Rightarrow> expr \<Rightarrow> expr parse"
where
  "binary_loop 0 op stop_kinds operand expression p = Inl OutOfFuel"
| "binary_loop (Suc n) op stop_kinds operand expression p =
     bindP current_kind (\<lambda>k.
       if k \<in> set stop_kinds then retP expression
       else case op k of
              None \<Rightarrow> retP expression
            | Some b \<Rightarrow>
                bindP advance (\<lambda>_.
                bindP operand (\<lambda>right.
                bindP (liftP (combineE (expr_span expression) (expr_span right))) (\<lambda>sp.
                  binary_loop n op stop_kinds operand (BinaryExpr expression b right sp))))) p"

definition binary_level ::
    "(token_kind \<Rightarrow> binary_op option) \<Rightarrow> token_kind list \<Rightarrow> expr parse \<Rightarrow> expr parse" where
  "binary_level op stop_kinds operand =
     bindP operand (\<lambda>e. with_fuel (\<lambda>n. binary_loop n op stop_kinds operand e))"

fun concat_loop :: "nat \<Rightarrow> expr parse \<Rightarrow> expr \<Rightarrow> expr parse" where
  "concat_loop 0 operand expression p = Inl OutOfFuel"
| "concat_loop (Suc n) operand expression p =
     bindP current_kind (\<lambda>k.
       if is_expression_start k then
         bindP operand (\<lambda>right.
         bindP (liftP (combineE (expr_span expression) (expr_span right))) (\<lambda>sp.
           concat_loop n operand (BinaryExpr expression OpConcat right sp)))
       else retP expression) p"

subsection \<open>Lvalues, calls and primaries\<close>

definition parse_parenthesized_expression :: "recs \<Rightarrow> expr parse" where
  "parse_parenthesized_expression rec =
     bindP (expect TLparen) (\<lambda>_.
     bindP (r_expression rec []) (\<lambda>expression.
     bindP (expect TRparen) (\<lambda>_. retP expression)))"

definition parse_array_subscripts :: "recs \<Rightarrow> (token \<times> expr list \<times> token) parse" where
  "parse_array_subscripts rec =
     bindP (expect TLbracket) (\<lambda>lbracket_token.
     bindP (comma_separated (r_expression rec [])) (\<lambda>subscripts.
     bindP (expect TRbracket) (\<lambda>rbracket_token.
       retP (lbracket_token, subscripts, rbracket_token))))"

definition parse_lvalue :: "recs \<Rightarrow> lvalue parse" where
  "parse_lvalue rec =
     bindP current (\<lambda>token.
       if tk_kind token = TIdent then
         bindP advance (\<lambda>name_token.
         bindP (check TLbracket) (\<lambda>indexed.
           if \<not> indexed then retP (NameLValue (text_of name_token) (tk_span name_token))
           else
             bindP (parse_array_subscripts rec) (\<lambda>(_, subscripts, rbracket_token).
             bindP (liftP (combineE (tk_span name_token) (tk_span rbracket_token))) (\<lambda>sp.
               retP (ArrayLValue (text_of name_token) subscripts sp)))))
       else if tk_kind token = TDollar then
         bindP advance (\<lambda>dollar_token.
         bindP (r_expression rec []) (\<lambda>index.
         bindP (liftP (combineE (tk_span dollar_token) (expr_span index))) (\<lambda>sp.
           retP (FieldLValue index sp))))
       else raiseP (ParseError (''expected lvalue, got '' @ kind_name (tk_kind token))
                     (tk_span token)))"

definition getline_end :: "token \<Rightarrow> lvalue option \<Rightarrow> expr option \<Rightarrow> source_span" where
  "getline_end getline_token target source =
     (case source of
        Some s \<Rightarrow> expr_span s
      | None \<Rightarrow> (case target of Some t \<Rightarrow> lvalue_span t | None \<Rightarrow> tk_span getline_token))"

definition getline_target :: "recs \<Rightarrow> lvalue option parse" where
  "getline_target rec =
     bindP current_kind (\<lambda>k.
       if k \<in> set [TIdent, TDollar] then bindP (parse_lvalue rec) (\<lambda>t. retP (Some t))
       else retP None)"

definition getline_source :: "recs \<Rightarrow> expr option parse" where
  "getline_source rec =
     bindP (check TLess) (\<lambda>redirected.
       if redirected
       then bindP advance (\<lambda>_. bindP (r_expression rec []) (\<lambda>s. retP (Some s)))
       else retP None)"

definition parse_getline_expression :: "recs \<Rightarrow> expr parse" where
  "parse_getline_expression rec =
     bindP (expect TIdent) (\<lambda>getline_token.
     bindP (if tk_text getline_token = Some ''getline'' then retP () else raiseP (AssertionError []))
       (\<lambda>_.
     bindP (check TLess) (\<lambda>from_file.
       if from_file then
         bindP advance (\<lambda>_.
         bindP (r_expression rec []) (\<lambda>source.
         bindP (liftP (combineE (tk_span getline_token) (expr_span source))) (\<lambda>sp.
           retP (GetlineExpr None (Some source) sp))))
       else
         bindP (getline_target rec) (\<lambda>target.
         bindP (getline_source rec) (\<lambda>source.
         bindP (liftP (combineE (tk_span getline_token) (getline_end getline_token target source)))
           (\<lambda>sp. retP (GetlineExpr target source sp)))))))"

definition parse_call_expression :: "recs \<Rightarrow> expr parse" where
  "parse_call_expression rec =
     bindP (expect TIdent) (\<lambda>name_token.
     bindP (expect TLparen) (\<lambda>_.
     bindP (check TRparen) (\<lambda>no_args.
     bindP (if \<not> no_args then comma_separated (r_expression rec []) else retP []) (\<lambda>args.
     bindP (expect TRparen) (\<lambda>rparen_token.
     bindP (liftP (combineE (tk_span name_token) (tk_span rparen_token))) (\<lambda>sp.
       retP (CallExpr (text_of name_token) args sp)))))))"

definition parse_array_index_expression :: "recs \<Rightarrow> expr parse" where
  "parse_array_index_expression rec =
     bindP (expect TIdent) (\<lambda>name_token.
     bindP (parse_array_subscripts rec) (\<lambda>(_, subscripts, rbracket_token).
       case subscripts of
         [] \<Rightarrow> raiseP IndexError
       | index # extra_indexes \<Rightarrow>
           bindP (liftP (combineE (tk_span name_token) (tk_span rbracket_token))) (\<lambda>sp.
             retP (ArrayIndexExpr (text_of name_token) index extra_indexes sp))))"

text \<open>The constant fields \<open>$1\<close> are recognised on the parsed operand of \<open>$\<close>.\<close>

definition field_of_operand :: "token \<Rightarrow> expr \<Rightarrow> exn + expr" where
  "field_of_operand dollar_token index_expression =
     (case index_expression of
        NumericLiteralExpr v raw_text isp \<Rightarrow>
          if CHR ''.'' \<notin> set raw_text then
            bindE (case py_int_of raw_text of Inl m \<Rightarrow> Inl (ValueError m) | Inr i \<Rightarrow> Inr i) (\<lambda>i.
            bindE (combineE (tk_span dollar_token) isp) (\<lambda>sp. Inr (FieldExpr (IntIndex i) sp)))
          else bindE (combineE (tk_span dollar_token) isp) (\<lambda>sp.
                 Inr (FieldExpr (ExprIndex index_expression) sp))
      | _ \<Rightarrow> bindE (combineE (tk_span dollar_token) (expr_span index_expression)) (\<lambda>sp.
               Inr (FieldExpr (ExprIndex index_expression) sp)))"

definition parse_primary_expression :: "recs \<Rightarrow> expr parse" where
  "parse_primary_expression rec =
     bindP current (\<lambda>token.
       if tk_kind token = TString then
         bindP advance (\<lambda>literal_token.
         bindP (liftP (decode_string_literal literal_token)) (\<lambda>value.
           retP (StringLiteralExpr value (text_of literal_token) (tk_span literal_token))))
       else if tk_kind token = TNumber then
         bindP advance (\<lambda>literal_token.
         bindP (liftP (case py_float_of (text_of literal_token) of
                         Inl m \<Rightarrow> Inl (ValueError m) | Inr v \<Rightarrow> Inr v)) (\<lambda>value.
           retP (NumericLiteralExpr value (text_of literal_token) (tk_span literal_token))))
       else if tk_kind token = TRegex then
         bindP advance (\<lambda>regex_token.
           retP (RegexLiteralExpr (text_of regex_token) (tk_span regex_token)))
       else if tk_kind token = TIdent then
         (if tk_text token = Some ''getline'' then parse_getline_expression rec
          else
            bindP peek_kind (\<lambda>following.
              if following = TLparen then parse_call_expression rec
              else if following = TLbracket then parse_array_index_expression rec
              else if tk_text token = Some ''length'' then
                bindP advance (\<lambda>name_token. retP (CallExpr ''length'' [] (tk_span name_token)))
              else
                bindP advance (\<lambda>name_token.
                  retP (NameExpr (text_of name_token) (tk_span name_token)))))
       else if tk_kind token = TDollar then
         bindP advance (\<lambda>dollar_token.
         bindP (r_unary rec) (\<lambda>index_expression.
           liftP (field_of_operand dollar_token index_expression)))
       else if tk_kind token = TLparen then parse_parenthesized_expression rec
       else raiseP (ParseError (''expected expression, got '' @ kind_name (tk_kind token))
                     (tk_span token)))"

subsection \<open>Operator levels, tightest first\<close>

definition parse_postfix_expression :: "recs \<Rightarrow> expr parse" where
  "parse_postfix_expression rec =
     bindP (parse_primary_expression rec) (\<lambda>expression.
     bindP current_kind (\<lambda>k.
       case postfix_op_from_token k of
         None \<Rightarrow> retP expression
       | Some op \<Rightarrow>
           bindP advance (\<lambda>token.
           bindP (liftP (combineE (expr_span expression) (tk_span token))) (\<lambda>sp.
             retP (PostfixExpr expression op sp)))))"

definition parse_unary_expression :: "recs \<Rightarrow> expr parse" where
  "parse_unary_expression rec =
     bindP current_kind (\<lambda>k.
       case unary_op_from_token k of
         Some op \<Rightarrow>
           bindP advance (\<lambda>token.
           bindP (r_unary rec) (\<lambda>operand.
           bindP (liftP (combineE (tk_span token) (expr_span operand))) (\<lambda>sp.
             retP (UnaryExpr op operand sp))))
       | None \<Rightarrow> parse_postfix_expression rec)"

definition parse_power_expression :: "recs \<Rightarrow> expr parse" where
  "parse_power_expression rec =
     bindP (parse_unary_expression rec) (\<lambda>expression.
     bindP (check TCaret) (\<lambda>power.
       if \<not> power then retP expression
       else
         bindP advance (\<lambda>_.
         bindP (r_power rec) (\<lambda>right.
         bindP (liftP (combineE (expr_span expression) (expr_span right))) (\<lambda>sp.
           retP (BinaryExpr expression OpPow right sp))))))"

definition parse_multiplicative_expression :: "recs \<Rightarrow> expr parse" where
  "parse_multiplicative_expression rec =
     binary_level multiplicative_op_from_token [] (parse_power_expression rec)"

definition parse_additive_expression :: "recs \<Rightarrow> expr parse" where
  "parse_additive_expression rec =
     binary_level additive_op_from_token [] (parse_multiplicative_expression rec)"

definition parse_concat_expression :: "recs \<Rightarrow> expr parse" where
  "parse_concat_expression rec =
     bindP (parse_additive_expression rec) (\<lambda>e.
       with_fuel (\<lambda>n. concat_loop n (parse_additive_expression rec) e))"

definition parse_in_expression :: "recs \<Rightarrow> expr parse" where
  "parse_in_expression rec =
     bindP (parse_concat_expression rec) (\<lambda>expression.
     bindP (check TIn) (\<lambda>membership.
       if \<not> membership then retP expression
       else
         bindP advance (\<lambda>_.
         bindP (parse_concat_expression rec) (\<lambda>right.
         bindP (liftP (combineE (expr_span expression) (expr_span right))) (\<lambda>sp.
           retP (BinaryExpr expression OpIn right sp))))))"

definition parse_match_expression :: "recs \<Rightarrow> expr parse" where
  "parse_match_expression rec = binary_level match_op_from_token [] (parse_in_expression rec)"

definition parse_comparison_expression :: "recs \<Rightarrow> token_kind list \<Rightarrow> expr parse" where
  "parse_comparison_expression rec stop_kinds =
     binary_level comparison_op_from_token stop_kinds (parse_match_expression rec)"

definition parse_logical_and_expression :: "recs \<Rightarrow> token_kind list \<Rightarrow> expr parse" where
  "parse_logical_and_expression rec stop_kinds =
     binary_level (\<lambda>k. if k = TAndAnd then Some OpLogicalAnd else None) []
       (parse_comparison_expression rec stop_kinds)"

definition parse_logical_or_expression :: "recs \<Rightarrow> token_kind list \<Rightarrow> expr parse" where
  "parse_logical_or_expression rec stop_kinds =
     binary_level (\<lambda>k. if k = TOrOr then Some OpLogicalOr else None) []
       (parse_logical_and_expression rec stop_kinds)"

definition parse_conditional_expression :: "recs \<Rightarrow> token_kind list \<Rightarrow> expr parse" where
  "parse_conditional_expression rec stop_kinds =
     bindP (parse_logical_or_expression rec stop_kinds) (\<lambda>expression.
     bindP (check TQuestion) (\<lambda>question.
       if \<not> question then retP expression
       else
         bindP advance (\<lambda>_.
         bindP (r_expression rec []) (\<lambda>if_true.
         bindP (expect TColon) (\<lambda>_.
         bindP (r_conditional rec) (\<lambda>if_false.
         bindP (liftP (combineE (expr_span expression) (expr_span if_false))) (\<lambda>sp.
           retP (ConditionalExpr expression if_true if_false sp))))))))"

definition parse_assignment_expression :: "recs \<Rightarrow> token_kind list \<Rightarrow> expr parse" where
  "parse_assignment_expression rec stop_kinds =
     bindP (parse_conditional_expression rec stop_kinds) (\<lambda>expression.
     bindP current_kind (\<lambda>k.
       if k \<in> set ASSIGNMENT_TOKEN_KINDS then
         bindP (liftP (expression_to_lvalue expression)) (\<lambda>target.
           case target of
             None \<Rightarrow>
               raiseP (ParseError ''expected assignable expression on left-hand side''
                         (expr_span expression))
           | Some lv \<Rightarrow>
               bindP advance (\<lambda>op_token.
               bindP (r_expression rec []) (\<lambda>value.
               bindP (liftP (assignment_op_from_token (tk_kind op_token))) (\<lambda>op.
               bindP (liftP (combineE (expr_span expression) (expr_span value))) (\<lambda>sp.
                 retP (AssignExpr lv op value sp))))))
       else retP expression))"

definition parse_expression :: "recs \<Rightarrow> token_kind list \<Rightarrow> expr parse" where
  "parse_expression rec stop_kinds = parse_assignment_expression rec stop_kinds"

definition parse_expression_list :: "recs \<Rightarrow> token_kind list \<Rightarrow> expr list parse" where
  "parse_expression_list rec stop_kinds = comma_separated (parse_expression rec stop_kinds)"

section \<open>Statements\<close>

definition parse_output_redirect :: "recs \<Rightarrow> output_redirect parse" where
  "parse_output_redirect rec =
     bindP advance (\<lambda>token.
     bindP (if tk_kind token = TGreater then retP RedirectWrite
            else if tk_kind token = TGreaterGreater then retP RedirectAppend
            else if tk_kind token = TPipe then retP RedirectPipe
            else raiseP (ParseError (''expected output redirect, got '' @ kind_name (tk_kind token))
                          (tk_span token))) (\<lambda>kind.
     bindP (parse_expression rec []) (\<lambda>target.
     bindP (liftP (combineE (tk_span token) (expr_span target))) (\<lambda>sp.
       retP \<lparr>or_kind = kind, or_target = target, or_span = sp\<rparr>))))"

definition optional_redirect :: "recs \<Rightarrow> output_redirect option parse" where
  "optional_redirect rec =
     bindP is_output_redirect_start (\<lambda>starts.
       if starts then bindP (parse_output_redirect rec) (\<lambda>r. retP (Some r)) else retP None)"

text \<open>\<open>redirect.span if redirect is not None else ...\<close>.\<close>

definition redirect_end :: "output_redirect option \<Rightarrow> source_span option \<Rightarrow> exn + source_span" where
  "redirect_end redirect otherwise =
     (case redirect of
        Some r \<Rightarrow> Inr (or_span r)
      | None \<Rightarrow> (case otherwise of Some sp \<Rightarrow> Inr sp | None \<Rightarrow> Inl IndexError))"

definition last_span :: "expr list \<Rightarrow> source_span option" where
  "last_span arguments = (if arguments = [] then None else Some (expr_span (last arguments)))"

definition parse_print_statement :: "recs \<Rightarrow> stmt parse" where
  "parse_print_statement rec =
     bindP (expect TPrint) (\<lambda>print_token.
     bindP is_statement_terminator (\<lambda>empty.
       if empty then retP (PrintStmt [] (tk_span print_token) None)
       else
         bindP is_output_redirect_start (\<lambda>starts.
         bindP (if \<not> starts then parse_expression_list rec PRINT_REDIRECT_START_KINDS else retP [])
           (\<lambda>arguments.
         bindP (optional_redirect rec) (\<lambda>redirect.
         bindP (liftP (redirect_end redirect (last_span arguments))) (\<lambda>statement_end.
         bindP (liftP (combineE (tk_span print_token) statement_end)) (\<lambda>sp.
           retP (PrintStmt arguments sp redirect))))))))"

definition parse_printf_statement :: "recs \<Rightarrow> stmt parse" where
  "parse_printf_statement rec =
     bindP (expect TPrintf) (\<lambda>printf_token.
     bindP (check TLparen) (\<lambda>parenthesized.
     bindP (if parenthesized then
              bindP advance (\<lambda>_.
              bindP (parse_expression_list rec [TRparen]) (\<lambda>arguments.
              bindP (expect TRparen) (\<lambda>rparen_token.
                retP (arguments, Some (tk_span rparen_token)))))
            else
              bindP (parse_expression_list rec PRINT_REDIRECT_START_KINDS) (\<lambda>arguments.
                retP (arguments, last_span arguments))) (\<lambda>(arguments, statement_end_span).
     bindP (optional_redirect rec) (\<lambda>redirect.
     bindP (liftP (redirect_end redirect statement_end_span)) (\<lambda>statement_end.
     bindP (liftP (combineE (tk_span printf_token) statement_end)) (\<lambda>sp.
       retP (PrintfStmt arguments sp redirect)))))))"

definition statement_of_expression :: "expr \<Rightarrow> stmt" where
  "statement_of_expression e =
     (case e of
        AssignExpr target op value sp \<Rightarrow> AssignStmt target op value sp
      | _ \<Rightarrow> ExprStmt e (expr_span e))"

definition parse_expression_statement :: "recs \<Rightarrow> stmt parse" where
  "parse_expression_statement rec =
     bindP (parse_expression rec []) (\<lambda>e. retP (statement_of_expression e))"

text \<open>Nothing calls \<open>parse_assignment_statement\<close>.\<close>

definition parse_assignment_statement :: "recs \<Rightarrow> stmt parse" where
  "parse_assignment_statement rec =
     bindP (parse_expression rec []) (\<lambda>e.
       case e of
         AssignExpr target op value sp \<Rightarrow> retP (AssignStmt target op value sp)
       | _ \<Rightarrow> raiseP (ParseError ''expected assignment expression'' (expr_span e)))"

definition parse_delete_statement :: "recs \<Rightarrow> stmt parse" where
  "parse_delete_statement rec =
     bindP (expect TDelete) (\<lambda>delete_token.
     bindP (parse_lvalue rec) (\<lambda>target.
     bindP (liftP (combineE (tk_span delete_token) (lvalue_span target))) (\<lambda>sp.
       retP (DeleteStmt target sp))))"

text \<open>The statements that are one keyword, or a keyword and an optional value.\<close>

definition parse_keyword_statement :: "token_kind \<Rightarrow> (source_span \<Rightarrow> stmt) \<Rightarrow> stmt parse" where
  "parse_keyword_statement kind node =
     bindP (expect kind) (\<lambda>token. retP (node (tk_span token)))"

definition parse_value_statement ::
    "recs \<Rightarrow> token_kind \<Rightarrow> (expr option \<Rightarrow> source_span \<Rightarrow> stmt) \<Rightarrow> stmt parse" where
  "parse_value_statement rec kind node =
     bindP (expect kind) (\<lambda>token.
     bindP is_statement_terminator (\<lambda>bare.
       if bare then retP (node None (tk_span token))
       else
         bindP (parse_expression rec []) (\<lambda>value.
         bindP (liftP (combineE (tk_span token) (expr_span value))) (\<lambda>sp.
           retP (node (Some value) sp)))))"

definition parse_break_statement :: "stmt parse" where
  "parse_break_statement = parse_keyword_statement TBreak BreakStmt"

definition parse_continue_statement :: "stmt parse" where
  "parse_continue_statement = parse_keyword_statement TContinue ContinueStmt"

definition parse_next_statement :: "stmt parse" where
  "parse_next_statement = parse_keyword_statement TNext NextStmt"

definition parse_nextfile_statement :: "stmt parse" where
  "parse_nextfile_statement = parse_keyword_statement TNextfile NextFileStmt"

definition parse_exit_statement :: "recs \<Rightarrow> stmt parse" where
  "parse_exit_statement rec = parse_value_statement rec TExit ExitStmt"

definition parse_return_statement :: "recs \<Rightarrow> stmt parse" where
  "parse_return_statement rec = parse_value_statement rec TReturn ReturnStmt"

subsection \<open>Blocks and control flow\<close>

fun statements_loop :: "nat \<Rightarrow> recs \<Rightarrow> stmt list parse" where
  "statements_loop 0 rec p = Inl OutOfFuel"
| "statements_loop (Suc n) rec p =
     bindP consume_separators (\<lambda>separated.
       if \<not> separated then retP []
       else
         bindP (check TRbrace) (\<lambda>closing.
           if closing then retP []
           else
             bindP (r_statement rec) (\<lambda>s.
             bindP (statements_loop n rec) (\<lambda>rest. retP (s # rest))))) p"

definition parse_braced_statements :: "recs \<Rightarrow> (token \<times> stmt list \<times> token) parse" where
  "parse_braced_statements rec =
     bindP (expect TLbrace) (\<lambda>lbrace_token.
     bindP consume_separators (\<lambda>_.
     bindP (check TRbrace) (\<lambda>empty.
     bindP (if \<not> empty then
              bindP (r_statement rec) (\<lambda>s.
              bindP (with_fuel (\<lambda>n. statements_loop n rec)) (\<lambda>rest. retP (s # rest)))
            else retP []) (\<lambda>statements.
     bindP (expect TRbrace) (\<lambda>rbrace_token.
       retP (lbrace_token, statements, rbrace_token))))))"

definition parse_block_statement :: "recs \<Rightarrow> stmt parse" where
  "parse_block_statement rec =
     bindP (parse_braced_statements rec) (\<lambda>(lbrace_token, statements, rbrace_token).
     bindP (liftP (combineE (tk_span lbrace_token) (tk_span rbrace_token))) (\<lambda>sp.
       retP (BlockStmt statements sp)))"

definition parse_do_while_statement :: "recs \<Rightarrow> stmt parse" where
  "parse_do_while_statement rec =
     bindP (expect TDo) (\<lambda>do_token.
     bindP consume_separators (\<lambda>_.
     bindP (r_statement rec) (\<lambda>body.
     bindP consume_separators (\<lambda>_.
     bindP (expect TWhile) (\<lambda>_.
     bindP (parse_parenthesized_expression rec) (\<lambda>condition.
     bindP (liftP (combineE (tk_span do_token) (expr_span condition))) (\<lambda>sp.
       retP (DoWhileStmt body condition sp))))))))"

definition parse_while_statement :: "recs \<Rightarrow> stmt parse" where
  "parse_while_statement rec =
     bindP (expect TWhile) (\<lambda>while_token.
     bindP (parse_parenthesized_expression rec) (\<lambda>condition.
     bindP consume_separators (\<lambda>_.
     bindP (r_statement rec) (\<lambda>body.
     bindP (liftP (combineE (tk_span while_token) (stmt_span body))) (\<lambda>sp.
       retP (WhileStmt condition body sp))))))"

definition parse_for_in_tail :: "recs \<Rightarrow> token \<Rightarrow> stmt parse" where
  "parse_for_in_tail rec for_token =
     bindP (expect TIdent) (\<lambda>name_token.
     bindP (expect TIn) (\<lambda>_.
     bindP (parse_expression rec []) (\<lambda>iterable.
     bindP (expect TRparen) (\<lambda>_.
     bindP consume_separators (\<lambda>_.
     bindP (r_statement rec) (\<lambda>body.
     bindP (liftP (combineE (tk_span for_token) (stmt_span body))) (\<lambda>sp.
       retP (ForInStmt (text_of name_token) iterable body sp))))))))"

definition optional_list :: "recs \<Rightarrow> token_kind \<Rightarrow> expr list parse" where
  "optional_list rec terminator =
     bindP (check terminator) (\<lambda>absent.
       if \<not> absent then parse_expression_list rec [] else retP [])"

definition parse_classic_for_tail :: "recs \<Rightarrow> token \<Rightarrow> stmt parse" where
  "parse_classic_for_tail rec for_token =
     bindP (optional_list rec TSemicolon) (\<lambda>init.
     bindP (expect TSemicolon) (\<lambda>_.
     bindP (check TSemicolon) (\<lambda>unconditional.
     bindP (if \<not> unconditional then bindP (parse_expression rec []) (\<lambda>c. retP (Some c)) else retP None)
       (\<lambda>condition.
     bindP (expect TSemicolon) (\<lambda>_.
     bindP (optional_list rec TRparen) (\<lambda>update.
     bindP (expect TRparen) (\<lambda>_.
     bindP consume_separators (\<lambda>_.
     bindP (r_statement rec) (\<lambda>body.
     bindP (liftP (combineE (tk_span for_token) (stmt_span body))) (\<lambda>sp.
       retP (ForStmt init condition update body sp)))))))))))"

definition parse_for_statement :: "recs \<Rightarrow> stmt parse" where
  "parse_for_statement rec =
     bindP (expect TFor) (\<lambda>for_token.
     bindP (expect TLparen) (\<lambda>_.
     bindP (check TIdent) (\<lambda>name.
     bindP peek_kind (\<lambda>following.
       if name \<and> following = TIn then parse_for_in_tail rec for_token
       else parse_classic_for_tail rec for_token))))"

text \<open>The parser looks past the separators for an \<open>else\<close> and goes back when there is none.\<close>

definition parse_else_branch :: "recs \<Rightarrow> stmt option parse" where
  "parse_else_branch rec p0 =
     bindP consume_separators (\<lambda>_.
     bindP (check TElse) (\<lambda>has_else.
       if has_else then
         bindP advance (\<lambda>_.
         bindP consume_separators (\<lambda>_.
         bindP (r_statement rec) (\<lambda>s. retP (Some s))))
       else (\<lambda>p. Inr (None, p\<lparr>pz_index := pz_index p0\<rparr>)))) p0"

definition parse_if_statement :: "recs \<Rightarrow> stmt parse" where
  "parse_if_statement rec =
     bindP (expect TIf) (\<lambda>if_token.
     bindP (parse_parenthesized_expression rec) (\<lambda>condition.
     bindP consume_separators (\<lambda>_.
     bindP (r_statement rec) (\<lambda>then_branch.
     bindP (parse_else_branch rec) (\<lambda>else_branch.
     bindP (liftP (combineE (tk_span if_token)
              (stmt_span (case else_branch of Some s \<Rightarrow> s | None \<Rightarrow> then_branch)))) (\<lambda>sp.
       retP (IfStmt condition then_branch else_branch sp)))))))"

definition parse_statement :: "recs \<Rightarrow> stmt parse" where
  "parse_statement rec =
     bindP current (\<lambda>token.
       let k = tk_kind token in
       if k = TLbrace then parse_block_statement rec
       else if k = TBreak then parse_break_statement
       else if k = TContinue then parse_continue_statement
       else if k = TDelete then parse_delete_statement rec
       else if k = TDo then parse_do_while_statement rec
       else if k = TExit then parse_exit_statement rec
       else if k = TFor then parse_for_statement rec
       else if k = TIf then parse_if_statement rec
       else if k = TNext then parse_next_statement
       else if k = TNextfile then parse_nextfile_statement
       else if k = TPrint then parse_print_statement rec
       else if k = TPrintf then parse_printf_statement rec
       else if k = TReturn then parse_return_statement rec
       else if k = TWhile then parse_while_statement rec
       else if \<not> is_expression_start k then
         raiseP (ParseError (''expected statement, got '' @ kind_name k) (tk_span token))
       else parse_expression_statement rec)"

section \<open>The recursive knot\<close>

definition tie :: "recs \<Rightarrow> recs" where
  "tie rec =
     \<lparr>r_expression = parse_assignment_expression rec,
      r_conditional = parse_conditional_expression rec [],
      r_power = parse_power_expression rec,
      r_unary = parse_unary_expression rec,
      r_statement = parse_statement rec\<rparr>"

primrec rec_parsers :: "nat \<Rightarrow> recs" where
  "rec_parsers 0 =
     \<lparr>r_expression = (\<lambda>_. raiseP OutOfFuel), r_conditional = raiseP OutOfFuel,
      r_power = raiseP OutOfFuel, r_unary = raiseP OutOfFuel, r_statement = raiseP OutOfFuel\<rparr>"
| "rec_parsers (Suc n) = tie (rec_parsers n)"

section \<open>Items and programs\<close>

definition parse_action :: "recs \<Rightarrow> action parse" where
  "parse_action rec =
     bindP (parse_braced_statements rec) (\<lambda>(lbrace_token, statements, rbrace_token).
     bindP (liftP (combineE (tk_span lbrace_token) (tk_span rbrace_token))) (\<lambda>sp.
       retP \<lparr>ac_statements = statements, ac_span = sp\<rparr>))"

definition parse_parameter_list :: "(string list \<times> source_span list) parse" where
  "parse_parameter_list =
     bindP (check TRparen) (\<lambda>none.
       if none then retP ([], [])
       else
         bindP (comma_separated (expect TIdent)) (\<lambda>names.
           retP (map text_of names, map tk_span names)))"

definition parse_function_definition :: "recs \<Rightarrow> item parse" where
  "parse_function_definition rec =
     bindP (expect TFunction) (\<lambda>function_token.
     bindP (expect TIdent) (\<lambda>name_token.
     bindP (expect TLparen) (\<lambda>_.
     bindP parse_parameter_list (\<lambda>(params, param_spans).
     bindP (expect TRparen) (\<lambda>_.
     bindP (parse_action rec) (\<lambda>body.
     bindP (liftP (combineE (tk_span function_token) (ac_span body))) (\<lambda>sp.
       retP (FunctionDef \<lparr>fd_name = text_of name_token, fd_params = params,
               fd_param_spans = param_spans, fd_body = body, fd_span = sp\<rparr>))))))))"

definition parse_pattern_atom :: "recs \<Rightarrow> pattern parse" where
  "parse_pattern_atom rec =
     bindP current_kind (\<lambda>k.
       if k = TBegin then bindP advance (\<lambda>t. retP (BeginPattern (tk_span t)))
       else if k = TEnd then bindP advance (\<lambda>t. retP (EndPattern (tk_span t)))
       else bindP (parse_expression rec []) (\<lambda>e. retP (ExprPattern e (expr_span e))))"

definition parse_pattern :: "recs \<Rightarrow> pattern parse" where
  "parse_pattern rec =
     bindP (parse_pattern_atom rec) (\<lambda>left.
     bindP (check TComma) (\<lambda>range.
       if range then
         bindP advance (\<lambda>_.
         bindP (parse_pattern_atom rec) (\<lambda>right.
         bindP (liftP (combineE (pattern_span left) (pattern_span right))) (\<lambda>sp.
           retP (RangePattern left right sp))))
       else retP left))"

definition parse_pattern_action :: "recs \<Rightarrow> item parse" where
  "parse_pattern_action rec =
     bindP (check TLbrace) (\<lambda>bare.
       if bare then
         bindP (parse_action rec) (\<lambda>a.
           retP (PatternAction \<lparr>pa_pattern = None, pa_action = Some a, pa_span = ac_span a\<rparr>))
       else
         bindP (parse_pattern rec) (\<lambda>pat.
         bindP (check TLbrace) (\<lambda>braced.
           if braced then
             bindP (parse_action rec) (\<lambda>a.
             bindP (liftP (combineE (pattern_span pat) (ac_span a))) (\<lambda>sp.
               retP (PatternAction \<lparr>pa_pattern = Some pat, pa_action = Some a, pa_span = sp\<rparr>)))
           else
             retP (PatternAction \<lparr>pa_pattern = Some pat, pa_action = None,
                     pa_span = pattern_span pat\<rparr>))))"

definition parse_item :: "recs \<Rightarrow> item parse" where
  "parse_item rec =
     bindP (check TFunction) (\<lambda>f.
       if f then parse_function_definition rec else parse_pattern_action rec)"

fun items_loop :: "nat \<Rightarrow> recs \<Rightarrow> item list parse" where
  "items_loop 0 rec p = Inl OutOfFuel"
| "items_loop (Suc n) rec p =
     bindP (check TEof) (\<lambda>done.
       if done then retP []
       else
         bindP (parse_item rec) (\<lambda>i.
         bindP consume_separators (\<lambda>_.
         bindP (items_loop n rec) (\<lambda>is. retP (i # is))))) p"

text \<open>\<open>parse_program\<close>.  When there is no item the message of the error it means to raise reads the
  token after EOF.\<close>

definition parse_program :: "recs \<Rightarrow> program parse" where
  "parse_program rec =
     bindP consume_separators (\<lambda>_.
     bindP (with_fuel (\<lambda>n. items_loop n rec)) (\<lambda>items.
     bindP (expect TEof) (\<lambda>_.
       case items of
         [] \<Rightarrow>
           bindP current (\<lambda>token.
             raiseP (ParseError (''expected pattern-action, got '' @ kind_name (tk_kind token))
                       (tk_span token)))
       | first # _ \<Rightarrow>
           bindP (liftP (combineE (item_span first) (item_span (last items)))) (\<lambda>sp.
             retP \<lparr>pr_items = items, pr_span = sp\<rparr>))))"

definition parse_tokens :: "token list \<Rightarrow> exn + program \<times> parser" where
  "parse_tokens tokens =
     parse_program (rec_parsers (length tokens)) \<lparr>pz_tokens = tokens, pz_index = 0\<rparr>"

definition parse :: "token list \<Rightarrow> exn + program" where
  "parse tokens = bindE (parse_tokens tokens) (\<lambda>(prog, _). Inr prog)"

end
