(* ===== verification/Parser_Total.thy ===== *)
theory Parser_Total
  imports Parser
begin

text \<open>
  The parser is total: on a token stream that ends with its one EOF token every method returns or
  raises one of the exceptions it is meant to raise, every expression and statement consumes at
  least one token, and the depth bound of the recursive knot and the bounds of the loops are never
  reached.  The laws the methods rely on when they call each other are the locale \<open>parser_rec\<close>; it
  is interpreted on \<open>rec_parsers n\<close> for every \<open>n\<close>.
\<close>

named_theorems vcg "rules that step through a parser method"

section \<open>Token streams and outcomes\<close>

definition stream_ref :: "token list \<Rightarrow> nat" where
  "stream_ref ts = ps_ref (ss_source (tk_span (last ts)))"

definition span_of :: "token list \<Rightarrow> source_span \<Rightarrow> bool" where
  "span_of ts sp \<longleftrightarrow> ps_ref (ss_source sp) = stream_ref ts"

definition valid_stream :: "token list \<Rightarrow> bool" where
  "valid_stream ts \<longleftrightarrow>
     ts \<noteq> [] \<and> tk_kind (last ts) = TEof \<and> (\<forall>t\<in>set (butlast ts). tk_kind t \<noteq> TEof)
     \<and> (\<forall>t\<in>set ts. span_of ts (tk_span t))"

text \<open>The parser stands at a token of the stream.\<close>

definition good :: "token list \<Rightarrow> parser \<Rightarrow> bool" where
  "good ts p \<longleftrightarrow> valid_stream ts \<and> pz_tokens p = ts \<and> pz_index p < length ts"

definition cur_token :: "parser \<Rightarrow> token" where
  "cur_token p = pz_tokens p ! pz_index p"

text \<open>The exceptions a method may raise: a parse error at a span of the program, the \<open>ValueError\<close> of
  \<open>float\<close> or \<open>int\<close> on the text of a number token, and the \<open>OverflowError\<close> of \<open>float\<close>.\<close>

fun parser_error :: "token list \<Rightarrow> exn \<Rightarrow> bool" where
  "parser_error ts (ParseError m sp) \<longleftrightarrow> span_of ts sp"
| "parser_error ts (ValueError m) \<longleftrightarrow>
     (\<exists>t\<in>set ts. tk_kind t = TNumber \<and> (py_float_of (text_of t) = Inl m \<or> py_int_of (text_of t) = Inl m))"
| "parser_error ts (OverflowError m) \<longleftrightarrow> True"
| "parser_error ts _ \<longleftrightarrow> False"

definition okP ::
    "token list \<Rightarrow> 'a parse \<Rightarrow> parser \<Rightarrow> ('a \<Rightarrow> parser \<Rightarrow> bool) \<Rightarrow> bool" where
  "okP ts f p Q \<longleftrightarrow> (case f p of Inl e \<Rightarrow> parser_error ts e | Inr (x, p') \<Rightarrow> Q x p')"

definition consumes :: "nat \<Rightarrow> (token list \<Rightarrow> 'a \<Rightarrow> bool) \<Rightarrow> 'a parse \<Rightarrow> bool" where
  "consumes N V f \<longleftrightarrow>
     (\<forall>ts p. good ts p \<and> remaining p \<le> N \<longrightarrow>
        okP ts f p (\<lambda>x p'. V ts x \<and> good ts p' \<and> remaining p' < remaining p))"

section \<open>Stepping rules\<close>

lemma okP_call:
  assumes "consumes N V f" and "good ts p" and "remaining p \<le> N"
    and "\<And>x p'. V ts x \<Longrightarrow> good ts p' \<Longrightarrow> remaining p' < remaining p \<Longrightarrow> Q x p'"
  shows "okP ts f p Q"
  using assms by (auto simp: consumes_def okP_def split: sum.splits)

lemma okP_weaken:
  "okP ts f p R \<Longrightarrow> (\<And>x p'. R x p' \<Longrightarrow> Q x p') \<Longrightarrow> okP ts f p Q"
  by (auto simp: okP_def split: sum.splits)

lemma okP_bind [vcg]: "okP ts m p (\<lambda>x p'. okP ts (f x) p' Q) \<Longrightarrow> okP ts (bindP m f) p Q"
  by (auto simp: okP_def bindP_def split: sum.splits)

lemma okP_ret [vcg]: "Q x p \<Longrightarrow> okP ts (retP x) p Q"
  by (simp add: okP_def retP_def)

lemma okP_raise [vcg]: "parser_error ts e \<Longrightarrow> okP ts (raiseP e) p Q"
  by (simp add: okP_def raiseP_def)

lemma okP_lift:
  "(\<And>e. r = Inl e \<Longrightarrow> parser_error ts e) \<Longrightarrow> (\<And>x. r = Inr x \<Longrightarrow> Q x p) \<Longrightarrow> okP ts (liftP r) p Q"
  by (cases r) (auto simp: okP_def liftP_def)

lemma okP_if [vcg]:
  "(b \<Longrightarrow> okP ts f p Q) \<Longrightarrow> (\<not> b \<Longrightarrow> okP ts g p Q) \<Longrightarrow> okP ts (if b then f else g) p Q"
  by simp

lemma okP_option [vcg]:
  "(x = None \<Longrightarrow> okP ts f p Q) \<Longrightarrow> (\<And>y. x = Some y \<Longrightarrow> okP ts (g y) p Q) \<Longrightarrow>
     okP ts (case x of None \<Rightarrow> f | Some y \<Rightarrow> g y) p Q"
  by (cases x) auto

lemma okP_list [vcg]:
  "(x = [] \<Longrightarrow> okP ts f p Q) \<Longrightarrow> (\<And>y ys. x = y # ys \<Longrightarrow> okP ts (g y ys) p Q) \<Longrightarrow>
     okP ts (case x of [] \<Rightarrow> f | y # ys \<Rightarrow> g y ys) p Q"
  by (cases x) auto

lemma okP_prod [vcg]:
  "(\<And>a b. x = (a, b) \<Longrightarrow> okP ts (f a b) p Q) \<Longrightarrow> okP ts (case x of (a, b) \<Rightarrow> f a b) p Q"
  by (cases x) auto

lemma okP_let [vcg]: "okP ts (f x) p Q \<Longrightarrow> okP ts (let y = x in f y) p Q"
  by simp

lemma okP_fuel [vcg]: "okP ts (loop (remaining p)) p Q \<Longrightarrow> okP ts (with_fuel loop) p Q"
  by (simp add: okP_def with_fuel_def)

lemma good_remaining: "good ts p \<Longrightarrow> 0 < remaining p"
  by (simp add: good_def remaining_def)

lemma cur_token_in: "good ts p \<Longrightarrow> cur_token p \<in> set ts"
  by (simp add: good_def cur_token_def)

lemma token_span: "good ts p \<Longrightarrow> t \<in> set ts \<Longrightarrow> span_of ts (tk_span t)"
  by (simp add: good_def valid_stream_def)

lemma cur_token_span: "good ts p \<Longrightarrow> span_of ts (tk_span (cur_token p))"
  using token_span cur_token_in by blast

lemma current_eq: "good ts p \<Longrightarrow> current p = Inr (cur_token p, p)"
  by (simp add: good_def current_def cur_token_def nth_opt_lt)

lemma okP_current [vcg]:
  "good ts p \<Longrightarrow> (cur_token p \<in> set ts \<Longrightarrow> Q (cur_token p) p) \<Longrightarrow> okP ts current p Q"
  by (simp add: okP_def current_eq cur_token_in)

lemma okP_current_kind [vcg]:
  "good ts p \<Longrightarrow> Q (tk_kind (cur_token p)) p \<Longrightarrow> okP ts current_kind p Q"
  unfolding current_kind_def by (intro vcg)

lemma okP_check [vcg]:
  "good ts p \<Longrightarrow> Q (tk_kind (cur_token p) = k) p \<Longrightarrow> okP ts (check k) p Q"
  unfolding check_def by (intro vcg)

lemma okP_terminator [vcg]:
  "good ts p \<Longrightarrow> Q (tk_kind (cur_token p) \<in> set [TRbrace, TNewline, TSemicolon]) p \<Longrightarrow>
     okP ts is_statement_terminator p Q"
  unfolding is_statement_terminator_def by (intro vcg)

lemma okP_redirect_start [vcg]:
  "good ts p \<Longrightarrow> Q (tk_kind (cur_token p) \<in> set PRINT_REDIRECT_START_KINDS) p \<Longrightarrow>
     okP ts is_output_redirect_start p Q"
  unfolding is_output_redirect_start_def by (intro vcg)

lemma okP_peek_kind [vcg]:
  "good ts p \<Longrightarrow> (\<And>k. Q k p) \<Longrightarrow> okP ts peek_kind p Q"
  by (auto simp: okP_def peek_kind_def good_def split: option.split)

text \<open>Only a token that is not EOF is stepped over, so the parser stays inside the stream.\<close>

lemma next_good:
  assumes "good ts p" and "tk_kind (cur_token p) \<noteq> TEof"
  shows "good ts (p\<lparr>pz_index := pz_index p + 1\<rparr>)"
    and "remaining (p\<lparr>pz_index := pz_index p + 1\<rparr>) < remaining p"
proof -
  have "pz_index p \<noteq> length ts - 1"
    using assms by (auto simp: good_def valid_stream_def cur_token_def last_conv_nth)
  then show "good ts (p\<lparr>pz_index := pz_index p + 1\<rparr>)" using assms by (auto simp: good_def)
  show "remaining (p\<lparr>pz_index := pz_index p + 1\<rparr>) < remaining p"
    using assms by (auto simp: good_def remaining_def)
qed

lemma okP_next:
  "good ts p \<Longrightarrow> tk_kind (cur_token p) \<noteq> TEof \<Longrightarrow>
     (\<And>p'. good ts p' \<Longrightarrow> remaining p' < remaining p \<Longrightarrow> Q () p') \<Longrightarrow> okP ts next_token p Q"
  using next_good by (simp add: okP_def next_token_def)

lemma okP_advance [vcg]:
  assumes "good ts p" and "tk_kind (cur_token p) \<noteq> TEof"
    and "\<And>p'. good ts p' \<Longrightarrow> remaining p' < remaining p \<Longrightarrow> Q (cur_token p) p'"
  shows "okP ts advance p Q"
  unfolding advance_def by (intro vcg okP_next) (use assms in auto)

lemma okP_expect [vcg]:
  assumes "good ts p" and "k \<noteq> TEof"
    and "\<And>p'. tk_kind (cur_token p) = k \<Longrightarrow> good ts p' \<Longrightarrow> remaining p' < remaining p \<Longrightarrow> Q (cur_token p) p'"
  shows "okP ts (expect k) p Q"
  unfolding expect_def
  by (intro vcg okP_next) (use assms in \<open>auto simp: cur_token_span cur_token_in\<close>)

lemma separators_loop_ok:
  "good ts p \<Longrightarrow> \<exists>b p'. separators_loop consumed p = Inr (b, p') \<and> good ts p'
     \<and> remaining p' \<le> remaining p \<and> (b \<longrightarrow> consumed \<or> remaining p' < remaining p)
     \<and> tk_kind (cur_token p') \<notin> {TNewline, TSemicolon}"
proof (induction consumed p rule: separators_loop.induct)
  case (1 consumed p)
  have now: "nth_opt (pz_tokens p) (pz_index p) = Some (cur_token p)"
    using 1(2) by (simp add: good_def cur_token_def)
  show ?case
  proof (cases "tk_kind (cur_token p) = TNewline \<or> tk_kind (cur_token p) = TSemicolon")
    case True
    then have step: "good ts (p\<lparr>pz_index := pz_index p + 1\<rparr>)"
        "remaining (p\<lparr>pz_index := pz_index p + 1\<rparr>) < remaining p"
      using next_good [OF 1(2)] by auto
    from 1(1) [OF now True step(1)] True step(2) show ?thesis
      by (subst separators_loop.simps) (auto simp: now)
  next
    case False
    then show ?thesis using 1(2) by (subst separators_loop.simps) (auto simp: now)
  qed
qed

lemma okP_separators:
  assumes "good ts p"
    and "\<And>b p'. good ts p' \<Longrightarrow> remaining p' \<le> remaining p \<Longrightarrow> (b \<Longrightarrow> remaining p' < remaining p) \<Longrightarrow> Q b p'"
  shows "okP ts consume_separators p Q"
  using separators_loop_ok [OF assms(1), of False] assms(2)
  by (auto simp: okP_def consume_separators_def)

lemma okP_skip:
  assumes "good ts p"
    and "\<And>b p'. good ts p' \<Longrightarrow> remaining p' \<le> remaining p \<Longrightarrow> Q b p'"
  shows "okP ts consume_separators p Q"
  using assms by (rule okP_separators)

section \<open>Loops\<close>

text \<open>The value conditions: a result carries a span of the program, and a numeric literal the text
  of a number token.\<close>

definition expr_ok :: "token list \<Rightarrow> expr \<Rightarrow> bool" where
  "expr_ok ts e \<longleftrightarrow>
     span_of ts (expr_span e)
     \<and> (\<forall>v raw sp. e = NumericLiteralExpr v raw sp \<longrightarrow>
          (\<exists>t\<in>set ts. tk_kind t = TNumber \<and> text_of t = raw))"

definition lvalue_ok :: "token list \<Rightarrow> lvalue \<Rightarrow> bool" where
  "lvalue_ok ts lv \<longleftrightarrow> span_of ts (lvalue_span lv)"

definition stmt_ok :: "token list \<Rightarrow> stmt \<Rightarrow> bool" where
  "stmt_ok ts s \<longleftrightarrow> span_of ts (stmt_span s)"

text \<open>A function definition also has one span for each parameter.\<close>

definition item_ok :: "token list \<Rightarrow> item \<Rightarrow> bool" where
  "item_ok ts i \<longleftrightarrow>
     span_of ts (item_span i)
     \<and> (case i of
          FunctionDef f \<Rightarrow> length (fd_params f) = length (fd_param_spans f)
        | PatternAction _ \<Rightarrow> True)"

lemma expr_ok_span: "expr_ok ts e \<Longrightarrow> span_of ts (expr_span e)"
  by (simp add: expr_ok_def)

lemma combineE_ok:
  "span_of ts a \<Longrightarrow> span_of ts b \<Longrightarrow> \<exists>sp. combineE a b = Inr sp \<and> span_of ts sp"
  by (simp add: span_of_def mk_span_def)

lemma okP_combine [vcg]:
  assumes "span_of ts a" and "span_of ts b" and "\<And>sp. span_of ts sp \<Longrightarrow> Q sp p"
  shows "okP ts (liftP (combineE a b)) p Q"
  using combineE_ok [OF assms(1,2)] assms(3) by (auto simp: okP_def liftP_def)

lemma consumesI:
  "(\<And>ts p. good ts p \<Longrightarrow> remaining p \<le> N \<Longrightarrow>
      okP ts f p (\<lambda>x p'. V ts x \<and> good ts p' \<and> remaining p' < remaining p)) \<Longrightarrow> consumes N V f"
  by (simp add: consumes_def)

lemma comma_loop_ok:
  assumes f: "consumes N V f"
  shows "good ts p \<Longrightarrow> remaining p \<le> n \<Longrightarrow> remaining p \<le> N \<Longrightarrow>
     okP ts (comma_loop n f) p (\<lambda>xs p'. list_all (V ts) xs \<and> good ts p' \<and> remaining p' \<le> remaining p)"
proof (induction n arbitrary: p)
  case 0
  then show ?case using good_remaining by force
next
  case (Suc n)
  show ?case
    unfolding comma_loop.simps
    by (intro vcg okP_call [OF f] okP_weaken [OF Suc.IH]) (use Suc.prems in auto)
qed

lemma comma_separated_ok:
  assumes f: "consumes N V f"
  shows "consumes N (\<lambda>ts xs. xs \<noteq> [] \<and> list_all (V ts) xs) (comma_separated f)"
  unfolding comma_separated_def
  by (intro consumesI vcg okP_call [OF f] okP_weaken [OF comma_loop_ok [OF f]]) auto

lemma expr_ok_binary: "span_of ts sp \<Longrightarrow> expr_ok ts (BinaryExpr a b c sp)"
  by (simp add: expr_ok_def)

lemma binary_loop_ok:
  assumes f: "consumes N expr_ok f" and op: "op TEof = None"
  shows "good ts p \<Longrightarrow> remaining p \<le> n \<Longrightarrow> remaining p \<le> N \<Longrightarrow> expr_ok ts e \<Longrightarrow>
     okP ts (binary_loop n op stop f e) p
       (\<lambda>x p'. expr_ok ts x \<and> good ts p' \<and> remaining p' \<le> remaining p)"
proof (induction n arbitrary: p e)
  case 0
  then show ?case using good_remaining by force
next
  case (Suc n)
  show ?case
    unfolding binary_loop.simps
    by (intro vcg okP_call [OF f] okP_weaken [OF Suc.IH])
      (use Suc.prems op in \<open>auto simp: expr_ok_binary dest: expr_ok_span\<close>)
qed

lemma binary_level_ok:
  assumes f: "consumes N expr_ok f" and op: "op TEof = None"
  shows "consumes N expr_ok (binary_level op stop f)"
  unfolding binary_level_def
  by (intro consumesI vcg okP_call [OF f] okP_weaken [OF binary_loop_ok [where f = f and op = op]])
    (use f op in auto)

lemma concat_loop_ok:
  assumes f: "consumes N expr_ok f"
  shows "good ts p \<Longrightarrow> remaining p \<le> n \<Longrightarrow> remaining p \<le> N \<Longrightarrow> expr_ok ts e \<Longrightarrow>
     okP ts (concat_loop n f e) p
       (\<lambda>x p'. expr_ok ts x \<and> good ts p' \<and> remaining p' \<le> remaining p)"
proof (induction n arbitrary: p e)
  case 0
  then show ?case using good_remaining by force
next
  case (Suc n)
  show ?case
    unfolding concat_loop.simps
    by (intro vcg okP_call [OF f] okP_weaken [OF Suc.IH])
      (use Suc.prems in \<open>auto simp: expr_ok_binary dest: expr_ok_span\<close>)
qed

section \<open>The methods, given the entry points they call\<close>

locale parser_rec =
  fixes rec :: recs and N :: nat
  assumes rec_expression: "consumes N expr_ok (r_expression rec stop)"
    and rec_conditional: "consumes N expr_ok (r_conditional rec)"
    and rec_power: "consumes N expr_ok (r_power rec)"
    and rec_unary: "consumes N expr_ok (r_unary rec)"
    and rec_statement: "consumes N stmt_ok (r_statement rec)"
begin

lemmas calls =
  okP_call [OF rec_expression] okP_call [OF rec_conditional] okP_call [OF rec_power]
  okP_call [OF rec_unary] okP_call [OF rec_statement]
  okP_call [OF comma_separated_ok [OF rec_expression]]

lemmas span_facts = cur_token_span cur_token_in lvalue_ok_def stmt_ok_def

lemma parenthesized: "consumes (Suc N) expr_ok (parse_parenthesized_expression rec)"
  unfolding parse_parenthesized_expression_def by (intro consumesI vcg calls) auto

lemma subscripts:
  "consumes (Suc N) (\<lambda>ts (l, xs, r). xs \<noteq> [] \<and> span_of ts (tk_span r)) (parse_array_subscripts rec)"
  unfolding parse_array_subscripts_def by (intro consumesI vcg calls) (auto simp: span_facts)

lemma lvalues: "consumes (Suc N) lvalue_ok (parse_lvalue rec)"
  unfolding parse_lvalue_def
  by (intro consumesI vcg calls okP_call [OF subscripts]) (auto simp: span_facts dest: expr_ok_span)

lemma expr_ok_simps:
  "expr_ok ts (GetlineExpr a b sp) = span_of ts sp"
  "expr_ok ts (CallExpr f xs sp) = span_of ts sp"
  "expr_ok ts (ArrayIndexExpr f x xs sp) = span_of ts sp"
  "expr_ok ts (StringLiteralExpr v r sp) = span_of ts sp"
  "expr_ok ts (RegexLiteralExpr r sp) = span_of ts sp"
  "expr_ok ts (NameExpr r sp) = span_of ts sp"
  "expr_ok ts (FieldExpr i sp) = span_of ts sp"
  "expr_ok ts (UnaryExpr uop e sp) = span_of ts sp"
  "expr_ok ts (PostfixExpr e pop sp) = span_of ts sp"
  "expr_ok ts (BinaryExpr l bop e sp) = span_of ts sp"
  "expr_ok ts (ConditionalExpr c x y sp) = span_of ts sp"
  "expr_ok ts (AssignExpr lv aop e sp) = span_of ts sp"
  by (simp_all add: expr_ok_def)

lemma getline_end_span:
  assumes "good ts p" and "\<And>t. target = Some t \<Longrightarrow> lvalue_ok ts t"
    and "\<And>s. source = Some s \<Longrightarrow> expr_ok ts s"
  shows "span_of ts (getline_end (cur_token p) target source)"
  using assms cur_token_span [of ts p]
  by (auto simp: getline_end_def lvalue_ok_def split: option.split dest: expr_ok_span)

lemma getline_target:
  assumes "good ts p" and "remaining p \<le> Suc N"
  shows "okP ts (getline_target rec) p
    (\<lambda>t p'. (\<forall>lv. t = Some lv \<longrightarrow> lvalue_ok ts lv) \<and> good ts p' \<and> remaining p' \<le> remaining p)"
  unfolding getline_target_def by (intro vcg okP_call [OF lvalues]) (use assms in auto)

lemma getline_source:
  assumes "good ts p" and "remaining p \<le> Suc N"
  shows "okP ts (getline_source rec) p
    (\<lambda>x p'. (\<forall>e. x = Some e \<longrightarrow> expr_ok ts e) \<and> good ts p' \<and> remaining p' \<le> remaining p)"
  unfolding getline_source_def by (intro vcg calls) (use assms in auto)

lemma getline:
  assumes "good ts p" and "remaining p \<le> Suc N"
    and "tk_kind (cur_token p) = TIdent" and "tk_text (cur_token p) = Some ''getline''"
  shows "okP ts (parse_getline_expression rec) p
    (\<lambda>x p'. expr_ok ts x \<and> good ts p' \<and> remaining p' < remaining p)"
  unfolding parse_getline_expression_def
  by (intro vcg calls okP_weaken [OF getline_target] okP_weaken [OF getline_source])
    (use assms in \<open>auto simp: expr_ok_simps cur_token_span intro!: getline_end_span expr_ok_span\<close>)

lemma call_expression: "consumes (Suc N) expr_ok (parse_call_expression rec)"
  unfolding parse_call_expression_def
  by (intro consumesI vcg calls) (auto simp: expr_ok_simps span_facts)

lemma array_index: "consumes (Suc N) expr_ok (parse_array_index_expression rec)"
  unfolding parse_array_index_expression_def
  by (intro consumesI vcg okP_call [OF subscripts])
    (auto simp: expr_ok_simps span_facts)

lemma field_operand:
  assumes "expr_ok ts e" and "span_of ts (tk_span t)"
  shows "case field_of_operand t e of Inl x \<Rightarrow> parser_error ts x | Inr f \<Rightarrow> expr_ok ts f"
  using assms combineE_ok [of ts "tk_span t" "expr_span e"]
  by (auto simp: field_of_operand_def expr_ok_def split: expr.splits sum.splits)

lemma decode_loop_error: "decode_loop sp s = Inl e \<Longrightarrow> \<exists>m. e = ParseError m sp"
  by (induction sp s rule: decode_loop.induct) (auto simp: bindE_eq_Inl split: if_splits)

lemma decode_error: "good ts p \<Longrightarrow> decode_string_literal (cur_token p) = Inl e \<Longrightarrow> parser_error ts e"
  using cur_token_span by (auto simp: decode_string_literal_def dest: decode_loop_error)

lemma number_error:
  "good ts p \<Longrightarrow> tk_kind (cur_token p) = TNumber \<Longrightarrow>
     (case py_float_of (text_of (cur_token p)) of Inl m \<Rightarrow> Inl (ValueError m) | Inr v \<Rightarrow> Inr v) = Inl e \<Longrightarrow>
     parser_error ts e"
  using cur_token_in [of ts p] by (auto split: sum.splits)

lemma number_literal:
  "good ts p \<Longrightarrow> tk_kind (cur_token p) = TNumber \<Longrightarrow>
     expr_ok ts (NumericLiteralExpr v (text_of (cur_token p)) (tk_span (cur_token p)))"
  using cur_token_in cur_token_span by (auto simp: expr_ok_def)

lemma field_error:
  "field_of_operand t e = Inl x \<Longrightarrow> expr_ok ts e \<Longrightarrow> span_of ts (tk_span t) \<Longrightarrow> parser_error ts x"
  "field_of_operand t e = Inr f \<Longrightarrow> expr_ok ts e \<Longrightarrow> span_of ts (tk_span t) \<Longrightarrow> expr_ok ts f"
  using field_operand [of ts e t] by auto

lemma primary: "consumes (Suc N) expr_ok (parse_primary_expression rec)"
  unfolding parse_primary_expression_def
  by (intro consumesI vcg okP_lift calls okP_weaken [OF getline] okP_call [OF call_expression]
      okP_call [OF array_index] okP_call [OF parenthesized])
    (auto simp: expr_ok_simps span_facts number_literal dest: decode_error number_error field_error)

lemma postfix: "consumes (Suc N) expr_ok (parse_postfix_expression rec)"
  unfolding parse_postfix_expression_def
  by (intro consumesI vcg okP_call [OF primary])
    (auto simp: postfix_op_from_token_def expr_ok_simps span_facts dest: expr_ok_span)

lemma unary: "consumes (Suc N) expr_ok (parse_unary_expression rec)"
  unfolding parse_unary_expression_def
  by (intro consumesI vcg calls okP_call [OF postfix])
    (auto simp: unary_op_from_token_def expr_ok_simps span_facts dest: expr_ok_span)

lemma power: "consumes (Suc N) expr_ok (parse_power_expression rec)"
  unfolding parse_power_expression_def
  by (intro consumesI vcg calls okP_call [OF unary]) (auto simp: expr_ok_simps dest: expr_ok_span)

lemma multiplicative: "consumes (Suc N) expr_ok (parse_multiplicative_expression rec)"
  unfolding parse_multiplicative_expression_def
  by (intro binary_level_ok power) (simp add: multiplicative_op_from_token_def)

lemma additive: "consumes (Suc N) expr_ok (parse_additive_expression rec)"
  unfolding parse_additive_expression_def
  by (intro binary_level_ok multiplicative) (simp add: additive_op_from_token_def)

lemma concatenation: "consumes (Suc N) expr_ok (parse_concat_expression rec)"
  unfolding parse_concat_expression_def
  by (intro consumesI vcg okP_call [OF additive] okP_weaken [OF concat_loop_ok [OF additive]]) auto

lemma membership: "consumes (Suc N) expr_ok (parse_in_expression rec)"
  unfolding parse_in_expression_def
  by (intro consumesI vcg okP_call [OF concatenation]) (auto simp: expr_ok_simps dest: expr_ok_span)

lemma matching: "consumes (Suc N) expr_ok (parse_match_expression rec)"
  unfolding parse_match_expression_def
  by (intro binary_level_ok membership) (simp add: match_op_from_token_def)

lemma comparison: "consumes (Suc N) expr_ok (parse_comparison_expression rec stop)"
  unfolding parse_comparison_expression_def
  by (intro binary_level_ok matching) (simp add: comparison_op_from_token_def)

lemma logical_and: "consumes (Suc N) expr_ok (parse_logical_and_expression rec stop)"
  unfolding parse_logical_and_expression_def by (intro binary_level_ok comparison) simp

lemma logical_or: "consumes (Suc N) expr_ok (parse_logical_or_expression rec stop)"
  unfolding parse_logical_or_expression_def by (intro binary_level_ok logical_and) simp

lemma conditional: "consumes (Suc N) expr_ok (parse_conditional_expression rec stop)"
  unfolding parse_conditional_expression_def
  by (intro consumesI vcg calls okP_call [OF logical_or])
    (auto simp: expr_ok_simps dest: expr_ok_span)

lemma lvalue_conversion:
  "expression_to_lvalue e = Inl x \<Longrightarrow> parser_error ts x"
  by (cases e rule: expression_to_lvalue.cases)
    (auto simp: float_of_int_def bindE_eq_Inl split: py_float.splits)

lemma assignment_operators:
  "assignment_op_from_token k = Inl e \<Longrightarrow> k \<notin> set ASSIGNMENT_TOKEN_KINDS"
  "TEof \<notin> set ASSIGNMENT_TOKEN_KINDS"
  by (auto simp: ASSIGNMENT_TOKEN_KINDS_def assignment_op_from_token_def)

lemma okP_lvalue_conversion:
  "(\<And>lv. Q lv p) \<Longrightarrow> okP ts (liftP (expression_to_lvalue e)) p Q"
  using lvalue_conversion by (intro okP_lift) auto

lemma okP_assignment_operator:
  "k \<in> set ASSIGNMENT_TOKEN_KINDS \<Longrightarrow> (\<And>op. Q op p) \<Longrightarrow>
     okP ts (liftP (assignment_op_from_token k)) p Q"
  using assignment_operators(1) by (intro okP_lift) auto

lemma assignment: "consumes (Suc N) expr_ok (parse_assignment_expression rec stop)"
  unfolding parse_assignment_expression_def
  by (intro consumesI vcg calls okP_call [OF conditional] okP_lvalue_conversion
      okP_assignment_operator)
    (auto simp: expr_ok_simps assignment_operators(2) expr_ok_span)

lemma expression: "consumes (Suc N) expr_ok (parse_expression rec stop)"
  unfolding parse_expression_def by (rule assignment)

lemma expression_list:
  "consumes (Suc N) (\<lambda>ts xs. xs \<noteq> [] \<and> list_all (expr_ok ts) xs) (parse_expression_list rec stop)"
  unfolding parse_expression_list_def by (rule comma_separated_ok [OF expression])

subsection \<open>Statements\<close>

lemmas stmt_calls =
  okP_skip calls okP_call [OF expression] okP_call [OF expression_list] okP_call [OF parenthesized]
  okP_call [OF lvalues]

lemma statement_spans:
  "stmt_ok ts (PrintStmt a sp r) = span_of ts sp" "stmt_ok ts (PrintfStmt a sp r) = span_of ts sp"
  "stmt_ok ts (BlockStmt ss sp) = span_of ts sp" "stmt_ok ts (DeleteStmt lv sp) = span_of ts sp"
  "stmt_ok ts (DoWhileStmt b c sp) = span_of ts sp" "stmt_ok ts (WhileStmt c b sp) = span_of ts sp"
  "stmt_ok ts (ForInStmt n e b sp) = span_of ts sp"
  "stmt_ok ts (ForStmt i oc u b sp) = span_of ts sp"
  "stmt_ok ts (IfStmt c b el sp) = span_of ts sp"
  by (simp_all add: stmt_ok_def)

lemma output_redirect:
  assumes "good ts p" and "remaining p \<le> Suc N"
    and "tk_kind (cur_token p) \<in> set PRINT_REDIRECT_START_KINDS"
  shows "okP ts (parse_output_redirect rec) p
    (\<lambda>r p'. span_of ts (or_span r) \<and> good ts p' \<and> remaining p' < remaining p)"
  unfolding parse_output_redirect_def
  by (intro vcg stmt_calls)
    (use assms in \<open>auto simp: PRINT_REDIRECT_START_KINDS_def cur_token_span intro: expr_ok_span\<close>)

lemma redirect_tail:
  assumes "good ts p" and "remaining p \<le> Suc N"
  shows "okP ts (optional_redirect rec) p
    (\<lambda>r p'. (\<forall>x. r = Some x \<longrightarrow> span_of ts (or_span x))
       \<and> (r = None \<longrightarrow> tk_kind (cur_token p) \<notin> set PRINT_REDIRECT_START_KINDS)
       \<and> good ts p' \<and> remaining p' \<le> remaining p)"
  unfolding optional_redirect_def
  by (intro vcg okP_weaken [OF output_redirect]) (use assms in auto)

lemma redirect_end_ok:
  assumes "\<forall>x. r = Some x \<longrightarrow> span_of ts (or_span x)"
    and "\<forall>sp. d = Some sp \<longrightarrow> span_of ts sp" and "r = None \<Longrightarrow> d \<noteq> None"
  shows "\<exists>sp. redirect_end r d = Inr sp \<and> span_of ts sp"
  using assms by (auto simp: redirect_end_def split: option.split)

lemma okP_redirect_end:
  assumes "\<forall>x. r = Some x \<longrightarrow> span_of ts (or_span x)"
    and "\<forall>sp. d = Some sp \<longrightarrow> span_of ts sp" and "r = None \<Longrightarrow> d \<noteq> None"
    and "\<And>sp. span_of ts sp \<Longrightarrow> Q sp p"
  shows "okP ts (liftP (redirect_end r d)) p Q"
  using redirect_end_ok [OF assms(1-3)] assms(4) by (auto simp: okP_def liftP_def)

lemma last_span_ok:
  "list_all (expr_ok ts) xs \<Longrightarrow> \<forall>sp. last_span xs = Some sp \<longrightarrow> span_of ts sp"
  "xs \<noteq> [] \<Longrightarrow> last_span xs \<noteq> None"
  by (auto simp: last_span_def list_all_iff intro: expr_ok_span)

lemma print_stmt: "consumes (Suc N) stmt_ok (parse_print_statement rec)"
  unfolding parse_print_statement_def
  by (intro consumesI vcg stmt_calls okP_weaken [OF redirect_tail] okP_redirect_end)
    (auto simp: statement_spans cur_token_span last_span_ok last_span_def)

lemma printf_statement: "consumes (Suc N) stmt_ok (parse_printf_statement rec)"
  unfolding parse_printf_statement_def
  by (intro consumesI vcg stmt_calls okP_weaken [OF redirect_tail] okP_redirect_end)
    (auto simp: statement_spans cur_token_span last_span_ok last_span_def)

lemma expression_statement: "consumes (Suc N) stmt_ok (parse_expression_statement rec)"
proof -
  have "expr_ok ts e \<Longrightarrow> stmt_ok ts (statement_of_expression e)" for ts e
    by (cases e) (auto simp: statement_of_expression_def stmt_ok_def expr_ok_def)
  then show ?thesis
    unfolding parse_expression_statement_def by (intro consumesI vcg stmt_calls) auto
qed

lemma delete_statement: "consumes (Suc N) stmt_ok (parse_delete_statement rec)"
  unfolding parse_delete_statement_def
  by (intro consumesI vcg stmt_calls) (auto simp: statement_spans cur_token_span lvalue_ok_def)

lemma keyword_statement:
  "k \<noteq> TEof \<Longrightarrow> (\<And>sp. stmt_span (node sp) = sp) \<Longrightarrow>
     consumes (Suc N) stmt_ok (parse_keyword_statement k node)"
  unfolding parse_keyword_statement_def
  by (intro consumesI vcg) (auto simp: stmt_ok_def cur_token_span)

lemma value_statement:
  "k \<noteq> TEof \<Longrightarrow> (\<And>v sp. stmt_span (node v sp) = sp) \<Longrightarrow>
     consumes (Suc N) stmt_ok (parse_value_statement rec k node)"
  unfolding parse_value_statement_def
  by (intro consumesI vcg stmt_calls) (auto simp: stmt_ok_def cur_token_span expr_ok_span)

lemma statements_loop_ok:
  "good ts p \<Longrightarrow> remaining p \<le> n \<Longrightarrow> remaining p \<le> N \<Longrightarrow>
     okP ts (statements_loop n rec) p
       (\<lambda>xs p'. list_all (stmt_ok ts) xs \<and> good ts p' \<and> remaining p' \<le> remaining p)"
proof (induction n arbitrary: p)
  case 0
  then show ?case using good_remaining by force
next
  case (Suc n)
  show ?case
    unfolding statements_loop.simps
    by (intro vcg okP_separators calls okP_weaken [OF Suc.IH]) (use Suc.prems in auto)
qed

lemma braced_statements:
  "consumes (Suc N) (\<lambda>ts (l, ss, r). span_of ts (tk_span l) \<and> span_of ts (tk_span r)
     \<and> list_all (stmt_ok ts) ss) (parse_braced_statements rec)"
  unfolding parse_braced_statements_def
  by (intro consumesI vcg okP_skip calls okP_weaken [OF statements_loop_ok]) (auto simp: cur_token_span)

lemma block_statement: "consumes (Suc N) stmt_ok (parse_block_statement rec)"
  unfolding parse_block_statement_def
  by (intro consumesI vcg okP_call [OF braced_statements]) (auto simp: statement_spans)

lemma do_while_statement: "consumes (Suc N) stmt_ok (parse_do_while_statement rec)"
  unfolding parse_do_while_statement_def
  by (intro consumesI vcg stmt_calls) (auto simp: statement_spans cur_token_span expr_ok_span)

lemma while_statement: "consumes (Suc N) stmt_ok (parse_while_statement rec)"
  unfolding parse_while_statement_def
  by (intro consumesI vcg stmt_calls)
    (auto simp: statement_spans cur_token_span expr_ok_span stmt_ok_def)

lemma for_in_tail:
  assumes "good ts p" and "remaining p \<le> N" and "span_of ts (tk_span t)"
  shows "okP ts (parse_for_in_tail rec t) p
    (\<lambda>s p'. stmt_ok ts s \<and> good ts p' \<and> remaining p' < remaining p)"
  unfolding parse_for_in_tail_def
  by (intro vcg stmt_calls) (use assms in \<open>auto simp: statement_spans stmt_ok_def\<close>)

lemma optional_list:
  assumes "good ts p" and "remaining p \<le> Suc N"
  shows "okP ts (optional_list rec k) p (\<lambda>xs p'. good ts p' \<and> remaining p' \<le> remaining p)"
  unfolding optional_list_def by (intro vcg stmt_calls) (use assms in auto)

lemma classic_for_tail:
  assumes "good ts p" and "remaining p \<le> N" and "span_of ts (tk_span t)"
  shows "okP ts (parse_classic_for_tail rec t) p
    (\<lambda>s p'. stmt_ok ts s \<and> good ts p' \<and> remaining p' < remaining p)"
  unfolding parse_classic_for_tail_def
  by (intro vcg stmt_calls okP_weaken [OF optional_list])
    (use assms in \<open>auto simp: statement_spans stmt_ok_def\<close>)

lemma for_statement: "consumes (Suc N) stmt_ok (parse_for_statement rec)"
  unfolding parse_for_statement_def
  by (intro consumesI vcg okP_weaken [OF for_in_tail] okP_weaken [OF classic_for_tail])
    (auto simp: cur_token_span)

text \<open>Backtracking to the separators leaves the parser where the \<open>then\<close> branch ended.\<close>

lemma backtrack:
  "good ts p0 \<Longrightarrow> good ts p \<Longrightarrow> Q None p0 \<Longrightarrow>
     okP ts (\<lambda>p. Inr (None, p\<lparr>pz_index := pz_index p0\<rparr>)) p Q"
proof -
  assume "good ts p0" and "good ts p" and "Q None p0"
  moreover from this have "p\<lparr>pz_index := pz_index p0\<rparr> = p0"
    by (cases p; cases p0) (simp add: good_def)
  ultimately show ?thesis by (simp add: okP_def)
qed

lemma else_branch:
  assumes "good ts p" and "remaining p \<le> N"
  shows "okP ts (parse_else_branch rec) p
    (\<lambda>x p'. (\<forall>s. x = Some s \<longrightarrow> stmt_ok ts s) \<and> good ts p' \<and> remaining p' \<le> remaining p)"
proof -
  have "okP ts (bindP consume_separators (\<lambda>_.
     bindP (check TElse) (\<lambda>has_else.
       if has_else then
         bindP advance (\<lambda>_.
         bindP consume_separators (\<lambda>_.
         bindP (r_statement rec) (\<lambda>s. retP (Some s))))
       else (\<lambda>q. Inr (None, q\<lparr>pz_index := pz_index p\<rparr>))))) p
    (\<lambda>x p'. (\<forall>s. x = Some s \<longrightarrow> stmt_ok ts s) \<and> good ts p' \<and> remaining p' \<le> remaining p)"
    by (intro vcg stmt_calls backtrack) (use assms in auto)
  then show ?thesis by (simp add: okP_def parse_else_branch_def)
qed

lemma if_statement: "consumes (Suc N) stmt_ok (parse_if_statement rec)"
  unfolding parse_if_statement_def
  by (intro consumesI vcg stmt_calls okP_weaken [OF else_branch])
    (auto simp: statement_spans cur_token_span stmt_ok_def split: option.split)

lemmas statement_calls =
  okP_call [OF block_statement] okP_call [OF delete_statement] okP_call [OF do_while_statement]
  okP_call [OF for_statement] okP_call [OF if_statement] okP_call [OF print_stmt]
  okP_call [OF printf_statement] okP_call [OF while_statement]
  okP_call [OF expression_statement]
  okP_call [OF keyword_statement] okP_call [OF value_statement]

lemma statement: "consumes (Suc N) stmt_ok (parse_statement rec)"
  unfolding parse_statement_def parse_break_statement_def parse_continue_statement_def
    parse_next_statement_def parse_nextfile_statement_def parse_exit_statement_def
    parse_return_statement_def Let_def
  by (intro consumesI vcg statement_calls) (simp_all add: cur_token_span)

lemma tied: "parser_rec (tie rec) (Suc N)"
  by unfold_locales
    (simp_all add: tie_def assignment conditional power unary statement)

subsection \<open>Items\<close>

lemma action_braces:
  "consumes (Suc N) (\<lambda>ts a. span_of ts (ac_span a)) (parse_action rec)"
  unfolding parse_action_def by (intro consumesI vcg okP_call [OF braced_statements]) auto

lemma parameter_name: "consumes M (\<lambda>ts t. True) (expect TIdent)"
  by (intro consumesI vcg) auto

lemma parameter_list:
  assumes "good ts p"
  shows "okP ts parse_parameter_list p
    (\<lambda>(params, spans) p'. length params = length spans \<and> good ts p' \<and> remaining p' \<le> remaining p)"
  unfolding parse_parameter_list_def
  by (intro vcg okP_call [OF comma_separated_ok [OF parameter_name]]) (use assms in auto)

lemma function_definition:
  "consumes (Suc N) item_ok (parse_function_definition rec)"
  unfolding parse_function_definition_def
  by (intro consumesI vcg okP_call [OF action_braces] okP_weaken [OF parameter_list])
    (auto simp: cur_token_span item_ok_def)

lemma pattern_atom: "consumes (Suc N) (\<lambda>ts q. span_of ts (pattern_span q)) (parse_pattern_atom rec)"
  unfolding parse_pattern_atom_def
  by (intro consumesI vcg okP_call [OF expression]) (auto simp: cur_token_span expr_ok_span)

lemma pattern_range: "consumes (Suc N) (\<lambda>ts q. span_of ts (pattern_span q)) (parse_pattern rec)"
  unfolding parse_pattern_def
  by (intro consumesI vcg okP_call [OF pattern_atom]) auto

lemma pattern_item: "consumes (Suc N) item_ok (parse_pattern_action rec)"
  unfolding parse_pattern_action_def
  by (intro consumesI vcg okP_call [OF pattern_range] okP_call [OF action_braces]) (auto simp: item_ok_def)

lemma item: "consumes (Suc N) item_ok (parse_item rec)"
  unfolding parse_item_def
  by (intro consumesI vcg okP_call [OF pattern_item] okP_call [OF function_definition]) auto

lemma items_loop_ok:
  "good ts p \<Longrightarrow> remaining p \<le> n \<Longrightarrow> remaining p \<le> Suc N \<Longrightarrow>
     okP ts (items_loop n rec) p
       (\<lambda>xs p'. list_all (item_ok ts) xs \<and> good ts p'
         \<and> tk_kind (cur_token p') = TEof
         \<and> (xs = [] \<longleftrightarrow> tk_kind (cur_token p) = TEof))"
proof (induction n arbitrary: p)
  case 0
  then show ?case using good_remaining by force
next
  case (Suc n)
  show ?case
    unfolding items_loop.simps
    by (intro vcg okP_skip okP_call [OF item] okP_weaken [OF Suc.IH]) (use Suc.prems in auto)
qed

end

section \<open>The knot\<close>

interpretation knot: parser_rec "rec_parsers n" n for n
proof (induction n)
  case 0
  show ?case by unfold_locales (auto simp: consumes_def dest: good_remaining)
next
  case (Suc n)
  then show ?case by (simp add: parser_rec.tied)
qed

end
