(* ===== verification/Parser_Props.thy ===== *)
theory Parser_Props
  imports Parser_Total Lexer_Props
begin

text \<open>
  What \<^verbatim>\<open>parse(lex(source))\<close> can do: it returns a program for the whole token stream, or raises
  one of the exceptions named here.
\<close>

section \<open>Blank programs\<close>

definition blank_stream :: "token list \<Rightarrow> bool" where
  "blank_stream ts \<longleftrightarrow> list_all (\<lambda>t. tk_kind t \<in> {TNewline, TSemicolon}) (butlast ts)"

lemma cur_token_eof:
  assumes "good ts p" and "tk_kind (cur_token p) = TEof"
  shows "pz_index p = length ts - 1"
proof (rule ccontr)
  assume "pz_index p \<noteq> length ts - 1"
  then have "pz_index p < length (butlast ts)" using assms(1) by (auto simp: good_def)
  then have "cur_token p \<in> set (butlast ts)"
    using assms(1) by (auto simp: cur_token_def good_def in_set_conv_nth nth_butlast)
  with assms show False by (auto simp: good_def valid_stream_def)
qed

lemma separators_to_eof:
  "good ts p \<Longrightarrow> separators_loop c p = Inr (b, p') \<Longrightarrow>
     tk_kind (cur_token p') = TEof \<longleftrightarrow>
       list_all (\<lambda>t. tk_kind t \<in> {TNewline, TSemicolon}) (drop (pz_index p) (butlast ts))"
proof (induction c p rule: separators_loop.induct)
  case (1 c p)
  have now: "nth_opt (pz_tokens p) (pz_index p) = Some (cur_token p)"
    using 1(2) by (simp add: good_def cur_token_def)
  note step = separators_loop.simps [of c p, unfolded now option.case]
  show ?case
  proof (cases "pz_index p = length ts - 1")
    case True
    then have "cur_token p = last ts"
      using 1(2) by (auto simp: good_def cur_token_def valid_stream_def last_conv_nth)
    then have "tk_kind (cur_token p) = TEof" using 1(2) by (simp add: good_def valid_stream_def)
    then show ?thesis using 1(3) True step by simp
  next
    case False
    then have i: "pz_index p < length (butlast ts)" using 1(2) by (auto simp: good_def)
    then have split: "drop (pz_index p) (butlast ts)
        = cur_token p # drop (pz_index p + 1) (butlast ts)"
      using 1(2) by (simp add: Cons_nth_drop_Suc [symmetric] nth_butlast cur_token_def good_def)
    show ?thesis
    proof (cases "tk_kind (cur_token p) = TNewline \<or> tk_kind (cur_token p) = TSemicolon")
      case True
      then have "good ts (p\<lparr>pz_index := pz_index p + 1\<rparr>)" using next_good [OF 1(2)] by auto
      with 1(1) [OF now True] 1(3) True show ?thesis
        by (auto simp: step split)
    next
      case False
      then have "p' = p" using 1(3) by (auto simp: step)
      moreover have "tk_kind (cur_token p) \<noteq> TEof"
        using cur_token_eof [OF 1(2)] \<open>pz_index p \<noteq> length ts - 1\<close> by blast
      ultimately show ?thesis using False by (simp add: split)
    qed
  qed
qed

lemma okP_leading_separators:
  assumes "good ts p" and "pz_index p = 0"
    and "\<And>b p'. good ts p' \<Longrightarrow> remaining p' \<le> remaining p \<Longrightarrow>
           (tk_kind (cur_token p') = TEof \<longleftrightarrow> blank_stream ts) \<Longrightarrow> Q b p'"
  shows "okP ts consume_separators p Q"
proof -
  obtain b p' where r: "separators_loop False p = Inr (b, p')" "good ts p'" "remaining p' \<le> remaining p"
    using separators_loop_ok [OF assms(1), of False] by blast
  with separators_to_eof [OF assms(1) r(1)] assms show ?thesis
    by (simp add: okP_def consume_separators_def blank_stream_def)
qed

section \<open>The whole parser\<close>

text \<open>The final \<open>expect\<close> steps past the EOF token, so the index read after it is out of range.\<close>

lemma expect_eof:
  assumes "good ts p" and "tk_kind (cur_token p) = TEof"
  shows "expect TEof p = Inr (cur_token p, p\<lparr>pz_index := length ts\<rparr>)"
  using assms cur_token_eof [OF assms]
  by (auto simp: expect_def bindP_def current_eq next_token_def retP_def good_def)

definition parse_outcome :: "token list \<Rightarrow> exn + program \<times> parser \<Rightarrow> bool" where
  "parse_outcome ts r =
     (case r of
        Inl e \<Rightarrow> if blank_stream ts then e = IndexError else parser_error ts e
      | Inr (prog, p) \<Rightarrow>
          \<not> blank_stream ts \<and> pz_index p = length ts \<and> pr_items prog \<noteq> []
          \<and> list_all (item_ok ts) (pr_items prog) \<and> span_of ts (pr_span prog))"

lemma program_end:
  assumes "good ts p" and "tk_kind (cur_token p) = TEof"
    and "items = [] \<longleftrightarrow> blank_stream ts" and "list_all (item_ok ts) items"
  shows "parse_outcome ts (bindP (expect TEof) (\<lambda>_.
       case items of
         [] \<Rightarrow>
           bindP current (\<lambda>token.
             raiseP (ParseError (''expected pattern-action, got '' @ kind_name (tk_kind token))
                       (tk_span token)))
       | first # _ \<Rightarrow>
           bindP (liftP (combineE (item_span first) (item_span (last items)))) (\<lambda>sp.
             retP \<lparr>pr_items = items, pr_span = sp\<rparr>)) p)"
proof (cases items)
  case Nil
  have "current (p\<lparr>pz_index := length ts\<rparr>) = Inl IndexError"
    using assms(1) by (simp add: current_def good_def)
  with Nil assms show ?thesis by (simp add: parse_outcome_def bindP_def expect_eof)
next
  case (Cons i rest)
  then have "span_of ts (item_span i)" "span_of ts (item_span (last items))"
    using assms(4) by (auto simp: list_all_iff item_ok_def)
  from combineE_ok [OF this] Cons assms show ?thesis
    by (auto simp: parse_outcome_def bindP_def expect_eof liftP_def retP_def)
qed

lemma okP_outcome:
  "okP ts f p (\<lambda>x q. parse_outcome ts (g x q)) \<Longrightarrow> \<not> blank_stream ts \<Longrightarrow> parse_outcome ts (bindP f g p)"
  by (auto simp: okP_def bindP_def parse_outcome_def split: sum.splits)

lemma blank_items:
  assumes "good ts p" and "tk_kind (cur_token p) = TEof"
  shows "with_fuel (\<lambda>n. items_loop n rec) p = Inr ([], p)"
proof -
  obtain n where "remaining p = Suc n" using good_remaining [OF assms(1)] by (cases "remaining p") auto
  then show ?thesis
    using assms by (simp add: with_fuel_def bindP_def check_def retP_def current_eq)
qed

lemma parse_program_outcome:
  assumes p: "good ts p" "pz_index p = 0" and N: "remaining p \<le> N"
  shows "parse_outcome ts (parse_program (rec_parsers N) p)"
proof -
  obtain b q where q: "consume_separators p = Inr (b, q)" "good ts q" "remaining q \<le> remaining p"
    and eof: "tk_kind (cur_token q) = TEof \<longleftrightarrow> blank_stream ts"
    using separators_loop_ok [OF p(1), of False] separators_to_eof [OF p(1), of False] p(2)
    by (auto simp: consume_separators_def blank_stream_def)
  have run: "parse_program (rec_parsers N) p = bindP (with_fuel (\<lambda>n. items_loop n (rec_parsers N)))
      (\<lambda>items. bindP (expect TEof) (\<lambda>_.
       case items of
         [] \<Rightarrow>
           bindP current (\<lambda>token.
             raiseP (ParseError (''expected pattern-action, got '' @ kind_name (tk_kind token))
                       (tk_span token)))
       | first # _ \<Rightarrow>
           bindP (liftP (combineE (item_span first) (item_span (last items)))) (\<lambda>sp.
             retP \<lparr>pr_items = items, pr_span = sp\<rparr>))) q"
    unfolding parse_program_def by (subst bindP_def) (simp add: q(1))
  show ?thesis
  proof (cases "blank_stream ts")
    case True
    then show ?thesis
      using program_end [of ts q "[]"] q(2) eof unfolding run
      by (subst bindP_def) (simp add: blank_items [of ts])
  next
    case False
    have "okP ts (with_fuel (\<lambda>n. items_loop n (rec_parsers N))) q
        (\<lambda>xs q'. list_all (item_ok ts) xs \<and> good ts q'
         \<and> tk_kind (cur_token q') = TEof \<and> (xs = [] \<longleftrightarrow> tk_kind (cur_token q) = TEof))"
      using q N by (intro okP_fuel knot.items_loop_ok) auto
    then show ?thesis
      unfolding run using eof False
      by (intro okP_outcome) (auto elim!: okP_weaken intro!: program_end)
  qed
qed

lemma parse_tokens_outcome: "valid_stream ts \<Longrightarrow> parse_outcome ts (parse_tokens ts)"
  unfolding parse_tokens_def
  by (intro parse_program_outcome) (auto simp: good_def valid_stream_def remaining_def)

section \<open>After the lexer\<close>

lemma stream_from_shape:
  "stream_from src q ts \<Longrightarrow> ts \<noteq> [] \<and> tk_kind (last ts) = TEof
     \<and> list_all (\<lambda>t. tk_kind t \<noteq> TEof) (butlast ts) \<and> list_all (\<lambda>t. ss_source (tk_span t) = src) ts"
proof (induction ts arbitrary: q)
  case (Cons t ts)
  then show ?case by (cases "ts = []") auto
qed simp

lemma stream_from_valid:
  assumes "stream_from src q ts"
  shows "valid_stream ts"
proof -
  note shape = stream_from_shape [OF assms]
  then have "ss_source (tk_span (last ts)) = src" by (simp add: list_all_iff)
  then have "stream_ref ts = ps_ref src" by (simp add: stream_ref_def)
  with shape show ?thesis by (simp add: valid_stream_def span_of_def list_all_iff)
qed

lemma lexed_stream_valid: "lex_program src = Inr toks \<Longrightarrow> valid_stream toks"
  using scan_tokens_spans [of "lexer_init src"] stream_from_valid
  by (auto simp: lex_program_def split: sum.splits)

text \<open>C3: the front end is total.  For every source, \<open>lex\<close> either raises a \<open>LexError\<close> or the parser
  run on its tokens ends in one of these ways: a program of at least one item, whose spans
  belong to the source and whose functions have one span for each parameter, with the whole token stream
  consumed; a \<open>ParseError\<close> at a span of the
  source, the \<open>ValueError\<close> of \<open>float()\<close> or \<open>int()\<close> on a number token or the \<open>OverflowError\<close> of
  \<open>float()\<close>; or, exactly when the program has no token but separators, an \<open>IndexError\<close>.  No assertion
  fails, spans of different sources are never combined, no other index runs out of the token list and
  no loop or recursion runs on for ever.\<close>

theorem front_end_total:
  "case lex_program src of
     Inl e \<Rightarrow> (\<exists>m sp. e = LexError m sp)
   | Inr toks \<Rightarrow> parse_outcome toks (parse_tokens toks)"
  using scan_tokens_spans [of "lexer_init src"] lexed_stream_valid [of src] parse_tokens_outcome
  by (auto simp: lex_program_def split: sum.splits)

text \<open>C11: the empty program.  A program of separators and comments alone makes \<open>parse\<close> raise
  \<open>IndexError\<close>, because the error it means to report reads the token after EOF; every other
  program is parsed without an \<open>IndexError\<close>.\<close>

theorem parse_index_error:
  assumes "valid_stream toks"
  shows "parse toks = Inl IndexError \<longleftrightarrow> blank_stream toks"
  using parse_tokens_outcome [OF assms]
  by (auto simp: parse_def parse_outcome_def split: sum.splits if_splits)

definition eof_only :: "token list" where
  "eof_only =
     [mk_token TEof (mk_span (from_inline 0 []) (mk_point 0 0) (mk_point 0 0)) None]"

lemma parse_index_error_witness: "parse eof_only = Inl IndexError"
proof -
  have "valid_stream eof_only"
    by (simp add: valid_stream_def eof_only_def span_of_def stream_ref_def mk_token_def)
  from parse_index_error [OF this] show ?thesis
    by (simp add: blank_stream_def eof_only_def)
qed

end
