(* ===== verification/Builtins.thy ===== *)
theory Builtins
  imports Prelude
begin

text \<open>
  \<^verbatim>\<open>src/quawk/builtins.py\<close>: the builtin functions with the argument counts they accept, and the
  builtin variables and arrays.  Python's \<open>frozenset\<close>s are lists here, read through membership.
\<close>

definition BUILTIN_FUNCTION_NAMES :: "string list" where
  "BUILTIN_FUNCTION_NAMES =
     [''atan2'', ''close'', ''cos'', ''exp'', ''gsub'', ''index'', ''int'', ''length'', ''log'',
      ''match'', ''rand'', ''sin'', ''split'', ''sqrt'', ''srand'', ''sprintf'', ''sub'',
      ''substr'', ''system'', ''tolower'', ''toupper'']"

definition BUILTIN_VARIABLE_NAMES :: "string list" where
  "BUILTIN_VARIABLE_NAMES =
     [''ARGC'', ''CONVFMT'', ''FS'', ''FILENAME'', ''FNR'', ''NF'', ''NR'', ''OFMT'', ''OFS'',
      ''ORS'', ''RS'', ''RLENGTH'', ''RSTART'', ''SUBSEP'']"

definition BUILTIN_ARRAY_NAMES :: "string list" where
  "BUILTIN_ARRAY_NAMES = [''ARGV'', ''ENVIRON'']"

definition BUILTIN_ARITY_RULES :: "(string \<times> nat list) list" where
  "BUILTIN_ARITY_RULES =
     [(''atan2'', [2]), (''close'', [1]), (''cos'', [1]), (''exp'', [1]), (''gsub'', [2, 3]),
      (''index'', [2]), (''int'', [1]), (''length'', [0, 1]), (''log'', [1]), (''match'', [2]),
      (''rand'', [0]), (''sin'', [1]), (''split'', [2, 3]), (''sqrt'', [1]), (''srand'', [0, 1]),
      (''sub'', [2, 3]), (''substr'', [2, 3]), (''system'', [1]), (''tolower'', [1]),
      (''toupper'', [1])]"

definition is_builtin_function_name :: "string \<Rightarrow> bool" where
  "is_builtin_function_name name \<longleftrightarrow> name \<in> set BUILTIN_FUNCTION_NAMES"

definition is_builtin_variable_name :: "string \<Rightarrow> bool" where
  "is_builtin_variable_name name \<longleftrightarrow> name \<in> set BUILTIN_VARIABLE_NAMES"

definition is_builtin_array_name :: "string \<Rightarrow> bool" where
  "is_builtin_array_name name \<longleftrightarrow> name \<in> set BUILTIN_ARRAY_NAMES"

definition builtin_accepts_arity :: "string \<Rightarrow> nat \<Rightarrow> bool" where
  "builtin_accepts_arity name arg_count \<longleftrightarrow>
     (if name = ''sprintf'' then arg_count \<ge> 1
      else case map_of BUILTIN_ARITY_RULES name of
             None \<Rightarrow> False
           | Some allowed \<Rightarrow> arg_count \<in> set allowed)"

text \<open>The arity table has a rule for each builtin function but \<open>sprintf\<close>, and for nothing else.\<close>

lemma arity_rules_cover:
  "set (map fst BUILTIN_ARITY_RULES) = set BUILTIN_FUNCTION_NAMES - {''sprintf''}"
  by (auto simp: BUILTIN_ARITY_RULES_def BUILTIN_FUNCTION_NAMES_def)

lemma builtin_arity_is_function:
  assumes "builtin_accepts_arity name n"
  shows "is_builtin_function_name name"
proof (cases "name = ''sprintf''")
  case True
  then show ?thesis by (simp add: is_builtin_function_name_def BUILTIN_FUNCTION_NAMES_def)
next
  case False
  with assms obtain allowed where "map_of BUILTIN_ARITY_RULES name = Some allowed"
    by (auto simp: builtin_accepts_arity_def split: option.splits)
  then have "name \<in> set (map fst BUILTIN_ARITY_RULES)"
    by (force dest: map_of_SomeD)
  then show ?thesis by (simp only: arity_rules_cover is_builtin_function_name_def Diff_iff)
qed

end
