(* ===== verification/Semantics.thy ===== *)
theory Semantics
  imports Ast Builtins
begin

text \<open>
  \<^verbatim>\<open>src/quawk/semantics.py\<close>: the scope-sensitive checks that run after parsing.  The dictionaries of
  functions and scopes keep their insertion order and are association lists; a validator that
  returns \<open>None\<close> or raises is a function to \<open>exn + unit\<close>.
\<close>

type_synonym function_table = "(string \<times> function_def) list"

record function_scope =
  fs_params :: "string list"

record program_analysis =
  an_functions :: function_table
  an_scopes :: "(string \<times> function_scope) list"

definition is_local_name :: "function_scope \<Rightarrow> string \<Rightarrow> bool" where
  "is_local_name scope name \<longleftrightarrow> name \<in> set (fs_params scope)"

text \<open>\<open>name in functions and not (scope is not None and scope.is_local_name(name))\<close>.\<close>

definition names_function :: "function_table \<Rightarrow> function_scope option \<Rightarrow> string \<Rightarrow> bool" where
  "names_function functions scope name \<longleftrightarrow>
     map_of functions name \<noteq> None
     \<and> \<not> (case scope of None \<Rightarrow> False | Some sc \<Rightarrow> is_local_name sc name)"

definition assign_error :: "string \<Rightarrow> source_span \<Rightarrow> exn" where
  "assign_error name sp =
     SemanticError (''cannot assign to function name: '' @ name) sp ASSIGN_TO_FUNCTION_NAME"

definition is_assignable_expression :: "expr \<Rightarrow> bool" where
  "is_assignable_expression e =
     (case e of
        NameExpr _ _ \<Rightarrow> True
      | ArrayIndexExpr _ _ _ _ \<Rightarrow> True
      | FieldExpr _ _ \<Rightarrow> True
      | _ \<Rightarrow> False)"

definition is_record_action :: "pattern_action \<Rightarrow> bool" where
  "is_record_action item =
     (case pa_pattern item of
        None \<Rightarrow> True
      | Some (ExprPattern _ _) \<Rightarrow> True
      | Some (RangePattern _ _ _) \<Rightarrow> True
      | Some _ \<Rightarrow> False)"

section \<open>Expressions\<close>

text \<open>The messages of a builtin called with a wrong number of arguments.\<close>

definition builtin_call_expectations :: "(string \<times> string) list" where
  "builtin_call_expectations =
     [(''atan2'', ''two arguments''), (''close'', ''one argument''), (''cos'', ''one argument''),
      (''exp'', ''one argument''), (''gsub'', ''two or three arguments''),
      (''index'', ''two arguments''), (''int'', ''one argument''),
      (''length'', ''zero or one argument''), (''log'', ''one argument''),
      (''match'', ''two arguments''), (''rand'', ''zero arguments''), (''sin'', ''one argument''),
      (''sprintf'', ''at least a format argument''), (''split'', ''two or three arguments''),
      (''sqrt'', ''one argument''), (''srand'', ''zero or one argument''),
      (''sub'', ''two or three arguments''), (''substr'', ''two or three arguments''),
      (''system'', ''one argument''), (''tolower'', ''one argument''),
      (''toupper'', ''one argument'')]"

definition builtin_call_error :: "string \<Rightarrow> source_span \<Rightarrow> exn" where
  "builtin_call_error name sp =
     SemanticError
       (case map_of builtin_call_expectations name of
          Some expected \<Rightarrow> ''builtin '' @ name @ '' expects '' @ expected
        | None \<Rightarrow> ''unsupported builtin call: '' @ name)
       sp INVALID_BUILTIN_CALL"

text \<open>The checks of a call before and after its arguments are validated.\<close>

definition check_call :: "function_table \<Rightarrow> string \<Rightarrow> expr list \<Rightarrow> source_span \<Rightarrow> exn + unit" where
  "check_call functions name args sp =
     (if map_of functions name = None \<and> \<not> is_builtin_function_name name then
        Inl (SemanticError (''call to undefined function: '' @ name) sp UNDEFINED_FUNCTION_CALL)
      else if map_of functions name = None \<and> \<not> builtin_accepts_arity name (length args) then
        Inl (builtin_call_error name sp)
      else Inr ())"

definition check_substitution_target :: "function_table \<Rightarrow> string \<Rightarrow> expr list \<Rightarrow> exn + unit" where
  "check_substitution_target functions name args =
     (if map_of functions name = None \<and> name \<in> set [''sub'', ''gsub''] \<and> length args = 3 then
        case nth_opt args 2 of
          None \<Rightarrow> Inl IndexError
        | Some third \<Rightarrow>
            bindE (expression_to_lvalue third) (\<lambda>target.
              if target = None then
                Inl (SemanticError (''builtin '' @ name @ '' requires an assignable third argument'')
                       (expr_span third) INVALID_BUILTIN_CALL)
              else Inr ())
      else Inr ())"

definition increment_error :: "source_span \<Rightarrow> exn" where
  "increment_error sp =
     SemanticError ''increment and decrement require an assignable expression'' sp
       INVALID_INCREMENT_TARGET"

fun validate_expression :: "function_table \<Rightarrow> function_scope option \<Rightarrow> expr \<Rightarrow> exn + unit"
and validate_lvalue :: "function_table \<Rightarrow> function_scope option \<Rightarrow> lvalue \<Rightarrow> exn + unit"
where
  "validate_expression functions scope (BinaryExpr left _ right _) =
     bindE (validate_expression functions scope left) (\<lambda>_. validate_expression functions scope right)"
| "validate_expression functions scope (ArrayIndexExpr _ index extra _) =
     bindE (validate_expression functions scope index) (\<lambda>_.
       for_each (validate_expression functions scope) extra)"
| "validate_expression functions scope (ConditionalExpr test if_true if_false _) =
     bindE (validate_expression functions scope test) (\<lambda>_.
     bindE (validate_expression functions scope if_true) (\<lambda>_.
       validate_expression functions scope if_false))"
| "validate_expression functions scope (FieldExpr (ExprIndex index) _) =
     validate_expression functions scope index"
| "validate_expression functions scope (FieldExpr (IntIndex _) _) = Inr ()"
| "validate_expression functions scope (CallExpr name args sp) =
     bindE (check_call functions name args sp) (\<lambda>_.
     bindE (for_each (validate_expression functions scope) args) (\<lambda>_.
       check_substitution_target functions name args))"
| "validate_expression functions scope (GetlineExpr target source _) =
     bindE (case target of None \<Rightarrow> Inr () | Some lv \<Rightarrow> validate_lvalue functions scope lv) (\<lambda>_.
       case source of None \<Rightarrow> Inr () | Some e \<Rightarrow> validate_expression functions scope e)"
| "validate_expression functions scope (AssignExpr target _ value _) =
     bindE (validate_lvalue functions scope target) (\<lambda>_. validate_expression functions scope value)"
| "validate_expression functions scope (UnaryExpr op operand sp) =
     bindE (validate_expression functions scope operand) (\<lambda>_.
       if op \<in> set [PreInc, PreDec] \<and> \<not> is_assignable_expression operand
       then Inl (increment_error sp) else Inr ())"
| "validate_expression functions scope (PostfixExpr operand op sp) =
     bindE (validate_expression functions scope operand) (\<lambda>_.
       if op \<in> set [PostInc, PostDec] \<and> \<not> is_assignable_expression operand
       then Inl (increment_error sp) else Inr ())"
| "validate_expression functions scope (NameExpr _ _) = Inr ()"
| "validate_expression functions scope (StringLiteralExpr _ _ _) = Inr ()"
| "validate_expression functions scope (NumericLiteralExpr _ _ _) = Inr ()"
| "validate_expression functions scope (RegexLiteralExpr _ _) = Inr ()"
| "validate_lvalue functions scope (NameLValue name sp) =
     (if names_function functions scope name then Inl (assign_error name sp) else Inr ())"
| "validate_lvalue functions scope (ArrayLValue name subscripts sp) =
     (if names_function functions scope name then Inl (assign_error name sp)
      else for_each (validate_expression functions scope) subscripts)"
| "validate_lvalue functions scope (FieldLValue index _) = validate_expression functions scope index"

section \<open>Statements\<close>

definition validate_assignment_statement ::
    "function_table \<Rightarrow> function_scope option \<Rightarrow> lvalue \<Rightarrow> expr \<Rightarrow> source_span \<Rightarrow> exn + unit" where
  "validate_assignment_statement functions scope target value sp =
     (case target_name target of
        Some name \<Rightarrow>
          if names_function functions scope name then Inl (assign_error name sp)
          else bindE (validate_lvalue functions scope target) (\<lambda>_.
                 validate_expression functions scope value)
      | None \<Rightarrow> bindE (validate_lvalue functions scope target) (\<lambda>_.
                  validate_expression functions scope value))"

text \<open>The context of a statement: the parameters \<open>functions\<close>, \<open>scope\<close>, \<open>inside_function\<close>,
  \<open>in_record_action\<close> and \<open>loop_depth\<close> of \<open>validate_statement\<close>.\<close>

record check_context =
  cx_functions :: function_table
  cx_scope :: "function_scope option"
  cx_inside_function :: bool
  cx_in_record_action :: bool
  cx_loop_depth :: nat

abbreviation check_expression :: "check_context \<Rightarrow> expr \<Rightarrow> exn + unit" where
  "check_expression cx \<equiv> validate_expression (cx_functions cx) (cx_scope cx)"

definition optional_expression :: "check_context \<Rightarrow> expr option \<Rightarrow> exn + unit" where
  "optional_expression cx value = (case value of None \<Rightarrow> Inr () | Some e \<Rightarrow> check_expression cx e)"

definition output_arguments :: "check_context \<Rightarrow> expr list \<Rightarrow> output_redirect option \<Rightarrow> exn + unit" where
  "output_arguments cx arguments redirect =
     bindE (for_each (check_expression cx) arguments) (\<lambda>_.
       case redirect of None \<Rightarrow> Inr () | Some r \<Rightarrow> check_expression cx (or_target r))"

definition in_loop :: "check_context \<Rightarrow> check_context" where
  "in_loop cx = cx\<lparr>cx_loop_depth := cx_loop_depth cx + 1\<rparr>"

definition require :: "bool \<Rightarrow> exn \<Rightarrow> exn + unit" where
  "require b e = (if b then Inr () else Inl e)"

fun validate_statement :: "check_context \<Rightarrow> stmt \<Rightarrow> exn + unit" where
  "validate_statement cx (AssignStmt target _ value sp) =
     validate_assignment_statement (cx_functions cx) (cx_scope cx) target value sp"
| "validate_statement cx (BlockStmt statements _) = for_each (validate_statement cx) statements"
| "validate_statement cx (BreakStmt sp) =
     require (cx_loop_depth cx \<noteq> 0)
       (SemanticError ''break is only valid inside a loop'' sp BREAK_OUTSIDE_LOOP)"
| "validate_statement cx (ContinueStmt sp) =
     require (cx_loop_depth cx \<noteq> 0)
       (SemanticError ''continue is only valid inside a loop'' sp CONTINUE_OUTSIDE_LOOP)"
| "validate_statement cx (NextStmt sp) =
     require (cx_in_record_action cx)
       (SemanticError ''next is only valid in record actions'' sp NEXT_OUTSIDE_RECORD_ACTION)"
| "validate_statement cx (NextFileStmt sp) =
     require (cx_in_record_action cx)
       (SemanticError ''nextfile is only valid in record actions'' sp
          NEXTFILE_OUTSIDE_RECORD_ACTION)"
| "validate_statement cx (DeleteStmt target _) =
     validate_lvalue (cx_functions cx) (cx_scope cx) target"
| "validate_statement cx (IfStmt condition then_branch else_branch _) =
     bindE (check_expression cx condition) (\<lambda>_.
     bindE (validate_statement cx then_branch) (\<lambda>_.
       case else_branch of None \<Rightarrow> Inr () | Some s \<Rightarrow> validate_statement cx s))"
| "validate_statement cx (WhileStmt condition body _) =
     bindE (check_expression cx condition) (\<lambda>_. validate_statement (in_loop cx) body)"
| "validate_statement cx (DoWhileStmt body condition _) =
     bindE (validate_statement (in_loop cx) body) (\<lambda>_. check_expression cx condition)"
| "validate_statement cx (ForStmt init condition update body _) =
     bindE (for_each (check_expression cx) init) (\<lambda>_.
     bindE (optional_expression cx condition) (\<lambda>_.
     bindE (for_each (check_expression cx) update) (\<lambda>_. validate_statement (in_loop cx) body)))"
| "validate_statement cx (ForInStmt name iterable body sp) =
     (if names_function (cx_functions cx) (cx_scope cx) name then Inl (assign_error name sp)
      else bindE (check_expression cx iterable) (\<lambda>_.
        case iterable of
          NameExpr _ _ \<Rightarrow> validate_statement (in_loop cx) body
        | _ \<Rightarrow> Inl (SemanticError ''for-in iteration requires an array name'' (expr_span iterable)
                      INVALID_FOR_IN_ITERABLE)))"
| "validate_statement cx (PrintStmt arguments _ redirect) = output_arguments cx arguments redirect"
| "validate_statement cx (PrintfStmt arguments _ redirect) = output_arguments cx arguments redirect"
| "validate_statement cx (ExprStmt value _) = check_expression cx value"
| "validate_statement cx (ExitStmt value _) = optional_expression cx value"
| "validate_statement cx (ReturnStmt value sp) =
     bindE (require (cx_inside_function cx)
              (SemanticError ''return is only valid inside a function'' sp RETURN_OUTSIDE_FUNCTION))
       (\<lambda>_. optional_expression cx value)"

definition validate_action :: "check_context \<Rightarrow> action \<Rightarrow> exn + unit" where
  "validate_action cx a = for_each (validate_statement cx) (ac_statements a)"

fun validate_pattern :: "function_table \<Rightarrow> function_scope option \<Rightarrow> pattern \<Rightarrow> exn + unit" where
  "validate_pattern functions scope (ExprPattern test _) = validate_expression functions scope test"
| "validate_pattern functions scope (RangePattern left right _) =
     bindE (validate_pattern functions scope left) (\<lambda>_. validate_pattern functions scope right)"
| "validate_pattern functions scope (BeginPattern _) = Inr ()"
| "validate_pattern functions scope (EndPattern _) = Inr ()"

section \<open>Programs\<close>

text \<open>The loop over \<open>zip(params, param_spans, strict=True)\<close>, with the parameters seen so far.\<close>

fun validate_parameters ::
    "string \<Rightarrow> string list \<Rightarrow> string list \<Rightarrow> source_span list \<Rightarrow> exn + unit" where
  "validate_parameters fname seen [] [] = Inr ()"
| "validate_parameters fname seen (p # ps) (sp # sps) =
     (if p = fname then
        Inl (SemanticError (''function parameter conflicts with function name: '' @ p) sp
               FUNCTION_PARAMETER_CONFLICT)
      else if p \<in> set seen then
        Inl (SemanticError (''duplicate parameter name in function '' @ fname @ '': '' @ p) sp
               DUPLICATE_PARAMETER_NAME)
      else validate_parameters fname (p # seen) ps sps)"
| "validate_parameters fname seen (p # ps) [] =
     Inl (ValueError ''zip() argument 2 is shorter than argument 1'')"
| "validate_parameters fname seen [] (sp # sps) =
     Inl (ValueError ''zip() argument 2 is longer than argument 1'')"

definition validate_function_definition :: "function_def \<Rightarrow> exn + unit" where
  "validate_function_definition f = validate_parameters (fd_name f) [] (fd_params f) (fd_param_spans f)"

fun collect_functions :: "item list \<Rightarrow> function_table \<Rightarrow> exn + function_table" where
  "collect_functions [] functions = Inr functions"
| "collect_functions (FunctionDef f # items) functions =
     (if map_of functions (fd_name f) \<noteq> None then
        Inl (SemanticError (''duplicate function definition: '' @ fd_name f) (fd_span f)
               DUPLICATE_FUNCTION_DEFINITION)
      else bindE (validate_function_definition f) (\<lambda>_.
             collect_functions items (functions @ [(fd_name f, f)])))"
| "collect_functions (PatternAction _ # items) functions = collect_functions items functions"

definition function_scopes :: "function_table \<Rightarrow> (string \<times> function_scope) list" where
  "function_scopes functions =
     map (\<lambda>(name, f). (name, \<lparr>fs_params = fd_params f\<rparr>)) functions"

definition validate_item ::
    "function_table \<Rightarrow> (string \<times> function_scope) list \<Rightarrow> item \<Rightarrow> exn + unit" where
  "validate_item functions scopes item =
     (case item of
        FunctionDef f \<Rightarrow>
          (case map_of scopes (fd_name f) of
             None \<Rightarrow> Inl (KeyError (fd_name f))
           | Some scope \<Rightarrow>
               validate_action
                 \<lparr>cx_functions = functions, cx_scope = Some scope,
                  cx_inside_function = True, cx_in_record_action = False, cx_loop_depth = 0\<rparr>
                 (fd_body f))
      | PatternAction pa \<Rightarrow>
          (case pa_action pa of
             None \<Rightarrow> Inr ()
           | Some action \<Rightarrow>
               bindE (case pa_pattern pa of
                        None \<Rightarrow> Inr ()
                      | Some pat \<Rightarrow> validate_pattern functions None pat) (\<lambda>_.
                 validate_action
                   \<lparr>cx_functions = functions, cx_scope = None, cx_inside_function = False,
                    cx_in_record_action = is_record_action pa, cx_loop_depth = 0\<rparr> action)))"

definition analyze :: "program \<Rightarrow> exn + program_analysis" where
  "analyze prog =
     bindE (collect_functions (pr_items prog) []) (\<lambda>functions.
     bindE (for_each (validate_item functions (function_scopes functions)) (pr_items prog)) (\<lambda>_.
       Inr \<lparr>an_functions = functions, an_scopes = function_scopes functions\<rparr>))"

end
