(* ===== verification/Semantics_Spec.thy ===== *)
theory Semantics_Spec
  imports Semantics
begin

text \<open>
  What the analysis is meant to check, stated without its traversal: a condition on each
  expression node and on each statement with its loop depth, required of every node of the
  program.  The theorems say that the validators of \<open>Semantics\<close> accept exactly these trees,
  apart from the patterns of rules without an action, which \<open>analyze\<close> does not look at.
\<close>

section \<open>Expressions\<close>

fun sub_expressions :: "expr \<Rightarrow> expr list" where
  "sub_expressions e = e # concat (map sub_expressions (expression_children e))"

declare sub_expressions.simps [simp del]

definition target_ok :: "function_table \<Rightarrow> function_scope option \<Rightarrow> lvalue \<Rightarrow> bool" where
  "target_ok fns scope lv \<longleftrightarrow>
     (case target_name lv of None \<Rightarrow> True | Some n \<Rightarrow> \<not> names_function fns scope n)"

definition call_ok :: "function_table \<Rightarrow> string \<Rightarrow> expr list \<Rightarrow> bool" where
  "call_ok fns name args \<longleftrightarrow>
     name \<in> set (map fst fns)
     \<or> (is_builtin_function_name name \<and> builtin_accepts_arity name (length args)
        \<and> (name \<in> {''sub'', ''gsub''} \<and> length args = 3
             \<longrightarrow> (\<exists>lv. expression_to_lvalue (args ! 2) = Inr (Some lv))))"

definition node_ok :: "function_table \<Rightarrow> function_scope option \<Rightarrow> expr \<Rightarrow> bool" where
  "node_ok fns scope e =
     (case e of
        CallExpr name args _ \<Rightarrow> call_ok fns name args
      | AssignExpr target _ _ _ \<Rightarrow> target_ok fns scope target
      | GetlineExpr (Some target) _ _ \<Rightarrow> target_ok fns scope target
      | UnaryExpr PreInc operand _ \<Rightarrow> is_assignable_expression operand
      | UnaryExpr PreDec operand _ \<Rightarrow> is_assignable_expression operand
      | PostfixExpr operand _ _ \<Rightarrow> is_assignable_expression operand
      | _ \<Rightarrow> True)"

definition expr_legal :: "function_table \<Rightarrow> function_scope option \<Rightarrow> expr \<Rightarrow> bool" where
  "expr_legal fns scope e \<longleftrightarrow> list_all (node_ok fns scope) (sub_expressions e)"

lemma expr_legal_unfold:
  "expr_legal fns scope e \<longleftrightarrow>
     node_ok fns scope e \<and> list_all (expr_legal fns scope) (expression_children e)"
  by (subst expr_legal_def, subst sub_expressions.simps)
    (auto simp: list_all_iff expr_legal_def)

definition lvalue_legal :: "function_table \<Rightarrow> function_scope option \<Rightarrow> lvalue \<Rightarrow> bool" where
  "lvalue_legal fns scope lv \<longleftrightarrow>
     target_ok fns scope lv \<and> list_all (expr_legal fns scope) (lvalue_expressions lv)"

lemma check_call_ok:
  "check_call fns name args sp = Inr () \<and> check_substitution_target fns name args = Inr ()
     \<longleftrightarrow> call_ok fns name args"
proof -
  have "bindE (expression_to_lvalue e) (\<lambda>t. if t = None then Inl x else Inr ()) = Inr ()
      \<longleftrightarrow> (\<exists>lv. expression_to_lvalue e = Inr (Some lv))" for e and x :: exn
    by (auto simp: bindE_eq_Inr)
  then show ?thesis
    by (auto simp: check_call_def check_substitution_target_def call_ok_def map_of_eq_None_iff nth_opt_lt
        split: if_splits)
qed

lemma unit_bind [simp]:
  "bindE m f = Inr () \<longleftrightarrow> m = Inr () \<and> f () = Inr ()" for m :: "exn + unit"
  by (cases m) auto

lemma call_legal:
  "expr_legal fns scope (CallExpr name args sp) \<longleftrightarrow>
     call_ok fns name args \<and> list_all (expr_legal fns scope) args"
  by (simp add: expr_legal_unfold [of _ _ "CallExpr name args sp"] node_ok_def)

lemma validate_expression_iff:
  "validate_expression fns scope e = Inr () \<longleftrightarrow> expr_legal fns scope e"
  "validate_lvalue fns scope lv = Inr () \<longleftrightarrow> lvalue_legal fns scope lv"
proof (induction fns scope e and fns scope lv
    rule: validate_expression_validate_lvalue.induct)
  case (6 fns scope name args sp)
  then show ?case
    using check_call_ok [of fns name args sp] by (auto simp: call_legal list_all_iff)
next
  case (7 fns scope target source sp)
  then show ?case
    by (auto simp: expr_legal_unfold [of _ _ "GetlineExpr target source sp"] node_ok_def
        lvalue_legal_def list_all_iff split: option.splits)
next
  case (9 fns scope op operand sp)
  then show ?case
    by (cases op) (auto simp: expr_legal_unfold [of _ _ "UnaryExpr op operand sp" for op] node_ok_def)
next
  case (10 fns scope operand op sp)
  then show ?case
    by (cases op) (auto simp: expr_legal_unfold [of _ _ "PostfixExpr operand op sp" for op] node_ok_def)
qed (auto simp: expr_legal_unfold [of _ _ "BinaryExpr l b r sp" for l b r sp]
      expr_legal_unfold [of _ _ "ArrayIndexExpr n i x sp" for n i x sp]
      expr_legal_unfold [of _ _ "ConditionalExpr c t f sp" for c t f sp]
      expr_legal_unfold [of _ _ "FieldExpr i sp" for i sp]
      expr_legal_unfold [of _ _ "AssignExpr t b v sp" for t b v sp]
      expr_legal_unfold [of _ _ "NameExpr n sp" for n sp]
      expr_legal_unfold [of _ _ "StringLiteralExpr v r sp" for v r sp]
      expr_legal_unfold [of _ _ "NumericLiteralExpr v r sp" for v r sp]
      expr_legal_unfold [of _ _ "RegexLiteralExpr r sp" for r sp]
      node_ok_def lvalue_legal_def target_ok_def list_all_iff)

section \<open>Statements\<close>

text \<open>The statements nested in a statement, each with the number of loops around it.\<close>

fun sub_statements :: "nat \<Rightarrow> stmt \<Rightarrow> (nat \<times> stmt) list" where
  "sub_statements d (BlockStmt ss sp) = (d, BlockStmt ss sp) # concat (map (sub_statements d) ss)"
| "sub_statements d (IfStmt c t el sp) =
     (d, IfStmt c t el sp) # sub_statements d t
       @ (case el of None \<Rightarrow> [] | Some s \<Rightarrow> sub_statements d s)"
| "sub_statements d (WhileStmt c b sp) = (d, WhileStmt c b sp) # sub_statements (Suc d) b"
| "sub_statements d (DoWhileStmt b c sp) = (d, DoWhileStmt b c sp) # sub_statements (Suc d) b"
| "sub_statements d (ForStmt i c u b sp) = (d, ForStmt i c u b sp) # sub_statements (Suc d) b"
| "sub_statements d (ForInStmt n e b sp) = (d, ForInStmt n e b sp) # sub_statements (Suc d) b"
| "sub_statements d s = [(d, s)]"

definition option_list :: "'a option \<Rightarrow> 'a list" where
  "option_list x = (case x of None \<Rightarrow> [] | Some y \<Rightarrow> [y])"

definition statement_expressions :: "stmt \<Rightarrow> expr list" where
  "statement_expressions s =
     (case s of
        PrintStmt args _ r \<Rightarrow> args @ map or_target (option_list r)
      | PrintfStmt args _ r \<Rightarrow> args @ map or_target (option_list r)
      | AssignStmt target _ value _ \<Rightarrow> lvalue_expressions target @ [value]
      | ExitStmt v _ \<Rightarrow> option_list v
      | ReturnStmt v _ \<Rightarrow> option_list v
      | ExprStmt e _ \<Rightarrow> [e]
      | DeleteStmt target _ \<Rightarrow> lvalue_expressions target
      | IfStmt c _ _ _ \<Rightarrow> [c]
      | WhileStmt c _ _ \<Rightarrow> [c]
      | DoWhileStmt _ c _ \<Rightarrow> [c]
      | ForStmt i c u _ _ \<Rightarrow> i @ option_list c @ u
      | ForInStmt _ e _ _ \<Rightarrow> [e]
      | _ \<Rightarrow> [])"

definition statement_ok :: "check_context \<Rightarrow> nat \<Rightarrow> stmt \<Rightarrow> bool" where
  "statement_ok cx depth s =
     (case s of
        BreakStmt _ \<Rightarrow> 0 < depth
      | ContinueStmt _ \<Rightarrow> 0 < depth
      | NextStmt _ \<Rightarrow> cx_in_record_action cx
      | NextFileStmt _ \<Rightarrow> cx_in_record_action cx
      | ReturnStmt _ _ \<Rightarrow> cx_inside_function cx
      | AssignStmt target _ _ _ \<Rightarrow> target_ok (cx_functions cx) (cx_scope cx) target
      | DeleteStmt target _ \<Rightarrow> target_ok (cx_functions cx) (cx_scope cx) target
      | ForInStmt name e _ _ \<Rightarrow>
          \<not> names_function (cx_functions cx) (cx_scope cx) name \<and> (\<exists>n sp. e = NameExpr n sp)
      | _ \<Rightarrow> True)"

definition node_legal :: "check_context \<Rightarrow> nat \<times> stmt \<Rightarrow> bool" where
  "node_legal cx ds \<longleftrightarrow>
     statement_ok cx (fst ds) (snd ds)
     \<and> list_all (expr_legal (cx_functions cx) (cx_scope cx)) (statement_expressions (snd ds))"

definition stmt_legal :: "check_context \<Rightarrow> stmt \<Rightarrow> bool" where
  "stmt_legal cx s \<longleftrightarrow> list_all (node_legal cx) (sub_statements (cx_loop_depth cx) s)"

lemma in_loop_simps [simp]:
  "cx_functions (in_loop cx) = cx_functions cx" "cx_scope (in_loop cx) = cx_scope cx"
  "cx_inside_function (in_loop cx) = cx_inside_function cx"
  "cx_in_record_action (in_loop cx) = cx_in_record_action cx"
  "cx_loop_depth (in_loop cx) = Suc (cx_loop_depth cx)"
  by (simp_all add: in_loop_def)

lemma node_legal_in_loop [simp]: "node_legal (in_loop cx) = node_legal cx"
  by (intro ext) (simp add: node_legal_def statement_ok_def split: stmt.split)

lemma require_ok [simp]: "require b e = Inr () \<longleftrightarrow> b"
  by (simp add: require_def)

lemma assignment_iff:
  "validate_assignment_statement fns scope target value sp = Inr () \<longleftrightarrow>
     lvalue_legal fns scope target \<and> expr_legal fns scope value"
  by (auto simp: validate_assignment_statement_def validate_expression_iff lvalue_legal_def
      target_ok_def split: option.splits)

lemma for_in_iff:
  "(case iterable of NameExpr n sp \<Rightarrow> r | _ \<Rightarrow> Inl e) = Inr () \<longleftrightarrow>
     (\<exists>n sp. iterable = NameExpr n sp) \<and> r = Inr ()" for r :: "exn + unit"
  by (cases iterable) simp_all

lemma node_legal_leaf:
  "node_legal cx (d, BreakStmt sp) \<longleftrightarrow> 0 < d" "node_legal cx (d, ContinueStmt sp) \<longleftrightarrow> 0 < d"
  "node_legal cx (d, NextStmt sp) \<longleftrightarrow> cx_in_record_action cx"
  "node_legal cx (d, NextFileStmt sp) \<longleftrightarrow> cx_in_record_action cx"
  "node_legal cx (d, DeleteStmt lv sp) \<longleftrightarrow> lvalue_legal (cx_functions cx) (cx_scope cx) lv"
  "node_legal cx (d, AssignStmt lv op v sp) \<longleftrightarrow>
     lvalue_legal (cx_functions cx) (cx_scope cx) lv \<and> expr_legal (cx_functions cx) (cx_scope cx) v"
  "node_legal cx (d, ExprStmt v sp) \<longleftrightarrow> expr_legal (cx_functions cx) (cx_scope cx) v"
  "node_legal cx (d, ExitStmt ov sp) \<longleftrightarrow>
     list_all (expr_legal (cx_functions cx) (cx_scope cx)) (option_list ov)"
  "node_legal cx (d, ReturnStmt ov sp) \<longleftrightarrow> cx_inside_function cx
     \<and> list_all (expr_legal (cx_functions cx) (cx_scope cx)) (option_list ov)"
  "node_legal cx (d, PrintStmt args sp r) \<longleftrightarrow>
     list_all (expr_legal (cx_functions cx) (cx_scope cx)) (args @ map or_target (option_list r))"
  "node_legal cx (d, PrintfStmt args sp r) \<longleftrightarrow>
     list_all (expr_legal (cx_functions cx) (cx_scope cx)) (args @ map or_target (option_list r))"
  by (auto simp: node_legal_def statement_ok_def statement_expressions_def lvalue_legal_def)

lemma node_legal_branch:
  "node_legal cx (d, BlockStmt ss sp)"
  "node_legal cx (d, IfStmt c t el sp) \<longleftrightarrow> expr_legal (cx_functions cx) (cx_scope cx) c"
  "node_legal cx (d, WhileStmt c b sp) \<longleftrightarrow> expr_legal (cx_functions cx) (cx_scope cx) c"
  "node_legal cx (d, DoWhileStmt b c sp) \<longleftrightarrow> expr_legal (cx_functions cx) (cx_scope cx) c"
  "node_legal cx (d, ForStmt i oc u b sp) \<longleftrightarrow>
     list_all (expr_legal (cx_functions cx) (cx_scope cx)) (i @ option_list oc @ u)"
  "node_legal cx (d, ForInStmt n e b sp) \<longleftrightarrow>
     \<not> names_function (cx_functions cx) (cx_scope cx) n \<and> (\<exists>m sp'. e = NameExpr m sp')
     \<and> expr_legal (cx_functions cx) (cx_scope cx) e"
  by (simp_all add: node_legal_def statement_ok_def statement_expressions_def)

lemmas node_legal_simps = node_legal_leaf node_legal_branch

lemma option_list_simps [simp]: "option_list None = []" "option_list (Some x) = [x]"
  by (simp_all add: option_list_def)

lemma validate_statement_iff: "validate_statement cx s = Inr () \<longleftrightarrow> stmt_legal cx s"
proof (induction cx s rule: validate_statement.induct)
  case (2 cx statements sp)
  then show ?case by (auto simp: stmt_legal_def node_legal_simps list_all_iff)
next
  case (8 cx condition then_branch else_branch sp)
  then show ?case
    by (cases else_branch) (auto simp: stmt_legal_def node_legal_simps validate_expression_iff)
qed (auto simp: stmt_legal_def node_legal_simps validate_expression_iff assignment_iff for_in_iff
      optional_expression_def output_arguments_def list_all_iff split: option.splits)

section \<open>Programs\<close>

fun pattern_expressions :: "pattern \<Rightarrow> expr list" where
  "pattern_expressions (ExprPattern e _) = [e]"
| "pattern_expressions (RangePattern l r _) = pattern_expressions l @ pattern_expressions r"
| "pattern_expressions _ = []"

lemma validate_pattern_iff:
  "validate_pattern fns scope pat = Inr () \<longleftrightarrow>
     list_all (expr_legal fns scope) (pattern_expressions pat)"
  by (induction fns scope pat rule: validate_pattern.induct) (auto simp: validate_expression_iff)

fun functions_of :: "item list \<Rightarrow> function_table" where
  "functions_of [] = []"
| "functions_of (FunctionDef f # items) = (fd_name f, f) # functions_of items"
| "functions_of (PatternAction _ # items) = functions_of items"

abbreviation program_functions :: "program \<Rightarrow> function_table" where
  "program_functions prog \<equiv> functions_of (pr_items prog)"

definition signature_ok :: "function_def \<Rightarrow> bool" where
  "signature_ok f \<longleftrightarrow>
     distinct (fd_params f) \<and> fd_name f \<notin> set (fd_params f)
     \<and> length (fd_params f) = length (fd_param_spans f)"

definition function_context :: "function_table \<Rightarrow> function_def \<Rightarrow> check_context" where
  "function_context fns f =
     \<lparr>cx_functions = fns, cx_scope = Some \<lparr>fs_params = fd_params f\<rparr>, cx_inside_function = True,
      cx_in_record_action = False, cx_loop_depth = 0\<rparr>"

definition action_context :: "function_table \<Rightarrow> pattern_action \<Rightarrow> check_context" where
  "action_context fns pa =
     \<lparr>cx_functions = fns, cx_scope = None, cx_inside_function = False,
      cx_in_record_action = is_record_action pa, cx_loop_depth = 0\<rparr>"

text \<open>Every expression of the pattern of a rule and every node of its action.\<close>

definition item_legal :: "function_table \<Rightarrow> item \<Rightarrow> bool" where
  "item_legal fns i =
     (case i of
        FunctionDef f \<Rightarrow> list_all (stmt_legal (function_context fns f)) (ac_statements (fd_body f))
      | PatternAction pa \<Rightarrow>
          list_all (expr_legal fns None) (concat (map pattern_expressions (option_list (pa_pattern pa))))
          \<and> list_all (stmt_legal (action_context fns pa))
              (concat (map ac_statements (option_list (pa_action pa)))))"

definition signatures_legal :: "program \<Rightarrow> bool" where
  "signatures_legal prog \<longleftrightarrow>
     distinct (map fst (program_functions prog))
     \<and> list_all (\<lambda>(_, f). signature_ok f) (program_functions prog)"

definition program_legal :: "program \<Rightarrow> bool" where
  "program_legal prog \<longleftrightarrow>
     signatures_legal prog \<and> list_all (item_legal (program_functions prog)) (pr_items prog)"

text \<open>A rule that prints the records its pattern selects.\<close>

definition pattern_only :: "item \<Rightarrow> bool" where
  "pattern_only i = (case i of FunctionDef _ \<Rightarrow> False | PatternAction pa \<Rightarrow> pa_action pa = None)"

text \<open>Every item is legal but those that the analysis skips.\<close>

definition checked_items_legal :: "program \<Rightarrow> bool" where
  "checked_items_legal prog \<longleftrightarrow>
     list_all (item_legal (program_functions prog)) (filter (\<lambda>i. \<not> pattern_only i) (pr_items prog))"

lemma validate_parameters_iff:
  "validate_parameters fname seen ps sps = Inr () \<longleftrightarrow>
     distinct ps \<and> set ps \<inter> set seen = {} \<and> fname \<notin> set ps \<and> length ps = length sps"
  by (induction fname seen ps sps rule: validate_parameters.induct) auto

lemma collect_functions_iff:
  "collect_functions items fns = Inr out \<longleftrightarrow>
      out = fns @ functions_of items \<and> distinct (map fst (functions_of items))
      \<and> set (map fst (functions_of items)) \<inter> set (map fst fns) = {}
      \<and> list_all (\<lambda>(_, f). signature_ok f) (functions_of items)"
proof (induction items fns rule: collect_functions.induct)
  case (2 f items fns)
  then show ?case
    by (auto simp: bindE_eq_Inr validate_function_definition_def
        validate_parameters_iff signature_ok_def map_of_eq_None_iff)
qed auto

lemma function_scope_lookup:
  "map_of (function_scopes fns) name = map_option (\<lambda>f. \<lparr>fs_params = fd_params f\<rparr>) (map_of fns name)"
  by (induction fns) (auto simp: function_scopes_def)

lemma functions_of_lookup:
  "distinct (map fst (functions_of items)) \<Longrightarrow> FunctionDef f \<in> set items \<Longrightarrow>
     map_of (functions_of items) (fd_name f) = Some f"
proof -
  assume d: "distinct (map fst (functions_of items))" and f: "FunctionDef f \<in> set items"
  have "(fd_name f, f) \<in> set (functions_of items)"
    using f by (induction items rule: functions_of.induct) auto
  with d show ?thesis by simp
qed

lemma validate_item_iff:
  assumes "\<And>f. i = FunctionDef f \<Longrightarrow> map_of fns (fd_name f) = Some f"
  shows "validate_item fns (function_scopes fns) i = Inr () \<longleftrightarrow> pattern_only i \<or> item_legal fns i"
proof (cases i)
  case (FunctionDef f)
  with assms show ?thesis
    by (simp add: validate_item_def item_legal_def pattern_only_def validate_action_def validate_statement_iff
        function_scope_lookup function_context_def list_all_iff)
next
  case (PatternAction pa)
  then show ?thesis
    by (cases "pa_action pa"; cases "pa_pattern pa")
      (auto simp: validate_item_def item_legal_def pattern_only_def validate_action_def validate_statement_iff
        action_context_def list_all_iff validate_pattern_iff)
qed

lemma analyze_iff:
  "analyze prog = Inr an \<longleftrightarrow>
     signatures_legal prog \<and> checked_items_legal prog \<and> an_functions an = program_functions prog
     \<and> an_scopes an = function_scopes (program_functions prog)"
proof -
  let ?fns = "program_functions prog"
  have items: "for_each (validate_item ?fns (function_scopes ?fns)) (pr_items prog) = Inr () \<longleftrightarrow>
      checked_items_legal prog" if "distinct (map fst ?fns)"
  proof -
    have "validate_item ?fns (function_scopes ?fns) i = Inr () \<longleftrightarrow> pattern_only i \<or> item_legal ?fns i"
      if "i \<in> set (pr_items prog)" for i
      using that by (intro validate_item_iff functions_of_lookup) (simp_all add: \<open>distinct _\<close>)
    then show ?thesis by (auto simp: checked_items_legal_def list_all_iff)
  qed
  have "analyze prog = Inr an \<longleftrightarrow>
      signatures_legal prog
      \<and> for_each (validate_item ?fns (function_scopes ?fns)) (pr_items prog) = Inr ()
      \<and> an = \<lparr>an_functions = ?fns, an_scopes = function_scopes ?fns\<rparr>"
    by (auto simp: analyze_def bindE_eq_Inr collect_functions_iff signatures_legal_def)
  also have "\<dots> \<longleftrightarrow> signatures_legal prog \<and> checked_items_legal prog
      \<and> an = \<lparr>an_functions = ?fns, an_scopes = function_scopes ?fns\<rparr>"
    using items by (auto simp: signatures_legal_def)
  finally show ?thesis by (cases an) auto
qed

lemma program_legal_iff:
  "program_legal prog \<longleftrightarrow> signatures_legal prog \<and> checked_items_legal prog
     \<and> list_all (item_legal (program_functions prog)) (filter pattern_only (pr_items prog))"
  by (auto simp: program_legal_def checked_items_legal_def list_all_iff)

end
