(* ===== verification/Semantics_Props.thy ===== *)
theory Semantics_Props
  imports Semantics_Spec
begin

text \<open>
  The properties of the analysis: it accepts exactly the legal programs, it only reports semantic
  errors, and in an accepted program no jump escapes the construct it belongs to.
\<close>

text \<open>C5: \<open>analyze\<close> accepts exactly the programs in which function names are distinct, every
  signature has distinct parameters other than the function's name, and every expression and
  statement node, however deeply nested, of the functions and of the rules with an action satisfies its
  own condition (calls are to defined functions or to builtins with an accepted number of arguments,
  assignment targets are not function names, increments have assignable operands, jumps stand where
  they may); and then its result is the table of the program's functions with their scopes.  A program
  is legal in every node exactly when it is accepted and the patterns of its rules without an action,
  which are not checked, are legal too.\<close>

theorem analyze_accepts_legal:
  "(analyze prog = Inr an \<longleftrightarrow>
      signatures_legal prog \<and> checked_items_legal prog
      \<and> an_functions an = program_functions prog
      \<and> an_scopes an = function_scopes (program_functions prog))
   \<and> (program_legal prog \<longleftrightarrow>
        (\<exists>an. analyze prog = Inr an)
        \<and> list_all (item_legal (program_functions prog)) (filter pattern_only (pr_items prog)))"
proof -
  have "(\<exists>an. analyze prog = Inr an) \<longleftrightarrow> signatures_legal prog \<and> checked_items_legal prog"
    by (auto simp: analyze_iff intro: exI [of _ "\<lparr>an_functions = _, an_scopes = _\<rparr>"])
  then show ?thesis by (simp add: analyze_iff program_legal_iff)
qed

section \<open>Jumps\<close>

text \<open>How a statement may complete, in any run: the conditions are not evaluated, so every branch is
  taken and every loop runs any number of times; an expression may call a function that exits.\<close>

datatype completion = Falls | Breaks | Continues | Nexts | NextFiles | Exits | Returns

inductive completes :: "stmt \<Rightarrow> completion \<Rightarrow> bool"
  and completes_all :: "stmt list \<Rightarrow> completion \<Rightarrow> bool"
where
  simple: "s \<in> {PrintStmt a sp r, PrintfStmt a sp r, AssignStmt lv op e sp, ExprStmt e sp, DeleteStmt lv sp}
     \<Longrightarrow> completes s Falls"
| exits: "completes s Exits"
| break: "completes (BreakStmt sp) Breaks"
| continue: "completes (ContinueStmt sp) Continues"
| "next": "completes (NextStmt sp) Nexts"
| nextfile: "completes (NextFileStmt sp) NextFiles"
| return: "completes (ReturnStmt v sp) Returns"
| block: "completes_all ss c \<Longrightarrow> completes (BlockStmt ss sp) c"
| if_then: "completes t c \<Longrightarrow> completes (IfStmt e t el sp) c"
| if_else: "completes s c \<Longrightarrow> completes (IfStmt e t (Some s) sp) c"
| if_skip: "completes (IfStmt e t None sp) Falls"
| loop_done: "s \<in> {WhileStmt e b sp, ForStmt i oe u b sp, ForInStmt n e b sp} \<Longrightarrow> completes s Falls"
| loop_body:
    "s \<in> {WhileStmt e b sp, DoWhileStmt b e sp, ForStmt i oe u b sp, ForInStmt n e b sp} \<Longrightarrow>
     completes b c \<Longrightarrow> c \<notin> {Falls, Breaks, Continues} \<Longrightarrow> completes s c"
| loop_end:
    "s \<in> {WhileStmt e b sp, DoWhileStmt b e sp, ForStmt i oe u b sp, ForInStmt n e b sp} \<Longrightarrow>
     completes b c \<Longrightarrow> c \<in> {Falls, Breaks, Continues} \<Longrightarrow> completes s Falls"
| all_done: "completes_all [] Falls"
| all_next: "completes s Falls \<Longrightarrow> completes_all ss c \<Longrightarrow> completes_all (s # ss) c"
| all_stop: "completes s c \<Longrightarrow> c \<noteq> Falls \<Longrightarrow> completes_all (s # ss) c"

definition jump_ok :: "check_context \<Rightarrow> completion \<Rightarrow> bool" where
  "jump_ok cx c =
     (case c of
        Breaks \<Rightarrow> 0 < cx_loop_depth cx
      | Continues \<Rightarrow> 0 < cx_loop_depth cx
      | Nexts \<Rightarrow> cx_in_record_action cx
      | NextFiles \<Rightarrow> cx_in_record_action cx
      | Returns \<Rightarrow> cx_inside_function cx
      | _ \<Rightarrow> True)"

lemma jump_ok_in_loop:
  "jump_ok (in_loop cx) c \<Longrightarrow> c \<notin> {Breaks, Continues} \<Longrightarrow> jump_ok cx c"
  by (cases c) (auto simp: jump_ok_def)

lemma validated_loop_body:
  "validate_statement cx s = Inr () \<Longrightarrow>
     s \<in> {WhileStmt e b sp, DoWhileStmt b e sp, ForStmt i oe u b sp, ForInStmt n e b sp} \<Longrightarrow>
     validate_statement (in_loop cx) b = Inr ()"
  by (elim insertE emptyE) (simp_all add: for_in_iff split: if_splits)

lemma validated_jumps:
  "completes s c \<Longrightarrow> validate_statement cx s = Inr () \<Longrightarrow> jump_ok cx c"
  "completes_all ss c \<Longrightarrow> (\<forall>s\<in>set ss. validate_statement cx s = Inr ()) \<Longrightarrow> jump_ok cx c"
proof (induction arbitrary: cx and cx rule: completes_completes_all.inducts)
  case (loop_body s e b sp i oe u n c)
  have "validate_statement (in_loop cx) b = Inr ()"
    using loop_body.prems loop_body.hyps(1) by (rule validated_loop_body)
  with loop_body.IH loop_body.hyps(3) show ?case
    by (auto intro: jump_ok_in_loop [of cx])
qed (auto simp: jump_ok_def for_in_iff split: if_splits)

text \<open>What the analysis promises about the jumps of an item: no run of a function body completes
  with \<open>break\<close>, \<open>continue\<close>, \<open>next\<close> or \<open>nextfile\<close>, and no run of an action completes with \<open>break\<close>,
  \<open>continue\<close> or \<open>return\<close>, nor with \<open>next\<close> or \<open>nextfile\<close> unless it is a record action.\<close>

definition jumps_caught :: "item \<Rightarrow> bool" where
  "jumps_caught item =
     (case item of
        FunctionDef f \<Rightarrow> {c. completes_all (ac_statements (fd_body f)) c} \<subseteq> {Falls, Exits, Returns}
      | PatternAction pa \<Rightarrow>
          (case pa_action pa of
             None \<Rightarrow> True
           | Some a \<Rightarrow>
               {c. completes_all (ac_statements a) c}
                 \<subseteq> {Falls, Exits} \<union> (if is_record_action pa then {Nexts, NextFiles} else {})))"

text \<open>C6: jump safety.  In a program that \<open>analyze\<close> accepts every jump of every item is caught by the
  loop, function or record rule that it names (\<open>jumps_caught\<close>).\<close>

theorem accepted_jumps_are_caught:
  assumes "analyze prog = Inr an"
    and "item \<in> set (pr_items prog)"
  shows "jumps_caught item"
proof -
  have legal: "pattern_only item \<or> item_legal (program_functions prog) item"
    using assms by (auto simp: analyze_iff checked_items_legal_def list_all_iff)
  show ?thesis
  proof (cases item)
    case (FunctionDef f)
    let ?cx = "function_context (program_functions prog) f"
    have "jump_ok ?cx c \<Longrightarrow> c \<in> {Falls, Exits, Returns}" for c
      by (cases c) (auto simp: jump_ok_def function_context_def)
    with legal FunctionDef show ?thesis
      using validated_jumps(2) [of "ac_statements (fd_body f)" _ ?cx]
      by (auto simp: jumps_caught_def item_legal_def pattern_only_def validate_statement_iff list_all_iff)
  next
    case (PatternAction pa)
    let ?cx = "action_context (program_functions prog) pa"
    have "jump_ok ?cx c \<Longrightarrow>
        c \<in> {Falls, Exits} \<union> (if is_record_action pa then {Nexts, NextFiles} else {})" for c
      by (cases c) (auto simp: jump_ok_def action_context_def)
    with legal PatternAction show ?thesis
      using validated_jumps(2) [of _ _ ?cx]
      by (fastforce simp: jumps_caught_def item_legal_def pattern_only_def validate_statement_iff list_all_iff
          split: option.splits)
  qed
qed

text \<open>A program for the witnesses: \<open>function f(n) { return n }  { while (f(1)) break; next }\<close>.\<close>

definition sample_span :: source_span where
  "sample_span = mk_span (from_inline 0 []) (mk_point 0 0) (mk_point 0 0)"

definition sample_function :: function_def where
  "sample_function =
     \<lparr>fd_name = ''f'', fd_params = [''n''], fd_param_spans = [sample_span],
      fd_body = \<lparr>ac_statements = [ReturnStmt (Some (NameExpr ''n'' sample_span)) sample_span],
                 ac_span = sample_span\<rparr>, fd_span = sample_span\<rparr>"

definition sample_rule :: pattern_action where
  "sample_rule =
     \<lparr>pa_pattern = None,
      pa_action = Some
        \<lparr>ac_statements =
           [WhileStmt (CallExpr ''f'' [NumericLiteralExpr (Double 1 0) ''1'' sample_span] sample_span)
              (BreakStmt sample_span) sample_span,
            NextStmt sample_span],
         ac_span = sample_span\<rparr>,
      pa_span = sample_span\<rparr>"

definition sample_program :: program where
  "sample_program =
     \<lparr>pr_items = [FunctionDef sample_function, PatternAction sample_rule], pr_span = sample_span\<rparr>"

lemma sample_accepted: "\<exists>an. analyze sample_program = Inr an"
  by (simp add: analyze_def sample_program_def sample_function_def sample_rule_def
      validate_function_definition_def function_scopes_def validate_item_def validate_action_def
      check_call_def check_substitution_target_def require_def optional_expression_def in_loop_def
      is_record_action_def)

lemma accepted_jumps_are_caught_witness: "jumps_caught (PatternAction sample_rule)"
proof -
  obtain an where "analyze sample_program = Inr an" using sample_accepted by blast
  then show ?thesis by (rule accepted_jumps_are_caught) (simp add: sample_program_def)
qed

section \<open>Errors\<close>

text \<open>What the analysis may raise: a semantic error, or the overflow of a huge field number in the
  third argument of \<open>sub\<close>.\<close>

fun analysis_error :: "exn \<Rightarrow> bool" where
  "analysis_error (SemanticError m sp code) \<longleftrightarrow> True"
| "analysis_error (OverflowError m) \<longleftrightarrow> True"
| "analysis_error _ \<longleftrightarrow> False"

definition raises_only :: "(exn \<Rightarrow> bool) \<Rightarrow> exn + 'a \<Rightarrow> bool" where
  "raises_only P r \<longleftrightarrow> (case r of Inl e \<Rightarrow> P e | Inr _ \<Rightarrow> True)"

lemma raises_only_simps [simp]:
  "raises_only P (Inl e) \<longleftrightarrow> P e" "raises_only P (Inr x)"
  by (simp_all add: raises_only_def)

lemma raises_only_bind [intro!]:
  "raises_only P m \<Longrightarrow> (\<And>x. m = Inr x \<Longrightarrow> raises_only P (f x)) \<Longrightarrow> raises_only P (bindE m f)"
  by (cases m) auto

lemma raises_only_for_each [intro!]:
  "(\<And>x. x \<in> set xs \<Longrightarrow> raises_only P (f x)) \<Longrightarrow> raises_only P (for_each f xs)"
  by (induction xs) auto

lemma raises_only_require [simp]: "raises_only P (require b e) \<longleftrightarrow> b \<or> P e"
  by (simp add: require_def)

lemma lvalue_raises: "raises_only analysis_error (expression_to_lvalue e)"
  by (cases e rule: expression_to_lvalue.cases)
    (auto simp: float_of_int_def split: py_float.split)

lemma check_call_raises:
  "raises_only analysis_error (check_call fns name args sp)"
  "raises_only analysis_error (check_substitution_target fns name args)"
  by (auto simp: check_call_def builtin_call_error_def check_substitution_target_def nth_opt_lt
      intro!: raises_only_bind lvalue_raises)

lemma validate_expression_raises:
  "raises_only analysis_error (validate_expression fns scope e)"
  "raises_only analysis_error (validate_lvalue fns scope lv)"
  by (induction fns scope e and fns scope lv rule: validate_expression_validate_lvalue.induct)
    (auto simp: assign_error_def increment_error_def check_call_raises split: option.split)

lemma validate_statement_raises: "raises_only analysis_error (validate_statement cx s)"
proof (induction cx s rule: validate_statement.induct)
  case (12 cx name iterable body sp)
  have "raises_only analysis_error
      (bindE (check_expression cx iterable) (\<lambda>_.
        case iterable of
          NameExpr _ _ \<Rightarrow> validate_statement (in_loop cx) body
        | _ \<Rightarrow> Inl (SemanticError ''for-in iteration requires an array name'' (expr_span iterable)
                      INVALID_FOR_IN_ITERABLE)))"
    if "\<not> names_function (cx_functions cx) (cx_scope cx) name"
    using 12 that by (intro raises_only_bind validate_expression_raises) (auto split: expr.split)
  then show ?case by (simp add: assign_error_def)
qed (auto simp: assign_error_def validate_expression_raises validate_assignment_statement_def
      optional_expression_def output_arguments_def split: option.split)

lemma validate_pattern_raises: "raises_only analysis_error (validate_pattern fns scope pat)"
  by (induction fns scope pat rule: validate_pattern.induct) (auto simp: validate_expression_raises)

definition spans_matched :: "item list \<Rightarrow> bool" where
  "spans_matched items \<longleftrightarrow>
     list_all (\<lambda>(_, f). length (fd_params f) = length (fd_param_spans f)) (functions_of items)"

lemma validate_parameters_raises:
  "length ps = length sps \<Longrightarrow> raises_only analysis_error (validate_parameters fname seen ps sps)"
  by (induction fname seen ps sps rule: validate_parameters.induct) auto

lemma collect_functions_raises:
  "spans_matched items \<Longrightarrow> raises_only analysis_error (collect_functions items fns)"
  unfolding spans_matched_def
  by (induction items fns rule: collect_functions.induct)
    (auto simp: validate_function_definition_def validate_parameters_raises)

lemma validate_item_raises:
  "(\<And>f. i = FunctionDef f \<Longrightarrow> map_of scopes (fd_name f) \<noteq> None) \<Longrightarrow>
     raises_only analysis_error (validate_item fns scopes i)"
  by (auto simp: validate_item_def validate_action_def validate_statement_raises
      validate_pattern_raises split: item.split option.split)

text \<open>The second loop finds the scope of every function, because the first one has collected it.\<close>

lemma validate_items_raise:
  assumes "collect_functions (pr_items prog) [] = Inr fns"
  shows "raises_only analysis_error (for_each (validate_item fns (function_scopes fns)) (pr_items prog))"
proof (intro raises_only_for_each validate_item_raises)
  fix i f assume "i \<in> set (pr_items prog)" "i = FunctionDef f"
  then have "map_of fns (fd_name f) = Some f"
    using assms functions_of_lookup [of "pr_items prog" f] by (simp add: collect_functions_iff)
  then show "map_of (function_scopes fns) (fd_name f) \<noteq> None" by (simp add: function_scope_lookup)
qed

lemma analyze_raises: "spans_matched (pr_items prog) \<Longrightarrow> raises_only analysis_error (analyze prog)"
  unfolding analyze_def
  by (intro raises_only_bind collect_functions_raises validate_items_raise) auto

section \<open>Gaps in the checks\<close>

text \<open>A rule without an action is skipped with its pattern, so the program \<open>f(1)\<close> that calls an
  undefined function is accepted.\<close>

definition undefined_call_program :: program where
  "undefined_call_program =
     \<lparr>pr_items =
        [PatternAction
           \<lparr>pa_pattern = Some (ExprPattern (CallExpr ''f'' [NumericLiteralExpr (Double 1 0) ''1'' sample_span] sample_span)
              sample_span),
            pa_action = None, pa_span = sample_span\<rparr>],
      pr_span = sample_span\<rparr>"

lemma pattern_only_rule_unchecked:
  "(\<exists>an. analyze undefined_call_program = Inr an) \<and> \<not> program_legal undefined_call_program"
proof
  show "\<exists>an. analyze undefined_call_program = Inr an"
    by (simp add: analyze_def undefined_call_program_def validate_item_def)
  show "\<not> program_legal undefined_call_program"
    by (simp add: program_legal_def undefined_call_program_def item_legal_def call_legal call_ok_def
        is_builtin_function_name_def BUILTIN_FUNCTION_NAMES_def)
qed

text \<open>The check that a function name is not assigned to covers assignments but not the other
  operations that store: incrementing a function name, and passing it to \<open>sub\<close> as the target of the
  substitution, are accepted.\<close>

lemma function_name_stores_unchecked:
  assumes "names_function fns scope f"
  shows "validate_expression fns scope (AssignExpr (NameLValue f sp) op v sp')
           = Inl (assign_error f sp)
         \<and> validate_expression fns scope (PostfixExpr (NameExpr f sp) pop sp') = Inr ()
         \<and> validate_expression fns scope (UnaryExpr uop (NameExpr f sp) sp') = Inr ()"
  using assms by (simp add: is_assignable_expression_def)

lemma function_name_stores_unchecked_witness:
  "validate_expression [(''f'', sample_function)] None (PostfixExpr (NameExpr ''f'' sample_span) PostInc sample_span)
     = Inr ()"
  using function_name_stores_unchecked [of "[(''f'', sample_function)]" None "''f''" sample_span
      AssignPlain "NameExpr ''f'' sample_span" sample_span PostInc PreInc]
  by (simp add: names_function_def)

end
