(* ===== verification/Analysis_Errors.thy ===== *)
theory Analysis_Errors
  imports Semantics_Props Parser_Props Lexer_Roundtrip
begin

text \<open>
  The exceptions of the analysis on the programs that the front end hands to it.
\<close>

text \<open>A function definition that the parser builds has one span for each parameter.\<close>

lemma items_matched: "list_all (item_ok ts) items \<Longrightarrow> spans_matched items"
  unfolding spans_matched_def
  by (induction items rule: functions_of.induct) (auto simp: item_ok_def)

lemma parsed_matched:
  assumes "lex_program src = Inr toks" and "parse toks = Inr prog"
  shows "spans_matched (pr_items prog)"
proof -
  obtain p where "parse_tokens toks = Inr (prog, p)"
    using assms(2) by (auto simp: parse_def bindE_eq_Inr)
  with parse_tokens_outcome [OF lexed_stream_valid [OF assms(1)]]
  have "list_all (item_ok toks) (pr_items prog)" by (simp add: parse_outcome_def)
  then show ?thesis by (rule items_matched)
qed

text \<open>C12: the analysis reports and never crashes.  On every program that the lexer and the parser produce,
  \<open>analyze\<close> raises nothing but a \<open>SemanticError\<close>, or the \<open>OverflowError\<close> of a field number too large for
  a float in the third argument of \<open>sub\<close> or \<open>gsub\<close>.  In particular the \<open>ValueError\<close> of
  \<open>zip(..., strict=True)\<close>, the \<open>IndexError\<close> of \<open>args[2]\<close> and the \<open>KeyError\<close> of
  \<open>function_scopes[item.name]\<close> are not reachable.\<close>

theorem analyze_raises_semantic_errors:
  assumes "lex_program src = Inr toks" and "parse toks = Inr prog" and "analyze prog = Inl e"
  shows "(\<exists>m sp code. e = SemanticError m sp code) \<or> (\<exists>m. e = OverflowError m)"
  using analyze_raises [OF parsed_matched [OF assms(1,2)]] assms(3) by (cases e) simp_all

text \<open>The text \<open>{ break }\<close>: the parser, run on any tokens of these kinds, returns the one rule.\<close>

definition stray_break :: program_source where
  "stray_break = from_inline 0 (render [(TLbrace, None), (TBreak, None), (TRbrace, None)])"

lemma bindE_first: "m = m' \<Longrightarrow> bindE m f = bindE m' f"
  by simp

lemma statement_parser: "r_statement (tie rec) = parse_statement rec"
  by (simp add: tie_def)

lemmas parser_steps =
  parse_def parse_tokens_def parse_program_def bindP_def consume_separators_def separators_loop.simps
  with_fuel_def remaining_def check_def current_def current_kind_def nth_opt_def parse_item_def
  parse_pattern_action_def parse_action_def parse_braced_statements_def expect_def next_token_def retP_def
  statement_parser parse_statement_def parse_break_statement_def parse_keyword_statement_def liftP_def advance_def

lemma parse_stray_break:
  assumes "valid_stream [a, b, c, d]" "map tk_kind [a, b, c, d] = [TLbrace, TBreak, TRbrace, TEof]"
  shows "\<exists>prog. parse [a, b, c, d] = Inr prog \<and> (\<exists>e. analyze prog = Inl e)"
proof -
  have "ps_ref (ss_source (tk_span a)) = ps_ref (ss_source (tk_span c))"
    using assms(1) by (auto simp: valid_stream_def span_of_def)
  with assms(2) have "\<exists>sp sp' sp''. parse [a, b, c, d] = Inr
      \<lparr>pr_items = [PatternAction \<lparr>pa_pattern = None,
         pa_action = Some \<lparr>ac_statements = [BreakStmt sp], ac_span = sp'\<rparr>, pa_span = sp'\<rparr>], pr_span = sp''\<rparr>"
    by (simp add: parser_steps eval_nat_numeral cong: bindE_first)
  then show ?thesis
    by (auto simp: analyze_def validate_item_def validate_action_def require_def)
qed

lemma analyze_raises_semantic_errors_witness:
  "\<exists>toks prog e. lex_program stray_break = Inr toks \<and> parse toks = Inr prog \<and> analyze prog = Inl e
     \<and> ((\<exists>m sp code. e = SemanticError m sp code) \<or> (\<exists>m. e = OverflowError m))"
proof -
  have "renderable True [(TLbrace, None), (TBreak, None), (TRbrace, None)]" by code_simp
  then obtain toks where toks: "lex_program stray_break = Inr toks"
    "map abs_token toks = [(TLbrace, None), (TBreak, None), (TRbrace, None), (TEof, None)]"
    unfolding stray_break_def by (rule lexed_render [where ref = 0]) simp
  then obtain a b c d where "toks = [a, b, c, d]" by (auto simp: map_eq_Cons_conv)
  with toks have "map tk_kind [a, b, c, d] = [TLbrace, TBreak, TRbrace, TEof]" by (simp add: abs_token_def)
  moreover have "valid_stream [a, b, c, d]" using lexed_stream_valid [OF toks(1)] \<open>toks = [a, b, c, d]\<close> by simp
  ultimately obtain prog e where "parse toks = Inr prog" "analyze prog = Inl e"
    using parse_stray_break [of a b c d] \<open>toks = [a, b, c, d]\<close> by metis
  with toks(1) analyze_raises_semantic_errors [OF toks(1) this] show ?thesis by blast
qed

end
