(* ===== verification/Slot_Allocation.thy ===== *)
theory Slot_Allocation
  imports Diagnostics
begin

text \<open>
  \<^verbatim>\<open>src/quawk/slot_allocation.py\<close>: the slot table that the backend builds from the variable indexes.
  A dictionary \<open>dict[str, int]\<close> is an association list in insertion order; a dataclass with a
  \<open>__post_init__\<close> is a record with a constructor function that may raise.
\<close>

section \<open>Slots\<close>

definition VALID_INFERRED_TYPES :: "string list" where
  "VALID_INFERRED_TYPES = [''numeric'', ''string'', ''mixed'', ''unknown'']"

definition VALID_STORAGE :: "string list" where
  "VALID_STORAGE = [''slot'', ''hash'']"

record variable_slot =
  vs_name :: string
  vs_index :: int
  vs_inferred_type :: string
  vs_storage :: string

definition mk_variable_slot :: "string \<Rightarrow> int \<Rightarrow> string \<Rightarrow> string \<Rightarrow> exn + variable_slot" where
  "mk_variable_slot name index inferred_type storage =
     (if name = [] then Inl (ValueError ''variable slot name must be non-empty'')
      else if index < 0 then Inl (ValueError ''variable slot index must be non-negative'')
      else if inferred_type \<notin> set VALID_INFERRED_TYPES then
        Inl (ValueError (''invalid slot inferred_type: '' @ inferred_type))
      else if storage \<notin> set VALID_STORAGE then
        Inl (ValueError (''invalid slot storage: '' @ storage))
      else Inr \<lparr>vs_name = name, vs_index = index, vs_inferred_type = inferred_type,
                vs_storage = storage\<rparr>)"

section \<open>Allocations\<close>

record slot_allocation =
  sa_slots :: "variable_slot list"
  sa_numeric_count :: int
  sa_string_count :: int
  sa_mixed_count :: int
  sa_state_struct_type :: string

text \<open>The loop over the slots with \<open>seen_names\<close> and \<open>seen_indexes\<close>.\<close>

fun check_distinct_slots :: "string list \<Rightarrow> int list \<Rightarrow> variable_slot list \<Rightarrow> exn + unit" where
  "check_distinct_slots seen_names seen_indexes [] = Inr ()"
| "check_distinct_slots seen_names seen_indexes (slot # slots) =
     (if vs_name slot \<in> set seen_names then
        Inl (ValueError (''duplicate slot name: '' @ vs_name slot))
      else if vs_index slot \<in> set seen_indexes then
        Inl (ValueError (''duplicate slot index: '' @ int_to_string (vs_index slot)))
      else check_distinct_slots (vs_name slot # seen_names) (vs_index slot # seen_indexes) slots)"

definition mk_slot_allocation ::
    "variable_slot list \<Rightarrow> int \<Rightarrow> int \<Rightarrow> int \<Rightarrow> string \<Rightarrow> exn + slot_allocation" where
  "mk_slot_allocation slots numeric_count string_count mixed_count state_struct_type =
     (if numeric_count < 0 \<or> string_count < 0 \<or> mixed_count < 0 then
        Inl (ValueError ''slot counts must be non-negative'')
      else if numeric_count + string_count + mixed_count > int (length slots) then
        Inl (ValueError ''typed slot counts exceed available slots'')
      else if state_struct_type = [] then
        Inl (ValueError ''state_struct_type must be non-empty'')
      else bindE (check_distinct_slots [] [] slots) (\<lambda>_.
        Inr \<lparr>sa_slots = slots, sa_numeric_count = numeric_count, sa_string_count = string_count,
             sa_mixed_count = mixed_count, sa_state_struct_type = state_struct_type\<rparr>))"

definition variable_count :: "slot_allocation \<Rightarrow> nat" where
  "variable_count sa = length (sa_slots sa)"

definition get_slot :: "slot_allocation \<Rightarrow> string \<Rightarrow> variable_slot option" where
  "get_slot sa name = List.find (\<lambda>slot. vs_name slot = name) (sa_slots sa)"

definition render_slot_state_struct_type :: "int \<Rightarrow> string \<Rightarrow> exn + string" where
  "render_slot_state_struct_type slot_count state_name =
     (if slot_count < 0 then Inl (ValueError ''slot_count must be non-negative'')
      else if slot_count = 0 then Inr (state_name @ '' = type {}'')
      else Inr (state_name @ '' = type { ''
                @ join_with '', '' (replicate (nat slot_count) ''double'') @ '' }''))"

definition allocate_slots_for_variable_indexes :: "(string \<times> int) list \<Rightarrow> exn + slot_allocation" where
  "allocate_slots_for_variable_indexes variable_indexes =
     bindE (map_each (\<lambda>(name, index). mk_variable_slot name index ''unknown'' ''slot'')
              (sort_key snd variable_indexes)) (\<lambda>slots.
     bindE (render_slot_state_struct_type (int (length slots)) ''%quawk.state'') (\<lambda>struct_type.
       mk_slot_allocation slots 0 0 0 struct_type))"

section \<open>What the constructors accept\<close>

lemma mk_variable_slot_ok:
  "mk_variable_slot name index ''unknown'' ''slot'' = Inr slot \<longleftrightarrow>
     name \<noteq> [] \<and> 0 \<le> index
     \<and> slot = \<lparr>vs_name = name, vs_index = index, vs_inferred_type = ''unknown'', vs_storage = ''slot''\<rparr>"
  by (auto simp: mk_variable_slot_def VALID_INFERRED_TYPES_def VALID_STORAGE_def)

lemma check_distinct_slots_ok:
  "check_distinct_slots names indexes slots = Inr () \<longleftrightarrow>
     distinct (map vs_name slots) \<and> set (map vs_name slots) \<inter> set names = {}
     \<and> distinct (map vs_index slots) \<and> set (map vs_index slots) \<inter> set indexes = {}"
  by (induction names indexes slots rule: check_distinct_slots.induct) auto

lemma struct_type_ok:
  "\<exists>ty. render_slot_state_struct_type (int n) ''%quawk.state'' = Inr ty \<and> ty \<noteq> []"
  by (cases n) (auto simp: render_slot_state_struct_type_def)

definition unknown_slot :: "string \<times> int \<Rightarrow> variable_slot" where
  "unknown_slot entry =
     \<lparr>vs_name = fst entry, vs_index = snd entry, vs_inferred_type = ''unknown'', vs_storage = ''slot''\<rparr>"

lemma vs_unknown_slot [simp]:
  "vs_name (unknown_slot entry) = fst entry" "vs_index (unknown_slot entry) = snd entry"
  by (simp_all add: unknown_slot_def)

lemma slots_of_entries:
  "map_each (\<lambda>(name, index). mk_variable_slot name index ''unknown'' ''slot'') entries = Inr slots
     \<longleftrightarrow> (\<forall>entry\<in>set entries. fst entry \<noteq> [] \<and> 0 \<le> snd entry) \<and> slots = map unknown_slot entries"
  by (induction entries arbitrary: slots)
    (auto simp: bindE_eq_Inr mk_variable_slot_ok unknown_slot_def)

lemma distinct_sort_key_iff:
  fixes f :: "'a \<Rightarrow> 'b"
  shows "distinct (map f (sort_key g xs)) \<longleftrightarrow> distinct (map f xs)"
proof -
  have "distinct ys \<longleftrightarrow> card (set ys) = length ys" for ys :: "'b list"
    by (metis card_distinct distinct_card)
  then show ?thesis by simp
qed

lemma allocate_iff:
  "allocate_slots_for_variable_indexes entries = Inr sa \<longleftrightarrow>
     (\<forall>entry\<in>set entries. fst entry \<noteq> [] \<and> 0 \<le> snd entry)
     \<and> distinct (map fst entries) \<and> distinct (map snd entries)
     \<and> sa_slots sa = map unknown_slot (sort_key snd entries)
     \<and> sa_numeric_count sa = 0 \<and> sa_string_count sa = 0 \<and> sa_mixed_count sa = 0
     \<and> Inr (sa_state_struct_type sa)
        = render_slot_state_struct_type (int (length entries)) ''%quawk.state''"
proof -
  obtain ty where ty: "render_slot_state_struct_type (int (length entries)) ''%quawk.state'' = Inr ty"
      "ty \<noteq> []"
    using struct_type_ok by blast
  show ?thesis
    by (cases sa)
      (auto simp: allocate_slots_for_variable_indexes_def bindE_eq_Inr slots_of_entries
        mk_slot_allocation_def check_distinct_slots_ok comp_def distinct_sort_key_iff ty)
qed

text \<open>The only exceptions are the \<open>ValueError\<close>s of the constructors.\<close>

lemma allocate_error:
  assumes "allocate_slots_for_variable_indexes entries = Inl e"
  shows "\<exists>m. e = ValueError m"
proof -
  have slot: "\<exists>m. e' = ValueError m" if "mk_variable_slot a b c d = Inl e'" for a b c d e'
    using that by (auto simp: mk_variable_slot_def split: if_splits)
  have loop: "\<exists>m. e' = ValueError m" if "check_distinct_slots a b c = Inl e'" for a b c e'
    using that by (induction a b c rule: check_distinct_slots.induct) (auto split: if_splits)
  show ?thesis
    using assms
    by (auto simp: allocate_slots_for_variable_indexes_def bindE_eq_Inl mk_slot_allocation_def
        render_slot_state_struct_type_def bindE_eq_Inr
        split: if_splits dest!: map_each_err slot loop)
qed

section \<open>The table as a map\<close>

lemma find_unknown_slot:
  "distinct (map fst entries) \<Longrightarrow>
     List.find (\<lambda>slot. vs_name slot = name) (map unknown_slot entries)
     = map_option (\<lambda>i. unknown_slot (name, i)) (map_of entries name)"
proof (induction entries)
  case (Cons entry entries)
  then show ?case by (cases entry) simp
qed simp

lemma map_of_sort_key:
  "distinct (map fst entries) \<Longrightarrow> map_of (sort_key f entries) = map_of entries"
  by (rule map_of_eqI) (auto simp: distinct_sort_key_iff map_of_eq_Some_iff)

definition allocatable :: "(string \<times> int) list \<Rightarrow> bool" where
  "allocatable entries \<longleftrightarrow>
     (\<forall>entry\<in>set entries. fst entry \<noteq> [] \<and> 0 \<le> snd entry)
     \<and> distinct (map fst entries) \<and> distinct (map snd entries)"

lemma allocates: "allocatable entries \<Longrightarrow> \<exists>sa. allocate_slots_for_variable_indexes entries = Inr sa"
proof -
  assume ok: "allocatable entries"
  obtain ty where ty: "render_slot_state_struct_type (int (length entries)) ''%quawk.state'' = Inr ty"
    using struct_type_ok by blast
  have "allocate_slots_for_variable_indexes entries =
      Inr \<lparr>sa_slots = map unknown_slot (sort_key snd entries), sa_numeric_count = 0,
           sa_string_count = 0, sa_mixed_count = 0, sa_state_struct_type = ty\<rparr>"
    using ok by (simp add: allocatable_def allocate_iff ty)
  then show ?thesis ..
qed

text \<open>C21: the allocation succeeds exactly for dictionaries with non-empty names, non-negative and
  pairwise different indexes (\<open>allocatable\<close>).  The slots then stand in strictly increasing index order, and
  \<open>get_slot\<close> finds for every name the slot with the index that the dictionary gives it, and nothing
  for other names.\<close>

theorem allocated_slots:
  "(if allocatable entries
    then \<exists>sa. allocate_slots_for_variable_indexes entries = Inr sa
           \<and> sorted_wrt (<) (map vs_index (sa_slots sa))
           \<and> variable_count sa = length entries
           \<and> get_slot sa = (\<lambda>name. map_option (\<lambda>i. unknown_slot (name, i)) (map_of entries name))
    else \<exists>m. allocate_slots_for_variable_indexes entries = Inl (ValueError m))"
proof (cases "allocatable entries")
  case True
  then obtain sa where sa: "allocate_slots_for_variable_indexes entries = Inr sa"
    using allocates by blast
  then have slots: "sa_slots sa = map unknown_slot (sort_key snd entries)"
    by (simp add: allocate_iff)
  note sa
  moreover have "map vs_index (sa_slots sa) = map snd (sort_key snd entries)"
    by (simp add: slots)
  then have "sorted_wrt (<) (map vs_index (sa_slots sa))"
    using True by (simp add: allocatable_def strict_sorted_iff distinct_sort_key_iff)
  moreover have "get_slot sa = (\<lambda>name. map_option (\<lambda>i. unknown_slot (name, i)) (map_of entries name))"
    using True
    by (simp add: allocatable_def fun_eq_iff get_slot_def slots find_unknown_slot map_of_sort_key distinct_sort_key_iff)
  ultimately show ?thesis
    using True by (auto simp: variable_count_def slots)
next
  case False
  then have "\<nexists>sa. allocate_slots_for_variable_indexes entries = Inr sa"
    by (auto simp: allocatable_def allocate_iff)
  with False show ?thesis
    by (cases "allocate_slots_for_variable_indexes entries") (auto dest: allocate_error)
qed

end
