(* ===== verification/Normalization.thy ===== *)
theory Normalization
  imports Ast Builtins Slot_Allocation
begin

text \<open>
  \<^verbatim>\<open>src/quawk/normalization.py\<close>: the lowering-ready shape of a program.  The visitors nested in
  \<open>collect_variable_indexes\<close> and \<open>collect_array_names\<close> mutate a list of names (with the set of the
  names seen so far, which is always the set of the list) and a set of names; here they pass that
  state explicitly.  They carry the suffix of the collection they belong to.
\<close>

record normalized_record_item =
  nr_pattern :: "pattern option"
  nr_action :: "action option"
  nr_range_state_name :: "string option"

record normalized_lowering_program =
  np_direct_begin_statements :: "stmt list option"
  np_begin_actions :: "action list"
  np_record_items :: "normalized_record_item list"
  np_end_actions :: "action list"
  np_variable_indexes :: "(string \<times> int) list"
  np_slot_allocation :: slot_allocation
  np_array_names :: "string set"

section \<open>Variable indexes\<close>

definition note_name :: "string \<Rightarrow> string list \<Rightarrow> string list" where
  "note_name name names = (if name \<in> set names then names else names @ [name])"

fun visit_expression_indexes :: "string set \<Rightarrow> expr \<Rightarrow> string list \<Rightarrow> string list"
and visit_lvalue_indexes :: "string set \<Rightarrow> lvalue \<Rightarrow> string list \<Rightarrow> string list"
where
  "visit_expression_indexes local_names (NameExpr name _) names =
     (if name \<in> local_names then names else note_name name names)"
| "visit_expression_indexes local_names (ArrayIndexExpr array_name index extra_indexes _) names =
     fold (visit_expression_indexes local_names) extra_indexes
       (visit_expression_indexes local_names index
         (if array_name \<in> local_names then names else note_name array_name names))"
| "visit_expression_indexes local_names (BinaryExpr left _ right _) names =
     visit_expression_indexes local_names right (visit_expression_indexes local_names left names)"
| "visit_expression_indexes local_names (ConditionalExpr test if_true if_false _) names =
     visit_expression_indexes local_names if_false
       (visit_expression_indexes local_names if_true
         (visit_expression_indexes local_names test names))"
| "visit_expression_indexes local_names (AssignExpr target _ value _) names =
     visit_expression_indexes local_names value (visit_lvalue_indexes local_names target names)"
| "visit_expression_indexes local_names (UnaryExpr _ operand _) names =
     visit_expression_indexes local_names operand names"
| "visit_expression_indexes local_names (PostfixExpr operand _ _) names =
     visit_expression_indexes local_names operand names"
| "visit_expression_indexes local_names (FieldExpr (ExprIndex index) _) names =
     visit_expression_indexes local_names index names"
| "visit_expression_indexes local_names (FieldExpr (IntIndex _) _) names = names"
| "visit_expression_indexes local_names (CallExpr _ args _) names =
     fold (visit_expression_indexes local_names) args names"
| "visit_expression_indexes local_names (GetlineExpr target source _) names =
     (case source of None \<Rightarrow> (\<lambda>ns. ns) | Some e \<Rightarrow> visit_expression_indexes local_names e)
       ((case target of None \<Rightarrow> (\<lambda>ns. ns) | Some lv \<Rightarrow> visit_lvalue_indexes local_names lv) names)"
| "visit_expression_indexes local_names (StringLiteralExpr _ _ _) names = names"
| "visit_expression_indexes local_names (NumericLiteralExpr _ _ _) names = names"
| "visit_expression_indexes local_names (RegexLiteralExpr _ _) names = names"
| "visit_lvalue_indexes local_names (NameLValue name _) names =
     (if name \<in> local_names then names else note_name name names)"
| "visit_lvalue_indexes local_names (ArrayLValue name subscripts _) names =
     fold (visit_expression_indexes local_names) subscripts
       (if name \<in> local_names then names else note_name name names)"
| "visit_lvalue_indexes local_names (FieldLValue index _) names =
     visit_expression_indexes local_names index names"

abbreviation visit_expressions_indexes :: "string set \<Rightarrow> expr list \<Rightarrow> string list \<Rightarrow> string list" where
  "visit_expressions_indexes local_names \<equiv> fold (visit_expression_indexes local_names)"

definition visit_optional_indexes :: "string set \<Rightarrow> expr option \<Rightarrow> string list \<Rightarrow> string list" where
  "visit_optional_indexes local_names value =
     (case value of None \<Rightarrow> (\<lambda>names. names) | Some e \<Rightarrow> visit_expression_indexes local_names e)"

definition visit_output_indexes ::
    "string set \<Rightarrow> expr list \<Rightarrow> output_redirect option \<Rightarrow> string list \<Rightarrow> string list" where
  "visit_output_indexes local_names arguments redirect names =
     visit_optional_indexes local_names (map_option or_target redirect)
       (visit_expressions_indexes local_names arguments names)"

fun visit_statement_indexes :: "string set \<Rightarrow> stmt \<Rightarrow> string list \<Rightarrow> string list" where
  "visit_statement_indexes local_names (AssignStmt target _ value _) names =
     visit_expression_indexes local_names value (visit_lvalue_indexes local_names target names)"
| "visit_statement_indexes local_names (ExprStmt value _) names =
     visit_expression_indexes local_names value names"
| "visit_statement_indexes local_names (BlockStmt statements _) names =
     fold (visit_statement_indexes local_names) statements names"
| "visit_statement_indexes local_names (DeleteStmt target _) names =
     visit_lvalue_indexes local_names target names"
| "visit_statement_indexes local_names (IfStmt condition then_branch else_branch _) names =
     (case else_branch of None \<Rightarrow> (\<lambda>ns. ns) | Some s \<Rightarrow> visit_statement_indexes local_names s)
       (visit_statement_indexes local_names then_branch
         (visit_expression_indexes local_names condition names))"
| "visit_statement_indexes local_names (WhileStmt condition body _) names =
     visit_statement_indexes local_names body (visit_expression_indexes local_names condition names)"
| "visit_statement_indexes local_names (DoWhileStmt body condition _) names =
     visit_expression_indexes local_names condition (visit_statement_indexes local_names body names)"
| "visit_statement_indexes local_names (ForStmt init condition update body _) names =
     visit_statement_indexes local_names body
       (visit_expressions_indexes local_names update
         (visit_optional_indexes local_names condition
           (visit_expressions_indexes local_names init names)))"
| "visit_statement_indexes local_names (ForInStmt name iterable body _) names =
     visit_statement_indexes (local_names \<union> {name}) body
       (visit_expression_indexes local_names iterable
         (if name \<in> local_names then names else note_name name names))"
| "visit_statement_indexes local_names (PrintStmt arguments _ redirect) names =
     visit_output_indexes local_names arguments redirect names"
| "visit_statement_indexes local_names (PrintfStmt arguments _ redirect) names =
     visit_output_indexes local_names arguments redirect names"
| "visit_statement_indexes local_names (ReturnStmt value _) names =
     visit_optional_indexes local_names value names"
| "visit_statement_indexes local_names (BreakStmt _) names = names"
| "visit_statement_indexes local_names (ContinueStmt _) names = names"
| "visit_statement_indexes local_names (NextStmt _) names = names"
| "visit_statement_indexes local_names (NextFileStmt _) names = names"
| "visit_statement_indexes local_names (ExitStmt _ _) names = names"

definition is_expression_or_range :: "pattern \<Rightarrow> bool" where
  "is_expression_or_range pat =
     (case pat of ExprPattern _ _ \<Rightarrow> True | RangePattern _ _ _ \<Rightarrow> True | _ \<Rightarrow> False)"

fun visit_pattern_indexes :: "pattern \<Rightarrow> string list \<Rightarrow> exn + string list" where
  "visit_pattern_indexes (ExprPattern test _) names = Inr (visit_expression_indexes {} test names)"
| "visit_pattern_indexes (RangePattern left right _) names =
     (if \<not> is_expression_or_range left \<or> \<not> is_expression_or_range right then
        Inl (RuntimeError ''the current lowering path only supports expression endpoints in range patterns'')
      else bindE (visit_pattern_indexes left names) (visit_pattern_indexes right))"
| "visit_pattern_indexes (BeginPattern _) names = Inr names"
| "visit_pattern_indexes (EndPattern _) names = Inr names"

definition visit_item_indexes :: "item \<Rightarrow> string list \<Rightarrow> exn + string list" where
  "visit_item_indexes item names =
     (case item of
        FunctionDef f \<Rightarrow>
          Inr (fold (visit_statement_indexes (set (fd_params f))) (ac_statements (fd_body f)) names)
      | PatternAction pa \<Rightarrow>
          (case pa_action pa of
             None \<Rightarrow> Inr names
           | Some action \<Rightarrow>
               bindE (case pa_pattern pa of
                        Some (ExprPattern test sp) \<Rightarrow> Inr (visit_expression_indexes {} test names)
                      | Some (RangePattern left right sp) \<Rightarrow>
                          visit_pattern_indexes (RangePattern left right sp) names
                      | _ \<Rightarrow> Inr names) (\<lambda>names.
                 Inr (fold (visit_statement_indexes {}) (ac_statements action) names))))"

definition collect_variable_indexes :: "program \<Rightarrow> string list \<Rightarrow> exn + (string \<times> int) list" where
  "collect_variable_indexes prog extra_names =
     bindE (fold_each visit_item_indexes (pr_items prog) []) (\<lambda>names.
       Inr (map (\<lambda>(name, index). (name, int index))
              (enumerate_from 0 (fold note_name extra_names names))))"

section \<open>Array names\<close>

fun visit_expression_arrays :: "string set \<Rightarrow> expr \<Rightarrow> string set \<Rightarrow> string set"
and visit_lvalue_arrays :: "string set \<Rightarrow> lvalue \<Rightarrow> string set \<Rightarrow> string set"
where
  "visit_expression_arrays local_names (ArrayIndexExpr array_name index extra_indexes _) names =
     (if array_name \<in> local_names then names
      else fold (visit_expression_arrays local_names) (index # extra_indexes) (insert array_name names))"
| "visit_expression_arrays local_names (BinaryExpr left _ right _) names =
     visit_expression_arrays local_names right (visit_expression_arrays local_names left names)"
| "visit_expression_arrays local_names (ConditionalExpr test if_true if_false _) names =
     visit_expression_arrays local_names if_false
       (visit_expression_arrays local_names if_true (visit_expression_arrays local_names test names))"
| "visit_expression_arrays local_names (AssignExpr target _ value _) names =
     visit_expression_arrays local_names value (visit_lvalue_arrays local_names target names)"
| "visit_expression_arrays local_names (UnaryExpr _ operand _) names =
     visit_expression_arrays local_names operand names"
| "visit_expression_arrays local_names (PostfixExpr operand _ _) names =
     visit_expression_arrays local_names operand names"
| "visit_expression_arrays local_names (FieldExpr (ExprIndex index) _) names =
     visit_expression_arrays local_names index names"
| "visit_expression_arrays local_names (FieldExpr (IntIndex _) _) names = names"
| "visit_expression_arrays local_names (CallExpr _ args _) names =
     fold (visit_expression_arrays local_names) args names"
| "visit_expression_arrays local_names (NameExpr _ _) names = names"
| "visit_expression_arrays local_names (GetlineExpr _ _ _) names = names"
| "visit_expression_arrays local_names (StringLiteralExpr _ _ _) names = names"
| "visit_expression_arrays local_names (NumericLiteralExpr _ _ _) names = names"
| "visit_expression_arrays local_names (RegexLiteralExpr _ _) names = names"
| "visit_lvalue_arrays local_names (ArrayLValue name subscripts _) names =
     (if name \<in> local_names then names
      else fold (visit_expression_arrays local_names) subscripts (insert name names))"
| "visit_lvalue_arrays local_names (FieldLValue index _) names =
     visit_expression_arrays local_names index names"
| "visit_lvalue_arrays local_names (NameLValue _ _) names = names"

abbreviation visit_expressions_arrays :: "string set \<Rightarrow> expr list \<Rightarrow> string set \<Rightarrow> string set" where
  "visit_expressions_arrays local_names \<equiv> fold (visit_expression_arrays local_names)"

definition visit_optional_arrays :: "string set \<Rightarrow> expr option \<Rightarrow> string set \<Rightarrow> string set" where
  "visit_optional_arrays local_names value =
     (case value of None \<Rightarrow> (\<lambda>names. names) | Some e \<Rightarrow> visit_expression_arrays local_names e)"

definition visit_output_arrays ::
    "string set \<Rightarrow> expr list \<Rightarrow> output_redirect option \<Rightarrow> string set \<Rightarrow> string set" where
  "visit_output_arrays local_names arguments redirect names =
     visit_optional_arrays local_names (map_option or_target redirect)
       (visit_expressions_arrays local_names arguments names)"

definition visit_iterable_arrays :: "string set \<Rightarrow> expr \<Rightarrow> string set \<Rightarrow> string set" where
  "visit_iterable_arrays local_names iterable names =
     (case iterable of
        NameExpr name _ \<Rightarrow> if name \<in> local_names then names else insert name names
      | _ \<Rightarrow> visit_expression_arrays local_names iterable names)"

fun visit_statement_arrays :: "string set \<Rightarrow> stmt \<Rightarrow> string set \<Rightarrow> string set" where
  "visit_statement_arrays local_names (AssignStmt target _ value _) names =
     visit_expression_arrays local_names value (visit_lvalue_arrays local_names target names)"
| "visit_statement_arrays local_names (ExprStmt value _) names =
     visit_expression_arrays local_names value names"
| "visit_statement_arrays local_names (BlockStmt statements _) names =
     fold (visit_statement_arrays local_names) statements names"
| "visit_statement_arrays local_names (DeleteStmt target _) names =
     visit_lvalue_arrays local_names target names"
| "visit_statement_arrays local_names (IfStmt condition then_branch else_branch _) names =
     (case else_branch of None \<Rightarrow> (\<lambda>ns. ns) | Some s \<Rightarrow> visit_statement_arrays local_names s)
       (visit_statement_arrays local_names then_branch
         (visit_expression_arrays local_names condition names))"
| "visit_statement_arrays local_names (WhileStmt condition body _) names =
     visit_statement_arrays local_names body (visit_expression_arrays local_names condition names)"
| "visit_statement_arrays local_names (DoWhileStmt body condition _) names =
     visit_expression_arrays local_names condition (visit_statement_arrays local_names body names)"
| "visit_statement_arrays local_names (ForStmt init condition update body _) names =
     visit_statement_arrays local_names body
       (visit_expressions_arrays local_names update
         (visit_optional_arrays local_names condition
           (visit_expressions_arrays local_names init names)))"
| "visit_statement_arrays local_names (ForInStmt name iterable body _) names =
     visit_statement_arrays local_names body (visit_iterable_arrays local_names iterable names)"
| "visit_statement_arrays local_names (PrintStmt arguments _ redirect) names =
     visit_output_arrays local_names arguments redirect names"
| "visit_statement_arrays local_names (PrintfStmt arguments _ redirect) names =
     visit_output_arrays local_names arguments redirect names"
| "visit_statement_arrays local_names (ReturnStmt value _) names =
     visit_optional_arrays local_names value names"
| "visit_statement_arrays local_names (BreakStmt _) names = names"
| "visit_statement_arrays local_names (ContinueStmt _) names = names"
| "visit_statement_arrays local_names (NextStmt _) names = names"
| "visit_statement_arrays local_names (NextFileStmt _) names = names"
| "visit_statement_arrays local_names (ExitStmt _ _) names = names"

definition visit_endpoint_arrays :: "pattern \<Rightarrow> string set \<Rightarrow> string set" where
  "visit_endpoint_arrays pat names =
     (case pat of ExprPattern test _ \<Rightarrow> visit_expression_arrays {} test names | _ \<Rightarrow> names)"

definition visit_item_arrays :: "item \<Rightarrow> string set \<Rightarrow> string set" where
  "visit_item_arrays item names =
     (case item of
        FunctionDef f \<Rightarrow>
          fold (visit_statement_arrays (set (fd_params f))) (ac_statements (fd_body f)) names
      | PatternAction pa \<Rightarrow>
          (case pa_action pa of
             None \<Rightarrow> names
           | Some action \<Rightarrow>
               fold (visit_statement_arrays {}) (ac_statements action)
                 (case pa_pattern pa of
                    Some (ExprPattern test _) \<Rightarrow> visit_expression_arrays {} test names
                  | Some (RangePattern left right _) \<Rightarrow>
                      visit_endpoint_arrays right (visit_endpoint_arrays left names)
                  | _ \<Rightarrow> names)))"

definition collect_array_names :: "program \<Rightarrow> string set" where
  "collect_array_names prog = fold visit_item_arrays (pr_items prog) (set BUILTIN_ARRAY_NAMES)"

section \<open>The normalized program\<close>

definition is_function_item :: "item \<Rightarrow> bool" where
  "is_function_item item = (case item of FunctionDef _ \<Rightarrow> True | PatternAction _ \<Rightarrow> False)"

definition collect_direct_begin_statements :: "program \<Rightarrow> stmt list option" where
  "collect_direct_begin_statements prog =
     (case filter (\<lambda>item. \<not> is_function_item item) (pr_items prog) of
        [PatternAction pa] \<Rightarrow>
          (case (pa_pattern pa, pa_action pa) of
             (Some (BeginPattern _), Some action) \<Rightarrow> Some (ac_statements action)
           | _ \<Rightarrow> None)
      | _ \<Rightarrow> None)"

text \<open>The four lists that the loop of \<open>normalize_program_for_lowering\<close> builds.\<close>

record lowering_items =
  li_begin_actions :: "action list"
  li_record_items :: "normalized_record_item list"
  li_end_actions :: "action list"
  li_range_state_names :: "string list"

definition range_state_name :: "nat \<Rightarrow> string" where
  "range_state_name k = ''__range.'' @ nat_to_string k"

definition add_record :: "pattern option \<Rightarrow> action option \<Rightarrow> string option \<Rightarrow> lowering_items \<Rightarrow> lowering_items" where
  "add_record pat action state_name s =
     s\<lparr>li_record_items := li_record_items s @
        [\<lparr>nr_pattern = pat, nr_action = action, nr_range_state_name = state_name\<rparr>]\<rparr>"

definition normalize_item :: "item \<Rightarrow> lowering_items \<Rightarrow> exn + lowering_items" where
  "normalize_item item s =
     (case item of
        FunctionDef _ \<Rightarrow> Inr s
      | PatternAction pa \<Rightarrow>
          (case pa_pattern pa of
             None \<Rightarrow>
               (case pa_action pa of
                  None \<Rightarrow> Inl (RuntimeError
                    ''the current lowering path requires an action block for bare record rules'')
                | Some action \<Rightarrow> Inr (add_record None (Some action) None s))
           | Some (BeginPattern _) \<Rightarrow>
               (case pa_action pa of
                  None \<Rightarrow> Inl (RuntimeError
                    ''the current lowering path requires an action block for BEGIN rules'')
                | Some action \<Rightarrow> Inr (s\<lparr>li_begin_actions := li_begin_actions s @ [action]\<rparr>))
           | Some (EndPattern _) \<Rightarrow>
               (case pa_action pa of
                  None \<Rightarrow> Inl (RuntimeError
                    ''the current lowering path requires an action block for END rules'')
                | Some action \<Rightarrow> Inr (s\<lparr>li_end_actions := li_end_actions s @ [action]\<rparr>))
           | Some (ExprPattern test sp) \<Rightarrow>
               Inr (add_record (Some (ExprPattern test sp)) (pa_action pa) None s)
           | Some (RangePattern left right sp) \<Rightarrow>
               (let name = range_state_name (length (li_range_state_names s)) in
                Inr (add_record (Some (RangePattern left right sp)) (pa_action pa) (Some name)
                  (s\<lparr>li_range_state_names := li_range_state_names s @ [name]\<rparr>)))))"

definition normalize_program_for_lowering :: "program \<Rightarrow> exn + normalized_lowering_program" where
  "normalize_program_for_lowering prog =
     bindE (fold_each normalize_item (pr_items prog)
       \<lparr>li_begin_actions = [], li_record_items = [], li_end_actions = [], li_range_state_names = []\<rparr>)
     (\<lambda>s.
     bindE (collect_variable_indexes prog (li_range_state_names s)) (\<lambda>variable_indexes.
     bindE (allocate_slots_for_variable_indexes variable_indexes) (\<lambda>slot_allocation.
       Inr \<lparr>np_direct_begin_statements = collect_direct_begin_statements prog,
            np_begin_actions = li_begin_actions s,
            np_record_items = li_record_items s,
            np_end_actions = li_end_actions s,
            np_variable_indexes = variable_indexes,
            np_slot_allocation = slot_allocation,
            np_array_names = collect_array_names prog\<rparr>)))"

end
