(* ===== verification/Normalization_Props.thy ===== *)
theory Normalization_Props
  imports Normalization Semantics_Spec
begin

text \<open>
  The properties of the normalization: the variable indexes number the first occurrences of the
  names outside the parameters, in the part of the program that the visitors read, the four item lists partition the program in order, every array has
  an index, and the slot table of a normalized program is dense.
\<close>

section \<open>First occurrences\<close>

fun first_occurrences :: "'a list \<Rightarrow> 'a list" where
  "first_occurrences [] = []"
| "first_occurrences (x # xs) = x # first_occurrences (filter (\<lambda>y. y \<noteq> x) xs)"

lemma set_first_occurrences [simp]: "set (first_occurrences xs) = set xs"
  by (induction xs rule: first_occurrences.induct) auto

lemma distinct_first_occurrences [simp]: "distinct (first_occurrences xs)"
  by (induction xs rule: first_occurrences.induct) auto

lemma first_occurrences_append:
  "first_occurrences (xs @ ys) = first_occurrences xs @ first_occurrences (filter (\<lambda>y. y \<notin> set xs) ys)"
proof (induction xs arbitrary: ys rule: first_occurrences.induct)
  case (2 x xs)
  have "filter (\<lambda>y. y \<notin> set (filter (\<lambda>y. y \<noteq> x) xs)) (filter (\<lambda>y. y \<noteq> x) ys)
      = filter (\<lambda>y. y \<notin> set (x # xs)) ys"
    by (simp, rule filter_cong) auto
  with 2 show ?case by simp
qed simp

lemma note_name_cases [simp]:
  "x \<in> set names \<Longrightarrow> note_name x names = names"
  "x \<notin> set names \<Longrightarrow> note_name x names = names @ [x]"
  by (simp_all add: note_name_def)

lemma fold_note_name:
  "fold note_name xs names = names @ first_occurrences (filter (\<lambda>x. x \<notin> set names) xs)"
proof (induction xs arbitrary: names)
  case (Cons x xs)
  show ?case
    by (cases "x \<in> set names") (simp_all add: Cons.IH conj_commute)
qed simp

text \<open>Noting the names of a list that are not local.\<close>

definition note_free :: "string set \<Rightarrow> string list \<Rightarrow> string list \<Rightarrow> string list" where
  "note_free locals xs = fold note_name (filter (\<lambda>x. x \<notin> locals) xs)"

lemma note_free_simps [simp]:
  "note_free locals [] names = names"
  "note_free locals (x # xs) names =
     note_free locals xs (if x \<in> locals then names else note_name x names)"
  "note_free locals (xs @ ys) names = note_free locals ys (note_free locals xs names)"
  by (simp_all add: note_free_def)

lemma set_note_free [simp]: "set (note_free locals xs names) = set names \<union> (set xs - locals)"
  by (auto simp: note_free_def fold_note_name)

lemma note_free_seen: "x \<in> set names \<union> locals \<Longrightarrow> note_free (insert x locals) xs names = note_free locals xs names"
proof (induction xs arbitrary: names)
  case (Cons y ys)
  then show ?case by (auto simp: note_name_def)
qed simp

section \<open>Occurrences of names\<close>

fun lvalue_names :: "lvalue \<Rightarrow> string list" where
  "lvalue_names (NameLValue name _) = [name]"
| "lvalue_names (ArrayLValue name _ _) = [name]"
| "lvalue_names (FieldLValue _ _) = []"

definition own_names :: "expr \<Rightarrow> string list" where
  "own_names e =
     (case e of
        NameExpr name _ \<Rightarrow> [name]
      | ArrayIndexExpr name _ _ _ \<Rightarrow> [name]
      | AssignExpr target _ _ _ \<Rightarrow> lvalue_names target
      | GetlineExpr (Some target) _ _ \<Rightarrow> lvalue_names target
      | _ \<Rightarrow> [])"

text \<open>The names of all nodes of an expression, in reading order.\<close>

definition expression_occurrences :: "expr \<Rightarrow> string list" where
  "expression_occurrences e = concat (map own_names (sub_expressions e))"

definition expressions_occurrences :: "expr list \<Rightarrow> string list" where
  "expressions_occurrences es = concat (map expression_occurrences es)"

definition lvalue_occurrences :: "lvalue \<Rightarrow> string list" where
  "lvalue_occurrences lv = lvalue_names lv @ expressions_occurrences (lvalue_expressions lv)"

lemma expressions_occurrences_simps [simp]:
  "expressions_occurrences [] = []"
  "expressions_occurrences (e # es) = expression_occurrences e @ expressions_occurrences es"
  "expressions_occurrences (es @ fs) = expressions_occurrences es @ expressions_occurrences fs"
  by (simp_all add: expressions_occurrences_def)

lemma concat_map_concat: "concat (map f (concat xss)) = concat (map (\<lambda>xs. concat (map f xs)) xss)"
  by (induction xss) simp_all

lemma expression_occurrences_unfold:
  "expression_occurrences e = own_names e @ expressions_occurrences (expression_children e)"
  by (subst expression_occurrences_def, subst sub_expressions.simps)
    (simp add: expressions_occurrences_def expression_occurrences_def [abs_def] concat_map_concat
      comp_def)

lemma expression_occurrences_simps [simp]:
  "expression_occurrences (NameExpr n sp) = [n]"
  "expression_occurrences (ArrayIndexExpr n i x sp) =
     n # expression_occurrences i @ expressions_occurrences x"
  "expression_occurrences (BinaryExpr l b r sp) = expression_occurrences l @ expression_occurrences r"
  "expression_occurrences (ConditionalExpr c t f sp) =
     expression_occurrences c @ expression_occurrences t @ expression_occurrences f"
  "expression_occurrences (AssignExpr lv a v sp) = lvalue_occurrences lv @ expression_occurrences v"
  "expression_occurrences (UnaryExpr u e sp) = expression_occurrences e"
  "expression_occurrences (PostfixExpr e p sp) = expression_occurrences e"
  "expression_occurrences (FieldExpr (ExprIndex i) sp) = expression_occurrences i"
  "expression_occurrences (FieldExpr (IntIndex k) sp) = []"
  "expression_occurrences (CallExpr g args sp) = expressions_occurrences args"
  "expression_occurrences (GetlineExpr target source sp) =
     concat (map lvalue_occurrences (option_list target)) @ expressions_occurrences (option_list source)"
  "expression_occurrences (StringLiteralExpr str r' sp) = []"
  "expression_occurrences (NumericLiteralExpr num r' sp) = []"
  "expression_occurrences (RegexLiteralExpr r' sp) = []"
  by (simp_all add: expression_occurrences_unfold own_names_def lvalue_occurrences_def
      split: option.splits)

lemma fold_visit:
  "(\<And>x ns. x \<in> set xs \<Longrightarrow> visit x ns = note_free locals (f x) ns) \<Longrightarrow>
     fold visit xs names = note_free locals (concat (map f xs)) names"
  by (induction xs arbitrary: names) auto

lemma visit_expression_indexes_eq:
  "visit_expression_indexes locals e names = note_free locals (expression_occurrences e) names"
  "visit_lvalue_indexes locals lv names = note_free locals (lvalue_occurrences lv) names"
proof (induction locals e names and locals lv names
    rule: visit_expression_indexes_visit_lvalue_indexes.induct)
  case (11 locals target source sp names)
  then show ?case by (auto simp: lvalue_occurrences_def split: option.splits)
qed (simp_all add: expressions_occurrences_def lvalue_occurrences_def fold_visit)

lemma visit_helpers_eq:
  "visit_expressions_indexes locals es names = note_free locals (expressions_occurrences es) names"
  "visit_optional_indexes locals value names = note_free locals (expressions_occurrences (option_list value)) names"
  "visit_output_indexes locals es redirect names =
     note_free locals (expressions_occurrences (es @ map or_target (option_list redirect))) names"
  by (simp_all add: visit_output_indexes_def visit_optional_indexes_def expressions_occurrences_def
      visit_expression_indexes_eq fold_visit split: option.splits)

text \<open>The names of all nodes of a statement, in reading order; a loop names its variable first.\<close>

fun statement_occurrences :: "stmt \<Rightarrow> string list" where
  "statement_occurrences (AssignStmt target _ value _) =
     lvalue_occurrences target @ expression_occurrences value"
| "statement_occurrences (DeleteStmt target _) = lvalue_occurrences target"
| "statement_occurrences (BlockStmt ss _) = concat (map statement_occurrences ss)"
| "statement_occurrences (IfStmt c t el _) =
     expression_occurrences c @ statement_occurrences t
     @ (case el of None \<Rightarrow> [] | Some s \<Rightarrow> statement_occurrences s)"
| "statement_occurrences (WhileStmt c b _) = expression_occurrences c @ statement_occurrences b"
| "statement_occurrences (DoWhileStmt b c _) = statement_occurrences b @ expression_occurrences c"
| "statement_occurrences (ForStmt i c u b _) =
     expressions_occurrences (i @ option_list c @ u) @ statement_occurrences b"
| "statement_occurrences (ForInStmt n e b _) =
     n # expression_occurrences e @ statement_occurrences b"
| "statement_occurrences s = expressions_occurrences (statement_expressions s)"

text \<open>The visitors do not look at the operands of \<open>exit\<close>: what they read is the statement without them.\<close>

fun read_statement :: "stmt \<Rightarrow> stmt" where
  "read_statement (BlockStmt ss sp) = BlockStmt (map read_statement ss) sp"
| "read_statement (IfStmt c t el sp) = IfStmt c (read_statement t) (map_option read_statement el) sp"
| "read_statement (WhileStmt c b sp) = WhileStmt c (read_statement b) sp"
| "read_statement (DoWhileStmt b c sp) = DoWhileStmt (read_statement b) c sp"
| "read_statement (ForStmt i c u b sp) = ForStmt i c u (read_statement b) sp"
| "read_statement (ForInStmt n e b sp) = ForInStmt n e (read_statement b) sp"
| "read_statement (ExitStmt _ sp) = ExitStmt None sp"
| "read_statement s = s"

abbreviation read_names :: "stmt \<Rightarrow> string list" where
  "read_names s \<equiv> statement_occurrences (read_statement s)"

text \<open>Nothing is lost where no operand of \<open>exit\<close> mentions a name.\<close>

fun statement_read :: "stmt \<Rightarrow> bool" where
  "statement_read (BlockStmt ss _) \<longleftrightarrow> list_all statement_read ss"
| "statement_read (IfStmt _ t el _) \<longleftrightarrow>
     statement_read t \<and> (case el of None \<Rightarrow> True | Some s \<Rightarrow> statement_read s)"
| "statement_read (WhileStmt _ b _) \<longleftrightarrow> statement_read b"
| "statement_read (DoWhileStmt b _ _) \<longleftrightarrow> statement_read b"
| "statement_read (ForStmt _ _ _ b _) \<longleftrightarrow> statement_read b"
| "statement_read (ForInStmt _ _ b _) \<longleftrightarrow> statement_read b"
| "statement_read (ExitStmt v _) \<longleftrightarrow> (case v of None \<Rightarrow> True | Some e \<Rightarrow> expression_occurrences e = [])"
| "statement_read _ \<longleftrightarrow> True"

lemma read_names_all: "statement_read s \<Longrightarrow> read_names s = statement_occurrences s"
proof (induction s rule: read_statement.induct)
  case (1 ss sp)
  then show ?case by (auto simp: list_all_iff cong: map_cong)
next
  case (2 c t el sp)
  then show ?case by (cases el) auto
qed (simp_all add: statement_expressions_def split: option.splits)

text \<open>The scope that a \<open>for (k in a)\<close> loop opens for its variable does not change the outcome: the
  variable has been noted before the body is visited.\<close>

lemma visit_statement_indexes_eq:
  "visit_statement_indexes locals s names = note_free locals (read_names s) names"
proof (induction locals s names rule: visit_statement_indexes.induct)
  case (9 locals name iterable body sp names)
  let ?names = "note_free locals (name # expression_occurrences iterable) names"
  have "visit_statement_indexes locals (ForInStmt name iterable body sp) names
      = note_free (insert name locals) (read_names body) ?names"
    using 9 by (simp add: visit_expression_indexes_eq)
  also have "\<dots> = note_free locals (read_names body) ?names"
    by (rule note_free_seen) (auto simp: note_name_def)
  finally show ?case by simp
qed (simp_all add: visit_expression_indexes_eq visit_helpers_eq fold_visit statement_expressions_def comp_def
    split: option.splits)

lemma visit_statements_indexes_eq:
  "fold (visit_statement_indexes locals) ss names = note_free locals (concat (map read_names ss)) names"
  by (simp add: fold_visit visit_statement_indexes_eq)

section \<open>Patterns and items\<close>

fun endpoints_ok :: "pattern \<Rightarrow> bool" where
  "endpoints_ok (RangePattern l r _) \<longleftrightarrow>
     is_expression_or_range l \<and> is_expression_or_range r \<and> endpoints_ok l \<and> endpoints_ok r"
| "endpoints_ok _ \<longleftrightarrow> True"

definition endpoint_error :: exn where
  "endpoint_error =
     RuntimeError ''the current lowering path only supports expression endpoints in range patterns''"

lemma visit_pattern_indexes_eq:
  "visit_pattern_indexes p names =
     (if endpoints_ok p then Inr (note_free {} (expressions_occurrences (pattern_expressions p)) names)
      else Inl endpoint_error)"
  by (induction p names rule: visit_pattern_indexes.induct)
    (auto simp: visit_expression_indexes_eq endpoint_error_def)

text \<open>The endpoints of a range matter only where the item has an action.\<close>

definition item_endpoints_ok :: "item \<Rightarrow> bool" where
  "item_endpoints_ok item =
     (case item of
        PatternAction pa \<Rightarrow>
          (case (pa_pattern pa, pa_action pa) of (Some p, Some a) \<Rightarrow> endpoints_ok p | _ \<Rightarrow> True)
      | FunctionDef _ \<Rightarrow> True)"

definition item_occurrences :: "item \<Rightarrow> string list" where
  "item_occurrences item =
     (case item of
        FunctionDef f \<Rightarrow>
          filter (\<lambda>n. n \<notin> set (fd_params f)) (concat (map statement_occurrences (ac_statements (fd_body f))))
      | PatternAction pa \<Rightarrow>
          concat (map (\<lambda>p. expressions_occurrences (pattern_expressions p)) (option_list (pa_pattern pa)))
          @ concat (map (\<lambda>a. concat (map statement_occurrences (ac_statements a))) (option_list (pa_action pa))))"

definition program_occurrences :: "program \<Rightarrow> string list" where
  "program_occurrences prog = concat (map item_occurrences (pr_items prog))"

text \<open>The visitors also skip a rule without an action, with its pattern.\<close>

definition read_action :: "action \<Rightarrow> action" where
  "read_action a = a\<lparr>ac_statements := map read_statement (ac_statements a)\<rparr>"

definition read_item :: "item \<Rightarrow> item" where
  "read_item item =
     (case item of
        FunctionDef f \<Rightarrow> FunctionDef (f\<lparr>fd_body := read_action (fd_body f)\<rparr>)
      | PatternAction pa \<Rightarrow>
          PatternAction
            (case pa_action pa of
               None \<Rightarrow> pa\<lparr>pa_pattern := None\<rparr>
             | Some a \<Rightarrow> pa\<lparr>pa_action := Some (read_action a)\<rparr>))"

definition read_part :: "program \<Rightarrow> program" where
  "read_part prog = prog\<lparr>pr_items := map read_item (pr_items prog)\<rparr>"

text \<open>The visitors miss no name of the item: the operands of its \<open>exit\<close> statements mention none, and it is
  not a rule that consists of a pattern with names.\<close>

definition item_read :: "item \<Rightarrow> bool" where
  "item_read item =
     (case item of
        FunctionDef f \<Rightarrow> list_all statement_read (ac_statements (fd_body f))
      | PatternAction pa \<Rightarrow>
          (case pa_action pa of
             None \<Rightarrow> item_occurrences item = []
           | Some a \<Rightarrow> list_all statement_read (ac_statements a)))"

lemma read_action_names:
  "concat (map statement_occurrences (ac_statements (read_action a))) = concat (map read_names (ac_statements a))"
  by (simp add: read_action_def comp_def)

lemma item_read_all: "item_read item \<Longrightarrow> item_occurrences (read_item item) = item_occurrences item"
proof -
  have "list_all statement_read ss \<Longrightarrow> concat (map read_names ss) = concat (map statement_occurrences ss)" for ss
    by (induction ss) (simp_all add: read_names_all)
  then show "item_read item \<Longrightarrow> item_occurrences (read_item item) = item_occurrences item"
    by (auto simp: item_read_def item_occurrences_def read_item_def read_action_names
        split: item.splits option.splits)
qed

lemma program_read_all:
  "list_all item_read (pr_items prog) \<Longrightarrow> program_occurrences (read_part prog) = program_occurrences prog"
proof -
  have "list_all item_read items \<Longrightarrow>
      concat (map item_occurrences (map read_item items)) = concat (map item_occurrences items)" for items
    by (induction items) (simp_all add: item_read_all)
  then show "list_all item_read (pr_items prog) \<Longrightarrow> program_occurrences (read_part prog) = program_occurrences prog"
    by (simp add: program_occurrences_def read_part_def)
qed

lemma visit_item_indexes_eq:
  "visit_item_indexes item names =
     (if item_endpoints_ok item then Inr (note_free {} (item_occurrences (read_item item)) names)
      else Inl endpoint_error)"
proof (cases item)
  case (FunctionDef f)
  then show ?thesis
    by (simp add: visit_item_indexes_def item_endpoints_ok_def item_occurrences_def read_item_def read_action_names
        visit_statements_indexes_eq note_free_def)
next
  case (PatternAction pa)
  then show ?thesis
    by (auto simp: visit_item_indexes_def item_endpoints_ok_def item_occurrences_def read_item_def read_action_names
        visit_statements_indexes_eq visit_expression_indexes_eq visit_pattern_indexes_eq
        simp del: visit_pattern_indexes.simps split: option.splits pattern.splits)
qed

lemma visit_items_indexes_eq:
  "fold_each visit_item_indexes items names =
     (if list_all item_endpoints_ok items
      then Inr (note_free {} (concat (map item_occurrences (map read_item items))) names)
      else Inl endpoint_error)"
  by (induction items arbitrary: names) (auto simp: visit_item_indexes_eq)

text \<open>The dictionary that numbers a list of different names.\<close>

definition number_names :: "string list \<Rightarrow> (string \<times> int) list" where
  "number_names names = map (\<lambda>(name, index). (name, int index)) (enumerate_from 0 names)"

lemma indexes_number_occurrences:
  "collect_variable_indexes prog extra_names =
     (if list_all item_endpoints_ok (pr_items prog)
      then Inr (number_names (first_occurrences (program_occurrences (read_part prog) @ extra_names)))
      else Inl endpoint_error)"
proof -
  have "fold note_name extra_names (note_free {} (program_occurrences (read_part prog)) [])
      = first_occurrences (program_occurrences (read_part prog) @ extra_names)"
    by (simp add: note_free_def fold_note_name first_occurrences_append)
  then show ?thesis
    by (simp add: collect_variable_indexes_def visit_items_indexes_eq number_names_def
        program_occurrences_def read_part_def)
qed

text \<open>C14: \<open>collect_variable_indexes\<close> raises exactly when a range pattern with an action has a \<open>BEGIN\<close>
  or \<open>END\<close> endpoint; otherwise it numbers from 0 the names that occur in the program outside the
  operands of \<open>exit\<close> and outside the patterns of rules without an action, each at its first occurrence
  in reading order, with the parameters of the function around it left out, and then the extra names
  that are not among them.  When those operands and patterns mention no names, these are all names of
  the program.\<close>

theorem variable_indexes_number_occurrences:
  "collect_variable_indexes prog extra_names =
     (if list_all item_endpoints_ok (pr_items prog)
      then Inr (number_names (first_occurrences (program_occurrences (read_part prog) @ extra_names)))
      else Inl endpoint_error)
   \<and> (list_all item_read (pr_items prog) \<longrightarrow> program_occurrences (read_part prog) = program_occurrences prog)"
  using indexes_number_occurrences program_read_all by blast

lemma number_names_simps [simp]:
  "map fst (number_names names) = names"
  "map snd (number_names names) = map int [0..<length names]"
proof -
  have "map fst (map (\<lambda>(name, index). (name, int index)) entries) = map fst entries"
    "map snd (map (\<lambda>(name, index). (name, int index)) entries) = map int (map snd entries)"
    for entries :: "(string \<times> nat) list"
    by (induction entries) auto
  then show "map fst (number_names names) = names"
    "map snd (number_names names) = map int [0..<length names]"
    by (simp_all only: number_names_def map_fst_enumerate_from map_snd_enumerate_from) simp
qed

section \<open>Arrays\<close>

text \<open>The visitor of the array names only adds names that the visitor of the indexes notes.\<close>

lemma fold_within:
  "(\<And>x ns. x \<in> set xs \<Longrightarrow> g x ns \<subseteq> ns \<union> T x) \<Longrightarrow> fold g xs names \<subseteq> names \<union> (\<Union>x\<in>set xs. T x)"
proof (induction xs arbitrary: names)
  case (Cons x xs)
  have "fold g xs (g x names) \<subseteq> g x names \<union> (\<Union>x\<in>set xs. T x)"
    using Cons by simp
  moreover have "g x names \<subseteq> names \<union> T x" using Cons.prems by simp
  ultimately show ?case by auto
qed simp

lemma fold_arrays_within:
  "(\<And>e ns. e \<in> set es \<Longrightarrow>
      visit_expression_arrays locals e ns \<subseteq> ns \<union> (set (expression_occurrences e) - locals)) \<Longrightarrow>
   visit_expressions_arrays locals es names \<subseteq> names \<union> (set (expressions_occurrences es) - locals)"
  using fold_within [of es "visit_expression_arrays locals"
      "\<lambda>e. set (expression_occurrences e) - locals" names]
  by (auto simp: expressions_occurrences_def)

lemma visit_expression_arrays_within:
  "visit_expression_arrays locals e names \<subseteq> names \<union> (set (expression_occurrences e) - locals)"
  "visit_lvalue_arrays locals lv names \<subseteq> names \<union> (set (lvalue_occurrences lv) - locals)"
proof (induction locals e names and locals lv names
    rule: visit_expression_arrays_visit_lvalue_arrays.induct)
  case (1 locals a i x sp names)
  then show ?case
    using fold_arrays_within [of "i # x" locals "insert a names"] by (auto split: if_splits)
next
  case (9 locals f args sp names)
  then show ?case by (simp add: fold_arrays_within)
next
  case (15 locals a subs sp names)
  then show ?case
    using fold_arrays_within [of subs locals "insert a names"]
    by (auto simp: lvalue_occurrences_def split: if_splits)
qed (auto simp: lvalue_occurrences_def)

text \<open>The visitor of the array names only adds names that the visitor of the indexes notes.\<close>

lemma visit_helpers_arrays_within:
  "visit_expressions_arrays locals es names \<subseteq> names \<union> (set (expressions_occurrences es) - locals)"
  "visit_optional_arrays locals value names
     \<subseteq> names \<union> (set (expressions_occurrences (option_list value)) - locals)"
  "visit_iterable_arrays locals e names \<subseteq> names \<union> (set (expression_occurrences e) - locals)"
proof -
  show all: "visit_expressions_arrays locals es names
      \<subseteq> names \<union> (set (expressions_occurrences es) - locals)" for es names
    by (rule fold_arrays_within) (rule visit_expression_arrays_within)
  show "visit_optional_arrays locals value names
     \<subseteq> names \<union> (set (expressions_occurrences (option_list value)) - locals)"
    using visit_expression_arrays_within(1)
    by (auto simp: visit_optional_arrays_def split: option.splits)
  show "visit_iterable_arrays locals e names \<subseteq> names \<union> (set (expression_occurrences e) - locals)"
    using visit_expression_arrays_within(1) [of locals e names]
    by (cases e) (auto simp: visit_iterable_arrays_def simp del: visit_expression_arrays.simps)
qed

lemma visit_output_arrays_within:
  "visit_output_arrays locals es redirect names
     \<subseteq> names \<union> (set (expressions_occurrences (es @ map or_target (option_list redirect))) - locals)"
proof -
  have "option_list (map_option or_target redirect) = map or_target (option_list redirect)"
    by (cases redirect) simp_all
  then show ?thesis
    using visit_helpers_arrays_within(1) [of locals es names]
      visit_helpers_arrays_within(2) [of locals "map_option or_target redirect"
        "visit_expressions_arrays locals es names"]
    by (auto simp: visit_output_arrays_def)
qed

lemma visit_statements_arrays_within:
  "(\<And>s ns. s \<in> set ss \<Longrightarrow>
      visit_statement_arrays locals s ns \<subseteq> ns \<union> (set (read_names s) - locals)) \<Longrightarrow>
   fold (visit_statement_arrays locals) ss names
     \<subseteq> names \<union> (set (concat (map read_names ss)) - locals)"
  using fold_within [of ss "visit_statement_arrays locals"
      "\<lambda>s. set (read_names s) - locals" names]
  by auto

lemmas arrays_within_dests =
  visit_expression_arrays_within [THEN subsetD] visit_helpers_arrays_within [THEN subsetD]

lemma visit_statement_arrays_within:
  "visit_statement_arrays locals s names \<subseteq> names \<union> (set (read_names s) - locals)"
proof (induction locals s names rule: visit_statement_arrays.induct)
  case (3 locals ss sp names)
  then show ?case using visit_statements_arrays_within by simp
next
  case (5 locals c t el sp names)
  then show ?case by (fastforce dest: arrays_within_dests split: option.splits)
next
  case (8 locals i c u b sp names)
  show ?case
    unfolding visit_statement_arrays.simps
    by (rule subsetI, drule 8 [THEN subsetD]) (auto dest!: visit_helpers_arrays_within [THEN subsetD])
next
  case (10 locals args sp redirect names)
  then show ?case using visit_output_arrays_within by (simp add: statement_expressions_def)
next
  case (11 locals args sp redirect names)
  then show ?case using visit_output_arrays_within by (simp add: statement_expressions_def)
next
  case (12 locals v sp names)
  then show ?case using visit_helpers_arrays_within(2) by (simp add: statement_expressions_def)
qed (fastforce simp: statement_expressions_def dest: arrays_within_dests)+

lemma visit_block_arrays_within:
  "fold (visit_statement_arrays locals) ss names
     \<subseteq> names \<union> (set (concat (map read_names ss)) - locals)"
  by (rule visit_statements_arrays_within) (rule visit_statement_arrays_within)

lemma visit_item_arrays_within: "visit_item_arrays item names \<subseteq> names \<union> set (item_occurrences (read_item item))"
proof (cases item)
  case (FunctionDef f)
  then show ?thesis
    using visit_block_arrays_within [of "set (fd_params f)" "ac_statements (fd_body f)" names]
    by (auto simp: visit_item_arrays_def item_occurrences_def read_item_def read_action_names)
next
  case (PatternAction pa)
  have endpoint: "visit_endpoint_arrays p ns \<subseteq> ns \<union> set (expressions_occurrences (pattern_expressions p))"
    for p ns
    using visit_expression_arrays_within(1) [of "{}"]
    by (cases p) (auto simp: visit_endpoint_arrays_def)
  show ?thesis
  proof (cases "pa_action pa")
    case None
    with PatternAction show ?thesis by (simp add: visit_item_arrays_def)
  next
    case (Some a)
    let ?start = "case pa_pattern pa of
        Some (ExprPattern test _) \<Rightarrow> visit_expression_arrays {} test names
      | Some (RangePattern left right _) \<Rightarrow> visit_endpoint_arrays right (visit_endpoint_arrays left names)
      | _ \<Rightarrow> names"
    have "?start \<subseteq> names \<union> set (concat (map (\<lambda>p. expressions_occurrences (pattern_expressions p))
        (option_list (pa_pattern pa))))"
      using visit_expression_arrays_within(1) [of "{}"]
      by (fastforce dest: endpoint [THEN subsetD] split: option.splits pattern.splits)
    with PatternAction Some show ?thesis
      using visit_block_arrays_within [of "{}" "ac_statements a" ?start]
      by (auto simp: visit_item_arrays_def item_occurrences_def read_item_def read_action_names)
  qed
qed

lemma array_names_within:
  "collect_array_names prog \<subseteq> set BUILTIN_ARRAY_NAMES \<union> set (program_occurrences (read_part prog))"
  using fold_within [of "pr_items prog" visit_item_arrays "\<lambda>item. set (item_occurrences (read_item item))",
      OF visit_item_arrays_within]
  by (auto simp: collect_array_names_def program_occurrences_def read_part_def)

end
