(* ===== verification/Normalization_Shape.thy ===== *)
theory Normalization_Shape
  imports Normalization_Props
begin

text \<open>
  The shape of a normalized program: when the normalization succeeds, how it splits the items, and
  the density of its slot table.
\<close>

section \<open>Splitting the items\<close>

fun begin_action :: "item \<Rightarrow> action option" where
  "begin_action (PatternAction pa) =
     (case pa_pattern pa of Some (BeginPattern _) \<Rightarrow> pa_action pa | _ \<Rightarrow> None)"
| "begin_action (FunctionDef _) = None"

fun end_action :: "item \<Rightarrow> action option" where
  "end_action (PatternAction pa) =
     (case pa_pattern pa of Some (EndPattern _) \<Rightarrow> pa_action pa | _ \<Rightarrow> None)"
| "end_action (FunctionDef _) = None"

fun record_rule :: "item \<Rightarrow> (pattern option \<times> action option) option" where
  "record_rule (PatternAction pa) =
     (if is_record_action pa then Some (pa_pattern pa, pa_action pa) else None)"
| "record_rule (FunctionDef _) = None"

definition is_range :: "pattern option \<Rightarrow> bool" where
  "is_range p = (case p of Some (RangePattern _ _ _) \<Rightarrow> True | _ \<Rightarrow> False)"

text \<open>The record rules with the names of their range states, numbered from \<open>k\<close>.\<close>

fun with_range_states ::
    "nat \<Rightarrow> (pattern option \<times> action option) list \<Rightarrow> normalized_record_item list" where
  "with_range_states k [] = []"
| "with_range_states k ((p, a) # rules) =
     \<lparr>nr_pattern = p, nr_action = a,
      nr_range_state_name = (if is_range p then Some (range_state_name k) else None)\<rparr>
     # with_range_states (if is_range p then Suc k else k) rules"

abbreviation record_rules :: "item list \<Rightarrow> (pattern option \<times> action option) list" where
  "record_rules items \<equiv> List.map_filter record_rule items"

definition range_count :: "item list \<Rightarrow> nat" where
  "range_count items = length (filter (\<lambda>rule. is_range (fst rule)) (record_rules items))"

text \<open>A bare record rule, a \<open>BEGIN\<close> rule and an \<open>END\<close> rule need an action.\<close>

fun has_required_action :: "item \<Rightarrow> bool" where
  "has_required_action (PatternAction pa) \<longleftrightarrow>
     pa_action pa \<noteq> None
     \<or> (case pa_pattern pa of Some p \<Rightarrow> is_expression_or_range p | None \<Rightarrow> False)"
| "has_required_action (FunctionDef _) \<longleftrightarrow> True"

definition extend_items :: "lowering_items \<Rightarrow> item list \<Rightarrow> lowering_items" where
  "extend_items s items =
     (let k = length (li_range_state_names s) in
      \<lparr>li_begin_actions = li_begin_actions s @ List.map_filter begin_action items,
       li_record_items = li_record_items s @ with_range_states k (record_rules items),
       li_end_actions = li_end_actions s @ List.map_filter end_action items,
       li_range_state_names =
         li_range_state_names s @ map range_state_name [k..<k + range_count items]\<rparr>)"

lemma map_filter_Cons [simp]:
  "List.map_filter f (x # xs) = (case f x of None \<Rightarrow> List.map_filter f xs | Some y \<Rightarrow> y # List.map_filter f xs)"
  "List.map_filter f [] = []"
  by (simp_all add: List.map_filter_def split: option.splits)

lemma normalize_item_ok:
  "has_required_action item \<Longrightarrow> normalize_item item s = Inr (extend_items s [item])"
  by (cases item)
    (auto simp: normalize_item_def extend_items_def add_record_def is_record_action_def is_range_def
      range_count_def is_expression_or_range_def Let_def split: option.splits pattern.splits)

lemma normalize_item_err:
  "\<not> has_required_action item \<Longrightarrow> \<exists>m. normalize_item item s = Inl (RuntimeError m)"
  by (cases item)
    (auto simp: normalize_item_def is_expression_or_range_def split: option.splits pattern.splits)

lemma extend_items_Cons: "extend_items (extend_items s [item]) items = extend_items s (item # items)"
proof (cases "record_rule item")
  case None
  then show ?thesis
    by (simp add: extend_items_def range_count_def split: option.splits)
next
  case (Some rule)
  then show ?thesis
    by (cases rule; cases "is_range (fst rule)")
      (simp_all add: extend_items_def range_count_def upt_conv_Cons Let_def del: upt_Suc
        split: option.splits)
qed

lemma extend_items_Nil [simp]: "extend_items s [] = s"
  by (simp add: extend_items_def range_count_def Let_def)

lemma normalize_items_eq:
  "if list_all has_required_action items
   then fold_each normalize_item items s = Inr (extend_items s items)
   else \<exists>m. fold_each normalize_item items s = Inl (RuntimeError m)"
proof (induction items arbitrary: s)
  case (Cons item items)
  show ?case
  proof (cases "has_required_action item")
    case True
    then show ?thesis
      using Cons.IH [of "extend_items s [item]"]
      by (simp add: normalize_item_ok extend_items_Cons split: if_splits)
  next
    case False
    then show ?thesis using normalize_item_err [of item s] by auto
  qed
qed simp

section \<open>When a program can be normalized\<close>

definition lowerable :: "program \<Rightarrow> bool" where
  "lowerable prog \<longleftrightarrow>
     list_all has_required_action (pr_items prog) \<and> list_all item_endpoints_ok (pr_items prog)"

definition state_names :: "program \<Rightarrow> string list" where
  "state_names prog =
     first_occurrences
       (program_occurrences (read_part prog) @ map range_state_name [0..<range_count (pr_items prog)])"

lemma number_names_allocatable:
  "[] \<notin> set names \<Longrightarrow> distinct names \<Longrightarrow> allocatable (number_names names)"
proof -
  assume names: "[] \<notin> set names" "distinct names"
  have "distinct (map int [0..<length names])" by (simp add: distinct_map inj_on_def)
  moreover have "fst entry \<noteq> []" "0 \<le> snd entry" if "entry \<in> set (number_names names)" for entry
  proof -
    have "fst entry \<in> set (map fst (number_names names))"
      "snd entry \<in> set (map snd (number_names names))"
      using that by (simp_all del: number_names_simps)
    with names show "fst entry \<noteq> []" "0 \<le> snd entry" by auto
  qed
  ultimately show ?thesis
    using names by (simp add: allocatable_def)
qed

lemma range_state_name_simps [simp]:
  "range_state_name k \<noteq> []"
  "range_state_name j = range_state_name k \<longleftrightarrow> j = k"
  by (simp_all add: range_state_name_def)

lemma state_names_nonempty:
  "[] \<notin> set (program_occurrences (read_part prog)) \<Longrightarrow> [] \<notin> set (state_names prog)"
  by (auto simp: state_names_def range_state_name_def)

text \<open>The normalization, with its loop replaced by its outcome.\<close>

definition start_items :: lowering_items where
  "start_items = \<lparr>li_begin_actions = [], li_record_items = [], li_end_actions = [],
     li_range_state_names = []\<rparr>"

lemma normalize_unfold:
  assumes "list_all has_required_action (pr_items prog)"
  shows "normalize_program_for_lowering prog =
     (if list_all item_endpoints_ok (pr_items prog) then
        bindE (allocate_slots_for_variable_indexes (number_names (state_names prog))) (\<lambda>sa.
          Inr \<lparr>np_direct_begin_statements = collect_direct_begin_statements prog,
               np_begin_actions = List.map_filter begin_action (pr_items prog),
               np_record_items = with_range_states 0 (record_rules (pr_items prog)),
               np_end_actions = List.map_filter end_action (pr_items prog),
               np_variable_indexes = number_names (state_names prog),
               np_slot_allocation = sa,
               np_array_names = collect_array_names prog\<rparr>)
      else Inl endpoint_error)"
proof -
  have "collect_variable_indexes prog extra =
     (if list_all item_endpoints_ok (pr_items prog)
      then Inr (number_names (first_occurrences (program_occurrences (read_part prog) @ extra)))
      else Inl endpoint_error)" for extra
    using indexes_number_occurrences .
  then show ?thesis
    using normalize_items_eq [of "pr_items prog" start_items] assms
    by (simp add: normalize_program_for_lowering_def extend_items_def start_items_def state_names_def)
qed

text \<open>C20: for a program whose names are not empty strings, the normalization succeeds exactly when every bare,
  \<open>BEGIN\<close> and \<open>END\<close> rule has an action and no range pattern of a rule with an action has a \<open>BEGIN\<close> or
  \<open>END\<close> endpoint; otherwise it raises a \<open>RuntimeError\<close>.  In particular none of the checks of the slot
  constructors fails.\<close>

theorem normalization_succeeds_iff:
  assumes "[] \<notin> set (program_occurrences (read_part prog))"
  shows "if lowerable prog then \<exists>np. normalize_program_for_lowering prog = Inr np
    else \<exists>m. normalize_program_for_lowering prog = Inl (RuntimeError m)"
proof (cases "list_all has_required_action (pr_items prog)")
  case True
  obtain sa where "allocate_slots_for_variable_indexes (number_names (state_names prog)) = Inr sa"
    using number_names_allocatable [OF state_names_nonempty [OF assms]]
      allocates [of "number_names (state_names prog)"]
    by (auto simp: state_names_def)
  with True show ?thesis
    by (auto simp: normalize_unfold lowerable_def endpoint_error_def)
next
  case False
  then show ?thesis
    using normalize_items_eq [of "pr_items prog" start_items]
    by (auto simp: normalize_program_for_lowering_def lowerable_def start_items_def)
qed

section \<open>What a normalized program consists of\<close>

lemma normalized_fields:
  assumes "normalize_program_for_lowering prog = Inr np"
  shows "list_all has_required_action (pr_items prog)"
    and "np_begin_actions np = List.map_filter begin_action (pr_items prog)"
    and "np_record_items np = with_range_states 0 (record_rules (pr_items prog))"
    and "np_end_actions np = List.map_filter end_action (pr_items prog)"
    and "np_direct_begin_statements np = collect_direct_begin_statements prog"
    and "np_variable_indexes np = number_names (state_names prog)"
    and "np_array_names np = collect_array_names prog"
    and "allocate_slots_for_variable_indexes (number_names (state_names prog))
           = Inr (np_slot_allocation np)"
proof -
  show req: "list_all has_required_action (pr_items prog)"
    using assms normalize_items_eq [of "pr_items prog" start_items]
    by (auto simp: normalize_program_for_lowering_def start_items_def split: if_splits)
  show "np_begin_actions np = List.map_filter begin_action (pr_items prog)"
    "np_record_items np = with_range_states 0 (record_rules (pr_items prog))"
    "np_end_actions np = List.map_filter end_action (pr_items prog)"
    "np_direct_begin_statements np = collect_direct_begin_statements prog"
    "np_variable_indexes np = number_names (state_names prog)"
    "np_array_names np = collect_array_names prog"
    "allocate_slots_for_variable_indexes (number_names (state_names prog)) = Inr (np_slot_allocation np)"
    using assms by (auto simp: normalize_unfold [OF req] bindE_eq_Inr split: if_splits)
qed

lemma item_counted_once:
  "list_all has_required_action items \<Longrightarrow>
     length (List.map_filter begin_action items) + length (record_rules items)
       + length (List.map_filter end_action items)
     = length (filter (\<lambda>item. \<not> is_function_item item) items)"
proof (induction items)
  case (Cons item items)
  then show ?case
    by (cases item)
      (auto simp: is_function_item_def is_record_action_def is_expression_or_range_def
        split: option.splits pattern.splits)
qed simp

lemma map_filter_filter:
  "(\<And>x. \<not> P x \<Longrightarrow> f x = None) \<Longrightarrow> List.map_filter f (filter P xs) = List.map_filter f xs"
  by (induction xs) (auto split: option.splits)

text \<open>The direct form is taken exactly when there is one \<open>BEGIN\<close> action and no other rule.\<close>

definition direct_form :: "action list \<Rightarrow> 'r list \<Rightarrow> action list \<Rightarrow> stmt list option" where
  "direct_form begins records ends =
     (case (begins, records, ends) of ([a], [], []) \<Rightarrow> Some (ac_statements a) | _ \<Rightarrow> None)"

lemma direct_begin_eq:
  assumes "list_all has_required_action (pr_items prog)"
  shows "collect_direct_begin_statements prog =
    direct_form (List.map_filter begin_action (pr_items prog)) (record_rules (pr_items prog))
      (List.map_filter end_action (pr_items prog))"
proof -
  define rules where "rules = filter (\<lambda>item. \<not> is_function_item item) (pr_items prog)"
  have parts: "List.map_filter begin_action (pr_items prog) = List.map_filter begin_action rules"
    "record_rules (pr_items prog) = record_rules rules"
    "List.map_filter end_action (pr_items prog) = List.map_filter end_action rules"
    by (auto simp: rules_def is_function_item_def split: item.splits intro!: map_filter_filter [symmetric])
  have ok: "list_all has_required_action rules" "\<forall>item\<in>set rules. \<not> is_function_item item"
    using assms by (auto simp: rules_def list_all_iff)
  consider "rules = []" | item where "rules = [item]" | item item' more where "rules = item # item' # more"
    by (cases rules rule: list.exhaust [case_product list.exhaust]) (metis list.exhaust)+
  then show ?thesis
  proof cases
    case 2
    with ok show ?thesis
      unfolding collect_direct_begin_statements_def parts rules_def [symmetric]
      by (cases item)
        (auto simp: direct_form_def is_function_item_def is_record_action_def
          is_expression_or_range_def split: option.splits pattern.splits)
  next
    case 3
    have "length (List.map_filter begin_action rules) + length (record_rules rules)
        + length (List.map_filter end_action rules) \<ge> 2"
      using item_counted_once [OF ok(1)] ok(2) 3 by simp
    then have "direct_form (List.map_filter begin_action rules) (record_rules rules)
        (List.map_filter end_action rules) = None"
      by (auto simp: direct_form_def split: list.splits)
    with 3 show ?thesis
      unfolding collect_direct_begin_statements_def parts rules_def [symmetric]
      by (simp split: item.split)
  qed (simp add: collect_direct_begin_statements_def parts rules_def [symmetric] direct_form_def)
qed

text \<open>C13: a normalized program splits the rules of the program without loss, each list in program
  order: the \<open>BEGIN\<close> actions, the record rules (bare, expression and range rules, the \<open>k\<close>-th range
  rule with the state name \<open>__range.k\<close>), and the \<open>END\<close> actions; and it has the direct form exactly
  when these are one \<open>BEGIN\<close> action and nothing else.\<close>

theorem normalization_splits_program:
  assumes "normalize_program_for_lowering prog = Inr np"
  shows "np_begin_actions np = List.map_filter begin_action (pr_items prog)
    \<and> np_record_items np = with_range_states 0 (record_rules (pr_items prog))
    \<and> np_end_actions np = List.map_filter end_action (pr_items prog)
    \<and> length (np_begin_actions np) + length (np_record_items np) + length (np_end_actions np)
           = length (filter (\<lambda>item. \<not> is_function_item item) (pr_items prog))
    \<and> np_direct_begin_statements np =
           direct_form (np_begin_actions np) (np_record_items np) (np_end_actions np)"
proof -
  note fields = normalized_fields [OF assms]
  have len: "length (with_range_states k rules) = length rules" for k rules
    by (induction k rules rule: with_range_states.induct) auto
  have direct: "direct_form b (with_range_states k rules) e = direct_form b rules e" for b e k rules
    by (cases rules) (auto simp: direct_form_def split: list.splits)
  have "length (np_begin_actions np) + length (np_record_items np) + length (np_end_actions np)
      = length (filter (\<lambda>item. \<not> is_function_item item) (pr_items prog))"
    using item_counted_once [OF fields(1)] by (simp add: fields(2-4) len)
  moreover have "np_direct_begin_statements np =
      direct_form (np_begin_actions np) (np_record_items np) (np_end_actions np)"
    using direct_begin_eq [OF fields(1)] by (simp add: fields(2-5) direct)
  ultimately show ?thesis using fields(2-4) by blast
qed

section \<open>The slot table\<close>

lemma sorted_number_names: "sort_key snd (number_names names) = number_names names"
proof -
  have "sorted (map snd (number_names names))"
    by (simp add: sorted_iff_nth_mono)
  then show ?thesis by (rule sort_key_id_if_sorted)
qed

text \<open>C15: the slot table of a normalized program is dense: its \<open>i\<close>-th slot has index \<open>i\<close>, it has one slot
  for each numbered name, in the same order, and the struct type has one field for each slot.  The
  slots are those of the names outside parameters that occur in the program, operands of \<open>exit\<close> and
  patterns of rules without an action excepted, and of the range states; every array but the builtin
  ones has a slot.  When those operands and patterns mention no names, every name has a slot.\<close>

theorem slot_table_dense:
  assumes "normalize_program_for_lowering prog = Inr np"
  shows "map vs_index (sa_slots (np_slot_allocation np)) = map int [0..<variable_count (np_slot_allocation np)]
    \<and> map vs_name (sa_slots (np_slot_allocation np)) = map fst (np_variable_indexes np)
    \<and> render_slot_state_struct_type (int (variable_count (np_slot_allocation np))) ''%quawk.state''
        = Inr (sa_state_struct_type (np_slot_allocation np))
    \<and> set (map vs_name (sa_slots (np_slot_allocation np)))
        = set (program_occurrences (read_part prog)) \<union> set (List.map_filter nr_range_state_name (np_record_items np))
    \<and> (list_all item_read (pr_items prog) \<longrightarrow>
          set (program_occurrences prog) \<subseteq> set (map vs_name (sa_slots (np_slot_allocation np))))
    \<and> np_array_names np - set BUILTIN_ARRAY_NAMES \<subseteq> set (map vs_name (sa_slots (np_slot_allocation np)))"
proof -
  note fields = normalized_fields [OF assms]
  have slots: "sa_slots (np_slot_allocation np) = map unknown_slot (number_names (state_names prog))"
    and ty: "render_slot_state_struct_type (int (length (number_names (state_names prog)))) ''%quawk.state''
      = Inr (sa_state_struct_type (np_slot_allocation np))"
    using fields(8) by (auto simp: allocate_iff sorted_number_names)
  have len: "length (number_names names) = length names" for names
    by (simp add: number_names_def)
  have names: "map vs_name (sa_slots (np_slot_allocation np)) = state_names prog"
    by (simp add: slots comp_def)
  have ranges: "List.map_filter nr_range_state_name (with_range_states k rules)
      = map range_state_name [k..<k + length (filter (\<lambda>rule. is_range (fst rule)) rules)]" for k rules
    by (induction k rules rule: with_range_states.induct) (simp_all add: upt_conv_Cons del: upt_Suc split: if_splits)
  have "map vs_index (sa_slots (np_slot_allocation np)) = map int [0..<variable_count (np_slot_allocation np)]"
    by (simp add: slots comp_def variable_count_def len)
  moreover have all: "set (state_names prog) = set (program_occurrences (read_part prog))
      \<union> set (List.map_filter nr_range_state_name (np_record_items np))"
    by (simp add: state_names_def fields(3) ranges range_count_def)
  moreover have "render_slot_state_struct_type (int (variable_count (np_slot_allocation np))) ''%quawk.state''
      = Inr (sa_state_struct_type (np_slot_allocation np))"
    using ty by (simp add: variable_count_def slots len)
  moreover have "collect_array_names prog - set BUILTIN_ARRAY_NAMES \<subseteq> set (state_names prog)"
    using array_names_within [of prog] by (auto simp: state_names_def)
  moreover have "list_all item_read (pr_items prog) \<longrightarrow> set (program_occurrences prog) \<subseteq> set (state_names prog)"
    using program_read_all [of prog] all by auto
  ultimately show ?thesis
    by (simp only: names fields(6,7) number_names_simps simp_thms)
qed

section \<open>A program for the witnesses\<close>

text \<open>\<open>BEGIN { n = 0 }  n, k { print seen[n] }  function f(p) { return p + n }\<close>.\<close>

definition shape_span :: source_span where
  "shape_span = mk_span (from_inline 0 []) (mk_point 0 0) (mk_point 0 0)"

definition shape_program :: program where
  "shape_program =
     (let sp = shape_span; name = (\<lambda>n. NameExpr n sp) in
      \<lparr>pr_items =
         [PatternAction \<lparr>pa_pattern = Some (BeginPattern sp),
            pa_action = Some \<lparr>ac_statements =
              [AssignStmt (NameLValue ''n'' sp) AssignPlain (name ''k'') sp], ac_span = sp\<rparr>,
            pa_span = sp\<rparr>,
          PatternAction \<lparr>pa_pattern = Some (RangePattern (ExprPattern (name ''n'') sp)
              (ExprPattern (name ''k'') sp) sp),
            pa_action = Some \<lparr>ac_statements =
              [PrintStmt [ArrayIndexExpr ''seen'' (name ''n'') [] sp] sp None], ac_span = sp\<rparr>,
            pa_span = sp\<rparr>,
          FunctionDef \<lparr>fd_name = ''f'', fd_params = [''p''], fd_param_spans = [sp],
            fd_body = \<lparr>ac_statements =
              [ReturnStmt (Some (BinaryExpr (name ''p'') OpAdd (name ''n'') sp)) sp], ac_span = sp\<rparr>,
            fd_span = sp\<rparr>],
       pr_span = sp\<rparr>)"

lemma shape_program_normalizes:
  "[] \<notin> set (program_occurrences (read_part shape_program))"
  "lowerable shape_program"
  by (simp_all add: shape_program_def Let_def program_occurrences_def item_occurrences_def
      lvalue_occurrences_def statement_expressions_def lowerable_def item_endpoints_ok_def
      is_expression_or_range_def read_part_def read_item_def read_action_def)

lemma shape_program_names:
  "list_all item_read (pr_items shape_program)"
  "first_occurrences (program_occurrences shape_program) = [''n'', ''k'', ''seen'']"
  by (simp_all add: shape_program_def Let_def program_occurrences_def item_occurrences_def item_read_def
      lvalue_occurrences_def statement_expressions_def)

lemma variable_indexes_number_occurrences_witness:
  "collect_variable_indexes shape_program [] = Inr [(''n'', 0), (''k'', 1), (''seen'', 2)]"
proof -
  have "list_all item_endpoints_ok (pr_items shape_program)"
    using shape_program_normalizes(2) by (simp add: lowerable_def)
  with variable_indexes_number_occurrences [of shape_program "[]"] shape_program_names show ?thesis
    by (simp add: number_names_def)
qed

text \<open>\<open>BEGIN { exit x }\<close>: the operand gets no index.\<close>

lemma exit_operand_unnumbered:
  "let prog = \<lparr>pr_items = [PatternAction \<lparr>pa_pattern = Some (BeginPattern shape_span),
       pa_action = Some \<lparr>ac_statements = [ExitStmt (Some (NameExpr ''x'' shape_span)) shape_span],
         ac_span = shape_span\<rparr>, pa_span = shape_span\<rparr>], pr_span = shape_span\<rparr>
   in collect_variable_indexes prog [] = Inr [] \<and> program_occurrences prog = [''x'']"
  by (simp add: Let_def collect_variable_indexes_def visit_item_indexes_def program_occurrences_def
      item_occurrences_def statement_expressions_def)

lemma normalization_succeeds_iff_witness: "\<exists>np. normalize_program_for_lowering shape_program = Inr np"
  using normalization_succeeds_iff [of shape_program] shape_program_normalizes by simp

lemma shape_program_result:
  obtains np where "normalize_program_for_lowering shape_program = Inr np"
proof -
  have "list_all has_required_action (pr_items shape_program)"
    using shape_program_normalizes(2) by (simp add: lowerable_def)
  moreover obtain sa where
    "allocate_slots_for_variable_indexes (number_names (state_names shape_program)) = Inr sa"
    using number_names_allocatable [OF state_names_nonempty [OF shape_program_normalizes(1)]]
      allocates [of "number_names (state_names shape_program)"]
    by (auto simp: state_names_def)
  ultimately show thesis
    using that shape_program_normalizes(2) by (auto simp: normalize_unfold lowerable_def)
qed

lemma normalization_splits_program_witness:
  "\<exists>np. normalize_program_for_lowering shape_program = Inr np
     \<and> length (np_begin_actions np) + length (np_record_items np) + length (np_end_actions np) = 2
     \<and> map nr_range_state_name (np_record_items np) = [Some ''__range.0'']"
proof -
  obtain np where np: "normalize_program_for_lowering shape_program = Inr np"
    by (rule shape_program_result)
  have "nat_to_string 0 = ''0''" by code_simp
  with normalization_splits_program [OF np] np show ?thesis
    by (auto simp: shape_program_def Let_def is_function_item_def is_record_action_def is_range_def
        range_state_name_def)
qed

lemma slot_table_dense_witness:
  "\<exists>np. normalize_program_for_lowering shape_program = Inr np
     \<and> map vs_index (sa_slots (np_slot_allocation np)) = map int [0..<variable_count (np_slot_allocation np)]
     \<and> ''seen'' \<in> set (map vs_name (sa_slots (np_slot_allocation np)))"
proof -
  obtain np where np: "normalize_program_for_lowering shape_program = Inr np"
    by (rule shape_program_result)
  have "''seen'' \<in> set (first_occurrences (program_occurrences shape_program))"
    by (simp only: shape_program_names) simp
  then have "''seen'' \<in> set (program_occurrences shape_program)" by simp
  with slot_table_dense [OF np] shape_program_names(1) np show ?thesis by blast
qed

end
