(* ===== verification/Type_Inference.thy ===== *)
theory Type_Inference
  imports Ast
begin

text \<open>
  \<^verbatim>\<open>src/quawk/type_inference.py\<close>: the lattice of value types and the propagation of assignment
  effects through a program.  The dictionary \<open>variable_types\<close> that the nested visitors mutate is
  passed along as a map; a visitor takes it to the map it leaves and the Boolean it returns, or to
  the exception that \<open>expression_to_lvalue\<close> raises.
\<close>

section \<open>The lattice\<close>

datatype lattice_type = TyUnknown | TyNumeric | TyString | TyMixed

definition join :: "lattice_type \<Rightarrow> lattice_type \<Rightarrow> lattice_type" where
  "join left right =
     (if left = right then left
      else if left = TyUnknown then right
      else if right = TyUnknown then left
      else TyMixed)"

definition can_be_numeric :: "lattice_type \<Rightarrow> bool" where
  "can_be_numeric t \<longleftrightarrow> t = TyUnknown \<or> t = TyNumeric \<or> t = TyMixed"

definition can_be_string :: "lattice_type \<Rightarrow> bool" where
  "can_be_string t \<longleftrightarrow> t = TyUnknown \<or> t = TyString \<or> t = TyMixed"

definition join_all :: "lattice_type list \<Rightarrow> lattice_type" where
  "join_all types = foldl join TyUnknown types"

section \<open>Expressions\<close>

type_synonym type_env = "string \<rightharpoonup> lattice_type"

text \<open>\<open>env.get(name, LatticeType.UNKNOWN)\<close>.\<close>

definition type_of :: "type_env \<Rightarrow> string \<Rightarrow> lattice_type" where
  "type_of env name = (case env name of None \<Rightarrow> TyUnknown | Some t \<Rightarrow> t)"

definition NUMERIC_BUILTINS :: "string list" where
  "NUMERIC_BUILTINS =
     [''index'', ''int'', ''length'', ''match'', ''split'', ''sub'', ''gsub'', ''system'']"

definition STRING_BUILTINS :: "string list" where
  "STRING_BUILTINS = [''sprintf'', ''substr'', ''tolower'', ''toupper'']"

fun infer_expression_type :: "type_env \<Rightarrow> expr \<Rightarrow> lattice_type" where
  "infer_expression_type env (NumericLiteralExpr _ _ _) = TyNumeric"
| "infer_expression_type env (StringLiteralExpr _ _ _) = TyString"
| "infer_expression_type env (RegexLiteralExpr _ _) = TyString"
| "infer_expression_type env (NameExpr name _) = type_of env name"
| "infer_expression_type env (FieldExpr _ _) = TyMixed"
| "infer_expression_type env (ArrayIndexExpr _ _ _ _) = TyUnknown"
| "infer_expression_type env (GetlineExpr _ _ _) = TyNumeric"
| "infer_expression_type env (UnaryExpr _ operand _) =
     (if infer_expression_type env operand = TyString then TyMixed else TyNumeric)"
| "infer_expression_type env (PostfixExpr _ _ _) = TyNumeric"
| "infer_expression_type env (ConditionalExpr _ if_true if_false _) =
     join (infer_expression_type env if_true) (infer_expression_type env if_false)"
| "infer_expression_type env (AssignExpr _ op v _) =
     (if op = AssignPlain then infer_expression_type env v else TyNumeric)"
| "infer_expression_type env (BinaryExpr left op right _) =
     (if op \<in> set [OpAdd, OpSub, OpMul, OpDiv, OpMod, OpPow] then
        if infer_expression_type env left = TyString \<or> infer_expression_type env right = TyString
        then TyMixed else TyNumeric
      else if op = OpConcat then TyString
      else if op \<in> set [OpLess, OpLessEqual, OpGreater, OpGreaterEqual, OpEqual, OpNotEqual,
                        OpLogicalAnd, OpLogicalOr, OpMatch, OpNotMatch, OpIn] then TyNumeric
      else TyUnknown)"
| "infer_expression_type env (CallExpr function_name _ _) =
     (if function_name \<in> set NUMERIC_BUILTINS then TyNumeric
      else if function_name \<in> set STRING_BUILTINS then TyString
      else TyUnknown)"

section \<open>Visitors\<close>

type_synonym visit = "type_env \<Rightarrow> exn + type_env \<times> bool"

definition unchanged :: visit where
  "unchanged env = Inr (env, False)"

text \<open>\<open>changed = f() or changed; changed = g() or changed\<close>: both run.\<close>

definition and_then :: "visit \<Rightarrow> visit \<Rightarrow> visit" where
  "and_then f g env =
     bindE (f env) (\<lambda>(env1, changed1).
     bindE (g env1) (\<lambda>(env2, changed2). Inr (env2, changed2 \<or> changed1)))"

text \<open>\<open>f() or g()\<close>: the second runs only when the first changed nothing.\<close>

definition or_else :: "visit \<Rightarrow> visit \<Rightarrow> visit" where
  "or_else f g env =
     bindE (f env) (\<lambda>(env1, changed1). if changed1 then Inr (env1, True) else g env1)"

fun all_of :: "('a \<Rightarrow> visit) \<Rightarrow> 'a list \<Rightarrow> visit" where
  "all_of f [] = unchanged"
| "all_of f (x # xs) = and_then (f x) (all_of f xs)"

text \<open>\<open>any(f(x) for x in xs)\<close> stops at the first change.\<close>

fun any_of :: "('a \<Rightarrow> visit) \<Rightarrow> 'a list \<Rightarrow> visit" where
  "any_of f [] = unchanged"
| "any_of f (x # xs) = or_else (f x) (any_of f xs)"

lemma all_of_cong [fundef_cong]:
  "xs = ys \<Longrightarrow> (\<And>x. x \<in> set ys \<Longrightarrow> f x = g x) \<Longrightarrow> all_of f xs = all_of g ys"
  by (induction ys arbitrary: xs) auto

lemma any_of_cong [fundef_cong]:
  "xs = ys \<Longrightarrow> (\<And>x. x \<in> set ys \<Longrightarrow> f x = g x) \<Longrightarrow> any_of f xs = any_of g ys"
  by (induction ys arbitrary: xs) auto

definition MAX_FIXPOINT_ITERATIONS :: nat where
  "MAX_FIXPOINT_ITERATIONS = 8"

fun converge_within :: "nat \<Rightarrow> visit \<Rightarrow> visit" where
  "converge_within 0 step env = Inr (env, False)"
| "converge_within (Suc n) step env =
     bindE (step env) (\<lambda>(env1, iteration_changed).
       if iteration_changed
       then bindE (converge_within n step env1) (\<lambda>(env2, _). Inr (env2, True))
       else Inr (env1, False))"

definition converge :: "visit \<Rightarrow> visit" where
  "converge step = converge_within MAX_FIXPOINT_ITERATIONS step"

definition note_assignment :: "string \<Rightarrow> lattice_type \<Rightarrow> string set \<Rightarrow> visit" where
  "note_assignment name assigned_type local_names env =
     (if name \<in> local_names then Inr (env, False)
      else let previous = type_of env name; updated = join previous assigned_type in
        if updated = previous then Inr (env, False) else Inr (env(name \<mapsto> updated), True))"

text \<open>The assignment to a target that is a name, of the type inferred under the current map.\<close>

definition note_target :: "string set \<Rightarrow> lvalue \<Rightarrow> (type_env \<Rightarrow> lattice_type) \<Rightarrow> visit" where
  "note_target local_names target assigned env =
     (case target of
        NameLValue name _ \<Rightarrow> note_assignment name (assigned env) local_names env
      | _ \<Rightarrow> Inr (env, False))"

definition assigned_type :: "assign_op \<Rightarrow> expr \<Rightarrow> type_env \<Rightarrow> lattice_type" where
  "assigned_type op v env = (if op = AssignPlain then infer_expression_type env v else TyNumeric)"

definition note_substitution :: "string set \<Rightarrow> string \<Rightarrow> expr list \<Rightarrow> visit" where
  "note_substitution local_names function_name args env =
     (if function_name \<in> set [''sub'', ''gsub''] \<and> length args = 3 then
        case nth_opt args 2 of
          None \<Rightarrow> Inl IndexError
        | Some third \<Rightarrow>
            bindE (expression_to_lvalue third) (\<lambda>target.
              case target of
                Some lv \<Rightarrow> note_target local_names lv (\<lambda>_. TyString) env
              | None \<Rightarrow> Inr (env, False))
      else Inr (env, False))"

fun visit_expression_types :: "string set \<Rightarrow> expr \<Rightarrow> visit"
and visit_lvalue_types :: "string set \<Rightarrow> lvalue \<Rightarrow> visit"
where
  "visit_expression_types local_names (AssignExpr target op v _) =
     and_then (visit_expression_types local_names v)
       (and_then (visit_lvalue_types local_names target)
         (note_target local_names target (assigned_type op v)))"
| "visit_expression_types local_names (BinaryExpr left _ right _) =
     and_then (visit_expression_types local_names left) (visit_expression_types local_names right)"
| "visit_expression_types local_names (ConditionalExpr test if_true if_false _) =
     and_then (visit_expression_types local_names test)
       (and_then (visit_expression_types local_names if_true)
         (visit_expression_types local_names if_false))"
| "visit_expression_types local_names (UnaryExpr _ operand _) =
     visit_expression_types local_names operand"
| "visit_expression_types local_names (PostfixExpr operand _ _) =
     visit_expression_types local_names operand"
| "visit_expression_types local_names (CallExpr function_name args _) =
     and_then (all_of (visit_expression_types local_names) args)
       (note_substitution local_names function_name args)"
| "visit_expression_types local_names (ArrayIndexExpr _ index extra_indexes _) =
     and_then (visit_expression_types local_names index)
       (all_of (visit_expression_types local_names) extra_indexes)"
| "visit_expression_types local_names (FieldExpr (ExprIndex index) _) =
     visit_expression_types local_names index"
| "visit_expression_types local_names (FieldExpr (IntIndex _) _) = unchanged"
| "visit_expression_types local_names (GetlineExpr target source _) =
     and_then (case source of None \<Rightarrow> unchanged | Some e \<Rightarrow> visit_expression_types local_names e)
       (case target of
          None \<Rightarrow> unchanged
        | Some lv \<Rightarrow>
            and_then (visit_lvalue_types local_names lv) (note_target local_names lv (\<lambda>_. TyString)))"
| "visit_expression_types local_names (NameExpr _ _) = unchanged"
| "visit_expression_types local_names (StringLiteralExpr _ _ _) = unchanged"
| "visit_expression_types local_names (NumericLiteralExpr _ _ _) = unchanged"
| "visit_expression_types local_names (RegexLiteralExpr _ _) = unchanged"
| "visit_lvalue_types local_names (NameLValue _ _) = unchanged"
| "visit_lvalue_types local_names (ArrayLValue _ subscripts _) =
     all_of (visit_expression_types local_names) subscripts"
| "visit_lvalue_types local_names (FieldLValue index _) = visit_expression_types local_names index"

definition visit_optional_types :: "string set \<Rightarrow> expr option \<Rightarrow> visit" where
  "visit_optional_types local_names v =
     (case v of None \<Rightarrow> unchanged | Some e \<Rightarrow> visit_expression_types local_names e)"

definition visit_output_types ::
    "string set \<Rightarrow> expr list \<Rightarrow> output_redirect option \<Rightarrow> visit" where
  "visit_output_types local_names arguments redirect =
     and_then (all_of (visit_expression_types local_names) arguments)
       (visit_optional_types local_names (map_option or_target redirect))"

fun visit_statement_types :: "string set \<Rightarrow> stmt \<Rightarrow> visit" where
  "visit_statement_types local_names (AssignStmt target op v _) =
     and_then (visit_expression_types local_names v)
       (and_then (visit_lvalue_types local_names target)
         (note_target local_names target (assigned_type op v)))"
| "visit_statement_types local_names (ExprStmt v _) = visit_expression_types local_names v"
| "visit_statement_types local_names (PrintStmt arguments _ redirect) =
     visit_output_types local_names arguments redirect"
| "visit_statement_types local_names (PrintfStmt arguments _ redirect) =
     visit_output_types local_names arguments redirect"
| "visit_statement_types local_names (BlockStmt statements _) =
     all_of (visit_statement_types local_names) statements"
| "visit_statement_types local_names (IfStmt condition then_branch else_branch _) =
     and_then (visit_expression_types local_names condition)
       (and_then (visit_statement_types local_names then_branch)
         (case else_branch of None \<Rightarrow> unchanged | Some s \<Rightarrow> visit_statement_types local_names s))"
| "visit_statement_types local_names (WhileStmt condition body _) =
     and_then (visit_expression_types local_names condition)
       (converge (or_else (visit_statement_types local_names body)
                          (visit_expression_types local_names condition)))"
| "visit_statement_types local_names (DoWhileStmt body condition _) =
     converge (or_else (visit_statement_types local_names body)
                       (visit_expression_types local_names condition))"
| "visit_statement_types local_names (ForStmt init condition update body _) =
     and_then (all_of (visit_expression_types local_names) init)
       (and_then (visit_optional_types local_names condition)
         (converge (or_else (visit_statement_types local_names body)
           (or_else (any_of (visit_expression_types local_names) update)
             (visit_optional_types local_names condition)))))"
| "visit_statement_types local_names (ForInStmt name iterable body _) =
     and_then (visit_expression_types local_names iterable)
       (and_then (note_assignment name TyString local_names)
         (converge (visit_statement_types (local_names \<union> {name}) body)))"
| "visit_statement_types local_names (DeleteStmt target _) = visit_lvalue_types local_names target"
| "visit_statement_types local_names (ReturnStmt v _) = visit_optional_types local_names v"
| "visit_statement_types local_names (BreakStmt _) = unchanged"
| "visit_statement_types local_names (ContinueStmt _) = unchanged"
| "visit_statement_types local_names (NextStmt _) = unchanged"
| "visit_statement_types local_names (NextFileStmt _) = unchanged"
| "visit_statement_types local_names (ExitStmt _ _) = unchanged"

definition visit_action_types :: "action \<Rightarrow> string set \<Rightarrow> visit" where
  "visit_action_types a local_names = all_of (visit_statement_types local_names) (ac_statements a)"

fun visit_pattern_types :: "pattern \<Rightarrow> visit" where
  "visit_pattern_types (ExprPattern test _) = visit_expression_types {} test"
| "visit_pattern_types (RangePattern left right _) =
     and_then (visit_pattern_types left) (visit_pattern_types right)"
| "visit_pattern_types (BeginPattern _) = unchanged"
| "visit_pattern_types (EndPattern _) = unchanged"

definition visit_item_types :: "item \<Rightarrow> visit" where
  "visit_item_types item =
     (case item of
        FunctionDef f \<Rightarrow> visit_action_types (fd_body f) (set (fd_params f))
      | PatternAction pa \<Rightarrow>
          and_then (case pa_pattern pa of None \<Rightarrow> unchanged | Some p \<Rightarrow> visit_pattern_types p)
            (case pa_action pa of None \<Rightarrow> unchanged | Some a \<Rightarrow> visit_action_types a {}))"

definition infer_variable_types :: "program \<Rightarrow> exn + type_env" where
  "infer_variable_types prog =
     bindE (all_of visit_item_types (pr_items prog) Map.empty) (\<lambda>(env, _). Inr env)"

end
