(* ===== verification/Type_Lattice.thy ===== *)
theory Type_Lattice
  imports Type_Inference Semantics_Spec
begin

text \<open>
  The lattice of value types as an instance of the order classes, and the contract of the visitors
  of the type inference: a visitor stands for a list of constraints \<open>(x, t)\<close>, "the type of \<open>x\<close> is at
  least \<open>t\<close> of the current types"; it only raises types, and it reports no change exactly when the
  constraints hold.  The contract is a locale; sequential composition, short-circuit composition and
  the bounded iteration keep it, and with enough rounds the iteration ends in a solution.
\<close>

section \<open>The order of the diagram\<close>

instantiation lattice_type :: "{bounded_semilattice_sup_bot, order_top}"
begin

definition less_eq_lattice_type :: "lattice_type \<Rightarrow> lattice_type \<Rightarrow> bool" where
  "less_eq_lattice_type s t \<longleftrightarrow> s = TyUnknown \<or> t = TyMixed \<or> s = t"

definition less_lattice_type :: "lattice_type \<Rightarrow> lattice_type \<Rightarrow> bool" where
  "less_lattice_type s t \<longleftrightarrow> s \<le> t \<and> \<not> t \<le> (s :: lattice_type)"

definition sup_lattice_type :: "lattice_type \<Rightarrow> lattice_type \<Rightarrow> lattice_type" where
  "sup_lattice_type = join"

definition bot_lattice_type :: lattice_type where
  "bot_lattice_type = TyUnknown"

definition top_lattice_type :: lattice_type where
  "top_lattice_type = TyMixed"

instance
  by standard
    (auto simp: less_eq_lattice_type_def less_lattice_type_def sup_lattice_type_def join_def
      bot_lattice_type_def top_lattice_type_def, (metis lattice_type.exhaust)?)

end

lemma join_le_iff: "join s t \<le> u \<longleftrightarrow> s \<le> u \<and> t \<le> u" for u :: lattice_type
  by (simp flip: sup_lattice_type_def)

lemma join_upper: "s \<le> join s t" "t \<le> join s t"
  by (simp_all flip: sup_lattice_type_def)

text \<open>C33: \<open>join\<close> is the least upper bound in the order of the diagram, with \<open>UNKNOWN\<close> at the bottom and
  \<open>MIXED\<close> at the top; \<open>join_all\<close> is the least upper bound of a sequence.\<close>

theorem join_is_least_upper_bound:
  "(join s t \<le> u) = (s \<le> u \<and> t \<le> u) \<and> (join_all ts \<le> u) = list_all (\<lambda>t. t \<le> u) ts
     \<and> TyUnknown \<le> u \<and> u \<le> TyMixed"
proof -
  have "(foldl join a ts \<le> u) = (a \<le> u \<and> list_all (\<lambda>t. t \<le> u) ts)" for a
    by (induction ts arbitrary: a) (simp_all add: join_le_iff conj_assoc)
  moreover have "TyUnknown \<le> u" "u \<le> TyMixed" by (simp_all add: less_eq_lattice_type_def)
  ultimately show ?thesis by (simp add: join_all_def join_le_iff)
qed

text \<open>The height of a type bounds how often it can still be raised.\<close>

definition height :: "lattice_type \<Rightarrow> nat" where
  "height t = (case t of TyUnknown \<Rightarrow> 0 | TyNumeric \<Rightarrow> 1 | TyString \<Rightarrow> 1 | TyMixed \<Rightarrow> 2)"

lemma height_mono: "s \<le> t \<Longrightarrow> height s \<le> height t"
  by (cases s; cases t) (simp_all add: less_eq_lattice_type_def height_def)

lemma height_strict: "s < t \<Longrightarrow> height s < height t"
  by (cases s; cases t) (simp_all add: less_eq_lattice_type_def less_lattice_type_def height_def)

lemma height_bound: "height t \<le> 2"
  by (cases t) (simp_all add: height_def)

section \<open>Constraints\<close>

type_synonym type_constraint = "string \<times> (type_env \<Rightarrow> lattice_type)"

definition satisfied :: "type_constraint list \<Rightarrow> type_env \<Rightarrow> bool" where
  "satisfied cs env \<longleftrightarrow> list_all (\<lambda>(x, t). t env \<le> type_of env x) cs"

abbreviation targets :: "type_constraint list \<Rightarrow> string set" where
  "targets cs \<equiv> fst ` set cs"

definition outside :: "string set \<Rightarrow> type_constraint list \<Rightarrow> type_constraint list" where
  "outside locals cs = filter (\<lambda>(x, _). x \<notin> locals) cs"

definition types_below :: "type_env \<Rightarrow> type_env \<Rightarrow> bool" where
  "types_below env env' \<longleftrightarrow> (\<forall>x. type_of env x \<le> type_of env' x)"

lemma satisfied_simps [simp]:
  "satisfied [] env" "satisfied (c # cs) env \<longleftrightarrow> snd c env \<le> type_of env (fst c) \<and> satisfied cs env"
  "satisfied (cs @ ds) env \<longleftrightarrow> satisfied cs env \<and> satisfied ds env"
  by (auto simp: satisfied_def split: prod.splits)

lemma outside_simps [simp]:
  "outside locals [] = []"
  "outside locals ((x, t) # cs) = (if x \<in> locals then outside locals cs else (x, t) # outside locals cs)"
  "outside locals (cs @ ds) = outside locals cs @ outside locals ds"
  by (simp_all add: outside_def)

lemma outside_concat: "outside locals (concat css) = concat (map (outside locals) css)"
  by (induction css) simp_all

lemma types_below_refl [simp]: "types_below env env"
  by (simp add: types_below_def)

lemma types_below_trans: "types_below env1 env2 \<Longrightarrow> types_below env2 env3 \<Longrightarrow> types_below env1 env3"
  unfolding types_below_def by (blast intro: order_trans)

section \<open>The contract of a visitor\<close>

locale type_visitor =
  fixes step :: visit and cs :: "type_constraint list"
  assumes raises_types: "step env = Inr (env', changed) \<Longrightarrow> types_below env env'"
    and reports_no_change: "step env = Inr (env', False) \<Longrightarrow> env' = env \<and> satisfied cs env"
    and keeps_solution: "step env = Inr (env', changed) \<Longrightarrow> satisfied cs env \<Longrightarrow> \<not> changed"
    and reports_change:
      "step env = Inr (env', True) \<Longrightarrow> \<exists>x\<in>targets cs. type_of env x < type_of env' x"
    and frame: "step env = Inr (env', changed) \<Longrightarrow> x \<notin> targets cs \<Longrightarrow> env' x = env x"
begin

lemma changed_iff: "step env = Inr (env', changed) \<Longrightarrow> changed \<longleftrightarrow> \<not> satisfied cs env"
  using reports_no_change [of env env'] keeps_solution [of env env' changed] by (cases changed) auto

lemma changed_iff_different: "step env = Inr (env', changed) \<Longrightarrow> changed \<longleftrightarrow> env' \<noteq> env"
  using reports_no_change reports_change by (cases changed) fastforce+

text \<open>The sum of the heights of the targets grows with every round that changes something.\<close>

definition total_height :: "type_env \<Rightarrow> nat" where
  "total_height env = (\<Sum>x\<in>targets cs. height (type_of env x))"

lemma total_height_bound: "total_height env \<le> 2 * card (targets cs)"
  using sum_bounded_above [of "targets cs" "\<lambda>x. height (type_of env x)" 2] height_bound
  by (simp add: total_height_def mult.commute)

lemma total_height_grows:
  assumes "step env = Inr (env', True)"
  shows "total_height env < total_height env'"
proof -
  obtain x where "x \<in> targets cs" "type_of env x < type_of env' x"
    using reports_change [OF assms] by blast
  moreover have "height (type_of env y) \<le> height (type_of env' y)" for y
    using raises_types [OF assms] by (simp add: types_below_def height_mono)
  ultimately show ?thesis
    unfolding total_height_def by (intro sum_strict_mono_ex1) (auto dest: height_strict)
qed

text \<open>Enough rounds reach a solution.\<close>

lemma converge_solves:
  "converge_within n step env = Inr (env', changed) \<Longrightarrow>
     2 * card (targets cs) < n + total_height env \<Longrightarrow> satisfied cs env'"
proof (induction n arbitrary: env changed)
  case 0
  then show ?case using total_height_bound [of env] by simp
next
  case (Suc n)
  from Suc.prems(1) obtain env1 c where first: "step env = Inr (env1, c)"
    by (auto simp: bindE_eq_Inr)
  show ?case
  proof (cases c)
    case True
    with first Suc.prems obtain c' where "converge_within n step env1 = Inr (env', c')"
      by (auto simp: bindE_eq_Inr)
    moreover have "2 * card (targets cs) < n + total_height env1"
      using total_height_grows first True Suc.prems(2) by fastforce
    ultimately show ?thesis by (rule Suc.IH)
  next
    case False
    with first Suc.prems(1) reports_no_change show ?thesis by fastforce
  qed
qed

lemma converge_within_raises_types:
  "converge_within n step env = Inr (env', changed) \<Longrightarrow> types_below env env'"
  by (induction n arbitrary: env changed)
    (auto simp: bindE_eq_Inr split: if_splits intro: types_below_trans raises_types)

lemma converge_within_frame:
  "converge_within n step env = Inr (env', changed) \<Longrightarrow> x \<notin> targets cs \<Longrightarrow> env' x = env x"
  by (induction n arbitrary: env changed) (auto simp: bindE_eq_Inr frame split: if_splits)

end

section \<open>Compositions\<close>

lemma visitor_unchanged: "type_visitor unchanged []"
  by unfold_locales (simp_all add: unchanged_def)

lemma and_thenE:
  assumes "and_then f g env = Inr (env', changed)"
  obtains env1 c1 c2 where "f env = Inr (env1, c1)" "g env1 = Inr (env', c2)" "changed = (c2 \<or> c1)"
  using assms by (auto simp: and_then_def bindE_eq_Inr)

lemma visitor_and_then:
  assumes f: "type_visitor f cs" and g: "type_visitor g ds"
  shows "type_visitor (and_then f g) (cs @ ds)"
proof
  fix env env' changed
  assume "and_then f g env = Inr (env', changed)"
  then obtain env1 c1 c2 where steps: "f env = Inr (env1, c1)" "g env1 = Inr (env', c2)"
      "changed = (c2 \<or> c1)"
    by (rule and_thenE)
  show "types_below env env'"
    using type_visitor.raises_types [OF f steps(1)] type_visitor.raises_types [OF g steps(2)]
    by (rule types_below_trans)
  show "x \<notin> targets (cs @ ds) \<Longrightarrow> env' x = env x" for x
    using type_visitor.frame [OF f steps(1)] type_visitor.frame [OF g steps(2)] by (simp add: image_Un)
  show "\<not> changed" if sat: "satisfied (cs @ ds) env"
  proof -
    have "\<not> c1" using type_visitor.keeps_solution [OF f steps(1)] sat by simp
    then have "env1 = env" using type_visitor.reports_no_change [OF f] steps(1) by simp
    with \<open>\<not> c1\<close> show ?thesis using type_visitor.keeps_solution [OF g steps(2)] sat steps(3) by simp
  qed
next
  fix env env'
  assume "and_then f g env = Inr (env', False)"
  then obtain env1 where steps: "f env = Inr (env1, False)" "g env1 = Inr (env', False)"
    by (auto simp: and_then_def bindE_eq_Inr)
  then have "env1 = env" using type_visitor.reports_no_change [OF f] by blast
  with steps show "env' = env \<and> satisfied (cs @ ds) env"
    using type_visitor.reports_no_change [OF f] type_visitor.reports_no_change [OF g] by auto
next
  fix env env'
  assume "and_then f g env = Inr (env', True)"
  then obtain env1 c1 c2 where steps: "f env = Inr (env1, c1)" "g env1 = Inr (env', c2)" "c2 \<or> c1"
    by (auto simp: and_then_def bindE_eq_Inr)
  have below: "types_below env env1" "types_below env1 env'"
    using type_visitor.raises_types [OF f steps(1)] type_visitor.raises_types [OF g steps(2)] .
  have "(\<exists>x\<in>targets cs. type_of env x < type_of env1 x) \<or> (\<exists>x\<in>targets ds. type_of env1 x < type_of env' x)"
    using steps type_visitor.reports_change [OF f, of env env1] type_visitor.reports_change [OF g, of env1 env']
    by (cases c1; cases c2) simp_all
  with below show "\<exists>x\<in>targets (cs @ ds). type_of env x < type_of env' x"
    unfolding types_below_def by (auto intro: less_le_trans le_less_trans)
qed

lemma or_elseE:
  assumes "or_else f g env = Inr (env', changed)"
  obtains "f env = Inr (env', True)" "changed"
    | env1 where "f env = Inr (env1, False)" "g env1 = Inr (env', changed)"
proof -
  from assms obtain env1 c where "f env = Inr (env1, c)"
      "(if c then Inr (env1, True) else g env1) = Inr (env', changed)"
    by (auto simp: or_else_def bindE_eq_Inr)
  then show thesis using that by (cases c) auto
qed

lemma visitor_or_else:
  assumes f: "type_visitor f cs" and g: "type_visitor g ds"
  shows "type_visitor (or_else f g) (cs @ ds)"
proof
  fix env env' changed
  assume run: "or_else f g env = Inr (env', changed)"
  show "types_below env env'"
    using run
    by (cases rule: or_elseE)
      (blast dest: type_visitor.raises_types [OF f] type_visitor.raises_types [OF g] intro: types_below_trans)+
  show "satisfied (cs @ ds) env \<Longrightarrow> \<not> changed"
    using run
    by (cases rule: or_elseE)
      (auto dest: type_visitor.keeps_solution [OF f] type_visitor.keeps_solution [OF g]
        type_visitor.reports_no_change [OF f])
  show "x \<notin> targets (cs @ ds) \<Longrightarrow> env' x = env x" for x
    using run
    by (cases rule: or_elseE)
      (simp_all add: image_Un type_visitor.frame [OF f] type_visitor.frame [OF g])
next
  fix env env'
  assume "or_else f g env = Inr (env', False)"
  then show "env' = env \<and> satisfied (cs @ ds) env"
    by (cases rule: or_elseE)
      (auto dest!: type_visitor.reports_no_change [OF f] type_visitor.reports_no_change [OF g])
next
  fix env env'
  assume "or_else f g env = Inr (env', True)"
  then show "\<exists>x\<in>targets (cs @ ds). type_of env x < type_of env' x"
  proof (cases rule: or_elseE)
    case 1
    then have "\<exists>x\<in>targets cs. type_of env x < type_of env' x"
      by (intro type_visitor.reports_change [OF f])
    then show ?thesis by auto
  next
    case (2 env1)
    then have "\<exists>x\<in>targets ds. type_of env1 x < type_of env' x" "env1 = env"
      using type_visitor.reports_change [OF g] type_visitor.reports_no_change [OF f] by blast+
    then show ?thesis by auto
  qed
qed

lemma visitor_all_of:
  "(\<And>x. x \<in> set xs \<Longrightarrow> type_visitor (f x) (cs x)) \<Longrightarrow> type_visitor (all_of f xs) (concat (map cs xs))"
  by (induction xs) (auto intro: visitor_unchanged visitor_and_then)

lemma visitor_any_of:
  "(\<And>x. x \<in> set xs \<Longrightarrow> type_visitor (f x) (cs x)) \<Longrightarrow> type_visitor (any_of f xs) (concat (map cs xs))"
  by (induction xs) (auto intro: visitor_unchanged visitor_or_else)

lemma visitor_converge:
  assumes f: "type_visitor f cs"
  shows "type_visitor (converge f) cs"
proof
  fix env env' changed
  assume "converge f env = Inr (env', changed)"
  then have run: "converge_within (Suc 7) f env = Inr (env', changed)"
    by (simp add: converge_def MAX_FIXPOINT_ITERATIONS_def numeral_eq_Suc)
  show "types_below env env'"
    using type_visitor.converge_within_raises_types [OF f run] .
  show "x \<notin> targets cs \<Longrightarrow> env' x = env x" for x
    using type_visitor.converge_within_frame [OF f run] .
  show "satisfied cs env \<Longrightarrow> \<not> changed"
    using run type_visitor.keeps_solution [OF f]
    unfolding converge_within.simps by (auto simp: bindE_eq_Inr split: if_splits)
next
  fix env env'
  assume "converge f env = Inr (env', False)"
  then have "f env = Inr (env', False)"
    by (auto simp: converge_def MAX_FIXPOINT_ITERATIONS_def numeral_eq_Suc bindE_eq_Inr split: if_splits)
  then show "env' = env \<and> satisfied cs env"
    by (rule type_visitor.reports_no_change [OF f])
next
  fix env env'
  assume "converge f env = Inr (env', True)"
  then have "converge_within (Suc 7) f env = Inr (env', True)"
    by (simp add: converge_def MAX_FIXPOINT_ITERATIONS_def numeral_eq_Suc)
  then obtain env1 c where "f env = Inr (env1, True)" and rest: "converge_within 7 f env1 = Inr (env', c)"
    unfolding converge_within.simps by (auto simp: bindE_eq_Inr split: if_splits)
  then obtain x where "x \<in> targets cs" "type_of env x < type_of env1 x"
    using type_visitor.reports_change [OF f] by blast
  moreover have "types_below env1 env'"
    using type_visitor.converge_within_raises_types [OF f rest] .
  ultimately show "\<exists>x\<in>targets cs. type_of env x < type_of env' x"
    unfolding types_below_def by (blast intro: less_le_trans)
qed

text \<open>The target's type may depend on the current types.\<close>

definition target_constraints :: "lvalue \<Rightarrow> (type_env \<Rightarrow> lattice_type) \<Rightarrow> type_constraint list" where
  "target_constraints lv t = (case lv of NameLValue x _ \<Rightarrow> [(x, t)] | _ \<Rightarrow> [])"

lemma join_eq_iff: "join s t = s \<longleftrightarrow> t \<le> s"
  by (simp add: sup.absorb_iff1 flip: sup_lattice_type_def)

lemma visitor_note:
  assumes "\<And>env. f env = note_assignment x (t env) locals env"
  shows "type_visitor f (outside locals [(x, t)])"
proof -
  have "f env = (if x \<in> locals \<or> t env \<le> type_of env x then Inr (env, False)
      else Inr (env(x \<mapsto> join (type_of env x) (t env)), True))" for env
    by (simp add: assms note_assignment_def Let_def join_eq_iff)
  moreover have "type_of (env(x \<mapsto> ty)) y = (if y = x then ty else type_of env y)" for env ty y
    by (simp add: type_of_def)
  ultimately show ?thesis
    by unfold_locales
      (auto simp: types_below_def join_upper join_eq_iff less_le eq_commute [of _ "join _ _"]
        split: if_splits)
qed

lemma visitor_note_assignment:
  "type_visitor (note_assignment x t locals) (outside locals [(x, \<lambda>_. t)])"
  by (rule visitor_note) simp

lemma visitor_note_target:
  "type_visitor (note_target locals lv t) (outside locals (target_constraints lv t))"
proof (cases lv)
  case (NameLValue x sp)
  then show ?thesis
    unfolding target_constraints_def by (simp only: lvalue.case) (rule visitor_note, simp add: note_target_def)
qed (auto simp: note_target_def target_constraints_def type_visitor_def)

end
