(* ===== verification/Type_Inference_Props.thy ===== *)
theory Type_Inference_Props
  imports Type_Lattice
begin

text \<open>
  The type inference against the constraints of the program: each visitor of \<open>Type_Inference\<close>
  fulfils the contract \<open>type_visitor\<close> for the constraints of its node, so it reports a change
  exactly when they do not hold, and the bounded loops end in a solution for loops with few
  variables.
\<close>

section \<open>The constraints of a program\<close>

definition node_constraints :: "expr \<Rightarrow> type_constraint list" where
  "node_constraints e =
     (case e of
        AssignExpr target op v _ \<Rightarrow> target_constraints target (assigned_type op v)
      | GetlineExpr (Some target) _ _ \<Rightarrow> target_constraints target (\<lambda>_. TyString)
      | CallExpr function_name args _ \<Rightarrow>
          if function_name \<in> {''sub'', ''gsub''} \<and> length args = 3
          then case expression_to_lvalue (args ! 2) of
                 Inr (Some target) \<Rightarrow> target_constraints target (\<lambda>_. TyString)
               | _ \<Rightarrow> []
          else []
      | _ \<Rightarrow> [])"

definition expression_constraints :: "expr \<Rightarrow> type_constraint list" where
  "expression_constraints e = concat (map node_constraints (sub_expressions e))"

definition expressions_constraints :: "expr list \<Rightarrow> type_constraint list" where
  "expressions_constraints es = concat (map expression_constraints es)"

lemma expression_constraints_unfold:
  "expression_constraints e = node_constraints e @ expressions_constraints (expression_children e)"
proof -
  have "concat (map node_constraints (concat xss)) = concat (map (\<lambda>xs. concat (map node_constraints xs)) xss)"
    for xss by (induction xss) simp_all
  then show ?thesis
    by (subst expression_constraints_def, subst sub_expressions.simps)
      (simp add: expressions_constraints_def expression_constraints_def [abs_def] comp_def)
qed

lemma expressions_constraints_simps [simp]:
  "expressions_constraints [] = []"
  "expressions_constraints (e # es) = expression_constraints e @ expressions_constraints es"
  "expressions_constraints (es @ fs) = expressions_constraints es @ expressions_constraints fs"
  by (simp_all add: expressions_constraints_def)

text \<open>A statement; the loop variable of a \<open>for (k in a)\<close> loop is a string, and what its body assigns
  to it is not a constraint.\<close>

fun statement_constraints :: "stmt \<Rightarrow> type_constraint list" where
  "statement_constraints (AssignStmt target op v sp) =
     target_constraints target (assigned_type op v)
     @ expressions_constraints (lvalue_expressions target @ [v])"
| "statement_constraints (BlockStmt ss _) = concat (map statement_constraints ss)"
| "statement_constraints (IfStmt c t el _) =
     expression_constraints c @ statement_constraints t
     @ (case el of None \<Rightarrow> [] | Some s \<Rightarrow> statement_constraints s)"
| "statement_constraints (WhileStmt c b _) = expression_constraints c @ statement_constraints b"
| "statement_constraints (DoWhileStmt b c _) = expression_constraints c @ statement_constraints b"
| "statement_constraints (ForStmt i c u b _) =
     expressions_constraints (i @ option_list c @ u) @ statement_constraints b"
| "statement_constraints (ForInStmt n e b _) =
     (n, \<lambda>_. TyString) # expression_constraints e @ outside {n} (statement_constraints b)"
| "statement_constraints (ExitStmt _ _) = []"
| "statement_constraints s = expressions_constraints (statement_expressions s)"

section \<open>The visitors meet their contract\<close>

lemma visitor_same_set:
  assumes "type_visitor f cs" "set cs = set ds"
  shows "type_visitor f ds"
proof -
  have "satisfied ds = satisfied cs"
    using assms(2) by (auto simp: satisfied_def list_all_iff fun_eq_iff)
  show ?thesis
    using assms(1) unfolding type_visitor_def \<open>satisfied ds = satisfied cs\<close> assms(2) .
qed

lemma set_outside: "set (outside locals cs) = {c \<in> set cs. fst c \<notin> locals}"
  by (auto simp: outside_def)

lemmas visitor_rules =
  visitor_unchanged visitor_and_then visitor_or_else visitor_note_target visitor_note_assignment
  visitor_converge

lemma visitor_all_of_outside:
  "(\<And>x. x \<in> set xs \<Longrightarrow> type_visitor (f x) (outside locals (g x))) \<Longrightarrow>
     type_visitor (all_of f xs) (outside locals (concat (map g xs)))"
  using visitor_all_of [of xs f "\<lambda>x. outside locals (g x)"]
  by (simp add: outside_concat comp_def)

lemma visitor_any_of_outside:
  "(\<And>x. x \<in> set xs \<Longrightarrow> type_visitor (f x) (outside locals (g x))) \<Longrightarrow>
     type_visitor (any_of f xs) (outside locals (concat (map g xs)))"
  using visitor_any_of [of xs f "\<lambda>x. outside locals (g x)"]
  by (simp add: outside_concat comp_def)

lemma visitor_note_substitution:
  "type_visitor (note_substitution locals g args)
     (outside locals (node_constraints (CallExpr g args sp)))"
proof (cases "g \<in> {''sub'', ''gsub''} \<and> length args = 3")
  case True
  then show ?thesis
  proof (cases "expression_to_lvalue (args ! 2)")
    case (Inl e)
    with True show ?thesis
      by unfold_locales (auto simp: note_substitution_def nth_opt_lt)
  next
    case (Inr target)
    show ?thesis
    proof (cases target)
      case None
      with True Inr show ?thesis
        by unfold_locales (auto simp: note_substitution_def nth_opt_lt node_constraints_def)
    next
      case (Some lv)
      have "note_substitution locals g args = note_target locals lv (\<lambda>_. TyString)"
        using True Inr Some by (auto simp: note_substitution_def nth_opt_lt fun_eq_iff)
      moreover have "node_constraints (CallExpr g args sp) = target_constraints lv (\<lambda>_. TyString)"
        using True Inr Some by (auto simp: node_constraints_def)
      ultimately show ?thesis by (simp add: visitor_note_target)
    qed
  qed
next
  case False
  then have "note_substitution locals g args = unchanged"
    by (auto simp: note_substitution_def nth_opt_lt unchanged_def fun_eq_iff)
  moreover have "node_constraints (CallExpr g args sp) = []"
    using False by (auto simp: node_constraints_def)
  ultimately show ?thesis by (simp add: visitor_unchanged)
qed

lemma visitor_expression:
  "type_visitor (visit_expression_types locals e) (outside locals (expression_constraints e))"
  "type_visitor (visit_lvalue_types locals lv)
     (outside locals (expressions_constraints (lvalue_expressions lv)))"
proof (induction locals e and locals lv rule: visit_expression_types_visit_lvalue_types.induct)
  case (1 locals target op v sp)
  show ?case
    unfolding visit_expression_types.simps
    by (rule visitor_same_set, (rule 1 visitor_rules)+)
      (auto simp: expression_constraints_unfold [of "AssignExpr target op v sp"] node_constraints_def)
next
  case (2 locals l b r sp)
  show ?case
    unfolding visit_expression_types.simps
    by (rule visitor_same_set, (rule 2 visitor_rules)+)
      (auto simp: expression_constraints_unfold [of "BinaryExpr l b r sp"] node_constraints_def)
next
  case (3 locals c t f sp)
  show ?case
    unfolding visit_expression_types.simps
    by (rule visitor_same_set, (rule 3 visitor_rules)+)
      (auto simp: expression_constraints_unfold [of "ConditionalExpr c t f sp"] node_constraints_def)
next
  case (6 locals g args sp)
  show ?case
    unfolding visit_expression_types.simps
    by (rule visitor_same_set, rule visitor_and_then, rule visitor_all_of_outside, erule 6,
        rule visitor_note_substitution [where sp = sp])
      (auto simp: expression_constraints_unfold [of "CallExpr g args sp"] expressions_constraints_def)
next
  case (7 locals a i x sp)
  show ?case
    unfolding visit_expression_types.simps
    by (rule visitor_same_set, rule visitor_and_then, rule 7, rule visitor_all_of_outside, erule 7)
      (auto simp: expression_constraints_unfold [of "ArrayIndexExpr a i x sp"] node_constraints_def
        expressions_constraints_def)
next
  case (10 locals target source sp)
  have source: "type_visitor (case source of None \<Rightarrow> unchanged | Some e \<Rightarrow> visit_expression_types locals e)
      (outside locals (expressions_constraints (option_list source)))"
    using 10(1) by (auto simp: visitor_unchanged split: option.splits)
  have target: "type_visitor
      (case target of None \<Rightarrow> unchanged | Some lv \<Rightarrow>
         and_then (visit_lvalue_types locals lv) (note_target locals lv (\<lambda>_. TyString)))
      (outside locals (case target of None \<Rightarrow> [] | Some lv \<Rightarrow>
         expressions_constraints (lvalue_expressions lv) @ target_constraints lv (\<lambda>_. TyString)))"
    using 10(2) by (auto simp: visitor_unchanged intro: visitor_rules split: option.splits)
  show ?case
    unfolding visit_expression_types.simps
    by (rule visitor_same_set, rule visitor_and_then, rule source, rule target)
      (auto simp: expression_constraints_unfold [of "GetlineExpr target source sp"] node_constraints_def
        split: option.splits)
next
  case (16 locals n subscripts sp)
  show ?case
    unfolding visit_lvalue_types.simps
    by (simp add: expressions_constraints_def) (rule visitor_all_of_outside, erule 16)
qed (simp_all add: expression_constraints_unfold [of "UnaryExpr o' e sp" for o' e sp]
    expression_constraints_unfold [of "PostfixExpr e o' sp" for o' e sp]
    expression_constraints_unfold [of "FieldExpr i sp" for i sp]
    expression_constraints_unfold [of "NameExpr n sp" for n sp]
    expression_constraints_unfold [of "StringLiteralExpr v r sp" for v r sp]
    expression_constraints_unfold [of "NumericLiteralExpr v r sp" for v r sp]
    expression_constraints_unfold [of "RegexLiteralExpr r sp" for r sp]
    node_constraints_def visitor_unchanged)

lemma visitor_expressions:
  "type_visitor (all_of (visit_expression_types locals) es) (outside locals (expressions_constraints es))"
  "type_visitor (any_of (visit_expression_types locals) es) (outside locals (expressions_constraints es))"
  unfolding expressions_constraints_def
  by (auto intro: visitor_all_of_outside visitor_any_of_outside visitor_expression)

lemma visitor_optional:
  "type_visitor (visit_optional_types locals v) (outside locals (expressions_constraints (option_list v)))"
  by (cases v) (simp_all add: visit_optional_types_def visitor_unchanged visitor_expression)

lemma visitor_output:
  "type_visitor (visit_output_types locals es redirect)
     (outside locals (expressions_constraints (es @ map or_target (option_list redirect))))"
proof -
  have "option_list (map_option or_target redirect) = map or_target (option_list redirect)"
    by (cases redirect) simp_all
  then show ?thesis
    unfolding visit_output_types_def
    using visitor_and_then [OF visitor_expressions(1) visitor_optional,
        of locals es locals "map_option or_target redirect"]
    by simp
qed

lemmas visitor_expression_rules =
  visitor_rules visitor_expression visitor_expressions visitor_optional visitor_output

lemma visitor_statement:
  "type_visitor (visit_statement_types locals s) (outside locals (statement_constraints s))"
proof (induction locals s rule: visit_statement_types.induct)
  case (5 locals ss sp)
  show ?case
    unfolding visit_statement_types.simps statement_constraints.simps
    by (rule visitor_all_of_outside) (erule 5)
next
  case (6 locals c t el sp)
  have "type_visitor (case el of None \<Rightarrow> unchanged | Some s \<Rightarrow> visit_statement_types locals s)
      (outside locals (case el of None \<Rightarrow> [] | Some s \<Rightarrow> statement_constraints s))"
    using 6(2) by (auto simp: visitor_unchanged split: option.splits)
  then show ?case
    unfolding visit_statement_types.simps
    by (intro visitor_same_set [OF visitor_and_then [OF visitor_expression(1) visitor_and_then [OF 6(1)]]])
      (auto split: option.splits)
next
  case (10 locals n e b sp)
  show ?case
    unfolding visit_statement_types.simps
    by (rule visitor_same_set, (rule 10 visitor_expression_rules)+)
      (auto simp: set_outside)
qed ((unfold visit_statement_types.simps)?, rule visitor_same_set,
    ((assumption | rule visitor_expression_rules)+)?, auto simp: statement_expressions_def)+

lemma visitor_pattern:
  "type_visitor (visit_pattern_types p) (expressions_constraints (pattern_expressions p))"
proof (induction p rule: visit_pattern_types.induct)
  case (1 test sp)
  then show ?case using visitor_expression(1) [of "{}" test] by (simp add: outside_def)
qed (auto intro: visitor_rules)

interpretation expression_types: type_visitor
  "visit_expression_types locals e" "outside locals (expression_constraints e)" for locals e
  by (rule visitor_expression)

interpretation statement_types: type_visitor
  "visit_statement_types locals s" "outside locals (statement_constraints s)" for locals s
  by (rule visitor_statement)

interpretation loop_types: type_visitor
  "or_else (visit_statement_types locals b) (visit_expression_types locals c)"
  "outside locals (statement_constraints b) @ outside locals (expression_constraints c)" for locals b c
  by (rule visitor_or_else [OF visitor_statement visitor_expression(1)])

section \<open>Change reports and loops\<close>

text \<open>C19: visiting a statement never lowers a type; it reports a change exactly when it changed the
  map of types, and exactly when the constraints of the statement (each assigned variable has at
  least the type of what is assigned to it) did not all hold before the visit.\<close>

theorem type_visit_reports_change:
  assumes "visit_statement_types locals s env = Inr (env', changed)"
  shows "types_below env env' \<and> (changed \<longleftrightarrow> env' \<noteq> env)
    \<and> (changed \<longleftrightarrow> \<not> satisfied (outside locals (statement_constraints s)) env)"
  using statement_types.raises_types [OF assms] statement_types.changed_iff [OF assms]
    statement_types.changed_iff_different [OF assms] by blast

text \<open>C18: a loop is visited at most eight times.  For a \<open>while\<close> or \<open>do\<close> loop that assigns at most three
  variables these rounds are enough: the types that the visit leaves solve all constraints of its
  condition and body, whatever the types before.\<close>

theorem loop_types_converge:
  assumes "s \<in> {WhileStmt c b sp, DoWhileStmt b c sp}"
    and "visit_statement_types locals s env = Inr (env', changed)"
    and "card (targets (outside locals (statement_constraints s))) \<le> 3"
  shows "satisfied (outside locals (statement_constraints s)) env'"
proof -
  let ?step = "or_else (visit_statement_types locals b) (visit_expression_types locals c)"
  let ?cs = "outside locals (statement_constraints b) @ outside locals (expression_constraints c)"
  have "\<exists>env1 changed1. converge ?step env1 = Inr (env', changed1)"
    using assms(1)
  proof (elim insertE emptyE)
    assume "s = WhileStmt c b sp"
    with assms(2) have "and_then (visit_expression_types locals c) (converge ?step) env
        = Inr (env', changed)" by simp
    then obtain env1 c2 where "converge ?step env1 = Inr (env', c2)" by (rule and_thenE)
    then show ?thesis by blast
  next
    assume "s = DoWhileStmt b c sp"
    with assms(2) show ?thesis by (intro exI) simp
  qed
  then obtain env1 changed1 where "converge_within 8 ?step env1 = Inr (env', changed1)"
    by (auto simp: converge_def MAX_FIXPOINT_ITERATIONS_def)
  moreover have same: "set (outside locals (statement_constraints s)) = set ?cs"
    using assms(1) by (auto simp: set_outside)
  then have "2 * card (targets ?cs) < 8 + loop_types.total_height locals b c env1"
    using assms(3) by simp
  ultimately have "satisfied ?cs env'"
    by (rule loop_types.converge_solves)
  with same show ?thesis
    by (simp add: satisfied_def list_all_iff)
qed

section \<open>Programs for the witnesses\<close>

abbreviation name_of :: "string \<Rightarrow> expr" where
  "name_of n \<equiv> NameExpr n inline_span"

abbreviation set_name :: "string \<Rightarrow> expr \<Rightarrow> stmt" where
  "set_name n e \<equiv> AssignStmt (NameLValue n inline_span) AssignPlain e inline_span"

abbreviation text_of :: "string \<Rightarrow> expr" where
  "text_of s \<equiv> StringLiteralExpr s s inline_span"

text \<open>\<open>while (x) { x = y; y = "s" }\<close>.\<close>

definition sample_loop :: stmt where
  "sample_loop = WhileStmt (name_of ''x'')
     (BlockStmt [set_name ''x'' (name_of ''y''), set_name ''y'' (text_of ''s'')] inline_span) inline_span"

lemmas visit_simps =
  and_then_def or_else_def unchanged_def note_target_def note_assignment_def assigned_type_def
  type_of_def join_def converge_def MAX_FIXPOINT_ITERATIONS_def numeral_eq_Suc

lemma sample_loop_visit:
  "visit_statement_types {} sample_loop [''x'' \<mapsto> TyNumeric]
   = Inr ([''x'' \<mapsto> TyMixed, ''y'' \<mapsto> TyString], True)"
  by (simp add: sample_loop_def visit_simps fun_upd_twist)

lemma type_visit_reports_change_witness:
  "types_below [''x'' \<mapsto> TyNumeric] [''x'' \<mapsto> TyMixed, ''y'' \<mapsto> TyString]"
  using type_visit_reports_change [OF sample_loop_visit] by blast

lemma loop_types_converge_witness:
  "satisfied (outside {} (statement_constraints sample_loop)) [''x'' \<mapsto> TyMixed, ''y'' \<mapsto> TyString]"
proof (rule loop_types_converge [OF _ sample_loop_visit])
  show "sample_loop \<in> {WhileStmt (name_of ''x'')
     (BlockStmt [set_name ''x'' (name_of ''y''), set_name ''y'' (text_of ''s'')] inline_span) inline_span,
     DoWhileStmt (BlockStmt [set_name ''x'' (name_of ''y''), set_name ''y'' (text_of ''s'')] inline_span)
     (name_of ''x'') inline_span}"
    by (simp add: sample_loop_def)
  show "card (targets (outside {} (statement_constraints sample_loop))) \<le> 3"
    by (simp add: sample_loop_def target_constraints_def expression_constraints_unfold
        node_constraints_def)
qed

section \<open>Where the inference stops short\<close>

text \<open>Items are visited once.  In \<open>BEGIN { y = 1 }  { y = x; x = "s" }\<close> the type of \<open>y\<close> stays numeric,
  although the second record assigns it the string.\<close>

definition single_pass_program :: program where
  "single_pass_program =
     \<lparr>pr_items =
        [PatternAction \<lparr>pa_pattern = Some (BeginPattern inline_span),
           pa_action = Some \<lparr>ac_statements =
             [set_name ''y'' (NumericLiteralExpr (Double 1 0) ''1'' inline_span)], ac_span = inline_span\<rparr>,
           pa_span = inline_span\<rparr>,
         PatternAction \<lparr>pa_pattern = None,
           pa_action = Some \<lparr>ac_statements =
             [set_name ''y'' (name_of ''x''), set_name ''x'' (text_of ''s'')], ac_span = inline_span\<rparr>,
           pa_span = inline_span\<rparr>],
      pr_span = inline_span\<rparr>"

lemma single_pass_misses_assignment:
  "infer_variable_types single_pass_program = Inr [''y'' \<mapsto> TyNumeric, ''x'' \<mapsto> TyString]"
  by (simp add: infer_variable_types_def single_pass_program_def visit_item_types_def
      visit_action_types_def visit_simps)

text \<open>A value read from an array has the bottom type, so \<open>x = 1; x = a["k"]\<close> leaves \<open>x\<close> numeric.\<close>

lemma array_value_is_ignored:
  "all_of (visit_statement_types {})
     [set_name ''x'' (NumericLiteralExpr (Double 1 0) ''1'' inline_span),
      set_name ''x'' (ArrayIndexExpr ''a'' (text_of ''k'') [] inline_span)] Map.empty
   = Inr ([''x'' \<mapsto> TyNumeric], True)"
  by (simp add: visit_simps)

text \<open>Eight rounds are not enough for a chain of nine variables: the string that \<open>x9\<close> receives moves
  one variable per round and does not reach \<open>x1\<close>.\<close>

definition chain_loop :: stmt where
  "chain_loop = WhileStmt (name_of ''c'')
     (BlockStmt
       [set_name ''x1'' (name_of ''x2''), set_name ''x2'' (name_of ''x3''),
        set_name ''x3'' (name_of ''x4''), set_name ''x4'' (name_of ''x5''),
        set_name ''x5'' (name_of ''x6''), set_name ''x6'' (name_of ''x7''),
        set_name ''x7'' (name_of ''x8''), set_name ''x8'' (name_of ''x9''),
        set_name ''x9'' (text_of ''s'')] inline_span) inline_span"

lemma chain_loop_not_solved:
  "\<exists>env'. visit_statement_types {} chain_loop [''x1'' \<mapsto> TyNumeric] = Inr (env', True)
     \<and> type_of env' ''x1'' = TyNumeric \<and> type_of env' ''x2'' = TyString"
  by (simp add: chain_loop_def visit_simps)

end
