(* ===== verification/Residency.thy ===== *)
theory Residency
  imports Normalization Type_Inference "HOL-Library.AList"
begin

text \<open>
  \<^verbatim>\<open>src/quawk/local_scalar_residency.py\<close>: which numeric scalars can live in a local of one lowered
  function.  The nested functions of \<open>classify_local_numeric_scalar_residency\<close> close over the set of
  tracked names; here it is their first argument.  A \<open>frozenset\<close> is a set; the read-only mapping of
  function names is a map.
\<close>

section \<open>The classification\<close>

record local_scalar_residency =
  begin_local_numeric_names :: "string set"
  record_local_numeric_names :: "string set"
  end_local_numeric_names :: "string set"
  function_local_numeric_names :: "string \<rightharpoonup> string set"
  state_backed_numeric_names :: "string set"

definition all_local_numeric_names :: "local_scalar_residency \<Rightarrow> string set" where
  "all_local_numeric_names r =
     begin_local_numeric_names r \<union> record_local_numeric_names r \<union> end_local_numeric_names r
     \<union> \<Union> (ran (function_local_numeric_names r))"

definition names_for_phase :: "local_scalar_residency \<Rightarrow> string \<Rightarrow> exn + string set" where
  "names_for_phase r phase =
     (if phase = ''begin'' then Inr (begin_local_numeric_names r)
      else if phase = ''record'' then Inr (record_local_numeric_names r)
      else if phase = ''end'' then Inr (end_local_numeric_names r)
      else Inl (ValueError (''unknown lowered phase: '' @ phase)))"

definition names_for_function :: "local_scalar_residency \<Rightarrow> string \<Rightarrow> string set" where
  "names_for_function r name =
     (case function_local_numeric_names r name of None \<Rightarrow> {} | Some names \<Rightarrow> names)"

section \<open>Results of the analysis\<close>

record analysis_result =
  assigned_after :: "string set"
  encountered_names :: "string set"
  assigned_names :: "string set"
  read_before_assignment_names :: "string set"

record unit_summary =
  us_encountered_names :: "string set"
  us_assigned_names :: "string set"
  us_read_before_assignment_names :: "string set"

definition empty_result :: "string set \<Rightarrow> analysis_result" where
  "empty_result assigned =
     \<lparr>assigned_after = assigned, encountered_names = {}, assigned_names = {},
      read_before_assignment_names = {}\<rparr>"

definition combine_results :: "string set \<Rightarrow> analysis_result list \<Rightarrow> analysis_result" where
  "combine_results after results =
     \<lparr>assigned_after = after,
      encountered_names = \<Union> (set (map encountered_names results)),
      assigned_names = \<Union> (set (map assigned_names results)),
      read_before_assignment_names = \<Union> (set (map read_before_assignment_names results))\<rparr>"

definition read_name :: "string set \<Rightarrow> string set \<Rightarrow> string \<Rightarrow> string set \<Rightarrow> analysis_result" where
  "read_name tracked local_names name assigned =
     (if name \<in> local_names \<or> name \<notin> tracked then empty_result assigned
      else \<lparr>assigned_after = assigned, encountered_names = {name}, assigned_names = {},
            read_before_assignment_names = (if name \<in> assigned then {} else {name})\<rparr>)"

definition assign_name ::
    "string set \<Rightarrow> string set \<Rightarrow> string \<Rightarrow> bool \<Rightarrow> string set \<Rightarrow> analysis_result" where
  "assign_name tracked local_names name requires_prior_value assigned =
     (if name \<in> local_names \<or> name \<notin> tracked then empty_result assigned
      else \<lparr>assigned_after = assigned \<union> {name}, encountered_names = {name}, assigned_names = {name},
            read_before_assignment_names =
              (if requires_prior_value \<and> name \<notin> assigned then {name} else {})\<rparr>)"

text \<open>The loop of the sequence functions: each element starts from what the previous one assigned.\<close>

fun run_sequence ::
    "('a \<Rightarrow> string set \<Rightarrow> analysis_result) \<Rightarrow> 'a list \<Rightarrow> string set \<Rightarrow> analysis_result list \<times> string set" where
  "run_sequence analyze_one [] current = ([], current)"
| "run_sequence analyze_one (x # xs) current =
     (let result = analyze_one x current;
          (results, last) = run_sequence analyze_one xs (assigned_after result)
      in (result # results, last))"

definition analyze_sequence ::
    "('a \<Rightarrow> string set \<Rightarrow> analysis_result) \<Rightarrow> 'a list \<Rightarrow> string set \<Rightarrow> analysis_result" where
  "analyze_sequence analyze_one xs assigned =
     (let (results, last) = run_sequence analyze_one xs assigned in combine_results last results)"

lemma run_sequence_cong [fundef_cong]:
  "xs = ys \<Longrightarrow> a = b \<Longrightarrow> (\<And>x s. x \<in> set ys \<Longrightarrow> f x s = g x s) \<Longrightarrow> run_sequence f xs a = run_sequence g ys b"
  by (induction ys arbitrary: xs a b) auto

lemma analyze_sequence_cong [fundef_cong]:
  "xs = ys \<Longrightarrow> a = b \<Longrightarrow> (\<And>x s. x \<in> set ys \<Longrightarrow> f x s = g x s) \<Longrightarrow>
     analyze_sequence f xs a = analyze_sequence g ys b"
  unfolding analyze_sequence_def by (simp cong: run_sequence_cong)

section \<open>Expressions\<close>

definition increment_name :: "string set \<Rightarrow> string set \<Rightarrow> string \<Rightarrow> string set \<Rightarrow> analysis_result" where
  "increment_name tracked local_names name assigned =
     (let read_result = read_name tracked local_names name assigned;
          assign_result = assign_name tracked local_names name False (assigned_after read_result)
      in combine_results (assigned_after assign_result) [read_result, assign_result])"

text \<open>The assignment of a value already analyzed: \<open>index_result\<close> and \<open>value_result\<close> are those of the
  target's indexes and of the value.\<close>

definition assignment_result ::
    "string set \<Rightarrow> string set \<Rightarrow> lvalue \<Rightarrow> assign_op \<Rightarrow> analysis_result \<Rightarrow> analysis_result \<Rightarrow> analysis_result" where
  "assignment_result tracked local_names target op index_result value_result =
     (case target of
        NameLValue name _ \<Rightarrow>
          let result = assign_name tracked local_names name (op \<noteq> AssignPlain) (assigned_after value_result)
          in combine_results (assigned_after result) [index_result, value_result, result]
      | _ \<Rightarrow> combine_results (assigned_after value_result) [index_result, value_result])"

fun analyze_expression :: "string set \<Rightarrow> string set \<Rightarrow> expr \<Rightarrow> string set \<Rightarrow> analysis_result" where
  "analyze_expression tracked local_names (NameExpr name _) assigned =
     read_name tracked local_names name assigned"
| "analyze_expression tracked local_names (ArrayIndexExpr _ index extra_indexes _) assigned =
     (let index_result = analyze_expression tracked local_names index assigned;
          extra_result = analyze_sequence (analyze_expression tracked local_names) extra_indexes
                           (assigned_after index_result)
      in combine_results (assigned_after extra_result) [index_result, extra_result])"
| "analyze_expression tracked local_names (BinaryExpr left _ right _) assigned =
     (let left_result = analyze_expression tracked local_names left assigned;
          right_result = analyze_expression tracked local_names right (assigned_after left_result)
      in combine_results (assigned_after right_result) [left_result, right_result])"
| "analyze_expression tracked local_names (ConditionalExpr test if_true if_false _) assigned =
     (let test_result = analyze_expression tracked local_names test assigned;
          true_result = analyze_expression tracked local_names if_true (assigned_after test_result);
          false_result = analyze_expression tracked local_names if_false (assigned_after test_result)
      in combine_results (assigned_after true_result \<inter> assigned_after false_result)
           [test_result, true_result, false_result])"
| "analyze_expression tracked local_names (AssignExpr target op v _) assigned =
     (let target_index_result = analyze_sequence (analyze_expression tracked local_names)
            (lvalue_expressions target) assigned;
          value_result = analyze_expression tracked local_names v (assigned_after target_index_result)
      in assignment_result tracked local_names target op target_index_result value_result)"
| "analyze_expression tracked local_names (UnaryExpr op operand _) assigned =
     (case operand of
        NameExpr name _ \<Rightarrow>
          if op = PreInc \<or> op = PreDec then increment_name tracked local_names name assigned
          else analyze_expression tracked local_names operand assigned
      | _ \<Rightarrow> analyze_expression tracked local_names operand assigned)"
| "analyze_expression tracked local_names (PostfixExpr operand op _) assigned =
     (case operand of
        NameExpr name _ \<Rightarrow>
          if op = PostInc \<or> op = PostDec then increment_name tracked local_names name assigned
          else analyze_expression tracked local_names operand assigned
      | _ \<Rightarrow> analyze_expression tracked local_names operand assigned)"
| "analyze_expression tracked local_names (FieldExpr (IntIndex _) _) assigned = empty_result assigned"
| "analyze_expression tracked local_names (FieldExpr (ExprIndex index) _) assigned =
     analyze_expression tracked local_names index assigned"
| "analyze_expression tracked local_names (CallExpr _ args _) assigned =
     analyze_sequence (analyze_expression tracked local_names) args assigned"
| "analyze_expression tracked local_names (GetlineExpr target source _) assigned =
     (let source_result = (case source of
            None \<Rightarrow> empty_result assigned
          | Some e \<Rightarrow> analyze_expression tracked local_names e assigned)
      in case target of
           None \<Rightarrow> source_result
         | Some lv \<Rightarrow>
             let target_result = analyze_sequence (analyze_expression tracked local_names)
                   (lvalue_expressions lv) (assigned_after source_result)
             in combine_results (assigned_after target_result) [source_result, target_result])"
| "analyze_expression tracked local_names (StringLiteralExpr _ _ _) assigned = empty_result assigned"
| "analyze_expression tracked local_names (NumericLiteralExpr _ _ _) assigned = empty_result assigned"
| "analyze_expression tracked local_names (RegexLiteralExpr _ _) assigned = empty_result assigned"

definition analyze_expression_sequence ::
    "string set \<Rightarrow> string set \<Rightarrow> expr list \<Rightarrow> string set \<Rightarrow> analysis_result" where
  "analyze_expression_sequence tracked local_names expressions assigned =
     analyze_sequence (analyze_expression tracked local_names) expressions assigned"

definition analyze_lvalue_indexes ::
    "string set \<Rightarrow> string set \<Rightarrow> lvalue \<Rightarrow> string set \<Rightarrow> analysis_result" where
  "analyze_lvalue_indexes tracked local_names target assigned =
     analyze_expression_sequence tracked local_names (lvalue_expressions target) assigned"

section \<open>Statements\<close>

definition analyze_optional ::
    "string set \<Rightarrow> string set \<Rightarrow> expr option \<Rightarrow> string set \<Rightarrow> analysis_result" where
  "analyze_optional tracked local_names v assigned =
     (case v of
        None \<Rightarrow> empty_result assigned
      | Some e \<Rightarrow> analyze_expression tracked local_names e assigned)"

definition analyze_output ::
    "string set \<Rightarrow> string set \<Rightarrow> expr list \<Rightarrow> output_redirect option \<Rightarrow> string set \<Rightarrow> analysis_result" where
  "analyze_output tracked local_names arguments redirect assigned =
     (let arguments_result = analyze_expression_sequence tracked local_names arguments assigned
      in case redirect of
           None \<Rightarrow> arguments_result
         | Some r \<Rightarrow>
             let redirect_result = analyze_expression tracked local_names (or_target r)
                   (assigned_after arguments_result)
             in combine_results (assigned_after redirect_result) [arguments_result, redirect_result])"

fun analyze_statement :: "string set \<Rightarrow> string set \<Rightarrow> stmt \<Rightarrow> string set \<Rightarrow> analysis_result" where
  "analyze_statement tracked local_names (AssignStmt target op v _) assigned =
     (let target_index_result = analyze_lvalue_indexes tracked local_names target assigned;
          value_result = analyze_expression tracked local_names v (assigned_after target_index_result)
      in assignment_result tracked local_names target op target_index_result value_result)"
| "analyze_statement tracked local_names (ExprStmt v _) assigned =
     analyze_expression tracked local_names v assigned"
| "analyze_statement tracked local_names (PrintStmt arguments _ redirect) assigned =
     analyze_output tracked local_names arguments redirect assigned"
| "analyze_statement tracked local_names (PrintfStmt arguments _ redirect) assigned =
     analyze_output tracked local_names arguments redirect assigned"
| "analyze_statement tracked local_names (BlockStmt statements _) assigned =
     analyze_sequence (analyze_statement tracked local_names) statements assigned"
| "analyze_statement tracked local_names (IfStmt condition then_branch else_branch _) assigned =
     (let condition_result = analyze_expression tracked local_names condition assigned;
          then_result = analyze_statement tracked local_names then_branch (assigned_after condition_result)
      in case else_branch of
           None \<Rightarrow>
             combine_results (assigned_after condition_result \<inter> assigned_after then_result)
               [condition_result, then_result]
         | Some s \<Rightarrow>
             let else_result = analyze_statement tracked local_names s (assigned_after condition_result)
             in combine_results (assigned_after then_result \<inter> assigned_after else_result)
                  [condition_result, then_result, else_result])"
| "analyze_statement tracked local_names (WhileStmt condition body _) assigned =
     (let condition_result = analyze_expression tracked local_names condition assigned;
          body_result = analyze_statement tracked local_names body (assigned_after condition_result)
      in combine_results (assigned_after condition_result) [condition_result, body_result])"
| "analyze_statement tracked local_names (DoWhileStmt body condition _) assigned =
     (let body_result = analyze_statement tracked local_names body assigned;
          condition_result = analyze_expression tracked local_names condition (assigned_after body_result)
      in combine_results assigned [body_result, condition_result])"
| "analyze_statement tracked local_names (ForStmt init condition update body _) assigned =
     (let init_result = analyze_expression_sequence tracked local_names init assigned;
          condition_result = analyze_optional tracked local_names condition (assigned_after init_result);
          body_result = analyze_statement tracked local_names body (assigned_after condition_result);
          update_result = analyze_expression_sequence tracked local_names update (assigned_after body_result)
      in combine_results (assigned_after condition_result)
           [init_result, condition_result, body_result, update_result])"
| "analyze_statement tracked local_names (ForInStmt name iterable body _) assigned =
     (let iterable_result = analyze_expression tracked local_names iterable assigned;
          body_result = analyze_statement tracked (local_names \<union> {name}) body (assigned_after iterable_result)
      in combine_results (assigned_after iterable_result) [iterable_result, body_result])"
| "analyze_statement tracked local_names (DeleteStmt target _) assigned =
     analyze_lvalue_indexes tracked local_names target assigned"
| "analyze_statement tracked local_names (ReturnStmt v _) assigned =
     analyze_optional tracked local_names v assigned"
| "analyze_statement tracked local_names (BreakStmt _) assigned = empty_result assigned"
| "analyze_statement tracked local_names (ContinueStmt _) assigned = empty_result assigned"
| "analyze_statement tracked local_names (NextStmt _) assigned = empty_result assigned"
| "analyze_statement tracked local_names (NextFileStmt _) assigned = empty_result assigned"
| "analyze_statement tracked local_names (ExitStmt _ _) assigned = empty_result assigned"

definition analyze_statement_sequence ::
    "string set \<Rightarrow> string set \<Rightarrow> stmt list \<Rightarrow> string set \<Rightarrow> analysis_result" where
  "analyze_statement_sequence tracked local_names statements assigned =
     analyze_sequence (analyze_statement tracked local_names) statements assigned"

section \<open>Units\<close>

definition summary_of :: "analysis_result \<Rightarrow> unit_summary" where
  "summary_of r =
     \<lparr>us_encountered_names = encountered_names r, us_assigned_names = assigned_names r,
      us_read_before_assignment_names = read_before_assignment_names r\<rparr>"

definition analyze_action :: "string set \<Rightarrow> action \<Rightarrow> string set \<Rightarrow> unit_summary" where
  "analyze_action tracked a local_names =
     summary_of (analyze_statement_sequence tracked local_names (ac_statements a) {})"

definition analyze_action_sequence_summary :: "string set \<Rightarrow> action list \<Rightarrow> unit_summary" where
  "analyze_action_sequence_summary tracked actions =
     summary_of
       (analyze_sequence (\<lambda>a. analyze_statement_sequence tracked {} (ac_statements a)) actions {})"

text \<open>\<open>analyze_pattern\<close> has no case for a \<open>BEGIN\<close> or \<open>END\<close> pattern and then returns Python's \<open>None\<close>, on
  which \<open>combine_results\<close> fails.\<close>

fun analyze_pattern :: "string set \<Rightarrow> pattern \<Rightarrow> string set \<Rightarrow> exn + analysis_result option" where
  "analyze_pattern tracked (ExprPattern test _) assigned =
     Inr (Some (analyze_expression tracked {} test assigned))"
| "analyze_pattern tracked (RangePattern left right _) assigned =
     bindE (analyze_pattern tracked left assigned) (\<lambda>left_result.
     bindE (analyze_pattern tracked right assigned) (\<lambda>right_result.
       case (left_result, right_result) of
         (Some l, Some r) \<Rightarrow> Inr (Some (combine_results assigned [l, r]))
       | _ \<Rightarrow> Inl (AttributeError ''NoneType object has no attribute encountered_names'')))"
| "analyze_pattern tracked (BeginPattern _) assigned = Inr None"
| "analyze_pattern tracked (EndPattern _) assigned = Inr None"

text \<open>One round of the loop of \<open>analyze_record_items\<close>, from the names assigned so far to the results of
  the item and the names assigned after it.\<close>

definition analyze_record_item ::
    "string set \<Rightarrow> normalized_record_item \<Rightarrow> string set \<Rightarrow> exn + analysis_result list \<times> string set" where
  "analyze_record_item tracked item current =
     (case nr_pattern item of
        None \<Rightarrow>
          let action_result = (case nr_action item of
                None \<Rightarrow> empty_result current
              | Some a \<Rightarrow> analyze_statement_sequence tracked {} (ac_statements a) current)
          in Inr ([action_result], assigned_after action_result)
      | Some p \<Rightarrow>
          bindE (analyze_pattern tracked p current) (\<lambda>result.
            case result of
              None \<Rightarrow> Inl (AttributeError ''NoneType object has no attribute assigned_after'')
            | Some pattern_result \<Rightarrow>
                (case nr_action item of
                   None \<Rightarrow> Inr ([pattern_result], assigned_after pattern_result)
                 | Some a \<Rightarrow>
                     let action_result = analyze_statement_sequence tracked {} (ac_statements a)
                           (assigned_after pattern_result)
                     in Inr ([pattern_result, action_result],
                             assigned_after pattern_result \<inter> assigned_after action_result))))"

fun analyze_record_loop ::
    "string set \<Rightarrow> normalized_record_item list \<Rightarrow> string set \<Rightarrow> exn + analysis_result list \<times> string set" where
  "analyze_record_loop tracked [] current = Inr ([], current)"
| "analyze_record_loop tracked (item # items) current =
     bindE (analyze_record_item tracked item current) (\<lambda>(results, current1).
     bindE (analyze_record_loop tracked items current1) (\<lambda>(more, last).
       Inr (results @ more, last)))"

definition analyze_record_items :: "string set \<Rightarrow> normalized_record_item list \<Rightarrow> exn + unit_summary" where
  "analyze_record_items tracked items =
     bindE (analyze_record_loop tracked items {}) (\<lambda>(results, last).
       Inr (summary_of (combine_results last results)))"

section \<open>Classification\<close>

definition names_from_summary :: "unit_summary \<Rightarrow> string set \<Rightarrow> bool \<Rightarrow> string set" where
  "names_from_summary summary shared_numeric_names allow_local =
     (if \<not> allow_local then {}
      else us_assigned_names summary - shared_numeric_names - us_read_before_assignment_names summary)"

definition note_summary ::
    "string \<Rightarrow> unit_summary \<Rightarrow> (string \<rightharpoonup> string set) \<Rightarrow> (string \<rightharpoonup> string set)" where
  "note_summary unit_name summary usage =
     (\<lambda>name. if name \<in> us_encountered_names summary
             then Some (insert unit_name (case usage name of None \<Rightarrow> {} | Some units \<Rightarrow> units))
             else usage name)"

definition shared_names :: "(string \<rightharpoonup> string set) \<Rightarrow> string set" where
  "shared_names usage = {name. case usage name of None \<Rightarrow> False | Some units \<Rightarrow> card units > 1}"

definition is_reusable_runtime_state_name :: "string \<Rightarrow> bool" where
  "is_reusable_runtime_state_name name \<longleftrightarrow> starts_with ''__range.'' name"

definition tracked_numeric_names :: "normalized_lowering_program \<Rightarrow> type_env \<Rightarrow> string set" where
  "tracked_numeric_names np types =
     {name \<in> set (map fst (np_variable_indexes np)).
        types name = Some TyNumeric \<and> name \<notin> np_array_names np
        \<and> \<not> is_builtin_variable_name name \<and> \<not> is_reusable_runtime_state_name name}"

definition function_summaries :: "string set \<Rightarrow> item list \<Rightarrow> (string \<times> unit_summary) list" where
  "function_summaries tracked items =
     fold (\<lambda>item summaries. case item of
             FunctionDef f \<Rightarrow>
               AList.update (fd_name f) (analyze_action tracked (fd_body f) (set (fd_params f))) summaries
           | PatternAction _ \<Rightarrow> summaries)
       items []"

definition classify_units ::
    "string set \<Rightarrow> unit_summary \<Rightarrow> unit_summary \<Rightarrow> unit_summary \<Rightarrow> (string \<times> unit_summary) list
       \<Rightarrow> local_scalar_residency" where
  "classify_units tracked begin_summary record_summary end_summary summaries =
     (let usage =
            fold (\<lambda>(name, summary). note_summary (''function:'' @ name) summary) summaries
              (note_summary ''end'' end_summary
                (note_summary ''record'' record_summary
                  (note_summary ''begin'' begin_summary Map.empty)));
          shared = shared_names usage;
          begin_local = names_from_summary begin_summary shared True;
          record_local = names_from_summary record_summary shared True;
          end_local = names_from_summary end_summary shared True
      in \<lparr>begin_local_numeric_names = begin_local,
          record_local_numeric_names = record_local,
          end_local_numeric_names = end_local,
          function_local_numeric_names =
            map_of (map (\<lambda>(name, summary). (name, names_from_summary summary shared False)) summaries),
          state_backed_numeric_names = tracked - (begin_local \<union> record_local \<union> end_local)\<rparr>)"

definition classify_local_numeric_scalar_residency ::
    "program \<Rightarrow> normalized_lowering_program option \<Rightarrow> type_env option \<Rightarrow> exn + local_scalar_residency" where
  "classify_local_numeric_scalar_residency prog normalized_program type_info =
     bindE (case normalized_program of
              None \<Rightarrow> normalize_program_for_lowering prog | Some np \<Rightarrow> Inr np) (\<lambda>np.
     bindE (case type_info of None \<Rightarrow> infer_variable_types prog | Some types \<Rightarrow> Inr types) (\<lambda>types.
       let tracked = tracked_numeric_names np types in
       if tracked = {} then
         Inr \<lparr>begin_local_numeric_names = {}, record_local_numeric_names = {},
              end_local_numeric_names = {}, function_local_numeric_names = Map.empty,
              state_backed_numeric_names = {}\<rparr>
       else
         bindE (analyze_record_items tracked (np_record_items np)) (\<lambda>record_summary.
           Inr (classify_units tracked
                  (analyze_action_sequence_summary tracked (np_begin_actions np)) record_summary
                  (analyze_action_sequence_summary tracked (np_end_actions np))
                  (function_summaries tracked (pr_items prog))))))"

end
