(* ===== verification/Residency_Props.thy ===== *)
theory Residency_Props
  imports Residency
begin

text \<open>
  The results of the residency analysis are well formed: assigned names are encountered, and the names
  assigned after a part are those assigned before it and in it.  The classification is a partition.
\<close>

section \<open>Results are well formed\<close>

definition within :: "string set \<Rightarrow> analysis_result \<Rightarrow> bool" where
  "within tracked r \<longleftrightarrow>
     assigned_names r \<subseteq> encountered_names r \<and> encountered_names r \<subseteq> tracked
     \<and> read_before_assignment_names r \<subseteq> encountered_names r"

definition grows_from :: "string set \<Rightarrow> analysis_result \<Rightarrow> bool" where
  "grows_from assigned r \<longleftrightarrow>
     assigned \<subseteq> assigned_after r \<and> assigned_after r \<subseteq> assigned \<union> assigned_names r"

lemma combine_simps [simp]:
  "assigned_after (combine_results A rs) = A"
  "encountered_names (combine_results A rs) = \<Union> (set (map encountered_names rs))"
  "assigned_names (combine_results A rs) = \<Union> (set (map assigned_names rs))"
  "read_before_assignment_names (combine_results A rs) = \<Union> (set (map read_before_assignment_names rs))"
  by (simp_all add: combine_results_def)

lemma empty_simps [simp]:
  "assigned_after (empty_result A) = A" "encountered_names (empty_result A) = {}"
  "assigned_names (empty_result A) = {}" "read_before_assignment_names (empty_result A) = {}"
  by (simp_all add: empty_result_def)

lemma within_basic [simp]:
  "within tracked (empty_result A)" "within tracked (read_name tracked locals x A)"
  "within tracked (assign_name tracked locals x b A)"
  by (simp_all add: within_def read_name_def assign_name_def)

lemma within_combine [intro!]: "list_all (within tracked) rs \<Longrightarrow> within tracked (combine_results A rs)"
  by (fastforce simp: within_def list_all_iff)

lemma grows_basic [simp]:
  "grows_from A (empty_result A)" "grows_from A (read_name tracked locals x A)"
  "grows_from A (assign_name tracked locals x b A)"
  by (auto simp: grows_from_def read_name_def assign_name_def)

lemma grows_step:
  "grows_from A r \<Longrightarrow> grows_from (assigned_after r) s \<Longrightarrow>
     A \<subseteq> assigned_after s \<and> assigned_after s \<subseteq> A \<union> assigned_names r \<union> assigned_names s"
  by (auto simp: grows_from_def)

lemma analyze_sequence_simps [simp]:
  "analyze_sequence f [] A = combine_results A []"
  "analyze_sequence f (x # xs) A =
     (let r = f x A; rest = analyze_sequence f xs (assigned_after r)
      in \<lparr>assigned_after = assigned_after rest,
          encountered_names = encountered_names r \<union> encountered_names rest,
          assigned_names = assigned_names r \<union> assigned_names rest,
          read_before_assignment_names = read_before_assignment_names r \<union> read_before_assignment_names rest\<rparr>)"
  by (simp_all add: analyze_sequence_def combine_results_def Let_def split: prod.split)

lemma within_sequence: "(\<And>x B. x \<in> set xs \<Longrightarrow> within tracked (f x B)) \<Longrightarrow> within tracked (analyze_sequence f xs A)"
proof (induction xs arbitrary: A)
  case (Cons x xs)
  then have "within tracked (f x A)" "within tracked (analyze_sequence f xs (assigned_after (f x A)))"
    by simp_all
  then show ?case by (auto simp: within_def Let_def)
qed (auto simp: within_def)

lemma grows_sequence: "(\<And>x B. x \<in> set xs \<Longrightarrow> grows_from B (f x B)) \<Longrightarrow> grows_from A (analyze_sequence f xs A)"
proof (induction xs arbitrary: A)
  case (Cons x xs)
  then have "grows_from A (f x A)" "grows_from (assigned_after (f x A)) (analyze_sequence f xs (assigned_after (f x A)))"
    by simp_all
  from grows_step [OF this] show ?case by (auto simp: grows_from_def Let_def)
qed (simp add: grows_from_def)

lemma within_assignment: "within tracked r \<Longrightarrow> within tracked s \<Longrightarrow> within tracked (assignment_result tracked locals lv op r s)"
  by (cases lv) (auto simp: assignment_result_def Let_def)

lemma grows_assignment:
  assumes "grows_from A r" "grows_from (assigned_after r) s"
  shows "grows_from A (assignment_result tracked locals lv op r s)"
proof -
  note steps = grows_step [OF assms]
  have "B \<subseteq> assigned_after (assign_name tracked locals x b B)
      \<and> assigned_after (assign_name tracked locals x b B) \<subseteq> B \<union> assigned_names (assign_name tracked locals x b B)"
    for x b B using grows_basic(3) [of B] by (simp add: grows_from_def)
  from this [of "assigned_after s"] steps show ?thesis
    by (cases lv) (simp_all add: assignment_result_def Let_def grows_from_def, blast+)
qed

lemma within_increment: "within tracked (increment_name tracked locals x A)"
  by (auto simp: increment_name_def Let_def)

lemma grows_increment: "grows_from A (increment_name tracked locals x A)"
  by (auto simp: increment_name_def Let_def grows_from_def read_name_def assign_name_def)

lemma within_expression: "within tracked (analyze_expression tracked locals e A)"
proof (induction tracked locals e A rule: analyze_expression.induct)
  case (6 tracked locals op e sp A)
  then show ?case by (cases e) (simp_all add: within_increment)
next
  case (7 tracked locals e op sp A)
  then show ?case by (cases e) (simp_all add: within_increment)
qed (auto simp: Let_def intro!: within_sequence within_assignment split: option.splits)

lemma grows_expression: "grows_from A (analyze_expression tracked locals e A)"
proof (induction tracked locals e A rule: analyze_expression.induct)
  case (2 tracked locals a i x sp A)
  have "grows_from B (analyze_sequence (analyze_expression tracked locals) x B)" for B
    by (rule grows_sequence) (erule 2(2) [OF refl])
  from grows_step [OF 2(1) this] show ?case
    by (auto simp: Let_def grows_from_def)
next
  case (3 tracked locals l op r sp A)
  from grows_step [OF 3(1) 3(2) [OF refl]] show ?case by (auto simp: Let_def grows_from_def)
next
  case (4 tracked locals c t f sp A)
  from grows_step [OF 4(1) 4(2) [OF refl]] grows_step [OF 4(1) 4(3) [OF refl refl]] show ?case
    by (auto simp: Let_def grows_from_def)
next
  case (6 tracked locals op e sp A)
  then show ?case by (cases e) (simp_all add: grows_increment)
next
  case (7 tracked locals e op sp A)
  then show ?case by (cases e) (simp_all add: grows_increment)
next
  case (11 tracked locals target source sp A)
  have source: "grows_from A (case source of None \<Rightarrow> empty_result A | Some e \<Rightarrow> analyze_expression tracked locals e A)"
    using 11(1) by (simp split: option.split)
  show ?case
  proof (cases target)
    case (Some lv)
    have "grows_from B (analyze_sequence (analyze_expression tracked locals) (lvalue_expressions lv) B)" for B
      by (rule grows_sequence, rule 11(2) [OF refl Some])
    from grows_step [OF source this] Some show ?thesis by (auto simp: Let_def grows_from_def)
  qed (simp add: source)
qed (auto simp: Let_def intro!: grows_sequence grows_assignment)

lemma expressions_ok:
  "within tracked (analyze_expression_sequence tracked locals es A)"
  "grows_from A (analyze_expression_sequence tracked locals es A)"
  "within tracked (analyze_lvalue_indexes tracked locals lv A)"
  "grows_from A (analyze_lvalue_indexes tracked locals lv A)"
  "within tracked (analyze_optional tracked locals v A)"
  "grows_from A (analyze_optional tracked locals v A)"
  by (auto simp: analyze_expression_sequence_def analyze_lvalue_indexes_def analyze_optional_def
      split: option.split
      intro!: within_sequence grows_sequence within_expression grows_expression)

lemma output_ok:
  "within tracked (analyze_output tracked locals es redirect A)"
  "grows_from A (analyze_output tracked locals es redirect A)"
proof -
  show "within tracked (analyze_output tracked locals es redirect A)"
    by (auto simp: analyze_output_def Let_def expressions_ok within_expression split: option.split)
  have es: "grows_from A (analyze_expression_sequence tracked locals es A)" by (rule expressions_ok)
  show "grows_from A (analyze_output tracked locals es redirect A)"
  proof (cases redirect)
    case (Some r)
    with grows_step [OF es grows_expression [of _ tracked locals "or_target r"]] show ?thesis
      by (auto simp: analyze_output_def Let_def grows_from_def)
  qed (simp add: analyze_output_def es)
qed

lemma within_statement: "within tracked (analyze_statement tracked locals s A)"
proof (induction tracked locals s A rule: analyze_statement.induct)
  case (6 tracked locals c t el sp A)
  then show ?case by (auto simp: Let_def within_expression split: option.split)
qed (auto simp: Let_def expressions_ok output_ok within_expression
    intro!: within_sequence within_assignment)

lemma grows_statement: "grows_from A (analyze_statement tracked locals s A)"
proof (induction tracked locals s A rule: analyze_statement.induct)
  case (1 tracked locals lv op v sp A)
  then show ?case by (auto simp: Let_def intro!: grows_assignment expressions_ok grows_expression)
next
  case (6 tracked locals c t el sp A)
  let ?c = "analyze_expression tracked locals c A"
  have c: "grows_from A ?c" by (rule grows_expression)
  have t: "grows_from (assigned_after ?c) (analyze_statement tracked locals t (assigned_after ?c))"
    by (rule 6(1)) simp
  show ?case
  proof (cases el)
    case None
    then show ?thesis using grows_step [OF c t] c by (auto simp: Let_def grows_from_def)
  next
    case (Some s)
    then have "grows_from (assigned_after ?c) (analyze_statement tracked locals s (assigned_after ?c))"
      by (intro 6(2)) simp_all
    from grows_step [OF c t] grows_step [OF c this] Some show ?thesis
      by (auto simp: Let_def grows_from_def)
  qed
next
  case (7 tracked locals c b sp A)
  have "grows_from A (analyze_expression tracked locals c A)" by (rule grows_expression)
  then show ?case by (auto simp: Let_def grows_from_def)
next
  case (8 tracked locals b c sp A)
  show ?case by (simp add: Let_def grows_from_def)
next
  case (9 tracked locals i c u b sp A)
  have "grows_from A (analyze_expression_sequence tracked locals i A)" by (rule expressions_ok)
  from grows_step [OF this expressions_ok(6)] show ?case
    by (simp add: Let_def grows_from_def) blast
next
  case (10 tracked locals n e b sp A)
  have "grows_from A (analyze_expression tracked locals e A)" by (rule grows_expression)
  then show ?case by (auto simp: Let_def grows_from_def)
qed (auto intro: grows_expression expressions_ok output_ok grows_sequence)

section \<open>The partition\<close>

definition summary_within :: "string set \<Rightarrow> unit_summary \<Rightarrow> bool" where
  "summary_within tracked s \<longleftrightarrow>
     us_assigned_names s \<subseteq> us_encountered_names s \<and> us_encountered_names s \<subseteq> tracked"

lemma summary_within_of: "within tracked r \<Longrightarrow> summary_within tracked (summary_of r)"
  by (simp add: within_def summary_within_def summary_of_def)

lemma within_units:
  "within tracked (analyze_statement_sequence tracked locals ss A)"
  "within tracked (analyze_sequence (\<lambda>a. analyze_statement_sequence tracked {} (ac_statements a)) actions A)"
  by (auto simp: analyze_statement_sequence_def intro!: within_sequence within_statement)

lemma action_summaries_within:
  "summary_within tracked (analyze_action tracked a locals)"
  "summary_within tracked (analyze_action_sequence_summary tracked actions)"
  unfolding analyze_action_def analyze_action_sequence_summary_def
  by (rule summary_within_of within_units)+

lemma pattern_range_result:
  "analyze_pattern tracked (RangePattern l r sp) A = Inr (Some res) \<longleftrightarrow>
     (\<exists>a b. analyze_pattern tracked l A = Inr (Some a) \<and> analyze_pattern tracked r A = Inr (Some b)
        \<and> res = combine_results A [a, b])"
  by (auto simp: bindE_eq_Inr split: option.split_asm)

lemma within_pattern: "analyze_pattern tracked p A = Inr (Some r) \<Longrightarrow> within tracked r"
proof (induction p arbitrary: r)
  case (RangePattern p1 p2 sp)
  then show ?case
    unfolding pattern_range_result by auto
qed (auto simp: within_expression)

lemma record_item_result:
  "analyze_record_item tracked item A = Inr (rs, B) \<longleftrightarrow>
     (case nr_pattern item of
        None \<Rightarrow>
          (\<exists>r. r = (case nr_action item of None \<Rightarrow> empty_result A
                    | Some a \<Rightarrow> analyze_statement_sequence tracked {} (ac_statements a) A)
             \<and> rs = [r] \<and> B = assigned_after r)
      | Some p \<Rightarrow>
          (\<exists>r. analyze_pattern tracked p A = Inr (Some r)
             \<and> (case nr_action item of
                  None \<Rightarrow> rs = [r] \<and> B = assigned_after r
                | Some a \<Rightarrow>
                    (\<exists>s. s = analyze_statement_sequence tracked {} (ac_statements a) (assigned_after r)
                       \<and> rs = [r, s] \<and> B = assigned_after r \<inter> assigned_after s))))"
proof (cases "nr_pattern item")
  case (Some p)
  show ?thesis
  proof (cases "analyze_pattern tracked p A")
    case (Inr result)
    with Some show ?thesis
      by (cases result) (auto simp: analyze_record_item_def Let_def split: option.split)
  qed (simp add: analyze_record_item_def Some)
qed (auto simp: analyze_record_item_def Let_def split: option.split)

lemma within_record_item:
  "analyze_record_item tracked item A = Inr (rs, B) \<Longrightarrow> list_all (within tracked) rs"
  unfolding record_item_result
  by (auto simp: within_units split: option.split_asm dest: within_pattern)

lemma within_record_loop:
  "analyze_record_loop tracked items A = Inr (rs, B) \<Longrightarrow> list_all (within tracked) rs"
proof (induction items arbitrary: A rs)
  case (Cons item items)
  then show ?case by (fastforce simp: bindE_eq_Inr dest: within_record_item)
qed simp

lemma record_summary_within: "analyze_record_items tracked items = Inr s \<Longrightarrow> summary_within tracked s"
  by (auto simp: analyze_record_items_def bindE_eq_Inr dest!: within_record_loop intro!: summary_within_of)

text \<open>The units that encounter a name, and the names that at least two units encounter.\<close>

definition encountering :: "(string \<times> unit_summary) list \<Rightarrow> string \<Rightarrow> string set" where
  "encountering entries x = {u. \<exists>s. (u, s) \<in> set entries \<and> x \<in> us_encountered_names s}"

abbreviation note_entries :: "(string \<times> unit_summary) list \<Rightarrow> (string \<rightharpoonup> string set)" where
  "note_entries entries \<equiv> fold (\<lambda>(u, s). note_summary u s) entries Map.empty"

lemma encountering_snoc:
  "encountering (entries @ [(u, s)]) x =
     (if x \<in> us_encountered_names s then insert u (encountering entries x) else encountering entries x)"
  by (auto simp: encountering_def)

lemma note_entries_eq:
  "note_entries entries x = (if encountering entries x = {} then None else Some (encountering entries x))"
proof (induction entries arbitrary: x rule: rev_induct)
  case (snoc entry entries)
  obtain u s where "entry = (u, s)" by fastforce
  with snoc show ?case
    by (auto simp: note_summary_def encountering_snoc)
qed (simp add: encountering_def)

lemma finite_encountering: "finite (encountering entries x)"
proof -
  have "encountering entries x \<subseteq> fst ` set entries" by (force simp: encountering_def)
  then show ?thesis by (rule finite_subset) simp
qed

lemma shared_if_two:
  assumes "(u, s) \<in> set entries" "(v, t) \<in> set entries" "u \<noteq> v"
    and "x \<in> us_encountered_names s" "x \<in> us_encountered_names t"
  shows "x \<in> shared_names (note_entries entries)"
proof -
  have "{u, v} \<subseteq> encountering entries x" using assms by (auto simp: encountering_def)
  then have "card {u, v} \<le> card (encountering entries x)"
    by (intro card_mono finite_encountering)
  with assms(3) \<open>{u, v} \<subseteq> _\<close> show ?thesis
    by (auto simp: shared_names_def note_entries_eq)
qed

definition unit_entries ::
    "unit_summary \<Rightarrow> unit_summary \<Rightarrow> unit_summary \<Rightarrow> (string \<times> unit_summary) list
       \<Rightarrow> (string \<times> unit_summary) list" where
  "unit_entries b r e summaries =
     [(''begin'', b), (''record'', r), (''end'', e)]
     @ map (\<lambda>(name, summary). (''function:'' @ name, summary)) summaries"

lemma classify_units_eq:
  "classify_units tracked b r e summaries =
     (let shared = shared_names (note_entries (unit_entries b r e summaries));
          local = (\<lambda>summary. us_assigned_names summary - shared - us_read_before_assignment_names summary)
      in \<lparr>begin_local_numeric_names = local b, record_local_numeric_names = local r,
          end_local_numeric_names = local e,
          function_local_numeric_names = map_of (map (\<lambda>(name, _). (name, {})) summaries),
          state_backed_numeric_names = tracked - (local b \<union> local r \<union> local e)\<rparr>)"
proof -
  have "note_entries (unit_entries b r e summaries)
      = fold (\<lambda>(name, summary). note_summary (''function:'' @ name) summary) summaries
          (note_summary ''end'' e (note_summary ''record'' r (note_summary ''begin'' b Map.empty)))"
    by (simp add: unit_entries_def fold_map comp_def case_prod_unfold)
  then show ?thesis
    by (simp add: classify_units_def names_from_summary_def Let_def)
qed

lemma unit_local_private:
  assumes "x \<in> us_assigned_names s - shared_names (note_entries (unit_entries b r e fs))"
    and "summary_within tracked s" "(u, s) \<in> set (unit_entries b r e fs)"
    and "(v, t) \<in> set (unit_entries b r e fs)" "u \<noteq> v"
  shows "x \<notin> us_encountered_names t"
  using assms shared_if_two [OF assms(3-5)] by (auto simp: summary_within_def)

text \<open>C17: the classification splits the tracked names: the names local to the \<open>BEGIN\<close>, record and
  \<open>END\<close> functions are pairwise disjoint and tracked, no name is local to a user function, and the
  state-backed names are exactly the other tracked names.\<close>

theorem residency_partition:
  assumes "classify_local_numeric_scalar_residency prog (Some np) (Some types) = Inr r"
  shows "begin_local_numeric_names r \<inter> record_local_numeric_names r = {}
    \<and> begin_local_numeric_names r \<inter> end_local_numeric_names r = {}
    \<and> record_local_numeric_names r \<inter> end_local_numeric_names r = {}
    \<and> all_local_numeric_names r
        = begin_local_numeric_names r \<union> record_local_numeric_names r \<union> end_local_numeric_names r
    \<and> all_local_numeric_names r \<inter> state_backed_numeric_names r = {}
    \<and> all_local_numeric_names r \<union> state_backed_numeric_names r = tracked_numeric_names np types"
proof (cases "tracked_numeric_names np types = {}")
  case True
  with assms show ?thesis
    by (auto simp: classify_local_numeric_scalar_residency_def all_local_numeric_names_def)
next
  case False
  let ?T = "tracked_numeric_names np types"
  let ?b = "analyze_action_sequence_summary ?T (np_begin_actions np)"
  let ?e = "analyze_action_sequence_summary ?T (np_end_actions np)"
  let ?fs = "function_summaries ?T (pr_items prog)"
  from assms False obtain rs where rs: "analyze_record_items ?T (np_record_items np) = Inr rs"
    and r: "r = classify_units ?T ?b rs ?e ?fs"
    by (auto simp: classify_local_numeric_scalar_residency_def bindE_eq_Inr Let_def)
  have ok: "summary_within ?T ?b" "summary_within ?T rs" "summary_within ?T ?e"
    by (rule action_summaries_within record_summary_within [OF rs])+
  have entries: "(''begin'', ?b) \<in> set (unit_entries ?b rs ?e ?fs)"
    "(''record'', rs) \<in> set (unit_entries ?b rs ?e ?fs)" "(''end'', ?e) \<in> set (unit_entries ?b rs ?e ?fs)"
    by (simp_all add: unit_entries_def)
  note alone = unit_local_private [OF _ ok(1) entries(1) entries(2)]
    unit_local_private [OF _ ok(1) entries(1) entries(3)]
    unit_local_private [OF _ ok(2) entries(2) entries(3)]
  have ran: "\<Union> (ran (map_of (map (\<lambda>(name, _). (name, {})) fs))) = {}"
    for fs :: "(string \<times> unit_summary) list"
    by (auto simp: ran_def dest!: map_of_SomeD)
  show ?thesis
    using ok alone
    unfolding r classify_units_eq Let_def all_local_numeric_names_def
    by (auto simp: summary_within_def ran)
qed

text \<open>\<open>BEGIN { x = 1; y = x }  END { print y }\<close>, where \<open>x\<close> and \<open>y\<close> are numeric.\<close>

definition sample_normalized :: normalized_lowering_program where
  "sample_normalized =
     (let name = (\<lambda>x. NameExpr x inline_span);
          assign = (\<lambda>x e. AssignStmt (NameLValue x inline_span) AssignPlain e inline_span)
      in \<lparr>np_direct_begin_statements = None,
          np_begin_actions =
            [\<lparr>ac_statements = [assign ''x'' (NumericLiteralExpr (Double 1 0) ''1'' inline_span),
                              assign ''y'' (name ''x'')],
              ac_span = inline_span\<rparr>],
          np_record_items = [],
          np_end_actions =
            [\<lparr>ac_statements = [PrintStmt [name ''y''] inline_span None], ac_span = inline_span\<rparr>],
          np_variable_indexes = [(''x'', 0), (''y'', 1)],
          np_slot_allocation = \<lparr>sa_slots = [], sa_numeric_count = 0, sa_string_count = 0,
            sa_mixed_count = 0, sa_state_struct_type = ''%quawk.state = type {}''\<rparr>,
          np_array_names = {}\<rparr>)"

definition sample_types :: type_env where
  "sample_types = [''x'' \<mapsto> TyNumeric, ''y'' \<mapsto> TyNumeric]"

lemma sample_tracked: "tracked_numeric_names sample_normalized sample_types = {''x'', ''y''}"
  by (auto simp: tracked_numeric_names_def sample_normalized_def sample_types_def
      is_builtin_variable_name_def BUILTIN_VARIABLE_NAMES_def is_reusable_runtime_state_name_def
      starts_with_def
      split: if_splits)

lemma sample_begin_summary:
  "analyze_action_sequence_summary {''x'', ''y''} (np_begin_actions sample_normalized)
   = \<lparr>us_encountered_names = {''x'', ''y''}, us_assigned_names = {''x'', ''y''},
      us_read_before_assignment_names = {}\<rparr>"
  by (simp add: analyze_action_sequence_summary_def sample_normalized_def Let_def
      analyze_statement_sequence_def analyze_sequence_def summary_of_def combine_results_def
      assignment_result_def assign_name_def read_name_def analyze_lvalue_indexes_def
      analyze_expression_sequence_def empty_result_def insert_commute)

lemma sample_end_summary:
  "analyze_action_sequence_summary {''x'', ''y''} (np_end_actions sample_normalized)
   = \<lparr>us_encountered_names = {''y''}, us_assigned_names = {},
      us_read_before_assignment_names = {''y''}\<rparr>"
  by (simp add: analyze_action_sequence_summary_def sample_normalized_def Let_def
      analyze_statement_sequence_def analyze_sequence_def summary_of_def combine_results_def
      analyze_output_def read_name_def analyze_expression_sequence_def empty_result_def)

lemma sample_residency:
  "classify_local_numeric_scalar_residency \<lparr>pr_items = [], pr_span = inline_span\<rparr>
     (Some sample_normalized) (Some sample_types)
   = Inr \<lparr>begin_local_numeric_names = {''x''}, record_local_numeric_names = {},
      end_local_numeric_names = {}, function_local_numeric_names = Map.empty,
      state_backed_numeric_names = {''y''}\<rparr>"
proof -
  have recs: "analyze_record_items {''x'', ''y''} (np_record_items sample_normalized)
      = Inr \<lparr>us_encountered_names = {}, us_assigned_names = {}, us_read_before_assignment_names = {}\<rparr>"
    by (simp add: sample_normalized_def Let_def analyze_record_items_def summary_of_def
        combine_results_def)
  have "shared_names (note_summary ''end''
         \<lparr>us_encountered_names = {''y''}, us_assigned_names = {}, us_read_before_assignment_names = {''y''}\<rparr>
         (note_summary ''record''
           \<lparr>us_encountered_names = {}, us_assigned_names = {}, us_read_before_assignment_names = {}\<rparr>
           (note_summary ''begin''
             \<lparr>us_encountered_names = {''x'', ''y''}, us_assigned_names = {''x'', ''y''},
              us_read_before_assignment_names = {}\<rparr> Map.empty))) = {''y''}"
    by (auto simp: shared_names_def note_summary_def split: if_splits)
  with recs show ?thesis
    by (simp add: classify_local_numeric_scalar_residency_def sample_tracked sample_begin_summary
        sample_end_summary classify_units_def function_summaries_def names_from_summary_def Let_def
        insert_Diff_if)
qed

lemma residency_partition_witness:
  "\<exists>r. classify_local_numeric_scalar_residency \<lparr>pr_items = [], pr_span = inline_span\<rparr>
         (Some sample_normalized) (Some sample_types) = Inr r
     \<and> ''x'' \<in> all_local_numeric_names r \<and> ''y'' \<in> state_backed_numeric_names r
     \<and> all_local_numeric_names r \<union> state_backed_numeric_names r = {''x'', ''y''}"
  using residency_partition [OF sample_residency] sample_residency
  by (auto simp: sample_tracked all_local_numeric_names_def)

end
