(* ===== verification/Runs.thy ===== *)
theory Runs
  imports Normalization Semantics_Props
begin

text \<open>
  The runs of a program as the analyses of the compiler see them: a run of an expression or of a
  statement is the sequence of its reads and writes of scalar variables.  Conditions are not
  evaluated: both branches of a conditional can be taken, the right operand of \<open>&&\<close> and \<open>||\<close> may be
  skipped, a loop may go round any number of times, \<open>getline\<close> may find no line, and a run may stop at
  any statement (an expression can call a function that exits).  Names in the set \<open>locals\<close>, which
  are the parameters of the function around and the variables of the \<open>for (k in a)\<close> loops around,
  leave no events.
\<close>

datatype event = Reads string | Writes string

definition reads :: "string set \<Rightarrow> string \<Rightarrow> event list" where
  "reads locals x = (if x \<in> locals then [] else [Reads x])"

definition writes :: "string set \<Rightarrow> string \<Rightarrow> event list" where
  "writes locals x = (if x \<in> locals then [] else [Writes x])"

text \<open>The write of an assignment target; arrays and fields are not scalar variables.\<close>

definition write_target :: "string set \<Rightarrow> assign_op \<Rightarrow> lvalue \<Rightarrow> event list" where
  "write_target locals op lv =
     (case lv of
        NameLValue x _ \<Rightarrow> (if op = AssignPlain then [] else reads locals x) @ writes locals x
      | _ \<Rightarrow> [])"

definition is_increment :: "expr \<Rightarrow> (string \<times> expr) option" where
  "is_increment e =
     (case e of
        UnaryExpr op (NameExpr x sp) _ \<Rightarrow> if op \<in> {PreInc, PreDec} then Some (x, NameExpr x sp) else None
      | PostfixExpr (NameExpr x sp) _ _ \<Rightarrow> Some (x, NameExpr x sp)
      | _ \<Rightarrow> None)"

text \<open>The variable that a call of \<open>sub\<close> or \<open>gsub\<close> with three arguments assigns.\<close>

definition substituted :: "string \<Rightarrow> expr list \<Rightarrow> lvalue option" where
  "substituted g args =
     (if g \<in> {''sub'', ''gsub''} \<and> length args = 3
      then case expression_to_lvalue (args ! 2) of Inr target \<Rightarrow> target | Inl _ \<Rightarrow> None
      else None)"

definition is_logical :: "binary_op \<Rightarrow> bool" where
  "is_logical op \<longleftrightarrow> op = OpLogicalAnd \<or> op = OpLogicalOr"

inductive expr_run :: "string set \<Rightarrow> expr \<Rightarrow> event list \<Rightarrow> bool"
  and exprs_run :: "string set \<Rightarrow> expr list \<Rightarrow> event list \<Rightarrow> bool"
  for locals :: "string set"
where
  run_string: "expr_run locals (StringLiteralExpr v r sp) []"
| run_number: "expr_run locals (NumericLiteralExpr n r sp) []"
| run_regex: "expr_run locals (RegexLiteralExpr r sp) []"
| run_name: "expr_run locals (NameExpr x sp) (reads locals x)"
| run_field_const: "expr_run locals (FieldExpr (IntIndex i) sp) []"
| run_field: "expr_run locals e t \<Longrightarrow> expr_run locals (FieldExpr (ExprIndex e) sp) t"
| run_element: "exprs_run locals (i # is) t \<Longrightarrow> expr_run locals (ArrayIndexExpr a i is sp) t"
| run_call: "exprs_run locals args t \<Longrightarrow> substituted g args = None \<Longrightarrow> expr_run locals (CallExpr g args sp) t"
| run_substitute: "exprs_run locals args t \<Longrightarrow> substituted g args = Some lv \<Longrightarrow>
    expr_run locals (CallExpr g args sp) (t @ write_target locals AssignPlain lv)"
| run_getline_fails: "exprs_run locals (option_list source) t \<Longrightarrow>
    expr_run locals (GetlineExpr target source sp) t"
| run_getline: "exprs_run locals (option_list source) t \<Longrightarrow> exprs_run locals (lvalue_expressions lv) u \<Longrightarrow>
    expr_run locals (GetlineExpr (Some lv) source sp) (t @ u @ write_target locals AssignPlain lv)"
| run_binary: "expr_run locals l t \<Longrightarrow> expr_run locals r u \<Longrightarrow> expr_run locals (BinaryExpr l op r sp) (t @ u)"
| run_shortcut: "expr_run locals l t \<Longrightarrow> is_logical op \<Longrightarrow> expr_run locals (BinaryExpr l op r sp) t"
| run_true: "expr_run locals c t \<Longrightarrow> expr_run locals a u \<Longrightarrow> expr_run locals (ConditionalExpr c a b sp) (t @ u)"
| run_false: "expr_run locals c t \<Longrightarrow> expr_run locals b u \<Longrightarrow> expr_run locals (ConditionalExpr c a b sp) (t @ u)"
| run_assign: "exprs_run locals (lvalue_expressions lv) t \<Longrightarrow> expr_run locals v u \<Longrightarrow>
    expr_run locals (AssignExpr lv op v sp) (t @ u @ write_target locals op lv)"
| run_unary: "expr_run locals e t \<Longrightarrow> is_increment (UnaryExpr op e sp) = None \<Longrightarrow>
    expr_run locals (UnaryExpr op e sp) t"
| run_postfix: "expr_run locals e t \<Longrightarrow> is_increment (PostfixExpr e op sp) = None \<Longrightarrow>
    expr_run locals (PostfixExpr e op sp) t"
| run_increment: "is_increment e = Some (x, e') \<Longrightarrow> expr_run locals e (reads locals x @ writes locals x)"
| run_nil: "exprs_run locals [] []"
| run_cons: "expr_run locals e t \<Longrightarrow> exprs_run locals es u \<Longrightarrow> exprs_run locals (e # es) (t @ u)"

section \<open>Statements\<close>

text \<open>The expressions of a statement without nested statements, in the order of evaluation.\<close>

inductive stmt_run :: "string set \<Rightarrow> stmt \<Rightarrow> event list \<Rightarrow> completion \<Rightarrow> bool"
  and stmts_run :: "string set \<Rightarrow> stmt list \<Rightarrow> event list \<Rightarrow> completion \<Rightarrow> bool"
where
  run_stops: "stmt_run locals s [] Exits"
| run_expr: "s \<in> {PrintStmt a sp r, PrintfStmt a sp r, ExprStmt e sp, DeleteStmt lv sp} \<Longrightarrow>
    exprs_run locals (statement_expressions s) t \<Longrightarrow> stmt_run locals s t Falls"
| run_assignment: "exprs_run locals (lvalue_expressions lv) t \<Longrightarrow> expr_run locals v u \<Longrightarrow>
    stmt_run locals (AssignStmt lv op v sp) (t @ u @ write_target locals op lv) Falls"
| run_break: "stmt_run locals (BreakStmt sp) [] Breaks"
| run_continue: "stmt_run locals (ContinueStmt sp) [] Continues"
| run_next: "stmt_run locals (NextStmt sp) [] Nexts"
| run_nextfile: "stmt_run locals (NextFileStmt sp) [] NextFiles"
| run_exit: "exprs_run locals (option_list v) t \<Longrightarrow> stmt_run locals (ExitStmt v sp) t Exits"
| run_return: "exprs_run locals (option_list v) t \<Longrightarrow> stmt_run locals (ReturnStmt v sp) t Returns"
| run_block: "stmts_run locals ss t k \<Longrightarrow> stmt_run locals (BlockStmt ss sp) t k"
| run_then: "expr_run locals c t \<Longrightarrow> stmt_run locals s u k \<Longrightarrow> stmt_run locals (IfStmt c s el sp) (t @ u) k"
| run_else: "expr_run locals c t \<Longrightarrow> stmt_run locals s u k \<Longrightarrow>
    stmt_run locals (IfStmt c th (Some s) sp) (t @ u) k"
| run_no_else: "expr_run locals c t \<Longrightarrow> stmt_run locals (IfStmt c th None sp) t Falls"
| run_while_done: "expr_run locals c t \<Longrightarrow> stmt_run locals (WhileStmt c b sp) t Falls"
| run_while_jump: "expr_run locals c t \<Longrightarrow> stmt_run locals b u k \<Longrightarrow> k \<notin> {Falls, Continues} \<Longrightarrow>
    stmt_run locals (WhileStmt c b sp) (t @ u) (if k = Breaks then Falls else k)"
| run_while_round: "expr_run locals c t \<Longrightarrow> stmt_run locals b u k \<Longrightarrow> k \<in> {Falls, Continues} \<Longrightarrow>
    stmt_run locals (WhileStmt c b sp) v k' \<Longrightarrow> stmt_run locals (WhileStmt c b sp) (t @ u @ v) k'"
| run_do_jump: "stmt_run locals b t k \<Longrightarrow> k \<notin> {Falls, Continues} \<Longrightarrow>
    stmt_run locals (DoWhileStmt b c sp) t (if k = Breaks then Falls else k)"
| run_do_done: "stmt_run locals b t k \<Longrightarrow> k \<in> {Falls, Continues} \<Longrightarrow> expr_run locals c u \<Longrightarrow>
    stmt_run locals (DoWhileStmt b c sp) (t @ u) Falls"
| run_do_round: "stmt_run locals b t k \<Longrightarrow> k \<in> {Falls, Continues} \<Longrightarrow> expr_run locals c u \<Longrightarrow>
    stmt_run locals (DoWhileStmt b c sp) v k' \<Longrightarrow> stmt_run locals (DoWhileStmt b c sp) (t @ u @ v) k'"
| run_for: "exprs_run locals init t \<Longrightarrow> stmt_run locals (ForStmt [] c u b sp) v k \<Longrightarrow> init \<noteq> [] \<Longrightarrow>
    stmt_run locals (ForStmt init c u b sp) (t @ v) k"
| run_for_done: "exprs_run locals (option_list c) t \<Longrightarrow> stmt_run locals (ForStmt [] c u b sp) t Falls"
| run_for_jump: "exprs_run locals (option_list c) t \<Longrightarrow> stmt_run locals b v k \<Longrightarrow> k \<notin> {Falls, Continues} \<Longrightarrow>
    stmt_run locals (ForStmt [] c u b sp) (t @ v) (if k = Breaks then Falls else k)"
| run_for_round: "exprs_run locals (option_list c) t \<Longrightarrow> stmt_run locals b v k \<Longrightarrow> k \<in> {Falls, Continues} \<Longrightarrow>
    exprs_run locals u w \<Longrightarrow> stmt_run locals (ForStmt [] c u b sp) x k' \<Longrightarrow>
    stmt_run locals (ForStmt [] c u b sp) (t @ v @ w @ x) k'"
| run_for_in_done: "stmt_run locals (ForInStmt n e b sp) [] Falls"
| run_for_in_jump: "stmt_run (insert n locals) b t k \<Longrightarrow> k \<notin> {Falls, Continues} \<Longrightarrow>
    stmt_run locals (ForInStmt n e b sp) t (if k = Breaks then Falls else k)"
| run_for_in_round: "stmt_run (insert n locals) b t k \<Longrightarrow> k \<in> {Falls, Continues} \<Longrightarrow>
    stmt_run locals (ForInStmt n e b sp) v k' \<Longrightarrow> stmt_run locals (ForInStmt n e b sp) (t @ v) k'"
| run_end: "stmts_run locals [] [] Falls"
| run_step: "stmt_run locals s t Falls \<Longrightarrow> stmts_run locals ss u k \<Longrightarrow> stmts_run locals (s # ss) (t @ u) k"
| run_leave: "stmt_run locals s t k \<Longrightarrow> k \<noteq> Falls \<Longrightarrow> stmts_run locals (s # ss) t k"

section \<open>Reads of unassigned variables\<close>

text \<open>The variables that a run reads before it has written them, given those assigned before.\<close>

fun unassigned_reads :: "string set \<Rightarrow> event list \<Rightarrow> string set" where
  "unassigned_reads assigned [] = {}"
| "unassigned_reads assigned (Reads x # t) =
     (if x \<in> assigned then {} else {x}) \<union> unassigned_reads assigned t"
| "unassigned_reads assigned (Writes x # t) = unassigned_reads (insert x assigned) t"

fun event_name :: "event \<Rightarrow> string" where
  "event_name (Reads x) = x"
| "event_name (Writes x) = x"

definition event_names :: "event list \<Rightarrow> string set" where
  "event_names t = event_name ` set t"

definition written :: "event list \<Rightarrow> string set" where
  "written t = {x. Writes x \<in> set t}"

lemma written_simps [simp]:
  "written [] = {}" "written (Reads x # t) = written t" "written (Writes x # t) = insert x (written t)"
  "written (t @ u) = written t \<union> written u"
  by (auto simp: written_def)

lemma event_names_simps [simp]:
  "event_names [] = {}" "event_names (e # t) = insert (event_name e) (event_names t)"
  "event_names (t @ u) = event_names t \<union> event_names u"
  by (auto simp: event_names_def)

lemma unassigned_reads_append [simp]:
  "unassigned_reads A (t @ u) = unassigned_reads A t \<union> unassigned_reads (A \<union> written t) u"
  by (induction A t rule: unassigned_reads.induct) auto

lemma unassigned_reads_antimono: "A \<subseteq> B \<Longrightarrow> unassigned_reads B t \<subseteq> unassigned_reads A t"
proof (induction A t arbitrary: B rule: unassigned_reads.induct)
  case (3 A x t)
  show ?case using 3(1) [of "insert x B"] 3(2) by auto
qed auto

lemma unassigned_reads_names: "unassigned_reads A t \<subseteq> event_names t"
  by (induction A t rule: unassigned_reads.induct) auto

end
