(* ===== verification/Residency_Sound.thy ===== *)
theory Residency_Sound
  imports Residency_Props Runs Normalization_Shape
begin

text \<open>
  Soundness of the definite-assignment analysis for the runs of \<open>Runs\<close>.  It holds for code that
  avoids the constructs the analysis treats too optimistically; \<open>covered\<close> and \<open>statement_covered\<close> say
  which: the right operand of \<open>&&\<close> and \<open>||\<close>, a \<open>getline\<close> target and a substitution target store no
  tracked name, no \<open>continue\<close> skips to the update of a \<open>for\<close> or the condition of a \<open>do\<close> loop, and an
  \<open>exit\<close> operand mentions no tracked name.
\<close>

section \<open>Names in an expression\<close>

definition names_by :: "(expr \<Rightarrow> string set) \<Rightarrow> expr \<Rightarrow> string set" where
  "names_by node e = \<Union> (node ` set (sub_expressions e))"

lemma names_by_unfold:
  "names_by node e = node e \<union> \<Union> (names_by node ` set (expression_children e))"
  by (subst names_by_def, subst sub_expressions.simps) (auto simp: names_by_def)

lemma names_by_simps [simp]:
  "names_by node (StringLiteralExpr v raw sp) = node (StringLiteralExpr v raw sp)"
  "names_by node (NumericLiteralExpr n raw sp) = node (NumericLiteralExpr n raw sp)"
  "names_by node (RegexLiteralExpr raw sp) = node (RegexLiteralExpr raw sp)"
  "names_by node (NameExpr x sp) = node (NameExpr x sp)"
  "names_by node (FieldExpr (IntIndex i) sp) = node (FieldExpr (IntIndex i) sp)"
  "names_by node (FieldExpr (ExprIndex e) sp) = node (FieldExpr (ExprIndex e) sp) \<union> names_by node e"
  "names_by node (ArrayIndexExpr a e es sp) =
     node (ArrayIndexExpr a e es sp) \<union> (names_by node e \<union> \<Union> (names_by node ` set es))"
  "names_by node (CallExpr f es sp) = node (CallExpr f es sp) \<union> \<Union> (names_by node ` set es)"
  "names_by node (BinaryExpr l op r sp) = node (BinaryExpr l op r sp) \<union> names_by node l \<union> names_by node r"
  "names_by node (ConditionalExpr c l r sp) =
     node (ConditionalExpr c l r sp) \<union> names_by node c \<union> names_by node l \<union> names_by node r"
  "names_by node (AssignExpr lv aop e sp) =
     node (AssignExpr lv aop e sp) \<union> \<Union> (names_by node ` set (lvalue_expressions lv)) \<union> names_by node e"
  "names_by node (UnaryExpr uop e sp) = node (UnaryExpr uop e sp) \<union> names_by node e"
  "names_by node (PostfixExpr e pop sp) = node (PostfixExpr e pop sp) \<union> names_by node e"
  "names_by node (GetlineExpr target source sp) =
     node (GetlineExpr target source sp)
     \<union> (case target of None \<Rightarrow> {} | Some lv \<Rightarrow> \<Union> (names_by node ` set (lvalue_expressions lv)))
     \<union> (case source of None \<Rightarrow> {} | Some e \<Rightarrow> names_by node e)"
  by (subst names_by_unfold; auto split: option.split)+

definition node_stores :: "expr \<Rightarrow> string set" where
  "node_stores e =
     (case e of
        AssignExpr (NameLValue x _) _ _ _ \<Rightarrow> {x}
      | _ \<Rightarrow> (case is_increment e of Some (x, _) \<Rightarrow> {x} | None \<Rightarrow> {}))"

definition node_mentions :: "expr \<Rightarrow> string set" where
  "node_mentions e = (case e of NameExpr x _ \<Rightarrow> {x} | _ \<Rightarrow> node_stores e)"

abbreviation stored_names :: "expr \<Rightarrow> string set" where
  "stored_names \<equiv> names_by node_stores"

abbreviation mentioned_names :: "expr \<Rightarrow> string set" where
  "mentioned_names \<equiv> names_by node_mentions"

text \<open>The names of a result of the analysis, against those of the expression.\<close>

definition names_in :: "string set \<Rightarrow> string set \<Rightarrow> analysis_result \<Rightarrow> bool" where
  "names_in stored mentioned r \<longleftrightarrow> assigned_names r \<subseteq> stored \<and> encountered_names r \<subseteq> mentioned"

lemma names_in_mono: "names_in S M r \<Longrightarrow> S \<subseteq> S' \<Longrightarrow> M \<subseteq> M' \<Longrightarrow> names_in S' M' r"
  by (auto simp: names_in_def)

lemma names_in_combine: "list_all (names_in S M) rs \<Longrightarrow> names_in S M (combine_results A rs)"
  by (auto simp: names_in_def list_all_iff)

lemma names_in_sequence:
  assumes "\<And>x B. x \<in> set xs \<Longrightarrow> names_in S M (f x B)"
  shows "names_in S M (analyze_sequence f xs A)"
  using assms
proof (induction xs arbitrary: A)
  case (Cons x xs)
  then have "names_in S M (f x A)" "names_in S M (analyze_sequence f xs (assigned_after (f x A)))"
    by simp_all
  then show ?case by (auto simp: names_in_def Let_def)
qed (simp add: names_in_def)

lemma names_in_basic:
  "names_in S M (empty_result A)"
  "x \<in> M \<Longrightarrow> names_in S M (read_name tracked locals x A)"
  "x \<in> S \<Longrightarrow> x \<in> M \<Longrightarrow> names_in S M (assign_name tracked locals x b A)"
  "x \<in> S \<Longrightarrow> x \<in> M \<Longrightarrow> names_in S M (increment_name tracked locals x A)"
  by (simp_all add: names_in_def increment_name_def Let_def read_name_def assign_name_def)

lemma names_in_assignment:
  assumes "names_in S M r" "names_in S M s" "\<And>x sp. lv = NameLValue x sp \<Longrightarrow> x \<in> S \<inter> M"
  shows "names_in S M (assignment_result tracked locals lv op r s)"
  using assms
  by (cases lv) (auto simp: assignment_result_def Let_def intro!: names_in_combine names_in_basic)

lemma node_names_simps [simp]:
  "node_stores (NameExpr x sp) = {}" "node_mentions (NameExpr x sp) = {x}"
  "node_stores (AssignExpr (NameLValue x sp') aop e sp) = {x}"
  "node_mentions (AssignExpr (NameLValue x sp') aop e sp) = {x}"
  "node_stores (PostfixExpr (NameExpr x sp') pop sp) = {x}"
  "node_mentions (PostfixExpr (NameExpr x sp') pop sp) = {x}"
  "uop \<in> {PreInc, PreDec} \<Longrightarrow> node_stores (UnaryExpr uop (NameExpr x sp') sp) = {x}"
  "uop \<in> {PreInc, PreDec} \<Longrightarrow> node_mentions (UnaryExpr uop (NameExpr x sp') sp) = {x}"
  by (auto simp: node_stores_def node_mentions_def is_increment_def)

lemma analysis_names: "names_in (stored_names e) (mentioned_names e) (analyze_expression tracked locals e A)"
proof (induction tracked locals e A rule: analyze_expression.induct)
  case (2 tracked locals a i x sp A)
  have "names_in (stored_names (ArrayIndexExpr a i x sp)) (mentioned_names (ArrayIndexExpr a i x sp))
      (analyze_sequence (analyze_expression tracked locals) x B)" for B
    by (rule names_in_sequence, rule names_in_mono [OF 2(2)]) auto
  then show ?case
    by (auto simp: Let_def intro!: names_in_combine names_in_mono [OF 2(1)])
next
  case (3 tracked locals l op r sp A)
  then show ?case
    by (auto simp: Let_def intro!: names_in_combine names_in_mono [OF 3(1)] names_in_mono [OF 3(2)])
next
  case (4 tracked locals c t f sp A)
  then show ?case
    by (auto simp: Let_def
        intro!: names_in_combine names_in_mono [OF 4(1)] names_in_mono [OF 4(2)] names_in_mono [OF 4(3)])
next
  case (5 tracked locals lv op v sp A)
  let ?S = "stored_names (AssignExpr lv op v sp)" and ?M = "mentioned_names (AssignExpr lv op v sp)"
  let ?r = "analyze_sequence (analyze_expression tracked locals) (lvalue_expressions lv) A"
  have "names_in ?S ?M ?r"
    by (rule names_in_sequence, rule names_in_mono [OF 5(1)]) auto
  moreover have "names_in ?S ?M (analyze_expression tracked locals v (assigned_after ?r))"
    by (rule names_in_mono [OF 5(2) [OF refl]]) auto
  moreover have "x \<in> ?S \<inter> ?M" if "lv = NameLValue x sp'" for x sp'
    by (simp add: that)
  ultimately show ?case
    unfolding analyze_expression.simps(5) Let_def by (rule names_in_assignment)
next
  case (6 tracked locals op e sp A)
  then show ?case
    by (cases e) (auto intro: names_in_mono intro!: names_in_basic)
next
  case (7 tracked locals e op sp A)
  then show ?case
    by (cases e; cases op) (auto intro: names_in_mono intro!: names_in_basic)
next
  case (10 tracked locals f args sp A)
  show ?case by (auto intro!: names_in_sequence names_in_mono [OF 10])
next
  case (11 tracked locals target source sp A)
  show ?case
    by (cases target; cases source)
      (auto simp: Let_def intro!: names_in_basic names_in_combine names_in_sequence
        names_in_mono [OF 11(1)] names_in_mono [OF 11(2)])
qed (auto simp: Let_def intro!: names_in_basic intro: names_in_mono)

section \<open>Covered expressions\<close>

definition stores_nothing :: "string set \<Rightarrow> lvalue \<Rightarrow> bool" where
  "stores_nothing tracked lv \<longleftrightarrow>
     (case lv of NameLValue x _ \<Rightarrow> x \<notin> tracked | _ \<Rightarrow> True)
     \<and> list_all (\<lambda>i. stored_names i \<inter> tracked = {}) (lvalue_expressions lv)"

definition node_covered :: "string set \<Rightarrow> expr \<Rightarrow> bool" where
  "node_covered tracked e =
     (case e of
        BinaryExpr _ op r _ \<Rightarrow> is_logical op \<longrightarrow> stored_names r \<inter> tracked = {}
      | GetlineExpr (Some lv) _ _ \<Rightarrow> stores_nothing tracked lv
      | CallExpr g args _ \<Rightarrow>
          (case substituted g args of None \<Rightarrow> True | Some lv \<Rightarrow> stores_nothing tracked lv)
      | _ \<Rightarrow> True)"

definition covered :: "string set \<Rightarrow> expr \<Rightarrow> bool" where
  "covered tracked e \<longleftrightarrow> list_all (node_covered tracked) (sub_expressions e)"

lemma covered_unfold:
  "covered tracked e \<longleftrightarrow> node_covered tracked e \<and> list_all (covered tracked) (expression_children e)"
  by (subst covered_def, subst sub_expressions.simps) (auto simp: list_all_iff covered_def)

lemmas covered_rules [simp] =
  covered_unfold [of _ "FieldExpr (ExprIndex e) sp" for e sp]
  covered_unfold [of _ "ArrayIndexExpr a i x sp" for a i x sp]
  covered_unfold [of _ "CallExpr g args sp" for g args sp]
  covered_unfold [of _ "GetlineExpr t s sp" for t s sp]
  covered_unfold [of _ "BinaryExpr l op r sp" for l op r sp]
  covered_unfold [of _ "ConditionalExpr c a b sp" for c a b sp]
  covered_unfold [of _ "AssignExpr lv aop v sp" for lv aop v sp]
  covered_unfold [of _ "UnaryExpr uop e sp" for uop e sp]
  covered_unfold [of _ "PostfixExpr e pop sp" for e pop sp]

section \<open>Soundness for expressions\<close>

text \<open>A result is sound for a run from the assigned names \<open>A\<close>.\<close>

definition sound :: "string set \<Rightarrow> string set \<Rightarrow> event list \<Rightarrow> analysis_result \<Rightarrow> bool" where
  "sound tracked A t r \<longleftrightarrow>
     unassigned_reads A t \<inter> tracked \<subseteq> read_before_assignment_names r
     \<and> event_names t \<inter> tracked \<subseteq> encountered_names r
     \<and> assigned_after r \<subseteq> A \<union> written t"

lemma sound_empty [simp]: "sound tracked A [] (empty_result A)"
  by (simp add: sound_def)

lemma sound_append:
  assumes "sound tracked A t r" "sound tracked (assigned_after r) u s"
    and "B \<subseteq> assigned_after s" "list_all (\<lambda>r. r \<in> set rs) [r, s]"
  shows "sound tracked A (t @ u) (combine_results B rs)"
proof -
  have "unassigned_reads (A \<union> written t) u \<subseteq> unassigned_reads (assigned_after r) u"
    using assms(1) by (intro unassigned_reads_antimono) (simp add: sound_def)
  with assms show ?thesis
    by (auto simp: sound_def)
qed

text \<open>A result can only get weaker: more reads and encounters, fewer names assigned.\<close>

lemma sound_weaken:
  assumes "sound tracked A t r" "r \<in> set rs" "B \<subseteq> assigned_after r"
  shows "sound tracked A t (combine_results B rs)"
  using assms by (auto simp: sound_def)

lemma sound_sequence_Cons:
  assumes "sound tracked A t (f x A)" "sound tracked (assigned_after (f x A)) u (analyze_sequence f xs (assigned_after (f x A)))"
  shows "sound tracked A (t @ u) (analyze_sequence f (x # xs) A)"
  using sound_append [OF assms order_refl, where rs = "[f x A, analyze_sequence f xs (assigned_after (f x A))]"]
  by (simp add: sound_def Let_def)

lemma sound_read: "sound tracked A (reads locals x) (read_name tracked locals x A)"
  by (auto simp: sound_def reads_def read_name_def)

lemma sound_increment:
  "sound tracked A (reads locals x @ writes locals x) (increment_name tracked locals x A)"
  by (auto simp: sound_def reads_def writes_def increment_name_def read_name_def assign_name_def Let_def)

lemma sound_assignment:
  assumes "sound tracked A t r" "sound tracked (assigned_after r) u s"
  shows "sound tracked A (t @ u @ write_target locals op lv) (assignment_result tracked locals lv op r s)"
proof (cases lv)
  case (NameLValue x sp)
  let ?w = "assign_name tracked locals x (op \<noteq> AssignPlain) (assigned_after s)"
  have "sound tracked (assigned_after s) (write_target locals op lv) ?w"
    by (auto simp: NameLValue sound_def write_target_def reads_def writes_def assign_name_def)
  from sound_append [OF assms(2) this order_refl, where rs = "[s, ?w]"]
  have "sound tracked (assigned_after r) (u @ write_target locals op lv)
      (combine_results (assigned_after ?w) [s, ?w])" by simp
  from sound_append [OF assms(1) this order_refl, where rs = "[r, combine_results (assigned_after ?w) [s, ?w]]"]
  show ?thesis by (simp add: NameLValue assignment_result_def Let_def sound_def)
qed (use sound_append [OF assms order_refl, of "[r, s]"] in
    \<open>simp_all add: assignment_result_def write_target_def\<close>)

lemma sound_extend:
  "sound tracked A t r \<Longrightarrow> event_names w \<inter> tracked = {} \<Longrightarrow> sound tracked A (t @ w) r"
  using unassigned_reads_names [of "A \<union> written t" w] by (fastforce simp: sound_def)

text \<open>Code that stores no tracked name leaves the assigned names as they are.\<close>

lemma stores_nothing_after:
  assumes "stored_names e \<inter> tracked = {}"
  shows "assigned_after (analyze_expression tracked locals e A) = A"
  using assms analysis_names [of e tracked locals A] grows_expression [of A tracked locals e]
    within_expression [of tracked locals e A]
  by (fastforce simp: names_in_def grows_from_def within_def)

lemma stores_nothing_sequence_after:
  "list_all (\<lambda>e. stored_names e \<inter> tracked = {}) es \<Longrightarrow>
     assigned_after (analyze_sequence (analyze_expression tracked locals) es A) = A"
  by (induction es arbitrary: A) (simp_all add: Let_def stores_nothing_after)

lemma write_target_untracked:
  "stores_nothing tracked lv \<Longrightarrow> event_names (write_target locals AssignPlain lv) \<inter> tracked = {}"
  by (cases lv) (auto simp: stores_nothing_def write_target_def writes_def)

lemma analyze_not_increment:
  "is_increment (UnaryExpr uop e sp) = None \<Longrightarrow>
     analyze_expression tracked locals (UnaryExpr uop e sp) A = analyze_expression tracked locals e A"
  "is_increment (PostfixExpr e pop sp) = None \<Longrightarrow>
     analyze_expression tracked locals (PostfixExpr e pop sp) A = analyze_expression tracked locals e A"
  by (cases e; auto simp: is_increment_def split: if_splits)+

lemma analyze_increment:
  assumes "is_increment e = Some (x, e')"
  shows "analyze_expression tracked locals e A = increment_name tracked locals x A"
proof (cases e)
  case (UnaryExpr op e1 sp)
  with assms show ?thesis by (cases e1) (auto simp: is_increment_def split: if_splits)
next
  case (PostfixExpr e1 op sp)
  with assms show ?thesis by (cases e1; cases op) (auto simp: is_increment_def)
qed (use assms in \<open>simp_all add: is_increment_def\<close>)

lemma sound_same_fields:
  assumes "sound tracked A t r" "assigned_after s = assigned_after r"
    "encountered_names s = encountered_names r" "read_before_assignment_names s = read_before_assignment_names r"
  shows "sound tracked A t s"
  using assms by (simp add: sound_def)

lemma expression_sound:
  "expr_run locals e t \<Longrightarrow> covered tracked e \<Longrightarrow> sound tracked A t (analyze_expression tracked locals e A)"
  "exprs_run locals es u \<Longrightarrow> list_all (covered tracked) es \<Longrightarrow>
     sound tracked A u (analyze_sequence (analyze_expression tracked locals) es A)"
proof (induction e t and es u arbitrary: A and A rule: expr_run_exprs_run.inducts)
  case (run_element i x t a sp)
  then have "sound tracked A t (analyze_sequence (analyze_expression tracked locals) (i # x) A)" by simp
  then show ?case by (rule sound_same_fields) (simp_all add: Let_def)
next
  case (run_substitute args t g lv sp)
  then show ?case
    by (simp add: node_covered_def write_target_untracked sound_extend)
next
  case (run_getline_fails source t target sp)
  then have "sound tracked A t (analyze_optional tracked locals source A)"
    by (cases source) (auto simp: analyze_optional_def Let_def sound_def)
  with run_getline_fails(3) show ?case
    by (cases target)
      (auto simp: analyze_optional_def Let_def node_covered_def stores_nothing_def
        stores_nothing_sequence_after intro!: sound_weaken)
next
  case (run_getline source t lv u sp)
  then have "sound tracked A t (analyze_optional tracked locals source A)"
    by (cases source) (auto simp: analyze_optional_def Let_def sound_def)
  moreover have "sound tracked B (u @ write_target locals AssignPlain lv)
      (analyze_sequence (analyze_expression tracked locals) (lvalue_expressions lv) B)" for B
    using run_getline by (simp add: node_covered_def write_target_untracked sound_extend)
  ultimately show ?case
    by (auto simp: analyze_optional_def Let_def intro!: sound_append)
next
  case (run_binary l t r u op sp)
  then show ?case by (auto simp: Let_def intro!: sound_append)
next
  case (run_shortcut l t op r sp)
  then show ?case
    by (auto simp: Let_def node_covered_def stores_nothing_after intro!: sound_weaken)
next
  case (run_true c t a u b sp)
  then show ?case by (auto simp: Let_def intro!: sound_append)
next
  case (run_false c t b u a sp)
  then show ?case by (auto simp: Let_def intro!: sound_append)
next
  case (run_assign lv t v u op sp)
  then show ?case by (auto simp: Let_def intro!: sound_assignment)
next
  case (run_unary e t op sp)
  then show ?case by (simp add: analyze_not_increment del: analyze_expression.simps)
next
  case (run_postfix e t op sp)
  then show ?case by (simp add: analyze_not_increment del: analyze_expression.simps)
next
  case (run_increment e x e')
  then show ?case by (simp add: analyze_increment sound_increment)
next
  case (run_cons e t es u)
  then show ?case by (auto intro!: sound_sequence_Cons simp del: analyze_sequence_simps)
qed (auto simp: sound_read, simp add: sound_def)

section \<open>Covered statements\<close>

fun continues :: "stmt \<Rightarrow> bool" where
  "continues (ContinueStmt _) \<longleftrightarrow> True"
| "continues (BlockStmt ss _) \<longleftrightarrow> list_ex continues ss"
| "continues (IfStmt _ th el _) \<longleftrightarrow> continues th \<or> (case el of None \<Rightarrow> False | Some s \<Rightarrow> continues s)"
| "continues _ \<longleftrightarrow> False"

fun statement_covered :: "string set \<Rightarrow> stmt \<Rightarrow> bool" where
  "statement_covered tracked (BlockStmt ss _) \<longleftrightarrow> list_all (statement_covered tracked) ss"
| "statement_covered tracked (IfStmt c th el _) \<longleftrightarrow>
     covered tracked c \<and> statement_covered tracked th
     \<and> (case el of None \<Rightarrow> True | Some s \<Rightarrow> statement_covered tracked s)"
| "statement_covered tracked (WhileStmt c b _) \<longleftrightarrow> covered tracked c \<and> statement_covered tracked b"
| "statement_covered tracked (DoWhileStmt b c _) \<longleftrightarrow>
     covered tracked c \<and> statement_covered tracked b \<and> \<not> continues b"
| "statement_covered tracked (ForStmt i c u b _) \<longleftrightarrow>
     list_all (covered tracked) (i @ option_list c @ u) \<and> statement_covered tracked b \<and> \<not> continues b"
| "statement_covered tracked (ForInStmt _ e b _) \<longleftrightarrow>
     (case e of NameExpr _ _ \<Rightarrow> True | _ \<Rightarrow> False) \<and> statement_covered tracked b"
| "statement_covered tracked (ExitStmt v _) \<longleftrightarrow>
     list_all (\<lambda>e. covered tracked e \<and> mentioned_names e \<inter> tracked = {}) (option_list v)"
| "statement_covered tracked s \<longleftrightarrow> list_all (covered tracked) (statement_expressions s)"

lemma continues_run:
  "stmt_run locals s t k \<Longrightarrow> k = Continues \<longrightarrow> continues s"
  "stmts_run locals ss u k' \<Longrightarrow> k' = Continues \<longrightarrow> list_ex continues ss"
proof (induction rule: stmt_run_stmts_run.inducts)
  case (run_expr s a sp r e lv locals t)
  then show ?case by simp
qed auto

text \<open>A run is observed when the analysis reports its reads and its names; one that falls through has
  also assigned the names that the analysis says.\<close>

definition observed :: "string set \<Rightarrow> string set \<Rightarrow> event list \<Rightarrow> analysis_result \<Rightarrow> bool" where
  "observed tracked A t r \<longleftrightarrow>
     unassigned_reads A t \<inter> tracked \<subseteq> read_before_assignment_names r
     \<and> event_names t \<inter> tracked \<subseteq> encountered_names r"

lemma sound_observed: "sound tracked A t r \<longleftrightarrow> observed tracked A t r \<and> assigned_after r \<subseteq> A \<union> written t"
  by (auto simp: sound_def observed_def)

lemma sound_observedD: "sound tracked A t r \<Longrightarrow> observed tracked A t r"
  by (simp add: sound_observed)

lemma observed_combine: "observed tracked A t r \<Longrightarrow> r \<in> set rs \<Longrightarrow> observed tracked A t (combine_results B rs)"
  by (auto simp: observed_def)

lemma observed_append:
  assumes "sound tracked A t r" "observed tracked (assigned_after r) u s" "r \<in> set rs" "s \<in> set rs"
  shows "observed tracked A (t @ u) (combine_results B rs)"
proof -
  have "unassigned_reads (A \<union> written t) u \<subseteq> unassigned_reads (assigned_after r) u"
    using assms(1) by (intro unassigned_reads_antimono) (simp add: sound_def)
  with assms show ?thesis
    by (auto simp: sound_observed observed_def)
qed

text \<open>A later part of a run, seen from what was assigned before.\<close>

lemma observed_later:
  assumes "observed tracked A t r" "observed tracked A u r"
  shows "observed tracked A (t @ u) r"
  using assms unassigned_reads_antimono [of A "A \<union> written t" u] by (auto simp: observed_def)

lemma analyze_sequence_append:
  "assigned_after (analyze_sequence f (xs @ ys) A)
     = assigned_after (analyze_sequence f ys (assigned_after (analyze_sequence f xs A)))"
  "encountered_names (analyze_sequence f (xs @ ys) A)
     = encountered_names (analyze_sequence f xs A)
       \<union> encountered_names (analyze_sequence f ys (assigned_after (analyze_sequence f xs A)))"
  "read_before_assignment_names (analyze_sequence f (xs @ ys) A)
     = read_before_assignment_names (analyze_sequence f xs A)
       \<union> read_before_assignment_names (analyze_sequence f ys (assigned_after (analyze_sequence f xs A)))"
  by (induction xs arbitrary: A) (auto simp: Let_def)

lemma sound_output:
  "sound tracked A t (analyze_sequence (analyze_expression tracked locals)
       (es @ map or_target (option_list redirect)) A) \<Longrightarrow>
     sound tracked A t (analyze_output tracked locals es redirect A)"
  by (cases redirect; erule sound_same_fields;
      simp add: analyze_output_def analyze_expression_sequence_def analyze_sequence_append Let_def)

lemma sound_optional:
  "sound tracked A t (analyze_sequence (analyze_expression tracked locals) (option_list v) A) \<Longrightarrow>
     sound tracked A t (analyze_optional tracked locals v A)"
  by (cases v; erule sound_same_fields; simp add: analyze_optional_def Let_def)

lemma sound_single:
  "sound tracked A t (analyze_sequence (analyze_expression tracked locals) [e] A) \<Longrightarrow>
     sound tracked A t (analyze_expression tracked locals e A)"
  by (erule sound_same_fields) (simp_all add: Let_def)

section \<open>Soundness for statements\<close>

definition safe :: "string set \<Rightarrow> string set \<Rightarrow> event list \<Rightarrow> completion \<Rightarrow> analysis_result \<Rightarrow> bool" where
  "safe tracked A t k r \<longleftrightarrow>
     observed tracked A t r \<and> (k = Falls \<longrightarrow> assigned_after r \<subseteq> A \<union> written t)"

lemma sound_safe: "sound tracked A t r \<Longrightarrow> safe tracked A t k r"
  by (simp add: sound_observed safe_def)

lemma safe_Falls: "safe tracked A t Falls r \<longleftrightarrow> sound tracked A t r"
  by (simp add: sound_observed safe_def)

lemma safe_append:
  assumes "sound tracked A t r" "safe tracked (assigned_after r) u k s"
    and "B \<subseteq> assigned_after s \<or> B \<subseteq> assigned_after r" "list_all (\<lambda>r. r \<in> set rs) [r, s]"
  shows "safe tracked A (t @ u) k (combine_results B rs)"
  using assms observed_append [of tracked A t r u s rs B]
  by (auto simp: safe_def sound_observed)

lemma safe_weaken:
  "safe tracked A t k r \<Longrightarrow> r \<in> set rs \<Longrightarrow> B \<subseteq> assigned_after r \<Longrightarrow> safe tracked A t k (combine_results B rs)"
  by (auto simp: safe_def observed_def)

text \<open>The jumps that a loop absorbs.\<close>

lemma safe_loop: "safe tracked A t k r \<Longrightarrow> assigned_after r \<subseteq> A \<Longrightarrow> safe tracked A t k' r"
  by (auto simp: safe_def)

lemma safe_later:
  "observed tracked A t r \<Longrightarrow> safe tracked A u k r \<Longrightarrow> safe tracked A (t @ u) k r"
  using observed_later [of tracked A t r u] by (auto simp: safe_def)

lemma safe_same_fields:
  assumes "safe tracked A t k r" "assigned_after s = assigned_after r"
    "encountered_names s = encountered_names r" "read_before_assignment_names s = read_before_assignment_names r"
  shows "safe tracked A t k s"
  using assms by (simp add: safe_def observed_def)

lemma read_after [simp]: "assigned_after (read_name tracked locals x A) = A"
  by (simp add: read_name_def)

lemma expressions_sound:
  "exprs_run locals es t \<Longrightarrow> list_all (covered tracked) es \<Longrightarrow>
     sound tracked A t (analyze_expression_sequence tracked locals es A)"
  "exprs_run locals (option_list v) t \<Longrightarrow> list_all (covered tracked) (option_list v) \<Longrightarrow>
     sound tracked A t (analyze_optional tracked locals v A)"
  by (auto simp: analyze_expression_sequence_def intro!: expression_sound(2) sound_optional)

lemma statement_sound:
  "stmt_run locals s t k \<Longrightarrow> statement_covered tracked s \<Longrightarrow>
     safe tracked A t k (analyze_statement tracked locals s A)"
  "stmts_run locals ss u k' \<Longrightarrow> list_all (statement_covered tracked) ss \<Longrightarrow>
     safe tracked A u k' (analyze_sequence (analyze_statement tracked locals) ss A)"
proof (induction arbitrary: A and A rule: stmt_run_stmts_run.inducts)
  case (run_stops locals s)
  then show ?case by (simp add: safe_def observed_def)
next
  case (run_expr s a sp r e lv locals t)
  then have "list_all (covered tracked) (statement_expressions s)" by auto
  from expression_sound(2) [OF run_expr(2) this] run_expr(1) show ?case
    by (auto simp: statement_expressions_def analyze_lvalue_indexes_def analyze_expression_sequence_def
        intro!: sound_safe sound_output sound_single simp del: analyze_sequence_simps)
next
  case (run_assignment locals lv t v u op sp)
  then show ?case
    by (auto simp: Let_def analyze_lvalue_indexes_def analyze_expression_sequence_def statement_expressions_def
        intro!: sound_safe sound_assignment expression_sound)
next
  case (run_exit locals v t sp)
  then have "sound tracked A t (analyze_sequence (analyze_expression tracked locals) (option_list v) A)"
    by (auto simp: list_all_iff intro!: expression_sound(2))
  moreover have "encountered_names (analyze_sequence (analyze_expression tracked locals) (option_list v) A)
      \<inter> tracked = {}"
    using run_exit(2) analysis_names [of _ tracked locals A]
    by (cases v) (auto simp: names_in_def Let_def)
  ultimately have "event_names t \<inter> tracked = {}" by (auto simp: sound_def)
  then show ?case
    using unassigned_reads_names [of A t] by (auto simp: safe_def observed_def)
next
  case (run_return locals v t sp)
  then show ?case
    by (auto simp: statement_expressions_def intro!: sound_safe sound_optional expression_sound(2))
next
  case (run_block locals ss t k sp)
  then show ?case by simp
next
  case (run_then locals c t s u k el sp)
  then show ?case
    by (auto simp: Let_def split: option.split intro!: safe_append expression_sound)
next
  case (run_else locals c t s u k th sp)
  then show ?case
    by (auto simp: Let_def intro!: safe_append expression_sound)
next
  case (run_no_else locals c t th sp)
  then show ?case
    by (auto simp: Let_def intro!: safe_weaken [OF sound_safe [OF expression_sound(1)]])
next
  case (run_while_done locals c t b sp)
  then show ?case
    by (auto simp: Let_def intro!: safe_weaken [OF sound_safe [OF expression_sound(1)]])
next
  case (run_while_jump locals c t b u k sp)
  let ?c = "analyze_expression tracked locals c A"
  have c: "sound tracked A t ?c" using run_while_jump by (auto intro: expression_sound)
  moreover have "safe tracked (assigned_after ?c) u k (analyze_statement tracked locals b (assigned_after ?c))"
    using run_while_jump by simp
  ultimately show ?case
    by (auto simp: Let_def safe_def sound_observed intro: observed_append)
next
  case (run_while_round locals c t b u k sp v k')
  let ?c = "analyze_expression tracked locals c A"
  have "sound tracked A t ?c" using run_while_round by (auto intro: expression_sound)
  moreover have "safe tracked (assigned_after ?c) u k (analyze_statement tracked locals b (assigned_after ?c))"
    using run_while_round by simp
  ultimately have "observed tracked A (t @ u) (analyze_statement tracked locals (WhileStmt c b sp) A)"
    by (auto simp: Let_def safe_def sound_observed intro: observed_append)
  from safe_later [OF this run_while_round(6)] run_while_round(7) show ?case by simp
next
  case (run_do_jump locals b t k c sp)
  then have "safe tracked A t k (analyze_statement tracked locals b A)" by simp
  then show ?case by (auto simp: Let_def safe_def intro: observed_combine)
next
  case (run_do_done locals b t k c u sp)
  then have "k = Falls" using continues_run(1) by auto
  with run_do_done have "sound tracked A t (analyze_statement tracked locals b A)"
    by (simp add: safe_Falls)
  moreover have "sound tracked (assigned_after (analyze_statement tracked locals b A)) u
      (analyze_expression tracked locals c (assigned_after (analyze_statement tracked locals b A)))"
    using run_do_done by (auto intro: expression_sound)
  ultimately show ?case
    by (auto simp: Let_def safe_def intro: observed_append sound_observedD)
next
  case (run_do_round locals b t k c u sp v k')
  then have "k = Falls" using continues_run(1) by auto
  with run_do_round have "sound tracked A t (analyze_statement tracked locals b A)"
    by (simp add: safe_Falls)
  moreover have "sound tracked (assigned_after (analyze_statement tracked locals b A)) u
      (analyze_expression tracked locals c (assigned_after (analyze_statement tracked locals b A)))"
    using run_do_round by (auto intro: expression_sound)
  ultimately have "observed tracked A (t @ u) (analyze_statement tracked locals (DoWhileStmt b c sp) A)"
    by (auto simp: Let_def intro: observed_append sound_observedD)
  from safe_later [OF this run_do_round(6)] run_do_round(7) show ?case by simp
next
  case (run_for locals init t c u b sp v k)
  let ?i = "analyze_expression_sequence tracked locals init A"
  let ?rest = "analyze_statement tracked locals (ForStmt [] c u b sp) (assigned_after ?i)"
  have "sound tracked A t ?i" using run_for by (auto intro: expressions_sound)
  moreover have "safe tracked (assigned_after ?i) v k ?rest" using run_for by simp
  ultimately have "safe tracked A (t @ v) k (combine_results (assigned_after ?rest) [?i, ?rest])"
    by (rule safe_append) simp_all
  then show ?case
    by (rule safe_same_fields) (auto simp: Let_def analyze_expression_sequence_def)
next
  case (run_for_done locals c t u b sp)
  then have "sound tracked A t (analyze_optional tracked locals c A)"
    by (auto intro: expressions_sound)
  then show ?case
    by (auto simp: Let_def analyze_expression_sequence_def safe_def sound_observed intro: observed_combine)
next
  case (run_for_jump locals c t b v k u sp)
  let ?c = "analyze_optional tracked locals c A"
  have "sound tracked A t ?c" using run_for_jump by (auto intro: expressions_sound)
  moreover have "safe tracked (assigned_after ?c) v k (analyze_statement tracked locals b (assigned_after ?c))"
    using run_for_jump by simp
  ultimately show ?case
    by (auto simp: Let_def analyze_expression_sequence_def safe_def sound_observed intro: observed_append)
next
  case (run_for_round locals c t b v k u w sp x k')
  let ?c = "analyze_optional tracked locals c A"
  let ?b = "analyze_statement tracked locals b (assigned_after ?c)"
  let ?u = "analyze_expression_sequence tracked locals u (assigned_after ?b)"
  let ?s = "analyze_statement tracked locals (ForStmt [] c u b sp) A"
  have "k = Falls" using run_for_round continues_run(1) by auto
  then have body: "sound tracked (assigned_after ?c) v ?b" using run_for_round by (simp add: safe_Falls)
  let ?cb = "combine_results (assigned_after ?b) [?c, ?b]"
  from body have "sound tracked A (t @ v) ?cb"
    using run_for_round by (intro sound_append) (auto intro: expressions_sound)
  moreover have "observed tracked (assigned_after ?cb) w ?u"
    using run_for_round by (auto intro: sound_observedD expressions_sound)
  ultimately have "observed tracked A ((t @ v) @ w) (combine_results {} [?cb, ?u])"
    by (rule observed_append) simp_all
  then have "observed tracked A (t @ v @ w) ?s"
    by (auto simp: observed_def Let_def analyze_expression_sequence_def)
  from safe_later [OF this run_for_round(7)] run_for_round(8) show ?case by simp
next
  case (run_for_in_done locals n e b sp)
  then show ?case by (auto simp: safe_def observed_def Let_def split: expr.splits)
next
  case (run_for_in_jump n locals b t k e sp)
  then show ?case
    by (auto simp: Let_def safe_def split: expr.splits
        intro!: observed_combine [where r = "analyze_statement tracked (insert n locals) b A"])
next
  case (run_for_in_round n locals b t k e sp v k')
  then have "observed tracked A t (analyze_statement tracked locals (ForInStmt n e b sp) A)"
    by (auto simp: Let_def safe_def split: expr.splits
        intro!: observed_combine [where r = "analyze_statement tracked (insert n locals) b A"])
  from safe_later [OF this run_for_in_round(5)] run_for_in_round(6) show ?case by simp
next
  case (run_step locals s t ss u k)
  let ?s = "analyze_statement tracked locals s A"
  let ?ss = "analyze_sequence (analyze_statement tracked locals) ss (assigned_after ?s)"
  have "sound tracked A t ?s" "safe tracked (assigned_after ?s) u k ?ss"
    using run_step by (simp_all add: safe_Falls)
  then have "safe tracked A (t @ u) k (combine_results (assigned_after ?ss) [?s, ?ss])"
    by (rule safe_append) simp_all
  then show ?case by (rule safe_same_fields) (simp_all add: Let_def)
next
  case (run_leave locals s t k ss)
  then have "safe tracked A t k (analyze_statement tracked locals s A)" by simp
  with run_leave(2) show ?case by (auto simp: safe_def observed_def Let_def)
qed (auto simp: safe_def observed_def)

end
