(* ===== verification/Residency_Units.thy ===== *)
theory Residency_Units
  imports Residency_Sound
begin

text \<open>
  The runs of the lowered functions (\<open>BEGIN\<close>, record, \<open>END\<close> and the user's functions), and what the
  residency classification means for them: a local name is private to its function and assigned
  before it is read.
\<close>

section \<open>Actions\<close>

text \<open>The runs of the three lowered functions.  The function of a phase runs the actions of that phase
  one after the other.\<close>

definition actions_run :: "action list \<Rightarrow> event list \<Rightarrow> bool" where
  "actions_run actions t \<longleftrightarrow> (\<exists>k. stmts_run {} (concat (map ac_statements actions)) t k)"

definition actions_covered :: "string set \<Rightarrow> action list \<Rightarrow> bool" where
  "actions_covered tracked actions \<longleftrightarrow>
     list_all (\<lambda>a. list_all (statement_covered tracked) (ac_statements a)) actions"

lemma analyze_sequence_concat:
  "let r = analyze_sequence (\<lambda>a. analyze_sequence f (g a)) xs A; s = analyze_sequence f (concat (map g xs)) A
   in assigned_after r = assigned_after s \<and> encountered_names r = encountered_names s
      \<and> read_before_assignment_names r = read_before_assignment_names s"
  by (induction xs arbitrary: A) (simp_all add: Let_def analyze_sequence_append)

lemma statement_sequence_eq:
  "analyze_statement_sequence tracked locals ss = analyze_sequence (analyze_statement tracked locals) ss"
  by (rule ext) (simp add: analyze_statement_sequence_def)

lemma actions_observed:
  assumes "actions_run actions t" "actions_covered tracked actions"
  shows "unassigned_reads {} t \<inter> tracked
      \<subseteq> us_read_before_assignment_names (analyze_action_sequence_summary tracked actions)"
    and "event_names t \<inter> tracked \<subseteq> us_encountered_names (analyze_action_sequence_summary tracked actions)"
proof -
  obtain k where "stmts_run {} (concat (map ac_statements actions)) t k"
    using assms(1) by (auto simp: actions_run_def)
  moreover have "list_all (statement_covered tracked) (concat (map ac_statements actions))"
    using assms(2) by (auto simp: actions_covered_def list_all_iff)
  ultimately have "safe tracked {} t k
      (analyze_sequence (analyze_statement tracked {}) (concat (map ac_statements actions)) {})"
    by (rule statement_sound(2))
  then show "unassigned_reads {} t \<inter> tracked
      \<subseteq> us_read_before_assignment_names (analyze_action_sequence_summary tracked actions)"
    "event_names t \<inter> tracked \<subseteq> us_encountered_names (analyze_action_sequence_summary tracked actions)"
    using analyze_sequence_concat [of "analyze_statement tracked {}" ac_statements actions "{}"]
    by (auto simp: safe_def observed_def analyze_action_sequence_summary_def summary_of_def
        statement_sequence_eq Let_def)
qed

subsection \<open>Record items\<close>

text \<open>A run of a range pattern evaluates its endpoints in any order and number.\<close>

inductive pattern_run :: "pattern \<Rightarrow> event list \<Rightarrow> bool" where
  run_test: "expr_run {} e t \<Longrightarrow> pattern_run (ExprPattern e sp) t"
| run_range: "pattern_run (RangePattern l r sp) []"
| run_left: "pattern_run l t \<Longrightarrow> pattern_run (RangePattern l r sp) u \<Longrightarrow> pattern_run (RangePattern l r sp) (t @ u)"
| run_right: "pattern_run r t \<Longrightarrow> pattern_run (RangePattern l r sp) u \<Longrightarrow> pattern_run (RangePattern l r sp) (t @ u)"

text \<open>An item tests its pattern and may run its action; a range may test its right end afterwards.\<close>

inductive item_run :: "normalized_record_item \<Rightarrow> event list \<Rightarrow> completion \<Rightarrow> bool" where
  run_bare: "nr_pattern item = None \<Longrightarrow> nr_action item = Some a \<Longrightarrow> stmts_run {} (ac_statements a) t k \<Longrightarrow>
    item_run item t k"
| run_unmatched: "nr_pattern item = Some p \<Longrightarrow> pattern_run p t \<Longrightarrow> item_run item t Falls"
| run_matched: "nr_pattern item = Some p \<Longrightarrow> nr_action item = Some a \<Longrightarrow> pattern_run p t \<Longrightarrow>
    stmts_run {} (ac_statements a) u k \<Longrightarrow> item_run item (t @ u) k"
| run_closed: "nr_pattern item = Some p \<Longrightarrow> nr_action item = Some a \<Longrightarrow> is_range (Some p) \<Longrightarrow> pattern_run p t \<Longrightarrow>
    stmts_run {} (ac_statements a) u Falls \<Longrightarrow> pattern_run p v \<Longrightarrow> item_run item (t @ u @ v) Falls"

inductive items_run :: "normalized_record_item list \<Rightarrow> event list \<Rightarrow> bool" where
  run_done: "items_run [] []"
| run_item: "item_run item t Falls \<Longrightarrow> items_run items u \<Longrightarrow> items_run (item # items) (t @ u)"
| run_leaves: "item_run item t k \<Longrightarrow> k \<noteq> Falls \<Longrightarrow> items_run (item # items) t"

fun pattern_covered :: "string set \<Rightarrow> pattern \<Rightarrow> bool" where
  "pattern_covered tracked (ExprPattern e _) \<longleftrightarrow> covered tracked e"
| "pattern_covered tracked (RangePattern l r _) \<longleftrightarrow> pattern_covered tracked l \<and> pattern_covered tracked r"
| "pattern_covered tracked _ \<longleftrightarrow> True"

definition item_covered :: "string set \<Rightarrow> normalized_record_item \<Rightarrow> bool" where
  "item_covered tracked item \<longleftrightarrow>
     (case nr_pattern item of None \<Rightarrow> True | Some p \<Rightarrow> pattern_covered tracked p)
     \<and> list_all (\<lambda>a. list_all (statement_covered tracked) (ac_statements a)) (option_list (nr_action item))"

lemma observed_Nil [simp]: "observed tracked A [] r"
  by (simp add: observed_def)

declare analyze_pattern.simps(2) [simp del]

lemma pattern_sound:
  "pattern_run p t \<Longrightarrow> analyze_pattern tracked p A = Inr (Some r) \<Longrightarrow> pattern_covered tracked p \<Longrightarrow>
     sound tracked A t r"
proof (induction p t arbitrary: r rule: pattern_run.induct)
  case (run_test e t sp)
  then show ?case by (auto intro: expression_sound)
next
  case (run_range l r' sp)
  then show ?case by (auto simp: pattern_range_result sound_observed)
next
  case (run_left l t r' sp u)
  then have "sound tracked A u r" by simp
  moreover from run_left have "observed tracked A t r"
    by (auto simp: pattern_range_result intro!: observed_combine [OF sound_observedD])
  moreover have "assigned_after r = A"
    using run_left.prems by (auto simp: pattern_range_result)
  ultimately show ?case by (auto simp: sound_observed intro: observed_later)
next
  case (run_right r' t l sp u)
  then have "sound tracked A u r" by simp
  moreover from run_right have "observed tracked A t r"
    by (auto simp: pattern_range_result intro!: observed_combine [OF sound_observedD])
  moreover have "assigned_after r = A"
    using run_right.prems by (auto simp: pattern_range_result)
  ultimately show ?case by (auto simp: sound_observed intro: observed_later)
qed

lemma range_keeps_assigned:
  "analyze_pattern tracked p A = Inr (Some r) \<Longrightarrow> is_range (Some p) \<Longrightarrow> assigned_after r = A"
  by (cases p) (auto simp: pattern_range_result is_range_def)

lemma item_sound:
  assumes "item_run item t k" "analyze_record_item tracked item A = Inr (rs, B)" "item_covered tracked item"
  shows "safe tracked A t k (combine_results B rs)"
  using assms(1)
proof cases
  case (run_bare a)
  with assms(2,3) show ?thesis
    by (auto simp: record_item_result item_covered_def statement_sequence_eq
        intro!: safe_weaken [OF statement_sound(2)])
next
  case (run_unmatched p)
  with assms(2) obtain r where r: "analyze_pattern tracked p A = Inr (Some r)" "r \<in> set rs"
      "B \<subseteq> assigned_after r"
    by (auto simp: record_item_result split: option.split_asm)
  moreover have "sound tracked A t r"
    using run_unmatched assms(3) r by (auto simp: item_covered_def intro: pattern_sound)
  ultimately show ?thesis by (auto intro: safe_weaken [OF sound_safe])
next
  case (run_matched p a t1 u)
  with assms(2) obtain r where r: "analyze_pattern tracked p A = Inr (Some r)"
      "rs = [r, analyze_statement_sequence tracked {} (ac_statements a) (assigned_after r)]"
      "B \<subseteq> assigned_after r"
    by (auto simp: record_item_result)
  moreover have "sound tracked A t1 r"
    using run_matched assms(3) r by (auto simp: item_covered_def intro: pattern_sound)
  moreover have "safe tracked (assigned_after r) u k
      (analyze_statement_sequence tracked {} (ac_statements a) (assigned_after r))"
    using run_matched assms(3) by (auto simp: item_covered_def statement_sequence_eq intro!: statement_sound(2))
  ultimately show ?thesis using run_matched by (auto intro!: safe_append)
next
  case (run_closed p a t1 u v)
  with assms(2) obtain r where r: "analyze_pattern tracked p A = Inr (Some r)"
      "rs = [r, analyze_statement_sequence tracked {} (ac_statements a) (assigned_after r)]"
      "B \<subseteq> assigned_after r"
    by (auto simp: record_item_result)
  have after: "assigned_after r = A" using r run_closed range_keeps_assigned by blast
  have ends: "sound tracked A t1 r" "sound tracked A v r"
    using run_closed assms(3) r by (auto simp: item_covered_def intro: pattern_sound)
  moreover have "safe tracked (assigned_after r) u Falls
      (analyze_statement_sequence tracked {} (ac_statements a) (assigned_after r))"
    using run_closed assms(3) by (auto simp: item_covered_def statement_sequence_eq intro!: statement_sound(2))
  ultimately have "observed tracked A (t1 @ u) (combine_results B rs)"
    using r(2) by (auto intro!: observed_append simp: safe_def)
  moreover have "safe tracked A v Falls (combine_results B rs)"
    using ends(2) r by (auto intro: safe_weaken [OF sound_safe])
  ultimately have "safe tracked A ((t1 @ u) @ v) Falls (combine_results B rs)"
    by (rule safe_later)
  with run_closed show ?thesis by simp
qed

lemma items_observed:
  "items_run items t \<Longrightarrow> analyze_record_loop tracked items A = Inr (rs, B) \<Longrightarrow>
     list_all (item_covered tracked) items \<Longrightarrow> observed tracked A t (combine_results C rs)"
proof (induction items t arbitrary: A rs B rule: items_run.induct)
  case (run_item item t items u)
  from run_item.prems obtain rs1 A1 rs2 where step: "analyze_record_item tracked item A = Inr (rs1, A1)"
      "analyze_record_loop tracked items A1 = Inr (rs2, B)" "rs = rs1 @ rs2"
    by (auto simp: bindE_eq_Inr)
  have "sound tracked A t (combine_results A1 rs1)"
    using item_sound [OF run_item(1) step(1)] run_item.prems by (simp add: safe_Falls)
  moreover have "observed tracked (assigned_after (combine_results A1 rs1)) u (combine_results C rs2)"
    using run_item step by simp
  ultimately have "observed tracked A (t @ u) (combine_results C [combine_results A1 rs1, combine_results C rs2])"
    by (rule observed_append) simp_all
  then show ?case by (auto simp: observed_def step(3))
next
  case (run_leaves item t k items)
  from run_leaves.prems obtain rs1 A1 rs2 where step: "analyze_record_item tracked item A = Inr (rs1, A1)"
      "rs = rs1 @ rs2"
    by (auto simp: bindE_eq_Inr)
  have "safe tracked A t k (combine_results A1 rs1)"
    using item_sound [OF run_leaves(1) step(1)] run_leaves.prems by simp
  then show ?case by (auto simp: observed_def safe_def step(2))
qed simp

subsection \<open>Lowered functions\<close>

definition program_covered :: "string set \<Rightarrow> program \<Rightarrow> normalized_lowering_program \<Rightarrow> bool" where
  "program_covered tracked prog np \<longleftrightarrow>
     actions_covered tracked (np_begin_actions np) \<and> actions_covered tracked (np_end_actions np)
     \<and> list_all (item_covered tracked) (np_record_items np)
     \<and> distinct (map fst (program_functions prog))
     \<and> list_all (\<lambda>(_, f). list_all (statement_covered tracked) (ac_statements (fd_body f))) (program_functions prog)"

text \<open>The runs of the lowered functions, by the names that the analysis gives them.\<close>

inductive unit_run :: "program \<Rightarrow> normalized_lowering_program \<Rightarrow> string \<Rightarrow> event list \<Rightarrow> bool"
  for prog np where
  run_begin: "actions_run (np_begin_actions np) t \<Longrightarrow> unit_run prog np ''begin'' t"
| run_record: "items_run (np_record_items np) t \<Longrightarrow> unit_run prog np ''record'' t"
| run_end_actions: "actions_run (np_end_actions np) t \<Longrightarrow> unit_run prog np ''end'' t"
| run_function: "(name, f) \<in> set (program_functions prog) \<Longrightarrow>
    stmts_run (set (fd_params f)) (ac_statements (fd_body f)) t k \<Longrightarrow>
    unit_run prog np (''function:'' @ name) t"

lemma functions_of_append: "functions_of (xs @ ys) = functions_of xs @ functions_of ys"
  by (induction xs rule: functions_of.induct) simp_all

lemma function_summaries_map:
  "map_of (function_summaries tracked items)
   = map_of (rev (map (\<lambda>(name, f). (name, analyze_action tracked (fd_body f) (set (fd_params f))))
       (functions_of items)))"
proof (induction items rule: rev_induct)
  case (snoc item items)
  then show ?case
    by (cases item)
      (simp_all add: function_summaries_def functions_of_append AList.update_conv' fun_eq_iff)
qed (simp add: function_summaries_def)

lemma function_summary:
  assumes "(name, f) \<in> set (program_functions prog)" "distinct (map fst (program_functions prog))"
  shows "(name, analyze_action tracked (fd_body f) (set (fd_params f)))
           \<in> set (function_summaries tracked (pr_items prog))"
proof (rule map_of_SomeD)
  show "map_of (function_summaries tracked (pr_items prog)) name
      = Some (analyze_action tracked (fd_body f) (set (fd_params f)))"
    unfolding function_summaries_map
    using assms by (intro map_of_is_SomeI) (force simp: rev_map [symmetric] comp_def case_prod_unfold)+
qed

lemma unit_observed:
  assumes "unit_run prog np u t" "program_covered tracked prog np"
    and "analyze_record_items tracked (np_record_items np) = Inr rs"
  shows "\<exists>s. (u, s) \<in> set (unit_entries (analyze_action_sequence_summary tracked (np_begin_actions np)) rs
                (analyze_action_sequence_summary tracked (np_end_actions np))
                (function_summaries tracked (pr_items prog)))
     \<and> unassigned_reads {} t \<inter> tracked \<subseteq> us_read_before_assignment_names s
     \<and> event_names t \<inter> tracked \<subseteq> us_encountered_names s"
  using assms(1)
proof cases
  case run_begin
  with actions_observed [OF run_begin(2)] assms(2) show ?thesis
    by (intro exI [of _ "analyze_action_sequence_summary tracked (np_begin_actions np)"])
      (simp add: unit_entries_def program_covered_def)
next
  case run_record
  from assms(3) obtain results final where loop:
      "analyze_record_loop tracked (np_record_items np) {} = Inr (results, final)"
      "rs = summary_of (combine_results final results)"
    by (auto simp: analyze_record_items_def bindE_eq_Inr)
  have "observed tracked {} t (combine_results final results)"
    using items_observed [OF run_record(2) loop(1)] assms(2) by (simp add: program_covered_def)
  with run_record(1) loop(2) show ?thesis
    by (intro exI [of _ rs]) (simp add: unit_entries_def observed_def summary_of_def)
next
  case run_end_actions
  with actions_observed [OF run_end_actions(2)] assms(2) show ?thesis
    by (intro exI [of _ "analyze_action_sequence_summary tracked (np_end_actions np)"])
      (simp add: unit_entries_def program_covered_def)
next
  case (run_function name f k)
  let ?s = "analyze_action tracked (fd_body f) (set (fd_params f))"
  have "(name, ?s) \<in> set (function_summaries tracked (pr_items prog))"
    using run_function assms(2) by (auto simp: program_covered_def intro: function_summary)
  moreover have "safe tracked {} t k (analyze_sequence (analyze_statement tracked (set (fd_params f)))
      (ac_statements (fd_body f)) {})"
    using run_function assms(2)
    by (intro statement_sound(2)) (auto simp: program_covered_def list_all_iff)
  ultimately show ?thesis
    using run_function(1)
    by (intro exI [of _ ?s])
      (force simp: unit_entries_def safe_def observed_def analyze_action_def summary_of_def statement_sequence_eq)
qed

lemma phase_entry:
  assumes "names_for_phase (classify_units tracked b rs e fs) phase = Inr names"
  obtains s where "(phase, s) \<in> set (unit_entries b rs e fs)" "s \<in> {b, rs, e}"
    "names = us_assigned_names s - shared_names (note_entries (unit_entries b rs e fs))
       - us_read_before_assignment_names s"
    "\<And>s'. (phase, s') \<in> set (unit_entries b rs e fs) \<Longrightarrow> s' = s"
proof -
  have own: "(p, s') \<in> set (unit_entries b rs e fs) \<longleftrightarrow> (p, s') \<in> {(''begin'', b), (''record'', rs), (''end'', e)}"
    if "p \<in> {''begin'', ''record'', ''end''}" for p s'
    using that by (auto simp: unit_entries_def)
  from assms consider
      "phase = ''begin''" "names = begin_local_numeric_names (classify_units tracked b rs e fs)"
    | "phase = ''record''" "names = record_local_numeric_names (classify_units tracked b rs e fs)"
    | "phase = ''end''" "names = end_local_numeric_names (classify_units tracked b rs e fs)"
    by (auto simp: names_for_phase_def split: if_splits)
  then show thesis
    by cases (rule that, simp add: own, simp, simp add: classify_units_eq Let_def, simp add: own)+
qed

text \<open>C16: local names are private to their function and assigned there before they are read.  In a
  program that avoids the constructs excluded by \<open>program_covered\<close>, no run of another lowered function
  reads or writes a name that the classification makes local to a phase, and no run of that phase
  reads the name before it has assigned it.  So keeping the value in a local that starts undefined
  changes nothing.\<close>

theorem local_names_private_and_assigned:
  assumes "classify_local_numeric_scalar_residency prog (Some np) (Some types) = Inr r"
    and "program_covered (tracked_numeric_names np types) prog np"
    and "names_for_phase r phase = Inr names" and "x \<in> names" and "unit_run prog np u t"
  shows "if u = phase then x \<notin> unassigned_reads {} t else x \<notin> event_names t"
proof (cases "tracked_numeric_names np types = {}")
  case True
  with assms(1,3,4) show ?thesis
    by (auto simp: classify_local_numeric_scalar_residency_def names_for_phase_def split: if_splits)
next
  case False
  let ?T = "tracked_numeric_names np types"
  let ?b = "analyze_action_sequence_summary ?T (np_begin_actions np)"
  let ?e = "analyze_action_sequence_summary ?T (np_end_actions np)"
  let ?fs = "function_summaries ?T (pr_items prog)"
  from assms(1) False obtain rs where rs: "analyze_record_items ?T (np_record_items np) = Inr rs"
    and r: "r = classify_units ?T ?b rs ?e ?fs"
    by (auto simp: classify_local_numeric_scalar_residency_def bindE_eq_Inr Let_def)
  let ?entries = "unit_entries ?b rs ?e ?fs"
  from phase_entry [OF assms(3) [unfolded r]] obtain s where s: "(phase, s) \<in> set ?entries"
      "s \<in> {?b, rs, ?e}"
      "names = us_assigned_names s - shared_names (note_entries ?entries) - us_read_before_assignment_names s"
      "\<And>s'. (phase, s') \<in> set ?entries \<Longrightarrow> s' = s" by metis
  have ok: "summary_within ?T s"
    using s(2) record_summary_within [OF rs] by (auto intro: action_summaries_within)
  have alone: "x \<in> us_assigned_names s - shared_names (note_entries ?entries)"
    using s(3) assms(4) by simp
  obtain s' where s': "(u, s') \<in> set ?entries"
      "unassigned_reads {} t \<inter> ?T \<subseteq> us_read_before_assignment_names s'"
      "event_names t \<inter> ?T \<subseteq> us_encountered_names s'"
    using unit_observed [OF assms(5,2) rs] by blast
  have tracked: "x \<in> ?T" using ok alone by (auto simp: summary_within_def)
  show ?thesis
  proof (cases "u = phase")
    case True
    with s(4) s'(1) have "s' = s" by simp
    with True s' s(3) assms(4) tracked show ?thesis by auto
  next
    case False
    then have "x \<notin> us_encountered_names s'"
      using unit_local_private [OF alone ok s(1) s'(1)] by simp
    with s' tracked False show ?thesis by auto
  qed
qed

text \<open>In \<open>BEGIN { x = 1; y = x }  END { print y }\<close> no run of the \<open>END\<close> action mentions \<open>x\<close>.\<close>

lemma local_names_private_and_assigned_witness:
  "unit_run \<lparr>pr_items = [], pr_span = inline_span\<rparr> sample_normalized ''end'' [Reads ''y'']
     \<and> ''x'' \<notin> event_names [Reads ''y'']"
proof
  have "stmts_run {} [PrintStmt [NameExpr ''y'' inline_span] inline_span None] ([Reads ''y''] @ []) Falls"
  proof (rule run_step [OF run_expr run_end])
    have "exprs_run {} [NameExpr ''y'' inline_span] (reads {} ''y'' @ [])"
      by (intro run_cons run_nil run_name)
    then show "exprs_run {} (statement_expressions (PrintStmt [NameExpr ''y'' inline_span] inline_span None))
        [Reads ''y'']"
      by (simp add: statement_expressions_def reads_def)
  qed simp
  then show unit: "unit_run \<lparr>pr_items = [], pr_span = inline_span\<rparr> sample_normalized ''end'' [Reads ''y'']"
    by (intro unit_run.run_end_actions) (auto simp: actions_run_def sample_normalized_def Let_def)
  have "program_covered {''x'', ''y''} \<lparr>pr_items = [], pr_span = inline_span\<rparr> sample_normalized"
    by (simp add: program_covered_def actions_covered_def sample_normalized_def Let_def
        statement_expressions_def covered_unfold node_covered_def)
  then show "''x'' \<notin> event_names [Reads ''y'']"
    using local_names_private_and_assigned [OF sample_residency, of "''begin''" "{''x''}" "''x''" "''end''"]
      unit
    by (simp add: sample_tracked names_for_phase_def)
qed

end
