(* ===== verification/Ir.thy ===== *)
theory Ir
  imports Prelude
begin

text \<open>
  The LLVM IR text that the backend builds, line by line.  \<^verbatim>\<open>src/quawk/backend\<close> appends formatted
  strings; a line here keeps apart what the format string puts together, so that the names a line
  defines and uses can be read off, and \<open>render_line\<close> gives the string.  An operand is a name
  (\<open>%t\<close>, \<open>@g\<close>) or a literal, as text.
\<close>

section \<open>Lines\<close>

datatype piece = Txt string | Opd string

fun render_piece :: "piece \<Rightarrow> string" where
  "render_piece (Txt s) = s"
| "render_piece (Opd s) = s"

definition render_pieces :: "piece list \<Rightarrow> string" where
  "render_pieces ps = concat (map render_piece ps)"

text \<open>A line that defines a value, a phi, a line for its effect, a branch, a conditional branch, a
  label, a return.\<close>

datatype line =
    Def string "piece list"
  | Phi string string "(string \<times> string) list"
  | Eff "piece list"
  | Br string
  | CondBr string string string
  | Lab string
  | Ret "piece list"

fun render_line :: "line \<Rightarrow> string" where
  "render_line (Def t ps) = ''  '' @ t @ '' = '' @ render_pieces ps"
| "render_line (Phi t ty incomings) =
     ''  '' @ t @ '' = phi '' @ ty @ '' ''
     @ join_with '', '' (map (\<lambda>(v, l). ''[ '' @ v @ '', %'' @ l @ '' ]'') incomings)"
| "render_line (Eff ps) = ''  '' @ render_pieces ps"
| "render_line (Br l) = ''  br label %'' @ l"
| "render_line (CondBr c l1 l2) = ''  br i1 '' @ c @ '', label %'' @ l1 @ '', label %'' @ l2"
| "render_line (Lab l) = l @ '':''"
| "render_line (Ret ps) = ''  ret '' @ render_pieces ps"

fun line_def :: "line \<Rightarrow> string list" where
  "line_def (Def t _) = [t]"
| "line_def (Phi t _ _) = [t]"
| "line_def _ = []"

fun line_label :: "line \<Rightarrow> string list" where
  "line_label (Lab l) = [l]"
| "line_label _ = []"

fun line_targets :: "line \<Rightarrow> string list" where
  "line_targets (Br l) = [l]"
| "line_targets (CondBr _ l1 l2) = [l1, l2]"
| "line_targets _ = []"

definition defined_names :: "line list \<Rightarrow> string list" where
  "defined_names ls = concat (map line_def ls)"

definition defined_labels :: "line list \<Rightarrow> string list" where
  "defined_labels ls = concat (map line_label ls)"

lemma defined_simps [simp]:
  "defined_names [] = []" "defined_names (l # ls) = line_def l @ defined_names ls"
  "defined_names (ls @ ms) = defined_names ls @ defined_names ms"
  "defined_labels [] = []" "defined_labels (l # ls) = line_label l @ defined_labels ls"
  "defined_labels (ls @ ms) = defined_labels ls @ defined_labels ms"
  by (simp_all add: defined_names_def defined_labels_def)

section \<open>Right-hand sides\<close>

text \<open>The arguments of a call, and the forms of instructions that the format strings have.\<close>

fun comma_pieces :: "(string \<times> string) list \<Rightarrow> piece list" where
  "comma_pieces [] = []"
| "comma_pieces [(ty, v)] = [Txt (ty @ '' ''), Opd v]"
| "comma_pieces ((ty, v) # arg # args) = [Txt (ty @ '' ''), Opd v, Txt '', ''] @ comma_pieces (arg # args)"

definition call_rhs :: "string \<Rightarrow> string \<Rightarrow> (string \<times> string) list \<Rightarrow> piece list" where
  "call_rhs ty callee args =
     [Txt (''call '' @ ty @ '' '' @ callee @ ''('')] @ comma_pieces args @ [Txt '')'']"

definition load_rhs :: "string \<Rightarrow> string \<Rightarrow> piece list" where
  "load_rhs ty ptr = [Txt (''load '' @ ty @ '', ptr ''), Opd ptr]"

definition store_text :: "string \<Rightarrow> string \<Rightarrow> string \<Rightarrow> piece list" where
  "store_text ty v ptr = [Txt (''store '' @ ty @ '' ''), Opd v, Txt '', ptr '', Opd ptr]"

definition binop_rhs :: "string \<Rightarrow> string \<Rightarrow> string \<Rightarrow> string \<Rightarrow> piece list" where
  "binop_rhs opcode ty left right = [Txt (opcode @ '' '' @ ty @ '' ''), Opd left, Txt '', '', Opd right]"

definition select_rhs :: "string \<Rightarrow> string \<Rightarrow> string \<Rightarrow> string \<Rightarrow> piece list" where
  "select_rhs cond ty if_true if_false =
     [Txt ''select i1 '', Opd cond, Txt ('', '' @ ty @ '' ''), Opd if_true, Txt ('', '' @ ty @ '' ''), Opd if_false]"

definition cast_rhs :: "string \<Rightarrow> string \<Rightarrow> string \<Rightarrow> string \<Rightarrow> piece list" where
  "cast_rhs opcode from_ty v to_ty =
     [Txt (opcode @ '' '' @ from_ty @ '' ''), Opd v, Txt ('' to '' @ to_ty)]"

section \<open>Numbered names\<close>

text \<open>\<open>next_temp\<close> and \<open>next_label\<close> append a running number to a prefix; the number can be read back.\<close>

definition temp_name :: "string \<Rightarrow> nat \<Rightarrow> string" where
  "temp_name prefix n = ''%'' @ prefix @ ''.'' @ nat_to_string n"

definition label_name :: "string \<Rightarrow> nat \<Rightarrow> string" where
  "label_name prefix n = prefix @ ''.'' @ nat_to_string n"

definition name_number :: "string \<Rightarrow> nat" where
  "name_number s = digits_value (rev (takeWhile (\<lambda>c. c \<noteq> CHR ''.'') (rev s)))"

lemma dot_not_digit: "\<not> is_ascii_digit CHR ''.''"
  by code_simp

lemma name_number_suffix: "name_number (p @ ''.'' @ nat_to_string n) = n"
proof -
  have "takeWhile (\<lambda>c. c \<noteq> CHR ''.'') (rev (nat_to_string n) @ CHR ''.'' # rev p) = rev (nat_to_string n)"
    using set_nat_to_string [of _ n] dot_not_digit by (subst takeWhile_append2) auto
  then show ?thesis by (simp add: name_number_def)
qed

lemma name_number_simps [simp]:
  "name_number (temp_name prefix n) = n" "name_number (label_name prefix n) = n"
  using name_number_suffix [of "''%'' @ prefix" n] name_number_suffix [of prefix n]
  by (simp_all add: temp_name_def label_name_def)

end
