(* ===== verification/Lowering_State.thy ===== *)
theory Lowering_State
  imports Ir Ast Slot_Allocation Type_Inference
begin

text \<open>
  \<^verbatim>\<open>src/quawk/backend/state.py\<close> and \<^verbatim>\<open>src/quawk/backend/ir_builder.py\<close>: the mutable state of one lowering
  and the helpers that append lines to it.  A lowering function is a function from the state to its
  outcome and the state it leaves; the state is kept when it raises, because \<open>sprintf\<close> and \<open>printf\<close>
  catch a \<open>RuntimeError\<close> and go on with what was appended before.  \<open>LLVMIRBuilder\<close> has no state of its
  own, its methods are functions of the state here.
\<close>

section \<open>The state\<close>

record lowering_state =
  ls_globals :: "(string \<times> nat list) list"
  ls_allocas :: "line list"
  ls_entry_instructions :: "line list"
  ls_instructions :: "line list"
  ls_temp_index :: nat
  ls_label_index :: nat
  ls_string_index :: nat
  ls_variable_slots :: "string \<rightharpoonup> string"
  ls_uses_puts :: bool
  ls_uses_printf :: bool
  ls_numeric_format_declared :: bool
  ls_runtime_param :: "string option"
  ls_state_param :: "string option"
  ls_variable_indexes :: "(string \<times> int) list"
  ls_slot_allocation :: "slot_allocation option"
  ls_type_info :: type_env
  ls_action_exit_label :: "string option"
  ls_phase_exit_label :: "string option"
  ls_break_label :: "string option"
  ls_continue_label :: "string option"
  ls_array_names :: "string set"
  ls_loop_string_bindings :: "string \<rightharpoonup> string"
  ls_function_defs :: "string \<rightharpoonup> function_def"
  ls_return_slot :: "string option"
  ls_return_string_slot :: "string option"
  ls_return_label :: "string option"
  ls_initial_string_values :: "string \<rightharpoonup> string"
  ls_local_names :: "string set"
  ls_function_param_strings :: "string \<rightharpoonup> string"
  ls_local_numeric_names :: "string set"

definition initial_state :: lowering_state where
  "initial_state =
     \<lparr>ls_globals = [], ls_allocas = [], ls_entry_instructions = [], ls_instructions = [],
      ls_temp_index = 0, ls_label_index = 0, ls_string_index = 0, ls_variable_slots = Map.empty,
      ls_uses_puts = False, ls_uses_printf = False, ls_numeric_format_declared = False,
      ls_runtime_param = None, ls_state_param = None, ls_variable_indexes = [],
      ls_slot_allocation = None, ls_type_info = Map.empty, ls_action_exit_label = None,
      ls_phase_exit_label = None, ls_break_label = None, ls_continue_label = None,
      ls_array_names = {}, ls_loop_string_bindings = Map.empty, ls_function_defs = Map.empty,
      ls_return_slot = None, ls_return_string_slot = None, ls_return_label = None,
      ls_initial_string_values = Map.empty, ls_local_names = {},
      ls_function_param_strings = Map.empty, ls_local_numeric_names = {}\<rparr>"

section \<open>Computations\<close>

type_synonym 'a low = "lowering_state \<Rightarrow> (exn + 'a) \<times> lowering_state"

definition retL :: "'a \<Rightarrow> 'a low" where
  "retL x s = (Inr x, s)"

definition raiseL :: "exn \<Rightarrow> 'a low" where
  "raiseL e s = (Inl e, s)"

definition bindL :: "'a low \<Rightarrow> ('a \<Rightarrow> 'b low) \<Rightarrow> 'b low" where
  "bindL m f s = (case m s of (Inl e, s') \<Rightarrow> (Inl e, s') | (Inr x, s') \<Rightarrow> f x s')"

text \<open>Read from the state, change it, and a result that may be an exception.\<close>

definition getL :: "(lowering_state \<Rightarrow> 'a) \<Rightarrow> 'a low" where
  "getL f s = (Inr (f s), s)"

definition modifyL :: "(lowering_state \<Rightarrow> lowering_state) \<Rightarrow> unit low" where
  "modifyL f s = (Inr (), f s)"

definition liftL :: "exn + 'a \<Rightarrow> 'a low" where
  "liftL r s = (r, s)"

text \<open>\<open>try: m except RuntimeError: handler\<close>: the handler runs on the state that \<open>m\<close> has left.\<close>

definition is_runtime_error :: "exn \<Rightarrow> bool" where
  "is_runtime_error e = (case e of RuntimeError _ \<Rightarrow> True | _ \<Rightarrow> False)"

definition catch_runtime_error :: "'a low \<Rightarrow> (exn \<Rightarrow> 'a low) \<Rightarrow> 'a low" where
  "catch_runtime_error m handler s =
     (case m s of
        (Inl e, s') \<Rightarrow> if is_runtime_error e then handler e s' else (Inl e, s')
      | (Inr x, s') \<Rightarrow> (Inr x, s'))"

text \<open>\<open>assert x is not None\<close>, and the value.\<close>

definition some_or_assert :: "'a option \<Rightarrow> 'a low" where
  "some_or_assert v = (case v of None \<Rightarrow> raiseL (AssertionError []) | Some x \<Rightarrow> retL x)"

fun each_low :: "('a \<Rightarrow> unit low) \<Rightarrow> 'a list \<Rightarrow> unit low" where
  "each_low f [] = retL ()"
| "each_low f (x # xs) = bindL (f x) (\<lambda>_. each_low f xs)"

fun map_low :: "('a \<Rightarrow> 'b low) \<Rightarrow> 'a list \<Rightarrow> 'b list low" where
  "map_low f [] = retL []"
| "map_low f (x # xs) = bindL (f x) (\<lambda>y. bindL (map_low f xs) (\<lambda>ys. retL (y # ys)))"

section \<open>Fresh names and emission\<close>

definition next_temp :: "string \<Rightarrow> string low" where
  "next_temp prefix s =
     (Inr (temp_name prefix (ls_temp_index s)), s\<lparr>ls_temp_index := ls_temp_index s + 1\<rparr>)"

definition next_label :: "string \<Rightarrow> string low" where
  "next_label prefix s =
     (Inr (label_name prefix (ls_label_index s)), s\<lparr>ls_label_index := ls_label_index s + 1\<rparr>)"

definition emit :: "line \<Rightarrow> unit low" where
  "emit l = modifyL (\<lambda>s. s\<lparr>ls_instructions := ls_instructions s @ [l]\<rparr>)"

fun emit_many :: "line list \<Rightarrow> unit low" where
  "emit_many [] = retL ()"
| "emit_many (l # ls) = bindL (emit l) (\<lambda>_. emit_many ls)"

definition emit_alloca :: "string \<Rightarrow> piece list \<Rightarrow> unit low" where
  "emit_alloca t rhs = modifyL (\<lambda>s. s\<lparr>ls_allocas := ls_allocas s @ [Def t rhs]\<rparr>)"

definition emit_entry :: "piece list \<Rightarrow> unit low" where
  "emit_entry ps = modifyL (\<lambda>s. s\<lparr>ls_entry_instructions := ls_entry_instructions s @ [Eff ps]\<rparr>)"

text \<open>The common sequence of a fresh name and the line that defines it.\<close>

definition define_temp :: "string \<Rightarrow> piece list \<Rightarrow> string low" where
  "define_temp prefix rhs =
     bindL (next_temp prefix) (\<lambda>t. bindL (emit (Def t rhs)) (\<lambda>_. retL t))"

definition mark_label :: "string \<Rightarrow> unit low" where
  "mark_label l = emit (Lab l)"

definition branch :: "string \<Rightarrow> unit low" where
  "branch l = emit (Br l)"

definition cond_branch :: "string \<Rightarrow> string \<Rightarrow> string \<Rightarrow> unit low" where
  "cond_branch c true_label false_label = emit (CondBr c true_label false_label)"

definition call :: "string \<Rightarrow> string \<Rightarrow> string \<Rightarrow> (string \<times> string) list \<Rightarrow> string low" where
  "call prefix ty callee args = define_temp prefix (call_rhs ty callee args)"

definition call_void :: "string \<Rightarrow> (string \<times> string) list \<Rightarrow> unit low" where
  "call_void callee args = emit (Eff (call_rhs ''void'' callee args))"

definition load :: "string \<Rightarrow> string \<Rightarrow> string \<Rightarrow> string low" where
  "load prefix ty ptr = define_temp prefix (load_rhs ty ptr)"

definition store :: "string \<Rightarrow> string \<Rightarrow> string \<Rightarrow> unit low" where
  "store ty v ptr = emit (Eff (store_text ty v ptr))"

definition binop :: "string \<Rightarrow> string \<Rightarrow> string \<Rightarrow> string \<Rightarrow> string \<Rightarrow> string low" where
  "binop prefix opcode ty left right = define_temp prefix (binop_rhs opcode ty left right)"

definition select :: "string \<Rightarrow> string \<Rightarrow> string \<Rightarrow> string \<Rightarrow> string \<Rightarrow> string low" where
  "select prefix cond ty if_true if_false = define_temp prefix (select_rhs cond ty if_true if_false)"

definition phi :: "string \<Rightarrow> string \<Rightarrow> (string \<times> string) list \<Rightarrow> string low" where
  "phi prefix ty incomings =
     bindL (next_temp prefix) (\<lambda>t. bindL (emit (Phi t ty incomings)) (\<lambda>_. retL t))"

text \<open>\<open>emit_gep\<close>, \<open>emit_gep_inline\<close>: the start of a global byte array.\<close>

definition gep_rhs :: "nat \<Rightarrow> string \<Rightarrow> piece list" where
  "gep_rhs byte_length global_name =
     [Txt (''getelementptr inbounds ['' @ nat_to_string byte_length @ '' x i8], ptr ''), Opd global_name,
      Txt '', i64 0, i64 0'']"

definition gep :: "string \<Rightarrow> nat \<Rightarrow> string \<Rightarrow> string low" where
  "gep prefix byte_length global_name = define_temp prefix (gep_rhs byte_length global_name)"

text \<open>\<open>assert state.runtime_param is not None\<close>.\<close>

definition assert_runtime :: "unit low" where
  "assert_runtime =
     bindL (getL ls_runtime_param) (\<lambda>rt. bindL (some_or_assert rt) (\<lambda>_. retL ()))"

text \<open>The operand of the runtime parameter, as the format strings render it.\<close>

definition runtime_param :: "string low" where
  "runtime_param =
     getL (\<lambda>s. case ls_runtime_param s of None \<Rightarrow> ''None'' | Some p \<Rightarrow> p)"

section \<open>Laws of the computations\<close>

lemma bindL_ret [simp]: "bindL (retL x) f = f x"
  by (simp add: bindL_def retL_def fun_eq_iff)

lemma bindL_raise [simp]: "bindL (raiseL e) f = raiseL e"
  by (simp add: bindL_def raiseL_def fun_eq_iff)

lemma bindL_assoc [simp]: "bindL (bindL m f) g = bindL m (\<lambda>x. bindL (f x) g)"
  by (auto simp: bindL_def fun_eq_iff split: prod.split sum.split)

text \<open>The helpers in terms of \<^const>\<open>next_temp\<close>, \<^const>\<open>next_label\<close> and \<^const>\<open>emit\<close>.\<close>

lemmas primitive_steps =
  define_temp_def mark_label_def branch_def cond_branch_def call_def call_void_def load_def store_def
  binop_def select_def phi_def gep_def emit_many.simps

lemmas straight_line = primitive_steps bindL_assoc bindL_ret

end
