(* ===== verification/Runtime_Abi.thy ===== *)
theory Runtime_Abi
  imports Lowering_State Py_Float
begin

text \<open>
  \<^verbatim>\<open>src/quawk/backend/runtime_abi.py\<close>: the declarations of the runtime's functions, AWK's reading of
  numbers in strings, the literals and constants of the IR text and the assembly of functions.  A
  floating-point number with its sign bit is a pair; string constants are kept as the bytes they hold
  and rendered by \<open>declare_bytes\<close>.
\<close>

section \<open>Declarations\<close>

definition REUSABLE_PROGRAM_DECLARATIONS :: "string list" where
  "REUSABLE_PROGRAM_DECLARATIONS =
     [''declare ptr @qk_get_field_inline(ptr, i64)'',
      ''declare void @qk_set_field_string(ptr, i64, ptr)'',
      ''declare void @qk_set_field_number(ptr, i64, double)'',
      ''declare void @qk_print_string(ptr, ptr)'',
      ''declare void @qk_print_number(ptr, double)'',
      ''declare void @qk_print_string_fragment(ptr, ptr)'',
      ''declare void @qk_print_number_fragment(ptr, double)'',
      ''declare void @qk_print_output_separator(ptr)'',
      ''declare void @qk_print_output_record_separator(ptr)'',
      ''declare ptr @qk_open_output(ptr, ptr, i32)'',
      ''declare double @qk_close_output(ptr, ptr)'',
      ''declare void @qk_write_output_string(ptr, ptr)'',
      ''declare void @qk_write_output_number(ptr, ptr, double)'',
      ''declare void @qk_write_output_separator(ptr, ptr)'',
      ''declare void @qk_write_output_record_separator(ptr, ptr)'',
      ''declare void @qk_nextfile(ptr)'',
      ''declare void @qk_request_exit(ptr, i32)'',
      ''declare i1 @qk_regex_match_current_record(ptr, ptr)'',
      ''declare i1 @qk_regex_match_text(ptr, ptr)'',
      ''declare ptr @qk_scalar_get_inline(ptr, ptr)'',
      ''declare double @qk_scalar_get_number_inline(ptr, ptr)'',
      ''declare i1 @qk_scalar_truthy(ptr, ptr)'',
      ''declare void @qk_scalar_set_string(ptr, ptr, ptr)'',
      ''declare void @qk_scalar_set_number_inline(ptr, ptr, double)'',
      ''declare void @qk_scalar_copy(ptr, ptr, ptr)'',
      ''declare double @qk_slot_get_number(ptr, i64)'',
      ''declare void @qk_slot_set_number(ptr, i64, double)'',
      ''declare ptr @qk_slot_get_string(ptr, i64)'',
      ''declare void @qk_slot_set_string(ptr, i64, ptr)'',
      ''declare ptr @qk_capture_string_arg_inline(ptr, ptr)'',
      ''declare double @qk_parse_number_text(ptr)'',
      ''declare ptr @qk_format_number(ptr, double)'',
      ''declare ptr @qk_concat(ptr, ptr, ptr)'',
      ''declare double @qk_index(ptr, ptr, ptr)'',
      ''declare double @qk_match(ptr, ptr, ptr)'',
      ''declare double @qk_substitute(ptr, ptr, ptr, ptr, i1, ptr)'',
      ''declare ptr @qk_sprintf(ptr, ptr, i32, ptr, ptr)'',
      ''declare ptr @qk_tolower(ptr, ptr)'',
      ''declare ptr @qk_toupper(ptr, ptr)'',
      ''declare double @qk_atan2(double, double)'',
      ''declare double @qk_cos(double)'',
      ''declare double @qk_exp(double)'',
      ''declare double @qk_int_builtin(double)'',
      ''declare double @qk_log(double)'',
      ''declare double @qk_rand(ptr)'',
      ''declare double @qk_sin(double)'',
      ''declare double @qk_sqrt(double)'',
      ''declare double @qk_srand0(ptr)'',
      ''declare double @qk_srand1(ptr, double)'',
      ''declare double @qk_system(ptr, ptr)'',
      ''declare double @qk_getline_main_record(ptr)'',
      ''declare double @qk_getline_main_string(ptr, ptr)'',
      ''declare double @qk_getline_file_record(ptr, ptr)'',
      ''declare double @qk_getline_file_string(ptr, ptr, ptr)'',
      ''declare double @qk_get_nr_inline(ptr)'',
      ''declare double @qk_get_fnr_inline(ptr)'',
      ''declare double @qk_get_nf_inline(ptr)'',
      ''declare ptr @qk_get_filename_inline(ptr)'',
      ''declare double @qk_split_into_array(ptr, ptr, ptr, ptr)'',
      ''declare ptr @qk_array_get(ptr, ptr, ptr)'',
      ''declare double @qk_array_get_number(ptr, ptr, ptr)'',
      ''declare i1 @qk_array_contains(ptr, ptr, ptr)'',
      ''declare void @qk_array_set_string(ptr, ptr, ptr, ptr)'',
      ''declare void @qk_array_set_number(ptr, ptr, ptr, double)'',
      ''declare void @qk_array_delete(ptr, ptr, ptr)'',
      ''declare void @qk_array_clear(ptr, ptr)'',
      ''declare double @qk_array_length(ptr, ptr)'',
      ''declare ptr @qk_array_first_key(ptr, ptr)'',
      ''declare ptr @qk_array_next_key(ptr, ptr, ptr)'',
      ''declare ptr @qk_substr2(ptr, ptr, i64)'',
      ''declare ptr @qk_substr3(ptr, ptr, i64, i64)'',
      ''declare i64 @strlen(ptr)'',
      ''declare double @llvm.pow.f64(double, double)'',
      ''declare double @llvm.trunc.f64(double)'',
      ''declare i1 @qk_compare_strings_inline(ptr, ptr, i32)'',
      ''declare i1 @qk_compare_values_inline(ptr, double, i1, i1, ptr, double, i1, i1, i32)'',
      ''declare i32 @fprintf(ptr, ptr, ...)'',
      ''declare i32 @printf(ptr, ...)'']"

definition EXECUTION_DRIVER_DECLARATIONS :: "string list" where
  "EXECUTION_DRIVER_DECLARATIONS =
     [''declare ptr @qk_runtime_create(i32, ptr, ptr)'',
      ''declare void @qk_runtime_destroy(ptr)'',
      ''declare i1 @qk_next_record_inline(ptr)'',
      ''declare i1 @qk_should_exit(ptr)'',
      ''declare i32 @qk_exit_status(ptr)'',
      ''declare void @qk_scalar_set_number_inline(ptr, ptr, double)'',
      ''declare void @qk_scalar_set_string(ptr, ptr, ptr)'',
      ''declare void @qk_slot_set_number(ptr, i64, double)'',
      ''declare void @qk_slot_set_string(ptr, i64, ptr)'',
      ''declare void @quawk_begin(ptr, ptr)'',
      ''declare void @quawk_record(ptr, ptr)'',
      ''declare void @quawk_end(ptr, ptr)'']"

section \<open>Numbers in strings\<close>

definition is_awk_space :: "char \<Rightarrow> bool" where
  "is_awk_space c \<longleftrightarrow> of_char c \<in> set [32, 9, 13, 10, 12, 11 :: nat]"

definition scan_sign :: "string \<Rightarrow> bool \<times> string" where
  "scan_sign s =
     (case s of
        [] \<Rightarrow> (False, s)
      | c # rest \<Rightarrow> if c = CHR ''-'' then (True, rest) else if c = CHR ''+'' then (False, rest) else (False, s))"

text \<open>An optional exponent: its value and the rest of the text.\<close>

definition scan_exponent :: "string \<Rightarrow> int \<times> string" where
  "scan_exponent s =
     (case s of
        [] \<Rightarrow> (0, s)
      | c # rest \<Rightarrow>
          if c = CHR ''e'' \<or> c = CHR ''E'' then
            let (neg, t) = scan_sign rest; digits = takeWhile is_ascii_digit t
            in if digits = [] then (0, s)
               else (if neg then - Py_Float.digits_value digits else Py_Float.digits_value digits,
                     dropWhile is_ascii_digit t)
          else (0, s))"

text \<open>The pattern \<open>[ws]*[+-]?(digits[.digits?] | .digits)(exponent)?\<close>: its sign, integer digits, fraction
  digits and exponent, and the text after it.\<close>

definition scan_number_text :: "string \<Rightarrow> ((bool \<times> string \<times> string \<times> int) \<times> string) option" where
  "scan_number_text text =
     (let (neg, t) = scan_sign (dropWhile is_awk_space text);
          whole = takeWhile is_ascii_digit t;
          after = dropWhile is_ascii_digit t;
          dot = (case after of [] \<Rightarrow> False | c # _ \<Rightarrow> c = CHR ''.'');
          frac = (if dot then takeWhile is_ascii_digit (drop 1 after) else []);
          rest = (if dot then dropWhile is_ascii_digit (drop 1 after) else after)
      in if whole = [] \<and> frac = [] then None
         else let (exponent, rest) = scan_exponent rest in Some ((neg, whole, frac, exponent), rest))"

definition awk_string_is_numeric :: "string \<Rightarrow> bool" where
  "awk_string_is_numeric text =
     (case scan_number_text text of None \<Rightarrow> False | Some (_, rest) \<Rightarrow> list_all is_awk_space rest)"

definition decimal_value :: "string \<Rightarrow> string \<Rightarrow> int \<Rightarrow> py_float" where
  "decimal_value whole frac exponent =
     (let n = Py_Float.digits_value (whole @ frac); k = exponent - int (length frac)
      in if k \<ge> 0 then float_of_ratio (n * 10 ^ nat k) 1 else float_of_ratio n (10 ^ nat (- k)))"

definition awk_numeric_prefix :: "string \<Rightarrow> bool \<times> py_float" where
  "awk_numeric_prefix text =
     (case scan_number_text text of
        None \<Rightarrow> (False, Double 0 0)
      | Some ((neg, whole, frac, exponent), _) \<Rightarrow> (neg, decimal_value whole frac exponent))"

section \<open>Floating-point literals\<close>

text \<open>\<open>f"{value:.15e}"\<close>: sixteen significant digits, correctly rounded, ties to even.\<close>

definition ratio_of :: "int \<Rightarrow> int \<Rightarrow> int \<times> int" where
  "ratio_of m e = (if e \<ge> 0 then (m * 2 ^ nat e, 1) else (m, 2 ^ nat (- e)))"

definition decimal_exponent :: "int \<Rightarrow> int \<Rightarrow> int" where
  "decimal_exponent num den =
     (let k = int (length (nat_to_string (nat num))) - int (length (nat_to_string (nat den)));
          at_least = (if k \<ge> 0 then den * 10 ^ nat k \<le> num else den \<le> num * 10 ^ nat (- k))
      in if at_least then k else k - 1)"

definition sixteen_digits :: "int \<Rightarrow> int \<Rightarrow> int \<Rightarrow> int" where
  "sixteen_digits num den k =
     (if k \<ge> 15 then round_half_even num (den * 10 ^ nat (k - 15))
      else round_half_even (num * 10 ^ nat (15 - k)) den)"

definition render_scientific :: "string \<Rightarrow> int \<Rightarrow> string" where
  "render_scientific digits k =
     (let e = nat_to_string (nat (abs k))
      in take 1 digits @ ''.'' @ drop 1 digits @ ''e'' @ (if k < 0 then ''-'' else ''+'')
         @ (if length e < 2 then ''0'' @ e else e))"

fun format_magnitude :: "py_float \<Rightarrow> string" where
  "format_magnitude Infinity = ''inf''"
| "format_magnitude (Double m e) =
     (if m = 0 then ''0.000000000000000e+00''
      else let (num, den) = ratio_of m e;
               k = decimal_exponent num den;
               d = sixteen_digits num den k
           in if d = 10 ^ 16 then render_scientific (nat_to_string (10 ^ 15)) (k + 1)
              else render_scientific (nat_to_string (nat d)) k)"

definition format_double_literal :: "bool \<times> py_float \<Rightarrow> string" where
  "format_double_literal v = (if fst v then ''-'' else []) @ format_magnitude (snd v)"

abbreviation ZERO :: string where
  "ZERO \<equiv> ''0.000000000000000e+00''"

section \<open>String constants\<close>

definition utf8_char :: "char \<Rightarrow> nat list" where
  "utf8_char c =
     (let n = of_char c :: nat in if n < 128 then [n] else [192 + n div 64, 128 + n mod 64])"

definition utf8_encode :: "string \<Rightarrow> nat list" where
  "utf8_encode s = concat (map utf8_char s)"

definition hex_upper :: "nat \<Rightarrow> char" where
  "hex_upper n = (if n < 10 then char_of (48 + n) else char_of (55 + n))"

definition escape_byte :: "nat \<Rightarrow> string" where
  "escape_byte b = [backslash, hex_upper (b div 16), hex_upper (b mod 16)]"

definition declare_bytes :: "string \<Rightarrow> nat list \<Rightarrow> string" where
  "declare_bytes global_name data =
     global_name @ '' = private unnamed_addr constant ['' @ nat_to_string (length data) @ '' x i8] c''
     @ [dquote] @ concat (map escape_byte data) @ [dquote]"

definition string_global :: "nat \<Rightarrow> string" where
  "string_global n = ''@.str.'' @ nat_to_string n"

definition add_global :: "string \<Rightarrow> nat list \<Rightarrow> unit low" where
  "add_global name data = modifyL (\<lambda>s. s\<lparr>ls_globals := ls_globals s @ [(name, data)]\<rparr>)"

definition declare_string :: "string \<Rightarrow> (string \<times> nat) low" where
  "declare_string literal =
     bindL (getL ls_string_index) (\<lambda>n.
     bindL (modifyL (\<lambda>s. s\<lparr>ls_string_index := ls_string_index s + 1\<rparr>)) (\<lambda>_.
       let data = utf8_encode literal @ [0] in
       bindL (add_global (string_global n) data) (\<lambda>_.
         retL (string_global n, length data))))"

definition NUMERIC_FORMAT :: "nat list" where
  "NUMERIC_FORMAT = utf8_encode (''%.6g'' @ [newline]) @ [0]"

definition ensure_numeric_format :: "(string \<times> nat) low" where
  "ensure_numeric_format =
     bindL (getL ls_numeric_format_declared) (\<lambda>declared.
     bindL (if declared then retL ()
            else bindL (add_global ''@.fmt.num'' NUMERIC_FORMAT) (\<lambda>_.
              modifyL (\<lambda>s. s\<lparr>ls_numeric_format_declared := True\<rparr>))) (\<lambda>_.
       retL (''@.fmt.num'', length NUMERIC_FORMAT)))"

definition emit_gep_inline :: "nat \<Rightarrow> string \<Rightarrow> string" where
  "emit_gep_inline byte_length global_name = render_pieces (gep_rhs byte_length global_name)"

definition emit_gep_constant :: "nat \<Rightarrow> string \<Rightarrow> string" where
  "emit_gep_constant byte_length global_name =
     ''getelementptr inbounds (['' @ nat_to_string byte_length @ '' x i8], ptr '' @ global_name
     @ '', i64 0, i64 0)''"

section \<open>Modules\<close>

definition reusable_program_declarations :: "string option \<Rightarrow> string list" where
  "reusable_program_declarations state_type =
     REUSABLE_PROGRAM_DECLARATIONS @ (case state_type of None \<Rightarrow> [] | Some ty \<Rightarrow> [ty])"

definition execution_driver_declarations :: "string option \<Rightarrow> string list" where
  "execution_driver_declarations state_type =
     EXECUTION_DRIVER_DECLARATIONS @ (case state_type of None \<Rightarrow> [] | Some ty \<Rightarrow> [ty])"

text \<open>\<open>str.splitlines\<close>: the line boundaries of Python below code point 256.\<close>

definition is_line_break :: "char \<Rightarrow> bool" where
  "is_line_break c \<longleftrightarrow> of_char c \<in> set [10, 11, 12, 13, 28, 29, 30, 133 :: nat]"

lemma length_drop_dropWhile:
  "s \<noteq> [] \<Longrightarrow> length (drop (Suc n) (dropWhile P s)) < length s"
  using length_dropWhile_le [of P s] by (cases s) (auto intro: le_less_trans)

function split_lines :: "string \<Rightarrow> string list" where
  "split_lines s =
     (if s = [] then []
      else let line = takeWhile (\<lambda>c. \<not> is_line_break c) s; rest = dropWhile (\<lambda>c. \<not> is_line_break c) s
           in line # (if take 2 rest = [CHR 0x0D, CHR 0x0A] then split_lines (drop 2 rest)
                      else split_lines (drop 1 rest)))"
  by pat_completeness auto
termination
  by (relation "measure length") (use length_drop_dropWhile in \<open>auto simp: numeral_2_eq_2 Let_def\<close>)

declare split_lines.simps [simp del]

definition extract_state_type_declaration :: "string \<Rightarrow> string option" where
  "extract_state_type_declaration program_llvm_ir =
     List.find (starts_with ''%quawk.state = type '') (split_lines program_llvm_ir)"

definition function_lines :: "lowering_state \<Rightarrow> string list" where
  "function_lines s =
     map render_line (ls_allocas s @ ls_entry_instructions s @ ls_instructions s)"

definition render_reusable_function :: "string \<Rightarrow> lowering_state \<Rightarrow> exn + string" where
  "render_reusable_function name s =
     (case ls_phase_exit_label s of
        None \<Rightarrow> Inl (RuntimeError ''reusable lowering requires a precomputed phase exit label'')
      | Some l \<Rightarrow>
          Inr (join_with [newline]
            ([''define void @'' @ name @ ''(ptr %rt, ptr %state) {'', ''entry:'']
             @ function_lines s
             @ [render_line (Br l), render_line (Lab l), ''  ret void'', ''}''])))"

definition render_runtime_user_function :: "function_def \<Rightarrow> lowering_state \<Rightarrow> string" where
  "render_runtime_user_function f s =
     (let arguments = join_with '', ''
            ([''ptr %rt'', ''ptr %state'']
             @ map (\<lambda>i. ''ptr %arg.'' @ nat_to_string i) [0..<length (fd_params f)])
      in join_with [newline]
           ([''define ptr @qk_fn_'' @ fd_name f @ ''('' @ arguments @ '') {'', ''entry:'']
            @ function_lines s @ [''}'']))"

definition render_user_function :: "function_def \<Rightarrow> lowering_state \<Rightarrow> string" where
  "render_user_function f s =
     (let arguments = join_with '', ''
            (''ptr %state'' # map (\<lambda>i. ''double %arg.'' @ nat_to_string i) [0..<length (fd_params f)])
      in join_with [newline]
           ([''define double @qk_fn_'' @ fd_name f @ ''('' @ arguments @ '') {'', ''entry:'']
            @ function_lines s @ [''}'']))"

end
