(* ===== verification/Lower_Names.thy ===== *)
theory Lower_Names
  imports Runtime_Abi Residency
begin

text \<open>
  The predicates of \<^verbatim>\<open>src/quawk/backend/lower_lvalue.py\<close> on names and expressions: which storage a
  scalar name uses and which view (string or number) an expression has in the runtime-backed
  lowering.  They read the state and do not change it.
\<close>

section \<open>Names\<close>

definition is_state_name :: "string \<Rightarrow> bool" where
  "is_state_name name \<longleftrightarrow> starts_with ''__range.'' name"

definition runtime_name_slot_index :: "string \<Rightarrow> lowering_state \<Rightarrow> int option" where
  "runtime_name_slot_index name s =
     (if is_builtin_variable_name name \<or> ls_loop_string_bindings s name \<noteq> None
         \<or> ls_function_param_strings s name \<noteq> None \<or> is_state_name name
      then None
      else case ls_slot_allocation s of
             Some sa \<Rightarrow>
               (case get_slot sa name of
                  None \<Rightarrow> None
                | Some slot \<Rightarrow> if vs_storage slot \<noteq> ''slot'' then None else Some (vs_index slot))
           | None \<Rightarrow> map_of (ls_variable_indexes s) name)"

definition runtime_name_uses_scalar_runtime :: "string \<Rightarrow> lowering_state \<Rightarrow> bool" where
  "runtime_name_uses_scalar_runtime name s \<longleftrightarrow>
     name \<notin> set [''NR'', ''FNR'', ''NF'', ''FILENAME''] \<and> ls_loop_string_bindings s name = None
     \<and> ls_function_param_strings s name = None \<and> \<not> is_state_name name"

definition runtime_name_is_inferred_numeric :: "string \<Rightarrow> lowering_state \<Rightarrow> bool" where
  "runtime_name_is_inferred_numeric name s \<longleftrightarrow> ls_type_info s name = Some TyNumeric"

definition runtime_name_is_inferred_string :: "string \<Rightarrow> lowering_state \<Rightarrow> bool" where
  "runtime_name_is_inferred_string name s \<longleftrightarrow> ls_type_info s name = Some TyString"

definition runtime_name_uses_numeric_slot_state :: "string \<Rightarrow> lowering_state \<Rightarrow> bool" where
  "runtime_name_uses_numeric_slot_state name s \<longleftrightarrow>
     ls_state_param s \<noteq> None \<and> runtime_name_uses_scalar_runtime name s
     \<and> runtime_name_is_inferred_numeric name s \<and> runtime_name_slot_index name s \<noteq> None"

definition runtime_name_uses_local_numeric_storage :: "string \<Rightarrow> lowering_state \<Rightarrow> bool" where
  "runtime_name_uses_local_numeric_storage name s \<longleftrightarrow>
     ls_state_param s \<noteq> None \<and> name \<in> ls_local_numeric_names s
     \<and> runtime_name_uses_scalar_runtime name s \<and> runtime_name_is_inferred_numeric name s"

definition runtime_name_uses_string_slot_runtime :: "string \<Rightarrow> lowering_state \<Rightarrow> bool" where
  "runtime_name_uses_string_slot_runtime name s \<longleftrightarrow>
     runtime_name_uses_scalar_runtime name s \<and> runtime_name_is_inferred_string name s
     \<and> runtime_name_slot_index name s \<noteq> None"

definition runtime_name_uses_slot_cached_runtime :: "string \<Rightarrow> lowering_state \<Rightarrow> bool" where
  "runtime_name_uses_slot_cached_runtime name s \<longleftrightarrow>
     runtime_name_uses_scalar_runtime name s \<and> runtime_name_slot_index name s \<noteq> None
     \<and> ls_type_info s name \<in> set [Some TyString, Some TyMixed]
     \<and> \<not> runtime_name_uses_numeric_slot_state name s
     \<and> \<not> runtime_name_uses_local_numeric_storage name s"

definition runtime_name_uses_only_scalar_runtime :: "string \<Rightarrow> lowering_state \<Rightarrow> bool" where
  "runtime_name_uses_only_scalar_runtime name s \<longleftrightarrow>
     runtime_name_uses_scalar_runtime name s \<and> \<not> runtime_name_uses_numeric_slot_state name s
     \<and> \<not> runtime_name_uses_string_slot_runtime name s"

section \<open>Views of expressions\<close>

definition STRING_RESULT_BUILTINS :: "string list" where
  "STRING_RESULT_BUILTINS = [''sprintf'', ''substr'', ''tolower'', ''toupper'']"

text \<open>\<open>runtime_expression_is_known_string\<close> and \<open>runtime_assignment_preserves_string\<close> call each other on
  the value of an assignment; the second differs from the first only on names.\<close>

fun runtime_expression_is_known_string :: "expr \<Rightarrow> lowering_state \<Rightarrow> bool"
and runtime_assignment_preserves_string :: "expr \<Rightarrow> lowering_state \<Rightarrow> bool"
where
  "runtime_expression_is_known_string (StringLiteralExpr _ _ _) s = True"
| "runtime_expression_is_known_string (FieldExpr _ _) s = True"
| "runtime_expression_is_known_string (ArrayIndexExpr _ _ _ _) s = True"
| "runtime_expression_is_known_string (NameExpr name _) s \<longleftrightarrow>
     name = ''FILENAME'' \<or> ls_loop_string_bindings s name \<noteq> None
     \<or> ls_function_param_strings s name \<noteq> None \<or> runtime_name_is_inferred_string name s"
| "runtime_expression_is_known_string (CallExpr function_name _ _) s \<longleftrightarrow>
     ls_function_defs s function_name \<noteq> None \<or> function_name \<in> set STRING_RESULT_BUILTINS"
| "runtime_expression_is_known_string (BinaryExpr _ op _ _) s \<longleftrightarrow> op = OpConcat"
| "runtime_expression_is_known_string (AssignExpr _ _ v _) s = runtime_assignment_preserves_string v s"
| "runtime_expression_is_known_string _ s = False"
| "runtime_assignment_preserves_string (NameExpr name _) s \<longleftrightarrow>
     name = ''FILENAME'' \<or> ls_loop_string_bindings s name \<noteq> None
     \<or> ls_function_param_strings s name \<noteq> None \<or> runtime_name_uses_only_scalar_runtime name s
     \<or> runtime_name_uses_string_slot_runtime name s"
| "runtime_assignment_preserves_string (AssignExpr _ _ v _) s = runtime_assignment_preserves_string v s"
| "runtime_assignment_preserves_string (StringLiteralExpr _ _ _) s = True"
| "runtime_assignment_preserves_string (FieldExpr _ _) s = True"
| "runtime_assignment_preserves_string (ArrayIndexExpr _ _ _ _) s = True"
| "runtime_assignment_preserves_string (CallExpr function_name _ _) s \<longleftrightarrow>
     ls_function_defs s function_name \<noteq> None \<or> function_name \<in> set STRING_RESULT_BUILTINS"
| "runtime_assignment_preserves_string (BinaryExpr _ op _ _) s \<longleftrightarrow> op = OpConcat"
| "runtime_assignment_preserves_string _ s = False"

definition DEFINITELY_NUMERIC_BUILTINS :: "string list" where
  "DEFINITELY_NUMERIC_BUILTINS =
     [''int'', ''length'', ''rand'', ''srand'', ''atan2'', ''cos'', ''exp'', ''log'', ''match'', ''sin'',
      ''sqrt'', ''split'', ''sub'', ''gsub'', ''system'']"

text \<open>The operands whose increment is definitely numeric.\<close>

definition is_increment_operand :: "expr \<Rightarrow> bool" where
  "is_increment_operand e =
     (case e of
        NameExpr _ _ \<Rightarrow> True
      | FieldExpr _ _ \<Rightarrow> True
      | ArrayIndexExpr _ _ extra _ \<Rightarrow> extra = []
      | _ \<Rightarrow> False)"

fun runtime_expression_is_definitely_numeric :: "expr \<Rightarrow> lowering_state \<Rightarrow> bool" where
  "runtime_expression_is_definitely_numeric (NumericLiteralExpr _ _ _) s = True"
| "runtime_expression_is_definitely_numeric (StringLiteralExpr v _ _) s = awk_string_is_numeric v"
| "runtime_expression_is_definitely_numeric (NameExpr name _) s =
     (if name \<in> set [''NR'', ''FNR'', ''NF''] then True
      else if is_state_name name then True
      else ls_type_info s name = Some TyNumeric \<and> runtime_name_uses_scalar_runtime name s)"
| "runtime_expression_is_definitely_numeric (AssignExpr target _ v _) s =
     (case target of
        NameLValue name _ \<Rightarrow> is_state_name name \<and> runtime_expression_is_definitely_numeric v s
      | _ \<Rightarrow> False)"
| "runtime_expression_is_definitely_numeric (UnaryExpr op operand _) s =
     (if op \<in> set [UPlus, UMinus, UNot] then runtime_expression_is_definitely_numeric operand s
      else is_increment_operand operand)"
| "runtime_expression_is_definitely_numeric (PostfixExpr operand _ _) s = is_increment_operand operand"
| "runtime_expression_is_definitely_numeric (BinaryExpr left op right _) s =
     (op \<in> set [OpAdd, OpSub, OpMul, OpDiv, OpMod, OpPow]
      \<and> runtime_expression_is_definitely_numeric left s \<and> runtime_expression_is_definitely_numeric right s)"
| "runtime_expression_is_definitely_numeric (CallExpr function_name args _) s =
     (function_name \<in> set DEFINITELY_NUMERIC_BUILTINS
      \<and> list_all (\<lambda>argument. runtime_expression_is_definitely_numeric argument s) args)"
| "runtime_expression_is_definitely_numeric _ s = False"

fun runtime_expression_has_string_result :: "expr \<Rightarrow> lowering_state \<Rightarrow> bool" where
  "runtime_expression_has_string_result (StringLiteralExpr _ _ _) s = True"
| "runtime_expression_has_string_result (FieldExpr _ _) s = True"
| "runtime_expression_has_string_result (ArrayIndexExpr _ _ _ _) s = True"
| "runtime_expression_has_string_result (NameExpr name _) s \<longleftrightarrow>
     name = ''FILENAME'' \<or> ls_loop_string_bindings s name \<noteq> None
     \<or> ls_function_param_strings s name \<noteq> None \<or> runtime_name_uses_only_scalar_runtime name s
     \<or> runtime_name_uses_string_slot_runtime name s"
| "runtime_expression_has_string_result (CallExpr function_name _ _) s \<longleftrightarrow>
     ls_function_defs s function_name \<noteq> None \<or> function_name \<in> set STRING_RESULT_BUILTINS"
| "runtime_expression_has_string_result (BinaryExpr _ op _ _) s \<longleftrightarrow> op = OpConcat"
| "runtime_expression_has_string_result (AssignExpr _ _ v _) s = runtime_assignment_preserves_string v s"
| "runtime_expression_has_string_result (ConditionalExpr _ if_true if_false _) s \<longleftrightarrow>
     runtime_expression_has_string_result if_true s \<and> runtime_expression_has_string_result if_false s"
| "runtime_expression_has_string_result _ s = False"

definition expression_forces_string_comparison :: "expr \<Rightarrow> bool" where
  "expression_forces_string_comparison e =
     (case e of
        StringLiteralExpr v _ _ \<Rightarrow> \<not> awk_string_is_numeric v
      | RegexLiteralExpr _ _ \<Rightarrow> True
      | NameExpr name _ \<Rightarrow> name = ''FILENAME''
      | CallExpr function_name _ _ \<Rightarrow> function_name \<in> set STRING_RESULT_BUILTINS
      | BinaryExpr _ op _ _ \<Rightarrow> op = OpConcat
      | _ \<Rightarrow> False)"

definition SIDE_EFFECT_BUILTINS :: "string list" where
  "SIDE_EFFECT_BUILTINS =
     [''split'', ''sub'', ''gsub'', ''close'', ''match'', ''rand'', ''srand'', ''system'']"

fun runtime_expression_has_side_effects :: "expr \<Rightarrow> lowering_state \<Rightarrow> bool" where
  "runtime_expression_has_side_effects (AssignExpr _ _ _ _) s = True"
| "runtime_expression_has_side_effects (UnaryExpr op operand _) s \<longleftrightarrow>
     op \<in> {PreInc, PreDec} \<or> runtime_expression_has_side_effects operand s"
| "runtime_expression_has_side_effects (PostfixExpr _ _ _) s = True"
| "runtime_expression_has_side_effects (CallExpr function_name _ _) s \<longleftrightarrow>
     function_name \<in> set SIDE_EFFECT_BUILTINS \<or> ls_function_defs s function_name \<noteq> None"
| "runtime_expression_has_side_effects (BinaryExpr left _ right _) s \<longleftrightarrow>
     runtime_expression_has_side_effects left s \<or> runtime_expression_has_side_effects right s"
| "runtime_expression_has_side_effects (ConditionalExpr test if_true if_false _) s \<longleftrightarrow>
     runtime_expression_has_side_effects test s \<or> runtime_expression_has_side_effects if_true s
     \<or> runtime_expression_has_side_effects if_false s"
| "runtime_expression_has_side_effects (ArrayIndexExpr _ index extra_indexes _) s \<longleftrightarrow>
     runtime_expression_has_side_effects index s
     \<or> list_ex (\<lambda>i. runtime_expression_has_side_effects i s) extra_indexes"
| "runtime_expression_has_side_effects (FieldExpr (ExprIndex index) _) s \<longleftrightarrow>
     runtime_expression_has_side_effects index s"
| "runtime_expression_has_side_effects _ s = False"

end
