(* ===== verification/Lower_Lvalue.thy ===== *)
theory Lower_Lvalue
  imports Lower_Names
begin

text \<open>
  The lowering functions of \<^verbatim>\<open>src/quawk/backend/lower_lvalue.py\<close>: addresses of variables, string
  constants, function parameters, array keys, fields and the assignment of a string to an lvalue.

  The lowering of expressions is mutually recursive across four files.  Every cycle goes through the
  numeric, the string or the condition lowering of an expression, or the numeric lowering without a
  runtime; these four are the record \<open>lowerers\<close>, which the functions below and in \<open>Lower_Builtins\<close> and
  \<open>Lower_Expr\<close> take as their first argument.
\<close>

record lowerers =
  lw_numeric :: "expr \<Rightarrow> string low"
  lw_string :: "expr \<Rightarrow> string low"
  lw_condition :: "expr \<Rightarrow> string low"
  lw_plain :: "expr \<Rightarrow> string low"

section \<open>Addresses\<close>

text \<open>A zeroed local of the function for the variable.\<close>

definition local_slot :: "string \<Rightarrow> string \<Rightarrow> string low" where
  "local_slot prefix name =
     bindL (next_temp (prefix @ name)) (\<lambda>slot_name.
     bindL (emit_alloca slot_name [Txt ''alloca double'']) (\<lambda>_.
     bindL (emit_entry (store_text ''double'' ZERO slot_name)) (\<lambda>_.
     bindL (modifyL (\<lambda>s. s\<lparr>ls_variable_slots := (ls_variable_slots s)(name \<mapsto> slot_name)\<rparr>)) (\<lambda>_.
       retL slot_name))))"

definition state_field_rhs :: "string \<Rightarrow> int \<Rightarrow> piece list" where
  "state_field_rhs state_ptr i =
     [Txt ''getelementptr inbounds %quawk.state, ptr '', Opd state_ptr,
      Txt ('', i32 0, i32 '' @ int_to_string i)]"

definition variable_address :: "string \<Rightarrow> string low" where
  "variable_address name =
     bindL (getL (\<lambda>s. s)) (\<lambda>s.
       case ls_variable_slots s name of
         Some existing \<Rightarrow> retL existing
       | None \<Rightarrow>
           (case ls_state_param s of
              None \<Rightarrow> local_slot ''var.'' name
            | Some state_ptr \<Rightarrow>
                if runtime_name_uses_local_numeric_storage name s then local_slot ''localvar.'' name
                else case map_of (ls_variable_indexes s) name of
                       None \<Rightarrow> raiseL (RuntimeError (''undefined variable slot in reusable backend: '' @ name))
                     | Some i \<Rightarrow> define_temp (''varptr.'' @ name) (state_field_rhs state_ptr i)))"

text \<open>A string or a Python float, which can be any double when it comes from the command line.\<close>

datatype initial_value = StringValue string | NumberValue "bool \<times> py_float" | NaNValue

definition lower_initial_variables :: "(string \<times> initial_value) list \<Rightarrow> unit low" where
  "lower_initial_variables =
     each_low (\<lambda>(name, v).
       bindL (variable_address name) (\<lambda>slot_name.
         case v of
           StringValue text \<Rightarrow>
             bindL (modifyL (\<lambda>s. s\<lparr>ls_initial_string_values := (ls_initial_string_values s)(name \<mapsto> text)\<rparr>))
               (\<lambda>_. store ''double'' ZERO slot_name)
         | NumberValue number \<Rightarrow> store ''double'' (format_double_literal number) slot_name
         | NaNValue \<Rightarrow> store ''double'' ''nan'' slot_name))"

section \<open>Strings\<close>

definition lower_runtime_constant_string :: "string \<Rightarrow> string low" where
  "lower_runtime_constant_string v =
     bindL (declare_string v) (\<lambda>(global_name, byte_length). gep ''strptr'' byte_length global_name)"

definition lower_runtime_scalar_name :: "string \<Rightarrow> string low" where
  "lower_runtime_scalar_name name = lower_runtime_constant_string name"

text \<open>A call whose first argument is the runtime.\<close>

definition runtime_call :: "string \<Rightarrow> string \<Rightarrow> string \<Rightarrow> (string \<times> string) list \<Rightarrow> string low" where
  "runtime_call prefix ty callee args =
     bindL runtime_param (\<lambda>rt. call prefix ty callee ((''ptr'', rt) # args))"

definition runtime_call_void :: "string \<Rightarrow> (string \<times> string) list \<Rightarrow> unit low" where
  "runtime_call_void callee args = bindL runtime_param (\<lambda>rt. call_void callee ((''ptr'', rt) # args))"

text \<open>The line of a call for a name that was taken before.\<close>

definition define_call :: "string \<Rightarrow> string \<Rightarrow> string \<Rightarrow> (string \<times> string) list \<Rightarrow> unit low" where
  "define_call t ty callee args =
     bindL runtime_param (\<lambda>rt. emit (Def t (call_rhs ty callee ((''ptr'', rt) # args))))"

definition parse_number :: "string \<Rightarrow> string \<Rightarrow> string low" where
  "parse_number prefix ptr = call prefix ''double'' ''@qk_parse_number_text'' [(''ptr'', ptr)]"

definition lower_runtime_string_from_numeric_value :: "string \<Rightarrow> string low" where
  "lower_runtime_string_from_numeric_value numeric_value =
     bindL (next_temp ''numstr'') (\<lambda>formatted.
     bindL (next_temp ''numstr.capture'') (\<lambda>captured.
     bindL (define_call formatted ''ptr'' ''@qk_format_number'' [(''double'', numeric_value)]) (\<lambda>_.
     bindL (define_call captured ''ptr'' ''@qk_capture_string_arg_inline'' [(''ptr'', formatted)]) (\<lambda>_.
       retL captured))))"

definition param_slot :: "string \<Rightarrow> string low" where
  "param_slot name = getL (\<lambda>s. case ls_function_param_strings s name of None \<Rightarrow> [] | Some slot \<Rightarrow> slot)"

definition load_runtime_function_param_string :: "string \<Rightarrow> string low" where
  "load_runtime_function_param_string name =
     bindL (param_slot name) (\<lambda>slot_name. load ''param.str'' ''ptr'' slot_name)"

definition store_runtime_function_param_string :: "string \<Rightarrow> string \<Rightarrow> unit low" where
  "store_runtime_function_param_string name string_value =
     bindL (param_slot name) (\<lambda>slot_name.
     bindL (runtime_call ''param.str.capture'' ''ptr'' ''@qk_capture_string_arg_inline'' [(''ptr'', string_value)])
       (\<lambda>captured_value. store ''ptr'' captured_value slot_name))"

definition lower_runtime_captured_string_expression :: "lowerers \<Rightarrow> expr \<Rightarrow> string low" where
  "lower_runtime_captured_string_expression lw e =
     bindL (lw_string lw e) (\<lambda>string_value.
       runtime_call ''str.capture'' ''ptr'' ''@qk_capture_string_arg_inline'' [(''ptr'', string_value)])"

definition lower_runtime_argument_string :: "lowerers \<Rightarrow> expr \<Rightarrow> string low" where
  "lower_runtime_argument_string lw e =
     bindL (getL (runtime_expression_has_string_result e)) (\<lambda>is_string.
       if is_string then lower_runtime_captured_string_expression lw e
       else bindL (lw_numeric lw e) lower_runtime_string_from_numeric_value)"

definition lower_runtime_string_truthiness :: "lowerers \<Rightarrow> expr \<Rightarrow> string low" where
  "lower_runtime_string_truthiness lw e =
     bindL (lw_string lw e) (\<lambda>string_value.
     bindL (next_temp ''strtruth.char'') (\<lambda>first_char.
     bindL (next_temp ''strtruth'') (\<lambda>truthy.
     bindL (emit_many
       [Def first_char (load_rhs ''i8'' string_value),
        Def truthy (binop_rhs ''icmp ne'' ''i8'' first_char ''0'')]) (\<lambda>_.
       retL truthy))))"

section \<open>Array keys and fields\<close>

definition format_key :: "string \<Rightarrow> string low" where
  "format_key numeric_value =
     runtime_call ''array.key.num'' ''ptr'' ''@qk_format_number'' [(''double'', numeric_value)]"

definition lower_runtime_array_key :: "lowerers \<Rightarrow> expr \<Rightarrow> string low" where
  "lower_runtime_array_key lw e =
     bindL (getL (\<lambda>s. s)) (\<lambda>s.
       let other =
             (if runtime_expression_has_string_result e s then lw_string lw e
              else bindL (lw_numeric lw e) format_key)
       in case e of
            NameExpr name _ \<Rightarrow>
              (case ls_loop_string_bindings s name of Some key \<Rightarrow> retL key | None \<Rightarrow> other)
          | NumericLiteralExpr v _ _ \<Rightarrow> format_key (format_double_literal (False, v))
          | StringLiteralExpr v _ _ \<Rightarrow> lower_runtime_constant_string v
          | _ \<Rightarrow> other)"

fun join_keys :: "lowerers \<Rightarrow> string \<Rightarrow> expr list \<Rightarrow> string \<Rightarrow> string low" where
  "join_keys lw subsep_value [] key_value = retL key_value"
| "join_keys lw subsep_value (subscript # subscripts) key_value =
     bindL (lower_runtime_array_key lw subscript) (\<lambda>right_value.
     bindL (next_temp ''array.key.join'') (\<lambda>joined_value.
     bindL (next_temp ''array.key.join'') (\<lambda>next_key_value.
     bindL (define_call joined_value ''ptr'' ''@qk_concat'' [(''ptr'', key_value), (''ptr'', subsep_value)]) (\<lambda>_.
     bindL (define_call next_key_value ''ptr'' ''@qk_concat'' [(''ptr'', joined_value), (''ptr'', right_value)]) (\<lambda>_.
       join_keys lw subsep_value subscripts next_key_value)))))"

definition lower_runtime_array_subscripts :: "lowerers \<Rightarrow> expr list \<Rightarrow> string low" where
  "lower_runtime_array_subscripts lw subscripts =
     (case subscripts of
        [] \<Rightarrow> raiseL (RuntimeError ''empty array subscript lists are not supported by the runtime-backed backend'')
      | subscript # rest \<Rightarrow>
          bindL (lower_runtime_array_key lw subscript) (\<lambda>key_value.
            if rest = [] then retL key_value
            else
              bindL (lower_runtime_scalar_name ''SUBSEP'') (\<lambda>subsep_name.
              bindL (runtime_call ''array.subsep'' ''ptr'' ''@qk_scalar_get_inline'' [(''ptr'', subsep_name)])
                (\<lambda>subsep_value. join_keys lw subsep_value rest key_value))))"

definition lower_runtime_field_index :: "lowerers \<Rightarrow> field_index \<Rightarrow> string low" where
  "lower_runtime_field_index lw index =
     (case index of
        IntIndex i \<Rightarrow> retL (int_to_string i)
      | ExprIndex e \<Rightarrow>
          bindL (lw_numeric lw e) (\<lambda>numeric_value.
            define_temp ''field.index'' (cast_rhs ''fptosi'' ''double'' numeric_value ''i64'')))"

section \<open>Assigning a string\<close>

definition set_slot_string :: "int \<Rightarrow> string \<Rightarrow> unit low" where
  "set_slot_string slot_index string_value =
     runtime_call_void ''@qk_slot_set_string'' [(''i64'', int_to_string slot_index), (''ptr'', string_value)]"

definition set_scalar_string :: "string \<Rightarrow> string \<Rightarrow> unit low" where
  "set_scalar_string scalar_name string_value =
     runtime_call_void ''@qk_scalar_set_string'' [(''ptr'', scalar_name), (''ptr'', string_value)]"

definition set_array_string :: "string \<Rightarrow> string \<Rightarrow> string \<Rightarrow> unit low" where
  "set_array_string array_name_ptr key_ptr string_value =
     runtime_call_void ''@qk_array_set_string''
       [(''ptr'', array_name_ptr), (''ptr'', key_ptr), (''ptr'', string_value)]"

definition set_field_string :: "string \<Rightarrow> string \<Rightarrow> unit low" where
  "set_field_string index_value string_value =
     runtime_call_void ''@qk_set_field_string'' [(''i64'', index_value), (''ptr'', string_value)]"

definition lower_runtime_assign_string_lvalue :: "lowerers \<Rightarrow> lvalue \<Rightarrow> string \<Rightarrow> unit low" where
  "lower_runtime_assign_string_lvalue lw target string_value =
     bindL assert_runtime (\<lambda>_.
      case target of
        NameLValue name _ \<Rightarrow>
          bindL (getL (\<lambda>s. s)) (\<lambda>s.
            if ls_function_param_strings s name \<noteq> None
            then store_runtime_function_param_string name string_value
            else if runtime_name_uses_string_slot_runtime name s
            then bindL (some_or_assert (runtime_name_slot_index name s)) (\<lambda>slot_index.
                   set_slot_string slot_index string_value)
            else
              bindL (lower_runtime_scalar_name name) (\<lambda>scalar_name.
              bindL (set_scalar_string scalar_name string_value) (\<lambda>_.
                case runtime_name_slot_index name s of
                  None \<Rightarrow> retL ()
                | Some slot_index \<Rightarrow> set_slot_string slot_index string_value)))
      | FieldLValue index _ \<Rightarrow>
          bindL (lower_runtime_field_index lw (ExprIndex index)) (\<lambda>index_value.
            set_field_string index_value string_value)
      | ArrayLValue name subscripts _ \<Rightarrow>
          bindL (lower_runtime_constant_string name) (\<lambda>array_name_ptr.
          bindL (lower_runtime_array_subscripts lw subscripts) (\<lambda>key_ptr.
            set_array_string array_name_ptr key_ptr string_value)))"

end
