(* ===== verification/Lower_Builtins.thy ===== *)
theory Lower_Builtins
  imports Lower_Lvalue
begin

text \<open>
  \<^verbatim>\<open>src/quawk/backend/lower_builtins.py\<close>: one function per builtin of the runtime and the call of a
  user-defined function.  A builtin takes the arguments of the \<open>CallExpr\<close> (and its span, where the code
  uses it).  The regular expression operands of \<open>match\<close>, \<open>sub\<close> and \<open>gsub\<close> come from
  \<^verbatim>\<open>lower_expr.py\<close>.
\<close>

section \<open>Regular expressions\<close>

definition backslash :: char where
  "backslash = CHR 0x5C"

fun decode_regex_body :: "string \<Rightarrow> string" where
  "decode_regex_body [] = []"
| "decode_regex_body [c] = [c]"
| "decode_regex_body (c # escaped # rest) =
     (if c \<noteq> backslash then c # decode_regex_body (escaped # rest)
      else (if escaped = backslash \<or> escaped = CHR ''/'' then [escaped]
            else if escaped = CHR ''n'' then [newline]
            else if escaped = CHR ''t'' then [CHR 0x09]
            else [backslash, escaped]) @ decode_regex_body rest)"

definition decode_regex_literal :: "string \<Rightarrow> string" where
  "decode_regex_literal raw_text = decode_regex_body (butlast (drop 1 raw_text))"

definition lower_runtime_regex_pattern :: "lowerers \<Rightarrow> expr \<Rightarrow> string low" where
  "lower_runtime_regex_pattern lw e =
     (case e of
        RegexLiteralExpr raw_text _ \<Rightarrow> lower_runtime_constant_string (decode_regex_literal raw_text)
      | _ \<Rightarrow> lower_runtime_captured_string_expression lw e)"

section \<open>Numeric builtins\<close>

definition lower_runtime_unary_numeric_builtin :: "lowerers \<Rightarrow> string \<Rightarrow> string \<Rightarrow> expr list \<Rightarrow> string low" where
  "lower_runtime_unary_numeric_builtin lw runtime_function builtin_name args =
     (case args of
        [a] \<Rightarrow>
          bindL (lw_numeric lw a) (\<lambda>operand.
            call (builtin_name @ ''.num'') ''double'' runtime_function [(''double'', operand)])
      | _ \<Rightarrow> raiseL (RuntimeError (''builtin '' @ builtin_name @ '' expects one argument'')))"

definition lower_runtime_binary_numeric_builtin :: "lowerers \<Rightarrow> string \<Rightarrow> string \<Rightarrow> expr list \<Rightarrow> string low" where
  "lower_runtime_binary_numeric_builtin lw runtime_function builtin_name args =
     (case args of
        [a, b] \<Rightarrow>
          bindL (lw_numeric lw a) (\<lambda>left.
          bindL (lw_numeric lw b) (\<lambda>right.
            call (builtin_name @ ''.num'') ''double'' runtime_function [(''double'', left), (''double'', right)]))
      | _ \<Rightarrow> raiseL (RuntimeError (''builtin '' @ builtin_name @ '' expects two arguments'')))"

text \<open>The size of a string as a double.\<close>

definition string_size_lines :: "string \<Rightarrow> string \<Rightarrow> string \<Rightarrow> line list" where
  "string_size_lines size_value numeric_value string_value =
     [Def size_value (call_rhs ''i64'' ''@strlen'' [(''ptr'', string_value)]),
      Def numeric_value (cast_rhs ''uitofp'' ''i64'' size_value ''double'')]"

definition lower_runtime_length_builtin :: "lowerers \<Rightarrow> expr list \<Rightarrow> string low" where
  "lower_runtime_length_builtin lw args =
     bindL assert_runtime (\<lambda>_.
       case args of
         [] \<Rightarrow>
           bindL (next_temp ''length.record'') (\<lambda>field_ptr.
           bindL (next_temp ''length.size'') (\<lambda>size_value.
           bindL (next_temp ''length.num'') (\<lambda>numeric_value.
           bindL (define_call field_ptr ''ptr'' ''@qk_get_field_inline'' [(''i64'', ''0'')]) (\<lambda>_.
           bindL (emit_many (string_size_lines size_value numeric_value field_ptr)) (\<lambda>_.
             retL numeric_value)))))
       | [argument] \<Rightarrow>
           bindL (getL ls_array_names) (\<lambda>array_names.
             let other =
                   bindL (lw_string lw argument) (\<lambda>string_value.
                   bindL (next_temp ''length.size'') (\<lambda>size_value.
                   bindL (next_temp ''length.num'') (\<lambda>numeric_value.
                   bindL (emit_many (string_size_lines size_value numeric_value string_value)) (\<lambda>_.
                     retL numeric_value))))
             in case argument of
                  NameExpr name _ \<Rightarrow>
                    if name \<in> array_names
                    then bindL (lower_runtime_constant_string name) (\<lambda>array_name_ptr.
                           runtime_call ''length.array'' ''double'' ''@qk_array_length'' [(''ptr'', array_name_ptr)])
                    else other
                | _ \<Rightarrow> other)
       | _ \<Rightarrow> raiseL (RuntimeError ''builtin length expects zero or one argument''))"

definition lower_runtime_split_builtin :: "lowerers \<Rightarrow> expr list \<Rightarrow> string low" where
  "lower_runtime_split_builtin lw args =
     bindL assert_runtime (\<lambda>_.
       let lower = (\<lambda>a target separator.
             case target of
               NameExpr name _ \<Rightarrow>
                 bindL (lw_string lw a) (\<lambda>text_ptr.
                 bindL (lower_runtime_constant_string name) (\<lambda>array_name_ptr.
                 bindL separator (\<lambda>separator_ptr.
                   runtime_call ''split'' ''double'' ''@qk_split_into_array''
                     [(''ptr'', text_ptr), (''ptr'', array_name_ptr), (''ptr'', separator_ptr)])))
             | _ \<Rightarrow> raiseL (RuntimeError
                 ''builtin split requires a named array target in the runtime-backed backend''))
       in case args of
            [a, target] \<Rightarrow> lower a target (retL ''null'')
          | [a, target, separator] \<Rightarrow> lower a target (lw_string lw separator)
          | _ \<Rightarrow> raiseL (RuntimeError ''builtin split expects two or three arguments''))"

definition lower_runtime_close_builtin :: "lowerers \<Rightarrow> expr list \<Rightarrow> string low" where
  "lower_runtime_close_builtin lw args =
     bindL assert_runtime (\<lambda>_.
       case args of
         [a] \<Rightarrow>
           bindL (lw_string lw a) (\<lambda>target_ptr.
             runtime_call ''close'' ''double'' ''@qk_close_output'' [(''ptr'', target_ptr)])
       | _ \<Rightarrow> raiseL (RuntimeError ''builtin close expects one argument''))"

definition lower_runtime_index_builtin :: "lowerers \<Rightarrow> expr list \<Rightarrow> string low" where
  "lower_runtime_index_builtin lw args =
     bindL assert_runtime (\<lambda>_.
       case args of
         [a, b] \<Rightarrow>
           bindL (lower_runtime_captured_string_expression lw a) (\<lambda>text_ptr.
           bindL (lower_runtime_captured_string_expression lw b) (\<lambda>search_ptr.
             runtime_call ''index'' ''double'' ''@qk_index'' [(''ptr'', text_ptr), (''ptr'', search_ptr)]))
       | _ \<Rightarrow> raiseL (RuntimeError ''builtin index expects two arguments''))"

definition lower_runtime_match_builtin :: "lowerers \<Rightarrow> expr list \<Rightarrow> string low" where
  "lower_runtime_match_builtin lw args =
     bindL assert_runtime (\<lambda>_.
       case args of
         [a, b] \<Rightarrow>
           bindL (lower_runtime_captured_string_expression lw a) (\<lambda>text_ptr.
           bindL (lower_runtime_regex_pattern lw b) (\<lambda>pattern_ptr.
             runtime_call ''match'' ''double'' ''@qk_match'' [(''ptr'', text_ptr), (''ptr'', pattern_ptr)]))
       | _ \<Rightarrow> raiseL (RuntimeError ''builtin match expects two arguments''))"

definition lower_runtime_rand_builtin :: "expr list \<Rightarrow> string low" where
  "lower_runtime_rand_builtin args =
     bindL assert_runtime (\<lambda>_.
       if args = [] then runtime_call ''rand'' ''double'' ''@qk_rand'' []
       else raiseL (RuntimeError ''builtin rand expects zero arguments''))"

text \<open>The result of \<open>srand\<close> is named before its seed is lowered.\<close>

definition lower_runtime_srand_builtin :: "lowerers \<Rightarrow> expr list \<Rightarrow> string low" where
  "lower_runtime_srand_builtin lw args =
     bindL assert_runtime (\<lambda>_.
       case args of
         [] \<Rightarrow> runtime_call ''srand'' ''double'' ''@qk_srand0'' []
       | [a] \<Rightarrow>
           bindL (next_temp ''srand'') (\<lambda>result.
           bindL (lw_numeric lw a) (\<lambda>seed.
           bindL (define_call result ''double'' ''@qk_srand1'' [(''double'', seed)]) (\<lambda>_.
             retL result)))
       | _ \<Rightarrow> raiseL (RuntimeError ''builtin srand expects zero or one argument''))"

definition lower_runtime_system_builtin :: "lowerers \<Rightarrow> expr list \<Rightarrow> string low" where
  "lower_runtime_system_builtin lw args =
     bindL assert_runtime (\<lambda>_.
       case args of
         [a] \<Rightarrow>
           bindL (lower_runtime_captured_string_expression lw a) (\<lambda>command.
             runtime_call ''system'' ''double'' ''@qk_system'' [(''ptr'', command)])
       | _ \<Rightarrow> raiseL (RuntimeError ''builtin system expects one argument''))"

section \<open>Substitution\<close>

definition bool_text :: "bool \<Rightarrow> string" where
  "bool_text b = (if b then ''true'' else ''false'')"

text \<open>The current value of the third argument, captured.\<close>

definition substitute_target_value :: "lowerers \<Rightarrow> expr \<Rightarrow> lvalue \<Rightarrow> string low" where
  "substitute_target_value lw target_expr target_lvalue =
     (case target_lvalue of
        NameLValue name _ \<Rightarrow> lower_runtime_captured_string_expression lw (NameExpr name (expr_span target_expr))
      | _ \<Rightarrow> lower_runtime_captured_string_expression lw target_expr)"

definition lower_runtime_substitute_builtin ::
  "lowerers \<Rightarrow> bool \<Rightarrow> expr list \<Rightarrow> source_span \<Rightarrow> string low" where
  "lower_runtime_substitute_builtin lw global_replace args sp =
     bindL assert_runtime (\<lambda>_.
       let builtin_name = (if global_replace then ''gsub'' else ''sub'');
           target_expr = (if length args = 3 then args ! 2 else FieldExpr (IntIndex 0) sp)
       in if length args \<notin> {2, 3}
          then raiseL (RuntimeError (''builtin '' @ builtin_name @ '' expects two or three arguments''))
          else
            bindL (lower_runtime_regex_pattern lw (args ! 0)) (\<lambda>pattern_ptr.
            bindL (case args ! 1 of
                     StringLiteralExpr _ _ _ \<Rightarrow> lw_string lw (args ! 1)
                   | _ \<Rightarrow> lower_runtime_captured_string_expression lw (args ! 1)) (\<lambda>replacement_ptr.
            bindL (liftL (expression_to_lvalue target_expr)) (\<lambda>lvalue.
              case lvalue of
                None \<Rightarrow> raiseL (RuntimeError (''builtin '' @ builtin_name @ '' requires an assignable third argument''))
              | Some target_lvalue \<Rightarrow>
                  bindL (if length args = 2
                         then runtime_call ''sub.field0'' ''ptr'' ''@qk_get_field_inline'' [(''i64'', ''0'')]
                         else substitute_target_value lw target_expr target_lvalue) (\<lambda>target_value.
                  bindL (next_temp ''sub.result.slot'') (\<lambda>result_slot.
                  bindL (next_temp ''sub.result.ptr'') (\<lambda>result_ptr.
                  bindL (next_temp ''sub.count'') (\<lambda>count_value.
                  bindL (emit_alloca result_slot [Txt ''alloca ptr'']) (\<lambda>_.
                  bindL (define_call count_value ''double'' ''@qk_substitute''
                           [(''ptr'', pattern_ptr), (''ptr'', replacement_ptr), (''ptr'', target_value),
                            (''i1'', bool_text global_replace), (''ptr'', result_slot)]) (\<lambda>_.
                  bindL (emit (Def result_ptr (load_rhs ''ptr'' result_slot))) (\<lambda>_.
                  bindL (runtime_call ''sub.result.capture'' ''ptr'' ''@qk_capture_string_arg_inline''
                           [(''ptr'', result_ptr)]) (\<lambda>captured_result.
                  bindL (lower_runtime_assign_string_lvalue lw target_lvalue captured_result) (\<lambda>_.
                    retL count_value)))))))))))))"

section \<open>String builtins\<close>

definition lower_runtime_substr_builtin :: "lowerers \<Rightarrow> expr list \<Rightarrow> string low" where
  "lower_runtime_substr_builtin lw args =
     bindL assert_runtime (\<lambda>_.
       if length args \<notin> {2, 3} then raiseL (RuntimeError ''builtin substr expects two or three arguments'')
       else
         bindL (lw_string lw (args ! 0)) (\<lambda>text_ptr.
         bindL (lw_numeric lw (args ! 1)) (\<lambda>start_numeric.
         bindL (define_temp ''substr.start'' (cast_rhs ''fptosi'' ''double'' start_numeric ''i64'')) (\<lambda>start_value.
           if length args = 2
           then runtime_call ''substr'' ''ptr'' ''@qk_substr2'' [(''ptr'', text_ptr), (''i64'', start_value)]
           else
             bindL (lw_numeric lw (args ! 2)) (\<lambda>length_numeric.
             bindL (next_temp ''substr.length'') (\<lambda>length_value.
             bindL (next_temp ''substr'') (\<lambda>result.
             bindL (emit (Def length_value (cast_rhs ''fptosi'' ''double'' length_numeric ''i64''))) (\<lambda>_.
             bindL (define_call result ''ptr'' ''@qk_substr3''
                      [(''ptr'', text_ptr), (''i64'', start_value), (''i64'', length_value)]) (\<lambda>_.
               retL result)))))))))"

definition lower_runtime_case_builtin :: "lowerers \<Rightarrow> bool \<Rightarrow> expr list \<Rightarrow> string low" where
  "lower_runtime_case_builtin lw upper args =
     bindL assert_runtime (\<lambda>_.
       case args of
         [a] \<Rightarrow>
           bindL (lower_runtime_captured_string_expression lw a) (\<lambda>text_ptr.
             runtime_call ''case'' ''ptr'' (if upper then ''@qk_toupper'' else ''@qk_tolower'') [(''ptr'', text_ptr)])
       | _ \<Rightarrow> raiseL (RuntimeError
               (''builtin '' @ (if upper then ''toupper'' else ''tolower'') @ '' expects one argument'')))"

text \<open>The element of an array of operands in the frame of the function.\<close>

definition slot_element_rhs :: "nat \<Rightarrow> string \<Rightarrow> string \<Rightarrow> nat \<Rightarrow> piece list" where
  "slot_element_rhs arg_count ty slot i =
     [Txt (''getelementptr inbounds ['' @ nat_to_string arg_count @ '' x '' @ ty @ ''], ptr ''), Opd slot,
      Txt ('', i32 0, i32 '' @ nat_to_string i)]"

definition array_alloca :: "string \<Rightarrow> nat \<Rightarrow> string \<Rightarrow> unit low" where
  "array_alloca slot arg_count ty =
     emit_alloca slot [Txt (''alloca ['' @ nat_to_string arg_count @ '' x '' @ ty @ '']'')]"

text \<open>The number of an argument: \<open>sprintf\<close> and \<open>printf\<close> catch the \<open>RuntimeError\<close> of an expression that has no
  numeric lowering and read the number from its string.\<close>

definition number_or_parsed :: "lowerers \<Rightarrow> string \<Rightarrow> expr \<Rightarrow> string \<Rightarrow> string low" where
  "number_or_parsed lw prefix argument string_value =
     catch_runtime_error (lw_numeric lw argument) (\<lambda>e.
       bindL (getL (runtime_expression_has_string_result argument)) (\<lambda>is_string.
         if \<not> is_string then raiseL e else parse_number prefix string_value))"

fun sprintf_arguments :: "lowerers \<Rightarrow> nat \<Rightarrow> string \<Rightarrow> string \<Rightarrow> nat \<Rightarrow> expr list \<Rightarrow> unit low" where
  "sprintf_arguments lw arg_count numbers_slot strings_slot i [] = retL ()"
| "sprintf_arguments lw arg_count numbers_slot strings_slot i (argument # arguments) =
     bindL (next_temp ''sprintf.number.ptr'') (\<lambda>number_ptr.
     bindL (next_temp ''sprintf.string.ptr'') (\<lambda>string_ptr.
     bindL (lower_runtime_captured_string_expression lw argument) (\<lambda>string_value.
     bindL (number_or_parsed lw ''sprintf.num.coerce'' argument string_value) (\<lambda>numeric_value.
     bindL (emit_many
       [Def number_ptr (slot_element_rhs arg_count ''double'' numbers_slot i),
        Eff (store_text ''double'' numeric_value number_ptr),
        Def string_ptr (slot_element_rhs arg_count ''ptr'' strings_slot i),
        Eff (store_text ''ptr'' string_value string_ptr)]) (\<lambda>_.
       sprintf_arguments lw arg_count numbers_slot strings_slot (Suc i) arguments)))))"

definition lower_runtime_sprintf_builtin :: "lowerers \<Rightarrow> expr list \<Rightarrow> string low" where
  "lower_runtime_sprintf_builtin lw args =
     bindL assert_runtime (\<lambda>_.
       case args of
         [] \<Rightarrow> raiseL (RuntimeError ''builtin sprintf expects at least a format argument'')
       | format # arguments \<Rightarrow>
           bindL (lower_runtime_captured_string_expression lw format) (\<lambda>format_ptr.
             if arguments = []
             then runtime_call ''sprintf'' ''ptr'' ''@qk_sprintf''
                    [(''ptr'', format_ptr), (''i32'', ''0''), (''ptr'', ''null''), (''ptr'', ''null'')]
             else let arg_count = length arguments in
               bindL (next_temp ''sprintf.numbers'') (\<lambda>numbers_slot.
               bindL (next_temp ''sprintf.strings'') (\<lambda>strings_slot.
               bindL (array_alloca numbers_slot arg_count ''double'') (\<lambda>_.
               bindL (array_alloca strings_slot arg_count ''ptr'') (\<lambda>_.
               bindL (sprintf_arguments lw arg_count numbers_slot strings_slot 0 arguments) (\<lambda>_.
                 runtime_call ''sprintf'' ''ptr'' ''@qk_sprintf''
                   [(''ptr'', format_ptr), (''i32'', nat_to_string arg_count),
                    (''ptr'', numbers_slot), (''ptr'', strings_slot)])))))))"

section \<open>User-defined functions\<close>

definition missing_arguments :: "nat \<Rightarrow> string list low" where
  "missing_arguments n = map_low (\<lambda>_. lower_runtime_constant_string []) (replicate n ())"

definition lower_runtime_user_function_call :: "lowerers \<Rightarrow> string \<Rightarrow> expr list \<Rightarrow> string low" where
  "lower_runtime_user_function_call lw function_name args =
     bindL (getL (\<lambda>s. ls_function_defs s function_name)) (\<lambda>f.
       case f of
         None \<Rightarrow> raiseL (RuntimeError (''unsupported function call in runtime-backed backend: '' @ function_name))
       | Some function_def \<Rightarrow>
           let n_params = length (fd_params function_def) in
           if length args > n_params
           then raiseL (RuntimeError
             (''function '' @ function_name @ '' expects at most '' @ nat_to_string n_params
              @ '' arguments, got '' @ nat_to_string (length args)))
           else
             bindL runtime_param (\<lambda>rt.
             bindL (getL (\<lambda>s. case ls_state_param s of Some p \<Rightarrow> if p = [] then ''null'' else p | None \<Rightarrow> ''null''))
               (\<lambda>state_operand.
             bindL (map_low (lower_runtime_argument_string lw) args) (\<lambda>given.
             bindL (missing_arguments (n_params - length args)) (\<lambda>missing.
               call ''fncall'' ''ptr'' (''@qk_fn_'' @ function_name)
                 ((''ptr'', rt) # (''ptr'', state_operand) # map (\<lambda>v. (''ptr'', v)) (given @ missing)))))))"

end
