(* ===== verification/Lower_Expr.thy ===== *)
theory Lower_Expr
  imports Lower_Builtins
begin

text \<open>
  \<^verbatim>\<open>src/quawk/backend/lower_expr.py\<close>: the lowering of an expression to a number, to a string and to a
  condition, with and without a runtime.  Each function takes the \<open>lowerers\<close> for its recursive calls;
  \<open>Lowering\<close> ties the knot.
\<close>

section \<open>Arithmetic\<close>

definition ONE :: string where
  "ONE = ''1.000000000000000e+00''"

definition is_arithmetic_op :: "binary_op \<Rightarrow> bool" where
  "is_arithmetic_op op \<longleftrightarrow> op \<in> {OpAdd, OpSub, OpMul, OpDiv, OpMod, OpPow}"

definition is_comparison_op :: "binary_op \<Rightarrow> bool" where
  "is_comparison_op op \<longleftrightarrow> op \<in> {OpLess, OpLessEqual, OpGreater, OpGreaterEqual, OpEqual, OpNotEqual}"

text \<open>The remainder: the product of the truncated quotient is subtracted.\<close>

definition mod_lines :: "string \<Rightarrow> string \<Rightarrow> string \<Rightarrow> string \<Rightarrow> string \<Rightarrow> string \<Rightarrow> line list" where
  "mod_lines quot truncated product remainder left right =
     [Def quot (binop_rhs ''fdiv'' ''double'' left right),
      Def truncated (call_rhs ''double'' ''@llvm.trunc.f64'' [(''double'', quot)]),
      Def product (binop_rhs ''fmul'' ''double'' truncated right),
      Def remainder (binop_rhs ''fsub'' ''double'' left product)]"

definition pow_rhs :: "string \<Rightarrow> string \<Rightarrow> piece list" where
  "pow_rhs left right = call_rhs ''double'' ''@llvm.pow.f64'' [(''double'', left), (''double'', right)]"

definition lower_mod :: "string \<Rightarrow> string \<Rightarrow> string low" where
  "lower_mod left right =
     bindL (next_temp ''mod.div'') (\<lambda>quot.
     bindL (next_temp ''mod.trunc'') (\<lambda>truncated.
     bindL (next_temp ''mod.mul'') (\<lambda>product.
     bindL (next_temp ''mod'') (\<lambda>remainder.
     bindL (emit_many (mod_lines quot truncated product remainder left right)) (\<lambda>_.
       retL remainder)))))"

definition lower_arithmetic :: "(expr \<Rightarrow> string low) \<Rightarrow> expr \<Rightarrow> binary_op \<Rightarrow> expr \<Rightarrow> string low" where
  "lower_arithmetic lower left op right =
     bindL (lower left) (\<lambda>left_operand.
     bindL (lower right) (\<lambda>right_operand.
       case op of
         OpAdd \<Rightarrow> binop ''add'' ''fadd'' ''double'' left_operand right_operand
       | OpSub \<Rightarrow> binop ''sub'' ''fsub'' ''double'' left_operand right_operand
       | OpMul \<Rightarrow> binop ''mul'' ''fmul'' ''double'' left_operand right_operand
       | OpDiv \<Rightarrow> binop ''div'' ''fdiv'' ''double'' left_operand right_operand
       | OpMod \<Rightarrow> lower_mod left_operand right_operand
       | _ \<Rightarrow> define_temp ''pow'' (pow_rhs left_operand right_operand)))"

definition bool_to_number :: "string \<Rightarrow> string low" where
  "bool_to_number condition_value =
     define_temp ''boolnum'' (cast_rhs ''uitofp'' ''i1'' condition_value ''double'')"

section \<open>Numbers without a runtime\<close>

text \<open>\<open>BinaryOp.name\<close>.\<close>

fun binary_op_name :: "binary_op \<Rightarrow> string" where
  "binary_op_name OpAdd = ''ADD''"
| "binary_op_name OpSub = ''SUB''"
| "binary_op_name OpMul = ''MUL''"
| "binary_op_name OpDiv = ''DIV''"
| "binary_op_name OpMod = ''MOD''"
| "binary_op_name OpPow = ''POW''"
| "binary_op_name OpLess = ''LESS''"
| "binary_op_name OpLessEqual = ''LESS_EQUAL''"
| "binary_op_name OpGreater = ''GREATER''"
| "binary_op_name OpGreaterEqual = ''GREATER_EQUAL''"
| "binary_op_name OpEqual = ''EQUAL''"
| "binary_op_name OpNotEqual = ''NOT_EQUAL''"
| "binary_op_name OpLogicalAnd = ''LOGICAL_AND''"
| "binary_op_name OpLogicalOr = ''LOGICAL_OR''"
| "binary_op_name OpMatch = ''MATCH''"
| "binary_op_name OpNotMatch = ''NOT_MATCH''"
| "binary_op_name OpIn = ''IN''"
| "binary_op_name OpConcat = ''CONCAT''"

definition lower_plain_call :: "lowerers \<Rightarrow> string \<Rightarrow> expr list \<Rightarrow> string low" where
  "lower_plain_call lw function_name args =
     bindL (getL (\<lambda>s. s)) (\<lambda>s.
       case ls_function_defs s function_name of
         None \<Rightarrow> raiseL (RuntimeError (''unsupported function call in numeric expression: '' @ function_name))
       | Some function_def \<Rightarrow>
           (case ls_state_param s of
              None \<Rightarrow> raiseL (RuntimeError ''user-defined function calls require backend state support'')
            | Some state_operand \<Rightarrow>
                let n_params = length (fd_params function_def) in
                if length args > n_params
                then raiseL (RuntimeError
                  (''function '' @ function_name @ '' expects at most '' @ nat_to_string n_params
                   @ '' arguments, got '' @ nat_to_string (length args)))
                else
                  bindL (map_low (lw_plain lw) args) (\<lambda>given.
                    call ''call'' ''double'' (''@qk_fn_'' @ function_name)
                      ((''ptr'', state_operand)
                       # map (\<lambda>v. (''double'', v)) (given @ replicate (n_params - length args) ZERO)))))"

definition lower_numeric_expression :: "lowerers \<Rightarrow> expr \<Rightarrow> string low" where
  "lower_numeric_expression lw e =
     (case e of
        NumericLiteralExpr v _ _ \<Rightarrow> retL (format_double_literal (False, v))
      | StringLiteralExpr v _ _ \<Rightarrow> retL (format_double_literal (awk_numeric_prefix v))
      | ArrayIndexExpr _ _ _ _ \<Rightarrow>
          raiseL (RuntimeError ''array reads are not supported in the internal non-runtime lowering path'')
      | NameExpr name _ \<Rightarrow>
          bindL (variable_address name) (\<lambda>slot_name. load ''load'' ''double'' slot_name)
      | CallExpr function_name args _ \<Rightarrow> lower_plain_call lw function_name args
      | BinaryExpr left op right _ \<Rightarrow>
          if is_arithmetic_op op then lower_arithmetic (lw_plain lw) left op right
          else if is_comparison_op op \<or> op = OpLogicalAnd \<or> op = OpLogicalOr
          then bindL (lw_condition lw e) bool_to_number
          else raiseL (RuntimeError (''unsupported binary operator in numeric expression: '' @ binary_op_name op))
      | ConditionalExpr test if_true if_false _ \<Rightarrow>
          bindL (lw_condition lw test) (\<lambda>test_value.
          bindL (lw_plain lw if_true) (\<lambda>true_operand.
          bindL (lw_plain lw if_false) (\<lambda>false_operand.
            select ''ternary.num'' test_value ''double'' true_operand false_operand)))
      | _ \<Rightarrow> raiseL (RuntimeError
          ''the internal non-runtime lowering path only supports numeric literals, variable reads, and the current arithmetic/boolean subset''))"

section \<open>Names as numbers\<close>

definition load_numeric_slot :: "string \<Rightarrow> string \<Rightarrow> string low" where
  "load_numeric_slot prefix name =
     bindL (variable_address name) (\<lambda>slot_name. load prefix ''double'' slot_name)"

definition slot_get_number :: "string \<Rightarrow> int \<Rightarrow> string low" where
  "slot_get_number prefix slot_index =
     runtime_call prefix ''double'' ''@qk_slot_get_number'' [(''i64'', int_to_string slot_index)]"

definition scalar_get_number :: "string \<Rightarrow> string \<Rightarrow> string low" where
  "scalar_get_number prefix scalar_name =
     runtime_call prefix ''double'' ''@qk_scalar_get_number_inline'' [(''ptr'', scalar_name)]"

definition slot_set_number :: "int \<Rightarrow> string \<Rightarrow> unit low" where
  "slot_set_number slot_index numeric_value =
     runtime_call_void ''@qk_slot_set_number'' [(''i64'', int_to_string slot_index), (''double'', numeric_value)]"

definition scalar_set_number :: "string \<Rightarrow> string \<Rightarrow> unit low" where
  "scalar_set_number scalar_name numeric_value =
     runtime_call_void ''@qk_scalar_set_number_inline'' [(''ptr'', scalar_name), (''double'', numeric_value)]"

definition array_get_number :: "string \<Rightarrow> string \<Rightarrow> string \<Rightarrow> string low" where
  "array_get_number prefix array_name_ptr key_ptr =
     runtime_call prefix ''double'' ''@qk_array_get_number'' [(''ptr'', array_name_ptr), (''ptr'', key_ptr)]"

definition array_set_number :: "string \<Rightarrow> string \<Rightarrow> string \<Rightarrow> unit low" where
  "array_set_number array_name_ptr key_ptr numeric_value =
     runtime_call_void ''@qk_array_set_number''
       [(''ptr'', array_name_ptr), (''ptr'', key_ptr), (''double'', numeric_value)]"

definition get_field :: "string \<Rightarrow> string \<Rightarrow> string low" where
  "get_field prefix index_value =
     runtime_call prefix ''ptr'' ''@qk_get_field_inline'' [(''i64'', index_value)]"

definition set_field_number :: "string \<Rightarrow> string \<Rightarrow> unit low" where
  "set_field_number index_value numeric_value =
     runtime_call_void ''@qk_set_field_number'' [(''i64'', index_value), (''double'', numeric_value)]"

definition lower_runtime_numeric_name :: "string \<Rightarrow> string low" where
  "lower_runtime_numeric_name name =
     (if name = ''NR'' then runtime_call ''nr'' ''double'' ''@qk_get_nr_inline'' []
      else if name = ''FNR'' then runtime_call ''fnr'' ''double'' ''@qk_get_fnr_inline'' []
      else if name = ''NF'' then runtime_call ''nf'' ''double'' ''@qk_get_nf_inline'' []
      else
        bindL (getL (\<lambda>s. s)) (\<lambda>s.
          if ls_function_param_strings s name \<noteq> None
          then bindL (load_runtime_function_param_string name) (parse_number ''param.num'')
          else if is_state_name name then load_numeric_slot ''load'' name
          else if runtime_name_uses_numeric_slot_state name s then load_numeric_slot ''slot.num'' name
          else if runtime_name_uses_slot_cached_runtime name s
          then bindL (some_or_assert (runtime_name_slot_index name s)) (slot_get_number ''slot.num'')
          else bindL (lower_runtime_scalar_name name) (scalar_get_number ''scalar.num'')))"

section \<open>Assignments as numbers\<close>

definition combine_numeric_assignment :: "assign_op \<Rightarrow> string \<Rightarrow> string \<Rightarrow> string low" where
  "combine_numeric_assignment op current_value update_value =
     (if op = AssignPlain then retL update_value
      else
        bindL (next_temp ''assign.op'') (\<lambda>result.
        bindL (case op of
                 AssignAdd \<Rightarrow> emit (Def result (binop_rhs ''fadd'' ''double'' current_value update_value))
               | AssignSub \<Rightarrow> emit (Def result (binop_rhs ''fsub'' ''double'' current_value update_value))
               | AssignMul \<Rightarrow> emit (Def result (binop_rhs ''fmul'' ''double'' current_value update_value))
               | AssignDiv \<Rightarrow> emit (Def result (binop_rhs ''fdiv'' ''double'' current_value update_value))
               | AssignMod \<Rightarrow>
                   bindL (next_temp ''assign.mod.div'') (\<lambda>quot.
                   bindL (next_temp ''assign.mod.trunc'') (\<lambda>truncated.
                   bindL (next_temp ''assign.mod.mul'') (\<lambda>product.
                     emit_many (mod_lines quot truncated product result current_value update_value))))
               | _ \<Rightarrow> emit (Def result (pow_rhs current_value update_value))) (\<lambda>_.
          retL result)))"

text \<open>Whether an assignment stores the string of its value.\<close>

definition stores_string :: "assign_op \<Rightarrow> expr \<Rightarrow> lowering_state \<Rightarrow> bool" where
  "stores_string op v s \<longleftrightarrow> op = AssignPlain \<and> runtime_assignment_preserves_string v s"

definition assign_field_number :: "lowerers \<Rightarrow> expr \<Rightarrow> assign_op \<Rightarrow> expr \<Rightarrow> string low" where
  "assign_field_number lw index op v =
     bindL (lower_runtime_field_index lw (ExprIndex index)) (\<lambda>index_value.
     bindL assert_runtime (\<lambda>_.
     bindL (getL (stores_string op v)) (\<lambda>is_string.
       if is_string
       then raiseL (RuntimeError
         ''string-valued field assignment expressions are not supported yet in runtime-backed backend'')
       else
         bindL (next_temp ''field.current'') (\<lambda>current_field.
         bindL (next_temp ''field.current.num'') (\<lambda>current_value.
         bindL (define_call current_field ''ptr'' ''@qk_get_field_inline'' [(''i64'', index_value)]) (\<lambda>_.
         bindL (emit (Def current_value
                  (call_rhs ''double'' ''@qk_parse_number_text'' [(''ptr'', current_field)]))) (\<lambda>_.
         bindL (lw_numeric lw v) (\<lambda>update_value.
         bindL (combine_numeric_assignment op current_value update_value) (\<lambda>numeric_value.
         bindL (set_field_number index_value numeric_value) (\<lambda>_.
           retL numeric_value))))))))))"

definition assign_array_number :: "lowerers \<Rightarrow> string \<Rightarrow> expr list \<Rightarrow> assign_op \<Rightarrow> expr \<Rightarrow> string low" where
  "assign_array_number lw name subscripts op v =
     bindL assert_runtime (\<lambda>_.
     bindL (lower_runtime_constant_string name) (\<lambda>array_name_ptr.
     bindL (lower_runtime_array_subscripts lw subscripts) (\<lambda>key_ptr.
     bindL (getL (stores_string op v)) (\<lambda>is_string.
       if is_string
       then raiseL (RuntimeError
         ''string-valued array assignment expressions are not supported yet in runtime-backed backend'')
       else
         bindL (array_get_number ''array.current.num'' array_name_ptr key_ptr) (\<lambda>current_value.
         bindL (lw_numeric lw v) (\<lambda>update_value.
         bindL (combine_numeric_assignment op current_value update_value) (\<lambda>numeric_value.
         bindL (array_set_number array_name_ptr key_ptr numeric_value) (\<lambda>_.
           retL numeric_value))))))))"

text \<open>A parameter of the function being lowered.\<close>

definition assign_param_number :: "lowerers \<Rightarrow> string \<Rightarrow> assign_op \<Rightarrow> expr \<Rightarrow> string low" where
  "assign_param_number lw name op v =
     bindL (getL (stores_string op v)) (\<lambda>is_string.
       if is_string
       then
         bindL (lw_string lw v) (\<lambda>string_value.
         bindL (store_runtime_function_param_string name string_value) (\<lambda>_.
         bindL (next_temp ''assign.param.num'') (\<lambda>numeric_value.
         bindL (load_runtime_function_param_string name) (\<lambda>stored_value.
         bindL (emit (Def numeric_value
                  (call_rhs ''double'' ''@qk_parse_number_text'' [(''ptr'', stored_value)]))) (\<lambda>_.
           retL numeric_value)))))
       else
         bindL (load_runtime_function_param_string name) (\<lambda>current_ptr.
         bindL (parse_number ''param.current.num'' current_ptr) (\<lambda>current_value.
         bindL (lw_numeric lw v) (\<lambda>update_value.
         bindL (combine_numeric_assignment op current_value update_value) (\<lambda>numeric_value.
         bindL (lower_runtime_string_from_numeric_value numeric_value) (\<lambda>string_value.
         bindL (store_runtime_function_param_string name string_value) (\<lambda>_.
           retL numeric_value)))))))"

text \<open>A name whose value is a double in the state record or in the frame.\<close>

definition assign_numeric_slot :: "lowerers \<Rightarrow> string \<Rightarrow> assign_op \<Rightarrow> expr \<Rightarrow> string low" where
  "assign_numeric_slot lw name op v =
     bindL (variable_address name) (\<lambda>slot_name.
     bindL (load ''state.current'' ''double'' slot_name) (\<lambda>current_value.
     bindL (lw_numeric lw v) (\<lambda>update_value.
     bindL (combine_numeric_assignment op current_value update_value) (\<lambda>numeric_value.
     bindL (store ''double'' numeric_value slot_name) (\<lambda>_.
       retL numeric_value)))))"

definition is_scalar_copy :: "string \<Rightarrow> assign_op \<Rightarrow> expr \<Rightarrow> lowering_state \<Rightarrow> string option" where
  "is_scalar_copy name op v s =
     (case v of
        NameExpr source _ \<Rightarrow>
          if op = AssignPlain \<and> runtime_name_uses_scalar_runtime source s
             \<and> \<not> runtime_name_uses_local_numeric_storage source s
             \<and> \<not> runtime_name_uses_string_slot_runtime name s
          then Some source else None
      | _ \<Rightarrow> None)"

definition copy_scalar :: "string \<Rightarrow> int option \<Rightarrow> string \<Rightarrow> string low" where
  "copy_scalar scalar_name slot_index source =
     bindL (lower_runtime_scalar_name source) (\<lambda>source_name.
     bindL (runtime_call_void ''@qk_scalar_copy'' [(''ptr'', scalar_name), (''ptr'', source_name)]) (\<lambda>_.
     bindL (getL (runtime_name_slot_index source)) (\<lambda>source_slot_index.
       case (slot_index, source_slot_index) of
         (Some target_slot, Some source_slot) \<Rightarrow>
           bindL (slot_get_number ''assign.copy.slot'' source_slot) (\<lambda>numeric_value.
           bindL (slot_set_number target_slot numeric_value) (\<lambda>_.
             retL numeric_value))
       | _ \<Rightarrow> scalar_get_number ''assign.copy.num'' scalar_name)))"

definition assign_scalar_string :: "lowerers \<Rightarrow> string \<Rightarrow> string \<Rightarrow> int option \<Rightarrow> expr \<Rightarrow> string low" where
  "assign_scalar_string lw name scalar_name slot_index v =
     bindL (lw_string lw v) (\<lambda>string_value.
     bindL (getL (runtime_name_uses_string_slot_runtime name)) (\<lambda>string_slot.
       if string_slot
       then
         bindL (some_or_assert slot_index) (\<lambda>target_slot.
         bindL (set_slot_string target_slot string_value) (\<lambda>_.
         bindL (parse_number ''assign.str.num'' string_value) (\<lambda>numeric_value.
         bindL (slot_set_number target_slot numeric_value) (\<lambda>_.
           retL numeric_value))))
       else
         bindL (set_scalar_string scalar_name string_value) (\<lambda>_.
           case slot_index of
             Some target_slot \<Rightarrow>
               bindL (parse_number ''assign.str.slot'' string_value) (\<lambda>numeric_value.
               bindL (slot_set_number target_slot numeric_value) (\<lambda>_.
                 retL numeric_value))
           | None \<Rightarrow> scalar_get_number ''assign.str.num'' scalar_name)))"

text \<open>The current value of a scalar, and its update in the slot (if it is cached there) and by name.\<close>

definition scalar_current_lines :: "string \<Rightarrow> string \<Rightarrow> string \<Rightarrow> int option \<Rightarrow> unit low" where
  "scalar_current_lines t name scalar_name slot_index =
     bindL (getL (runtime_name_uses_slot_cached_runtime name)) (\<lambda>cached.
       if cached
       then bindL (some_or_assert slot_index) (\<lambda>i.
              define_call t ''double'' ''@qk_slot_get_number'' [(''i64'', int_to_string i)])
       else define_call t ''double'' ''@qk_scalar_get_number_inline'' [(''ptr'', scalar_name)])"

definition scalar_update :: "string \<Rightarrow> string \<Rightarrow> int option \<Rightarrow> string \<Rightarrow> unit low" where
  "scalar_update name scalar_name slot_index numeric_value =
     bindL (getL (runtime_name_uses_slot_cached_runtime name)) (\<lambda>cached.
     bindL (if cached then bindL (some_or_assert slot_index) (\<lambda>i. slot_set_number i numeric_value)
            else retL ()) (\<lambda>_.
       scalar_set_number scalar_name numeric_value))"

definition assign_scalar_number :: "lowerers \<Rightarrow> string \<Rightarrow> string \<Rightarrow> int option \<Rightarrow> assign_op \<Rightarrow> expr \<Rightarrow> string low" where
  "assign_scalar_number lw name scalar_name slot_index op v =
     bindL (next_temp ''scalar.current'') (\<lambda>current_value.
     bindL (scalar_current_lines current_value name scalar_name slot_index) (\<lambda>_.
     bindL (lw_numeric lw v) (\<lambda>update_value.
     bindL (combine_numeric_assignment op current_value update_value) (\<lambda>numeric_value.
     bindL (scalar_update name scalar_name slot_index numeric_value) (\<lambda>_.
       retL numeric_value)))))"

definition assign_scalar :: "lowerers \<Rightarrow> string \<Rightarrow> assign_op \<Rightarrow> expr \<Rightarrow> string low" where
  "assign_scalar lw name op v =
     bindL (getL (runtime_name_slot_index name)) (\<lambda>slot_index.
     bindL (lower_runtime_scalar_name name) (\<lambda>scalar_name.
     bindL (getL (\<lambda>s. s)) (\<lambda>s.
       case is_scalar_copy name op v s of
         Some source \<Rightarrow> copy_scalar scalar_name slot_index source
       | None \<Rightarrow>
           if stores_string op v s then assign_scalar_string lw name scalar_name slot_index v
           else assign_scalar_number lw name scalar_name slot_index op v)))"

definition lower_runtime_assignment_expression :: "lowerers \<Rightarrow> lvalue \<Rightarrow> assign_op \<Rightarrow> expr \<Rightarrow> string low" where
  "lower_runtime_assignment_expression lw target op v =
     (case target of
        FieldLValue index _ \<Rightarrow> assign_field_number lw index op v
      | ArrayLValue name subscripts _ \<Rightarrow> assign_array_number lw name subscripts op v
      | NameLValue name _ \<Rightarrow>
          bindL (getL (\<lambda>s. s)) (\<lambda>s.
            if ls_function_param_strings s name \<noteq> None then assign_param_number lw name op v
            else if is_state_name name \<or> runtime_name_uses_numeric_slot_state name s
            then assign_numeric_slot lw name op v
            else assign_scalar lw name op v))"

section \<open>Increments\<close>

definition step_rhs :: "bool \<Rightarrow> string \<Rightarrow> piece list" where
  "step_rhs up old_value = binop_rhs (if up then ''fadd'' else ''fsub'') ''double'' old_value ONE"

definition increment_param :: "bool \<Rightarrow> bool \<Rightarrow> string \<Rightarrow> string low" where
  "increment_param up return_old name =
     bindL (load_runtime_function_param_string name) (\<lambda>current_ptr.
     bindL (next_temp ''inc.old'') (\<lambda>old_value.
     bindL (next_temp ''inc.new'') (\<lambda>new_value.
     bindL (emit_many
       [Def old_value (call_rhs ''double'' ''@qk_parse_number_text'' [(''ptr'', current_ptr)]),
        Def new_value (step_rhs up old_value)]) (\<lambda>_.
     bindL (lower_runtime_string_from_numeric_value new_value) (\<lambda>string_value.
     bindL (store_runtime_function_param_string name string_value) (\<lambda>_.
       retL (if return_old then old_value else new_value)))))))"

definition increment_numeric_slot :: "bool \<Rightarrow> bool \<Rightarrow> string \<Rightarrow> string low" where
  "increment_numeric_slot up return_old name =
     bindL (variable_address name) (\<lambda>slot_name.
     bindL (next_temp ''inc.old'') (\<lambda>old_value.
     bindL (next_temp ''inc.new'') (\<lambda>new_value.
     bindL (emit_many
       [Def old_value (load_rhs ''double'' slot_name), Def new_value (step_rhs up old_value),
        Eff (store_text ''double'' new_value slot_name)]) (\<lambda>_.
       retL (if return_old then old_value else new_value)))))"

definition increment_scalar :: "bool \<Rightarrow> bool \<Rightarrow> string \<Rightarrow> string low" where
  "increment_scalar up return_old name =
     bindL (getL (runtime_name_slot_index name)) (\<lambda>slot_index.
     bindL (lower_runtime_scalar_name name) (\<lambda>scalar_name.
     bindL (next_temp ''inc.old'') (\<lambda>old_value.
     bindL (next_temp ''inc.new'') (\<lambda>new_value.
     bindL (scalar_current_lines old_value name scalar_name slot_index) (\<lambda>_.
     bindL (emit (Def new_value (step_rhs up old_value))) (\<lambda>_.
     bindL (scalar_update name scalar_name slot_index new_value) (\<lambda>_.
       retL (if return_old then old_value else new_value))))))))"

definition increment_field :: "lowerers \<Rightarrow> bool \<Rightarrow> bool \<Rightarrow> field_index \<Rightarrow> string low" where
  "increment_field lw up return_old index =
     bindL (lower_runtime_field_index lw index) (\<lambda>index_value.
     bindL (next_temp ''inc.field'') (\<lambda>old_text.
     bindL (next_temp ''inc.old'') (\<lambda>old_value.
     bindL (next_temp ''inc.new'') (\<lambda>new_value.
     bindL (define_call old_text ''ptr'' ''@qk_get_field_inline'' [(''i64'', index_value)]) (\<lambda>_.
     bindL (emit_many
       [Def old_value (call_rhs ''double'' ''@qk_parse_number_text'' [(''ptr'', old_text)]),
        Def new_value (step_rhs up old_value)]) (\<lambda>_.
     bindL (set_field_number index_value new_value) (\<lambda>_.
       retL (if return_old then old_value else new_value))))))))"

definition increment_array :: "lowerers \<Rightarrow> bool \<Rightarrow> bool \<Rightarrow> string \<Rightarrow> expr list \<Rightarrow> string low" where
  "increment_array lw up return_old array_name subscripts =
     bindL (lower_runtime_constant_string array_name) (\<lambda>array_name_ptr.
     bindL (lower_runtime_array_subscripts lw subscripts) (\<lambda>key_ptr.
     bindL (next_temp ''inc.old'') (\<lambda>old_value.
     bindL (next_temp ''inc.new'') (\<lambda>new_value.
     bindL (define_call old_value ''double'' ''@qk_array_get_number''
              [(''ptr'', array_name_ptr), (''ptr'', key_ptr)]) (\<lambda>_.
     bindL (emit (Def new_value (step_rhs up old_value))) (\<lambda>_.
     bindL (array_set_number array_name_ptr key_ptr new_value) (\<lambda>_.
       retL (if return_old then old_value else new_value))))))))"

definition lower_runtime_increment_expression :: "lowerers \<Rightarrow> expr \<Rightarrow> bool \<Rightarrow> bool \<Rightarrow> string low" where
  "lower_runtime_increment_expression lw operand up return_old =
     (case operand of
        NameExpr name _ \<Rightarrow>
          bindL (getL (\<lambda>s. s)) (\<lambda>s.
            if ls_function_param_strings s name \<noteq> None then increment_param up return_old name
            else if is_state_name name \<or> runtime_name_uses_numeric_slot_state name s
            then increment_numeric_slot up return_old name
            else increment_scalar up return_old name)
      | FieldExpr index _ \<Rightarrow> increment_field lw up return_old index
      | ArrayIndexExpr array_name index extra_indexes _ \<Rightarrow>
          increment_array lw up return_old array_name (index # extra_indexes)
      | _ \<Rightarrow> raiseL (RuntimeError ''unsupported increment/decrement target in runtime-backed backend''))"

end
