(* ===== verification/Lowering.thy ===== *)
theory Lowering
  imports Lower_Expr
begin

text \<open>
  The second half of \<^verbatim>\<open>src/quawk/backend/lower_expr.py\<close>: strings, \<open>getline\<close>, conditional expressions,
  conditions and the dispatch of the numeric lowering, and the knot that closes the recursion.
\<close>

section \<open>Strings\<close>

definition format_number :: "string \<Rightarrow> string \<Rightarrow> string low" where
  "format_number prefix numeric_value =
     runtime_call prefix ''ptr'' ''@qk_format_number'' [(''double'', numeric_value)]"

definition numeric_as_string :: "lowerers \<Rightarrow> expr \<Rightarrow> string low" where
  "numeric_as_string lw e = bindL (lw_numeric lw e) (format_number ''numstr'')"

definition slot_get_string :: "string \<Rightarrow> int \<Rightarrow> string low" where
  "slot_get_string prefix slot_index =
     runtime_call prefix ''ptr'' ''@qk_slot_get_string'' [(''i64'', int_to_string slot_index)]"

definition scalar_get_string :: "string \<Rightarrow> string \<Rightarrow> string low" where
  "scalar_get_string prefix scalar_name =
     runtime_call prefix ''ptr'' ''@qk_scalar_get_inline'' [(''ptr'', scalar_name)]"

definition array_get_string :: "string \<Rightarrow> string \<Rightarrow> string \<Rightarrow> string low" where
  "array_get_string prefix array_name_ptr key_ptr =
     runtime_call prefix ''ptr'' ''@qk_array_get'' [(''ptr'', array_name_ptr), (''ptr'', key_ptr)]"

definition lower_runtime_string_name :: "lowerers \<Rightarrow> expr \<Rightarrow> string \<Rightarrow> string low" where
  "lower_runtime_string_name lw e name =
     bindL (getL (\<lambda>s. s)) (\<lambda>s.
       case ls_loop_string_bindings s name of
         Some binding \<Rightarrow> retL binding
       | None \<Rightarrow>
           if ls_function_param_strings s name \<noteq> None then load_runtime_function_param_string name
           else if name = ''FILENAME'' then runtime_call ''filename'' ''ptr'' ''@qk_get_filename_inline'' []
           else if runtime_name_uses_slot_cached_runtime name s
           then bindL (some_or_assert (runtime_name_slot_index name s)) (slot_get_string ''slot.str'')
           else if runtime_name_uses_only_scalar_runtime name s
           then bindL (lower_runtime_scalar_name name) (scalar_get_string ''scalar.str'')
           else numeric_as_string lw e)"

text \<open>A plain assignment whose value is a string.  When the value is not a string no case of the inner
  \<open>match\<close> applies and the final \<open>return temp\<close> reads a local that was never bound.\<close>

definition assign_field_string :: "lowerers \<Rightarrow> expr \<Rightarrow> expr \<Rightarrow> string low" where
  "assign_field_string lw index v =
     bindL (lower_runtime_field_index lw (ExprIndex index)) (\<lambda>field_index.
     bindL (lw_string lw v) (\<lambda>string_value.
     bindL (set_field_string field_index string_value) (\<lambda>_.
       get_field ''assign.field.str'' field_index)))"

definition assign_array_string :: "lowerers \<Rightarrow> string \<Rightarrow> expr list \<Rightarrow> expr \<Rightarrow> string low" where
  "assign_array_string lw name subscripts v =
     bindL (lower_runtime_constant_string name) (\<lambda>array_name_ptr.
     bindL (lower_runtime_array_subscripts lw subscripts) (\<lambda>key_ptr.
     bindL (lw_string lw v) (\<lambda>string_value.
     bindL (set_array_string array_name_ptr key_ptr string_value) (\<lambda>_.
       array_get_string ''assign.array.str'' array_name_ptr key_ptr))))"

definition assign_name_string :: "lowerers \<Rightarrow> string \<Rightarrow> expr \<Rightarrow> string low" where
  "assign_name_string lw name v =
     bindL (getL (\<lambda>s. s)) (\<lambda>s.
       if ls_function_param_strings s name \<noteq> None
       then
         bindL (lw_string lw v) (\<lambda>string_value.
         bindL (store_runtime_function_param_string name string_value) (\<lambda>_.
           load_runtime_function_param_string name))
       else if is_state_name name
       then raiseL (RuntimeError
         ''string-valued assignment expressions are not supported for reusable numeric state'')
       else let slot_index = runtime_name_slot_index name s in
         bindL (lw_string lw v) (\<lambda>string_value.
         bindL (getL (runtime_name_uses_string_slot_runtime name)) (\<lambda>string_slot.
           if string_slot
           then
             bindL (some_or_assert slot_index) (\<lambda>i.
             bindL (set_slot_string i string_value) (\<lambda>_.
               slot_get_string ''assign.str'' i))
           else
             bindL (lower_runtime_scalar_name name) (\<lambda>scalar_name.
             bindL (set_scalar_string scalar_name string_value) (\<lambda>_.
             bindL (case slot_index of None \<Rightarrow> retL () | Some i \<Rightarrow> set_slot_string i string_value) (\<lambda>_.
             bindL (next_temp ''assign.str'') (\<lambda>stored_value.
             bindL (getL (runtime_name_uses_slot_cached_runtime name)) (\<lambda>cached.
             bindL (if cached
                    then bindL (some_or_assert slot_index) (\<lambda>i.
                           define_call stored_value ''ptr'' ''@qk_slot_get_string'' [(''i64'', int_to_string i)])
                    else define_call stored_value ''ptr'' ''@qk_scalar_get_inline'' [(''ptr'', scalar_name)]) (\<lambda>_.
               retL stored_value)))))))))"

definition lower_string_assignment :: "lowerers \<Rightarrow> lvalue \<Rightarrow> expr \<Rightarrow> string low" where
  "lower_string_assignment lw target v =
     bindL (getL (runtime_assignment_preserves_string v)) (\<lambda>preserves.
       if \<not> preserves
       then raiseL (UnboundLocalError
         ''cannot access local variable 'temp' where it is not associated with a value'')
       else case target of
              FieldLValue index _ \<Rightarrow> assign_field_string lw index v
            | ArrayLValue name subscripts _ \<Rightarrow> assign_array_string lw name subscripts v
            | NameLValue name _ \<Rightarrow> assign_name_string lw name v)"

definition is_binary :: "expr \<Rightarrow> bool" where
  "is_binary e = (case e of BinaryExpr _ _ _ _ \<Rightarrow> True | _ \<Rightarrow> False)"

definition lower_concat :: "lowerers \<Rightarrow> expr \<Rightarrow> expr \<Rightarrow> string low" where
  "lower_concat lw left right =
     bindL (getL (\<lambda>s. runtime_expression_is_known_string left s \<and> runtime_expression_is_known_string right s
                       \<and> \<not> is_binary left \<and> \<not> is_binary right)) (\<lambda>uncaptured.
     let lower = (if uncaptured then lw_string lw else lower_runtime_captured_string_expression lw) in
     bindL (lower left) (\<lambda>left_value.
     bindL (lower right) (\<lambda>right_value.
       runtime_call ''concat'' ''ptr'' ''@qk_concat'' [(''ptr'', left_value), (''ptr'', right_value)])))"

section \<open>Conditional expressions\<close>

text \<open>Both branches in blocks of their own; each result is taken from its branch label.\<close>

definition lower_branches ::
  "lowerers \<Rightarrow> string \<Rightarrow> string \<Rightarrow> string \<Rightarrow> (expr \<Rightarrow> string low) \<Rightarrow> expr \<Rightarrow> expr \<Rightarrow> expr \<Rightarrow> string low" where
  "lower_branches lw label_prefix phi_prefix ty lower test if_true if_false =
     bindL (lw_condition lw test) (\<lambda>test_value.
     bindL (next_label (label_prefix @ ''.true'')) (\<lambda>true_label.
     bindL (next_label (label_prefix @ ''.false'')) (\<lambda>false_label.
     bindL (next_label (label_prefix @ ''.end'')) (\<lambda>end_label.
     bindL (cond_branch test_value true_label false_label) (\<lambda>_.
     bindL (mark_label true_label) (\<lambda>_.
     bindL (lower if_true) (\<lambda>true_operand.
     bindL (branch end_label) (\<lambda>_.
     bindL (mark_label false_label) (\<lambda>_.
     bindL (lower if_false) (\<lambda>false_operand.
     bindL (branch end_label) (\<lambda>_.
     bindL (mark_label end_label) (\<lambda>_.
       phi phi_prefix ty [(true_operand, true_label), (false_operand, false_label)]))))))))))))"

definition lower_runtime_numeric_conditional_expression :: "lowerers \<Rightarrow> expr \<Rightarrow> expr \<Rightarrow> expr \<Rightarrow> string low" where
  "lower_runtime_numeric_conditional_expression lw =
     lower_branches lw ''ternary'' ''ternary.num'' ''double'' (lw_numeric lw)"

definition lower_runtime_condition_conditional_expression :: "lowerers \<Rightarrow> expr \<Rightarrow> expr \<Rightarrow> expr \<Rightarrow> string low" where
  "lower_runtime_condition_conditional_expression lw =
     lower_branches lw ''cond'' ''cond'' ''i1'' (lw_condition lw)"

definition lower_runtime_string_conditional_expression :: "lowerers \<Rightarrow> expr \<Rightarrow> expr \<Rightarrow> expr \<Rightarrow> string low" where
  "lower_runtime_string_conditional_expression lw test if_true if_false =
     bindL assert_runtime (\<lambda>_.
       lower_branches lw ''ternary'' ''ternary.str'' ''ptr''
         (\<lambda>e. bindL (lw_string lw e) (\<lambda>string_value.
            runtime_call ''ternary.str.capture'' ''ptr'' ''@qk_capture_string_arg_inline'' [(''ptr'', string_value)]))
         test if_true if_false)"

definition lower_runtime_string_expression :: "lowerers \<Rightarrow> expr \<Rightarrow> string low" where
  "lower_runtime_string_expression lw e =
     bindL assert_runtime (\<lambda>_.
       case e of
         StringLiteralExpr v _ _ \<Rightarrow> lower_runtime_constant_string v
       | NameExpr name _ \<Rightarrow> lower_runtime_string_name lw e name
       | FieldExpr index _ \<Rightarrow> bindL (lower_runtime_field_index lw index) (get_field ''field'')
       | ArrayIndexExpr array_name index extra_indexes _ \<Rightarrow>
           bindL (lower_runtime_constant_string array_name) (\<lambda>array_name_ptr.
           bindL (lower_runtime_array_subscripts lw (index # extra_indexes)) (\<lambda>key_ptr.
             array_get_string ''array.get'' array_name_ptr key_ptr))
       | AssignExpr target op v _ \<Rightarrow>
           if op = AssignPlain then lower_string_assignment lw target v else numeric_as_string lw e
       | CallExpr function_name args _ \<Rightarrow>
           bindL (getL ls_function_defs) (\<lambda>function_defs.
             if function_name = ''substr'' then lower_runtime_substr_builtin lw args
             else if function_name = ''sprintf'' then lower_runtime_sprintf_builtin lw args
             else if function_name = ''length'' then numeric_as_string lw e
             else if function_defs function_name \<noteq> None
             then lower_runtime_user_function_call lw function_name args
             else if function_name = ''tolower'' then lower_runtime_case_builtin lw False args
             else if function_name = ''toupper'' then lower_runtime_case_builtin lw True args
             else numeric_as_string lw e)
       | BinaryExpr left op right _ \<Rightarrow>
           if op = OpConcat then lower_concat lw left right else numeric_as_string lw e
       | ConditionalExpr test if_true if_false _ \<Rightarrow>
           lower_runtime_string_conditional_expression lw test if_true if_false
       | _ \<Rightarrow> numeric_as_string lw e)"

section \<open>Matching, membership and \<open>getline\<close>\<close>

definition lower_runtime_match_operator :: "lowerers \<Rightarrow> expr \<Rightarrow> binary_op \<Rightarrow> expr \<Rightarrow> string low" where
  "lower_runtime_match_operator lw left op right =
     bindL assert_runtime (\<lambda>_.
     bindL (lower_runtime_captured_string_expression lw left) (\<lambda>left_ptr.
     bindL (lower_runtime_regex_pattern lw right) (\<lambda>pattern_ptr.
     bindL (call ''match'' ''i1'' ''@qk_regex_match_text'' [(''ptr'', left_ptr), (''ptr'', pattern_ptr)])
       (\<lambda>match_result.
         if op = OpMatch then retL match_result
         else define_temp ''notmatch'' (binop_rhs ''xor'' ''i1'' match_result ''true'')))))"

definition lower_runtime_in_expression :: "lowerers \<Rightarrow> expr \<Rightarrow> expr \<Rightarrow> string low" where
  "lower_runtime_in_expression lw left right =
     bindL assert_runtime (\<lambda>_.
       case right of
         NameExpr name _ \<Rightarrow>
           bindL (lower_runtime_constant_string name) (\<lambda>array_name_ptr.
           bindL (lower_runtime_captured_string_expression lw left) (\<lambda>key_ptr.
             runtime_call ''contains'' ''i1'' ''@qk_array_contains'' [(''ptr'', array_name_ptr), (''ptr'', key_ptr)]))
       | _ \<Rightarrow> raiseL (RuntimeError ''the runtime-backed backend only supports `in` against a named array''))"

definition getline_into :: "lowerers \<Rightarrow> lvalue \<Rightarrow> expr option \<Rightarrow> string low" where
  "getline_into lw target source =
     bindL (next_temp ''getline.result.slot'') (\<lambda>result_slot.
     bindL (emit_alloca result_slot [Txt ''alloca ptr'']) (\<lambda>_.
     bindL (case source of
              None \<Rightarrow> runtime_call ''getline'' ''double'' ''@qk_getline_main_string'' [(''ptr'', result_slot)]
            | Some src \<Rightarrow>
                bindL (lower_runtime_captured_string_expression lw src) (\<lambda>source_ptr.
                  runtime_call ''getline'' ''double'' ''@qk_getline_file_string''
                    [(''ptr'', source_ptr), (''ptr'', result_slot)])) (\<lambda>result.
     bindL (next_temp ''getline.assign'') (\<lambda>assign_condition.
     bindL (next_label ''getline.assign.block'') (\<lambda>assign_label.
     bindL (next_label ''getline.done'') (\<lambda>done_label.
     bindL (emit (Def assign_condition (binop_rhs ''fcmp ogt'' ''double'' result ZERO))) (\<lambda>_.
     bindL (cond_branch assign_condition assign_label done_label) (\<lambda>_.
     bindL (mark_label assign_label) (\<lambda>_.
     bindL (load ''getline.result.ptr'' ''ptr'' result_slot) (\<lambda>result_ptr.
     bindL (lower_runtime_assign_string_lvalue lw target result_ptr) (\<lambda>_.
     bindL (branch done_label) (\<lambda>_.
     bindL (mark_label done_label) (\<lambda>_.
       retL result)))))))))))))"

definition lower_runtime_getline_expression :: "lowerers \<Rightarrow> lvalue option \<Rightarrow> expr option \<Rightarrow> string low" where
  "lower_runtime_getline_expression lw target source =
     bindL assert_runtime (\<lambda>_.
       case target of
         Some lvalue \<Rightarrow> getline_into lw lvalue source
       | None \<Rightarrow>
           (case source of
              None \<Rightarrow> runtime_call ''getline'' ''double'' ''@qk_getline_main_record'' []
            | Some src \<Rightarrow>
                bindL (lower_runtime_captured_string_expression lw src) (\<lambda>source_ptr.
                  runtime_call ''getline'' ''double'' ''@qk_getline_file_record'' [(''ptr'', source_ptr)])))"

section \<open>Conditions\<close>

fun comparison_code :: "binary_op \<Rightarrow> nat" where
  "comparison_code OpLess = 0"
| "comparison_code OpLessEqual = 1"
| "comparison_code OpGreater = 2"
| "comparison_code OpGreaterEqual = 3"
| "comparison_code OpEqual = 4"
| "comparison_code _ = 5"

fun comparison_predicate :: "binary_op \<Rightarrow> string" where
  "comparison_predicate OpLess = ''olt''"
| "comparison_predicate OpLessEqual = ''ole''"
| "comparison_predicate OpGreater = ''ogt''"
| "comparison_predicate OpGreaterEqual = ''oge''"
| "comparison_predicate OpEqual = ''oeq''"
| "comparison_predicate _ = ''one''"

definition compare_numbers :: "(expr \<Rightarrow> string low) \<Rightarrow> expr \<Rightarrow> binary_op \<Rightarrow> expr \<Rightarrow> string low" where
  "compare_numbers lower left op right =
     bindL (lower left) (\<lambda>left_operand.
     bindL (lower right) (\<lambda>right_operand.
       define_temp ''cmp'' (binop_rhs (''fcmp '' @ comparison_predicate op) ''double'' left_operand right_operand)))"

definition compare_strings :: "lowerers \<Rightarrow> expr \<Rightarrow> binary_op \<Rightarrow> expr \<Rightarrow> string low" where
  "compare_strings lw left op right =
     bindL (lower_runtime_captured_string_expression lw left) (\<lambda>left_string.
     bindL (lower_runtime_captured_string_expression lw right) (\<lambda>right_string.
       call ''cmp'' ''i1'' ''@qk_compare_strings_inline''
         [(''ptr'', left_string), (''ptr'', right_string), (''i32'', nat_to_string (comparison_code op))]))"

text \<open>Both views of both operands; the runtime decides.  Neither operand forces a string here.\<close>

definition compare_values :: "lowerers \<Rightarrow> expr \<Rightarrow> binary_op \<Rightarrow> expr \<Rightarrow> string low" where
  "compare_values lw left op right =
     bindL (lower_runtime_captured_string_expression lw left) (\<lambda>left_string.
     bindL (lw_numeric lw left) (\<lambda>left_number.
     bindL (lower_runtime_captured_string_expression lw right) (\<lambda>right_string.
     bindL (lw_numeric lw right) (\<lambda>right_number.
     bindL (getL (\<lambda>s. s)) (\<lambda>s.
       call ''cmp'' ''i1'' ''@qk_compare_values_inline''
         [(''ptr'', left_string), (''double'', left_number),
          (''i1'', bool_text (runtime_expression_has_string_result left s)),
          (''i1'', bool_text (expression_forces_string_comparison left)),
          (''ptr'', right_string), (''double'', right_number),
          (''i1'', bool_text (runtime_expression_has_string_result right s)),
          (''i1'', bool_text (expression_forces_string_comparison right)),
          (''i32'', nat_to_string (comparison_code op))])))))"

definition lower_comparison :: "lowerers \<Rightarrow> expr \<Rightarrow> binary_op \<Rightarrow> expr \<Rightarrow> string low" where
  "lower_comparison lw left op right =
     bindL (getL (\<lambda>s. s)) (\<lambda>s.
       if ls_runtime_param s = None then compare_numbers (lw_plain lw) left op right
       else if expression_forces_string_comparison left \<or> expression_forces_string_comparison right
       then compare_strings lw left op right
       else if runtime_expression_is_definitely_numeric left s \<and> runtime_expression_is_definitely_numeric right s
       then compare_numbers (lw_numeric lw) left op right
       else compare_values lw left op right)"

definition lower_logical_and :: "lowerers \<Rightarrow> expr \<Rightarrow> expr \<Rightarrow> string low" where
  "lower_logical_and lw left right =
     bindL (lw_condition lw left) (\<lambda>left_condition.
     bindL (next_label ''and.rhs'') (\<lambda>rhs_label.
     bindL (next_label ''and.value'') (\<lambda>rhs_value_label.
     bindL (next_label ''and.false'') (\<lambda>false_label.
     bindL (next_label ''and.end'') (\<lambda>end_label.
     bindL (next_temp ''and'') (\<lambda>phi_temp.
     bindL (emit_many [CondBr left_condition rhs_label false_label, Lab rhs_label]) (\<lambda>_.
     bindL (lw_condition lw right) (\<lambda>right_condition.
     bindL (emit_many
       [Br rhs_value_label, Lab rhs_value_label, Br end_label, Lab false_label, Br end_label, Lab end_label,
        Phi phi_temp ''i1'' [(''false'', false_label), (right_condition, rhs_value_label)]]) (\<lambda>_.
       retL phi_temp)))))))))"

definition lower_logical_or :: "lowerers \<Rightarrow> expr \<Rightarrow> expr \<Rightarrow> string low" where
  "lower_logical_or lw left right =
     bindL (lw_condition lw left) (\<lambda>left_condition.
     bindL (next_label ''or.true'') (\<lambda>true_label.
     bindL (next_label ''or.rhs'') (\<lambda>rhs_label.
     bindL (next_label ''or.value'') (\<lambda>rhs_value_label.
     bindL (next_label ''or.end'') (\<lambda>end_label.
     bindL (next_temp ''or'') (\<lambda>phi_temp.
     bindL (emit_many
       [CondBr left_condition true_label rhs_label, Lab true_label, Br end_label, Lab rhs_label]) (\<lambda>_.
     bindL (lw_condition lw right) (\<lambda>right_condition.
     bindL (emit_many
       [Br rhs_value_label, Lab rhs_value_label, Br end_label, Lab end_label,
        Phi phi_temp ''i1'' [(''true'', true_label), (right_condition, rhs_value_label)]]) (\<lambda>_.
       retL phi_temp)))))))))"

text \<open>The match of a regular expression against the current record.\<close>

definition match_record :: "string \<Rightarrow> string low" where
  "match_record raw_text =
     bindL (declare_string (decode_regex_literal raw_text)) (\<lambda>(global_name, byte_length).
     bindL (next_temp ''regexptr'') (\<lambda>string_ptr.
     bindL (next_temp ''match'') (\<lambda>match_result.
     bindL assert_runtime (\<lambda>_.
     bindL (emit (Def string_ptr (gep_rhs byte_length global_name))) (\<lambda>_.
     bindL (define_call match_result ''i1'' ''@qk_regex_match_current_record'' [(''ptr'', string_ptr)]) (\<lambda>_.
       retL match_result))))))"

definition truthy :: "(expr \<Rightarrow> string low) \<Rightarrow> expr \<Rightarrow> string low" where
  "truthy lower e =
     bindL (lower e) (\<lambda>numeric_value.
       define_temp ''truthy'' (binop_rhs ''fcmp one'' ''double'' numeric_value ZERO))"

text \<open>The part of \<open>lower_condition_expression\<close> after its runtime cases.\<close>

definition lower_structured_condition :: "lowerers \<Rightarrow> bool \<Rightarrow> expr \<Rightarrow> string low" where
  "lower_structured_condition lw runtime e =
     (let number = truthy (if runtime then lw_numeric lw else lw_plain lw) e
      in case e of
           BinaryExpr left op right _ \<Rightarrow>
             if is_comparison_op op then lower_comparison lw left op right
             else if op = OpLogicalAnd then lower_logical_and lw left right
             else if op = OpLogicalOr then lower_logical_or lw left right
             else if runtime \<and> (op = OpMatch \<or> op = OpNotMatch)
             then lower_runtime_match_operator lw left op right
             else if runtime \<and> op = OpIn then lower_runtime_in_expression lw left right
             else number
         | ConditionalExpr test if_true if_false _ \<Rightarrow>
             bindL (getL (\<lambda>s. runtime_expression_has_side_effects if_true s
                               \<or> runtime_expression_has_side_effects if_false s)) (\<lambda>effects.
               if effects then lower_runtime_condition_conditional_expression lw test if_true if_false
               else
                 bindL (lw_condition lw test) (\<lambda>test_value.
                 bindL (lw_condition lw if_true) (\<lambda>true_condition.
                 bindL (lw_condition lw if_false) (\<lambda>false_condition.
                   select ''cond'' test_value ''i1'' true_condition false_condition))))
         | _ \<Rightarrow> number)"

definition lower_condition_expression :: "lowerers \<Rightarrow> expr \<Rightarrow> string low" where
  "lower_condition_expression lw e =
     bindL (getL (\<lambda>s. s)) (\<lambda>s.
       if ls_runtime_param s = None then lower_structured_condition lw False e
       else
         let other = (if runtime_expression_is_known_string e s then lower_runtime_string_truthiness lw e
                      else lower_structured_condition lw True e)
         in case e of
              RegexLiteralExpr raw_text _ \<Rightarrow> match_record raw_text
            | NameExpr name _ \<Rightarrow>
                if runtime_name_uses_only_scalar_runtime name s
                then bindL (lower_runtime_scalar_name name) (\<lambda>scalar_name.
                       runtime_call ''scalar.truthy'' ''i1'' ''@qk_scalar_truthy'' [(''ptr'', scalar_name)])
                else other
            | _ \<Rightarrow> other)"

definition lower_record_pattern :: "lowerers \<Rightarrow> expr \<Rightarrow> string low" where
  "lower_record_pattern lw test =
     (case test of RegexLiteralExpr raw_text _ \<Rightarrow> match_record raw_text | _ \<Rightarrow> lw_condition lw test)"

section \<open>Numbers\<close>

text \<open>The cases of \<open>lower_runtime_numeric_expression\<close> for a call, in the order of the code.\<close>

definition lower_numeric_call :: "lowerers \<Rightarrow> string low \<Rightarrow> string \<Rightarrow> expr list \<Rightarrow> source_span \<Rightarrow> string low" where
  "lower_numeric_call lw other function_name args sp =
     bindL (getL ls_function_defs) (\<lambda>function_defs.
       if function_name = ''split'' then lower_runtime_split_builtin lw args
       else if function_name = ''close'' then lower_runtime_close_builtin lw args
       else if function_name = ''gsub'' then lower_runtime_substitute_builtin lw True args sp
       else if function_name = ''index'' then lower_runtime_index_builtin lw args
       else if function_name = ''int'' then lower_runtime_unary_numeric_builtin lw ''@qk_int_builtin'' ''int'' args
       else if function_name = ''length'' then lower_runtime_length_builtin lw args
       else if function_name = ''log'' then lower_runtime_unary_numeric_builtin lw ''@qk_log'' ''log'' args
       else if function_name = ''match'' then lower_runtime_match_builtin lw args
       else if function_name = ''rand'' then lower_runtime_rand_builtin args
       else if function_name = ''sin'' then lower_runtime_unary_numeric_builtin lw ''@qk_sin'' ''sin'' args
       else if function_name = ''sqrt'' then lower_runtime_unary_numeric_builtin lw ''@qk_sqrt'' ''sqrt'' args
       else if function_name = ''srand'' then lower_runtime_srand_builtin lw args
       else if function_name = ''sub'' then lower_runtime_substitute_builtin lw False args sp
       else if function_name = ''system'' then lower_runtime_system_builtin lw args
       else if function_defs function_name \<noteq> None
       then bindL (lower_runtime_user_function_call lw function_name args) (parse_number ''fncall.num'')
       else if function_name = ''atan2'' then lower_runtime_binary_numeric_builtin lw ''@qk_atan2'' ''atan2'' args
       else if function_name = ''cos'' then lower_runtime_unary_numeric_builtin lw ''@qk_cos'' ''cos'' args
       else if function_name = ''exp'' then lower_runtime_unary_numeric_builtin lw ''@qk_exp'' ''exp'' args
       else other)"

definition lower_numeric_unary :: "lowerers \<Rightarrow> unary_op \<Rightarrow> expr \<Rightarrow> string low" where
  "lower_numeric_unary lw op operand =
     (case op of
        UPlus \<Rightarrow> lw_numeric lw operand
      | UMinus \<Rightarrow> bindL (lw_numeric lw operand) (binop ''neg'' ''fsub'' ''double'' ZERO)
      | UNot \<Rightarrow>
          bindL (lw_condition lw operand) (\<lambda>condition_value.
            select ''notnum'' condition_value ''double'' ZERO ONE)
      | PreInc \<Rightarrow> lower_runtime_increment_expression lw operand True False
      | PreDec \<Rightarrow> lower_runtime_increment_expression lw operand False False)"

definition lower_numeric_ternary :: "lowerers \<Rightarrow> expr \<Rightarrow> expr \<Rightarrow> expr \<Rightarrow> string low" where
  "lower_numeric_ternary lw test if_true if_false =
     bindL (getL (\<lambda>s. runtime_expression_has_side_effects if_true s
                       \<or> runtime_expression_has_side_effects if_false s)) (\<lambda>effects.
       if effects then lower_runtime_numeric_conditional_expression lw test if_true if_false
       else
         bindL (lw_condition lw test) (\<lambda>test_value.
         bindL (lw_numeric lw if_true) (\<lambda>true_operand.
         bindL (lw_numeric lw if_false) (\<lambda>false_operand.
           select ''ternary.num'' test_value ''double'' true_operand false_operand))))"

text \<open>The number of the string of an expression that has no case of its own.\<close>

definition coerced_string :: "lowerers \<Rightarrow> expr \<Rightarrow> string low" where
  "coerced_string lw e =
     bindL (getL (runtime_expression_has_string_result e)) (\<lambda>is_string.
       if is_string
       then bindL (lower_runtime_captured_string_expression lw e) (parse_number ''num.coerce'')
       else raiseL (RuntimeError ''unsupported numeric expression in runtime-backed backend''))"

definition lower_runtime_numeric_expression :: "lowerers \<Rightarrow> expr \<Rightarrow> string low" where
  "lower_runtime_numeric_expression lw e =
     bindL assert_runtime (\<lambda>_.
       case e of
         NumericLiteralExpr v _ _ \<Rightarrow> retL (format_double_literal (False, v))
       | StringLiteralExpr v _ _ \<Rightarrow> retL (format_double_literal (awk_numeric_prefix v))
       | NameExpr name _ \<Rightarrow> lower_runtime_numeric_name name
       | AssignExpr target op v _ \<Rightarrow> lower_runtime_assignment_expression lw target op v
       | UnaryExpr op operand _ \<Rightarrow> lower_numeric_unary lw op operand
       | PostfixExpr operand op _ \<Rightarrow> lower_runtime_increment_expression lw operand (op = PostInc) True
       | CallExpr function_name args sp \<Rightarrow> lower_numeric_call lw (coerced_string lw e) function_name args sp
       | GetlineExpr target source _ \<Rightarrow> lower_runtime_getline_expression lw target source
       | BinaryExpr left op right _ \<Rightarrow>
           if is_arithmetic_op op then lower_arithmetic (lw_numeric lw) left op right
           else if op = OpConcat then coerced_string lw e
           else bindL (lw_condition lw e) bool_to_number
       | ConditionalExpr test if_true if_false _ \<Rightarrow> lower_numeric_ternary lw test if_true if_false
       | ArrayIndexExpr array_name index extra_indexes _ \<Rightarrow>
           bindL (lower_runtime_constant_string array_name) (\<lambda>array_name_ptr.
           bindL (lower_runtime_array_subscripts lw (index # extra_indexes)) (\<lambda>key_ptr.
             array_get_number ''array.num'' array_name_ptr key_ptr))
       | FieldExpr _ _ \<Rightarrow> coerced_string lw e
       | RegexLiteralExpr _ _ \<Rightarrow> coerced_string lw e)"

section \<open>The knot\<close>

definition lowering_step :: "lowerers \<Rightarrow> lowerers" where
  "lowering_step lw =
     \<lparr>lw_numeric = lower_runtime_numeric_expression lw, lw_string = lower_runtime_string_expression lw,
      lw_condition = lower_condition_expression lw, lw_plain = lower_numeric_expression lw\<rparr>"

text \<open>A stack of at most \<open>n\<close> nested calls.\<close>

primrec lowerers_within :: "nat \<Rightarrow> lowerers" where
  "lowerers_within 0 =
     \<lparr>lw_numeric = (\<lambda>_. raiseL OutOfFuel), lw_string = (\<lambda>_. raiseL OutOfFuel),
      lw_condition = (\<lambda>_. raiseL OutOfFuel), lw_plain = (\<lambda>_. raiseL OutOfFuel)\<rparr>"
| "lowerers_within (Suc n) = lowering_step (lowerers_within n)"

definition call_depth :: "expr \<Rightarrow> nat" where
  "call_depth e = 4 * size e + 4"

definition lowering :: lowerers where
  "lowering =
     \<lparr>lw_numeric = (\<lambda>e. lw_numeric (lowerers_within (call_depth e)) e),
      lw_string = (\<lambda>e. lw_string (lowerers_within (call_depth e)) e),
      lw_condition = (\<lambda>e. lw_condition (lowerers_within (call_depth e)) e),
      lw_plain = (\<lambda>e. lw_plain (lowerers_within (call_depth e)) e)\<rparr>"

end
