(* ===== verification/Lower_Stmt.thy ===== *)
theory Lower_Stmt
  imports Lowering
begin

text \<open>
  \<^verbatim>\<open>src/quawk/backend/lower_stmt.py\<close>: one function per statement.  Statements recur on their parts;
  the expressions in them are lowered with \<open>lowering\<close>.
\<close>

section \<open>Expression statements\<close>

definition lower_runtime_side_effect_expression :: "expr \<Rightarrow> unit low" where
  "lower_runtime_side_effect_expression e =
     bindL (getL (runtime_expression_has_string_result e)) (\<lambda>is_string.
       if is_string then bindL (lw_string lowering e) (\<lambda>_. retL ())
       else
         catch_runtime_error (bindL (lw_numeric lowering e) (\<lambda>_. retL ()))
           (\<lambda>_. raiseL (RuntimeError ''expression statements are not supported by the runtime-backed backend'')))"

section \<open>Assignments\<close>

definition lower_assignment_statement :: "lvalue \<Rightarrow> assign_op \<Rightarrow> expr \<Rightarrow> unit low" where
  "lower_assignment_statement target op v =
     (if op \<noteq> AssignPlain
      then raiseL (RuntimeError ''compound assignments are not supported in the internal non-runtime lowering path'')
      else case target_name target of
             None \<Rightarrow> raiseL (RuntimeError
               ''non-scalar assignments are not supported in the internal non-runtime lowering path'')
           | Some name \<Rightarrow>
               if target_index target \<noteq> None \<or> target_extra_indexes target \<noteq> []
               then raiseL (RuntimeError
                 ''array assignments are not supported in the internal non-runtime lowering path'')
               else
                 bindL (variable_address name) (\<lambda>slot_name.
                 bindL (modifyL (\<lambda>s. s\<lparr>ls_initial_string_values := (ls_initial_string_values s)(name := None)\<rparr>)) (\<lambda>_.
                 bindL (lw_plain lowering v) (\<lambda>numeric_value.
                   store ''double'' numeric_value slot_name))))"

definition assign_field_statement :: "expr \<Rightarrow> assign_op \<Rightarrow> expr \<Rightarrow> unit low" where
  "assign_field_statement index op v =
     bindL (lower_runtime_field_index lowering (ExprIndex index)) (\<lambda>index_value.
     bindL (getL (stores_string op v)) (\<lambda>is_string.
       if is_string
       then bindL (lw_string lowering v) (set_field_string index_value)
       else
         bindL (next_temp ''field.current'') (\<lambda>current_field.
         bindL (next_temp ''field.current.num'') (\<lambda>current_value.
         bindL (define_call current_field ''ptr'' ''@qk_get_field_inline'' [(''i64'', index_value)]) (\<lambda>_.
         bindL (emit (Def current_value
                  (call_rhs ''double'' ''@qk_parse_number_text'' [(''ptr'', current_field)]))) (\<lambda>_.
         bindL (lw_numeric lowering v) (\<lambda>update_value.
         bindL (combine_numeric_assignment op current_value update_value) (\<lambda>numeric_value.
           set_field_number index_value numeric_value))))))))"

definition assign_param_statement :: "string \<Rightarrow> assign_op \<Rightarrow> expr \<Rightarrow> unit low" where
  "assign_param_statement name op v =
     bindL (getL (stores_string op v)) (\<lambda>is_string.
       if is_string
       then bindL (lw_string lowering v) (store_runtime_function_param_string name)
       else
         bindL (load_runtime_function_param_string name) (\<lambda>current_ptr.
         bindL (parse_number ''param.current.num'' current_ptr) (\<lambda>current_value.
         bindL (lw_numeric lowering v) (\<lambda>update_value.
         bindL (combine_numeric_assignment op current_value update_value) (\<lambda>numeric_value.
         bindL (lower_runtime_string_from_numeric_value numeric_value) (\<lambda>string_value.
           store_runtime_function_param_string name string_value))))))"

definition assign_array_statement :: "string \<Rightarrow> expr list \<Rightarrow> assign_op \<Rightarrow> expr \<Rightarrow> unit low" where
  "assign_array_statement name subscripts op v =
     bindL (lower_runtime_constant_string name) (\<lambda>array_name_ptr.
     bindL (lower_runtime_array_subscripts lowering subscripts) (\<lambda>key_ptr.
     bindL (getL (stores_string op v)) (\<lambda>is_string.
       if is_string
       then bindL (lw_string lowering v) (set_array_string array_name_ptr key_ptr)
       else
         bindL (array_get_number ''array.current.num'' array_name_ptr key_ptr) (\<lambda>current_value.
         bindL (lw_numeric lowering v) (\<lambda>update_value.
         bindL (combine_numeric_assignment op current_value update_value) (\<lambda>numeric_value.
           array_set_number array_name_ptr key_ptr numeric_value))))))"

text \<open>In a statement the slot is read after the value, and only for a compound assignment.\<close>

definition assign_numeric_slot_statement :: "string \<Rightarrow> assign_op \<Rightarrow> expr \<Rightarrow> unit low" where
  "assign_numeric_slot_statement name op v =
     bindL (variable_address name) (\<lambda>slot_name.
     bindL (lw_numeric lowering v) (\<lambda>update_value.
     bindL (if op = AssignPlain then retL update_value
            else
              bindL (load ''state.current'' ''double'' slot_name) (\<lambda>current_value.
                combine_numeric_assignment op current_value update_value)) (\<lambda>numeric_value.
       store ''double'' numeric_value slot_name)))"

definition copy_scalar_statement :: "string \<Rightarrow> int option \<Rightarrow> string \<Rightarrow> unit low" where
  "copy_scalar_statement scalar_name slot_index source =
     bindL (lower_runtime_scalar_name source) (\<lambda>source_name.
     bindL (runtime_call_void ''@qk_scalar_copy'' [(''ptr'', scalar_name), (''ptr'', source_name)]) (\<lambda>_.
     bindL (getL (runtime_name_slot_index source)) (\<lambda>source_slot_index.
       case (slot_index, source_slot_index) of
         (Some target_slot, Some source_slot) \<Rightarrow>
           bindL (slot_get_number ''slot.copy.src'' source_slot) (slot_set_number target_slot)
       | _ \<Rightarrow> retL ())))"

definition assign_scalar_string_statement :: "string \<Rightarrow> string \<Rightarrow> int option \<Rightarrow> expr \<Rightarrow> unit low" where
  "assign_scalar_string_statement name scalar_name slot_index v =
     bindL (lw_string lowering v) (\<lambda>string_value.
     bindL (getL (runtime_name_uses_string_slot_runtime name)) (\<lambda>string_slot.
       if string_slot
       then bindL (some_or_assert slot_index) (\<lambda>i. set_slot_string i string_value)
       else
         bindL (set_scalar_string scalar_name string_value) (\<lambda>_.
           case slot_index of None \<Rightarrow> retL () | Some i \<Rightarrow> set_slot_string i string_value)))"

definition assign_scalar_statement :: "string \<Rightarrow> assign_op \<Rightarrow> expr \<Rightarrow> unit low" where
  "assign_scalar_statement name op v =
     bindL (getL (runtime_name_slot_index name)) (\<lambda>slot_index.
     bindL (lower_runtime_scalar_name name) (\<lambda>scalar_name.
     bindL (getL (\<lambda>s. s)) (\<lambda>s.
       case is_scalar_copy name op v s of
         Some source \<Rightarrow> copy_scalar_statement scalar_name slot_index source
       | None \<Rightarrow>
           if stores_string op v s then assign_scalar_string_statement name scalar_name slot_index v
           else bindL (assign_scalar_number lowering name scalar_name slot_index op v) (\<lambda>_. retL ()))))"

text \<open>The order of the tests is the code's: a parameter of the function comes before an array.\<close>

definition lower_runtime_assignment_statement :: "lvalue \<Rightarrow> assign_op \<Rightarrow> expr \<Rightarrow> unit low" where
  "lower_runtime_assignment_statement target op v =
     bindL assert_runtime (\<lambda>_.
     bindL (getL (\<lambda>s. s)) (\<lambda>s.
       case target_field_index target of
         Some index \<Rightarrow> assign_field_statement index op v
       | None \<Rightarrow>
           (case target_name target of
              None \<Rightarrow> raiseL (RuntimeError ''non-scalar assignments are not supported by the runtime-backed backend'')
            | Some name \<Rightarrow>
                if ls_function_param_strings s name \<noteq> None then assign_param_statement name op v
                else case target_index target of
                       Some index \<Rightarrow> assign_array_statement name (index # target_extra_indexes target) op v
                     | None \<Rightarrow>
                         if is_state_name name \<or> runtime_name_uses_numeric_slot_state name s
                         then assign_numeric_slot_statement name op v
                         else assign_scalar_statement name op v)))"

definition lower_runtime_delete_statement :: "lvalue \<Rightarrow> unit low" where
  "lower_runtime_delete_statement target =
     bindL assert_runtime (\<lambda>_.
       case target_name target of
         None \<Rightarrow> raiseL (RuntimeError ''delete requires a named array target in the runtime-backed backend'')
       | Some array_name \<Rightarrow>
           bindL (lower_runtime_constant_string array_name) (\<lambda>array_name_ptr.
             case target_index target of
               None \<Rightarrow> runtime_call_void ''@qk_array_clear'' [(''ptr'', array_name_ptr)]
             | Some index \<Rightarrow>
                 bindL (lower_runtime_array_subscripts lowering (index # target_extra_indexes target)) (\<lambda>key_ptr.
                   runtime_call_void ''@qk_array_delete'' [(''ptr'', array_name_ptr), (''ptr'', key_ptr)])))"

section \<open>Control flow\<close>

text \<open>\<open>try: body finally:\<close> restore the labels that were in force.\<close>

definition with_loop_labels :: "string \<Rightarrow> string \<Rightarrow> unit low \<Rightarrow> unit low" where
  "with_loop_labels break_label continue_label body s =
     (let (r, s') = body (s\<lparr>ls_break_label := Some break_label, ls_continue_label := Some continue_label\<rparr>)
      in (r, s'\<lparr>ls_break_label := ls_break_label s, ls_continue_label := ls_continue_label s\<rparr>))"

definition lower_if_statement :: "expr \<Rightarrow> unit low \<Rightarrow> unit low option \<Rightarrow> unit low" where
  "lower_if_statement condition_expr then_branch else_branch =
     bindL (next_label ''if.then'') (\<lambda>then_label.
       case else_branch of
         None \<Rightarrow>
           bindL (next_label ''if.end'') (\<lambda>end_label.
           bindL (lw_condition lowering condition_expr) (\<lambda>condition.
           bindL (cond_branch condition then_label end_label) (\<lambda>_.
           bindL (mark_label then_label) (\<lambda>_.
           bindL then_branch (\<lambda>_.
           bindL (branch end_label) (\<lambda>_.
             mark_label end_label))))))
       | Some else_body \<Rightarrow>
           bindL (next_label ''if.else'') (\<lambda>else_label.
           bindL (next_label ''if.end'') (\<lambda>end_label.
           bindL (lw_condition lowering condition_expr) (\<lambda>condition.
           bindL (cond_branch condition then_label else_label) (\<lambda>_.
           bindL (mark_label then_label) (\<lambda>_.
           bindL then_branch (\<lambda>_.
           bindL (branch end_label) (\<lambda>_.
           bindL (mark_label else_label) (\<lambda>_.
           bindL else_body (\<lambda>_.
           bindL (branch end_label) (\<lambda>_.
             mark_label end_label)))))))))))"

definition lower_while_statement :: "expr \<Rightarrow> unit low \<Rightarrow> unit low" where
  "lower_while_statement condition_expr body =
     bindL (next_label ''while.cond'') (\<lambda>cond_label.
     bindL (next_label ''while.body'') (\<lambda>body_label.
     bindL (next_label ''while.end'') (\<lambda>end_label.
     bindL (branch cond_label) (\<lambda>_.
     bindL (mark_label cond_label) (\<lambda>_.
     bindL (lw_condition lowering condition_expr) (\<lambda>condition.
     bindL (cond_branch condition body_label end_label) (\<lambda>_.
     bindL (mark_label body_label) (\<lambda>_.
     bindL (with_loop_labels end_label cond_label body) (\<lambda>_.
     bindL (branch cond_label) (\<lambda>_.
       mark_label end_label))))))))))"

definition lower_do_while_statement :: "unit low \<Rightarrow> expr \<Rightarrow> unit low" where
  "lower_do_while_statement body condition_expr =
     bindL (next_label ''dowhile.body'') (\<lambda>body_label.
     bindL (next_label ''dowhile.cond'') (\<lambda>cond_label.
     bindL (next_label ''dowhile.end'') (\<lambda>end_label.
     bindL (branch body_label) (\<lambda>_.
     bindL (mark_label body_label) (\<lambda>_.
     bindL (with_loop_labels end_label cond_label body) (\<lambda>_.
     bindL (branch cond_label) (\<lambda>_.
     bindL (mark_label cond_label) (\<lambda>_.
     bindL (lw_condition lowering condition_expr) (\<lambda>condition.
     bindL (cond_branch condition body_label end_label) (\<lambda>_.
       mark_label end_label))))))))))"

definition lower_runtime_for_statement :: "expr list \<Rightarrow> expr option \<Rightarrow> expr list \<Rightarrow> unit low \<Rightarrow> unit low" where
  "lower_runtime_for_statement init condition_expr update body =
     bindL (each_low lower_runtime_side_effect_expression init) (\<lambda>_.
     bindL (next_label ''for.cond'') (\<lambda>cond_label.
     bindL (next_label ''for.body'') (\<lambda>body_label.
     bindL (next_label ''for.step'') (\<lambda>step_label.
     bindL (next_label ''for.end'') (\<lambda>end_label.
     bindL (branch cond_label) (\<lambda>_.
     bindL (mark_label cond_label) (\<lambda>_.
     bindL (case condition_expr of None \<Rightarrow> retL ''true'' | Some e \<Rightarrow> lw_condition lowering e) (\<lambda>condition.
     bindL (cond_branch condition body_label end_label) (\<lambda>_.
     bindL (mark_label body_label) (\<lambda>_.
     bindL (with_loop_labels end_label step_label body) (\<lambda>_.
     bindL (branch step_label) (\<lambda>_.
     bindL (mark_label step_label) (\<lambda>_.
     bindL (each_low lower_runtime_side_effect_expression update) (\<lambda>_.
     bindL (branch cond_label) (\<lambda>_.
       mark_label end_label)))))))))))))))"

text \<open>The binding of the loop variable; the previous one is restored at the end.\<close>

definition with_loop_binding :: "string \<Rightarrow> string \<Rightarrow> unit low \<Rightarrow> unit low" where
  "with_loop_binding name key body s =
     (let (r, s') = body (s\<lparr>ls_loop_string_bindings := (ls_loop_string_bindings s)(name \<mapsto> key)\<rparr>)
      in (r, s'\<lparr>ls_loop_string_bindings :=
                  (ls_loop_string_bindings s')(name := ls_loop_string_bindings s name)\<rparr>))"

definition lower_runtime_for_in_statement :: "string \<Rightarrow> expr \<Rightarrow> unit low \<Rightarrow> unit low" where
  "lower_runtime_for_in_statement name iterable body =
     bindL assert_runtime (\<lambda>_.
       case iterable of
         NameExpr array_name _ \<Rightarrow>
           bindL (lower_runtime_constant_string array_name) (\<lambda>array_name_ptr.
           bindL (next_temp ''forin.slot'') (\<lambda>key_slot.
           bindL (next_temp ''forin.first'') (\<lambda>first_key.
           bindL (next_temp ''forin.key'') (\<lambda>current_key.
           bindL (next_temp ''forin.has'') (\<lambda>has_key.
           bindL (next_label ''forin.cond'') (\<lambda>cond_label.
           bindL (next_label ''forin.body'') (\<lambda>body_label.
           bindL (next_label ''forin.step'') (\<lambda>step_label.
           bindL (next_label ''forin.end'') (\<lambda>end_label.
           bindL (emit_alloca key_slot [Txt ''alloca ptr'']) (\<lambda>_.
           bindL (define_call first_key ''ptr'' ''@qk_array_first_key'' [(''ptr'', array_name_ptr)]) (\<lambda>_.
           bindL (store ''ptr'' first_key key_slot) (\<lambda>_.
           bindL (branch cond_label) (\<lambda>_.
           bindL (mark_label cond_label) (\<lambda>_.
           bindL (emit (Def current_key (load_rhs ''ptr'' key_slot))) (\<lambda>_.
           bindL (emit (Def has_key (binop_rhs ''icmp ne'' ''ptr'' current_key ''null''))) (\<lambda>_.
           bindL (cond_branch has_key body_label end_label) (\<lambda>_.
           bindL (mark_label body_label) (\<lambda>_.
           bindL (with_loop_binding name current_key (with_loop_labels end_label step_label body)) (\<lambda>_.
           bindL (next_temp ''forin.next'') (\<lambda>next_key.
           bindL (branch step_label) (\<lambda>_.
           bindL (mark_label step_label) (\<lambda>_.
           bindL (define_call next_key ''ptr'' ''@qk_array_next_key''
                    [(''ptr'', array_name_ptr), (''ptr'', current_key)]) (\<lambda>_.
           bindL (store ''ptr'' next_key key_slot) (\<lambda>_.
           bindL (branch cond_label) (\<lambda>_.
             mark_label end_label)))))))))))))))))))))))))
       | _ \<Rightarrow> raiseL (RuntimeError ''for-in iteration requires a named array in the runtime-backed backend''))"

section \<open>Output\<close>

definition puts_string :: "string \<Rightarrow> unit low" where
  "puts_string text =
     bindL (modifyL (\<lambda>s. s\<lparr>ls_uses_puts := True\<rparr>)) (\<lambda>_.
     bindL (declare_string text) (\<lambda>(global_name, byte_length).
     bindL (gep ''strptr'' byte_length global_name) (\<lambda>string_ptr.
     bindL (call ''call'' ''i32'' ''@puts'' [(''ptr'', string_ptr)]) (\<lambda>_. retL ()))))"

definition printf_number :: "expr \<Rightarrow> unit low" where
  "printf_number e =
     bindL (modifyL (\<lambda>s. s\<lparr>ls_uses_printf := True\<rparr>)) (\<lambda>_.
     bindL ensure_numeric_format (\<lambda>(format_name, format_length).
     bindL (gep ''fmtptr'' format_length format_name) (\<lambda>format_ptr.
     bindL (lw_plain lowering e) (\<lambda>numeric_value.
     bindL (call ''call'' ''i32'' ''@printf'' [(''ptr'', format_ptr), (''double'', numeric_value)])
       (\<lambda>_. retL ())))))"

definition lower_print_expression :: "expr \<Rightarrow> unit low" where
  "lower_print_expression e =
     bindL (getL (\<lambda>s. s)) (\<lambda>s.
       case e of
         NameExpr name _ \<Rightarrow>
           (case ls_initial_string_values s name of
              Some text \<Rightarrow> if name \<notin> ls_local_names s then puts_string text else printf_number e
            | None \<Rightarrow> printf_number e)
       | StringLiteralExpr v _ _ \<Rightarrow> puts_string v
       | _ \<Rightarrow> printf_number e)"

definition lower_runtime_print_fragment :: "expr \<Rightarrow> unit low" where
  "lower_runtime_print_fragment e =
     bindL (getL (runtime_expression_has_string_result e)) (\<lambda>is_string.
       if is_string
       then bindL (lw_string lowering e) (\<lambda>string_value.
              runtime_call_void ''@qk_print_string_fragment'' [(''ptr'', string_value)])
       else bindL (lw_numeric lowering e) (\<lambda>numeric_value.
              runtime_call_void ''@qk_print_number_fragment'' [(''double'', numeric_value)]))"

fun output_redirect_mode_value :: "redirect_kind \<Rightarrow> nat" where
  "output_redirect_mode_value RedirectWrite = 1"
| "output_redirect_mode_value RedirectAppend = 2"
| "output_redirect_mode_value RedirectPipe = 3"

definition lower_runtime_output_target :: "output_redirect \<Rightarrow> string low" where
  "lower_runtime_output_target redirect = lw_string lowering (or_target redirect)"

definition open_output_args :: "output_redirect \<Rightarrow> string \<Rightarrow> (string \<times> string) list" where
  "open_output_args redirect target_ptr =
     [(''ptr'', target_ptr), (''i32'', nat_to_string (output_redirect_mode_value (or_kind redirect)))]"

text \<open>The arguments of \<open>print\<close>, with a separator before each but the first.\<close>

fun lower_print_arguments :: "unit low \<Rightarrow> (expr \<Rightarrow> unit low) \<Rightarrow> bool \<Rightarrow> expr list \<Rightarrow> unit low" where
  "lower_print_arguments separator fragment first [] = retL ()"
| "lower_print_arguments separator fragment first (argument # arguments) =
     bindL (if first then retL () else separator) (\<lambda>_.
     bindL (fragment argument) (\<lambda>_.
       lower_print_arguments separator fragment False arguments))"

definition write_output_fragment :: "string \<Rightarrow> expr \<Rightarrow> unit low" where
  "write_output_fragment output_handle argument =
     bindL (getL (runtime_expression_has_string_result argument)) (\<lambda>is_string.
       if is_string
       then bindL (lw_string lowering argument) (\<lambda>string_value.
              call_void ''@qk_write_output_string'' [(''ptr'', output_handle), (''ptr'', string_value)])
       else bindL (lw_numeric lowering argument) (\<lambda>numeric_value.
              runtime_call_void ''@qk_write_output_number''
                [(''ptr'', output_handle), (''double'', numeric_value)]))"

definition lower_redirected_print :: "expr list \<Rightarrow> output_redirect \<Rightarrow> unit low" where
  "lower_redirected_print arguments redirect =
     bindL (lower_runtime_output_target redirect) (\<lambda>target_ptr.
     bindL (runtime_call ''print.output'' ''ptr'' ''@qk_open_output'' (open_output_args redirect target_ptr))
       (\<lambda>output_handle.
         if arguments = []
         then
           bindL (get_field ''print.field0'' ''0'') (\<lambda>field_ptr.
           bindL (call_void ''@qk_write_output_string'' [(''ptr'', output_handle), (''ptr'', field_ptr)]) (\<lambda>_.
             runtime_call_void ''@qk_write_output_record_separator'' [(''ptr'', output_handle)]))
         else
           bindL (lower_print_arguments
                    (runtime_call_void ''@qk_write_output_separator'' [(''ptr'', output_handle)])
                    (write_output_fragment output_handle) True arguments) (\<lambda>_.
             runtime_call_void ''@qk_write_output_record_separator'' [(''ptr'', output_handle)])))"

definition lower_runtime_print_statement :: "expr list \<Rightarrow> output_redirect option \<Rightarrow> unit low" where
  "lower_runtime_print_statement arguments redirect =
     bindL assert_runtime (\<lambda>_.
       case redirect of
         Some r \<Rightarrow> lower_redirected_print arguments r
       | None \<Rightarrow>
           if arguments = []
           then
             bindL (get_field ''print.field0'' ''0'') (\<lambda>field_ptr.
               runtime_call_void ''@qk_print_string'' [(''ptr'', field_ptr)])
           else
             bindL (lower_print_arguments (runtime_call_void ''@qk_print_output_separator'' [])
                      lower_runtime_print_fragment True arguments) (\<lambda>_.
               runtime_call_void ''@qk_print_output_record_separator'' []))"

section \<open>\<open>printf\<close>\<close>

text \<open>The matches of \<open>PRINTF_SPEC_PATTERN\<close>.  The conversion letters are no flags, digits or dots, so the
  greedy scan of flags, width and precision is the only way to match.\<close>

definition is_conversion :: "char \<Rightarrow> bool" where
  "is_conversion c \<longleftrightarrow> c \<in> set ''%aAcdeEfgGiosuxX''"

definition after_precision :: "string \<Rightarrow> string" where
  "after_precision s =
     (let rest = dropWhile is_ascii_digit (drop 1 s)
      in if take 1 s = ''.'' \<and> takeWhile is_ascii_digit (drop 1 s) \<noteq> [] then rest else s)"

definition scan_specifier :: "string \<Rightarrow> (char \<times> string) option" where
  "scan_specifier s =
     (case after_precision (dropWhile is_ascii_digit (dropWhile (\<lambda>c. c \<in> set ''-+ #0'') s)) of
        [] \<Rightarrow> None
      | c # rest \<Rightarrow> if is_conversion c then Some (c, rest) else None)"

lemma scan_specifier_shorter:
  assumes "scan_specifier s = Some (c, rest)"
  shows "length rest < length s"
proof -
  let ?t = "dropWhile is_ascii_digit (dropWhile (\<lambda>c. c \<in> set ''-+ #0'') s)"
  have "length (after_precision ?t) \<le> length ?t"
    using length_dropWhile_le [of is_ascii_digit "drop 1 ?t"]
    by (auto simp: after_precision_def Let_def intro: le_trans)
  also have "\<dots> \<le> length s"
    by (meson length_dropWhile_le le_trans)
  finally show ?thesis
    using assms by (auto simp: scan_specifier_def split: list.splits if_splits)
qed

function printf_specifiers :: "string \<Rightarrow> string" where
  "printf_specifiers [] = []"
| "printf_specifiers (c # rest) =
     (if c \<noteq> CHR ''%'' then printf_specifiers rest
      else case scan_specifier rest of
             None \<Rightarrow> printf_specifiers rest
           | Some (conversion, rest') \<Rightarrow>
               (if conversion = CHR ''%'' then [] else [conversion]) @ printf_specifiers rest')"
  by pat_completeness auto
termination
  by (relation "measure length") (auto dest: scan_specifier_shorter)

definition is_integer_conversion :: "char \<Rightarrow> bool" where
  "is_integer_conversion c \<longleftrightarrow> c \<in> set ''cdiouxX''"

fun lower_printf_operands :: "(char \<times> expr) list \<Rightarrow> (string \<times> string) list low" where
  "lower_printf_operands [] = retL []"
| "lower_printf_operands ((specifier, argument) # rest) =
     bindL (if specifier = CHR ''s''
            then bindL (lower_runtime_captured_string_expression lowering argument) (\<lambda>v. retL (''ptr'', v))
            else if is_integer_conversion specifier
            then
              bindL (next_temp ''printf.int'') (\<lambda>integer_value.
              bindL (lw_numeric lowering argument) (\<lambda>numeric_value.
              bindL (emit (Def integer_value (cast_rhs ''fptosi'' ''double'' numeric_value ''i32''))) (\<lambda>_.
                retL (''i32'', integer_value))))
            else bindL (lw_numeric lowering argument) (\<lambda>v. retL (''double'', v))) (\<lambda>operand.
     bindL (lower_printf_operands rest) (\<lambda>operands.
       retL (operand # operands)))"

definition lower_literal_printf :: "string \<Rightarrow> expr list \<Rightarrow> output_redirect option \<Rightarrow> unit low" where
  "lower_literal_printf format arguments redirect =
     bindL (declare_string format) (\<lambda>(format_name, format_length).
     bindL (next_temp ''fmtptr'') (\<lambda>format_ptr.
       if length (printf_specifiers format) \<noteq> length arguments
       then raiseL (RuntimeError
         ''printf argument count does not match the format string in the runtime-backed backend'')
       else
         bindL (lower_printf_operands (zip (printf_specifiers format) arguments)) (\<lambda>operands.
         bindL (emit (Def format_ptr (gep_rhs format_length format_name))) (\<lambda>_.
           case redirect of
             None \<Rightarrow> emit (Eff (call_rhs ''i32 (ptr, ...)'' ''@printf'' ((''ptr'', format_ptr) # operands)))
           | Some r \<Rightarrow>
               bindL (lower_runtime_output_target r) (\<lambda>target_ptr.
               bindL (runtime_call ''printf.output'' ''ptr'' ''@qk_open_output'' (open_output_args r target_ptr))
                 (\<lambda>output_handle.
                   emit (Eff (call_rhs ''i32 (ptr, ptr, ...)'' ''@fprintf''
                     ((''ptr'', output_handle) # (''ptr'', format_ptr) # operands)))))))))"

fun printf_arguments :: "nat \<Rightarrow> string \<Rightarrow> string \<Rightarrow> nat \<Rightarrow> expr list \<Rightarrow> unit low" where
  "printf_arguments arg_count numbers_slot strings_slot i [] = retL ()"
| "printf_arguments arg_count numbers_slot strings_slot i (argument # arguments) =
     bindL (next_temp ''printf.number.ptr'') (\<lambda>number_ptr.
     bindL (next_temp ''printf.string.ptr'') (\<lambda>string_ptr.
     bindL (lower_runtime_captured_string_expression lowering argument) (\<lambda>string_value.
     bindL (number_or_parsed lowering ''printf.num.coerce'' argument string_value) (\<lambda>numeric_value.
     bindL (emit_many
       [Def number_ptr (slot_element_rhs arg_count ''double'' numbers_slot i),
        Eff (store_text ''double'' numeric_value number_ptr),
        Def string_ptr (slot_element_rhs arg_count ''ptr'' strings_slot i),
        Eff (store_text ''ptr'' string_value string_ptr)]) (\<lambda>_.
       printf_arguments arg_count numbers_slot strings_slot (Suc i) arguments)))))"

definition lower_dynamic_printf :: "expr \<Rightarrow> expr list \<Rightarrow> output_redirect option \<Rightarrow> unit low" where
  "lower_dynamic_printf format arguments redirect =
     bindL (lw_string lowering format) (\<lambda>format_ptr.
     bindL (if arguments = []
            then runtime_call ''printf'' ''ptr'' ''@qk_sprintf''
                   [(''ptr'', format_ptr), (''i32'', ''0''), (''ptr'', ''null''), (''ptr'', ''null'')]
            else let arg_count = length arguments in
              bindL (next_temp ''printf.numbers'') (\<lambda>numbers_slot.
              bindL (next_temp ''printf.strings'') (\<lambda>strings_slot.
              bindL (array_alloca numbers_slot arg_count ''double'') (\<lambda>_.
              bindL (array_alloca strings_slot arg_count ''ptr'') (\<lambda>_.
              bindL (printf_arguments arg_count numbers_slot strings_slot 0 arguments) (\<lambda>_.
                runtime_call ''printf'' ''ptr'' ''@qk_sprintf''
                  [(''ptr'', format_ptr), (''i32'', nat_to_string arg_count),
                   (''ptr'', numbers_slot), (''ptr'', strings_slot)])))))) (\<lambda>result.
       case redirect of
         None \<Rightarrow> runtime_call_void ''@qk_print_string_fragment'' [(''ptr'', result)]
       | Some r \<Rightarrow>
           bindL (lower_runtime_output_target r) (\<lambda>target_ptr.
           bindL (runtime_call ''printf.output'' ''ptr'' ''@qk_open_output'' (open_output_args r target_ptr))
             (\<lambda>output_handle.
               call_void ''@qk_write_output_string'' [(''ptr'', output_handle), (''ptr'', result)]))))"

definition lower_runtime_printf_statement :: "expr list \<Rightarrow> output_redirect option \<Rightarrow> unit low" where
  "lower_runtime_printf_statement arguments redirect =
     (case arguments of
        [] \<Rightarrow> raiseL (RuntimeError ''printf requires at least a format string'')
      | StringLiteralExpr format _ _ # rest \<Rightarrow> lower_literal_printf format rest redirect
      | format # rest \<Rightarrow> lower_dynamic_printf format rest redirect)"

section \<open>Leaving a function or a phase\<close>

definition lower_return_statement :: "expr option \<Rightarrow> unit low" where
  "lower_return_statement v =
     bindL (getL (\<lambda>s. s)) (\<lambda>s.
       case ls_return_label s of
         None \<Rightarrow> raiseL (RuntimeError ''return statements are not supported in this lowering context'')
       | Some return_label \<Rightarrow>
           (case ls_return_string_slot s of
              Some slot \<Rightarrow>
                bindL (case v of
                         None \<Rightarrow> lower_runtime_constant_string []
                       | Some e \<Rightarrow>
                           if runtime_expression_has_string_result e s then lw_string lowering e
                           else bindL (lw_numeric lowering e) lower_runtime_string_from_numeric_value)
                  (\<lambda>return_value.
                bindL (store ''ptr'' return_value slot) (\<lambda>_. branch return_label))
            | None \<Rightarrow>
                (case ls_return_slot s of
                   None \<Rightarrow> raiseL (RuntimeError ''return statements are not supported in this lowering context'')
                 | Some slot \<Rightarrow>
                     bindL (case v of None \<Rightarrow> retL ZERO | Some e \<Rightarrow> lw_plain lowering e) (\<lambda>return_value.
                     bindL (store ''double'' return_value slot) (\<lambda>_. branch return_label)))))"

definition lower_exit_statement :: "expr option \<Rightarrow> unit low" where
  "lower_exit_statement v =
     bindL (getL (\<lambda>s. s)) (\<lambda>s.
       if ls_runtime_param s = None
       then raiseL (RuntimeError ''exit is not supported in the internal non-runtime lowering path'')
       else
         bindL (case v of
                  None \<Rightarrow> retL ''0''
                | Some e \<Rightarrow>
                    bindL (lw_numeric lowering e) (\<lambda>numeric_value.
                      define_temp ''exit.status'' (cast_rhs ''fptosi'' ''double'' numeric_value ''i32'')))
           (\<lambda>status_value.
         bindL (runtime_call_void ''@qk_request_exit'' [(''i32'', status_value)]) (\<lambda>_.
           case ls_phase_exit_label s of
             Some l \<Rightarrow> branch l
           | None \<Rightarrow>
               (case (ls_return_string_slot s, ls_return_label s) of
                  (Some slot, Some l) \<Rightarrow>
                    bindL (lower_runtime_constant_string []) (\<lambda>empty_value.
                    bindL (store ''ptr'' empty_value slot) (\<lambda>_. branch l))
                | _ \<Rightarrow> raiseL (RuntimeError ''exit is not supported in this lowering context'')))))"

section \<open>Statements\<close>

text \<open>The guard of the statements that need a runtime.\<close>

definition require_runtime :: "string \<Rightarrow> unit low \<Rightarrow> unit low" where
  "require_runtime what m =
     bindL (getL ls_runtime_param) (\<lambda>rt.
       if rt = None
       then raiseL (RuntimeError (what @ '' not supported in the internal non-runtime lowering path''))
       else m)"

text \<open>\<open>next\<close> and \<open>nextfile\<close>: to the exit of the phase.\<close>

definition lower_phase_exit :: "string \<Rightarrow> unit low \<Rightarrow> unit low" where
  "lower_phase_exit what before =
     bindL (getL (\<lambda>s. s)) (\<lambda>s.
       case (ls_runtime_param s, ls_phase_exit_label s) of
         (Some _, Some l) \<Rightarrow> bindL before (\<lambda>_. branch l)
       | _ \<Rightarrow> raiseL (RuntimeError (what @ '' is not supported in the internal non-runtime lowering path'')))"

definition jump_to :: "string \<Rightarrow> string option \<Rightarrow> unit low" where
  "jump_to what target =
     (case target of
        None \<Rightarrow> raiseL (RuntimeError (what @ '' statements are not supported by the current backend''))
      | Some l \<Rightarrow> branch l)"

fun lower_statement :: "stmt \<Rightarrow> unit low"
and lower_statements :: "stmt list \<Rightarrow> unit low"
where
  "lower_statement (AssignStmt target op v _) =
     bindL (getL ls_runtime_param) (\<lambda>rt.
       if rt \<noteq> None then lower_runtime_assignment_statement target op v
       else lower_assignment_statement target op v)"
| "lower_statement (BlockStmt statements _) = lower_statements statements"
| "lower_statement (BreakStmt _) = bindL (getL ls_break_label) (jump_to ''break'')"
| "lower_statement (ContinueStmt _) = bindL (getL ls_continue_label) (jump_to ''continue'')"
| "lower_statement (DeleteStmt target _) =
     require_runtime ''delete statements are'' (lower_runtime_delete_statement target)"
| "lower_statement (IfStmt condition_expr then_branch else_branch _) =
     lower_if_statement condition_expr (lower_statement then_branch)
       (case else_branch of None \<Rightarrow> None | Some e \<Rightarrow> Some (lower_statement e))"
| "lower_statement (DoWhileStmt body condition_expr _) =
     lower_do_while_statement (lower_statement body) condition_expr"
| "lower_statement (WhileStmt condition_expr body _) =
     lower_while_statement condition_expr (lower_statement body)"
| "lower_statement (ForStmt init condition_expr update body _) =
     require_runtime ''for statements are''
       (lower_runtime_for_statement init condition_expr update (lower_statement body))"
| "lower_statement (ForInStmt name iterable body _) =
     require_runtime ''for-in statements are''
       (lower_runtime_for_in_statement name iterable (lower_statement body))"
| "lower_statement (ReturnStmt v _) = lower_return_statement v"
| "lower_statement (PrintStmt arguments _ redirect) =
     bindL (getL ls_runtime_param) (\<lambda>rt.
       if rt \<noteq> None then lower_runtime_print_statement arguments redirect
       else case arguments of
              [e] \<Rightarrow> lower_print_expression e
            | _ \<Rightarrow> raiseL (RuntimeError
                ''the internal non-runtime lowering path only supports print with one argument''))"
| "lower_statement (PrintfStmt arguments _ redirect) =
     require_runtime ''printf statements are'' (lower_runtime_printf_statement arguments redirect)"
| "lower_statement (ExprStmt e _) =
     require_runtime ''expression statements are'' (lower_runtime_side_effect_expression e)"
| "lower_statement (NextStmt _) = lower_phase_exit ''next'' (retL ())"
| "lower_statement (NextFileStmt _) = lower_phase_exit ''nextfile'' (runtime_call_void ''@qk_nextfile'' [])"
| "lower_statement (ExitStmt v _) = lower_exit_statement v"
| "lower_statements [] = retL ()"
| "lower_statements (statement # statements) =
     bindL (lower_statement statement) (\<lambda>_. lower_statements statements)"

end
