(* ===== verification/Lower_Program.thy ===== *)
theory Lower_Program
  imports Lower_Stmt
begin

text \<open>
  \<^verbatim>\<open>src/quawk/backend/lower_program.py\<close>: user-defined functions, the record items and the three phase
  functions of the module.
\<close>

section \<open>Actions and record items\<close>

definition is_phase_exit :: "stmt \<Rightarrow> bool" where
  "is_phase_exit statement =
     (case statement of NextStmt _ \<Rightarrow> True | NextFileStmt _ \<Rightarrow> True | ExitStmt _ _ \<Rightarrow> True | _ \<Rightarrow> False)"

text \<open>The statements up to the first that \<open>stops\<close>; the result is \<open>terminated\<close>.\<close>

fun lower_until :: "(stmt \<Rightarrow> bool) \<Rightarrow> stmt list \<Rightarrow> bool low" where
  "lower_until stops [] = retL False"
| "lower_until stops (statement # statements) =
     bindL (lower_statement statement) (\<lambda>_.
       if stops statement then retL True else lower_until stops statements)"

text \<open>\<open>finally: state.action_exit_label = previous_exit_label\<close>.\<close>

definition restoring_action_exit :: "unit low \<Rightarrow> unit low" where
  "restoring_action_exit m s = (let (r, s') = m s in (r, s'\<lparr>ls_action_exit_label := ls_action_exit_label s\<rparr>))"

definition lower_action :: "action \<Rightarrow> unit low" where
  "lower_action action =
     bindL (getL ls_runtime_param) (\<lambda>rt.
       if rt \<noteq> None
       then
         bindL (next_label ''action.exit'') (\<lambda>l.
           restoring_action_exit
             (bindL (modifyL (\<lambda>s. s\<lparr>ls_action_exit_label := Some l\<rparr>)) (\<lambda>_.
              bindL (lower_until is_phase_exit (ac_statements action)) (\<lambda>terminated.
              bindL (if terminated then retL () else branch l) (\<lambda>_.
                mark_label l)))))
       else
         restoring_action_exit
           (bindL (lower_until (\<lambda>_. False) (ac_statements action)) (\<lambda>_. retL ())))"

definition lower_record_item :: "expr option \<Rightarrow> action \<Rightarrow> unit low" where
  "lower_record_item test action =
     (case test of
        None \<Rightarrow> lower_action action
      | Some e \<Rightarrow>
          bindL (lower_record_pattern lowering e) (\<lambda>condition.
          bindL (next_label ''record.match'') (\<lambda>then_label.
          bindL (next_label ''record.next'') (\<lambda>end_label.
          bindL (cond_branch condition then_label end_label) (\<lambda>_.
          bindL (mark_label then_label) (\<lambda>_.
          bindL (lower_action action) (\<lambda>_.
          bindL (branch end_label) (\<lambda>_.
            mark_label end_label))))))))"

definition lower_runtime_action_or_default :: "action option \<Rightarrow> unit low" where
  "lower_runtime_action_or_default action =
     (case action of
        None \<Rightarrow>
          bindL assert_runtime (\<lambda>_.
          bindL (get_field ''field'' ''0'') (\<lambda>field_ptr.
            runtime_call_void ''@qk_print_string'' [(''ptr'', field_ptr)]))
      | Some a \<Rightarrow> lower_action a)"

text \<open>Store whether the range stays active: the end pattern has not matched.\<close>

definition store_range_state :: "string \<Rightarrow> string \<Rightarrow> string \<Rightarrow> string \<Rightarrow> unit low" where
  "store_range_state flag_prefix num_prefix slot_name matches =
     bindL (next_temp flag_prefix) (\<lambda>keep_active.
     bindL (next_temp num_prefix) (\<lambda>keep_active_num.
     bindL (emit_many
       [Def keep_active (binop_rhs ''xor'' ''i1'' matches ''true''),
        Def keep_active_num (cast_rhs ''uitofp'' ''i1'' keep_active ''double'')]) (\<lambda>_.
       store ''double'' keep_active_num slot_name)))"

definition lower_runtime_range_record_item :: "pattern \<Rightarrow> pattern \<Rightarrow> action option \<Rightarrow> string \<Rightarrow> unit low" where
  "lower_runtime_range_record_item left right action range_name =
     (case (left, right) of
        (ExprPattern left_test _, ExprPattern right_test _) \<Rightarrow>
          bindL (variable_address range_name) (\<lambda>slot_name.
          bindL (next_temp ''range.activeval'') (\<lambda>active_value.
          bindL (next_temp ''range.activeflag'') (\<lambda>active_flag.
          bindL (next_label ''range.active.label'') (\<lambda>active_label.
          bindL (next_label ''range.inactive.label'') (\<lambda>inactive_label.
          bindL (next_label ''range.end.label'') (\<lambda>end_label.
          bindL (emit (Def active_value (load_rhs ''double'' slot_name))) (\<lambda>_.
          bindL (emit (Def active_flag (binop_rhs ''fcmp one'' ''double'' active_value ZERO))) (\<lambda>_.
          bindL (cond_branch active_flag active_label inactive_label) (\<lambda>_.
          bindL (mark_label active_label) (\<lambda>_.
          bindL (lower_runtime_action_or_default action) (\<lambda>_.
          bindL (lower_record_pattern lowering right_test) (\<lambda>right_matches.
          bindL (store_range_state ''range.keepflag'' ''range.keepnum'' slot_name right_matches) (\<lambda>_.
          bindL (branch end_label) (\<lambda>_.
          bindL (mark_label inactive_label) (\<lambda>_.
          bindL (lower_record_pattern lowering left_test) (\<lambda>left_matches.
          bindL (next_label ''range.matched.label'') (\<lambda>matched_label.
          bindL (cond_branch left_matches matched_label end_label) (\<lambda>_.
          bindL (mark_label matched_label) (\<lambda>_.
          bindL (lower_runtime_action_or_default action) (\<lambda>_.
          bindL (lower_record_pattern lowering right_test) (\<lambda>right_after_start.
          bindL (store_range_state ''range.start.keepflag'' ''range.start.keepnum'' slot_name right_after_start) (\<lambda>_.
          bindL (branch end_label) (\<lambda>_.
            mark_label end_label)))))))))))))))))))))))
      | _ \<Rightarrow> raiseL (RuntimeError
          ''the runtime-backed backend only supports expression endpoints in range patterns''))"

definition lower_runtime_record_item :: "pattern option \<Rightarrow> action option \<Rightarrow> string option \<Rightarrow> unit low" where
  "lower_runtime_record_item pat action state_name =
     (case pat of
        None \<Rightarrow> lower_runtime_action_or_default action
      | Some (ExprPattern test _) \<Rightarrow>
          bindL (lower_record_pattern lowering test) (\<lambda>condition.
          bindL (next_label ''record.match'') (\<lambda>then_label.
          bindL (next_label ''record.next'') (\<lambda>end_label.
          bindL (cond_branch condition then_label end_label) (\<lambda>_.
          bindL (mark_label then_label) (\<lambda>_.
          bindL (lower_runtime_action_or_default action) (\<lambda>_.
          bindL (branch end_label) (\<lambda>_.
            mark_label end_label)))))))
      | Some (RangePattern left right _) \<Rightarrow>
          (case state_name of
             None \<Rightarrow> raiseL (RuntimeError ''range patterns require a stable backend state slot'')
           | Some name \<Rightarrow> lower_runtime_range_record_item left right action name)
      | Some _ \<Rightarrow> raiseL (RuntimeError ''unsupported record item in runtime-backed backend''))"

section \<open>User-defined functions\<close>

text \<open>\<open>{item.name: item for item in program.items if isinstance(item, FunctionDef)}\<close>.\<close>

definition function_dict :: "program \<Rightarrow> (string \<times> function_def) list" where
  "function_dict prog =
     fold (\<lambda>item defs. case item of
             FunctionDef f \<Rightarrow> AList.update (fd_name f) f defs
           | PatternAction _ \<Rightarrow> defs)
       (pr_items prog) []"

text \<open>The arguments of the constructor \<open>LoweringState\<close> that the program shares between its states.\<close>

record module_context =
  mc_variable_indexes :: "(string \<times> int) list"
  mc_slot_allocation :: slot_allocation
  mc_type_info :: type_env
  mc_array_names :: "string set"
  mc_function_defs :: "(string \<times> function_def) list"

definition module_state :: "module_context \<Rightarrow> nat \<Rightarrow> lowering_state" where
  "module_state mc string_index =
     initial_state
       \<lparr>ls_runtime_param := Some ''%rt'', ls_state_param := Some ''%state'',
        ls_variable_indexes := mc_variable_indexes mc, ls_slot_allocation := Some (mc_slot_allocation mc),
        ls_type_info := mc_type_info mc, ls_array_names := mc_array_names mc,
        ls_function_defs := map_of (mc_function_defs mc), ls_string_index := string_index\<rparr>"

definition arg_slot :: "nat \<Rightarrow> string" where
  "arg_slot i = ''%arg.slot.'' @ nat_to_string i"

fun lower_params :: "nat \<Rightarrow> string list \<Rightarrow> unit low" where
  "lower_params i [] = retL ()"
| "lower_params i (param # params) =
     bindL (emit_alloca (arg_slot i) [Txt ''alloca ptr'']) (\<lambda>_.
     bindL (store ''ptr'' (''%arg.'' @ nat_to_string i) (arg_slot i)) (\<lambda>_.
     bindL (modifyL (\<lambda>s. s\<lparr>ls_function_param_strings :=
                              (ls_function_param_strings s)(param \<mapsto> arg_slot i)\<rparr>)) (\<lambda>_.
       lower_params (Suc i) params)))"

definition ends_function :: "stmt \<Rightarrow> bool" where
  "ends_function statement = (case statement of ReturnStmt _ _ \<Rightarrow> True | ExitStmt _ _ \<Rightarrow> True | _ \<Rightarrow> False)"

definition lower_function_body :: "function_def \<Rightarrow> unit low" where
  "lower_function_body f =
     bindL (lower_params 0 (fd_params f)) (\<lambda>_.
     bindL (next_temp ''retval'') (\<lambda>return_slot.
     bindL (emit_alloca return_slot [Txt ''alloca ptr'']) (\<lambda>_.
     bindL (lower_runtime_constant_string []) (\<lambda>empty_value.
     bindL (store ''ptr'' empty_value return_slot) (\<lambda>_.
     bindL (modifyL (\<lambda>s. s\<lparr>ls_return_string_slot := Some return_slot\<rparr>)) (\<lambda>_.
     bindL (next_label ''return'') (\<lambda>return_label.
     bindL (modifyL (\<lambda>s. s\<lparr>ls_return_label := Some return_label\<rparr>)) (\<lambda>_.
     bindL (lower_until ends_function (ac_statements (fd_body f))) (\<lambda>terminated.
     bindL (if terminated then retL () else branch return_label) (\<lambda>_.
     bindL (mark_label return_label) (\<lambda>_.
     bindL (emit (Def ''%retval.load'' (load_rhs ''ptr'' return_slot))) (\<lambda>_.
       emit (Ret [Txt ''ptr '', Opd ''%retval.load''])))))))))))))"

definition function_state :: "module_context \<Rightarrow> nat \<Rightarrow> function_def \<Rightarrow> lowering_state" where
  "function_state mc string_index f = (module_state mc string_index)\<lparr>ls_local_names := set (fd_params f)\<rparr>"

text \<open>The state that a computation leaves, or its exception.\<close>

definition run_low :: "unit low \<Rightarrow> lowering_state \<Rightarrow> exn + lowering_state" where
  "run_low m s = (case m s of (Inl e, _) \<Rightarrow> Inl e | (Inr _, s') \<Rightarrow> Inr s')"

text \<open>The functions in order, each with the string index that the one before has left.\<close>

fun lower_functions :: "module_context \<Rightarrow> nat \<Rightarrow> function_def list \<Rightarrow> exn + (function_def \<times> lowering_state) list" where
  "lower_functions mc string_index [] = Inr []"
| "lower_functions mc string_index (f # fs) =
     bindE (run_low (lower_function_body f) (function_state mc string_index f)) (\<lambda>s.
     bindE (lower_functions mc (ls_string_index s) fs) (\<lambda>rest.
       Inr ((f, s) # rest)))"

definition final_string_index :: "nat \<Rightarrow> (function_def \<times> lowering_state) list \<Rightarrow> nat" where
  "final_string_index string_index fs = (if fs = [] then string_index else ls_string_index (snd (last fs)))"

definition declare_globals :: "lowering_state \<Rightarrow> string list" where
  "declare_globals s = map (\<lambda>(name, data). declare_bytes name data) (ls_globals s)"

definition lower_runtime_user_functions_to_ir :: "module_context \<Rightarrow> exn + string list \<times> string list \<times> nat" where
  "lower_runtime_user_functions_to_ir mc =
     bindE (lower_functions mc 0 (map snd (mc_function_defs mc))) (\<lambda>fs.
       Inr (concat (map (declare_globals \<circ> snd) fs),
            map (\<lambda>(f, s). render_runtime_user_function f s) fs,
            final_string_index 0 fs))"

section \<open>The module\<close>

definition with_phase_exit :: "unit low \<Rightarrow> unit low" where
  "with_phase_exit m =
     bindL (next_label ''phase.exit'') (\<lambda>l.
     bindL (modifyL (\<lambda>s. s\<lparr>ls_phase_exit_label := Some l\<rparr>)) (\<lambda>_. m))"

definition lower_record_items :: "normalized_record_item list \<Rightarrow> unit low" where
  "lower_record_items =
     each_low (\<lambda>item. lower_runtime_record_item (nr_pattern item) (nr_action item) (nr_range_state_name item))"

definition phase_state :: "module_context \<Rightarrow> nat \<Rightarrow> string set \<Rightarrow> lowering_state" where
  "phase_state mc string_index local_names =
     (module_state mc string_index)\<lparr>ls_local_numeric_names := local_names\<rparr>"

definition render_state_type :: "slot_allocation \<Rightarrow> string option" where
  "render_state_type sa = (if variable_count sa = 0 then None else Some (sa_state_struct_type sa))"

definition module_context_of :: "program \<Rightarrow> normalized_lowering_program \<Rightarrow> type_env \<Rightarrow> module_context" where
  "module_context_of prog np types =
     \<lparr>mc_variable_indexes = np_variable_indexes np, mc_slot_allocation = np_slot_allocation np,
      mc_type_info = types, mc_array_names = np_array_names np, mc_function_defs = function_dict prog\<rparr>"

text \<open>The states of the three phases, each with the string index that the one before has left.\<close>

definition lower_phases ::
  "module_context \<Rightarrow> normalized_lowering_program \<Rightarrow> local_scalar_residency \<Rightarrow> nat
     \<Rightarrow> exn + lowering_state \<times> lowering_state \<times> lowering_state" where
  "lower_phases mc np residency string_index =
     bindE (names_for_phase residency ''begin'') (\<lambda>begin_names.
     bindE (run_low (with_phase_exit (each_low lower_action (np_begin_actions np)))
              (phase_state mc string_index begin_names)) (\<lambda>begin_state.
     bindE (names_for_phase residency ''record'') (\<lambda>record_names.
     bindE (run_low (with_phase_exit (lower_record_items (np_record_items np)))
              (phase_state mc (ls_string_index begin_state) record_names)) (\<lambda>record_state.
     bindE (names_for_phase residency ''end'') (\<lambda>end_names.
     bindE (run_low (with_phase_exit (each_low lower_action (np_end_actions np)))
              (phase_state mc (ls_string_index record_state) end_names)) (\<lambda>end_state.
       Inr (begin_state, record_state, end_state)))))))"

definition lower_reusable_program_to_llvm_ir ::
  "program \<Rightarrow> normalized_lowering_program \<Rightarrow> type_env \<Rightarrow> exn + string" where
  "lower_reusable_program_to_llvm_ir prog np types =
     (let mc = module_context_of prog np types in
      bindE (classify_local_numeric_scalar_residency prog (Some np) (Some types)) (\<lambda>residency.
      bindE (lower_runtime_user_functions_to_ir mc) (\<lambda>(function_globals, function_bodies, string_index).
      bindE (lower_phases mc np residency string_index) (\<lambda>(begin_state, record_state, end_state).
      bindE (render_reusable_function ''quawk_begin'' begin_state) (\<lambda>begin_text.
      bindE (render_reusable_function ''quawk_record'' record_state) (\<lambda>record_text.
      bindE (render_reusable_function ''quawk_end'' end_state) (\<lambda>end_text.
        Inr (join_with [newline]
          (reusable_program_declarations (render_state_type (np_slot_allocation np))
           @ [[]] @ function_globals @ declare_globals begin_state @ declare_globals record_state
           @ declare_globals end_state @ [[]] @ function_bodies
           @ [[], begin_text, [], record_text, [], end_text, []])))))))))"

end
