(* ===== verification/Driver.thy ===== *)
theory Driver
  imports Lower_Program
begin

text \<open>
  \<^verbatim>\<open>src/quawk/backend/driver.py\<close>: the module that creates the runtime, runs the three phases and loops
  over the records, and the predicates on programs.  A path is its UTF-8 text.
\<close>

section \<open>Indexes\<close>

type_synonym name_indexes = "(string \<times> int) list"

definition sorted_indexes :: "name_indexes \<Rightarrow> name_indexes" where
  "sorted_indexes indexes = sort_key snd indexes"

definition reusable_runtime_state_indexes :: "name_indexes \<Rightarrow> name_indexes" where
  "reusable_runtime_state_indexes indexes =
     filter (\<lambda>(name, _). is_state_name name) (sorted_indexes indexes)"

definition runtime_slot_indexes :: "name_indexes \<Rightarrow> slot_allocation option \<Rightarrow> name_indexes" where
  "runtime_slot_indexes indexes allocation =
     (case allocation of
        Some sa \<Rightarrow>
          map (\<lambda>slot. (vs_name slot, vs_index slot))
            (filter (\<lambda>slot. vs_storage slot = ''slot'' \<and> \<not> is_builtin_variable_name (vs_name slot)
                             \<and> \<not> is_state_name (vs_name slot))
               (sa_slots sa))
      | None \<Rightarrow>
          filter (\<lambda>(name, _). \<not> is_builtin_variable_name name \<and> \<not> is_state_name name) (sorted_indexes indexes))"

definition runtime_numeric_slot_indexes :: "name_indexes \<Rightarrow> type_env \<Rightarrow> slot_allocation option \<Rightarrow> name_indexes" where
  "runtime_numeric_slot_indexes indexes types allocation =
     filter (\<lambda>(name, _). types name = Some TyNumeric) (runtime_slot_indexes indexes allocation)"

definition runtime_string_slot_indexes :: "name_indexes \<Rightarrow> type_env \<Rightarrow> slot_allocation option \<Rightarrow> name_indexes" where
  "runtime_string_slot_indexes indexes types allocation =
     filter (\<lambda>(name, _). types name = Some TyString) (runtime_slot_indexes indexes allocation)"

section \<open>Globals\<close>

type_synonym initial_variables = "(string \<times> initial_value) list"

definition with_nul :: "string \<Rightarrow> nat list" where
  "with_nul text = utf8_encode text @ [0]"

definition driver_input_global :: "nat \<Rightarrow> string" where
  "driver_input_global i = ''@.driver.input.'' @ nat_to_string i"

definition driver_scalar_name_global :: "string \<Rightarrow> string \<times> nat" where
  "driver_scalar_name_global name = (''@.driver.scalar.'' @ name, length (utf8_encode name) + 1)"

definition driver_scalar_value_global :: "nat \<Rightarrow> string" where
  "driver_scalar_value_global i = ''@.driver.scalar.value.'' @ nat_to_string i"

fun scalar_globals :: "string set \<Rightarrow> nat \<Rightarrow> initial_variables \<Rightarrow> (string \<times> nat list) list" where
  "scalar_globals seen_scalars i [] = []"
| "scalar_globals seen_scalars i ((name, v) # rest) =
     (if name \<in> seen_scalars then [] else [(fst (driver_scalar_name_global name), with_nul name)])
     @ (case v of
          StringValue text \<Rightarrow> [(driver_scalar_value_global i, with_nul text)]
        | _ \<Rightarrow> [])
     @ scalar_globals (insert name seen_scalars) (Suc i) rest"

definition input_globals :: "string list \<Rightarrow> (string \<times> nat list) list" where
  "input_globals input_files =
     map (\<lambda>(path, i). (driver_input_global i, with_nul path)) (enumerate_from 0 input_files)"

definition inputs_table :: "string list \<Rightarrow> string" where
  "inputs_table input_files =
     ''@.driver.inputs = private unnamed_addr constant ['' @ nat_to_string (length input_files) @ '' x ptr] [''
     @ join_with '', '' (map (\<lambda>(path, i).
         ''ptr '' @ emit_gep_constant (length (utf8_encode path) + 1) (driver_input_global i))
         (enumerate_from 0 input_files)) @ '']''"

definition render_driver_globals :: "string list \<Rightarrow> string option \<Rightarrow> initial_variables \<Rightarrow> string list" where
  "render_driver_globals input_files field_separator initial_variables =
     map (\<lambda>(name, data). declare_bytes name data) (input_globals input_files)
     @ (if input_files \<noteq> [] then [inputs_table input_files] else [])
     @ (case field_separator of None \<Rightarrow> [] | Some fs \<Rightarrow> [declare_bytes ''@.driver.fs'' (with_nul fs)])
     @ map (\<lambda>(name, data). declare_bytes name data) (scalar_globals {} 0 initial_variables)"

section \<open>State and preassignments\<close>

definition state_slot_lines :: "string \<Rightarrow> int \<Rightarrow> string \<Rightarrow> line list" where
  "state_slot_lines slot_name i v =
     [Def slot_name (state_field_rhs ''%state'' i), Eff (store_text ''double'' v slot_name)]"

definition initial_number :: "initial_value \<Rightarrow> string" where
  "initial_number v =
     (case v of
        StringValue text \<Rightarrow> format_double_literal (awk_numeric_prefix text)
      | NumberValue number \<Rightarrow> format_double_literal number
      | NaNValue \<Rightarrow> ''nan'')"

definition null_gep :: "piece list" where
  "null_gep = [Txt ''getelementptr i8, ptr null, i64 0'']"

definition driver_state_setup :: "name_indexes \<Rightarrow> initial_variables \<Rightarrow> line list" where
  "driver_state_setup indexes initial_variables =
     (if indexes = [] then [Def ''%state'' null_gep]
      else
        [Def ''%state.storage'' [Txt ''alloca %quawk.state''],
         Def ''%state'' [Txt ''getelementptr i8, ptr '', Opd ''%state.storage'', Txt '', i64 0'']]
        @ concat (map (\<lambda>(name, i). state_slot_lines (''%state.init.'' @ name) i ZERO) (sorted_indexes indexes))
        @ concat (map (\<lambda>(name, v).
            case map_of indexes name of
              None \<Rightarrow> []
            | Some i \<Rightarrow> state_slot_lines (''%state.preassign.'' @ name) i (initial_number v)) initial_variables))"

definition render_driver_state_setup :: "name_indexes \<Rightarrow> initial_variables \<Rightarrow> string list" where
  "render_driver_state_setup indexes initial_variables =
     map render_line (driver_state_setup indexes initial_variables)"

definition preassign_name :: "nat \<Rightarrow> string" where
  "preassign_name i = ''%preassign.name.'' @ nat_to_string i"

definition preassign_value :: "nat \<Rightarrow> string" where
  "preassign_value i = ''%preassign.value.'' @ nat_to_string i"

definition rt_call :: "string \<Rightarrow> (string \<times> string) list \<Rightarrow> line" where
  "rt_call callee args = Eff (call_rhs ''void'' callee ((''ptr'', ''%rt'') # args))"

definition slot_string_line :: "nat \<Rightarrow> int \<Rightarrow> line" where
  "slot_string_line i slot_index =
     rt_call ''@qk_slot_set_string'' [(''i64'', int_to_string slot_index), (''ptr'', preassign_value i)]"

definition preassign_lines :: "name_indexes \<Rightarrow> name_indexes \<Rightarrow> nat \<Rightarrow> string \<Rightarrow> initial_value \<Rightarrow> line list" where
  "preassign_lines slot_indexes string_slot_indexes i name v =
     (let (scalar_name, scalar_length) = driver_scalar_name_global name in
      Def (preassign_name i) (gep_rhs scalar_length scalar_name)
      # (case v of
           StringValue text \<Rightarrow>
             [Def (preassign_value i) (gep_rhs (length (utf8_encode text) + 1) (driver_scalar_value_global i)),
              rt_call ''@qk_scalar_set_string'' [(''ptr'', preassign_name i), (''ptr'', preassign_value i)]]
             @ (case map_of slot_indexes name of
                  Some slot_index \<Rightarrow> [slot_string_line i slot_index]
                | None \<Rightarrow>
                    (case map_of string_slot_indexes name of
                       Some slot_index \<Rightarrow> [slot_string_line i slot_index]
                     | None \<Rightarrow> []))
         | _ \<Rightarrow>
             [rt_call ''@qk_scalar_set_number_inline''
                [(''ptr'', preassign_name i), (''double'', initial_number v)]]
             @ (case map_of slot_indexes name of
                  Some slot_index \<Rightarrow>
                    [rt_call ''@qk_slot_set_number''
                       [(''i64'', int_to_string slot_index), (''double'', initial_number v)]]
                | None \<Rightarrow> [])))"

definition driver_scalar_preassignments ::
  "name_indexes \<Rightarrow> name_indexes \<Rightarrow> name_indexes \<Rightarrow> initial_variables \<Rightarrow> line list" where
  "driver_scalar_preassignments state_indexes slot_indexes string_slot_indexes initial_variables =
     concat (map (\<lambda>((name, v), i).
         if map_of state_indexes name \<noteq> None then []
         else preassign_lines slot_indexes string_slot_indexes i name v)
       (enumerate_from 0 initial_variables))"

definition render_driver_scalar_preassignments ::
  "name_indexes \<Rightarrow> name_indexes \<Rightarrow> name_indexes \<Rightarrow> initial_variables \<Rightarrow> string list" where
  "render_driver_scalar_preassignments state_indexes slot_indexes string_slot_indexes initial_variables =
     map render_line (driver_scalar_preassignments state_indexes slot_indexes string_slot_indexes initial_variables)"

section \<open>The main function\<close>

definition driver_runtime_create :: "string list \<Rightarrow> string option \<Rightarrow> line list" where
  "driver_runtime_create input_files field_separator =
     [Def ''%argv''
        (if input_files \<noteq> []
         then [Txt (''getelementptr inbounds ['' @ nat_to_string (length input_files) @ '' x ptr], ptr ''),
               Opd ''@.driver.inputs'', Txt '', i64 0, i64 0'']
         else null_gep),
      Def ''%fs''
        (case field_separator of
           None \<Rightarrow> null_gep
         | Some fs \<Rightarrow> gep_rhs (length (utf8_encode fs) + 1) ''@.driver.fs''),
      Def ''%rt''
        (call_rhs ''ptr'' ''@qk_runtime_create''
           [(''i32'', nat_to_string (length input_files)), (''ptr'', ''%argv''), (''ptr'', ''%fs'')])]"

definition render_driver_runtime_create :: "string list \<Rightarrow> string option \<Rightarrow> string list" where
  "render_driver_runtime_create input_files field_separator =
     map render_line (driver_runtime_create input_files field_separator)"

definition should_exit :: "string \<Rightarrow> line" where
  "should_exit t = Def t (call_rhs ''i1'' ''@qk_should_exit'' [(''ptr'', ''%rt'')])"

definition phase_call :: "string \<Rightarrow> line" where
  "phase_call f = rt_call f [(''ptr'', ''%state'')]"

definition driver_record_loop :: "bool \<Rightarrow> bool \<Rightarrow> line list" where
  "driver_record_loop consumes_main_input has_record_phase =
     (if \<not> consumes_main_input then []
      else
        [should_exit ''%should.exit.begin'',
         CondBr ''%should.exit.begin'' ''record.done'' ''record.cond'',
         Lab ''record.cond'',
         Def ''%has.record'' (call_rhs ''i1'' ''@qk_next_record_inline'' [(''ptr'', ''%rt'')]),
         CondBr ''%has.record'' ''record.body'' ''record.done'',
         Lab ''record.body'']
        @ (if has_record_phase then [phase_call ''@quawk_record''] else [])
        @ [should_exit ''%should.exit.record'',
           CondBr ''%should.exit.record'' ''record.done'' ''record.cond'',
           Lab ''record.done''])"

definition render_driver_record_loop :: "bool \<Rightarrow> bool \<Rightarrow> string list" where
  "render_driver_record_loop consumes_main_input has_record_phase =
     map render_line (driver_record_loop consumes_main_input has_record_phase)"

text \<open>The body of \<open>quawk_main\<close>.\<close>

definition driver_body ::
  "string list \<Rightarrow> string option \<Rightarrow> initial_variables \<Rightarrow> name_indexes \<Rightarrow> name_indexes \<Rightarrow> name_indexes
     \<Rightarrow> bool \<Rightarrow> bool \<Rightarrow> line list" where
  "driver_body input_files field_separator initial_variables state_indexes slot_indexes string_slot_indexes
     consumes_main_input has_record_phase =
     driver_state_setup state_indexes initial_variables
     @ driver_runtime_create input_files field_separator
     @ driver_scalar_preassignments state_indexes slot_indexes string_slot_indexes initial_variables
     @ [phase_call ''@quawk_begin'']
     @ driver_record_loop consumes_main_input has_record_phase
     @ [phase_call ''@quawk_end'',
        Def ''%exit.status'' (call_rhs ''i32'' ''@qk_exit_status'' [(''ptr'', ''%rt'')]),
        rt_call ''@qk_runtime_destroy'' [],
        Ret [Txt ''i32 '', Opd ''%exit.status'']]"

text \<open>\<open>reusable | numeric\<close>: the keys of the two dictionaries are disjoint.\<close>

definition state_storage_indexes :: "normalized_lowering_program \<Rightarrow> type_env \<Rightarrow> name_indexes" where
  "state_storage_indexes np types =
     sorted_indexes
       (reusable_runtime_state_indexes (np_variable_indexes np)
        @ runtime_numeric_slot_indexes (np_variable_indexes np) types (Some (np_slot_allocation np)))"

definition build_execution_driver_llvm_ir ::
  "program \<Rightarrow> string \<Rightarrow> string list \<Rightarrow> string option \<Rightarrow> initial_variables \<Rightarrow> exn + string" where
  "build_execution_driver_llvm_ir prog program_llvm_ir input_files field_separator initial_variables =
     bindE (normalize_program_for_lowering prog) (\<lambda>np.
     bindE (infer_variable_types prog) (\<lambda>types.
       let indexes = np_variable_indexes np; allocation = Some (np_slot_allocation np) in
       Inr (join_with [newline]
         (execution_driver_declarations (extract_state_type_declaration program_llvm_ir)
          @ [[]] @ render_driver_globals input_files field_separator initial_variables
          @ [[], ''define i32 @quawk_main() {'', ''entry:'']
          @ map render_line
              (driver_body input_files field_separator initial_variables (state_storage_indexes np types)
                 (runtime_slot_indexes indexes allocation)
                 (runtime_string_slot_indexes indexes types allocation)
                 (np_record_items np \<noteq> [] \<or> np_end_actions np \<noteq> []) (np_record_items np \<noteq> []))
          @ [''}'', []]))))"

section \<open>Predicates on programs\<close>

definition has_input_aware_patterns :: "program \<Rightarrow> bool" where
  "has_input_aware_patterns prog =
     list_ex (\<lambda>item. case item of
         FunctionDef _ \<Rightarrow> False
       | PatternAction pa \<Rightarrow>
           (case pa_pattern pa of
              None \<Rightarrow> True
            | Some (ExprPattern _ _) \<Rightarrow> True
            | Some (RangePattern _ _ _) \<Rightarrow> True
            | Some _ \<Rightarrow> False)) (pr_items prog)"

definition has_end_pattern :: "program \<Rightarrow> bool" where
  "has_end_pattern prog =
     list_ex (\<lambda>item. case item of
         FunctionDef _ \<Rightarrow> False
       | PatternAction pa \<Rightarrow> (case pa_pattern pa of Some (EndPattern _) \<Rightarrow> True | _ \<Rightarrow> False)) (pr_items prog)"

definition requires_input_aware_execution :: "program \<Rightarrow> bool" where
  "requires_input_aware_execution prog \<longleftrightarrow>
     has_input_aware_patterns prog \<or> has_end_pattern prog
     \<or> length (filter (\<lambda>item. \<not> is_function_item item) (pr_items prog)) > 1"

definition has_function_definitions :: "program \<Rightarrow> bool" where
  "has_function_definitions prog = list_ex is_function_item (pr_items prog)"

definition collect_function_definitions :: "program \<Rightarrow> (string \<times> function_def) list" where
  "collect_function_definitions prog = function_dict prog"

end
