(* ===== verification/Lowering_Contract.thy ===== *)
theory Lowering_Contract
  imports Lowering
begin

text \<open>
  The contract of the lowering with its state.  A relation \<open>R A L\<close> between the state before and after
  says what a computation may do that has been given the temporaries \<open>A\<close> and the labels \<open>L\<close> to define.
  The locale states what the relation has to satisfy for the primitive steps; every lowering function of
  \<^verbatim>\<open>lower_lvalue.py\<close>, \<^verbatim>\<open>lower_builtins.py\<close> and \<^verbatim>\<open>lower_expr.py\<close> then satisfies it.
\<close>

section \<open>The judgement\<close>

text \<open>No temporary of the backend is called like an argument or the slot of an argument.\<close>

definition prefix_ok :: "string \<Rightarrow> bool" where
  "prefix_ok p \<longleftrightarrow> p \<noteq> ''arg'' \<and> p \<noteq> ''arg.slot''"

type_synonym contract = "nat set \<Rightarrow> nat set \<Rightarrow> lowering_state \<Rightarrow> lowering_state \<Rightarrow> bool"

definition lawful :: "contract \<Rightarrow> (exn \<Rightarrow> bool) \<Rightarrow> nat set \<Rightarrow> nat set \<Rightarrow> 'a low \<Rightarrow> bool" where
  "lawful R E A L m \<longleftrightarrow>
     (\<forall>s. A \<subseteq> {..<ls_temp_index s} \<longrightarrow> L \<subseteq> {..<ls_label_index s} \<longrightarrow>
        R A L s (snd (m s)) \<and> (\<forall>e. fst (m s) = Inl e \<longrightarrow> E e))"

definition lawful_lowerers :: "contract \<Rightarrow> (exn \<Rightarrow> bool) \<Rightarrow> lowerers \<Rightarrow> bool" where
  "lawful_lowerers R E lw \<longleftrightarrow>
     (\<forall>A L e. lawful R E A L (lw_numeric lw e) \<and> lawful R E A L (lw_string lw e)
            \<and> lawful R E A L (lw_condition lw e) \<and> lawful R E A L (lw_plain lw e))"

lemma lawfulI:
  assumes "\<And>s. A \<subseteq> {..<ls_temp_index s} \<Longrightarrow> L \<subseteq> {..<ls_label_index s} \<Longrightarrow> R A L s (snd (m s))"
    and "\<And>s e. A \<subseteq> {..<ls_temp_index s} \<Longrightarrow> L \<subseteq> {..<ls_label_index s} \<Longrightarrow> fst (m s) = Inl e \<Longrightarrow> E e"
  shows "lawful R E A L m"
  using assms by (auto simp: lawful_def)

lemma lawfulD:
  assumes "lawful R E A L m" "A \<subseteq> {..<ls_temp_index s}" "L \<subseteq> {..<ls_label_index s}" "m s = (r, s')"
  shows "R A L s s'" "r = Inl e \<Longrightarrow> E e"
  using assms unfolding lawful_def by (metis snd_conv, metis fst_conv)

lemma lawful_error:
  assumes "lawful R E A L m" "A \<subseteq> {..<ls_temp_index s}" "L \<subseteq> {..<ls_label_index s}" "fst (m s) = Inl e"
  shows "E e"
  using assms by (auto simp: lawful_def)

lemma lawful_state:
  assumes "lawful R E A L m" "A \<subseteq> {..<ls_temp_index s}" "L \<subseteq> {..<ls_label_index s}"
  shows "R A L s (snd (m s))"
  using assms by (simp add: lawful_def)

locale lowering_contract =
  fixes R :: contract and E :: "exn \<Rightarrow> bool"
  assumes unchanged: "R A L s s"
    and more_temps: "R A L s s' \<Longrightarrow> ls_temp_index s \<le> ls_temp_index s'"
    and more_labels: "R A L s s' \<Longrightarrow> ls_label_index s \<le> ls_label_index s'"
    and in_sequence:
      "R {} {} s s' \<Longrightarrow> R A L s' s'' \<Longrightarrow> A \<subseteq> {..<ls_temp_index s} \<Longrightarrow> L \<subseteq> {..<ls_label_index s}
         \<Longrightarrow> R A L s s''"
    and take_temp:
      "R (insert (ls_temp_index s) A) L (s\<lparr>ls_temp_index := ls_temp_index s + 1\<rparr>) s'
         \<Longrightarrow> A \<subseteq> {..<ls_temp_index s} \<Longrightarrow> R A L s s'"
    and take_label:
      "R A (insert (ls_label_index s) L) (s\<lparr>ls_label_index := ls_label_index s + 1\<rparr>) s'
         \<Longrightarrow> L \<subseteq> {..<ls_label_index s} \<Longrightarrow> R A L s s'"
    and define_value:
      "n \<in> A \<Longrightarrow> A \<subseteq> {..<ls_temp_index s} \<Longrightarrow> prefix_ok p \<Longrightarrow> line_def l = [temp_name p n] \<Longrightarrow> line_label l = []
         \<Longrightarrow> R (A - {n}) L (s\<lparr>ls_instructions := ls_instructions s @ [l]\<rparr>) s' \<Longrightarrow> R A L s s'"
    and define_slot:
      "n \<in> A \<Longrightarrow> A \<subseteq> {..<ls_temp_index s} \<Longrightarrow> prefix_ok p
         \<Longrightarrow> R (A - {n}) L (s\<lparr>ls_allocas := ls_allocas s @ [Def (temp_name p n) rhs]\<rparr>) s' \<Longrightarrow> R A L s s'"
    and define_block:
      "k \<in> L \<Longrightarrow> L \<subseteq> {..<ls_label_index s} \<Longrightarrow> R A (L - {k}) (s\<lparr>ls_instructions := ls_instructions s @ [Lab (label_name p k)]\<rparr>) s'
         \<Longrightarrow> R A L s s'"
    and append_effect:
      "line_def l = [] \<Longrightarrow> line_label l = [] \<Longrightarrow> R {} {} s (s\<lparr>ls_instructions := ls_instructions s @ [l]\<rparr>)"
    and append_entry:
      "R {} {} s (s\<lparr>ls_entry_instructions := ls_entry_instructions s @ [Eff ps]\<rparr>)"
    and note_slot: "R {} {} s (s\<lparr>ls_variable_slots := slots\<rparr>)"
    and add_constant:
      "R {} {} s (s\<lparr>ls_string_index := ls_string_index s + 1,
                   ls_globals := ls_globals s @ [(string_global (ls_string_index s), data)]\<rparr>)"
    and raises: "E (RuntimeError msg)" "E (AssertionError msg)" "E (UnboundLocalError msg)" "E (OverflowError msg)"
begin

abbreviation law :: "nat set \<Rightarrow> nat set \<Rightarrow> 'a low \<Rightarrow> bool" where
  "law \<equiv> lawful R E"

abbreviation lw_ok :: "lowerers \<Rightarrow> bool" where
  "lw_ok \<equiv> lawful_lowerers R E"

section \<open>The combinators\<close>

lemma weaker:
  assumes "R {} {} s s'" "A \<subseteq> {..<ls_temp_index s}" "L \<subseteq> {..<ls_label_index s}"
  shows "R A L s s'"
  using in_sequence [OF assms(1) unchanged assms(2,3)] .

lemma law_ret: "law A L (retL x)"
  by (auto simp: lawful_def retL_def unchanged)

lemma law_raise: "E e \<Longrightarrow> law A L (raiseL e)"
  by (auto simp: lawful_def raiseL_def unchanged)

lemma law_get: "law A L (getL f)"
  by (auto simp: lawful_def getL_def unchanged)

lemma law_lift: "(\<And>e. r = Inl e \<Longrightarrow> E e) \<Longrightarrow> law A L (liftL r)"
  by (auto simp: lawful_def liftL_def unchanged)

lemma law_bind:
  assumes "law {} {} m" "\<And>x. law A L (f x)"
  shows "law A L (bindL m f)"
proof (rule lawfulI)
  fix s :: lowering_state assume sub: "A \<subseteq> {..<ls_temp_index s}" "L \<subseteq> {..<ls_label_index s}"
  obtain r s' where m: "m s = (r, s')" by (cases "m s")
  have first: "R {} {} s s'" using lawfulD(1) [OF assms(1) _ _ m] by simp
  then have sub': "A \<subseteq> {..<ls_temp_index s'}" "L \<subseteq> {..<ls_label_index s'}"
    using sub more_temps [OF first] more_labels [OF first] by auto
  show "R A L s (snd (bindL m f s))"
  proof (cases r)
    case (Inl e) then show ?thesis using weaker [OF first sub] by (simp add: bindL_def m)
  next
    case (Inr x)
    have "R A L s' (snd (f x s'))" using assms(2) sub' by (auto simp: lawful_def)
    then show ?thesis using in_sequence [OF first _ sub] by (simp add: bindL_def m Inr)
  qed
next
  fix s :: lowering_state and e
  assume sub: "A \<subseteq> {..<ls_temp_index s}" "L \<subseteq> {..<ls_label_index s}" and err: "fst (bindL m f s) = Inl e"
  obtain r s' where m: "m s = (r, s')" by (cases "m s")
  have first: "R {} {} s s'" using lawfulD(1) [OF assms(1) _ _ m] by simp
  show "E e"
  proof (cases r)
    case (Inl e') then show ?thesis
      using err lawfulD(2) [OF assms(1) _ _ m] by (simp add: bindL_def m)
  next
    case (Inr x)
    have "fst (f x s') = Inl e" using err by (simp add: bindL_def m Inr)
    then show ?thesis
      using assms(2) [of x] sub more_temps [OF first] more_labels [OF first]
      unfolding lawful_def by (meson lessThan_subset_iff order_trans)
  qed
qed

lemma law_temp:
  assumes "\<And>n. n \<notin> A \<Longrightarrow> law (insert n A) L (f (temp_name p n))"
  shows "law A L (bindL (next_temp p) f)"
proof -
  have step: "law (insert (ls_temp_index s) A) L (f (temp_name p (ls_temp_index s)))"
    if "A \<subseteq> {..<ls_temp_index s}" for s :: lowering_state
    using assms [of "ls_temp_index s"] that by auto
  show ?thesis
  proof (rule lawfulI)
    fix s :: lowering_state assume sub: "A \<subseteq> {..<ls_temp_index s}" "L \<subseteq> {..<ls_label_index s}"
    then have "insert (ls_temp_index s) A \<subseteq> {..<Suc (ls_temp_index s)}" by auto
    then have "R (insert (ls_temp_index s) A) L (s\<lparr>ls_temp_index := ls_temp_index s + 1\<rparr>)
                 (snd (bindL (next_temp p) f s))"
      using step [OF sub(1)] sub(2) by (simp add: lawful_def bindL_def next_temp_def)
    then show "R A L s (snd (bindL (next_temp p) f s))" using take_temp sub(1) by blast
  next
    fix s :: lowering_state and e
    assume sub: "A \<subseteq> {..<ls_temp_index s}" "L \<subseteq> {..<ls_label_index s}" and err: "fst (bindL (next_temp p) f s) = Inl e"
    have "insert (ls_temp_index s) A \<subseteq> {..<ls_temp_index (s\<lparr>ls_temp_index := ls_temp_index s + 1\<rparr>)}"
      using sub(1) by auto
    then show "E e"
      by (rule lawful_error [OF step [OF sub(1)]]) (use sub err in \<open>simp_all add: bindL_def next_temp_def\<close>)
  qed
qed

lemma law_label:
  assumes "\<And>k. k \<notin> L \<Longrightarrow> law A (insert k L) (f (label_name p k))"
  shows "law A L (bindL (next_label p) f)"
proof -
  have step: "law A (insert (ls_label_index s) L) (f (label_name p (ls_label_index s)))"
    if "L \<subseteq> {..<ls_label_index s}" for s :: lowering_state
    using assms [of "ls_label_index s"] that by auto
  show ?thesis
  proof (rule lawfulI)
    fix s :: lowering_state assume sub: "A \<subseteq> {..<ls_temp_index s}" "L \<subseteq> {..<ls_label_index s}"
    then have "insert (ls_label_index s) L \<subseteq> {..<Suc (ls_label_index s)}" by auto
    then have "R A (insert (ls_label_index s) L) (s\<lparr>ls_label_index := ls_label_index s + 1\<rparr>)
                 (snd (bindL (next_label p) f s))"
      using step [OF sub(2)] sub(1) by (simp add: lawful_def bindL_def next_label_def)
    then show "R A L s (snd (bindL (next_label p) f s))" using take_label sub(2) by blast
  next
    fix s :: lowering_state and e
    assume sub: "A \<subseteq> {..<ls_temp_index s}" "L \<subseteq> {..<ls_label_index s}" and err: "fst (bindL (next_label p) f s) = Inl e"
    have "insert (ls_label_index s) L \<subseteq> {..<ls_label_index (s\<lparr>ls_label_index := ls_label_index s + 1\<rparr>)}"
      using sub(2) by auto
    then show "E e"
      by (rule lawful_error [OF step [OF sub(2)], rotated])
        (use sub err in \<open>simp_all add: bindL_def next_label_def\<close>)
  qed
qed

lemma law_catch:
  assumes "law {} {} m" "\<And>e. E e \<Longrightarrow> law A L (h e)"
  shows "law A L (catch_runtime_error m h)"
proof (rule lawfulI)
  fix s :: lowering_state assume sub: "A \<subseteq> {..<ls_temp_index s}" "L \<subseteq> {..<ls_label_index s}"
  obtain r s' where m: "m s = (r, s')" by (cases "m s")
  have first: "R {} {} s s'" using lawfulD(1) [OF assms(1) _ _ m] by simp
  then have sub': "A \<subseteq> {..<ls_temp_index s'}" "L \<subseteq> {..<ls_label_index s'}"
    using sub more_temps [OF first] more_labels [OF first] by auto
  have handled: "R A L s' (snd (h e s'))" if "r = Inl e" for e
    using assms(2) lawfulD(2) [OF assms(1) _ _ m] sub' that by (auto simp: lawful_def)
  show "R A L s (snd (catch_runtime_error m h s))"
    using weaker [OF first sub] in_sequence [OF first _ sub] handled
    by (auto simp: catch_runtime_error_def m split: sum.splits)
next
  fix s :: lowering_state and e
  assume sub: "A \<subseteq> {..<ls_temp_index s}" "L \<subseteq> {..<ls_label_index s}"
    and err: "fst (catch_runtime_error m h s) = Inl e"
  obtain r s' where m: "m s = (r, s')" by (cases "m s")
  have first: "R {} {} s s'" using lawfulD(1) [OF assms(1) _ _ m] by simp
  then have sub': "A \<subseteq> {..<ls_temp_index s'}" "L \<subseteq> {..<ls_label_index s'}"
    using sub more_temps [OF first] more_labels [OF first] by auto
  show "E e"
  proof (cases r)
    case (Inl e')
    have ok: "E e'" using lawfulD(2) [OF assms(1) _ _ m] Inl by simp
    then show ?thesis
      using err assms(2) [OF ok] sub' by (auto simp: catch_runtime_error_def m Inl lawful_def split: if_splits)
  next
    case (Inr x)
    then show ?thesis using err by (simp add: catch_runtime_error_def m)
  qed
qed

section \<open>Primitive steps\<close>

lemma law_bind_define:
  assumes "n \<in> A" "prefix_ok p" "line_def l = [temp_name p n]" "line_label l = []" "law (A - {n}) L (f ())"
  shows "law A L (bindL (emit l) f)"
proof (rule lawfulI)
  fix s :: lowering_state
  assume sub: "A \<subseteq> {..<ls_temp_index s}" "L \<subseteq> {..<ls_label_index s}"
  then have "R (A - {n}) L (s\<lparr>ls_instructions := ls_instructions s @ [l]\<rparr>) (snd (bindL (emit l) f s))"
    by (simp add: bindL_def emit_def modifyL_def) (rule lawful_state [OF assms(5)]; auto)
  then show "R A L s (snd (bindL (emit l) f s))" by (rule define_value [OF assms(1) sub(1) assms(2-4)])
next
  fix s :: lowering_state and e
  assume "A \<subseteq> {..<ls_temp_index s}" "L \<subseteq> {..<ls_label_index s}" "fst (bindL (emit l) f s) = Inl e"
  then show "E e"
    by (intro lawful_error [OF assms(5), of "s\<lparr>ls_instructions := ls_instructions s @ [l]\<rparr>"])
      (auto simp: bindL_def emit_def modifyL_def)
qed

lemma law_bind_def:
  "n \<in> A \<Longrightarrow> prefix_ok p \<Longrightarrow> law (A - {n}) L (f ()) \<Longrightarrow> law A L (bindL (emit (Def (temp_name p n) rhs)) f)"
  by (rule law_bind_define) simp_all

lemma law_bind_phi:
  "n \<in> A \<Longrightarrow> prefix_ok p \<Longrightarrow> law (A - {n}) L (f ()) \<Longrightarrow> law A L (bindL (emit (Phi (temp_name p n) ty vs)) f)"
  by (rule law_bind_define) simp_all

lemma law_bind_alloca:
  assumes "n \<in> A" "prefix_ok p" "law (A - {n}) L (f ())"
  shows "law A L (bindL (emit_alloca (temp_name p n) rhs) f)"
proof (rule lawfulI)
  let ?d = "Def (temp_name p n) rhs"
  fix s :: lowering_state
  assume sub: "A \<subseteq> {..<ls_temp_index s}" "L \<subseteq> {..<ls_label_index s}"
  then have "R (A - {n}) L (s\<lparr>ls_allocas := ls_allocas s @ [?d]\<rparr>)
               (snd (bindL (emit_alloca (temp_name p n) rhs) f s))"
    by (simp add: bindL_def emit_alloca_def modifyL_def) (rule lawful_state [OF assms(3)]; auto)
  then show "R A L s (snd (bindL (emit_alloca (temp_name p n) rhs) f s))" by (rule define_slot [OF assms(1) sub(1) assms(2)])
next
  let ?d = "Def (temp_name p n) rhs"
  fix s :: lowering_state and e
  assume "A \<subseteq> {..<ls_temp_index s}" "L \<subseteq> {..<ls_label_index s}"
    "fst (bindL (emit_alloca (temp_name p n) rhs) f s) = Inl e"
  then show "E e"
    by (intro lawful_error [OF assms(3), of "s\<lparr>ls_allocas := ls_allocas s @ [?d]\<rparr>"])
      (auto simp: bindL_def emit_alloca_def modifyL_def)
qed

lemma law_bind_mark:
  assumes "k \<in> L" "law A (L - {k}) (f ())"
  shows "law A L (bindL (emit (Lab (label_name p k))) f)"
proof (rule lawfulI)
  let ?l = "Lab (label_name p k)"
  fix s :: lowering_state
  assume sub: "A \<subseteq> {..<ls_temp_index s}" "L \<subseteq> {..<ls_label_index s}"
  then have "R A (L - {k}) (s\<lparr>ls_instructions := ls_instructions s @ [?l]\<rparr>) (snd (bindL (emit ?l) f s))"
    by (simp add: bindL_def emit_def modifyL_def) (rule lawful_state [OF assms(2)]; auto)
  then show "R A L s (snd (bindL (emit ?l) f s))" by (rule define_block [OF assms(1) sub(2)])
next
  let ?l = "Lab (label_name p k)"
  fix s :: lowering_state and e
  assume "A \<subseteq> {..<ls_temp_index s}" "L \<subseteq> {..<ls_label_index s}" "fst (bindL (emit ?l) f s) = Inl e"
  then show "E e"
    by (intro lawful_error [OF assms(2), of "s\<lparr>ls_instructions := ls_instructions s @ [?l]\<rparr>"])
      (auto simp: bindL_def emit_def modifyL_def)
qed

lemma law_effect:
  assumes "line_def l = []" "line_label l = []"
  shows "law A L (emit l)"
proof (rule lawfulI)
  fix s :: lowering_state assume sub: "A \<subseteq> {..<ls_temp_index s}" "L \<subseteq> {..<ls_label_index s}"
  show "R A L s (snd (emit l s))"
    using weaker [OF append_effect [OF assms] sub] by (simp add: emit_def modifyL_def)
qed (simp add: emit_def modifyL_def)

lemma law_effects:
  "law A L (emit (Eff ps))" "law A L (emit (Br l))" "law A L (emit (CondBr c l1 l2))" "law A L (emit (Ret ps))"
  by (rule law_effect; simp)+

lemma law_entry: "law A L (emit_entry ps)"
proof (rule lawfulI)
  fix s :: lowering_state assume sub: "A \<subseteq> {..<ls_temp_index s}" "L \<subseteq> {..<ls_label_index s}"
  show "R A L s (snd (emit_entry ps s))"
    using weaker [OF append_entry sub] by (simp add: emit_entry_def modifyL_def)
qed (simp add: emit_entry_def modifyL_def)

lemma law_note_slot: "law A L (modifyL (\<lambda>s. s\<lparr>ls_variable_slots := f s\<rparr>))"
proof (rule lawfulI)
  fix s :: lowering_state assume sub: "A \<subseteq> {..<ls_temp_index s}" "L \<subseteq> {..<ls_label_index s}"
  show "R A L s (snd (modifyL (\<lambda>s. s\<lparr>ls_variable_slots := f s\<rparr>) s))"
    using weaker [OF note_slot sub] by (simp add: modifyL_def)
qed (simp add: modifyL_def)

lemma law_declare_string: "law A L (declare_string v)"
proof (rule lawfulI)
  fix s :: lowering_state assume sub: "A \<subseteq> {..<ls_temp_index s}" "L \<subseteq> {..<ls_label_index s}"
  show "R A L s (snd (declare_string v s))"
    using weaker [OF add_constant sub]
    by (simp add: declare_string_def add_global_def modifyL_def bindL_def getL_def retL_def Let_def)
qed (simp add: declare_string_def add_global_def modifyL_def bindL_def getL_def retL_def Let_def)

text \<open>The last step of a computation.\<close>

lemma law_last:
  assumes "law A L (bindL m retL)"
  shows "law A L m"
proof -
  have "bindL m retL = m" by (auto simp: bindL_def retL_def fun_eq_iff split: prod.split sum.split)
  then show ?thesis using assms by simp
qed

lemma law_last_def:
  "n \<in> A \<Longrightarrow> prefix_ok p \<Longrightarrow> law A L (emit (Def (temp_name p n) rhs))"
  by (rule law_last, rule law_bind_def) (simp_all add: law_ret)

lemma law_last_mark: "k \<in> L \<Longrightarrow> law A L (emit (Lab (label_name p k)))"
  by (rule law_last, rule law_bind_mark) (simp_all add: law_ret)

lemma law_last_temp: "law A L (next_temp p)"
  by (rule law_last, rule law_temp) (simp add: law_ret)

section \<open>Case distinctions\<close>

lemma law_if: "(b \<Longrightarrow> law A L m) \<Longrightarrow> (\<not> b \<Longrightarrow> law A L m') \<Longrightarrow> law A L (if b then m else m')"
  by simp

lemma law_bind_if:
  "(b \<Longrightarrow> law A L (bindL m f)) \<Longrightarrow> (\<not> b \<Longrightarrow> law A L (bindL m' f)) \<Longrightarrow> law A L (bindL (if b then m else m') f)"
  by simp

lemma law_option:
  "law A L m \<Longrightarrow> (\<And>x. law A L (f x)) \<Longrightarrow> law A L (case v of None \<Rightarrow> m | Some x \<Rightarrow> f x)"
  by (cases v) simp_all

lemma law_bind_option:
  "law A L (bindL m g) \<Longrightarrow> (\<And>x. law A L (bindL (f x) g)) \<Longrightarrow> law A L (bindL (case v of None \<Rightarrow> m | Some x \<Rightarrow> f x) g)"
  by (cases v) simp_all

lemma law_list:
  "law A L m \<Longrightarrow> (\<And>x xs. law A L (f x xs)) \<Longrightarrow> law A L (case v of [] \<Rightarrow> m | x # xs \<Rightarrow> f x xs)"
  by (cases v) simp_all

lemma law_pair: "(\<And>a b. law A L (f a b)) \<Longrightarrow> law A L (case v of (a, b) \<Rightarrow> f a b)"
  by (cases v) simp

lemma law_lvalue:
  "(\<And>n sp. law A L (f n sp)) \<Longrightarrow> (\<And>n xs sp. law A L (g n xs sp)) \<Longrightarrow> (\<And>e sp. law A L (h e sp))
     \<Longrightarrow> law A L (case v of NameLValue n sp \<Rightarrow> f n sp | ArrayLValue n xs sp \<Rightarrow> g n xs sp | FieldLValue e sp \<Rightarrow> h e sp)"
  by (cases v) simp_all

lemma law_field_index:
  "(\<And>i. law A L (f i)) \<Longrightarrow> (\<And>e. law A L (g e)) \<Longrightarrow> law A L (case v of IntIndex i \<Rightarrow> f i | ExprIndex e \<Rightarrow> g e)"
  by (cases v) simp_all

lemma law_expr:
  assumes "\<And>a b c. law A L (f1 a b c)" "\<And>a b c. law A L (f2 a b c)" "\<And>a b. law A L (f3 a b)"
    "\<And>a b. law A L (f4 a b)" "\<And>a b. law A L (f5 a b)" "\<And>a b c. law A L (f6 a b c)"
    "\<And>a b c d. law A L (f7 a b c d)" "\<And>a b c. law A L (f8 a b c)" "\<And>a b c d. law A L (f9 a b c d)"
    "\<And>a b c d. law A L (f10 a b c d)" "\<And>a b c d. law A L (f11 a b c d)" "\<And>a b c. law A L (f12 a b c)"
    "\<And>a b c. law A L (f13 a b c)"
  shows "law A L (case_expr f1 f2 f3 f4 f5 f6 f7 f8 f9 f10 f11 f12 f13 e)"
  using assms by (cases e) simp_all

end

end
