(* ===== verification/Lowering_Lawful.thy ===== *)
theory Lowering_Lawful
  imports Lowering_Contract
begin

text \<open>
  Every lowering function satisfies the contract of \<open>Lowering_Contract\<close> when the functions it calls for
  its operands do, and so do the \<open>lowerers\<close> of every call depth.
\<close>

named_theorems lawful_ops "the operations of the backend satisfy the contract"

declare prefix_ok_def [simp]

context lowering_contract
begin

lemmas steps =
  law_temp law_label law_bind_def law_bind_phi law_bind_alloca law_bind_mark law_bind_if law_bind_option
  law_ret law_get law_raise law_last_def law_last_mark law_effects law_entry law_note_slot
  law_if law_option law_list law_pair law_lvalue law_field_index law_expr

lemma lw_lawful [lawful_ops]:
  assumes "lw_ok lw"
  shows "law A L (lw_numeric lw e)" "law A L (lw_string lw e)" "law A L (lw_condition lw e)"
    "law A L (lw_plain lw e)"
  using assms by (simp_all add: lawful_lowerers_def)

section \<open>Names and constants\<close>

declare law_declare_string [lawful_ops] law_last_temp [lawful_ops]

lemma law_assert_runtime [lawful_ops]: "law A L assert_runtime"
  unfolding assert_runtime_def some_or_assert_def
  by (rule steps law_bind raises | simp)+

lemma law_some_or_assert [lawful_ops]: "law A L (some_or_assert v)"
  unfolding some_or_assert_def by (rule steps raises)+

lemma law_runtime_param [lawful_ops]: "law A L runtime_param"
  unfolding runtime_param_def by (rule steps)

lemma law_define_temp [lawful_ops]: "prefix_ok p \<Longrightarrow> law A L (define_temp p rhs)"
  unfolding define_temp_def by (rule steps law_bind | simp)+

lemma law_builders [lawful_ops]:
  assumes "prefix_ok p"
  shows "law A L (call p ty callee args)" "law A L (load p ty ptr)" "law A L (binop p opcode ty v w)"
    "law A L (select p c ty v w)" "law A L (gep p n g)" "law A L (phi p ty vs)"
    "law A L (runtime_call p ty callee args)" "law A L (parse_number p ptr)"
  unfolding call_def load_def binop_def select_def gep_def phi_def runtime_call_def parse_number_def
  by (rule steps lawful_ops law_bind | simp add: assms [unfolded prefix_ok_def])+

lemma law_effect_builders [lawful_ops]:
  "law A L (call_void callee args)" "law A L (store ty v ptr)" "law A L (branch l)" "law A L (cond_branch c l1 l2)"
  "law A L (runtime_call_void callee args)"
  unfolding call_void_def store_def branch_def cond_branch_def runtime_call_void_def
  by (rule steps lawful_ops law_bind)+

lemma law_constant_string [lawful_ops]:
  "law A L (lower_runtime_constant_string v)" "law A L (lower_runtime_scalar_name v)"
  unfolding lower_runtime_scalar_name_def lower_runtime_constant_string_def
  by (rule steps lawful_ops law_bind | simp)+

lemma law_define_call:
  "n \<in> A \<Longrightarrow> prefix_ok p \<Longrightarrow> law A L (define_call (temp_name p n) ty callee args)"
  unfolding define_call_def by (rule steps lawful_ops law_bind | simp)+

lemma law_local_slot: "prefix_ok (prefix @ name) \<Longrightarrow> law A L (local_slot prefix name)"
  unfolding local_slot_def store_text_def
  by (rule steps lawful_ops law_bind | simp)+

lemma law_variable_address [lawful_ops]: "law A L (variable_address name)"
  unfolding variable_address_def
  by (rule steps lawful_ops law_local_slot law_bind raises | simp)+

lemma law_param_slots [lawful_ops]:
  "law A L (load_runtime_function_param_string name)" "law A L (store_runtime_function_param_string name v)"
  unfolding load_runtime_function_param_string_def store_runtime_function_param_string_def param_slot_def
  by (rule steps lawful_ops law_bind | simp)+

lemma law_string_from_numeric_value [lawful_ops]: "law A L (lower_runtime_string_from_numeric_value v)"
  unfolding lower_runtime_string_from_numeric_value_def define_call_def
  by (simp only: straight_line, (rule steps lawful_ops law_bind | simp split del: if_split)+)

section \<open>Operands\<close>

lemma law_captured [lawful_ops]: "lw_ok lw \<Longrightarrow> law A L (lower_runtime_captured_string_expression lw e)"
  unfolding lower_runtime_captured_string_expression_def
  by (rule steps lawful_ops law_bind | simp)+

lemma law_argument_string [lawful_ops]: "lw_ok lw \<Longrightarrow> law A L (lower_runtime_argument_string lw e)"
  unfolding lower_runtime_argument_string_def
  by (rule steps lawful_ops law_bind | simp)+

lemma law_string_truthiness [lawful_ops]: "lw_ok lw \<Longrightarrow> law A L (lower_runtime_string_truthiness lw e)"
  unfolding lower_runtime_string_truthiness_def
  by (simp only: straight_line, (rule steps lawful_ops law_bind | simp split del: if_split)+)

lemma law_array_key [lawful_ops]: "lw_ok lw \<Longrightarrow> law A L (lower_runtime_array_key lw e)"
  unfolding lower_runtime_array_key_def format_key_def Let_def
  by (rule steps lawful_ops law_bind | simp)+

lemma law_join_keys [lawful_ops]: "lw_ok lw \<Longrightarrow> law A L (join_keys lw sep es key)"
proof (induction es arbitrary: A L key)
  case (Cons e es)
  show ?case
    by (simp add: define_call_def | rule steps lawful_ops law_bind Cons)+
qed (simp add: law_ret)

lemma law_array_subscripts [lawful_ops]: "lw_ok lw \<Longrightarrow> law A L (lower_runtime_array_subscripts lw es)"
  unfolding lower_runtime_array_subscripts_def
  by (rule steps lawful_ops law_bind raises | simp)+

lemma law_field_index' [lawful_ops]: "lw_ok lw \<Longrightarrow> law A L (lower_runtime_field_index lw i)"
  unfolding lower_runtime_field_index_def
  by (rule steps lawful_ops law_bind | simp)+

lemma law_setters [lawful_ops]:
  "law A L (set_slot_string i v)" "law A L (set_scalar_string n v)" "law A L (set_array_string a k v)"
  "law A L (set_field_string j v)"
  unfolding set_slot_string_def set_scalar_string_def set_array_string_def set_field_string_def
  by (rule lawful_ops)+

lemma law_assign_string_lvalue [lawful_ops]: "lw_ok lw \<Longrightarrow> law A L (lower_runtime_assign_string_lvalue lw t v)"
  unfolding lower_runtime_assign_string_lvalue_def
  by (rule steps lawful_ops law_bind | simp)+

section \<open>Builtins\<close>

lemma law_regex_pattern [lawful_ops]: "lw_ok lw \<Longrightarrow> law A L (lower_runtime_regex_pattern lw e)"
  unfolding lower_runtime_regex_pattern_def by (rule steps lawful_ops | simp)+

lemma law_unary_numeric [lawful_ops]:
  "lw_ok lw \<Longrightarrow> prefix_ok (name @ ''.num'') \<Longrightarrow> law A L (lower_runtime_unary_numeric_builtin lw f name args)"
  unfolding lower_runtime_unary_numeric_builtin_def by (rule steps lawful_ops law_bind raises | simp)+

lemma law_binary_numeric [lawful_ops]:
  "lw_ok lw \<Longrightarrow> prefix_ok (name @ ''.num'') \<Longrightarrow> law A L (lower_runtime_binary_numeric_builtin lw f name args)"
  unfolding lower_runtime_binary_numeric_builtin_def by (rule steps lawful_ops law_bind raises | simp)+

lemma law_length [lawful_ops]: "lw_ok lw \<Longrightarrow> law A L (lower_runtime_length_builtin lw args)"
  unfolding lower_runtime_length_builtin_def string_size_lines_def define_call_def Let_def
  by (simp only: straight_line, (rule steps lawful_ops law_bind raises | simp split del: if_split)+)

lemma law_split [lawful_ops]: "lw_ok lw \<Longrightarrow> law A L (lower_runtime_split_builtin lw args)"
  unfolding lower_runtime_split_builtin_def Let_def
  by (rule steps lawful_ops law_bind raises | simp)+

lemma law_plain_builtins [lawful_ops]:
  "lw_ok lw \<Longrightarrow> law A L (lower_runtime_close_builtin lw args)"
  "lw_ok lw \<Longrightarrow> law A L (lower_runtime_index_builtin lw args)"
  "lw_ok lw \<Longrightarrow> law A L (lower_runtime_match_builtin lw args)"
  "lw_ok lw \<Longrightarrow> law A L (lower_runtime_system_builtin lw args)"
  "lw_ok lw \<Longrightarrow> law A L (lower_runtime_case_builtin lw upper args)"
  "law A L (lower_runtime_rand_builtin args)"
  unfolding lower_runtime_close_builtin_def lower_runtime_index_builtin_def lower_runtime_match_builtin_def
    lower_runtime_system_builtin_def lower_runtime_case_builtin_def lower_runtime_rand_builtin_def
  by (rule steps lawful_ops law_bind raises | simp)+

lemma law_srand [lawful_ops]: "lw_ok lw \<Longrightarrow> law A L (lower_runtime_srand_builtin lw args)"
  unfolding lower_runtime_srand_builtin_def define_call_def
  by (simp only: straight_line, (rule steps lawful_ops law_bind raises | simp split del: if_split)+)

lemma law_substr [lawful_ops]: "lw_ok lw \<Longrightarrow> law A L (lower_runtime_substr_builtin lw args)"
  unfolding lower_runtime_substr_builtin_def define_call_def
  by (simp split del: if_split | rule steps lawful_ops law_bind raises)+

lemma expression_to_lvalue_error: "expression_to_lvalue e = Inl x \<Longrightarrow> \<exists>m. x = OverflowError m"
  by (cases e rule: expression_to_lvalue.cases)
    (auto simp: float_of_int_def bindE_eq_Inl split: py_float.splits)

lemma law_target_value [lawful_ops]: "lw_ok lw \<Longrightarrow> law A L (substitute_target_value lw e t)"
  unfolding substitute_target_value_def by (rule steps lawful_ops | simp)+

lemma law_to_lvalue [lawful_ops]: "law A L (liftL (expression_to_lvalue e))"
  by (rule law_lift) (auto dest!: expression_to_lvalue_error intro: raises)

lemma law_substitute [lawful_ops]: "lw_ok lw \<Longrightarrow> law A L (lower_runtime_substitute_builtin lw g args sp)"
  unfolding lower_runtime_substitute_builtin_def define_call_def Let_def
  by (simp split del: if_split | rule steps lawful_ops law_bind raises)+

lemma law_number_or_parsed [lawful_ops]:
  "lw_ok lw \<Longrightarrow> prefix_ok p \<Longrightarrow> law A L (number_or_parsed lw p e v)"
  unfolding number_or_parsed_def
  by (rule law_catch steps lawful_ops law_bind | assumption | simp)+

lemma law_sprintf_arguments [lawful_ops]:
  "lw_ok lw \<Longrightarrow> law A L (sprintf_arguments lw n ns ss i es)"
proof (induction es arbitrary: A L i)
  case (Cons e es)
  show ?case by (simp add: primitive_steps split del: if_split | rule steps lawful_ops law_bind Cons)+
qed (simp add: law_ret)

lemma law_sprintf [lawful_ops]: "lw_ok lw \<Longrightarrow> law A L (lower_runtime_sprintf_builtin lw args)"
  unfolding lower_runtime_sprintf_builtin_def array_alloca_def Let_def
  by (simp split del: if_split | rule steps lawful_ops law_bind raises)+

lemma law_map [lawful_ops]: "(\<And>A L x. law A L (f x)) \<Longrightarrow> law A L (map_low f xs)"
  by (induction xs arbitrary: A L) (simp | rule steps law_bind)+

lemma law_each [lawful_ops]: "(\<And>A L x. law A L (f x)) \<Longrightarrow> law A L (each_low f xs)"
  by (induction xs arbitrary: A L) (simp | rule steps law_bind)+

lemma law_user_function_call [lawful_ops]: "lw_ok lw \<Longrightarrow> law A L (lower_runtime_user_function_call lw f args)"
  unfolding lower_runtime_user_function_call_def missing_arguments_def Let_def
  by (simp split del: if_split | rule steps lawful_ops law_bind raises)+

section \<open>Expressions\<close>

lemma law_mod [lawful_ops]: "law A L (lower_mod v w)"
  unfolding lower_mod_def mod_lines_def
  by (simp only: straight_line, (rule steps lawful_ops law_bind | simp)+)

lemma law_arithmetic [lawful_ops]:
  assumes "\<And>A L e. law A L (lower e)"
  shows "law A L (lower_arithmetic lower left op right)"
  unfolding lower_arithmetic_def by (cases op) (simp | rule lawful_ops law_bind assms)+

lemma law_bool_to_number [lawful_ops]: "law A L (bool_to_number v)"
  unfolding bool_to_number_def by (rule lawful_ops) simp

lemma law_plain_call [lawful_ops]: "lw_ok lw \<Longrightarrow> law A L (lower_plain_call lw f args)"
  unfolding lower_plain_call_def Let_def by (rule steps lawful_ops law_bind raises | simp)+

lemma law_numeric_expression: "lw_ok lw \<Longrightarrow> law A L (lower_numeric_expression lw e)"
  unfolding lower_numeric_expression_def by (rule steps lawful_ops law_bind raises | simp)+

lemma law_getters [lawful_ops]:
  assumes "prefix_ok p"
  shows "law A L (slot_get_number p i)" "law A L (scalar_get_number p n)" "law A L (array_get_number p a k)"
    "law A L (get_field p j)" "law A L (load_numeric_slot p name)" "law A L (format_number p v)"
    "law A L (slot_get_string p i)" "law A L (scalar_get_string p n)" "law A L (array_get_string p a k)"
  unfolding slot_get_number_def scalar_get_number_def array_get_number_def get_field_def load_numeric_slot_def
    format_number_def slot_get_string_def scalar_get_string_def array_get_string_def
  by (rule lawful_ops law_bind | simp add: assms [unfolded prefix_ok_def])+

lemma law_number_setters [lawful_ops]:
  "law A L (slot_set_number i v)" "law A L (scalar_set_number n v)" "law A L (array_set_number a k v)"
  "law A L (set_field_number j v)"
  unfolding slot_set_number_def scalar_set_number_def array_set_number_def set_field_number_def
  by (rule lawful_ops)+

lemma law_numeric_name [lawful_ops]: "law A L (lower_runtime_numeric_name name)"
  unfolding lower_runtime_numeric_name_def by (rule steps lawful_ops law_bind | simp)+

section \<open>Assignments and increments\<close>

lemma law_combine [lawful_ops]: "law A L (combine_numeric_assignment op v w)"
  unfolding combine_numeric_assignment_def mod_lines_def
  by (cases op; simp only: straight_line assign_op.case assign_op.distinct if_False refl if_True;
      (rule steps lawful_ops law_bind | simp)+)

lemma law_assign_field_number [lawful_ops]: "lw_ok lw \<Longrightarrow> law A L (assign_field_number lw e op v)"
  unfolding assign_field_number_def define_call_def
  by (simp split del: if_split | rule steps lawful_ops law_bind raises)+

lemma law_assign_array_number [lawful_ops]: "lw_ok lw \<Longrightarrow> law A L (assign_array_number lw name es op v)"
  unfolding assign_array_number_def by (simp split del: if_split | rule steps lawful_ops law_bind raises)+

lemma law_assign_param_number [lawful_ops]: "lw_ok lw \<Longrightarrow> law A L (assign_param_number lw name op v)"
  unfolding assign_param_number_def by (simp split del: if_split | rule steps lawful_ops law_bind)+

lemma law_assign_numeric_slot [lawful_ops]: "lw_ok lw \<Longrightarrow> law A L (assign_numeric_slot lw name op v)"
  unfolding assign_numeric_slot_def by (simp | rule steps lawful_ops law_bind)+

lemma law_copy_scalar [lawful_ops]: "law A L (copy_scalar n i source)"
  unfolding copy_scalar_def by (simp | rule steps lawful_ops law_bind)+

lemma law_assign_scalar_string [lawful_ops]: "lw_ok lw \<Longrightarrow> law A L (assign_scalar_string lw name n i v)"
  unfolding assign_scalar_string_def by (simp split del: if_split | rule steps lawful_ops law_bind)+

lemma law_scalar_update [lawful_ops]: "law A L (scalar_update name n i v)"
  unfolding scalar_update_def by (simp split del: if_split | rule steps lawful_ops law_bind)+

lemma law_assign_scalar_number [lawful_ops]: "lw_ok lw \<Longrightarrow> law A L (assign_scalar_number lw name n i op v)"
  unfolding assign_scalar_number_def scalar_current_lines_def define_call_def
  by (simp split del: if_split | rule steps lawful_ops law_bind)+

lemma law_assign_scalar [lawful_ops]: "lw_ok lw \<Longrightarrow> law A L (assign_scalar lw name op v)"
  unfolding assign_scalar_def by (simp split del: if_split | rule steps lawful_ops law_bind)+

lemma law_assignment [lawful_ops]: "lw_ok lw \<Longrightarrow> law A L (lower_runtime_assignment_expression lw t op v)"
  unfolding lower_runtime_assignment_expression_def
  by (simp split del: if_split | rule steps lawful_ops law_bind)+

lemma law_increments [lawful_ops]:
  "law A L (increment_param up old name)" "law A L (increment_numeric_slot up old name)"
  "law A L (increment_scalar up old name)"
  "lw_ok lw \<Longrightarrow> law A L (increment_field lw up old i)" "lw_ok lw \<Longrightarrow> law A L (increment_array lw up old name es)"
  unfolding increment_param_def increment_numeric_slot_def increment_scalar_def increment_field_def
    increment_array_def scalar_current_lines_def define_call_def
  by (simp add: primitive_steps split del: if_split | rule steps lawful_ops law_bind)+

lemma law_increment [lawful_ops]: "lw_ok lw \<Longrightarrow> law A L (lower_runtime_increment_expression lw e up old)"
  unfolding lower_runtime_increment_expression_def
  by (simp split del: if_split | rule steps lawful_ops law_bind raises)+

section \<open>Strings\<close>

lemma law_numeric_as_string [lawful_ops]: "lw_ok lw \<Longrightarrow> law A L (numeric_as_string lw e)"
  unfolding numeric_as_string_def by (rule steps lawful_ops law_bind | simp)+

lemma law_string_name [lawful_ops]: "lw_ok lw \<Longrightarrow> law A L (lower_runtime_string_name lw e name)"
  unfolding lower_runtime_string_name_def by (rule steps lawful_ops law_bind | simp)+

lemma law_string_assignments [lawful_ops]:
  assumes "lw_ok lw"
  shows "law A L (assign_field_string lw e v)" "law A L (assign_array_string lw name es v)"
    "law A L (assign_name_string lw name v)"
  unfolding assign_field_string_def assign_array_string_def assign_name_string_def define_call_def Let_def
  by (simp add: assms split del: if_split | rule steps lawful_ops law_bind raises assms)+

lemma law_string_assignment [lawful_ops]: "lw_ok lw \<Longrightarrow> law A L (lower_string_assignment lw t v)"
  unfolding lower_string_assignment_def by (rule steps lawful_ops law_bind raises | simp)+

lemma law_if_apply: "law A L (f e) \<Longrightarrow> law A L (g e) \<Longrightarrow> law A L ((if b then f else g) e)"
  by simp

lemma law_concat [lawful_ops]: "lw_ok lw \<Longrightarrow> law A L (lower_concat lw e e')"
  unfolding lower_concat_def Let_def
  by (rule steps lawful_ops law_bind law_if_apply | simp split del: if_split)+

lemma law_branches [lawful_ops]:
  assumes "lw_ok lw" "\<And>A L e. law A L (lower e)" "prefix_ok p"
  shows "law A L (lower_branches lw l p ty lower test e e')"
proof -
  note ops = assms(1) assms(2) [of "{}" "{}"] assms(3) [unfolded prefix_ok_def]
  show ?thesis
    unfolding lower_branches_def
    by (simp only: straight_line, (rule steps lawful_ops law_bind ops | simp add: ops split del: if_split)+)
qed

lemma law_conditionals [lawful_ops]:
  assumes "lw_ok lw"
  shows "law A L (lower_runtime_numeric_conditional_expression lw c e e')"
    "law A L (lower_runtime_condition_conditional_expression lw c e e')"
    "law A L (lower_runtime_string_conditional_expression lw c e e')"
  unfolding lower_runtime_numeric_conditional_expression_def lower_runtime_condition_conditional_expression_def
    lower_runtime_string_conditional_expression_def
  by (simp add: assms | rule lawful_ops law_bind assms)+

lemma law_string_expression: "lw_ok lw \<Longrightarrow> law A L (lower_runtime_string_expression lw e)"
  unfolding lower_runtime_string_expression_def by (rule steps lawful_ops law_bind | simp)+

section \<open>Conditions\<close>

lemma law_match_operator [lawful_ops]: "lw_ok lw \<Longrightarrow> law A L (lower_runtime_match_operator lw e op e')"
  unfolding lower_runtime_match_operator_def by (rule steps lawful_ops law_bind | simp)+

lemma law_in [lawful_ops]: "lw_ok lw \<Longrightarrow> law A L (lower_runtime_in_expression lw e e')"
  unfolding lower_runtime_in_expression_def by (rule steps lawful_ops law_bind raises | simp)+

lemma law_getline_into [lawful_ops]: "lw_ok lw \<Longrightarrow> law A L (getline_into lw t src)"
  unfolding getline_into_def
  by (simp add: mark_label_def cond_branch_def branch_def split del: if_split | rule steps lawful_ops law_bind)+

lemma law_getline [lawful_ops]: "lw_ok lw \<Longrightarrow> law A L (lower_runtime_getline_expression lw t src)"
  unfolding lower_runtime_getline_expression_def by (rule steps lawful_ops law_bind | simp)+

lemma law_compare_numbers [lawful_ops]:
  assumes "\<And>A L e. law A L (lower e)"
  shows "law A L (compare_numbers lower e op e')"
  unfolding compare_numbers_def by (rule steps lawful_ops law_bind assms | simp)+

lemma law_comparison [lawful_ops]: "lw_ok lw \<Longrightarrow> law A L (lower_comparison lw e op e')"
  unfolding lower_comparison_def compare_strings_def compare_values_def
  by (rule steps lawful_ops law_bind | simp)+

lemma law_logical [lawful_ops]:
  "lw_ok lw \<Longrightarrow> law A L (lower_logical_and lw e e')" "lw_ok lw \<Longrightarrow> law A L (lower_logical_or lw e e')"
  unfolding lower_logical_and_def lower_logical_or_def
  by (simp_all only: straight_line, (rule steps lawful_ops law_bind | simp split del: if_split)+)

lemma law_match_record [lawful_ops]: "law A L (match_record raw)"
  unfolding match_record_def define_call_def by (simp | rule steps lawful_ops law_bind)+

lemma law_truthy [lawful_ops]:
  assumes "\<And>A L e. law A L (lower e)"
  shows "law A L (truthy lower e)"
  unfolding truthy_def by (rule steps lawful_ops law_bind assms | simp)+

lemma law_structured_condition [lawful_ops]: "lw_ok lw \<Longrightarrow> law A L (lower_structured_condition lw rt e)"
  unfolding lower_structured_condition_def Let_def if_distrib [of "\<lambda>f. truthy f _"]
  by (rule steps lawful_ops law_bind | simp)+

lemma law_condition_expression: "lw_ok lw \<Longrightarrow> law A L (lower_condition_expression lw e)"
  unfolding lower_condition_expression_def Let_def by (rule steps lawful_ops law_bind | simp)+

lemma law_record_pattern [lawful_ops]: "lw_ok lw \<Longrightarrow> law A L (lower_record_pattern lw e)"
  unfolding lower_record_pattern_def by (rule steps lawful_ops | simp)+

section \<open>Numbers\<close>

lemma law_coerced_string [lawful_ops]: "lw_ok lw \<Longrightarrow> law A L (coerced_string lw e)"
  unfolding coerced_string_def by (rule steps lawful_ops law_bind raises | simp)+

lemma law_numeric_call [lawful_ops]:
  assumes "lw_ok lw" "\<And>A L. law A L other"
  shows "law A L (lower_numeric_call lw other f args sp)"
  unfolding lower_numeric_call_def
  by (rule steps lawful_ops law_bind assms | simp)+

lemma law_numeric_unary [lawful_ops]: "lw_ok lw \<Longrightarrow> law A L (lower_numeric_unary lw op e)"
  unfolding lower_numeric_unary_def by (cases op) (simp | rule steps lawful_ops law_bind)+

lemma law_numeric_ternary [lawful_ops]: "lw_ok lw \<Longrightarrow> law A L (lower_numeric_ternary lw c e e')"
  unfolding lower_numeric_ternary_def by (rule steps lawful_ops law_bind | simp)+

lemma law_runtime_numeric_expression: "lw_ok lw \<Longrightarrow> law A L (lower_runtime_numeric_expression lw e)"
  unfolding lower_runtime_numeric_expression_def by (rule steps lawful_ops law_bind | simp)+

section \<open>The knot\<close>

theorem lawful_step: "lw_ok lw \<Longrightarrow> lw_ok (lowering_step lw)"
  unfolding lawful_lowerers_def [of R E "lowering_step lw"]
  by (simp add: lowering_step_def law_runtime_numeric_expression law_string_expression law_condition_expression
      law_numeric_expression)

lemma lawful_iterate: "lw_ok lw \<Longrightarrow> lw_ok ((lowering_step ^^ n) lw)"
  by (induction n) (simp_all add: lawful_step)

end

end
