(* ===== verification/Lowering_Depth.thy ===== *)
theory Lowering_Depth
  imports Lowering
begin

text \<open>
  The recursion of the backend ends.  A call of one of the four lowering functions on an expression only
  leads to calls on smaller expressions, or to a call of another function on the same expression at a
  lower rank; so the \<open>lowerers\<close> of the call depth give the result of every larger depth, and \<open>lowering\<close>
  satisfies the equations of the code.
\<close>

section \<open>The measure\<close>

datatype view = Number | Str | Condition | Plain

fun lower_as :: "view \<Rightarrow> lowerers \<Rightarrow> expr \<Rightarrow> string low" where
  "lower_as Number lw = lw_numeric lw"
| "lower_as Str lw = lw_string lw"
| "lower_as Condition lw = lw_condition lw"
| "lower_as Plain lw = lw_plain lw"

text \<open>Which function starts on an expression: the one that lowers it without calling another one on it.\<close>

definition starts_as_string :: "expr \<Rightarrow> bool" where
  "starts_as_string e =
     (case e of
        FieldExpr _ _ \<Rightarrow> True
      | CallExpr f _ _ \<Rightarrow> f \<in> set STRING_RESULT_BUILTINS
      | BinaryExpr _ op _ _ \<Rightarrow> op = OpConcat
      | _ \<Rightarrow> False)"

definition starts_as_condition :: "expr \<Rightarrow> bool" where
  "starts_as_condition e =
     (case e of
        BinaryExpr _ op _ _ \<Rightarrow> \<not> is_arithmetic_op op \<and> op \<noteq> OpConcat
      | _ \<Rightarrow> False)"

definition is_match_op :: "expr \<Rightarrow> bool" where
  "is_match_op e = (case e of BinaryExpr _ op _ _ \<Rightarrow> op \<in> {OpMatch, OpNotMatch, OpIn} | _ \<Rightarrow> False)"

fun rank :: "view \<Rightarrow> expr \<Rightarrow> nat" where
  "rank Number e = (if starts_as_string e then 1 else if starts_as_condition e then 2 else 0)"
| "rank Str e = (if starts_as_string e then 0 else if starts_as_condition e then 3 else 1)"
| "rank Condition e = (if starts_as_condition e then (if is_match_op e then 1 else 0) else 2)"
| "rank Plain e = (if starts_as_condition e \<and> \<not> is_match_op e then 1 else 0)"

definition depth :: "view \<Rightarrow> expr \<Rightarrow> nat" where
  "depth v e = 4 * size e + rank v e"

lemma rank_le: "rank v e \<le> 3"
  by (cases v) simp_all

lemma depth_sub: "size e' < size e \<Longrightarrow> depth v' e' < depth v e"
  using rank_le [of v' e'] by (simp add: depth_def)

lemma depth_less_call_depth: "depth v e < call_depth e"
  using rank_le [of v e] by (simp add: depth_def call_depth_def)

section \<open>Agreement\<close>

definition same_on :: "lowerers \<Rightarrow> lowerers \<Rightarrow> expr \<Rightarrow> bool" where
  "same_on lw lw' e \<longleftrightarrow> (\<forall>v. lower_as v lw e = lower_as v lw' e)"

definition agree :: "nat \<Rightarrow> lowerers \<Rightarrow> lowerers \<Rightarrow> bool" where
  "agree d lw lw' \<longleftrightarrow> (\<forall>v e. depth v e < d \<longrightarrow> lower_as v lw e = lower_as v lw' e)"

lemma agreeD: "agree d lw lw' \<Longrightarrow> depth v e < d \<Longrightarrow> lower_as v lw e = lower_as v lw' e"
  by (simp add: agree_def)

lemma same_onD:
  assumes "same_on lw lw' e"
  shows "lw_numeric lw e = lw_numeric lw' e" "lw_string lw e = lw_string lw' e"
    "lw_condition lw e = lw_condition lw' e" "lw_plain lw e = lw_plain lw' e"
  using assms unfolding same_on_def by (metis lower_as.simps(1), metis lower_as.simps(2), metis lower_as.simps(3), metis lower_as.simps(4))

lemma agree_same:
  assumes "agree (depth v e) lw lw'" "size e' < size e"
  shows "same_on lw lw' e'"
  using assms depth_sub by (auto simp: same_on_def intro: agreeD)

lemma agree_mono: "agree d lw lw' \<Longrightarrow> d' \<le> d \<Longrightarrow> agree d' lw lw'"
  by (auto simp: agree_def)

section \<open>Operations on smaller expressions\<close>

lemmas case_congs = if_cong option.case_cong list.case_cong prod.case_cong

named_theorems same_ops "operations give the same computation when their lowerers agree on the operands"

lemma same_numeric [same_ops]: "same_on lw lw' e \<Longrightarrow> lw_numeric lw e = lw_numeric lw' e"
  and same_string [same_ops]: "same_on lw lw' e \<Longrightarrow> lw_string lw e = lw_string lw' e"
  and same_condition [same_ops]: "same_on lw lw' e \<Longrightarrow> lw_condition lw e = lw_condition lw' e"
  and same_plain [same_ops]: "same_on lw lw' e \<Longrightarrow> lw_plain lw e = lw_plain lw' e"
  by (auto simp: same_onD)

lemma same_captured [same_ops]:
  "same_on lw lw' e \<Longrightarrow> lower_runtime_captured_string_expression lw e = lower_runtime_captured_string_expression lw' e"
  by (simp add: lower_runtime_captured_string_expression_def same_ops cong: case_congs)

lemma same_argument [same_ops]:
  "same_on lw lw' e \<Longrightarrow> lower_runtime_argument_string lw e = lower_runtime_argument_string lw' e"
  by (simp add: lower_runtime_argument_string_def same_ops cong: case_congs)

lemma same_truthiness [same_ops]:
  "same_on lw lw' e \<Longrightarrow> lower_runtime_string_truthiness lw e = lower_runtime_string_truthiness lw' e"
  by (simp add: lower_runtime_string_truthiness_def same_ops cong: case_congs)

lemma same_array_key [same_ops]:
  assumes "same_on lw lw' e"
  shows "lower_runtime_array_key lw e = lower_runtime_array_key lw' e"
  unfolding lower_runtime_array_key_def same_onD [OF assms] by (rule refl)

lemma same_join_keys [same_ops]:
  "list_all (same_on lw lw') es \<Longrightarrow> join_keys lw sep es key = join_keys lw' sep es key"
  by (induction es arbitrary: key) (auto simp: same_ops cong: case_congs)

lemma same_array_subscripts [same_ops]:
  "list_all (same_on lw lw') es \<Longrightarrow> lower_runtime_array_subscripts lw es = lower_runtime_array_subscripts lw' es"
  by (cases es) (auto simp: lower_runtime_array_subscripts_def same_ops cong: case_congs)

fun index_exprs :: "field_index \<Rightarrow> expr list" where
  "index_exprs (IntIndex _) = []"
| "index_exprs (ExprIndex e) = [e]"

lemma same_field_index [same_ops]:
  "list_all (same_on lw lw') (index_exprs i) \<Longrightarrow> lower_runtime_field_index lw i = lower_runtime_field_index lw' i"
  by (cases i) (auto simp: lower_runtime_field_index_def same_ops cong: case_congs)

lemma same_assign_string_lvalue [same_ops]:
  "list_all (same_on lw lw') (lvalue_expressions t)
     \<Longrightarrow> lower_runtime_assign_string_lvalue lw t v = lower_runtime_assign_string_lvalue lw' t v"
  by (cases t) (auto simp: lower_runtime_assign_string_lvalue_def same_ops cong: case_congs)

lemma same_regex_pattern [same_ops]:
  "same_on lw lw' e \<Longrightarrow> lower_runtime_regex_pattern lw e = lower_runtime_regex_pattern lw' e"
  by (cases e) (auto simp: lower_runtime_regex_pattern_def same_ops cong: case_congs)

lemma same_builtins [same_ops]:
  assumes "list_all (same_on lw lw') args"
  shows "lower_runtime_unary_numeric_builtin lw f n args = lower_runtime_unary_numeric_builtin lw' f n args"
    "lower_runtime_binary_numeric_builtin lw f n args = lower_runtime_binary_numeric_builtin lw' f n args"
    "lower_runtime_close_builtin lw args = lower_runtime_close_builtin lw' args"
    "lower_runtime_index_builtin lw args = lower_runtime_index_builtin lw' args"
    "lower_runtime_match_builtin lw args = lower_runtime_match_builtin lw' args"
    "lower_runtime_system_builtin lw args = lower_runtime_system_builtin lw' args"
    "lower_runtime_case_builtin lw upper args = lower_runtime_case_builtin lw' upper args"
    "lower_runtime_srand_builtin lw args = lower_runtime_srand_builtin lw' args"
    "lower_runtime_length_builtin lw args = lower_runtime_length_builtin lw' args"
  using assms
  unfolding lower_runtime_unary_numeric_builtin_def lower_runtime_binary_numeric_builtin_def
    lower_runtime_close_builtin_def lower_runtime_index_builtin_def lower_runtime_match_builtin_def
    lower_runtime_system_builtin_def lower_runtime_case_builtin_def lower_runtime_srand_builtin_def
    lower_runtime_length_builtin_def
  by (auto simp: same_ops split: list.splits)

lemma two_or_three:
  obtains (two) a b where "args = [a, b]" | (three) a b c where "args = [a, b, c]"
  | (other) "length args \<notin> {2, 3}"
  by (cases args; cases "tl args"; cases "tl (tl args)"; cases "tl (tl (tl args))") auto

lemma same_split [same_ops]:
  assumes "list_all (same_on lw lw') args"
  shows "lower_runtime_split_builtin lw args = lower_runtime_split_builtin lw' args"
proof (cases args rule: two_or_three)
  case (two a b)
  then show ?thesis using assms
    by (cases b) (auto simp: lower_runtime_split_builtin_def same_ops cong: case_congs)
next
  case (three a b c)
  then show ?thesis using assms
    by (cases b) (auto simp: lower_runtime_split_builtin_def same_ops cong: case_congs)
next
  case other
  then show ?thesis
    by (cases args; cases "tl args"; cases "tl (tl args)"; cases "tl (tl (tl args))")
      (auto simp: lower_runtime_split_builtin_def)
qed

lemma same_substr [same_ops]:
  assumes "list_all (same_on lw lw') args"
  shows "lower_runtime_substr_builtin lw args = lower_runtime_substr_builtin lw' args"
  by (cases args rule: two_or_three)
    (use assms in \<open>auto simp: lower_runtime_substr_builtin_def same_ops cong: case_congs\<close>)

lemma same_sprintf_arguments [same_ops]:
  "list_all (same_on lw lw') es \<Longrightarrow> sprintf_arguments lw n ns ss i es = sprintf_arguments lw' n ns ss i es"
  by (induction es arbitrary: i) (auto simp: same_ops number_or_parsed_def cong: case_congs)

lemma same_sprintf [same_ops]:
  assumes "list_all (same_on lw lw') args"
  shows "lower_runtime_sprintf_builtin lw args = lower_runtime_sprintf_builtin lw' args"
  using assms by (cases args) (auto simp: lower_runtime_sprintf_builtin_def same_ops cong: case_congs)

lemma same_map_low: "(\<And>x. x \<in> set xs \<Longrightarrow> f x = g x) \<Longrightarrow> map_low f xs = map_low g xs"
  by (induction xs) simp_all

lemma same_user_function_call [same_ops]:
  assumes "list_all (same_on lw lw') args"
  shows "lower_runtime_user_function_call lw f args = lower_runtime_user_function_call lw' f args"
proof -
  have "map_low (lower_runtime_argument_string lw) args = map_low (lower_runtime_argument_string lw') args"
    using assms by (intro same_map_low) (auto simp: list_all_iff same_ops cong: case_congs)
  then show ?thesis by (simp add: lower_runtime_user_function_call_def cong: case_congs)
qed

lemma same_plain_call [same_ops]:
  assumes "list_all (same_on lw lw') args"
  shows "lower_plain_call lw f args = lower_plain_call lw' f args"
proof -
  have "map_low (lw_plain lw) args = map_low (lw_plain lw') args"
    using assms by (intro same_map_low) (auto simp: list_all_iff same_ops cong: case_congs)
  then show ?thesis by (simp add: lower_plain_call_def cong: case_congs)
qed

section \<open>Substitution\<close>

definition below :: "nat \<Rightarrow> lowerers \<Rightarrow> lowerers \<Rightarrow> bool" where
  "below n lw lw' \<longleftrightarrow> (\<forall>e. size e < n \<longrightarrow> same_on lw lw' e)"

lemma belowD: "below n lw lw' \<Longrightarrow> size e < n \<Longrightarrow> same_on lw lw' e"
  by (simp add: below_def)

lemma below_list:
  assumes "below n lw lw'" "\<And>e. e \<in> set es \<Longrightarrow> size e < n"
  shows "list_all (same_on lw lw') es"
  using assms by (simp add: list_all_iff below_def)

lemma length_le_size_list: "length xs \<le> size_list f xs"
  by (induction xs) auto

lemma lvalue_of_expression_size:
  assumes "expression_to_lvalue e = Inr (Some t)" "x \<in> set (lvalue_expressions t)"
  shows "size x \<le> size e"
proof -
  have list: "y \<in> set ys \<Longrightarrow> size y \<le> size_list size ys" for y :: expr and ys
    by (induction ys) auto
  show ?thesis
    using assms by (cases e rule: expression_to_lvalue.cases) (auto simp: bindE_eq_Inr dest: list)
qed

lemma bindL_lift_cong: "(\<And>x. r = Inr x \<Longrightarrow> f x = g x) \<Longrightarrow> bindL (liftL r) f = bindL (liftL r) g"
  by (cases r) (auto simp: bindL_def liftL_def fun_eq_iff)

lemma same_substitute:
  assumes n: "below n lw lw'" and args: "\<And>e. e \<in> set args \<Longrightarrow> size e < n"
    and long: "length args < n"
  shows "lower_runtime_substitute_builtin lw g args sp = lower_runtime_substitute_builtin lw' g args sp"
proof -
  define target where "target = (if length args = 3 then args ! 2 else FieldExpr (IntIndex 0) sp)"
  have small: "size target < n" if "length args \<in> {2, 3}"
  proof (cases args rule: two_or_three)
    case (two a b) then show ?thesis using long by (simp add: target_def)
  next
    case (three a b c) then show ?thesis using args [of c] by (simp add: target_def)
  qed (use that in auto)
  have lvalue: "lower_runtime_assign_string_lvalue lw t v = lower_runtime_assign_string_lvalue lw' t v"
    if "length args \<in> {2, 3}" "expression_to_lvalue target = Inr (Some t)" for t v
    by (rule same_assign_string_lvalue, rule below_list [OF n])
      (use lvalue_of_expression_size [OF that(2)] small [OF that(1)] in fastforce)
  have name: "size (NameExpr x (expr_span target)) < n" if "length args \<in> {2, 3}" for x
    using small [OF that] by simp
  have current: "substitute_target_value lw target t = substitute_target_value lw' target t"
    if "length args \<in> {2, 3}" for t
    using belowD [OF n small [OF that]] belowD [OF n name [OF that]]
    by (cases t) (simp_all add: substitute_target_value_def same_ops)
  have rest: "lower_runtime_regex_pattern lw (args ! 0) = lower_runtime_regex_pattern lw' (args ! 0)"
    "lw_string lw (args ! 1) = lw_string lw' (args ! 1)"
    "lower_runtime_captured_string_expression lw (args ! 1) = lower_runtime_captured_string_expression lw' (args ! 1)"
    if "length args \<in> {2, 3}"
    by (cases args rule: two_or_three; use that in \<open>auto simp: same_ops belowD [OF n args]\<close>)+
  show ?thesis
    unfolding lower_runtime_substitute_builtin_def Let_def target_def [symmetric]
    by (cases "length args \<in> {2, 3}")
      (simp_all only: rest current lvalue not_True_eq_False if_False if_True not_False_eq_True
        cong: bindL_lift_cong option.case_cong)
qed

section \<open>Expressions\<close>

lemma same_arithmetic [same_ops]:
  "lower left = lower' left \<Longrightarrow> lower right = lower' right
     \<Longrightarrow> lower_arithmetic lower left op right = lower_arithmetic lower' left op right"
  by (simp add: lower_arithmetic_def)

lemma same_assignment [same_ops]:
  assumes "list_all (same_on lw lw') (lvalue_expressions t)" "same_on lw lw' v"
  shows "lower_runtime_assignment_expression lw t op v = lower_runtime_assignment_expression lw' t op v"
  using assms
  by (cases t)
    (auto simp: lower_runtime_assignment_expression_def assign_field_number_def assign_array_number_def
       assign_param_number_def assign_numeric_slot_def assign_scalar_def assign_scalar_string_def
       assign_scalar_number_def same_ops cong: case_congs)

lemma same_string_assignment [same_ops]:
  assumes "list_all (same_on lw lw') (lvalue_expressions t)" "same_on lw lw' v"
  shows "lower_string_assignment lw t v = lower_string_assignment lw' t v"
proof (cases t)
  case (NameLValue n sp)
  show ?thesis
    unfolding NameLValue lower_string_assignment_def lvalue.case assign_name_string_def same_onD [OF assms(2)]
    by (rule refl)
next
  case (ArrayLValue n ks sp)
  then have keys: "lower_runtime_array_subscripts lw ks = lower_runtime_array_subscripts lw' ks"
    using assms(1) by (simp add: same_ops)
  show ?thesis
    unfolding ArrayLValue lower_string_assignment_def lvalue.case assign_array_string_def keys same_onD [OF assms(2)]
    by (rule refl)
next
  case (FieldLValue i sp)
  then have field: "lower_runtime_field_index lw (ExprIndex i) = lower_runtime_field_index lw' (ExprIndex i)"
    using assms(1) by (simp add: same_ops)
  show ?thesis
    unfolding FieldLValue lower_string_assignment_def lvalue.case assign_field_string_def field same_onD [OF assms(2)]
    by (rule refl)
qed

lemma same_increment [same_ops]:
  assumes "\<And>e'. e' \<in> set (expression_children e) \<Longrightarrow> same_on lw lw' e'"
  shows "lower_runtime_increment_expression lw e up old = lower_runtime_increment_expression lw' e up old"
proof (cases e)
  case (FieldExpr i sp)
  then have field: "lower_runtime_field_index lw i = lower_runtime_field_index lw' i"
    using assms by (intro same_field_index) (cases i; simp)
  show ?thesis
    unfolding FieldExpr lower_runtime_increment_expression_def expr.case increment_field_def field by (rule refl)
next
  case (ArrayIndexExpr a i ks sp)
  then have keys: "lower_runtime_array_subscripts lw (i # ks) = lower_runtime_array_subscripts lw' (i # ks)"
    using assms by (intro same_array_subscripts) (auto simp: list_all_iff)
  show ?thesis
    unfolding ArrayIndexExpr lower_runtime_increment_expression_def expr.case increment_array_def keys by (rule refl)
qed (simp_all add: lower_runtime_increment_expression_def)

lemma same_getline [same_ops]:
  assumes "\<And>e'. e' \<in> set (expression_children (GetlineExpr t src sp)) \<Longrightarrow> same_on lw lw' e'"
  shows "lower_runtime_getline_expression lw t src = lower_runtime_getline_expression lw' t src"
proof -
  have lv: "lower_runtime_assign_string_lvalue lw lv x = lower_runtime_assign_string_lvalue lw' lv x"
    if "t = Some lv" for lv x
    by (rule same_assign_string_lvalue) (use assms that in \<open>auto simp: list_all_iff\<close>)
  have src: "lower_runtime_captured_string_expression lw e = lower_runtime_captured_string_expression lw' e"
    if "src = Some e" for e
    using assms that by (simp add: same_ops)
  have into: "getline_into lw lv src = getline_into lw' lv src" if t: "t = Some lv" for lv
  proof (cases src)
    case None
    show ?thesis unfolding None getline_into_def option.case lv [OF t] by (rule refl)
  next
    case (Some e)
    show ?thesis unfolding Some getline_into_def option.case lv [OF t] src [OF Some] by (rule refl)
  qed
  show ?thesis
  proof (cases t)
    case None
    then show ?thesis using src by (cases src) (simp_all add: lower_runtime_getline_expression_def)
  next
    case (Some lv)
    then show ?thesis using into [OF Some] by (simp add: lower_runtime_getline_expression_def)
  qed
qed

lemma same_branches:
  assumes "same_on lw lw' test" "lower e1 = lower' e1" "lower e2 = lower' e2"
  shows "lower_branches lw l p ty lower test e1 e2 = lower_branches lw' l p ty lower' test e1 e2"
  using assms by (simp add: lower_branches_def same_ops)

lemma same_conditionals [same_ops]:
  assumes "same_on lw lw' test" "same_on lw lw' e1" "same_on lw lw' e2"
  shows "lower_runtime_numeric_conditional_expression lw test e1 e2
           = lower_runtime_numeric_conditional_expression lw' test e1 e2"
    "lower_runtime_condition_conditional_expression lw test e1 e2
       = lower_runtime_condition_conditional_expression lw' test e1 e2"
    "lower_runtime_string_conditional_expression lw test e1 e2
       = lower_runtime_string_conditional_expression lw' test e1 e2"
    "lower_numeric_ternary lw test e1 e2 = lower_numeric_ternary lw' test e1 e2"
proof -
  show num: "lower_runtime_numeric_conditional_expression lw test e1 e2
           = lower_runtime_numeric_conditional_expression lw' test e1 e2"
    unfolding lower_runtime_numeric_conditional_expression_def
    by (rule same_branches) (use assms in \<open>auto simp: same_ops\<close>)
  show "lower_runtime_condition_conditional_expression lw test e1 e2
       = lower_runtime_condition_conditional_expression lw' test e1 e2"
    unfolding lower_runtime_condition_conditional_expression_def
    by (rule same_branches) (use assms in \<open>auto simp: same_ops\<close>)
  have "lower_branches lw l p ty (\<lambda>e. bindL (lw_string lw e) k) test e1 e2
       = lower_branches lw' l p ty (\<lambda>e. bindL (lw_string lw' e) k) test e1 e2" for l p ty k
    by (rule same_branches) (use assms in \<open>auto simp: same_ops\<close>)
  then show "lower_runtime_string_conditional_expression lw test e1 e2
       = lower_runtime_string_conditional_expression lw' test e1 e2"
    by (simp add: lower_runtime_string_conditional_expression_def)
  show "lower_numeric_ternary lw test e1 e2 = lower_numeric_ternary lw' test e1 e2"
    using assms by (simp add: lower_numeric_ternary_def num same_ops cong: case_congs)
qed

lemma same_operators [same_ops]:
  assumes "same_on lw lw' e1" "same_on lw lw' e2"
  shows "lower_concat lw e1 e2 = lower_concat lw' e1 e2"
    "lower_runtime_match_operator lw e1 op e2 = lower_runtime_match_operator lw' e1 op e2"
    "lower_runtime_in_expression lw e1 e2 = lower_runtime_in_expression lw' e1 e2"
    "lower_comparison lw e1 op e2 = lower_comparison lw' e1 op e2"
    "lower_logical_and lw e1 e2 = lower_logical_and lw' e1 e2"
    "lower_logical_or lw e1 e2 = lower_logical_or lw' e1 e2"
proof -
  note e1 = same_onD [OF assms(1)] same_captured [OF assms(1)] and e2 = same_onD [OF assms(2)] same_captured [OF assms(2)]
  show "lower_concat lw e1 e2 = lower_concat lw' e1 e2"
    unfolding lower_concat_def Let_def if_distrib [of "\<lambda>f. f _"] e1 e2 if_distribR by (simp add: e1 e2 fun_eq_iff)
  show "lower_runtime_match_operator lw e1 op e2 = lower_runtime_match_operator lw' e1 op e2"
    using assms by (simp add: lower_runtime_match_operator_def same_ops)
  show "lower_runtime_in_expression lw e1 e2 = lower_runtime_in_expression lw' e1 e2"
    unfolding lower_runtime_in_expression_def e1 by (rule refl)
  show "lower_comparison lw e1 op e2 = lower_comparison lw' e1 op e2"
    unfolding lower_comparison_def compare_numbers_def compare_strings_def compare_values_def e1 e2 by (rule refl)
  show "lower_logical_and lw e1 e2 = lower_logical_and lw' e1 e2"
    unfolding lower_logical_and_def e1 e2 by (rule refl)
  show "lower_logical_or lw e1 e2 = lower_logical_or lw' e1 e2"
    unfolding lower_logical_or_def e1 e2 by (rule refl)
qed


lemma bindL_getL [simp]: "bindL (getL f) g s = g (f s) s"
  by (simp add: bindL_def getL_def)

lemma same_truthy: "lower e = lower' e \<Longrightarrow> truthy lower e = truthy lower' e"
  by (simp add: truthy_def)

lemma same_numeric_ops [same_ops]:
  assumes "\<And>e'. e' \<in> set (expression_children (UnaryExpr op e sp)) \<Longrightarrow> same_on lw lw' e'"
    "\<And>e'. e' \<in> set (expression_children e) \<Longrightarrow> same_on lw lw' e'"
  shows "lower_numeric_unary lw op e = lower_numeric_unary lw' op e"
  using assms by (cases op) (simp_all add: lower_numeric_unary_def same_ops)

lemma coerced_self:
  assumes "\<And>s. runtime_expression_has_string_result e s \<Longrightarrow> lw_string lw e = lw_string lw' e"
  shows "coerced_string lw e = coerced_string lw' e"
proof
  fix s
  show "coerced_string lw e s = coerced_string lw' e s"
    using assms [of s] by (simp add: coerced_string_def lower_runtime_captured_string_expression_def)
qed

lemma same_numeric_call:
  assumes args: "below n lw lw'" "\<And>e. e \<in> set args \<Longrightarrow> size e < n" "length args < n"
    and other: "f \<in> set STRING_RESULT_BUILTINS \<Longrightarrow> lw_string lw (CallExpr f args sp) = lw_string lw' (CallExpr f args sp)"
  shows "lower_numeric_call lw (coerced_string lw (CallExpr f args sp)) f args sp
           = lower_numeric_call lw' (coerced_string lw' (CallExpr f args sp)) f args sp"
proof
  fix s
  have coerced: "coerced_string lw (CallExpr f args sp) s = coerced_string lw' (CallExpr f args sp) s"
    if "ls_function_defs s f = None"
    using that other by (auto simp: coerced_string_def lower_runtime_captured_string_expression_def)
  have list: "list_all (same_on lw lw') args" by (rule below_list [OF args(1,2)])
  have substitute: "lower_runtime_substitute_builtin lw g args sp = lower_runtime_substitute_builtin lw' g args sp" for g
    by (rule same_substitute [OF args(1) _ args(3)]) (rule args(2))
  note same = same_split [OF list] same_builtins [OF list] same_user_function_call [OF list] substitute
  show "lower_numeric_call lw (coerced_string lw (CallExpr f args sp)) f args sp s
          = lower_numeric_call lw' (coerced_string lw' (CallExpr f args sp)) f args sp s"
    unfolding lower_numeric_call_def bindL_getL same
    by (simp add: coerced)
qed


lemma same_structured_condition:
  assumes subs: "\<And>e'. e' \<in> set (expression_children e) \<Longrightarrow> same_on lw lw' e'"
    and number: "\<not> starts_as_condition e \<Longrightarrow> lw_numeric lw e = lw_numeric lw' e"
    and plain: "\<not> starts_as_condition e \<or> is_match_op e \<Longrightarrow> lw_plain lw e = lw_plain lw' e"
  shows "lower_structured_condition lw runtime e = lower_structured_condition lw' runtime e"
proof (cases e)
  case (BinaryExpr l op r sp)
  then have l: "same_on lw lw' l" and r: "same_on lw lw' r" using subs by auto
  show ?thesis
    using number plain
    unfolding BinaryExpr lower_structured_condition_def Let_def expr.case same_operators [OF l r]
    by (cases op; cases runtime)
      (simp_all add: starts_as_condition_def is_match_op_def is_comparison_op_def is_arithmetic_op_def truthy_def)
next
  case (ConditionalExpr t l r sp)
  then have t: "same_on lw lw' t" and l: "same_on lw lw' l" and r: "same_on lw lw' r" using subs by auto
  show ?thesis
    unfolding ConditionalExpr lower_structured_condition_def Let_def expr.case same_conditionals [OF t l r]
      same_onD [OF t] same_onD [OF l] same_onD [OF r]
    by (rule refl)
qed (use number plain in \<open>auto simp: lower_structured_condition_def starts_as_condition_def intro!: same_truthy\<close>)

lemma same_condition_expression:
  assumes subs: "\<And>e'. e' \<in> set (expression_children e) \<Longrightarrow> same_on lw lw' e'"
    and self: "\<not> starts_as_condition e \<Longrightarrow> lw_numeric lw e = lw_numeric lw' e"
      "\<not> starts_as_condition e \<Longrightarrow> lw_string lw e = lw_string lw' e"
    and plain: "\<not> starts_as_condition e \<or> is_match_op e \<Longrightarrow> lw_plain lw e = lw_plain lw' e"
  shows "lower_condition_expression lw e = lower_condition_expression lw' e"
proof
  fix s
  have structured: "lower_structured_condition lw b e = lower_structured_condition lw' b e" for b
    by (rule same_structured_condition [OF subs self(1) plain])
  have truth: "lower_runtime_string_truthiness lw e = lower_runtime_string_truthiness lw' e"
    if "runtime_expression_is_known_string e s"
  proof -
    have "\<not> starts_as_condition e"
      using that by (auto simp: starts_as_condition_def split: expr.splits)
    then show ?thesis by (simp add: lower_runtime_string_truthiness_def self(2))
  qed
  show "lower_condition_expression lw e s = lower_condition_expression lw' e s"
    by (cases e) (use truth structured in \<open>auto simp: lower_condition_expression_def Let_def\<close>)
qed

lemma same_numeric_expression:
  assumes subs: "\<And>e'. e' \<in> set (expression_children e) \<Longrightarrow> same_on lw lw' e'"
    and below: "below (size e) lw lw'"
    and str: "starts_as_string e \<Longrightarrow> lw_string lw e = lw_string lw' e"
    and cond: "starts_as_condition e \<Longrightarrow> lw_condition lw e = lw_condition lw' e"
  shows "lower_runtime_numeric_expression lw e = lower_runtime_numeric_expression lw' e"
proof -
  have coerced: "coerced_string lw e = coerced_string lw' e"
    if "\<And>s. runtime_expression_has_string_result e s \<Longrightarrow> starts_as_string e"
    by (rule coerced_self) (use that str in blast)
  show ?thesis
  proof (cases e)
  case (BinaryExpr l op r sp)
  then have l: "same_on lw lw' l" and r: "same_on lw lw' r" using subs by auto
  have arith: "lower_arithmetic (lw_numeric lw) l op r = lower_arithmetic (lw_numeric lw') l op r"
    by (rule same_arithmetic) (simp_all add: same_onD [OF l] same_onD [OF r])
  show ?thesis
  proof (cases "is_arithmetic_op op \<or> op = OpConcat")
    case True
    then show ?thesis
      using coerced arith by (auto simp: BinaryExpr lower_runtime_numeric_expression_def starts_as_string_def)
  next
    case False
    then show ?thesis
      using cond by (simp add: BinaryExpr lower_runtime_numeric_expression_def starts_as_condition_def)
  qed
next
  case (CallExpr f args sp)
  have "size a < size e" if "a \<in> set args" for a
    using expression_children_size [of a e] that CallExpr by simp
  moreover have "length args < size e"
    using length_le_size_list [of args size] CallExpr by simp
  ultimately have "lower_numeric_call lw (coerced_string lw e) f args sp = lower_numeric_call lw' (coerced_string lw' e) f args sp"
    using str unfolding CallExpr
    by (intro same_numeric_call [where n = "size e"]) (use below CallExpr in \<open>auto simp: starts_as_string_def\<close>)
  then show ?thesis
    unfolding CallExpr by (simp add: lower_runtime_numeric_expression_def)
next
  case (ArrayIndexExpr a i ks sp)
  then have keys: "lower_runtime_array_subscripts lw (i # ks) = lower_runtime_array_subscripts lw' (i # ks)"
    using subs by (intro same_array_subscripts) (auto simp: list_all_iff)
  show ?thesis unfolding ArrayIndexExpr lower_runtime_numeric_expression_def expr.case keys by (rule refl)
next
  case (ConditionalExpr t l r sp)
  then have "same_on lw lw' t" "same_on lw lw' l" "same_on lw lw' r" using subs by auto
  note same = same_conditionals [OF this]
  show ?thesis unfolding ConditionalExpr lower_runtime_numeric_expression_def expr.case same by (rule refl)
next
  case (AssignExpr t op v sp)
  then have same: "lower_runtime_assignment_expression lw t op v = lower_runtime_assignment_expression lw' t op v"
    using subs by (intro same_assignment) (auto simp: list_all_iff)
  show ?thesis unfolding AssignExpr lower_runtime_numeric_expression_def expr.case same by (rule refl)
next
  case (UnaryExpr op a sp)
  have "same_on lw lw' e'" if "e' \<in> set (expression_children a)" for e'
    using belowD [OF below, of e'] expression_children_size [OF that] UnaryExpr by simp
  then have same: "lower_numeric_unary lw op a = lower_numeric_unary lw' op a"
    using subs UnaryExpr by (intro same_numeric_ops) auto
  show ?thesis unfolding UnaryExpr lower_runtime_numeric_expression_def expr.case same by (rule refl)
next
  case (PostfixExpr a op sp)
  have "same_on lw lw' e'" if "e' \<in> set (expression_children a)" for e'
    using belowD [OF below, of e'] expression_children_size [OF that] PostfixExpr by simp
  then have same: "lower_runtime_increment_expression lw a u old = lower_runtime_increment_expression lw' a u old" for u old
    by (rule same_increment)
  show ?thesis unfolding PostfixExpr lower_runtime_numeric_expression_def expr.case same by (rule refl)
next
  case (GetlineExpr t src sp)
  then have same: "lower_runtime_getline_expression lw t src = lower_runtime_getline_expression lw' t src"
    using subs by (intro same_getline) auto
  show ?thesis unfolding GetlineExpr lower_runtime_numeric_expression_def expr.case same by (rule refl)
next
  case (FieldExpr i sp)
  then show ?thesis
    using coerced by (simp add: lower_runtime_numeric_expression_def starts_as_string_def)
qed (use coerced in \<open>simp_all add: lower_runtime_numeric_expression_def\<close>)
qed

lemma same_string_expression:
  assumes subs: "\<And>e'. e' \<in> set (expression_children e) \<Longrightarrow> same_on lw lw' e'"
    and number: "\<not> starts_as_string e \<Longrightarrow> lw_numeric lw e = lw_numeric lw' e"
  shows "lower_runtime_string_expression lw e = lower_runtime_string_expression lw' e"
proof -
  have numeric: "\<not> starts_as_string e \<Longrightarrow> numeric_as_string lw e = numeric_as_string lw' e"
    by (simp add: numeric_as_string_def number)
  show ?thesis
  proof (cases e)
  case (BinaryExpr l op r sp)
  then have l: "same_on lw lw' l" and r: "same_on lw lw' r" using subs by auto
  show ?thesis
    using numeric same_operators(1) [OF l r] unfolding BinaryExpr
    by (auto simp: lower_runtime_string_expression_def starts_as_string_def)
next
  case (CallExpr f args sp)
  then have list: "list_all (same_on lw lw') args" using subs by (simp add: list_all_iff)
  note same = same_substr [OF list] same_sprintf [OF list] same_user_function_call [OF list] same_builtins(7) [OF list]
  have number: "f \<notin> set STRING_RESULT_BUILTINS \<Longrightarrow> numeric_as_string lw e = numeric_as_string lw' e"
    using numeric CallExpr by (simp add: starts_as_string_def)
  show ?thesis
  proof (cases "f \<in> set STRING_RESULT_BUILTINS")
    case True
    then consider "f = ''sprintf''" | "f = ''substr''" | "f = ''tolower''" | "f = ''toupper''"
      by (auto simp: STRING_RESULT_BUILTINS_def)
    then show ?thesis
      by cases (simp_all add: CallExpr lower_runtime_string_expression_def same cong: if_cong)
  next
    case False
    show ?thesis
      unfolding CallExpr lower_runtime_string_expression_def expr.case same number [OF False, unfolded CallExpr]
      by (rule refl)
  qed
next
  case (ArrayIndexExpr a i ks sp)
  then have keys: "lower_runtime_array_subscripts lw (i # ks) = lower_runtime_array_subscripts lw' (i # ks)"
    using subs by (intro same_array_subscripts) (auto simp: list_all_iff)
  show ?thesis unfolding ArrayIndexExpr lower_runtime_string_expression_def expr.case keys by (rule refl)
next
  case (FieldExpr i sp)
  then have field: "lower_runtime_field_index lw i = lower_runtime_field_index lw' i"
    using subs by (intro same_field_index) (cases i; simp)
  show ?thesis unfolding FieldExpr lower_runtime_string_expression_def expr.case field by (rule refl)
next
  case (ConditionalExpr t l r sp)
  then have "same_on lw lw' t" "same_on lw lw' l" "same_on lw lw' r" using subs by auto
  note same = same_conditionals [OF this]
  show ?thesis unfolding ConditionalExpr lower_runtime_string_expression_def expr.case same by (rule refl)
next
  case (AssignExpr t op v sp)
  then have "lower_string_assignment lw t v = lower_string_assignment lw' t v"
    using subs by (intro same_string_assignment) (auto simp: list_all_iff)
  moreover have "numeric_as_string lw e = numeric_as_string lw' e"
    using numeric AssignExpr by (simp add: starts_as_string_def)
  ultimately show ?thesis by (simp add: AssignExpr lower_runtime_string_expression_def)
next
  case (NameExpr n sp)
  then have "numeric_as_string lw e = numeric_as_string lw' e"
    using numeric by (simp add: starts_as_string_def)
  then have "lower_runtime_string_name lw e n = lower_runtime_string_name lw' e n"
    unfolding lower_runtime_string_name_def by (rule ssubst) (rule refl)
  then show ?thesis by (simp add: NameExpr lower_runtime_string_expression_def)
qed (use numeric in \<open>simp_all add: lower_runtime_string_expression_def starts_as_string_def\<close>)
qed

lemma same_plain_expression:
  assumes subs: "\<And>e'. e' \<in> set (expression_children e) \<Longrightarrow> same_on lw lw' e'"
    and cond: "starts_as_condition e \<Longrightarrow> \<not> is_match_op e \<Longrightarrow> lw_condition lw e = lw_condition lw' e"
  shows "lower_numeric_expression lw e = lower_numeric_expression lw' e"
proof (cases e)
  case (BinaryExpr l op r sp)
  then have l: "same_on lw lw' l" and r: "same_on lw lw' r" using subs by auto
  have arith: "lower_arithmetic (lw_plain lw) l op r = lower_arithmetic (lw_plain lw') l op r"
    by (rule same_arithmetic) (simp_all add: same_onD [OF l] same_onD [OF r])
  show ?thesis
    using cond unfolding BinaryExpr lower_numeric_expression_def expr.case arith
    by (cases op) (simp_all add: starts_as_condition_def is_match_op_def is_comparison_op_def is_arithmetic_op_def)
next
  case (CallExpr f args sp)
  then have same: "lower_plain_call lw f args = lower_plain_call lw' f args"
    using subs by (intro same_plain_call) (simp add: list_all_iff)
  show ?thesis unfolding CallExpr lower_numeric_expression_def expr.case same by (rule refl)
next
  case (ConditionalExpr t l r sp)
  then have t: "same_on lw lw' t" and l: "same_on lw lw' l" and r: "same_on lw lw' r" using subs by auto
  show ?thesis unfolding ConditionalExpr lower_numeric_expression_def expr.case
      same_onD [OF t] same_onD [OF l] same_onD [OF r] by (rule refl)
qed (simp_all add: lower_numeric_expression_def)

lemma agree_step:
  assumes "agree (depth v e) lw lw'"
  shows "lower_as v (lowering_step lw) e = lower_as v (lowering_step lw') e"
proof -
  have below: "below (size e) lw lw'"
    using agree_same [OF assms] by (simp add: below_def)
  have subs: "same_on lw lw' e'" if "e' \<in> set (expression_children e)" for e'
    using belowD [OF below] expression_children_size [OF that] .
  have self: "lower_as v' lw e = lower_as v' lw' e" if "rank v' e < rank v e" for v'
    by (rule agreeD [OF assms]) (use that in \<open>simp add: depth_def\<close>)
  have exclusive: "\<not> (starts_as_string e \<and> starts_as_condition e)" "is_match_op e \<Longrightarrow> starts_as_condition e"
    by (auto simp: starts_as_string_def starts_as_condition_def is_match_op_def is_arithmetic_op_def split: expr.splits)
  show ?thesis
  proof (cases v)
    case Number
    have "lower_runtime_numeric_expression lw e = lower_runtime_numeric_expression lw' e"
      by (rule same_numeric_expression [OF subs below])
        (use self [of Str] self [of Condition] exclusive Number in auto)
    then show ?thesis by (simp add: Number lowering_step_def)
  next
    case Str
    have "lower_runtime_string_expression lw e = lower_runtime_string_expression lw' e"
      by (rule same_string_expression [OF subs]) (use self [of Number] exclusive Str in auto)
    then show ?thesis by (simp add: Str lowering_step_def)
  next
    case Condition
    have "lower_condition_expression lw e = lower_condition_expression lw' e"
      by (rule same_condition_expression [OF subs])
        (use self [of Number] self [of Str] self [of Plain] exclusive Condition in auto)
    then show ?thesis by (simp add: Condition lowering_step_def)
  next
    case Plain
    have "lower_numeric_expression lw e = lower_numeric_expression lw' e"
      by (rule same_plain_expression [OF subs]) (use self [of Condition] exclusive Plain in auto)
    then show ?thesis by (simp add: Plain lowering_step_def)
  qed
qed

section \<open>The equations of the code\<close>

lemma agree_steps: "agree n ((lowering_step ^^ n) lw) ((lowering_step ^^ n) lw')"
proof (induction n)
  case 0 then show ?case by (simp add: agree_def)
next
  case (Suc n)
  then show ?case
    unfolding agree_def [of "Suc n"] by (auto intro!: agree_step intro: agree_mono)
qed

lemma lowerers_within_steps: "lowerers_within n = (lowering_step ^^ n) (lowerers_within 0)"
  by (induction n) simp_all

lemma agree_within: "agree n ((lowering_step ^^ n) lw) (lowerers_within (n + m))"
  using agree_steps [of n lw "lowerers_within m"]
  by (simp add: lowerers_within_steps [of "n + m"] lowerers_within_steps [of m] funpow_add)

lemma lower_as_lowering: "lower_as v lowering e = lower_as v (lowerers_within (call_depth e)) e"
  by (cases v) (simp_all add: lowering_def)

lemma lowering_steps:
  assumes "depth v e < n"
  shows "lower_as v ((lowering_step ^^ n) lw) e = lower_as v lowering e"
proof -
  define k where "k = Suc (depth v e)"
  have k: "lower_as v (lowerers_within m) e = lower_as v ((lowering_step ^^ k) lw') e" if "k \<le> m" for m lw'
    using agreeD [OF agree_within [of k lw' "m - k"], of v e] that by (simp add: k_def del: funpow.simps lowerers_within.simps)
  have "lower_as v ((lowering_step ^^ n) lw) e = lower_as v (lowerers_within n) e"
    using agreeD [OF agree_within [of n lw 0], of v e] assms by simp
  also have "\<dots> = lower_as v (lowerers_within (call_depth e)) e"
    using k [of n] k [of "call_depth e"] assms depth_less_call_depth [of v e] by (simp add: k_def)
  finally show ?thesis by (simp add: lower_as_lowering)
qed

lemma lowerers_eqI: "(\<And>v e. lower_as v lw e = lower_as v lw' e) \<Longrightarrow> lw = (lw' :: lowerers)"
  by (rule lowerers.equality; (rule ext)?) (metis lower_as.simps(1), metis lower_as.simps(2), metis lower_as.simps(3), metis lower_as.simps(4), simp)

lemma lowering_fixpoint: "lowering_step lowering = lowering"
proof (rule lowerers_eqI)
  fix v e
  have "agree (depth v e) lowering ((lowering_step ^^ depth v e) lowering)"
    using lowering_steps by (simp add: agree_def)
  then have "lower_as v (lowering_step lowering) e = lower_as v ((lowering_step ^^ Suc (depth v e)) lowering) e"
    by (simp add: agree_step)
  then show "lower_as v (lowering_step lowering) e = lower_as v lowering e"
    by (simp add: lowering_steps del: funpow.simps)
qed

lemma fixpoint_unique:
  assumes "lowering_step lw = lw"
  shows "lw = lowering"
proof (rule lowerers_eqI)
  fix v e
  have "(lowering_step ^^ n) lw = lw" for n by (induction n) (simp_all add: assms)
  then show "lower_as v lw e = lower_as v lowering e"
    using lowering_steps [of v e "Suc (depth v e)" lw] by (simp del: funpow.simps)
qed

text \<open>The equations of the four functions, as the code has them.\<close>

lemma lowering_equations:
  "lw_numeric lowering = lower_runtime_numeric_expression lowering"
  "lw_string lowering = lower_runtime_string_expression lowering"
  "lw_condition lowering = lower_condition_expression lowering"
  "lw_plain lowering = lower_numeric_expression lowering"
  using arg_cong [OF lowering_fixpoint, of lw_numeric] arg_cong [OF lowering_fixpoint, of lw_string]
    arg_cong [OF lowering_fixpoint, of lw_condition] arg_cong [OF lowering_fixpoint, of lw_plain]
  by (simp_all add: lowering_step_def)

text \<open>C27: The recursion of the four mutually recursive lowering functions of expressions (to a number, a
  string, a condition, and a number without a runtime) is well founded: the equations of the code have
  exactly one solution, the \<open>lowering\<close> that the statements, programs and the driver use.  A function calls
  itself or another one on a smaller expression, or another one of a lower rank on the same expression.\<close>

theorem lowering_is_the_solution: "lowering_step lw = lw \<longleftrightarrow> lw = lowering"
  using lowering_fixpoint fixpoint_unique by blast

end
