(* ===== verification/Statement_Contract.thy ===== *)
theory Statement_Contract
  imports Lower_Program Lowering_Lawful Lowering_Depth
begin

text \<open>
  The contract of \<open>Lowering_Contract\<close> extended to \<^verbatim>\<open>lower_stmt.py\<close>: a relation that is also kept
  when a statement sets the labels of its loop, the binding of its variable or the exit label of its
  action and restores them, and by the few fields that only statements write.
\<close>

declare bindL_getL [simp del]

section \<open>The knot\<close>

context lowering_contract
begin

lemma lw_ok_lowering: "lw_ok lowering"
proof -
  define lw where "lw = \<lparr>lw_numeric = (\<lambda>_. raiseL (AssertionError [])), lw_string = (\<lambda>_. raiseL (AssertionError [])),
     lw_condition = (\<lambda>_. raiseL (AssertionError [])), lw_plain = (\<lambda>_. raiseL (AssertionError []))\<rparr>"
  have "lw_ok lw" by (simp add: lw_def lawful_lowerers_def law_raise raises)
  then have ok: "lw_ok ((lowering_step ^^ n) lw)" for n by (rule lawful_iterate)
  have "law A L (lower_as v lowering e)" for A L v e
    using lowering_steps [OF depth_less_call_depth, of v e lw] lw_lawful [OF ok [of "call_depth e"], of A L e]
    by (cases v) simp_all
  then show ?thesis
    unfolding lawful_lowerers_def using lower_as.simps by metis
qed

end

section \<open>The laws of statements\<close>

locale statement_contract = lowering_contract +
  assumes loop_labels:
      "R A L (s\<lparr>ls_break_label := b, ls_continue_label := c\<rparr>) s'
         \<Longrightarrow> R A L s (s'\<lparr>ls_break_label := ls_break_label s, ls_continue_label := ls_continue_label s\<rparr>)"
    and loop_binding:
      "R A L (s\<lparr>ls_loop_string_bindings := (ls_loop_string_bindings s)(name \<mapsto> key)\<rparr>) s'
         \<Longrightarrow> R A L s (s'\<lparr>ls_loop_string_bindings :=
                        (ls_loop_string_bindings s')(name := ls_loop_string_bindings s name)\<rparr>)"
    and action_exit:
      "R A L (s\<lparr>ls_action_exit_label := x\<rparr>) s' \<Longrightarrow> R A L s (s'\<lparr>ls_action_exit_label := ls_action_exit_label s\<rparr>)"
    and note_output:
      "R {} {} s (s\<lparr>ls_uses_puts := True\<rparr>)" "R {} {} s (s\<lparr>ls_uses_printf := True\<rparr>)"
    and note_strings: "R {} {} s (s\<lparr>ls_initial_string_values := values\<rparr>)"
    and add_format:
      "ls_runtime_param s = None \<Longrightarrow> \<not> ls_numeric_format_declared s
         \<Longrightarrow> R {} {} s (s\<lparr>ls_numeric_format_declared := True, ls_globals := ls_globals s @ [(''@.fmt.num'', data)]\<rparr>)"
begin

declare lw_ok_lowering [simp]

lemma law_modify:
  assumes "\<And>s. R {} {} s (f s)"
  shows "law A L (modifyL f)"
  using weaker [OF assms] by (auto simp: lawful_def modifyL_def)

lemma law_with_loop_labels [lawful_ops]:
  assumes "law A L m"
  shows "law A L (with_loop_labels b c m)"
proof (rule lawfulI)
  let ?in = "\<lambda>s. s\<lparr>ls_break_label := Some b, ls_continue_label := Some c\<rparr>"
  fix s :: lowering_state assume "A \<subseteq> {..<ls_temp_index s}" "L \<subseteq> {..<ls_label_index s}"
  then have "R A L (?in s) (snd (m (?in s)))" by (intro lawful_state [OF assms]) simp_all
  from loop_labels [OF this] show "R A L s (snd (with_loop_labels b c m s))"
    by (auto simp: with_loop_labels_def split: prod.split)
next
  let ?in = "\<lambda>s. s\<lparr>ls_break_label := Some b, ls_continue_label := Some c\<rparr>"
  fix s :: lowering_state and e
  assume "A \<subseteq> {..<ls_temp_index s}" "L \<subseteq> {..<ls_label_index s}" "fst (with_loop_labels b c m s) = Inl e"
  then show "E e"
    by (intro lawful_error [OF assms, of "?in s"]) (auto simp: with_loop_labels_def split: prod.splits)
qed

lemma law_with_loop_binding [lawful_ops]:
  assumes "law A L m"
  shows "law A L (with_loop_binding name key m)"
proof (rule lawfulI)
  let ?in = "\<lambda>s. s\<lparr>ls_loop_string_bindings := (ls_loop_string_bindings s)(name \<mapsto> key)\<rparr>"
  fix s :: lowering_state assume "A \<subseteq> {..<ls_temp_index s}" "L \<subseteq> {..<ls_label_index s}"
  then have "R A L (?in s) (snd (m (?in s)))" by (intro lawful_state [OF assms]) simp_all
  from loop_binding [OF this] show "R A L s (snd (with_loop_binding name key m s))"
    by (auto simp: with_loop_binding_def split: prod.split)
next
  let ?in = "\<lambda>s. s\<lparr>ls_loop_string_bindings := (ls_loop_string_bindings s)(name \<mapsto> key)\<rparr>"
  fix s :: lowering_state and e
  assume "A \<subseteq> {..<ls_temp_index s}" "L \<subseteq> {..<ls_label_index s}" "fst (with_loop_binding name key m s) = Inl e"
  then show "E e"
    by (intro lawful_error [OF assms, of "?in s"]) (auto simp: with_loop_binding_def split: prod.splits)
qed

section \<open>Statements\<close>

lemma law_side_effect_expression [lawful_ops]: "law A L (lower_runtime_side_effect_expression e)"
  unfolding lower_runtime_side_effect_expression_def
  by (rule steps lawful_ops law_bind law_catch raises | simp)+

lemma law_assignment_statement [lawful_ops]: "law A L (lower_assignment_statement t op v)"
  unfolding lower_assignment_statement_def
  by (simp add: primitive_steps split del: if_split | rule steps lawful_ops law_bind raises law_modify note_strings)+

lemma law_assign_field_statement [lawful_ops]: "law A L (assign_field_statement i op v)"
  unfolding assign_field_statement_def define_call_def
  by (simp add: primitive_steps split del: if_split | rule steps lawful_ops law_bind raises)+

lemma law_assign_param_statement [lawful_ops]: "law A L (assign_param_statement n op v)"
  unfolding assign_param_statement_def by (rule steps lawful_ops law_bind raises | simp)+

lemma law_assign_array_statement [lawful_ops]: "law A L (assign_array_statement n is op v)"
  unfolding assign_array_statement_def by (rule steps lawful_ops law_bind raises | simp)+

lemma law_assign_numeric_slot_statement [lawful_ops]: "law A L (assign_numeric_slot_statement n op v)"
  unfolding assign_numeric_slot_statement_def
  by (simp split del: if_split | rule steps lawful_ops law_bind raises)+

lemma law_copy_scalar_statement [lawful_ops]: "law A L (copy_scalar_statement n i src)"
  unfolding copy_scalar_statement_def by (rule steps lawful_ops law_bind raises | simp)+

lemma law_assign_scalar_string_statement [lawful_ops]: "law A L (assign_scalar_string_statement n sn i v)"
  unfolding assign_scalar_string_statement_def by (rule steps lawful_ops law_bind raises | simp)+

lemma law_assign_scalar_statement [lawful_ops]: "law A L (assign_scalar_statement n op v)"
  unfolding assign_scalar_statement_def by (rule steps lawful_ops law_bind raises | simp)+

lemma law_runtime_assignment_statement [lawful_ops]: "law A L (lower_runtime_assignment_statement t op v)"
  unfolding lower_runtime_assignment_statement_def by (rule steps lawful_ops law_bind raises | simp)+

lemma law_delete_statement [lawful_ops]: "law A L (lower_runtime_delete_statement t)"
  unfolding lower_runtime_delete_statement_def by (rule steps lawful_ops law_bind raises | simp)+

section \<open>Control flow\<close>

lemma law_if_statement [lawful_ops]:
  assumes "\<And>A L. law A L m" "\<And>A L m'. el = Some m' \<Longrightarrow> law A L m'"
  shows "law A L (lower_if_statement c m el)"
  unfolding lower_if_statement_def
  by (cases el; simp only: straight_line option.case; (rule steps lawful_ops law_bind assms | simp)+)

lemma law_while_statement [lawful_ops]:
  assumes "\<And>A L. law A L m"
  shows "law A L (lower_while_statement c m)"
  unfolding lower_while_statement_def
  by (simp only: straight_line, (rule steps lawful_ops law_bind assms | simp)+)

lemma law_do_while_statement [lawful_ops]:
  assumes "\<And>A L. law A L m"
  shows "law A L (lower_do_while_statement m c)"
  unfolding lower_do_while_statement_def
  by (simp only: straight_line, (rule steps lawful_ops law_bind assms | simp)+)

lemma law_for_statement [lawful_ops]:
  assumes "\<And>A L. law A L m"
  shows "law A L (lower_runtime_for_statement i c u m)"
  unfolding lower_runtime_for_statement_def
  by (simp only: straight_line, (rule steps lawful_ops law_bind assms | simp)+)

lemma law_for_in_statement [lawful_ops]:
  assumes "\<And>A L. law A L m"
  shows "law A L (lower_runtime_for_in_statement n e m)"
  unfolding lower_runtime_for_in_statement_def define_call_def
  by (simp only: straight_line, (rule steps lawful_ops law_bind raises assms | simp)+)

section \<open>Output\<close>

lemma law_puts_string [lawful_ops]: "law A L (puts_string text)"
  unfolding puts_string_def by (rule steps lawful_ops law_bind law_modify note_output | simp)+

text \<open>The numeric format is only declared without a runtime.\<close>

lemma ensure_numeric_format_step:
  assumes "ls_runtime_param s = None"
  obtains x s' where "ensure_numeric_format s = (Inr x, s')" "R {} {} s s'"
    "ls_temp_index s' = ls_temp_index s" "ls_label_index s' = ls_label_index s"
proof (cases "ls_numeric_format_declared s")
  case True
  then have "ensure_numeric_format s = (Inr (''@.fmt.num'', length NUMERIC_FORMAT), s)"
    by (simp add: ensure_numeric_format_def retL_def bindL_getL)
  then show ?thesis using that unchanged by blast
next
  case False
  let ?t = "s\<lparr>ls_numeric_format_declared := True, ls_globals := ls_globals s @ [(''@.fmt.num'', NUMERIC_FORMAT)]\<rparr>"
  have "ensure_numeric_format s = (Inr (''@.fmt.num'', length NUMERIC_FORMAT), ?t)"
    using False by (simp add: ensure_numeric_format_def add_global_def modifyL_def retL_def bindL_def getL_def)
  then show ?thesis using that add_format [OF assms False] by simp
qed

lemma printf_number_lawful:
  assumes "ls_runtime_param s = None" and sub: "A \<subseteq> {..<ls_temp_index s}" "L \<subseteq> {..<ls_label_index s}"
  shows "R A L s (snd (printf_number e s)) \<and> (\<forall>x. fst (printf_number e s) = Inl x \<longrightarrow> E x)"
proof -
  define rest where "rest = (\<lambda>(format_name, format_length).
     bindL (gep ''fmtptr'' format_length format_name) (\<lambda>format_ptr.
     bindL (lw_plain lowering e) (\<lambda>numeric_value.
     bindL (call ''call'' ''i32'' ''@printf'' [(''ptr'', format_ptr), (''double'', numeric_value)])
       (\<lambda>_. retL ()))))"
  have rest: "law A L (rest x)" for x
    unfolding rest_def by (rule steps lawful_ops law_bind | simp)+
  let ?s = "s\<lparr>ls_uses_printf := True\<rparr>"
  obtain x s' where ensure: "ensure_numeric_format ?s = (Inr x, s')" "R {} {} ?s s'"
    "ls_temp_index s' = ls_temp_index s" "ls_label_index s' = ls_label_index s"
    by (rule ensure_numeric_format_step [of ?s]) (use assms(1) in auto)
  have run: "printf_number e s = rest x s'"
    by (simp add: printf_number_def rest_def [symmetric] bindL_def modifyL_def ensure)
  have first: "R {} {} s s'"
    using in_sequence [OF note_output(2) ensure(2)] by simp
  have "R A L s' (snd (rest x s')) \<and> (\<forall>y. fst (rest x s') = Inl y \<longrightarrow> E y)"
    using lawful_state [OF rest [of x], of s'] lawful_error [OF rest [of x], of s'] sub ensure(3,4) by auto
  then show ?thesis using in_sequence [OF first _ sub] run by simp
qed

lemma law_when_runtime:
  assumes "\<And>A L. law A L m"
    and "\<And>s A L. ls_runtime_param s = None \<Longrightarrow> A \<subseteq> {..<ls_temp_index s} \<Longrightarrow> L \<subseteq> {..<ls_label_index s}
           \<Longrightarrow> R A L s (snd (m' s)) \<and> (\<forall>x. fst (m' s) = Inl x \<longrightarrow> E x)"
  shows "law A L (bindL (getL ls_runtime_param) (\<lambda>rt. if rt \<noteq> None then m else m'))"
  using assms unfolding lawful_def by (simp add: bindL_getL)

lemma law_print_fragments [lawful_ops]:
  "law A L (lower_runtime_print_fragment e)" "law A L (write_output_fragment h e)"
  unfolding lower_runtime_print_fragment_def write_output_fragment_def
  by (rule steps lawful_ops law_bind | simp)+

lemma law_print_arguments [lawful_ops]:
  assumes "\<And>A L. law A L sep" "\<And>x A L. law A L (f x)"
  shows "law A L (lower_print_arguments sep f first es)"
  by (induction es arbitrary: A L first) (simp_all add: law_ret law_bind assms)

lemma law_output_target [lawful_ops]: "law A L (lower_runtime_output_target r)"
  unfolding lower_runtime_output_target_def by (rule lawful_ops | simp)+

lemma law_redirected_print [lawful_ops]: "law A L (lower_redirected_print es r)"
  unfolding lower_redirected_print_def by (rule steps lawful_ops law_bind | simp)+

lemma law_print_statement [lawful_ops]: "law A L (lower_runtime_print_statement es r)"
  unfolding lower_runtime_print_statement_def by (rule steps lawful_ops law_bind | simp)+

lemma law_print_without_arguments:
  "law A L (bindL (getL ls_runtime_param) (\<lambda>rt.
     if rt \<noteq> None then lower_runtime_print_statement es r
     else case es of [e] \<Rightarrow> lower_print_expression e | _ \<Rightarrow> raiseL (RuntimeError msg)))"
proof (rule law_when_runtime)
  fix s :: lowering_state and A L
  assume rt: "ls_runtime_param s = None" and sub: "A \<subseteq> {..<ls_temp_index s}" "L \<subseteq> {..<ls_label_index s}"
  have puts: "R A L s (snd (puts_string t s)) \<and> (\<forall>x. fst (puts_string t s) = Inl x \<longrightarrow> E x)" for t
    using law_puts_string [of A L t] sub by (simp add: lawful_def)
  have "R A L s (snd (lower_print_expression e s)) \<and> (\<forall>x. fst (lower_print_expression e s) = Inl x \<longrightarrow> E x)" for e
    using puts printf_number_lawful [OF rt sub, of e]
    by (cases e) (simp_all add: lower_print_expression_def bindL_getL split: option.split)
  then show "R A L s (snd ((case es of [e] \<Rightarrow> lower_print_expression e | _ \<Rightarrow> raiseL (RuntimeError msg)) s))
      \<and> (\<forall>x. fst ((case es of [e] \<Rightarrow> lower_print_expression e | _ \<Rightarrow> raiseL (RuntimeError msg)) s) = Inl x \<longrightarrow> E x)"
    using raises(1) unchanged by (simp add: raiseL_def split: list.split)
qed (rule lawful_ops)

lemma law_printf_operands [lawful_ops]: "law A L (lower_printf_operands ops)"
proof (induction ops arbitrary: A L rule: lower_printf_operands.induct)
  case (2 specifier argument rest)
  show ?case by (simp add: primitive_steps split del: if_split | rule steps lawful_ops law_bind 2)+
qed (simp add: law_ret)

lemma law_literal_printf [lawful_ops]: "law A L (lower_literal_printf f es r)"
  unfolding lower_literal_printf_def
  by (simp add: primitive_steps split del: if_split | rule steps lawful_ops law_bind raises)+

lemma law_printf_arguments [lawful_ops]: "law A L (printf_arguments n ns ss i es)"
proof (induction es arbitrary: A L i)
  case (Cons e es)
  show ?case by (simp add: primitive_steps | rule steps lawful_ops law_bind Cons)+
qed (simp add: law_ret)

lemma law_dynamic_printf [lawful_ops]: "law A L (lower_dynamic_printf f es r)"
  unfolding lower_dynamic_printf_def array_alloca_def Let_def
  by (simp add: primitive_steps split del: if_split | rule steps lawful_ops law_bind raises)+

lemma law_printf_statement [lawful_ops]: "law A L (lower_runtime_printf_statement es r)"
  unfolding lower_runtime_printf_statement_def by (rule steps lawful_ops raises | simp)+

section \<open>Jumps\<close>

lemma law_return_statement [lawful_ops]: "law A L (lower_return_statement v)"
  unfolding lower_return_statement_def by (rule steps lawful_ops law_bind raises | simp)+

lemma law_exit_statement [lawful_ops]: "law A L (lower_exit_statement v)"
  unfolding lower_exit_statement_def by (rule steps lawful_ops law_bind raises law_pair | simp)+

lemma law_require_runtime [lawful_ops]:
  "(\<And>A L. law A L m) \<Longrightarrow> law A L (require_runtime what m)"
  unfolding require_runtime_def by (rule steps law_bind raises | simp)+

lemma law_phase_exit [lawful_ops]:
  "(\<And>A L. law A L m) \<Longrightarrow> law A L (lower_phase_exit what m)"
  unfolding lower_phase_exit_def by (rule steps law_bind lawful_ops raises law_pair | simp)+

lemma law_jump_to [lawful_ops]: "law A L (jump_to what target)"
  unfolding jump_to_def by (rule steps lawful_ops raises)+

section \<open>Statements and actions\<close>

lemma law_statement [lawful_ops]: "law A L (lower_statement st)"
  and law_statements [lawful_ops]: "law A L (lower_statements sts)"
proof (induct st and sts arbitrary: A L and A L rule: lower_statement_lower_statements.induct)
  case (6 c t el sp)
  then show ?case
    by (cases el) (auto intro!: lawful_ops)
next
  case (12 es sp r)
  then show ?case using law_print_without_arguments by simp
qed (simp; (rule steps lawful_ops law_bind | assumption)+)+

lemma law_until [lawful_ops]: "law A L (lower_until stops sts)"
  by (induction sts arbitrary: A L) (simp_all add: law_ret law_bind lawful_ops)

lemma law_restoring_action_exit [lawful_ops]:
  assumes "law A L m"
  shows "law A L (restoring_action_exit m)"
proof (rule lawfulI)
  fix s :: lowering_state assume "A \<subseteq> {..<ls_temp_index s}" "L \<subseteq> {..<ls_label_index s}"
  then have "R A L (s\<lparr>ls_action_exit_label := ls_action_exit_label s\<rparr>) (snd (m s))"
    using lawful_state [OF assms] by simp
  from action_exit [OF this] show "R A L s (snd (restoring_action_exit m s))"
    by (auto simp: restoring_action_exit_def split: prod.split)
next
  fix s :: lowering_state and e
  assume "A \<subseteq> {..<ls_temp_index s}" "L \<subseteq> {..<ls_label_index s}" "fst (restoring_action_exit m s) = Inl e"
  then show "E e"
    by (intro lawful_error [OF assms, of s]) (auto simp: restoring_action_exit_def split: prod.splits)
qed

lemma law_with_action_exit [lawful_ops]:
  assumes "law A L m"
  shows "law A L (restoring_action_exit (bindL (modifyL (\<lambda>s. s\<lparr>ls_action_exit_label := x\<rparr>)) (\<lambda>_. m)))"
proof (rule lawfulI)
  let ?in = "\<lambda>s. s\<lparr>ls_action_exit_label := x\<rparr>"
  fix s :: lowering_state assume "A \<subseteq> {..<ls_temp_index s}" "L \<subseteq> {..<ls_label_index s}"
  then have "R A L (?in s) (snd (m (?in s)))" by (intro lawful_state [OF assms]) simp_all
  from action_exit [OF this]
  show "R A L s (snd (restoring_action_exit (bindL (modifyL ?in) (\<lambda>_. m)) s))"
    by (auto simp: restoring_action_exit_def bindL_def modifyL_def split: prod.split)
next
  let ?in = "\<lambda>s. s\<lparr>ls_action_exit_label := x\<rparr>"
  fix s :: lowering_state and e
  assume "A \<subseteq> {..<ls_temp_index s}" "L \<subseteq> {..<ls_label_index s}"
    "fst (restoring_action_exit (bindL (modifyL ?in) (\<lambda>_. m)) s) = Inl e"
  then show "E e"
    by (intro lawful_error [OF assms, of "?in s"])
      (auto simp: restoring_action_exit_def bindL_def modifyL_def split: prod.splits)
qed

lemma law_action [lawful_ops]: "law A L (lower_action action)"
  unfolding lower_action_def
  by (simp only: straight_line, (rule law_with_action_exit steps lawful_ops law_bind | simp split del: if_split)+)

lemma law_action_or_default [lawful_ops]: "law A L (lower_runtime_action_or_default action)"
  unfolding lower_runtime_action_or_default_def by (rule steps lawful_ops law_bind | simp)+

lemma law_store_range_state [lawful_ops]:
  assumes "prefix_ok p" "prefix_ok q"
  shows "law A L (store_range_state p q slot m)"
  unfolding store_range_state_def
  by (simp only: straight_line, (rule steps lawful_ops law_bind | use assms in simp)+)

lemma law_range_record_item [lawful_ops]: "law A L (lower_runtime_range_record_item l r action name)"
  by (cases l; cases r; simp only: lower_runtime_range_record_item_def straight_line prod.case pattern.case;
      (rule steps lawful_ops law_bind raises | simp)+)

lemma law_record_item [lawful_ops]: "law A L (lower_runtime_record_item pat action name)"
  by (cases pat; (cases "the pat")?)
    (simp_all add: lower_runtime_record_item_def primitive_steps;
     (simp | rule steps lawful_ops law_bind raises)+)+

end

end
