(* ===== verification/Lowering_Invariants.thy ===== *)
theory Lowering_Invariants
  imports Statement_Contract "HOL-Library.Multiset"
begin

text \<open>
  Three relations that satisfy the contract, and with it hold for every lowering function: the lines
  are appended and define each name once, string constants are numbered in order, and the context of
  a statement is restored.
\<close>

section \<open>The exceptions of the backend\<close>

definition backend_error :: "exn \<Rightarrow> bool" where
  "backend_error e \<longleftrightarrow>
     (case e of
        RuntimeError _ \<Rightarrow> True
      | AssertionError _ \<Rightarrow> True
      | UnboundLocalError _ \<Rightarrow> True
      | OverflowError _ \<Rightarrow> True
      | _ \<Rightarrow> False)"

lemma backend_error_simps [simp]:
  "backend_error (RuntimeError m)" "backend_error (AssertionError m)" "backend_error (UnboundLocalError m)"
  "backend_error (OverflowError m)"
  by (simp_all add: backend_error_def)

section \<open>Names\<close>

text \<open>Names with different numbers in \<open>N\<close>.\<close>

definition numbered :: "(string \<Rightarrow> bool) \<Rightarrow> (string \<Rightarrow> nat \<Rightarrow> string) \<Rightarrow> nat set \<Rightarrow> string list \<Rightarrow> bool" where
  "numbered ok name N xs \<longleftrightarrow>
     distinct (map name_number xs) \<and> (\<forall>x\<in>set xs. \<exists>p n. x = name p n \<and> ok p \<and> n \<in> N \<and> name_number x = n)"

lemma numbered_Nil [simp]: "numbered ok name N []"
  by (simp add: numbered_def)

lemma numbered_numbers: "numbered ok name N xs \<Longrightarrow> name_number ` set xs \<subseteq> N"
  by (auto simp: numbered_def)

lemma numbered_mono: "numbered ok name N xs \<Longrightarrow> N \<subseteq> M \<Longrightarrow> numbered ok name M xs"
  unfolding numbered_def by blast

lemma numbered_append:
  assumes "numbered ok name N xs" "numbered ok name M ys" "N \<inter> M = {}"
  shows "numbered ok name (N \<union> M) (xs @ ys)"
  using assms numbered_numbers [OF assms(1)] numbered_numbers [OF assms(2)]
  unfolding numbered_def by (auto simp: image_subset_iff)

lemma numbered_mset: "mset xs = mset ys \<Longrightarrow> numbered ok name N xs = numbered ok name N ys"
  unfolding numbered_def by (metis mset_eq_imp_distinct_iff mset_eq_setD mset_map)

lemma numbered_distinct: "numbered ok name N xs \<Longrightarrow> distinct xs"
  by (simp add: numbered_def distinct_map)

text \<open>The lines that a computation has appended.\<close>

definition appended :: "lowering_state \<Rightarrow> lowering_state \<Rightarrow> line list \<Rightarrow> line list \<Rightarrow> line list \<Rightarrow> bool" where
  "appended s s' al en il \<longleftrightarrow>
     ls_allocas s' = ls_allocas s @ al \<and> ls_entry_instructions s' = ls_entry_instructions s @ en
     \<and> ls_instructions s' = ls_instructions s @ il"

definition counters_grow :: "lowering_state \<Rightarrow> lowering_state \<Rightarrow> bool" where
  "counters_grow s s' \<longleftrightarrow> ls_temp_index s \<le> ls_temp_index s' \<and> ls_label_index s \<le> ls_label_index s'"

definition names_once :: contract where
  "names_once A L s s' \<longleftrightarrow>
     counters_grow s s'
     \<and> (\<exists>al en il. appended s s' al en il
          \<and> numbered prefix_ok temp_name (A \<union> {ls_temp_index s..<ls_temp_index s'}) (defined_names (al @ il))
          \<and> defined_names en = [] \<and> defined_labels (al @ en) = []
          \<and> numbered (\<lambda>_. True) label_name (L \<union> {ls_label_index s..<ls_label_index s'}) (defined_labels il))"

lemma names_onceI:
  assumes "counters_grow s s'" "appended s s' al en il"
    "numbered prefix_ok temp_name (A \<union> {ls_temp_index s..<ls_temp_index s'}) (defined_names (al @ il))"
    "defined_names en = []" "defined_labels (al @ en) = []"
    "numbered (\<lambda>_. True) label_name (L \<union> {ls_label_index s..<ls_label_index s'}) (defined_labels il)"
  shows "names_once A L s s'"
  using assms unfolding names_once_def by blast

lemma names_onceE:
  assumes "names_once A L s s'"
  obtains al en il where "counters_grow s s'" "appended s s' al en il"
    "numbered prefix_ok temp_name (A \<union> {ls_temp_index s..<ls_temp_index s'}) (defined_names (al @ il))"
    "defined_names en = []" "defined_labels (al @ en) = []"
    "numbered (\<lambda>_. True) label_name (L \<union> {ls_label_index s..<ls_label_index s'}) (defined_labels il)"
  using assms unfolding names_once_def by blast

lemma appended_refl [simp]: "appended s s [] [] []"
  by (simp add: appended_def)

lemma counters_grow_refl [simp]: "counters_grow s s"
  by (simp add: counters_grow_def)

lemma names_once_sequence:
  assumes first: "names_once {} {} s s'" and second: "names_once A L s' s''"
    and sub: "A \<subseteq> {..<ls_temp_index s}" "L \<subseteq> {..<ls_label_index s}"
  shows "names_once A L s s''"
proof -
  obtain al en il where 1: "counters_grow s s'" "appended s s' al en il"
    "numbered prefix_ok temp_name {ls_temp_index s..<ls_temp_index s'} (defined_names (al @ il))"
    "defined_names en = []" "defined_labels (al @ en) = []"
    "numbered (\<lambda>_. True) label_name {ls_label_index s..<ls_label_index s'} (defined_labels il)"
    using first by (auto elim: names_onceE)
  obtain al' en' il' where 2: "counters_grow s' s''" "appended s' s'' al' en' il'"
    "numbered prefix_ok temp_name (A \<union> {ls_temp_index s'..<ls_temp_index s''}) (defined_names (al' @ il'))"
    "defined_names en' = []" "defined_labels (al' @ en') = []"
    "numbered (\<lambda>_. True) label_name (L \<union> {ls_label_index s'..<ls_label_index s''}) (defined_labels il')"
    using second by (auto elim: names_onceE)
  show ?thesis
  proof (rule names_onceI)
    show "counters_grow s s''" using 1(1) 2(1) by (simp add: counters_grow_def)
    show "appended s s'' (al @ al') (en @ en') (il @ il')" using 1(2) 2(2) by (simp add: appended_def)
    have "numbered prefix_ok temp_name ({ls_temp_index s..<ls_temp_index s'} \<union> (A \<union> {ls_temp_index s'..<ls_temp_index s''}))
            (defined_names (al @ il) @ defined_names (al' @ il'))"
      by (rule numbered_append [OF 1(3) 2(3)]) (use sub in auto)
    then have "numbered prefix_ok temp_name ({ls_temp_index s..<ls_temp_index s'} \<union> (A \<union> {ls_temp_index s'..<ls_temp_index s''}))
            (defined_names ((al @ al') @ il @ il'))"
      by (rule numbered_mset [THEN iffD1, rotated]) simp
    then show "numbered prefix_ok temp_name (A \<union> {ls_temp_index s..<ls_temp_index s''}) (defined_names ((al @ al') @ il @ il'))"
      by (rule numbered_mono) (use 1(1) 2(1) in \<open>auto simp: counters_grow_def\<close>)
    have "numbered (\<lambda>_. True) label_name ({ls_label_index s..<ls_label_index s'} \<union> (L \<union> {ls_label_index s'..<ls_label_index s''}))
            (defined_labels il @ defined_labels il')"
      by (rule numbered_append [OF 1(6) 2(6)]) (use sub in auto)
    then show "numbered (\<lambda>_. True) label_name (L \<union> {ls_label_index s..<ls_label_index s''}) (defined_labels (il @ il'))"
      unfolding defined_simps(6) by (rule numbered_mono) (use 1(1) 2(1) in \<open>auto simp: counters_grow_def\<close>)
  qed (use 1 2 in simp_all)
qed

text \<open>Changes of fields that the relation does not mention.\<close>

lemma names_once_fields:
  assumes "names_once A L s s'"
    and "ls_temp_index t = ls_temp_index s" "ls_label_index t = ls_label_index s" "ls_allocas t = ls_allocas s"
      "ls_entry_instructions t = ls_entry_instructions s" "ls_instructions t = ls_instructions s"
    and "ls_temp_index t' = ls_temp_index s'" "ls_label_index t' = ls_label_index s'" "ls_allocas t' = ls_allocas s'"
      "ls_entry_instructions t' = ls_entry_instructions s'" "ls_instructions t' = ls_instructions s'"
  shows "names_once A L t t'"
  using assms by (simp add: names_once_def appended_def counters_grow_def)

lemma names_once_unchanged: "names_once A L s s"
  by (rule names_onceI [where al = "[]" and en = "[]" and il = "[]"]) simp_all

text \<open>One more definition at the front.\<close>

lemma names_once_define:
  assumes rest: "names_once (A - {n}) L t s'"
    and n: "n \<in> A" "A \<subseteq> {..<ls_temp_index s}" "prefix_ok p"
    and t: "appended s t al [] il" "ls_temp_index t = ls_temp_index s" "ls_label_index t = ls_label_index s"
    and new: "defined_names (al @ il) = [temp_name p n]" "defined_labels (al @ il) = []"
  shows "names_once A L s s'"
proof -
  obtain al' en' il' where r: "counters_grow t s'" "appended t s' al' en' il'"
    "numbered prefix_ok temp_name (A - {n} \<union> {ls_temp_index s..<ls_temp_index s'}) (defined_names (al' @ il'))"
    "defined_names en' = []" "defined_labels (al' @ en') = []"
    "numbered (\<lambda>_. True) label_name (L \<union> {ls_label_index s..<ls_label_index s'}) (defined_labels il')"
    using rest t(2,3) by (auto elim: names_onceE)
  show ?thesis
  proof (rule names_onceI)
    show "counters_grow s s'" using r(1) t(2,3) by (simp add: counters_grow_def)
    show "appended s s' (al @ al') en' (il @ il')" using t(1) r(2) by (simp add: appended_def)
    have "numbered prefix_ok temp_name {n} (defined_names (al @ il))"
      unfolding new(1) using n(3) by (auto simp: numbered_def)
    then have "numbered prefix_ok temp_name ({n} \<union> (A - {n} \<union> {ls_temp_index s..<ls_temp_index s'}))
        (defined_names (al @ il) @ defined_names (al' @ il'))"
      by (rule numbered_append [OF _ r(3)]) (use n(1,2) in auto)
    then have "numbered prefix_ok temp_name ({n} \<union> (A - {n} \<union> {ls_temp_index s..<ls_temp_index s'}))
        (defined_names ((al @ al') @ il @ il'))"
      by (rule numbered_mset [THEN iffD1, rotated]) simp
    then show "numbered prefix_ok temp_name (A \<union> {ls_temp_index s..<ls_temp_index s'}) (defined_names ((al @ al') @ il @ il'))"
      by (rule numbered_mono) (use n(1) in auto)
  qed (use r new in auto)
qed

lemma names_once_mark:
  assumes rest: "names_once A (L - {k}) (s\<lparr>ls_instructions := ls_instructions s @ [Lab (label_name p k)]\<rparr>) s'"
    and k: "k \<in> L" "L \<subseteq> {..<ls_label_index s}"
  shows "names_once A L s s'"
proof -
  obtain al en il where r: "counters_grow s s'"
    "appended (s\<lparr>ls_instructions := ls_instructions s @ [Lab (label_name p k)]\<rparr>) s' al en il"
    "numbered prefix_ok temp_name (A \<union> {ls_temp_index s..<ls_temp_index s'}) (defined_names (al @ il))"
    "defined_names en = []" "defined_labels (al @ en) = []"
    "numbered (\<lambda>_. True) label_name (L - {k} \<union> {ls_label_index s..<ls_label_index s'}) (defined_labels il)"
    using rest by (auto elim!: names_onceE simp: counters_grow_def)
  show ?thesis
  proof (rule names_onceI)
    show "appended s s' al en (Lab (label_name p k) # il)" using r(2) by (simp add: appended_def)
    show "numbered prefix_ok temp_name (A \<union> {ls_temp_index s..<ls_temp_index s'}) (defined_names (al @ Lab (label_name p k) # il))"
      using r(3) by simp
    have "numbered (\<lambda>_. True) label_name {k} [label_name p k]"
      by (auto simp: numbered_def)
    then have "numbered (\<lambda>_. True) label_name ({k} \<union> (L - {k} \<union> {ls_label_index s..<ls_label_index s'}))
        ([label_name p k] @ defined_labels il)"
      by (rule numbered_append [OF _ r(6)]) (use k in auto)
    then show "numbered (\<lambda>_. True) label_name (L \<union> {ls_label_index s..<ls_label_index s'})
        (defined_labels (Lab (label_name p k) # il))"
      unfolding defined_simps by simp (rule numbered_mono, assumption, use k(1) in auto)
  qed (use r in simp_all)
qed

interpretation once: statement_contract names_once backend_error
proof unfold_locales
  fix A L and s s' :: lowering_state
  show "names_once A L s s" by (rule names_once_unchanged)
  show "ls_temp_index s \<le> ls_temp_index s'" "ls_label_index s \<le> ls_label_index s'" if "names_once A L s s'"
    using that by (auto elim!: names_onceE simp: counters_grow_def)
  show "names_once A L s s''" if "names_once {} {} s s'" "names_once A L s' s''"
    "A \<subseteq> {..<ls_temp_index s}" "L \<subseteq> {..<ls_label_index s}" for s''
    using that by (rule names_once_sequence)
  show "names_once A L s s'"
    if "names_once (insert (ls_temp_index s) A) L (s\<lparr>ls_temp_index := ls_temp_index s + 1\<rparr>) s'" "A \<subseteq> {..<ls_temp_index s}"
  proof -
    have "insert (ls_temp_index s) A \<union> {ls_temp_index s + 1..<ls_temp_index s'} = A \<union> {ls_temp_index s..<ls_temp_index s'}"
      if "Suc (ls_temp_index s) \<le> ls_temp_index s'"
      using that by auto
    then show ?thesis
      using that by (auto elim!: names_onceE intro!: names_onceI simp: appended_def counters_grow_def)
  qed
  show "names_once A L s s'"
    if "names_once A (insert (ls_label_index s) L) (s\<lparr>ls_label_index := ls_label_index s + 1\<rparr>) s'" "L \<subseteq> {..<ls_label_index s}"
  proof -
    have "insert (ls_label_index s) L \<union> {ls_label_index s + 1..<ls_label_index s'} = L \<union> {ls_label_index s..<ls_label_index s'}"
      if "Suc (ls_label_index s) \<le> ls_label_index s'"
      using that by auto
    then show ?thesis
      using that by (auto elim!: names_onceE intro!: names_onceI simp: appended_def counters_grow_def)
  qed
  show "names_once A L s s'"
    if "n \<in> A" "A \<subseteq> {..<ls_temp_index s}" "prefix_ok p" "line_def l = [temp_name p n]" "line_label l = []"
      "names_once (A - {n}) L (s\<lparr>ls_instructions := ls_instructions s @ [l]\<rparr>) s'" for n p l
    by (rule names_once_define [OF that(6,1,2,3), where al = "[]" and il = "[l]"])
      (use that in \<open>simp_all add: appended_def\<close>)
  show "names_once A L s s'"
    if "n \<in> A" "A \<subseteq> {..<ls_temp_index s}" "prefix_ok p"
      "names_once (A - {n}) L (s\<lparr>ls_allocas := ls_allocas s @ [Def (temp_name p n) rhs]\<rparr>) s'" for n p rhs
    by (rule names_once_define [OF that(4,1,2,3), where al = "[Def (temp_name p n) rhs]" and il = "[]"])
      (use that in \<open>simp_all add: appended_def\<close>)
  show "names_once A L s s'"
    if "k \<in> L" "L \<subseteq> {..<ls_label_index s}"
      "names_once A (L - {k}) (s\<lparr>ls_instructions := ls_instructions s @ [Lab (label_name p k)]\<rparr>) s'" for k p
    by (rule names_once_mark [OF that(3,1,2)])
  show "names_once {} {} s (s\<lparr>ls_instructions := ls_instructions s @ [l]\<rparr>)" if "line_def l = []" "line_label l = []" for l
    by (rule names_onceI [where al = "[]" and en = "[]" and il = "[l]"])
      (use that in \<open>simp_all add: appended_def counters_grow_def\<close>)
  show "names_once {} {} s (s\<lparr>ls_entry_instructions := ls_entry_instructions s @ [Eff ps]\<rparr>)" for ps
    by (rule names_onceI [where al = "[]" and en = "[Eff ps]" and il = "[]"])
      (simp_all add: appended_def counters_grow_def)
qed (simp_all add: names_once_unchanged [THEN names_once_fields] names_once_fields)

section \<open>String constants\<close>

definition constants_in_order :: contract where
  "constants_in_order A L s s' \<longleftrightarrow>
     counters_grow s s' \<and> ls_string_index s \<le> ls_string_index s' \<and> ls_runtime_param s' = ls_runtime_param s
     \<and> (ls_runtime_param s \<noteq> None \<longrightarrow>
          (\<exists>gs. ls_globals s' = ls_globals s @ gs
              \<and> map fst gs = map string_global [ls_string_index s..<ls_string_index s']))"

lemma constants_in_order_sequence:
  assumes "constants_in_order A L s s'" "constants_in_order A' L' s' s''"
  shows "constants_in_order A' L' s s''"
proof -
  have "map string_global [ls_string_index s..<ls_string_index s'] @ map string_global [ls_string_index s'..<ls_string_index s'']
      = map string_global [ls_string_index s..<ls_string_index s'']"
    using assms unfolding constants_in_order_def
    by (metis le_add_diff_inverse map_append upt_add_eq_append)
  then show ?thesis
    using assms unfolding constants_in_order_def counters_grow_def
    by (auto simp: map_append)
qed

interpretation constants: statement_contract constants_in_order backend_error
proof unfold_locales
  fix A L and s s' s'' :: lowering_state
  show "constants_in_order A L s s''" if "constants_in_order {} {} s s'" "constants_in_order A L s' s''"
    using that by (rule constants_in_order_sequence)
  show "constants_in_order {} {} s (s\<lparr>ls_string_index := ls_string_index s + 1,
          ls_globals := ls_globals s @ [(string_global (ls_string_index s), data)]\<rparr>)" for data
    by (simp add: constants_in_order_def counters_grow_def)
  show "ls_temp_index s \<le> ls_temp_index s'" "ls_label_index s \<le> ls_label_index s'" if "constants_in_order A L s s'"
    using that by (auto simp: constants_in_order_def counters_grow_def)
  show "constants_in_order {} {} s (s\<lparr>ls_numeric_format_declared := True,
          ls_globals := ls_globals s @ [(''@.fmt.num'', data)]\<rparr>)" if "ls_runtime_param s = None" for data
    using that by (simp add: constants_in_order_def counters_grow_def)
qed (auto simp: constants_in_order_def counters_grow_def)

section \<open>The context\<close>

text \<open>The state without the fields that a statement writes for good.\<close>

definition context_of :: "lowering_state \<Rightarrow> lowering_state" where
  "context_of s =
     s\<lparr>ls_globals := [], ls_allocas := [], ls_entry_instructions := [], ls_instructions := [],
       ls_temp_index := 0, ls_label_index := 0, ls_string_index := 0, ls_variable_slots := Map.empty,
       ls_uses_puts := False, ls_uses_printf := False, ls_numeric_format_declared := False,
       ls_initial_string_values := Map.empty\<rparr>"

lemma context_of_eq:
  "context_of s' = context_of s \<longleftrightarrow>
     ls_runtime_param s' = ls_runtime_param s \<and> ls_state_param s' = ls_state_param s
     \<and> ls_variable_indexes s' = ls_variable_indexes s \<and> ls_slot_allocation s' = ls_slot_allocation s
     \<and> ls_type_info s' = ls_type_info s \<and> ls_action_exit_label s' = ls_action_exit_label s
     \<and> ls_phase_exit_label s' = ls_phase_exit_label s \<and> ls_break_label s' = ls_break_label s
     \<and> ls_continue_label s' = ls_continue_label s \<and> ls_array_names s' = ls_array_names s
     \<and> ls_loop_string_bindings s' = ls_loop_string_bindings s \<and> ls_function_defs s' = ls_function_defs s
     \<and> ls_return_slot s' = ls_return_slot s \<and> ls_return_string_slot s' = ls_return_string_slot s
     \<and> ls_return_label s' = ls_return_label s \<and> ls_local_names s' = ls_local_names s
     \<and> ls_function_param_strings s' = ls_function_param_strings s
     \<and> ls_local_numeric_names s' = ls_local_numeric_names s"
  by (cases s; cases s') (simp add: context_of_def)

definition keeps_context :: contract where
  "keeps_context A L s s' \<longleftrightarrow> counters_grow s s' \<and> context_of s' = context_of s"

interpretation frame: statement_contract keeps_context backend_error
  by unfold_locales (auto simp: keeps_context_def counters_grow_def context_of_eq)

end
