(* ===== verification/Lowered_Program.thy ===== *)
theory Lowered_Program
  imports Lowering_Invariants
begin

text \<open>
  What the invariants of the lowering give for the functions and the globals of a whole module.
\<close>

section \<open>Distinct names\<close>

lemma temp_name_eq [simp]: "temp_name p n = temp_name q m \<longleftrightarrow> p = q \<and> n = m"
proof
  assume eq: "temp_name p n = temp_name q m"
  then have "n = m" by (metis name_number_simps(1))
  with eq show "p = q \<and> n = m" by (simp add: temp_name_def)
qed simp

lemma temp_name_ends_in_digit: "is_ascii_digit (last (temp_name p n))"
proof -
  have "nat_to_string n \<noteq> []" by (rule nat_to_string_not_Nil)
  then show ?thesis
    using set_nat_to_string [of "last (nat_to_string n)" n] by (simp add: temp_name_def)
qed

lemma fixed_name_not_temp: "\<not> is_ascii_digit (last x) \<Longrightarrow> x \<noteq> temp_name p n"
  using temp_name_ends_in_digit by blast

lemma label_name_not_entry: "label_name p n \<noteq> ''entry''"
proof -
  have "CHR ''.'' \<in> set (label_name p n)" by (simp add: label_name_def)
  moreover have "CHR ''.'' \<notin> set ''entry''" by simp
  ultimately show ?thesis by metis
qed

section \<open>Well-named functions\<close>

text \<open>The parameters, the values and the labels of a function of the module have different names.\<close>

definition well_named :: "string list \<Rightarrow> line list \<Rightarrow> bool" where
  "well_named params ls \<longleftrightarrow> distinct (params @ defined_names ls) \<and> distinct (''entry'' # defined_labels ls)"

definition body_lines :: "lowering_state \<Rightarrow> line list" where
  "body_lines s = ls_allocas s @ ls_entry_instructions s @ ls_instructions s"

lemma function_lines_body: "function_lines s = map render_line (body_lines s)"
  by (simp add: function_lines_def body_lines_def)

lemma well_named_once:
  assumes run: "names_once {} {} s s'"
    and start: "defined_names (body_lines s) = xs" "defined_labels (body_lines s) = []"
    and params: "distinct (params @ xs)" "\<And>x p n. x \<in> set (params @ xs) \<Longrightarrow> prefix_ok p \<Longrightarrow> x \<noteq> temp_name p n"
  shows "distinct (params @ defined_names (body_lines s'))" "distinct (''entry'' # defined_labels (body_lines s'))"
    "\<And>x. x \<in> set (defined_names (body_lines s')) \<Longrightarrow> x \<in> set xs \<or> (\<exists>p n. x = temp_name p n \<and> prefix_ok p)"
    "\<And>l. l \<in> set (defined_labels (body_lines s')) \<Longrightarrow> ls_label_index s \<le> name_number l"
proof -
  obtain al en il where r: "appended s s' al en il"
    "numbered prefix_ok temp_name {ls_temp_index s..<ls_temp_index s'} (defined_names (al @ il))"
    "defined_names en = []" "defined_labels (al @ en) = []"
    "numbered (\<lambda>_. True) label_name {ls_label_index s..<ls_label_index s'} (defined_labels il)"
    using run by (auto elim: names_onceE)
  have names: "mset (defined_names (body_lines s')) = mset (xs @ defined_names (al @ il))"
    using r(1,3) start(1) by (auto simp: appended_def body_lines_def ac_simps)
  have new: "\<exists>p n. x = temp_name p n \<and> prefix_ok p" if "x \<in> set (defined_names (al @ il))" for x
    using r(2) that unfolding numbered_def by blast
  have "distinct (params @ xs @ defined_names (al @ il))"
    using params new numbered_distinct [OF r(2)] by (fastforce simp: distinct_append)
  then show "distinct (params @ defined_names (body_lines s'))"
    using names by (metis mset_append mset_eq_imp_distinct_iff)
  show "x \<in> set xs \<or> (\<exists>p n. x = temp_name p n \<and> prefix_ok p)" if "x \<in> set (defined_names (body_lines s'))" for x
    using that new mset_eq_setD [OF names] by auto
  have labels: "defined_labels (body_lines s') = defined_labels il"
    using r(1,4) start(2) by (auto simp: appended_def body_lines_def)
  show "distinct (''entry'' # defined_labels (body_lines s'))"
  proof -
    have "''entry'' \<notin> set (defined_labels il)"
      using r(5) label_name_not_entry unfolding numbered_def by metis
    then show ?thesis unfolding labels using numbered_distinct [OF r(5)] by simp
  qed
  show "ls_label_index s \<le> name_number l" if "l \<in> set (defined_labels (body_lines s'))" for l
    using that r(5) unfolding labels by (auto simp: numbered_def)
qed

section \<open>The phases\<close>

text \<open>A result, or one of the exceptions of the backend.\<close>

definition succeeds_with :: "('a \<Rightarrow> bool) \<Rightarrow> exn + 'a \<Rightarrow> bool" where
  "succeeds_with P r = (case r of Inl e \<Rightarrow> backend_error e | Inr x \<Rightarrow> P x)"

lemma succeeds_with_simps [simp]:
  "succeeds_with P (Inl e) = backend_error e" "succeeds_with P (Inr x) = P x"
  by (simp_all add: succeeds_with_def)

lemma succeeds_with_bind:
  "succeeds_with P m \<Longrightarrow> (\<And>x. P x \<Longrightarrow> succeeds_with Q (f x)) \<Longrightarrow> succeeds_with Q (bindE m f)"
  by (cases m) simp_all

lemma succeeds_with_mono: "succeeds_with P m \<Longrightarrow> (\<And>x. P x \<Longrightarrow> Q x) \<Longrightarrow> succeeds_with Q m"
  by (cases m) simp_all

lemma run_low_succeeds:
  assumes "\<And>A L. lawful R backend_error A L m"
  shows "succeeds_with (R {} {} s) (run_low m s)"
proof (cases "m s")
  case (Pair x s')
  then show ?thesis
    using lawfulD [OF assms [of "{}" "{}"] _ _ Pair] by (auto simp: run_low_def split: sum.splits)
qed

lemma succeeds_with_conj: "succeeds_with P m \<Longrightarrow> succeeds_with Q m \<Longrightarrow> succeeds_with (\<lambda>x. P x \<and> Q x) m"
  by (cases m) simp_all

definition phase_lines :: "lowering_state \<Rightarrow> line list" where
  "phase_lines s =
     (case ls_phase_exit_label s of None \<Rightarrow> body_lines s | Some l \<Rightarrow> body_lines s @ [Br l, Lab l])"

lemma fixed_params: "x \<in> set [''%rt'', ''%state''] \<Longrightarrow> x \<noteq> temp_name p n"
  by (rule fixed_name_not_temp) (auto simp: is_ascii_digit_def)

lemma module_state_start [simp]:
  "body_lines (phase_state mc k names) = []" "ls_label_index (phase_state mc k names) = 0"
  "ls_temp_index (phase_state mc k names) = 0"
  "body_lines (function_state mc k f) = []" "ls_label_index (function_state mc k f) = 0"
  "ls_temp_index (function_state mc k f) = 0"
  by (simp_all add: phase_state_def function_state_def module_state_def initial_state_def body_lines_def)

text \<open>The globals of a lowering that starts with the string index \<open>k\<close>.\<close>

definition constants_from :: "nat \<Rightarrow> lowering_state \<Rightarrow> bool" where
  "constants_from k s \<longleftrightarrow> k \<le> ls_string_index s \<and> map fst (ls_globals s) = map string_global [k..<ls_string_index s]"

definition phase_ok :: "nat \<Rightarrow> lowering_state \<Rightarrow> bool" where
  "phase_ok k s \<longleftrightarrow> well_named [''%rt'', ''%state''] (phase_lines s) \<and> constants_from k s"

lemma with_phase_exit_run:
  assumes once: "\<And>A L. lawful names_once backend_error A L m"
    and frame: "\<And>A L. lawful keeps_context backend_error A L m"
    and constants: "\<And>A L. lawful constants_in_order backend_error A L m"
  shows "succeeds_with (phase_ok k) (run_low (with_phase_exit m) (phase_state mc k names))"
proof -
  let ?l = "label_name ''phase.exit'' 0"
  define t where "t = (phase_state mc k names)\<lparr>ls_label_index := 1, ls_phase_exit_label := Some ?l\<rparr>"
  have run: "run_low (with_phase_exit m) (phase_state mc k names) = run_low m t"
    by (simp add: with_phase_exit_def run_low_def bindL_def next_label_def modifyL_def t_def)
  have "phase_ok k s"
    if "names_once {} {} t s \<and> keeps_context {} {} t s \<and> constants_in_order {} {} t s" for s
  proof -
    have label: "ls_phase_exit_label s = Some ?l"
      using that by (simp add: keeps_context_def context_of_eq t_def)
    have start: "defined_names (body_lines t) = []" "defined_labels (body_lines t) = []"
      by (simp_all add: t_def body_lines_def phase_state_def module_state_def initial_state_def)
    have params: "distinct ([''%rt'', ''%state''] @ [])" by simp
    note once = well_named_once [OF conjunct1 [OF that] start params, simplified append_Nil2, OF fixed_params]
    have "?l \<notin> set (defined_labels (body_lines s))"
      using once(4) [of ?l] by (auto simp: t_def)
    then have "well_named [''%rt'', ''%state''] (phase_lines s)"
      using once(1,2) label_name_not_entry [of "''phase.exit''" 0]
      by (auto simp: well_named_def phase_lines_def label)
    then show ?thesis
      using that by (auto simp: phase_ok_def constants_from_def constants_in_order_def t_def phase_state_def
          module_state_def initial_state_def)
  qed
  then show ?thesis
    unfolding run
    by (rule succeeds_with_mono [OF succeeds_with_conj [OF run_low_succeeds [OF once]
          succeeds_with_conj [OF run_low_succeeds [OF frame] run_low_succeeds [OF constants]]]])
qed

lemma phase_computations:
  "lawful names_once backend_error A L (each_low lower_action as)"
  "lawful keeps_context backend_error A L (each_low lower_action as)"
  "lawful constants_in_order backend_error A L (each_low lower_action as)"
  "lawful names_once backend_error A L (lower_record_items items)"
  "lawful keeps_context backend_error A L (lower_record_items items)"
  "lawful constants_in_order backend_error A L (lower_record_items items)"
  unfolding lower_record_items_def
  by (intro once.law_each once.law_action once.law_record_item frame.law_each frame.law_action
      frame.law_record_item constants.law_each constants.law_action constants.law_record_item)+

lemma phases_ok:
  "succeeds_with (\<lambda>(b, r, e). phase_ok k b \<and> phase_ok (ls_string_index b) r \<and> phase_ok (ls_string_index r) e)
     (lower_phases mc np residency k)"
  unfolding lower_phases_def names_for_phase_def
  by (simp, intro succeeds_with_bind [OF with_phase_exit_run] phase_computations) simp

text \<open>C22: The functions of the three phases, as rendered with their exit label, define every value and every
  label once, and no value has the name of a parameter; a phase that cannot be lowered raises one of
  the exceptions of the backend.\<close>

theorem phases_well_named:
  "succeeds_with (\<lambda>(begin_state, record_state, end_state).
     list_all (\<lambda>s. well_named [''%rt'', ''%state''] (phase_lines s)) [begin_state, record_state, end_state])
   (lower_phases mc np residency k)"
  by (rule succeeds_with_mono [OF phases_ok]) (auto simp: phase_ok_def)

section \<open>Functions\<close>

definition function_parameters :: "function_def \<Rightarrow> string list" where
  "function_parameters f =
     [''%rt'', ''%state''] @ map (\<lambda>i. ''%arg.'' @ nat_to_string i) [0..<length (fd_params f)]"

lemma arg_names:
  "''%arg.'' @ nat_to_string i = temp_name ''arg'' i" "arg_slot i = temp_name ''arg.slot'' i"
  by (simp_all add: temp_name_def arg_slot_def)

text \<open>The slots of the parameters come first and are not numbered by the counter.\<close>

lemma lower_params_run:
  "\<exists>s'. lower_params i ps s = (Inr (), s') \<and> context_of (s'\<lparr>ls_function_param_strings := Map.empty\<rparr>)
          = context_of (s\<lparr>ls_function_param_strings := Map.empty\<rparr>)
     \<and> ls_temp_index s' = ls_temp_index s \<and> ls_label_index s' = ls_label_index s
     \<and> ls_globals s' = ls_globals s \<and> ls_string_index s' = ls_string_index s
     \<and> (\<exists>il. appended s s' (map (\<lambda>j. Def (arg_slot j) [Txt ''alloca ptr'']) [i..<i + length ps]) [] il
           \<and> defined_names il = [] \<and> defined_labels il = [])"
proof (induction ps arbitrary: i s)
  case Nil then show ?case by (auto simp: retL_def intro!: exI [of _ "[]"])
next
  case (Cons p ps)
  let ?t = "s\<lparr>ls_allocas := ls_allocas s @ [Def (arg_slot i) [Txt ''alloca ptr'']],
    ls_instructions := ls_instructions s @ [Eff (store_text ''ptr'' (''%arg.'' @ nat_to_string i) (arg_slot i))],
    ls_function_param_strings := (ls_function_param_strings s)(p \<mapsto> arg_slot i)\<rparr>"
  have step: "lower_params i (p # ps) s = lower_params (Suc i) ps ?t"
    by (simp add: bindL_def emit_alloca_def store_def emit_def modifyL_def)
  obtain s' il where s': "lower_params (Suc i) ps ?t = (Inr (), s')"
    "context_of (s'\<lparr>ls_function_param_strings := Map.empty\<rparr>) = context_of (?t\<lparr>ls_function_param_strings := Map.empty\<rparr>)"
    "ls_temp_index s' = ls_temp_index s" "ls_label_index s' = ls_label_index s"
    "ls_globals s' = ls_globals s" "ls_string_index s' = ls_string_index s"
    "appended ?t s' (map (\<lambda>j. Def (arg_slot j) [Txt ''alloca ptr'']) [Suc i..<Suc i + length ps]) [] il"
    "defined_names il = []" "defined_labels il = []"
    using Cons [of "Suc i" ?t] by auto
  have "[i..<i + length (p # ps)] = i # [Suc i..<Suc i + length ps]"
    by (simp add: upt_conv_Cons del: upt_Suc)
  then show ?case
    unfolding step using s'
    by (intro exI [of _ s'] conjI exI [of _ "Eff (store_text ''ptr'' (''%arg.'' @ nat_to_string i) (arg_slot i)) # il"])
      (auto simp: appended_def context_of_eq)
qed

text \<open>The part of a function body between the parameters and the final load.\<close>

definition function_main :: "function_def \<Rightarrow> string low" where
  "function_main f =
     bindL (next_temp ''retval'') (\<lambda>return_slot.
     bindL (emit_alloca return_slot [Txt ''alloca ptr'']) (\<lambda>_.
     bindL (lower_runtime_constant_string []) (\<lambda>empty_value.
     bindL (store ''ptr'' empty_value return_slot) (\<lambda>_.
     bindL (modifyL (\<lambda>s. s\<lparr>ls_return_string_slot := Some return_slot\<rparr>)) (\<lambda>_.
     bindL (next_label ''return'') (\<lambda>return_label.
     bindL (modifyL (\<lambda>s. s\<lparr>ls_return_label := Some return_label\<rparr>)) (\<lambda>_.
     bindL (lower_until ends_function (ac_statements (fd_body f))) (\<lambda>terminated.
     bindL (if terminated then retL () else branch return_label) (\<lambda>_.
     bindL (mark_label return_label) (\<lambda>_.
       retL return_slot))))))))))"

definition function_end :: "string \<Rightarrow> unit low" where
  "function_end return_slot =
     bindL (emit (Def ''%retval.load'' (load_rhs ''ptr'' return_slot))) (\<lambda>_.
       emit (Ret [Txt ''ptr '', Opd ''%retval.load'']))"

lemma lower_function_body_parts:
  "lower_function_body f = bindL (lower_params 0 (fd_params f)) (\<lambda>_. bindL (function_main f) function_end)"
  unfolding lower_function_body_def function_main_def function_end_def by simp

lemma function_main_lawful:
  "lawful names_once backend_error A L (function_main f)"
  "lawful constants_in_order backend_error A L (function_main f)"
proof -
  have fields: "names_once {} {} s (s\<lparr>ls_return_string_slot := x\<rparr>)" "names_once {} {} s (s\<lparr>ls_return_label := x\<rparr>)"
    "constants_in_order {} {} s (s\<lparr>ls_return_string_slot := x\<rparr>)" "constants_in_order {} {} s (s\<lparr>ls_return_label := x\<rparr>)" for s x
    by (rule names_once_fields [OF names_once_unchanged]; simp)+ (simp_all add: constants_in_order_def counters_grow_def)
  show "lawful names_once backend_error A L (function_main f)"
    unfolding function_main_def
    by (simp add: primitive_steps split del: if_split
      | rule once.steps once.law_modify fields lawful_ops once.law_bind)+
  show "lawful constants_in_order backend_error A L (function_main f)"
    unfolding function_main_def
    by (simp add: primitive_steps split del: if_split
      | rule constants.steps constants.law_modify fields lawful_ops constants.law_bind)+
qed

definition function_ok :: "nat \<Rightarrow> function_def \<Rightarrow> lowering_state \<Rightarrow> bool" where
  "function_ok k f s \<longleftrightarrow> well_named (function_parameters f) (body_lines s) \<and> constants_from k s"

lemma function_body_ok:
  "succeeds_with (function_ok k f) (run_low (lower_function_body f) (function_state mc k f))"
proof -
  let ?s = "function_state mc k f"
  let ?slots = "map (\<lambda>j. Def (arg_slot j) [Txt ''alloca ptr'']) [0..<length (fd_params f)]"
  obtain t il where t: "lower_params 0 (fd_params f) ?s = (Inr (), t)"
    "ls_temp_index t = 0" "ls_label_index t = 0" "ls_globals t = []" "ls_string_index t = k" "ls_runtime_param t = Some ''%rt''"
    "appended ?s t ?slots [] il" "defined_names il = []" "defined_labels il = []"
    using lower_params_run [of 0 "fd_params f" ?s]
    by (auto simp: context_of_eq function_state_def module_state_def initial_state_def)
  have names: "defined_names (body_lines t) = map arg_slot [0..<length (fd_params f)]"
    "defined_labels (body_lines t) = []"
    using t(7-9) by (auto simp: body_lines_def appended_def function_state_def module_state_def initial_state_def
        defined_names_def defined_labels_def comp_def)
  have slot_names: "function_parameters f @ map arg_slot [0..<length (fd_params f)]
      = [''%rt'', ''%state''] @ map (temp_name ''arg'') [0..<length (fd_params f)]
        @ map (temp_name ''arg.slot'') [0..<length (fd_params f)]"
    by (simp add: function_parameters_def arg_slot_def temp_name_def)
  have params: "distinct (function_parameters f @ map arg_slot [0..<length (fd_params f)])"
    unfolding slot_names using fixed_params by (auto simp: distinct_map inj_on_def)
  have other: "x \<noteq> temp_name p n"
    if "x \<in> set (function_parameters f @ map arg_slot [0..<length (fd_params f)])" "prefix_ok p" for x p n
    using that fixed_params unfolding slot_names by auto
  obtain r s1 where main: "function_main f t = (r, s1)" by (cases "function_main f t")
  have once: "names_once {} {} t s1" and constants: "constants_in_order {} {} t s1"
    and err: "\<And>e. r = Inl e \<Longrightarrow> backend_error e"
    using lawfulD [OF function_main_lawful(1) _ _ main, of "{}" "{}"]
      lawfulD [OF function_main_lawful(2) _ _ main, of "{}" "{}"] by auto
  note facts = well_named_once [OF once names params other]
  show ?thesis
  proof (cases r)
    case (Inl e)
    then have "run_low (lower_function_body f) ?s = Inl e"
      by (simp add: lower_function_body_parts run_low_def bindL_def t(1) main)
    then show ?thesis using err Inl by simp
  next
    case (Inr slot)
    let ?tail = "[Def ''%retval.load'' (load_rhs ''ptr'' slot), Ret [Txt ''ptr '', Opd ''%retval.load'']]"
    let ?s2 = "s1\<lparr>ls_instructions := ls_instructions s1 @ ?tail\<rparr>"
    have run: "run_low (lower_function_body f) ?s = Inr ?s2"
      by (simp add: lower_function_body_parts run_low_def bindL_def t(1) main Inr function_end_def emit_def modifyL_def)
    have load: "''%retval.load'' \<noteq> temp_name p n" for p n
      by (rule fixed_name_not_temp) (simp add: is_ascii_digit_def)
    have "''%retval.load'' \<notin> set (function_parameters f @ map arg_slot [0..<length (fd_params f)])"
      unfolding slot_names using load by (auto simp: image_iff)
    then have "''%retval.load'' \<notin> set (function_parameters f @ defined_names (body_lines s1))"
      using facts(3) load by fastforce
    then have "well_named (function_parameters f) (body_lines ?s2)"
      using facts(1,2) by (simp add: well_named_def body_lines_def)
    moreover have "constants_from k ?s2"
      using constants t(4-6) by (auto simp: constants_in_order_def constants_from_def)
    ultimately show ?thesis by (simp add: run function_ok_def)
  qed
qed

lemma upt_join: "i \<le> j \<Longrightarrow> j \<le> k \<Longrightarrow> [i..<j] @ [j..<k] = [i..<k]"
  by (metis le_add_diff_inverse upt_add_eq_append)

lemma functions_ok:
  "succeeds_with (\<lambda>rs. map fst rs = fs \<and> list_all (\<lambda>(f, s). well_named (function_parameters f) (body_lines s)) rs
       \<and> k \<le> final_string_index k rs
       \<and> concat (map (\<lambda>(f, s). map fst (ls_globals s)) rs) = map string_global [k..<final_string_index k rs])
     (lower_functions mc k fs)"
proof (induction fs arbitrary: k)
  case Nil then show ?case by (simp add: final_string_index_def)
next
  case (Cons f fs)
  show ?case
    unfolding lower_functions.simps
  proof (rule succeeds_with_bind [OF function_body_ok])
    fix s assume s: "function_ok k f s"
    show "succeeds_with (\<lambda>rs. map fst rs = f # fs \<and> list_all (\<lambda>(f, s). well_named (function_parameters f) (body_lines s)) rs
       \<and> k \<le> final_string_index k rs
       \<and> concat (map (\<lambda>(f, s). map fst (ls_globals s)) rs) = map string_global [k..<final_string_index k rs])
     (bindE (lower_functions mc (ls_string_index s) fs) (\<lambda>rest. Inr ((f, s) # rest)))"
    proof (rule succeeds_with_bind [OF Cons], elim conjE)
      fix rest assume rest: "map fst rest = fs" "list_all (\<lambda>(f, s). well_named (function_parameters f) (body_lines s)) rest"
        "ls_string_index s \<le> final_string_index (ls_string_index s) rest"
        "concat (map (\<lambda>(f, s). map fst (ls_globals s)) rest)
           = map string_global [ls_string_index s..<final_string_index (ls_string_index s) rest]"
      have final: "final_string_index k ((f, s) # rest) = final_string_index (ls_string_index s) rest"
        by (simp add: final_string_index_def)
      have "[k..<ls_string_index s] @ [ls_string_index s..<final_string_index (ls_string_index s) rest]
          = [k..<final_string_index (ls_string_index s) rest]"
        using s rest(3) by (simp add: upt_join function_ok_def constants_from_def)
      then show "succeeds_with (\<lambda>rs. map fst rs = f # fs
         \<and> list_all (\<lambda>(f, s). well_named (function_parameters f) (body_lines s)) rs
         \<and> k \<le> final_string_index k rs
         \<and> concat (map (\<lambda>(f, s). map fst (ls_globals s)) rs) = map string_global [k..<final_string_index k rs])
       (Inr ((f, s) # rest))"
        using s rest final by (auto simp: function_ok_def constants_from_def simp flip: map_append)
    qed
  qed
qed

text \<open>C23: Every user-defined function of the module is lowered, in order, to a function whose values and
  labels have different names, also from its parameters and the slots of its arguments; a function
  that cannot be lowered raises one of the exceptions of the backend.\<close>

theorem functions_well_named:
  "succeeds_with (\<lambda>rs. map fst rs = fs \<and> list_all (\<lambda>(f, s). well_named (function_parameters f) (body_lines s)) rs)
     (lower_functions mc k fs)"
  by (rule succeeds_with_mono [OF functions_ok]) auto

section \<open>The constants of the module\<close>

text \<open>C24: The string constants of a module, those of the functions before those of the phases, are numbered
  from zero without a gap, so no two have the same name.\<close>

theorem module_constants_numbered:
  "succeeds_with (\<lambda>(rs, begin_state, record_state, end_state).
     concat (map (\<lambda>(f, s). map fst (ls_globals s)) rs)
     @ concat (map (\<lambda>s. map fst (ls_globals s)) [begin_state, record_state, end_state])
       = map string_global [0..<ls_string_index end_state])
   (bindE (lower_functions mc 0 fs) (\<lambda>rs.
    bindE (lower_phases mc np residency (final_string_index 0 rs)) (\<lambda>phases. Inr (rs, phases))))"
proof (rule succeeds_with_bind [OF functions_ok], rule succeeds_with_bind [OF phases_ok])
  fix rs and phases :: "lowering_state \<times> lowering_state \<times> lowering_state"
  obtain b r e where phases: "phases = (b, r, e)" by (cases phases)
  let ?k = "final_string_index 0 rs"
  assume fs: "map fst rs = fs \<and> list_all (\<lambda>(f, s). well_named (function_parameters f) (body_lines s)) rs
      \<and> 0 \<le> ?k \<and> concat (map (\<lambda>(f, s). map fst (ls_globals s)) rs) = map string_global [0..<?k]"
    and "case phases of (b, r, e) \<Rightarrow> phase_ok ?k b \<and> phase_ok (ls_string_index b) r \<and> phase_ok (ls_string_index r) e"
  then have ok: "constants_from ?k b" "constants_from (ls_string_index b) r" "constants_from (ls_string_index r) e"
    by (simp_all add: phases phase_ok_def)
  have joined: "[0..<?k] @ [?k..<ls_string_index b] @ [ls_string_index b..<ls_string_index r] @ [ls_string_index r..<ls_string_index e]
      = [0..<ls_string_index e]"
    using ok by (simp add: constants_from_def upt_join)
  show "succeeds_with (\<lambda>(rs, begin_state, record_state, end_state).
     concat (map (\<lambda>(f, s). map fst (ls_globals s)) rs)
     @ concat (map (\<lambda>s. map fst (ls_globals s)) [begin_state, record_state, end_state])
       = map string_global [0..<ls_string_index end_state]) (Inr (rs, phases))"
    using fs ok by (simp add: phases constants_from_def joined [symmetric])
qed

section \<open>Errors of the module\<close>

lemma module_succeeds:
  assumes "classify_local_numeric_scalar_residency prog (Some np) (Some types) = Inr residency"
  shows "succeeds_with (\<lambda>_. True) (lower_reusable_program_to_llvm_ir prog np types)"
proof -
  let ?mc = "module_context_of prog np types"
  have bodies: "succeeds_with (\<lambda>_. True) (lower_runtime_user_functions_to_ir ?mc)"
    unfolding lower_runtime_user_functions_to_ir_def
    by (rule succeeds_with_bind [OF functions_ok]) simp
  have render: "succeeds_with (\<lambda>_. True) (render_reusable_function name s)" for name s
    by (simp add: render_reusable_function_def split: option.split)
  show ?thesis
    unfolding lower_reusable_program_to_llvm_ir_def Let_def assms bindE_Inr
    by (rule succeeds_with_bind [OF bodies]; clarsimp)
      (rule succeeds_with_bind [OF phases_ok]; clarsimp; intro succeeds_with_bind [OF render]; simp)
qed

text \<open>C25: Lowering a program to a module raises only \<open>RuntimeError\<close>, \<open>AssertionError\<close>, \<open>UnboundLocalError\<close>
  and \<open>OverflowError\<close>, apart from the errors of the residency analysis that it runs first.\<close>

theorem module_errors:
  "case lower_reusable_program_to_llvm_ir prog np types of
     Inl e \<Rightarrow> backend_error e \<or> classify_local_numeric_scalar_residency prog (Some np) (Some types) = Inl e
   | Inr _ \<Rightarrow> True"
proof (cases "classify_local_numeric_scalar_residency prog (Some np) (Some types)")
  case (Inr residency)
  then show ?thesis using module_succeeds [OF Inr] by (simp add: succeeds_with_def split: sum.splits)
qed (simp add: lower_reusable_program_to_llvm_ir_def)

section \<open>The context of a statement\<close>

text \<open>C26: Whether it succeeds or raises, lowering a statement leaves everything as it was but the lines, the
  counters, the constants and the slots of the variables: the labels of the enclosing loop, the binding of
  its variable, the exit labels of action, phase and function, and the parameters.\<close>

theorem statement_keeps_context:
  "case lower_statement st s of
     (Inl e, s') \<Rightarrow> context_of s' = context_of s \<and> backend_error e
   | (Inr _, s') \<Rightarrow> context_of s' = context_of s"
proof (cases "lower_statement st s")
  case (Pair r s')
  then show ?thesis
    using lawfulD [OF frame.law_statement _ _ Pair, of "{}" "{}"]
    by (auto simp: keeps_context_def split: sum.split)
qed

end
