(* ===== verification/Ast_Format.thy ===== *)
theory Ast_Format
  imports Lower_Expr
begin

text \<open>
  \<^verbatim>\<open>src/quawk/ast_format.py\<close>: the text of a tree that \<open>quawk --parse\<close> prints, one line per node.
\<close>

section \<open>\<open>repr\<close> of a float\<close>

text \<open>The shortest decimal that reads back as the double; of those the one nearest to it.\<close>

definition decimal_double :: "int \<Rightarrow> int \<Rightarrow> py_float" where
  "decimal_double c k = (if k \<ge> 0 then float_of_ratio (c * 10 ^ nat k) 1 else float_of_ratio c (10 ^ nat (- k)))"

text \<open>The \<open>n\<close> digit decimals around \<open>num / den\<close>, which lies between \<open>10 ^ k\<close> and \<open>10 ^ (k + 1)\<close>.\<close>

definition decimals_near :: "int \<Rightarrow> int \<Rightarrow> int \<Rightarrow> nat \<Rightarrow> int list" where
  "decimals_near num den k n =
     (let s = k + 1 - int n;
          (p, q) = (if s \<ge> 0 then (num, den * 10 ^ nat s) else (num * 10 ^ nat (- s), den));
          low = p div q
      in if round_half_even p q = low then [low, low + 1] else [low + 1, low])"

fun shortest_decimal :: "py_float \<Rightarrow> int \<Rightarrow> int \<Rightarrow> int \<Rightarrow> nat list \<Rightarrow> int \<times> int" where
  "shortest_decimal v num den k [] = (0, 0)"
| "shortest_decimal v num den k (n # ns) =
     (let s = k + 1 - int n in
      case List.find (\<lambda>c. decimal_double c s = v) (decimals_near num den k n) of
        Some c \<Rightarrow> (c, s)
      | None \<Rightarrow> shortest_decimal v num den k ns)"

definition strip_zeros :: "string \<Rightarrow> string" where
  "strip_zeros s = rev (dropWhile (\<lambda>c. c = CHR ''0'') (rev s))"

text \<open>\<open>decpt\<close> is the position of the decimal point relative to the digits.\<close>

definition format_repr :: "string \<Rightarrow> int \<Rightarrow> string" where
  "format_repr digits decpt =
     (let n = int (length digits) in
      if - 4 \<le> decpt - 1 \<and> decpt - 1 < 16 then
        (if decpt \<le> 0 then ''0.'' @ replicate (nat (- decpt)) CHR ''0'' @ digits
         else if n \<le> decpt then digits @ replicate (nat (decpt - n)) CHR ''0'' @ ''.0''
         else take (nat decpt) digits @ ''.'' @ drop (nat decpt) digits)
      else let e = nat_to_string (nat (abs (decpt - 1))) in
        take 1 digits @ (if n > 1 then ''.'' @ drop 1 digits else []) @ ''e''
        @ (if decpt - 1 < 0 then ''-'' else ''+'') @ (if length e < 2 then ''0'' @ e else e))"

fun repr_float :: "py_float \<Rightarrow> string" where
  "repr_float Infinity = ''inf''"
| "repr_float (Double m e) =
     (if m = 0 then ''0.0''
      else let (num, den) = ratio_of m e;
               k = decimal_exponent num den;
               (c, s) = shortest_decimal (Double m e) num den k [1..<18];
               digits = nat_to_string (nat c)
           in format_repr (strip_zeros digits) (int (length digits) + s))"

section \<open>Names of operators\<close>

fun format_assign_op :: "assign_op \<Rightarrow> string" where
  "format_assign_op AssignPlain = ''PlainAssign''"
| "format_assign_op AssignAdd = ''AddAssign''"
| "format_assign_op AssignSub = ''SubAssign''"
| "format_assign_op AssignMul = ''MulAssign''"
| "format_assign_op AssignDiv = ''DivAssign''"
| "format_assign_op AssignMod = ''ModAssign''"
| "format_assign_op AssignPow = ''PowAssign''"

text \<open>The names of the members of the enumerations.\<close>

fun redirect_kind_name :: "redirect_kind \<Rightarrow> string" where
  "redirect_kind_name RedirectWrite = ''WRITE''"
| "redirect_kind_name RedirectAppend = ''APPEND''"
| "redirect_kind_name RedirectPipe = ''PIPE''"

fun unary_op_name :: "unary_op \<Rightarrow> string" where
  "unary_op_name UPlus = ''UPLUS''"
| "unary_op_name UMinus = ''UMINUS''"
| "unary_op_name UNot = ''NOT''"
| "unary_op_name PreInc = ''PRE_INC''"
| "unary_op_name PreDec = ''PRE_DEC''"

fun postfix_op_name :: "postfix_op \<Rightarrow> string" where
  "postfix_op_name PostInc = ''POST_INC''"
| "postfix_op_name PostDec = ''POST_DEC''"

section \<open>Expressions\<close>

text \<open>The head of a line: the class and where the node starts.\<close>

definition head :: "string \<Rightarrow> source_span \<Rightarrow> string" where
  "head class sp = class @ '' span='' @ format_start sp"

definition deeper :: "string \<Rightarrow> string" where
  "deeper indent = indent @ ''  ''"

fun format_expression :: "expr \<Rightarrow> string \<Rightarrow> string list"
and format_lvalue :: "lvalue \<Rightarrow> string \<Rightarrow> string list"
where
  "format_expression (StringLiteralExpr v _ sp) indent =
     [indent @ head ''StringLiteralExpr'' sp @ '' value='' @ py_repr v]"
| "format_expression (NumericLiteralExpr v _ sp) indent =
     [indent @ head ''NumericLiteralExpr'' sp @ '' value='' @ repr_float v]"
| "format_expression (RegexLiteralExpr raw_text sp) indent =
     [indent @ head ''RegexLiteralExpr'' sp @ '' raw_text='' @ py_repr raw_text]"
| "format_expression (NameExpr name sp) indent =
     [indent @ head ''NameExpr'' sp @ '' name='' @ py_repr name]"
| "format_expression (FieldExpr (IntIndex i) sp) indent =
     [indent @ head ''FieldExpr'' sp @ '' index='' @ int_to_string i]"
| "format_expression (FieldExpr (ExprIndex e) sp) indent =
     (indent @ head ''FieldExpr'' sp) # format_expression e (deeper indent)"
| "format_expression (CallExpr f args sp) indent =
     (indent @ head ''CallExpr'' sp @ '' function='' @ py_repr f)
     # concat (map (\<lambda>e. format_expression e (deeper indent)) args)"
| "format_expression (ArrayIndexExpr array_name index extra sp) indent =
     (indent @ head ''ArrayIndexExpr'' sp @ '' array_name='' @ py_repr array_name)
     # format_expression index (deeper indent) @ concat (map (\<lambda>e. format_expression e (deeper indent)) extra)"
| "format_expression (GetlineExpr target source sp) indent =
     (indent @ head ''GetlineExpr'' sp)
     # (case target of None \<Rightarrow> []
        | Some t \<Rightarrow> (deeper indent @ ''Target'') # format_lvalue t (deeper (deeper indent)))
     @ (case source of None \<Rightarrow> []
        | Some e \<Rightarrow> (deeper indent @ ''Source'') # format_expression e (deeper (deeper indent)))"
| "format_expression (BinaryExpr left op right sp) indent =
     (indent @ head ''BinaryExpr'' sp @ '' op='' @ binary_op_name op)
     # format_expression left (deeper indent) @ format_expression right (deeper indent)"
| "format_expression (ConditionalExpr test if_true if_false sp) indent =
     (indent @ head ''ConditionalExpr'' sp)
     # (deeper indent @ ''Test'') # format_expression test (deeper (deeper indent))
     @ (deeper indent @ ''IfTrue'') # format_expression if_true (deeper (deeper indent))
     @ (deeper indent @ ''IfFalse'') # format_expression if_false (deeper (deeper indent))"
| "format_expression (AssignExpr target op v sp) indent =
     (indent @ head ''AssignExpr'' sp @ '' op='' @ format_assign_op op)
     # format_lvalue target (deeper indent)
     @ (deeper indent @ ''Value'') # format_expression v (deeper (deeper indent))"
| "format_expression (UnaryExpr op operand sp) indent =
     (indent @ head ''UnaryExpr'' sp @ '' op='' @ unary_op_name op) # format_expression operand (deeper indent)"
| "format_expression (PostfixExpr operand op sp) indent =
     (indent @ head ''PostfixExpr'' sp @ '' op='' @ postfix_op_name op)
     # format_expression operand (deeper indent)"
| "format_lvalue (NameLValue name sp) indent = [indent @ head ''NameLValue'' sp @ '' name='' @ py_repr name]"
| "format_lvalue (ArrayLValue name subscripts sp) indent =
     (indent @ head ''ArrayLValue'' sp @ '' name='' @ py_repr name)
     # concat (map (\<lambda>e. format_expression e (deeper indent)) subscripts)"
| "format_lvalue (FieldLValue index sp) indent =
     (indent @ head ''FieldLValue'' sp) # format_expression index (deeper indent)"

definition format_expressions :: "expr list \<Rightarrow> string \<Rightarrow> string list" where
  "format_expressions es indent = concat (map (\<lambda>e. format_expression e indent) es)"

section \<open>Statements\<close>

definition format_redirect :: "output_redirect option \<Rightarrow> string \<Rightarrow> string list" where
  "format_redirect redirect indent =
     (case redirect of None \<Rightarrow> []
      | Some r \<Rightarrow>
          (deeper indent @ ''Redirect kind='' @ redirect_kind_name (or_kind r))
          # format_expression (or_target r) (deeper (deeper indent)))"

definition format_optional :: "expr option \<Rightarrow> string \<Rightarrow> string list" where
  "format_optional e indent = (case e of None \<Rightarrow> [] | Some x \<Rightarrow> format_expression x indent)"

text \<open>A titled part of a statement, one step deeper.\<close>

definition titled :: "string \<Rightarrow> string \<Rightarrow> string list \<Rightarrow> string list" where
  "titled indent title lines = (deeper indent @ title) # lines"

fun format_statement :: "stmt \<Rightarrow> string \<Rightarrow> string list" where
  "format_statement (PrintStmt arguments sp redirect) indent =
     (indent @ head ''PrintStmt'' sp)
     # format_expressions arguments (deeper indent) @ format_redirect redirect indent"
| "format_statement (PrintfStmt arguments sp redirect) indent =
     (indent @ head ''PrintfStmt'' sp)
     # format_expressions arguments (deeper indent) @ format_redirect redirect indent"
| "format_statement (AssignStmt target op v sp) indent =
     (indent @ head ''AssignStmt'' sp @ '' op='' @ format_assign_op op)
     # format_lvalue target (deeper indent)
     @ titled indent ''Value'' (format_expression v (deeper (deeper indent)))"
| "format_statement (ExprStmt e sp) indent =
     (indent @ head ''ExprStmt'' sp) # format_expression e (deeper indent)"
| "format_statement (BlockStmt statements sp) indent =
     (indent @ head ''BlockStmt'' sp) # concat (map (\<lambda>st. format_statement st (deeper indent)) statements)"
| "format_statement (BreakStmt sp) indent = [indent @ head ''BreakStmt'' sp]"
| "format_statement (ContinueStmt sp) indent = [indent @ head ''ContinueStmt'' sp]"
| "format_statement (NextStmt sp) indent = [indent @ head ''NextStmt'' sp]"
| "format_statement (NextFileStmt sp) indent = [indent @ head ''NextFileStmt'' sp]"
| "format_statement (ExitStmt v sp) indent = (indent @ head ''ExitStmt'' sp) # format_optional v (deeper indent)"
| "format_statement (DeleteStmt target sp) indent =
     (indent @ head ''DeleteStmt'' sp) # format_lvalue target (deeper indent)"
| "format_statement (IfStmt condition_expr then_branch else_branch sp) indent =
     (indent @ head ''IfStmt'' sp)
     # titled indent ''Condition'' (format_expression condition_expr (deeper (deeper indent)))
     @ titled indent ''Then'' (format_statement then_branch (deeper (deeper indent)))
     @ (case else_branch of None \<Rightarrow> []
        | Some e \<Rightarrow> titled indent ''Else'' (format_statement e (deeper (deeper indent))))"
| "format_statement (WhileStmt condition_expr body sp) indent =
     (indent @ head ''WhileStmt'' sp)
     # titled indent ''Condition'' (format_expression condition_expr (deeper (deeper indent)))
     @ titled indent ''Body'' (format_statement body (deeper (deeper indent)))"
| "format_statement (DoWhileStmt body condition_expr sp) indent =
     (indent @ head ''DoWhileStmt'' sp)
     # titled indent ''Body'' (format_statement body (deeper (deeper indent)))
     @ titled indent ''Condition'' (format_expression condition_expr (deeper (deeper indent)))"
| "format_statement (ForStmt init condition_expr update body sp) indent =
     (indent @ head ''ForStmt'' sp)
     # (if init = [] then [] else titled indent ''Init'' (format_expressions init (deeper (deeper indent))))
     @ (case condition_expr of None \<Rightarrow> []
        | Some e \<Rightarrow> titled indent ''Condition'' (format_expression e (deeper (deeper indent))))
     @ (if update = [] then [] else titled indent ''Update'' (format_expressions update (deeper (deeper indent))))
     @ titled indent ''Body'' (format_statement body (deeper (deeper indent)))"
| "format_statement (ForInStmt name iterable body sp) indent =
     (indent @ head ''ForInStmt'' sp @ '' name='' @ py_repr name)
     # titled indent ''Iterable'' (format_expression iterable (deeper (deeper indent)))
     @ titled indent ''Body'' (format_statement body (deeper (deeper indent)))"
| "format_statement (ReturnStmt v sp) indent =
     (indent @ head ''ReturnStmt'' sp) # format_optional v (deeper indent)"

section \<open>Patterns and programs\<close>

fun format_pattern :: "pattern \<Rightarrow> string \<Rightarrow> string list" where
  "format_pattern (BeginPattern sp) indent = [indent @ head ''BeginPattern'' sp]"
| "format_pattern (EndPattern sp) indent = [indent @ head ''EndPattern'' sp]"
| "format_pattern (ExprPattern test sp) indent =
     (indent @ head ''ExprPattern'' sp) # format_expression test (deeper indent)"
| "format_pattern (RangePattern left right sp) indent =
     (indent @ head ''RangePattern'' sp)
     # titled indent ''Left'' (format_pattern left (deeper (deeper indent)))
     @ titled indent ''Right'' (format_pattern right (deeper (deeper indent)))"

definition format_action :: "action \<Rightarrow> string list" where
  "format_action a =
     (''    '' @ head ''Action'' (ac_span a))
     # concat (map (\<lambda>st. format_statement st ''      '') (ac_statements a))"

definition format_item :: "item \<Rightarrow> string list" where
  "format_item item =
     (case item of
        FunctionDef f \<Rightarrow>
          (''  '' @ head ''FunctionDef'' (fd_span f) @ '' name='' @ py_repr (fd_name f))
          # (if fd_params f = [] then []
             else [''    Params '' @ join_with '', '' (map py_repr (fd_params f))])
          @ format_action (fd_body f)
      | PatternAction pa \<Rightarrow>
          (''  '' @ head ''PatternAction'' (pa_span pa))
          # (case pa_pattern pa of None \<Rightarrow> [] | Some p \<Rightarrow> format_pattern p ''    '')
          @ (case pa_action pa of None \<Rightarrow> [] | Some a \<Rightarrow> format_action a))"

definition format_program :: "program \<Rightarrow> string" where
  "format_program prog =
     join_with [newline] (head ''Program'' (pr_span prog) # concat (map format_item (pr_items prog))) @ [newline]"

end
