(* ===== verification/Ast_Format_Props.thy ===== *)
theory Ast_Format_Props
  imports Ast_Format
begin

text \<open>
  The text of \<open>format_program\<close> is the rendering of an outline, one line per node with two spaces for each
  level, and the outline can be read back from the text.
\<close>

section \<open>Outlines\<close>

datatype outline = Node string "outline list"

fun outline_lines :: "nat \<Rightarrow> outline \<Rightarrow> (nat \<times> string) list" where
  "outline_lines d (Node l ts) = (d, l) # concat (map (outline_lines (Suc d)) ts)"

definition indented :: "nat \<times> string \<Rightarrow> string" where
  "indented line = replicate (2 * fst line) CHR '' '' @ snd line"

fun labels :: "outline \<Rightarrow> string list" where
  "labels (Node l ts) = l # concat (map labels ts)"

text \<open>The outline of the tree.\<close>

fun expression_outline :: "expr \<Rightarrow> outline"
and lvalue_outline :: "lvalue \<Rightarrow> outline"
where
  "expression_outline (StringLiteralExpr v _ sp) = Node (head ''StringLiteralExpr'' sp @ '' value='' @ py_repr v) []"
| "expression_outline (NumericLiteralExpr v _ sp) =
     Node (head ''NumericLiteralExpr'' sp @ '' value='' @ repr_float v) []"
| "expression_outline (RegexLiteralExpr raw_text sp) =
     Node (head ''RegexLiteralExpr'' sp @ '' raw_text='' @ py_repr raw_text) []"
| "expression_outline (NameExpr name sp) = Node (head ''NameExpr'' sp @ '' name='' @ py_repr name) []"
| "expression_outline (FieldExpr (IntIndex i) sp) = Node (head ''FieldExpr'' sp @ '' index='' @ int_to_string i) []"
| "expression_outline (FieldExpr (ExprIndex e) sp) = Node (head ''FieldExpr'' sp) [expression_outline e]"
| "expression_outline (CallExpr f args sp) =
     Node (head ''CallExpr'' sp @ '' function='' @ py_repr f) (map expression_outline args)"
| "expression_outline (ArrayIndexExpr array_name index extra sp) =
     Node (head ''ArrayIndexExpr'' sp @ '' array_name='' @ py_repr array_name)
       (expression_outline index # map expression_outline extra)"
| "expression_outline (GetlineExpr target source sp) =
     Node (head ''GetlineExpr'' sp)
       ((case target of None \<Rightarrow> [] | Some t \<Rightarrow> [Node ''Target'' [lvalue_outline t]])
        @ (case source of None \<Rightarrow> [] | Some e \<Rightarrow> [Node ''Source'' [expression_outline e]]))"
| "expression_outline (BinaryExpr left op right sp) =
     Node (head ''BinaryExpr'' sp @ '' op='' @ binary_op_name op) [expression_outline left, expression_outline right]"
| "expression_outline (ConditionalExpr test if_true if_false sp) =
     Node (head ''ConditionalExpr'' sp)
       [Node ''Test'' [expression_outline test], Node ''IfTrue'' [expression_outline if_true],
        Node ''IfFalse'' [expression_outline if_false]]"
| "expression_outline (AssignExpr target op v sp) =
     Node (head ''AssignExpr'' sp @ '' op='' @ format_assign_op op)
       [lvalue_outline target, Node ''Value'' [expression_outline v]]"
| "expression_outline (UnaryExpr op operand sp) =
     Node (head ''UnaryExpr'' sp @ '' op='' @ unary_op_name op) [expression_outline operand]"
| "expression_outline (PostfixExpr operand op sp) =
     Node (head ''PostfixExpr'' sp @ '' op='' @ postfix_op_name op) [expression_outline operand]"
| "lvalue_outline (NameLValue name sp) = Node (head ''NameLValue'' sp @ '' name='' @ py_repr name) []"
| "lvalue_outline (ArrayLValue name subscripts sp) =
     Node (head ''ArrayLValue'' sp @ '' name='' @ py_repr name) (map expression_outline subscripts)"
| "lvalue_outline (FieldLValue index sp) = Node (head ''FieldLValue'' sp) [expression_outline index]"

definition optional :: "('a \<Rightarrow> outline) \<Rightarrow> 'a option \<Rightarrow> outline list" where
  "optional f v = (case v of None \<Rightarrow> [] | Some x \<Rightarrow> [f x])"

definition part :: "string \<Rightarrow> outline list \<Rightarrow> outline list" where
  "part title ts = (if ts = [] then [] else [Node title ts])"

definition output_outline :: "expr list \<Rightarrow> output_redirect option \<Rightarrow> outline list" where
  "output_outline arguments redirect =
     map expression_outline arguments
     @ optional (\<lambda>r. Node (''Redirect kind='' @ redirect_kind_name (or_kind r)) [expression_outline (or_target r)]) redirect"

fun statement_outline :: "stmt \<Rightarrow> outline" where
  "statement_outline (PrintStmt arguments sp redirect) = Node (head ''PrintStmt'' sp) (output_outline arguments redirect)"
| "statement_outline (PrintfStmt arguments sp redirect) = Node (head ''PrintfStmt'' sp) (output_outline arguments redirect)"
| "statement_outline (AssignStmt target op v sp) =
     Node (head ''AssignStmt'' sp @ '' op='' @ format_assign_op op)
       [lvalue_outline target, Node ''Value'' [expression_outline v]]"
| "statement_outline (ExprStmt e sp) = Node (head ''ExprStmt'' sp) [expression_outline e]"
| "statement_outline (BlockStmt statements sp) = Node (head ''BlockStmt'' sp) (map statement_outline statements)"
| "statement_outline (BreakStmt sp) = Node (head ''BreakStmt'' sp) []"
| "statement_outline (ContinueStmt sp) = Node (head ''ContinueStmt'' sp) []"
| "statement_outline (NextStmt sp) = Node (head ''NextStmt'' sp) []"
| "statement_outline (NextFileStmt sp) = Node (head ''NextFileStmt'' sp) []"
| "statement_outline (ExitStmt v sp) = Node (head ''ExitStmt'' sp) (optional expression_outline v)"
| "statement_outline (DeleteStmt target sp) = Node (head ''DeleteStmt'' sp) [lvalue_outline target]"
| "statement_outline (IfStmt condition_expr then_branch else_branch sp) =
     Node (head ''IfStmt'' sp)
       ([Node ''Condition'' [expression_outline condition_expr], Node ''Then'' [statement_outline then_branch]]
        @ (case else_branch of None \<Rightarrow> [] | Some e \<Rightarrow> [Node ''Else'' [statement_outline e]]))"
| "statement_outline (WhileStmt condition_expr body sp) =
     Node (head ''WhileStmt'' sp)
       [Node ''Condition'' [expression_outline condition_expr], Node ''Body'' [statement_outline body]]"
| "statement_outline (DoWhileStmt body condition_expr sp) =
     Node (head ''DoWhileStmt'' sp)
       [Node ''Body'' [statement_outline body], Node ''Condition'' [expression_outline condition_expr]]"
| "statement_outline (ForStmt init condition_expr update body sp) =
     Node (head ''ForStmt'' sp)
       (part ''Init'' (map expression_outline init) @ part ''Condition'' (optional expression_outline condition_expr)
        @ part ''Update'' (map expression_outline update) @ [Node ''Body'' [statement_outline body]])"
| "statement_outline (ForInStmt name iterable body sp) =
     Node (head ''ForInStmt'' sp @ '' name='' @ py_repr name)
       [Node ''Iterable'' [expression_outline iterable], Node ''Body'' [statement_outline body]]"
| "statement_outline (ReturnStmt v sp) = Node (head ''ReturnStmt'' sp) (optional expression_outline v)"

fun pattern_outline :: "pattern \<Rightarrow> outline" where
  "pattern_outline (BeginPattern sp) = Node (head ''BeginPattern'' sp) []"
| "pattern_outline (EndPattern sp) = Node (head ''EndPattern'' sp) []"
| "pattern_outline (ExprPattern test sp) = Node (head ''ExprPattern'' sp) [expression_outline test]"
| "pattern_outline (RangePattern left right sp) =
     Node (head ''RangePattern'' sp) [Node ''Left'' [pattern_outline left], Node ''Right'' [pattern_outline right]]"

definition action_outline :: "action \<Rightarrow> outline" where
  "action_outline a = Node (head ''Action'' (ac_span a)) (map statement_outline (ac_statements a))"

definition item_outline :: "item \<Rightarrow> outline" where
  "item_outline item =
     (case item of
        FunctionDef f \<Rightarrow>
          Node (head ''FunctionDef'' (fd_span f) @ '' name='' @ py_repr (fd_name f))
            ((if fd_params f = [] then []
              else [Node (''Params '' @ join_with '', '' (map py_repr (fd_params f))) []])
             @ [action_outline (fd_body f)])
      | PatternAction pa \<Rightarrow>
          Node (head ''PatternAction'' (pa_span pa))
            (optional pattern_outline (pa_pattern pa) @ optional action_outline (pa_action pa)))"

definition program_outline :: "program \<Rightarrow> outline" where
  "program_outline prog = Node (head ''Program'' (pr_span prog)) (map item_outline (pr_items prog))"

section \<open>The text is the rendering of the outline\<close>

definition spaces :: "nat \<Rightarrow> string" where
  "spaces d = replicate (2 * d) CHR '' ''"

definition rendered :: "nat \<Rightarrow> outline \<Rightarrow> string list" where
  "rendered d t = map indented (outline_lines d t)"

lemma deeper_spaces [simp]: "deeper (spaces d) = spaces (Suc d)"
  by (induction d) (simp_all add: deeper_def spaces_def numeral_2_eq_2)

lemma rendered_Node [simp]: "rendered d (Node l ts) = (spaces d @ l) # concat (map (rendered (Suc d)) ts)"
  by (simp add: rendered_def [abs_def] indented_def spaces_def map_concat comp_def)

lemma format_expression_rendered:
  "format_expression e (spaces d) = rendered d (expression_outline e)"
  "format_lvalue t (spaces d) = rendered d (lvalue_outline t)"
proof (induction e and t arbitrary: d and d rule: expression_outline_lvalue_outline.induct)
qed (simp_all add: comp_def cong: map_cong split: option.split)

lemma format_parts_rendered:
  "format_expressions es (spaces d) = concat (map (rendered d) (map expression_outline es))"
  "format_redirect r (spaces d) =
     concat (map (rendered (Suc d)) (optional (\<lambda>r. Node (''Redirect kind='' @ redirect_kind_name (or_kind r))
       [expression_outline (or_target r)]) r))"
  "format_optional v (spaces d) = concat (map (rendered d) (optional expression_outline v))"
  "titled (spaces d) title lines = (spaces (Suc d) @ title) # lines"
  by (simp_all add: format_expressions_def format_redirect_def format_optional_def titled_def optional_def
      format_expression_rendered comp_def split: option.split)

lemma format_statement_rendered: "format_statement st (spaces d) = rendered d (statement_outline st)"
proof (induction st arbitrary: d rule: statement_outline.induct)
qed (simp_all add: format_expression_rendered format_parts_rendered output_outline_def part_def optional_def comp_def
    cong: map_cong split: option.split)

lemma format_pattern_rendered: "format_pattern p (spaces d) = rendered d (pattern_outline p)"
  by (induction p arbitrary: d) (simp_all add: format_expression_rendered format_parts_rendered)

lemma format_action_rendered: "format_action a = rendered 2 (action_outline a)"
proof -
  have "format_action a =
      (spaces 2 @ head ''Action'' (ac_span a)) # concat (map (\<lambda>st. format_statement st (spaces 3)) (ac_statements a))"
    by (simp add: format_action_def spaces_def numeral_eq_Suc)
  then show ?thesis by (simp add: action_outline_def format_statement_rendered comp_def numeral_eq_Suc)
qed

lemma format_item_rendered: "format_item item = rendered 1 (item_outline item)"
proof (cases item)
  case (FunctionDef f)
  have "format_item item =
      (spaces 1 @ head ''FunctionDef'' (fd_span f) @ '' name='' @ py_repr (fd_name f))
      # (if fd_params f = [] then [] else [spaces 2 @ ''Params '' @ join_with '', '' (map py_repr (fd_params f))])
      @ format_action (fd_body f)"
    by (simp add: FunctionDef format_item_def spaces_def numeral_eq_Suc)
  then show ?thesis
    by (simp add: FunctionDef item_outline_def format_action_rendered numeral_eq_Suc)
next
  case (PatternAction pa)
  have "format_item item =
      (spaces 1 @ head ''PatternAction'' (pa_span pa))
      # (case pa_pattern pa of None \<Rightarrow> [] | Some p \<Rightarrow> format_pattern p (spaces 2))
      @ (case pa_action pa of None \<Rightarrow> [] | Some a \<Rightarrow> format_action a)"
    by (simp add: PatternAction format_item_def spaces_def numeral_eq_Suc split: option.split)
  then show ?thesis
    by (simp add: PatternAction item_outline_def format_pattern_rendered format_action_rendered optional_def
        numeral_eq_Suc split: option.split)
qed

lemma program_lines:
  "head ''Program'' (pr_span prog) # concat (map format_item (pr_items prog)) = rendered 0 (program_outline prog)"
  by (simp add: program_outline_def format_item_rendered [abs_def] spaces_def comp_def)

lemma join_newline: "join_with [newline] (x # xs) @ [newline] = concat (map (\<lambda>l. l @ [newline]) (x # xs))"
  by (induction xs arbitrary: x) auto

lemma format_program_rendered:
  "format_program prog = concat (map (\<lambda>l. l @ [newline]) (rendered 0 (program_outline prog)))"
  unfolding format_program_def program_lines [symmetric] by (rule join_newline)

section \<open>Reading an outline\<close>

fun text_lines :: "string \<Rightarrow> string list" where
  "text_lines [] = []"
| "text_lines (c # cs) =
     (if c = newline then [] # text_lines cs
      else case text_lines cs of [] \<Rightarrow> [[c]] | l # ls \<Rightarrow> (c # l) # ls)"

definition read_line :: "string \<Rightarrow> nat \<times> string" where
  "read_line l =
     (length (takeWhile (\<lambda>c. c = CHR '' '') l) div 2, dropWhile (\<lambda>c. c = CHR '' '') l)"

text \<open>A line takes the deeper nodes after it as its children.\<close>

fun gather :: "(nat \<times> string) list \<Rightarrow> (nat \<times> outline) list" where
  "gather [] = []"
| "gather ((d, l) # rest) =
     (let nodes = gather rest; below = (\<lambda>(k, _). d < k)
      in (d, Node l (map snd (takeWhile below nodes))) # dropWhile below nodes)"

definition read_outline :: "string \<Rightarrow> outline list" where
  "read_outline s = map snd (gather (map read_line (text_lines s)))"

lemma text_lines_line: "newline \<notin> set l \<Longrightarrow> text_lines (l @ newline # s) = l # text_lines s"
  by (induction l) auto

lemma text_lines_concat:
  "(\<And>l. l \<in> set ls \<Longrightarrow> newline \<notin> set l) \<Longrightarrow> text_lines (concat (map (\<lambda>l. l @ [newline]) ls)) = ls"
  by (induction ls) (simp_all add: text_lines_line)

lemma leading_spaces:
  "takeWhile (\<lambda>c. c = x) (replicate n x @ ys) = replicate n x @ takeWhile (\<lambda>c. c = x) ys"
  "dropWhile (\<lambda>c. c = x) (replicate n x @ ys) = dropWhile (\<lambda>c. c = x) ys"
  by (induction n) simp_all

lemma read_line_indented: "l \<noteq> [] \<Longrightarrow> hd l \<noteq> CHR '' '' \<Longrightarrow> read_line (indented (d, l)) = (d, l)"
  by (cases l) (simp_all add: read_line_def indented_def leading_spaces)

definition starts_at_most :: "nat \<Rightarrow> (nat \<times> 'a) list \<Rightarrow> bool" where
  "starts_at_most d xs \<longleftrightarrow> (case xs of [] \<Rightarrow> True | (k, _) # _ \<Rightarrow> k \<le> d)"

lemma gather_lines:
  "starts_at_most d rest \<Longrightarrow> gather (outline_lines d t @ rest) = (d, t) # gather rest"
proof (induction t arbitrary: d rest)
  case (Node l ts)
  have children: "gather (concat (map (outline_lines (Suc d)) us) @ rest) = map (Pair (Suc d)) us @ gather rest"
    if "set us \<subseteq> set ts" for us
    using that
  proof (induction us)
    case (Cons u us)
    have "starts_at_most (Suc d) (concat (map (outline_lines (Suc d)) us) @ rest)"
      using Node.prems by (cases us; cases "hd us") (auto simp: starts_at_most_def split: list.splits)
    then show ?case
      using Cons Node.IH by simp
  qed simp
  have "starts_at_most d (gather rest)"
    using Node.prems by (cases rest) (auto simp: starts_at_most_def Let_def split: prod.splits)
  then have stop: "takeWhile (\<lambda>(k, _). d < k) (gather rest) = []" "dropWhile (\<lambda>(k, _). d < k) (gather rest) = gather rest"
    by (auto simp: starts_at_most_def split: list.splits)
  have take: "takeWhile (\<lambda>(k, _). d < k) (map (Pair (Suc d)) us @ xs) = map (Pair (Suc d)) us @ takeWhile (\<lambda>(k, _). d < k) xs"
    and drop: "dropWhile (\<lambda>(k, _). d < k) (map (Pair (Suc d)) us @ xs) = dropWhile (\<lambda>(k, _). d < k) xs" for us :: "outline list" and xs
    by (induction us) simp_all
  show ?case
    using children [of ts] stop by (simp add: take drop Let_def comp_def)
qed

section \<open>The labels\<close>

definition label_starts :: "string \<Rightarrow> bool" where
  "label_starts l \<longleftrightarrow> l \<noteq> [] \<and> hd l \<noteq> CHR '' ''"

lemma label_starts_simps [simp]:
  "label_starts (c # l) \<longleftrightarrow> c \<noteq> CHR '' ''"
  "class \<noteq> [] \<Longrightarrow> hd class \<noteq> CHR '' '' \<Longrightarrow> label_starts (head class sp)"
  "class \<noteq> [] \<Longrightarrow> hd class \<noteq> CHR '' '' \<Longrightarrow> label_starts (head class sp @ x)"
  by (simp_all add: label_starts_def head_def)

lemma expression_labels_start:
  "list_all label_starts (labels (expression_outline e))" "list_all label_starts (labels (lvalue_outline t))"
proof (induction e and t rule: expression_outline_lvalue_outline.induct)
qed (auto simp: list_all_iff split: option.split)

lemma statement_labels_start: "list_all label_starts (labels (statement_outline st))"
proof (induction st rule: statement_outline.induct)
qed (auto simp: list_all_iff output_outline_def optional_def part_def
    dest: bspec [OF expression_labels_start(1) [unfolded list_all_iff]] bspec [OF expression_labels_start(2) [unfolded list_all_iff]]
    split: option.splits if_splits)

lemma pattern_labels_start: "list_all label_starts (labels (pattern_outline p))"
  by (induction p) (simp_all add: expression_labels_start)

lemma program_labels_start: "list_all label_starts (labels (program_outline prog))"
  using statement_labels_start pattern_labels_start
  by (auto simp: list_all_iff program_outline_def item_outline_def action_outline_def optional_def
      split: item.splits option.splits if_splits)

lemma outline_lines_labels: "map snd (outline_lines d t) = labels t"
  by (induction t arbitrary: d) (simp add: map_concat comp_def cong: map_cong)

text \<open>C28: The text that \<open>quawk --parse\<close> prints is unambiguous: reading its lines back by their indentation gives
  exactly the outline of the program, whatever the names and literals are, as long as no line break gets into
  a label (only the path of a source file could bring one in).\<close>

theorem format_program_roundtrip:
  assumes "\<And>l. l \<in> set (labels (program_outline prog)) \<Longrightarrow> newline \<notin> set l"
  shows "read_outline (format_program prog) = [program_outline prog]"
proof -
  let ?lines = "outline_lines 0 (program_outline prog)"
  have clean: "newline \<notin> set l" if "l \<in> set (map indented ?lines)" for l
  proof -
    obtain x where "x \<in> set ?lines" "l = indented x" using \<open>l \<in> _\<close> by auto
    moreover from this have "snd x \<in> set (labels (program_outline prog))"
      using outline_lines_labels [of 0 "program_outline prog"] by (metis image_eqI set_map)
    ultimately show ?thesis using assms by (auto simp: indented_def)
  qed
  have "read_line (indented x) = x" if "x \<in> set ?lines" for x
  proof -
    have "snd x \<in> set (labels (program_outline prog))"
      using that outline_lines_labels [of 0 "program_outline prog"] by (metis image_eqI set_map)
    then show ?thesis
      using program_labels_start [of prog] read_line_indented [of "snd x" "fst x"]
      by (auto simp: list_all_iff label_starts_def)
  qed
  moreover have "text_lines (format_program prog) = map indented ?lines"
    unfolding format_program_rendered rendered_def by (rule text_lines_concat) (rule clean)
  ultimately have lines: "map read_line (text_lines (format_program prog)) = ?lines"
    by (simp add: map_idI)
  show ?thesis
    unfolding read_outline_def lines
    using gather_lines [of 0 "[]" "program_outline prog"] by (simp add: starts_at_most_def)
qed

definition sample_program :: program where
  "sample_program =
     \<lparr>pr_items =
        [PatternAction \<lparr>pa_pattern = Some (ExprPattern (NameExpr ''x'' inline_span) inline_span),
           pa_action = Some \<lparr>ac_statements =
             [PrintStmt [StringLiteralExpr [newline] [] inline_span, NumericLiteralExpr (Double 0 0) [] inline_span]
                inline_span None],
             ac_span = inline_span\<rparr>,
           pa_span = inline_span\<rparr>],
      pr_span = inline_span\<rparr>"

lemma format_program_roundtrip_witness:
  "read_outline (format_program sample_program) = [program_outline sample_program]"
proof (rule format_program_roundtrip)
  have "list_all (\<lambda>l. newline \<notin> set l) (labels (program_outline sample_program))"
    by code_simp
  then show "newline \<notin> set l" if "l \<in> set (labels (program_outline sample_program))" for l
    using that by (simp add: list_all_iff)
qed

end
