(* ===== verification/Effects.thy ===== *)
theory Effects
  imports Driver
begin

text \<open>
  What the process around the compiler does: computations on the state \<open>'w\<close> of the operating system that
  may raise, the part of the system that the code calls (subprocesses, files, standard streams and the
  command line that \<^verbatim>\<open>argparse\<close> has parsed) as a record of such computations, and the few
  standard library functions on strings and paths that the callers use.
\<close>

named_theorems io_simps "laws of the computations on the system"

section \<open>Computations\<close>

text \<open>The exceptions of the compiler, and those of the system.  \<open>OSError\<close> has its \<open>strerror\<close> and its text.\<close>

datatype raised =
    Raised exn
  | OSError "string option" string
  | CalledProcessError int
  | KeyboardInterrupt
  | SystemExit int

type_synonym ('w, 'a) io = "'w \<Rightarrow> (raised + 'a) \<times> 'w"

definition retI :: "'a \<Rightarrow> ('w, 'a) io" where
  "retI x w = (Inr x, w)"

definition raiseI :: "raised \<Rightarrow> ('w, 'a) io" where
  "raiseI e w = (Inl e, w)"

definition bindI :: "('w, 'a) io \<Rightarrow> ('a \<Rightarrow> ('w, 'b) io) \<Rightarrow> ('w, 'b) io" where
  "bindI m f w = (case m w of (Inl e, w') \<Rightarrow> (Inl e, w') | (Inr x, w') \<Rightarrow> f x w')"

definition liftI :: "exn + 'a \<Rightarrow> ('w, 'a) io" where
  "liftI r = (case r of Inl e \<Rightarrow> raiseI (Raised e) | Inr x \<Rightarrow> retI x)"

definition getI :: "('w \<Rightarrow> 'a) \<Rightarrow> ('w, 'a) io" where
  "getI f w = (Inr (f w), w)"

text \<open>\<open>try: m except ...\<close>: the handler gets the exception, and passes on what it does not catch.\<close>

definition catchI :: "('w, 'a) io \<Rightarrow> (raised \<Rightarrow> ('w, 'a) io) \<Rightarrow> ('w, 'a) io" where
  "catchI m h w = (case m w of (Inl e, w') \<Rightarrow> h e w' | (Inr x, w') \<Rightarrow> (Inr x, w'))"

text \<open>\<open>try: m finally: f\<close>: an exception of \<open>f\<close> replaces the outcome of \<open>m\<close>.\<close>

definition finallyI :: "('w, 'a) io \<Rightarrow> ('w, unit) io \<Rightarrow> ('w, 'a) io" where
  "finallyI m f w =
     (case m w of (r, w') \<Rightarrow> (case f w' of (Inl e, w'') \<Rightarrow> (Inl e, w'') | (Inr _, w'') \<Rightarrow> (r, w'')))"

fun map_io :: "('a \<Rightarrow> ('w, 'b) io) \<Rightarrow> 'a list \<Rightarrow> ('w, 'b list) io" where
  "map_io f [] = retI []"
| "map_io f (x # xs) = bindI (f x) (\<lambda>y. bindI (map_io f xs) (\<lambda>ys. retI (y # ys)))"

lemma bindI_retI [simp, io_simps]: "bindI (retI x) f = f x"
  by (simp add: bindI_def retI_def fun_eq_iff)

lemma bindI_raiseI [simp, io_simps]: "bindI (raiseI e) f = raiseI e"
  by (simp add: bindI_def raiseI_def fun_eq_iff)

lemma bindI_assoc [io_simps]: "bindI (bindI m f) g = bindI m (\<lambda>x. bindI (f x) g)"
  by (auto simp: bindI_def fun_eq_iff split: prod.splits sum.splits)

lemma catchI_retI [simp, io_simps]: "catchI (retI x) h = retI x"
  by (simp add: catchI_def retI_def fun_eq_iff)

lemma catchI_raiseI [simp, io_simps]: "catchI (raiseI e) h = h e"
  by (simp add: catchI_def raiseI_def fun_eq_iff)

lemma liftI_simps [simp, io_simps]: "liftI (Inl e) = raiseI (Raised e)" "liftI (Inr x) = retI x"
  by (simp_all add: liftI_def)

section \<open>The system\<close>

record completed =
  cp_returncode :: int
  cp_stdout :: string
  cp_stderr :: string

text \<open>The attributes of the namespace that the parser of \<open>build_parser\<close> returns.\<close>

record cli_args =
  ar_field_separator :: "string option"
  ar_program_files :: "string list"
  ar_assignments :: "string list"
  ar_optimize :: bool
  ar_version :: bool
  ar_debug :: bool
  ar_lex :: bool
  ar_parse :: bool
  ar_ir :: bool
  ar_optimized_ir :: bool
  ar_asm :: bool
  ar_program :: "string option"
  ar_files :: "string list"

text \<open>
  The operations: \<open>parser.parse_args\<close>, the environment, \<open>shutil.which\<close>, \<open>subprocess.run\<close> with the input
  text, inherited output or the inherited standard input, files, temporary directories and files (the name
  of a new one, the text written into it), the standard streams and \<open>warnings.warn\<close>.
\<close>

record 'w system =
  sys_parse_args :: "string list \<Rightarrow> ('w, cli_args) io"
  sys_environ :: "string \<Rightarrow> string option"
  sys_metadata_version :: "string option"
  sys_package_directory :: string
  sys_which :: "string \<Rightarrow> 'w \<Rightarrow> string option"
  sys_run_captured :: "string list \<Rightarrow> string option \<Rightarrow> ('w, completed) io"
  sys_run_inherited :: "string list \<Rightarrow> ('w, int) io"
  sys_run_stdin_handle :: "string list \<Rightarrow> ('w, completed) io"
  sys_run_stdin_bytes :: "string list \<Rightarrow> string \<Rightarrow> ('w, completed) io"
  sys_stdin_fileno :: "('w, unit) io"
  sys_stdin_has_buffer :: "'w \<Rightarrow> bool"
  sys_stdin_read_bytes :: "('w, string) io"
  sys_stdin_read_text :: "('w, string) io"
  sys_read_text :: "string \<Rightarrow> ('w, string) io"
  sys_write_text :: "string \<Rightarrow> string \<Rightarrow> ('w, unit) io"
  sys_mkdir :: "string \<Rightarrow> ('w, unit) io"
  sys_make_temp_dir :: "('w, string) io"
  sys_remove_temp_dir :: "string \<Rightarrow> ('w, unit) io"
  sys_make_temp_file :: "string \<Rightarrow> ('w, string) io"
  sys_unlink :: "string \<Rightarrow> ('w, unit) io"
  sys_write_stdout :: "string \<Rightarrow> ('w, unit) io"
  sys_write_stderr :: "string \<Rightarrow> ('w, unit) io"
  sys_warn :: "string \<Rightarrow> ('w, unit) io"

section \<open>Strings and paths\<close>

text \<open>The white space that \<open>str.strip\<close> and \<open>float\<close> remove, on the code points below 256.\<close>

definition is_py_space :: "char \<Rightarrow> bool" where
  "is_py_space c \<longleftrightarrow>
     (let n = of_char c :: nat in (9 \<le> n \<and> n \<le> 13) \<or> (28 \<le> n \<and> n \<le> 32) \<or> n = 133 \<or> n = 160)"

definition py_strip :: "string \<Rightarrow> string" where
  "py_strip s = rev (dropWhile is_py_space (rev (dropWhile is_py_space s)))"

text \<open>\<open>text.strip() or fallback\<close>.\<close>

definition strip_or :: "string \<Rightarrow> string \<Rightarrow> string" where
  "strip_or s fallback = (if py_strip s = [] then fallback else py_strip s)"

text \<open>\<open>Path / name\<close> and \<open>Path.with_suffix\<close> for a path with a final name: a suffix is what follows the last
  dot of the name, when that is neither its first nor its last character.\<close>

definition in_directory :: "string \<Rightarrow> string \<Rightarrow> string" where
  "in_directory directory name = directory @ ''/'' @ name"

definition with_suffix :: "string \<Rightarrow> string \<Rightarrow> string" where
  "with_suffix path suffix =
     (let name = takeWhile (\<lambda>c. c \<noteq> CHR ''/'') (rev path);
          ext = takeWhile (\<lambda>c. c \<noteq> CHR ''.'') name
      in (if ext \<noteq> [] \<and> length ext + 1 < length name then take (length path - length ext - 1) path else path)
         @ suffix)"

definition bytes_of_text :: "string \<Rightarrow> string" where
  "bytes_of_text s = map char_of (utf8_encode s)"

end
