(* ===== verification/Tools.thy ===== *)
theory Tools
  imports Effects
begin

text \<open>
  \<^verbatim>\<open>src/quawk/runtime_support.py\<close> and \<^verbatim>\<open>src/quawk/backend/tools.py\<close>: the LLVM tools are looked
  up on the path and run as subprocesses of the system, on files in temporary directories.
\<close>

section \<open>The runtime support\<close>

definition find_tool :: "'w system \<Rightarrow> string \<Rightarrow> string \<Rightarrow> ('w, string) io" where
  "find_tool sys name purpose =
     bindI (getI (sys_which sys name)) (\<lambda>tool_path.
       case tool_path of
         None \<Rightarrow> raiseI (Raised (RuntimeError (purpose @ '' '' @ [CHR 0x27] @ name @ [CHR 0x27] @ '' is not available on PATH'')))
       | Some path \<Rightarrow> retI path)"

definition runtime_directory :: "'w system \<Rightarrow> string" where
  "runtime_directory sys = in_directory (sys_package_directory sys) ''runtime''"

definition runtime_header_path :: "'w system \<Rightarrow> string" where
  "runtime_header_path sys = in_directory (runtime_directory sys) ''qk_runtime.h''"

definition runtime_source_path :: "'w system \<Rightarrow> string" where
  "runtime_source_path sys = in_directory (runtime_directory sys) ''qk_runtime.c''"

definition find_clang :: "'w system \<Rightarrow> ('w, string) io" where
  "find_clang sys = find_tool sys ''clang'' ''C compiler''"

definition find_llvm_as :: "'w system \<Rightarrow> ('w, string) io" where
  "find_llvm_as sys = find_tool sys ''llvm-as'' ''LLVM assembler''"

definition find_llvm_link :: "'w system \<Rightarrow> ('w, string) io" where
  "find_llvm_link sys = find_tool sys ''llvm-link'' ''LLVM linker''"

definition find_llvm_opt :: "'w system \<Rightarrow> ('w, string) io" where
  "find_llvm_opt sys = find_tool sys ''opt'' ''LLVM optimization tool''"

text \<open>\<open>subprocess.run(command, check=True)\<close>.\<close>

definition run_checked :: "'w system \<Rightarrow> string list \<Rightarrow> ('w, unit) io" where
  "run_checked sys command =
     bindI (sys_run_inherited sys command) (\<lambda>status.
       if status \<noteq> 0 then raiseI (CalledProcessError status) else retI ())"

definition compile_runtime_object :: "'w system \<Rightarrow> string \<Rightarrow> ('w, string) io" where
  "compile_runtime_object sys output_dir =
     bindI (sys_mkdir sys output_dir) (\<lambda>_.
       let object_path = in_directory output_dir ''qk_runtime.o'' in
       bindI (find_clang sys) (\<lambda>clang.
       bindI (run_checked sys
         [clang, ''-std=c11'', ''-Wall'', ''-Wextra'', ''-Werror'', ''-c'', runtime_source_path sys,
          ''-I'', runtime_directory sys, ''-o'', object_path]) (\<lambda>_.
         retI object_path)))"

definition compile_runtime_bitcode :: "'w system \<Rightarrow> string \<Rightarrow> ('w, string) io" where
  "compile_runtime_bitcode sys output_dir =
     bindI (sys_mkdir sys output_dir) (\<lambda>_.
       let bitcode_path = in_directory output_dir ''qk_runtime.bc'' in
       bindI (find_clang sys) (\<lambda>clang.
       bindI (run_checked sys
         [clang, ''-std=c11'', ''-Wall'', ''-Wextra'', ''-Werror'', ''-emit-llvm'', ''-c'', runtime_source_path sys,
          ''-I'', runtime_directory sys, ''-o'', bitcode_path]) (\<lambda>_.
         retI bitcode_path)))"

section \<open>Running the tools\<close>

definition OPTIMIZATION_PASS_PIPELINES :: "(int \<times> string list) list" where
  "OPTIMIZATION_PASS_PIPELINES =
     [(1, [''-passes=mem2reg,instcombine,simplifycfg,gvn'']), (2, [''-O2'', ''-vectorize-loops''])]"

definition ASSEMBLY_PRUNE_FLAGS :: "string list" where
  "ASSEMBLY_PRUNE_FLAGS = [''-passes=internalize,globaldce'', ''-internalize-public-api-list=quawk_main'']"

definition optimization_passes_for_level :: "int \<Rightarrow> string list" where
  "optimization_passes_for_level level =
     (case map_of OPTIMIZATION_PASS_PIPELINES level of
        Some passes \<Rightarrow> passes
      | None \<Rightarrow> the (map_of OPTIMIZATION_PASS_PIPELINES 1))"

text \<open>A captured run, whose failure is a \<open>RuntimeError\<close> with the tool's message or a given one.\<close>

definition run_tool :: "'w system \<Rightarrow> string list \<Rightarrow> string option \<Rightarrow> string \<Rightarrow> ('w, string) io" where
  "run_tool sys command input fallback =
     bindI (sys_run_captured sys command input) (\<lambda>result.
       if cp_returncode result \<noteq> 0 then raiseI (Raised (RuntimeError (strip_or (cp_stderr result) fallback)))
       else retI (cp_stdout result))"

text \<open>Looking for \<open>opt\<close>; a \<open>RuntimeError\<close> leads to the alternative.\<close>

definition with_opt :: "'w system \<Rightarrow> (string \<Rightarrow> ('w, 'a) io) \<Rightarrow> (string \<Rightarrow> ('w, 'a) io) \<Rightarrow> ('w, 'a) io" where
  "with_opt sys found missing =
     bindI (catchI (bindI (find_llvm_opt sys) (\<lambda>path. retI (Inr path)))
       (\<lambda>e. case e of Raised (RuntimeError m) \<Rightarrow> retI (Inl m) | _ \<Rightarrow> raiseI e))
       (\<lambda>r. case r of Inl m \<Rightarrow> missing m | Inr path \<Rightarrow> found path)"

definition optimize_ir :: "'w system \<Rightarrow> string \<Rightarrow> int \<Rightarrow> ('w, string) io" where
  "optimize_ir sys llvm_ir level =
     with_opt sys
       (\<lambda>opt_path. run_tool sys (opt_path # optimization_passes_for_level level @ [''-S'']) (Some llvm_ir)
          ''opt failed to optimize generated IR'')
       (\<lambda>m. bindI (sys_warn sys m) (\<lambda>_. retI llvm_ir))"

definition prune_ir_for_assembly :: "'w system \<Rightarrow> string \<Rightarrow> ('w, string) io" where
  "prune_ir_for_assembly sys llvm_ir =
     with_opt sys
       (\<lambda>opt_path. run_tool sys (opt_path # ASSEMBLY_PRUNE_FLAGS @ [''-S'']) (Some llvm_ir)
          ''opt failed to prune generated assembly IR'')
       (\<lambda>_. retI llvm_ir)"

definition emit_assembly :: "'w system \<Rightarrow> string \<Rightarrow> ('w, string) io" where
  "emit_assembly sys llvm_ir =
     bindI (find_tool sys ''llc'' ''LLVM code generation tool'') (\<lambda>llc_path.
     bindI (prune_ir_for_assembly sys llvm_ir) (\<lambda>pruned_ir.
       run_tool sys [llc_path, ''-o'', ''-'', ''-''] (Some pruned_ir) ''llc failed to produce assembly output''))"

text \<open>\<open>current_stdin_handle\<close>: whether the standard input can be handed to the subprocess.\<close>

definition current_stdin_handle :: "'w system \<Rightarrow> ('w, bool) io" where
  "current_stdin_handle sys =
     catchI (bindI (sys_stdin_fileno sys) (\<lambda>_. retI True))
       (\<lambda>e. case e of Raised (AttributeError _) \<Rightarrow> retI False | OSError _ _ \<Rightarrow> retI False | _ \<Rightarrow> raiseI e)"

definition or_no_bytes :: "('w, string) io \<Rightarrow> ('w, string) io" where
  "or_no_bytes m = catchI m (\<lambda>e. case e of OSError _ _ \<Rightarrow> retI [] | _ \<Rightarrow> raiseI e)"

definition run_process_with_current_stdin :: "'w system \<Rightarrow> string list \<Rightarrow> ('w, completed) io" where
  "run_process_with_current_stdin sys command =
     bindI (current_stdin_handle sys) (\<lambda>handle.
       if handle then sys_run_stdin_handle sys command
       else
         bindI (getI (sys_stdin_has_buffer sys)) (\<lambda>has_buffer.
         bindI (or_no_bytes (if has_buffer then sys_stdin_read_bytes sys
                  else bindI (sys_stdin_read_text sys) (\<lambda>text. retI (bytes_of_text text)))) (\<lambda>stdin_bytes.
           sys_run_stdin_bytes sys command stdin_bytes)))"

definition write_nonempty :: "(string \<Rightarrow> ('w, unit) io) \<Rightarrow> string \<Rightarrow> ('w, unit) io" where
  "write_nonempty write_out text = (if text = [] then retI () else write_out text)"

text \<open>A named temporary file that stays when it is closed, and that the \<open>finally\<close> after it removes.\<close>

definition with_temp_file :: "'w system \<Rightarrow> string \<Rightarrow> string \<Rightarrow> (string \<Rightarrow> ('w, 'a) io) \<Rightarrow> ('w, 'a) io" where
  "with_temp_file sys suffix text body =
     bindI (sys_make_temp_file sys suffix) (\<lambda>path.
     bindI (sys_write_text sys path text) (\<lambda>_.
       finallyI (body path) (sys_unlink sys path)))"

definition execute_llvm_ir :: "'w system \<Rightarrow> string \<Rightarrow> ('w, int) io" where
  "execute_llvm_ir sys llvm_ir =
     bindI (find_tool sys ''lli'' ''LLVM JIT tool'') (\<lambda>lli_path.
     bindI (with_temp_file sys ''.ll'' llvm_ir (\<lambda>ir_path.
       run_process_with_current_stdin sys [lli_path, ''--entry-function=quawk_main'', ir_path])) (\<lambda>result.
     bindI (write_nonempty (sys_write_stdout sys) (cp_stdout result)) (\<lambda>_.
     bindI (write_nonempty (sys_write_stderr sys) (cp_stderr result)) (\<lambda>_.
       retI (cp_returncode result)))))"

definition assemble_llvm_ir :: "'w system \<Rightarrow> string \<Rightarrow> string \<Rightarrow> ('w, string) io" where
  "assemble_llvm_ir sys llvm_ir output_path =
     (let source_path = with_suffix output_path ''.ll'' in
      bindI (sys_write_text sys source_path llvm_ir) (\<lambda>_.
      bindI (find_llvm_as sys) (\<lambda>llvm_as.
      bindI (run_tool sys [llvm_as, source_path, ''-o'', output_path] None
        ''llvm-as failed to assemble generated IR'') (\<lambda>_.
        retI output_path))))"

text \<open>\<open>with TemporaryDirectory() as name\<close>.\<close>

definition with_temp_dir :: "'w system \<Rightarrow> (string \<Rightarrow> ('w, 'a) io) \<Rightarrow> ('w, 'a) io" where
  "with_temp_dir sys body =
     bindI (sys_make_temp_dir sys) (\<lambda>name. finallyI (body name) (sys_remove_temp_dir sys name))"

text \<open>The program module and the driver as bitcode files in the directory; the driver is built in between.\<close>

definition assemble_modules :: "'w system \<Rightarrow> string \<Rightarrow> exn + string \<Rightarrow> string \<Rightarrow> ('w, string list) io" where
  "assemble_modules sys program_llvm_ir driver temp_dir =
     bindI (assemble_llvm_ir sys program_llvm_ir (in_directory temp_dir ''program.bc'')) (\<lambda>program_bitcode.
     bindI (liftI driver) (\<lambda>driver_ir.
     bindI (assemble_llvm_ir sys driver_ir (in_directory temp_dir ''driver.bc'')) (\<lambda>driver_bitcode.
       retI [program_bitcode, driver_bitcode])))"

definition link_modules :: "'w system \<Rightarrow> string list \<Rightarrow> string \<Rightarrow> string \<Rightarrow> ('w, string) io" where
  "link_modules sys modules temp_dir fallback =
     (let linked_ir_path = in_directory temp_dir ''linked.ll'' in
      bindI (find_llvm_link sys) (\<lambda>llvm_link.
      bindI (run_tool sys (llvm_link # modules @ [''-S'', ''-o'', linked_ir_path]) None fallback) (\<lambda>_.
        sys_read_text sys linked_ir_path)))"

definition link_reusable_execution_module ::
  "'w system \<Rightarrow> string \<Rightarrow> program \<Rightarrow> string list \<Rightarrow> string option \<Rightarrow> initial_variables \<Rightarrow> ('w, string) io" where
  "link_reusable_execution_module sys program_llvm_ir prog input_files field_separator initial_variables =
     with_temp_dir sys (\<lambda>temp_dir.
       bindI (compile_runtime_bitcode sys temp_dir) (\<lambda>runtime_bitcode.
       bindI (assemble_modules sys program_llvm_ir
         (build_execution_driver_llvm_ir prog program_llvm_ir input_files field_separator initial_variables)
         temp_dir) (\<lambda>modules.
         link_modules sys (runtime_bitcode # modules) temp_dir
           ''llvm-link failed to link the reusable execution module'')))"

definition link_reusable_inspection_module ::
  "'w system \<Rightarrow> string \<Rightarrow> program \<Rightarrow> string list \<Rightarrow> string option \<Rightarrow> initial_variables \<Rightarrow> ('w, string) io" where
  "link_reusable_inspection_module sys program_llvm_ir prog input_files field_separator initial_variables =
     with_temp_dir sys (\<lambda>temp_dir.
       bindI (assemble_modules sys program_llvm_ir
         (build_execution_driver_llvm_ir prog program_llvm_ir input_files field_separator initial_variables)
         temp_dir) (\<lambda>modules.
         link_modules sys modules temp_dir ''llvm-link failed to link the reusable inspection module''))"

end
