(* ===== verification/Cli.thy ===== *)
theory Cli
  imports Tools Ast_Format Parser_Props Semantics
begin

text \<open>
  \<^verbatim>\<open>src/quawk/jit.py\<close> and \<^verbatim>\<open>src/quawk/cli.py\<close>: the pipeline from a program to the module
  that is run or printed, and the command line around it.
\<close>

section \<open>The backend facade\<close>

definition lower_to_llvm_ir :: "program \<Rightarrow> exn + string" where
  "lower_to_llvm_ir prog =
     bindE (normalize_program_for_lowering prog) (\<lambda>normalized_program.
     bindE (infer_variable_types prog) (\<lambda>type_info.
       lower_reusable_program_to_llvm_ir prog normalized_program type_info))"

definition program_requires_linked_execution_module :: "program \<Rightarrow> initial_variables \<Rightarrow> bool" where
  "program_requires_linked_execution_module prog initial_variables = True"

text \<open>\<open>execute_with_inputs\<close> and the inspection modes build the module in the same way from their linker.\<close>

definition build_public_llvm_ir ::
  "(string \<Rightarrow> program \<Rightarrow> string list \<Rightarrow> string option \<Rightarrow> initial_variables \<Rightarrow> ('w, string) io) \<Rightarrow>
     'w system \<Rightarrow> program \<Rightarrow> string list \<Rightarrow> string option \<Rightarrow> initial_variables \<Rightarrow> bool \<Rightarrow> ('w, string) io" where
  "build_public_llvm_ir link sys prog input_files field_separator initial_variables optimize =
     bindI (liftI (lower_to_llvm_ir prog)) (\<lambda>llvm_ir.
     bindI (if program_requires_linked_execution_module prog initial_variables
            then link llvm_ir prog input_files field_separator initial_variables else retI llvm_ir) (\<lambda>llvm_ir.
       if optimize then optimize_ir sys llvm_ir 1 else retI llvm_ir))"

definition build_public_execution_llvm_ir ::
  "'w system \<Rightarrow> program \<Rightarrow> string list \<Rightarrow> string option \<Rightarrow> initial_variables \<Rightarrow> bool \<Rightarrow> ('w, string) io" where
  "build_public_execution_llvm_ir sys = build_public_llvm_ir (link_reusable_execution_module sys) sys"

definition build_public_inspection_llvm_ir ::
  "'w system \<Rightarrow> program \<Rightarrow> string list \<Rightarrow> string option \<Rightarrow> initial_variables \<Rightarrow> bool \<Rightarrow> ('w, string) io" where
  "build_public_inspection_llvm_ir sys = build_public_llvm_ir (link_reusable_inspection_module sys) sys"

definition execute_with_inputs ::
  "'w system \<Rightarrow> program \<Rightarrow> string list \<Rightarrow> string option \<Rightarrow> initial_variables \<Rightarrow> bool \<Rightarrow> ('w, int) io" where
  "execute_with_inputs sys prog input_files field_separator initial_variables optimize =
     bindI (build_public_execution_llvm_ir sys prog input_files field_separator initial_variables optimize)
       (execute_llvm_ir sys)"

definition execute :: "'w system \<Rightarrow> program \<Rightarrow> initial_variables \<Rightarrow> bool \<Rightarrow> ('w, int) io" where
  "execute sys prog initial_variables optimize =
     bindI (build_public_execution_llvm_ir sys prog [] None initial_variables optimize) (execute_llvm_ir sys)"

section \<open>Arguments\<close>

definition CLI_USAGE :: string where
  "CLI_USAGE =
     ''quawk [options] -f progfile ... [--] [file ...]'' @ [newline] @
     ''       quawk [options] program [--] [file ...]'' @ [newline] @
     ''       quawk -h | --help'' @ [newline] @
     ''       quawk --version''"

definition normalize_arguments :: "string list \<Rightarrow> string list" where
  "normalize_arguments argv = map (\<lambda>token. if token = ''--ir=optimized'' then ''--optimized-ir'' else token) argv"

text \<open>\<open>[A-Za-z_][A-Za-z0-9_]*\<close> over the whole string; the first class is \<open>is_identifier_start\<close>.\<close>

definition is_identifier_start :: "char \<Rightarrow> bool" where
  "is_identifier_start c \<longleftrightarrow>
     (let n = of_char c :: nat in (65 \<le> n \<and> n \<le> 90) \<or> (97 \<le> n \<and> n \<le> 122) \<or> n = 95)"

definition is_identifier :: "string \<Rightarrow> bool" where
  "is_identifier s \<longleftrightarrow>
     s \<noteq> [] \<and> is_identifier_start (hd s) \<and> list_all (\<lambda>c. is_identifier_start c \<or> is_ascii_digit c) s"

text \<open>\<open>float(text)\<close>: white space around, underscores between digits, then a sign and \<open>inf\<close>, \<open>infinity\<close> or
  \<open>nan\<close> in any case, or a decimal number.  \<^const>\<open>None\<close> is its \<open>ValueError\<close>.\<close>

fun underscores_separate :: "bool \<Rightarrow> string \<Rightarrow> bool" where
  "underscores_separate after_digit [] = True"
| "underscores_separate after_digit (c # s) =
     (if c = CHR ''_'' then
        after_digit \<and> s \<noteq> [] \<and> is_ascii_digit (hd s) \<and> underscores_separate False s
      else underscores_separate (is_ascii_digit c) s)"

definition ascii_lower :: "char \<Rightarrow> char" where
  "ascii_lower c = (let n = of_char c :: nat in if 65 \<le> n \<and> n \<le> 90 then char_of (n + 32) else c)"

definition py_float_text :: "string \<Rightarrow> initial_value option" where
  "py_float_text text =
     (let stripped = py_strip text;
          s = filter (\<lambda>c. c \<noteq> CHR ''_'') stripped;
          (neg, rest) = scan_sign s;
          word = map ascii_lower rest
      in if \<not> underscores_separate False stripped then None
         else if word = ''inf'' \<or> word = ''infinity'' then Some (NumberValue (neg, Infinity))
         else if word = ''nan'' then Some NaNValue
         else case scan_number_text s of
                Some ((negative, whole, frac, exponent), []) \<Rightarrow>
                  Some (NumberValue (negative, decimal_value whole frac exponent))
              | _ \<Rightarrow> None)"

definition parse_assignment :: "string \<Rightarrow> exn + string \<times> initial_value" where
  "parse_assignment assignment =
     (if CHR ''='' \<notin> set assignment then
        Inl (ValueError (''invalid -v assignment '' @ py_repr assignment @ '': expected name=value''))
      else
        let name = takeWhile (\<lambda>c. c \<noteq> CHR ''='') assignment; raw_value = drop (length name + 1) assignment
        in if \<not> is_identifier name then Inl (ValueError (''invalid -v variable name '' @ py_repr name))
           else Inr (name, case py_float_text raw_value of Some v \<Rightarrow> v | None \<Rightarrow> StringValue raw_value))"

definition parse_assignments :: "string list \<Rightarrow> exn + initial_variables" where
  "parse_assignments assignments = map_each parse_assignment assignments"

definition validate_assignment_targets :: "initial_variables \<Rightarrow> program_analysis \<Rightarrow> exn + unit" where
  "validate_assignment_targets assignments analysis =
     for_each (\<lambda>(name, _).
       if map_of (an_functions analysis) name \<noteq> None
       then Inl (ValueError (''cannot assign to function name via -v: '' @ name)) else Inr ()) assignments"

section \<open>The program text\<close>

definition read_program_file :: "'w system \<Rightarrow> string \<Rightarrow> ('w, string \<times> string) io" where
  "read_program_file sys program_file =
     bindI (catchI (sys_read_text sys program_file)
       (\<lambda>e. case e of
          OSError strerror text \<Rightarrow>
            let message = (case strerror of Some m \<Rightarrow> if m = [] then text else m | None \<Rightarrow> text)
            in raiseI (OSError None (program_file @ '': '' @ message))
        | _ \<Rightarrow> raiseI e)) (\<lambda>file_text. retI (program_file, file_text))"

definition load_program_source :: "'w system \<Rightarrow> string list \<Rightarrow> string option \<Rightarrow> ('w, program_source option) io" where
  "load_program_source sys program_files inline_program =
     (if program_files \<noteq> [] then
        bindI (map_io (read_program_file sys) program_files) (\<lambda>files. retI (Some (from_files 0 files)))
      else retI (case inline_program of None \<Rightarrow> None | Some text \<Rightarrow> Some (from_inline 0 text)))"

section \<open>The entry point\<close>

definition get_version :: "'w system \<Rightarrow> string" where
  "get_version sys = (case sys_metadata_version sys of Some v \<Rightarrow> v | None \<Rightarrow> ''0.1.0'')"

text \<open>\<open>parser.error\<close>: the usage and the message on the standard error, then \<open>sys.exit(2)\<close>.\<close>

definition usage_error :: "'w system \<Rightarrow> string \<Rightarrow> ('w, 'a) io" where
  "usage_error sys message =
     bindI (sys_write_stderr sys (''usage: '' @ CLI_USAGE @ [newline])) (\<lambda>_.
     bindI (sys_write_stderr sys (''quawk: error: '' @ message @ [newline])) (\<lambda>_.
       raiseI (SystemExit 2)))"

text \<open>With \<open>-f\<close> the first positional argument is an input file.\<close>

definition reclassify :: "cli_args \<Rightarrow> cli_args" where
  "reclassify args =
     (case ar_program args of
        Some text \<Rightarrow>
          if ar_program_files args \<noteq> [] then args\<lparr>ar_files := text # ar_files args, ar_program := None\<rparr> else args
      | None \<Rightarrow> args)"

definition print_and_stop :: "'w system \<Rightarrow> string \<Rightarrow> ('w, int) io" where
  "print_and_stop sys text = bindI (sys_write_stdout sys text) (\<lambda>_. retI 0)"

text \<open>The stages after the analysis.\<close>

definition run_backend :: "'w system \<Rightarrow> cli_args \<Rightarrow> initial_variables \<Rightarrow> program \<Rightarrow> program_analysis \<Rightarrow> ('w, int) io" where
  "run_backend sys args initial_variables prog analysis =
     (if ar_ir args \<or> ar_optimized_ir args then
        bindI (build_public_inspection_llvm_ir sys prog (ar_files args) (ar_field_separator args) initial_variables
                 (ar_optimize args \<or> ar_optimized_ir args)) (print_and_stop sys)
      else if ar_asm args then
        bindI (build_public_inspection_llvm_ir sys prog (ar_files args) (ar_field_separator args) initial_variables
                 (ar_optimize args)) (\<lambda>llvm_ir.
        bindI (emit_assembly sys llvm_ir) (print_and_stop sys))
      else
        bindI (liftI (validate_assignment_targets initial_variables analysis)) (\<lambda>_.
          execute_with_inputs sys prog (ar_files args) (ar_field_separator args) initial_variables
            (ar_optimize args)))"

definition run_stages :: "'w system \<Rightarrow> cli_args \<Rightarrow> ('w, int) io" where
  "run_stages sys args =
     bindI (liftI (parse_assignments (ar_assignments args))) (\<lambda>initial_variables.
     bindI (load_program_source sys (ar_program_files args) (ar_program args)) (\<lambda>source.
     bindI (case source of
              None \<Rightarrow> usage_error sys ''missing AWK program text or -f progfile'' | Some src \<Rightarrow> retI src) (\<lambda>source.
     bindI (liftI (lex_program source)) (\<lambda>tokens.
       if ar_lex args then print_and_stop sys (format_tokens tokens)
       else bindI (liftI (parse tokens)) (\<lambda>prog.
         if ar_parse args then print_and_stop sys (format_program prog)
         else bindI (liftI (analyze prog)) (\<lambda>analysis.
           run_backend sys args initial_variables prog analysis))))))"

text \<open>A message on the standard error and an exit status, unless the exceptions are passed on.\<close>

definition report :: "'w system \<Rightarrow> bool \<Rightarrow> raised \<Rightarrow> string \<Rightarrow> int \<Rightarrow> ('w, int) io" where
  "report sys pass_on e message status =
     (if pass_on then raiseI e else bindI (sys_write_stderr sys message) (\<lambda>_. retI status))"

fun handle :: "'w system \<Rightarrow> bool \<Rightarrow> raised \<Rightarrow> ('w, int) io" where
  "handle sys debug KeyboardInterrupt = report sys debug KeyboardInterrupt (''quawk: interrupted'' @ [newline]) 130"
| "handle sys debug (OSError strerror text) =
     report sys debug (OSError strerror text) (''quawk: '' @ text @ [newline]) 2"
| "handle sys debug (Raised e) =
     (case quawk_error e of
        Some (message, sp, code) \<Rightarrow> report sys False (Raised e) (format_error message sp code) 2
      | None \<Rightarrow>
          (case e of
             ValueError m \<Rightarrow> report sys debug (Raised e) (''quawk: '' @ m @ [newline]) 2
           | RuntimeError m \<Rightarrow> report sys debug (Raised e) (''quawk: '' @ m @ [newline]) 4
           | _ \<Rightarrow> raiseI (Raised e)))"
| "handle sys debug (CalledProcessError status) = raiseI (CalledProcessError status)"
| "handle sys debug (SystemExit status) = raiseI (SystemExit status)"

definition main :: "'w system \<Rightarrow> string list \<Rightarrow> ('w, int) io" where
  "main sys argv =
     bindI (sys_parse_args sys (normalize_arguments argv)) (\<lambda>args.
       if ar_version args then print_and_stop sys (''quawk '' @ get_version sys @ [newline])
       else
         let args = reclassify args;
             debug_exceptions = (ar_debug args \<or> sys_environ sys ''QUAWK_DEBUG'' = Some ''1'')
         in catchI (run_stages sys args) (handle sys debug_exceptions))"

end
