(* ===== verification/Io_Contract.thy ===== *)
theory Io_Contract
  imports Tools Semantics_Props
begin

text \<open>
  A judgement on computations on the system, that their exceptions satisfy a predicate and that they relate
  the states before and after them, with its rules and its instances for the functions that run the tools.
\<close>

section \<open>The judgement\<close>

definition io_ok :: "(raised \<Rightarrow> bool) \<Rightarrow> ('w \<Rightarrow> 'w \<Rightarrow> bool) \<Rightarrow> ('w, 'a) io \<Rightarrow> bool" where
  "io_ok P R m \<longleftrightarrow> (\<forall>w r w'. m w = (r, w') \<longrightarrow> R w w' \<and> (\<forall>e. r = Inl e \<longrightarrow> P e))"

named_theorems io_rules "the judgement for computations built from others"

definition frame :: "('w \<Rightarrow> 'w \<Rightarrow> bool) \<Rightarrow> bool" where
  "frame R \<longleftrightarrow> (\<forall>w. R w w) \<and> (\<forall>u v w. R u v \<longrightarrow> R v w \<longrightarrow> R u w)"

lemma frame_refl: "frame R \<Longrightarrow> R w w"
  by (simp add: frame_def)

lemma frame_trans: "frame R \<Longrightarrow> R u v \<Longrightarrow> R v w \<Longrightarrow> R u w"
  unfolding frame_def by blast

lemma io_okD:
  "io_ok P R m \<Longrightarrow> m w = (r, w') \<Longrightarrow> R w w'"
  "io_ok P R m \<Longrightarrow> m w = (Inl e, w') \<Longrightarrow> P e"
  unfolding io_ok_def by blast+

lemma io_ok_ret [io_rules]: "frame R \<Longrightarrow> io_ok P R (retI x)"
  by (auto simp: io_ok_def retI_def frame_refl)

lemma io_ok_raise [io_rules]: "frame R \<Longrightarrow> P e \<Longrightarrow> io_ok P R (raiseI e)"
  by (auto simp: io_ok_def raiseI_def frame_refl)

lemma io_ok_get [io_rules]: "frame R \<Longrightarrow> io_ok P R (getI f)"
  by (auto simp: io_ok_def getI_def frame_refl)

lemma io_ok_bind [io_rules]:
  assumes "frame R" and "io_ok P R m" and "\<And>x. io_ok P R (f x)"
  shows "io_ok P R (bindI m f)"
  unfolding io_ok_def bindI_def
  by (auto split: prod.splits sum.splits intro: frame_trans [OF assms(1)]
      dest: io_okD [OF assms(2)] io_okD [OF assms(3)])

lemma io_ok_catch:
  assumes "frame R" and "io_ok Q R m" and "\<And>e. Q e \<Longrightarrow> io_ok P R (h e)"
  shows "io_ok P R (catchI m h)"
  unfolding io_ok_def catchI_def
proof (intro allI impI)
  fix w r w'
  assume run: "(case m w of (Inl e, w') \<Rightarrow> h e w' | (Inr x, w') \<Rightarrow> (Inr x, w')) = (r, w')"
  show "R w w' \<and> (\<forall>e. r = Inl e \<longrightarrow> P e)"
  proof (cases "m w")
    case (Pair q v)
    note v = io_okD(1) [OF assms(2) this]
    show ?thesis
    proof (cases q)
      case (Inl e)
      then have h: "io_ok P R (h e)" using io_okD(2) [OF assms(2)] Pair assms(3) by blast
      with Inl Pair run show ?thesis
        by (auto intro: frame_trans [OF assms(1) v] dest: io_okD)
    qed (use Pair run v in auto)
  qed
qed

lemma io_ok_finally:
  assumes "frame R" and "io_ok P R m" and "io_ok P R f"
  shows "io_ok P R (finallyI m f)"
  unfolding io_ok_def finallyI_def
  by (auto split: prod.splits sum.splits intro: frame_trans [OF assms(1)]
      dest: io_okD [OF assms(2)] io_okD [OF assms(3)])

lemma io_ok_lift [io_rules]: "frame R \<Longrightarrow> raises_only (\<lambda>e. P (Raised e)) r \<Longrightarrow> io_ok P R (liftI r)"
  by (cases r) (auto intro: io_rules)

lemma io_ok_map [io_rules]: "frame R \<Longrightarrow> (\<And>x. io_ok P R (f x)) \<Longrightarrow> io_ok P R (map_io f xs)"
  by (induction xs) (auto intro!: io_rules)

lemma io_ok_weaken: "io_ok Q R m \<Longrightarrow> (\<And>e. Q e \<Longrightarrow> P e) \<Longrightarrow> io_ok P R m"
  by (auto simp: io_ok_def split: sum.splits)

lemma io_ok_relation: "io_ok P R m \<Longrightarrow> (\<And>w w'. R w w' \<Longrightarrow> S w w') \<Longrightarrow> io_ok P S m"
  by (auto simp: io_ok_def)

lemma io_ok_case [io_rules]:
  "(\<And>x. v = Some x \<Longrightarrow> io_ok P R (f x)) \<Longrightarrow> (v = None \<Longrightarrow> io_ok P R g) \<Longrightarrow>
     io_ok P R (case v of None \<Rightarrow> g | Some x \<Rightarrow> f x)"
  "(\<And>x. s = Inl x \<Longrightarrow> io_ok P R (k x)) \<Longrightarrow> (\<And>x. s = Inr x \<Longrightarrow> io_ok P R (l x)) \<Longrightarrow>
     io_ok P R (case s of Inl x \<Rightarrow> k x | Inr x \<Rightarrow> l x)"
  "(b \<Longrightarrow> io_ok P R m) \<Longrightarrow> (\<not> b \<Longrightarrow> io_ok P R m') \<Longrightarrow> io_ok P R (if b then m else m')"
  by (auto split: option.split sum.split)

section \<open>Systems\<close>

text \<open>The operations that read the outside world or write to the streams.\<close>

definition reads_ok :: "(raised \<Rightarrow> bool) \<Rightarrow> ('w \<Rightarrow> 'w \<Rightarrow> bool) \<Rightarrow> 'w system \<Rightarrow> bool" where
  "reads_ok P R sys \<longleftrightarrow>
     (\<forall>argv. io_ok P R (sys_parse_args sys argv)) \<and> (\<forall>path. io_ok P R (sys_read_text sys path))
     \<and> (\<forall>text. io_ok P R (sys_write_stdout sys text)) \<and> (\<forall>text. io_ok P R (sys_write_stderr sys text))"

text \<open>The operations of the tools, apart from temporary directories and files.\<close>

definition tools_ok :: "(raised \<Rightarrow> bool) \<Rightarrow> ('w \<Rightarrow> 'w \<Rightarrow> bool) \<Rightarrow> 'w system \<Rightarrow> bool" where
  "tools_ok P R sys \<longleftrightarrow>
     (\<forall>cmd input. io_ok P R (sys_run_captured sys cmd input)) \<and> (\<forall>cmd. io_ok P R (sys_run_inherited sys cmd))
     \<and> (\<forall>cmd. io_ok P R (sys_run_stdin_handle sys cmd)) \<and> (\<forall>cmd input. io_ok P R (sys_run_stdin_bytes sys cmd input))
     \<and> io_ok P R (sys_stdin_fileno sys) \<and> io_ok P R (sys_stdin_read_bytes sys) \<and> io_ok P R (sys_stdin_read_text sys)
     \<and> (\<forall>path text. io_ok P R (sys_write_text sys path text)) \<and> (\<forall>path. io_ok P R (sys_mkdir sys path))
     \<and> (\<forall>m. io_ok P R (sys_warn sys m))"

definition temps_ok :: "(raised \<Rightarrow> bool) \<Rightarrow> ('w \<Rightarrow> 'w \<Rightarrow> bool) \<Rightarrow> 'w system \<Rightarrow> bool" where
  "temps_ok P R sys \<longleftrightarrow>
     (\<forall>body :: string \<Rightarrow> ('w, string) io. (\<forall>d. io_ok P R (body d)) \<longrightarrow> io_ok P R (with_temp_dir sys body))
     \<and> (\<forall>suffix text. \<forall>body :: string \<Rightarrow> ('w, completed) io.
           (\<forall>path. io_ok P R (body path)) \<longrightarrow> io_ok P R (with_temp_file sys suffix text body))"

text \<open>The exceptions that the callers of the tools raise themselves.\<close>

definition backend_raises :: "(raised \<Rightarrow> bool) \<Rightarrow> bool" where
  "backend_raises P \<longleftrightarrow> (\<forall>m. P (Raised (RuntimeError m))) \<and> (\<forall>status. P (CalledProcessError status))"

definition usable :: "(raised \<Rightarrow> bool) \<Rightarrow> ('w \<Rightarrow> 'w \<Rightarrow> bool) \<Rightarrow> 'w system \<Rightarrow> bool" where
  "usable P R sys \<longleftrightarrow> frame R \<and> backend_raises P \<and> tools_ok P R sys \<and> temps_ok P R sys \<and> reads_ok P R sys"

lemma usable_frame: "usable P R sys \<Longrightarrow> frame R"
  by (simp add: usable_def)

lemma usable_raises:
  assumes "usable P R sys"
  shows "P (Raised (RuntimeError m))" "P (CalledProcessError status)"
  using assms by (auto simp: usable_def backend_raises_def)

lemma usable_reads:
  assumes "usable P R sys"
  shows "io_ok P R (sys_parse_args sys argv)" "io_ok P R (sys_read_text sys path)"
    "io_ok P R (sys_write_stdout sys text)" "io_ok P R (sys_write_stderr sys text)"
  using assms by (auto simp: usable_def reads_ok_def)

lemma usable_tools:
  assumes "usable P R sys"
  shows "io_ok P R (sys_run_captured sys cmd input)" "io_ok P R (sys_run_inherited sys cmd)"
    "io_ok P R (sys_run_stdin_handle sys cmd)" "io_ok P R (sys_run_stdin_bytes sys cmd text)"
    "io_ok P R (sys_stdin_fileno sys)" "io_ok P R (sys_stdin_read_bytes sys)" "io_ok P R (sys_stdin_read_text sys)"
    "io_ok P R (sys_write_text sys path text)" "io_ok P R (sys_mkdir sys path)" "io_ok P R (sys_warn sys text)"
  using assms by (auto simp: usable_def tools_ok_def)

lemma usable_temp_dir:
  "usable P R sys \<Longrightarrow> (\<And>d. io_ok P R (body d)) \<Longrightarrow>
     io_ok P R (with_temp_dir sys (body :: string \<Rightarrow> ('w, string) io))" for sys :: "'w system"
  by (auto simp: usable_def temps_ok_def)

lemma usable_temp_file:
  "usable P R sys \<Longrightarrow> (\<And>path. io_ok P R (body path)) \<Longrightarrow>
     io_ok P R (with_temp_file sys suffix text (body :: string \<Rightarrow> ('w, completed) io))" for sys :: "'w system"
  by (auto simp: usable_def temps_ok_def)

lemmas usable_ops = usable_frame usable_reads usable_tools

lemma tool_ok:
  assumes "usable P R sys"
  shows "io_ok P R (find_tool sys name purpose)" "io_ok P R (run_checked sys cmd)"
    "io_ok P R (run_tool sys cmd input fallback)"
  using assms usable_raises [OF assms] by (auto simp: find_tool_def run_checked_def run_tool_def intro!: io_rules usable_ops)

lemma with_opt_ok:
  assumes "usable P R sys" and "\<And>path. io_ok P R (found path)" and "\<And>m. io_ok P R (missing m)"
  shows "io_ok P R (with_opt sys found missing)"
  unfolding with_opt_def find_llvm_opt_def
  by (rule io_ok_bind [OF usable_frame [OF assms(1)] io_ok_catch [OF usable_frame [OF assms(1)], where Q = P]])
    (use assms usable_raises [OF assms(1)] in \<open>auto intro!: io_rules tool_ok usable_ops split: raised.split exn.split\<close>)

lemma stdin_ok:
  assumes "usable P R sys"
  shows "io_ok P R (run_process_with_current_stdin sys cmd)"
proof -
  note f = usable_frame [OF assms]
  have "io_ok P R (current_stdin_handle sys)"
    unfolding current_stdin_handle_def
    by (rule io_ok_catch [OF f, where Q = P])
      (use assms usable_raises [OF assms(1)] in \<open>auto intro!: io_rules usable_ops split: raised.split exn.split\<close>)
  moreover have "io_ok P R (or_no_bytes m)" if "io_ok P R m" for m
    unfolding or_no_bytes_def
    by (rule io_ok_catch [OF f that]) (use assms in \<open>auto intro!: io_rules usable_ops split: raised.split\<close>)
  moreover have "io_ok P R (if b then sys_stdin_read_bytes sys
      else bindI (sys_stdin_read_text sys) (\<lambda>text. retI (bytes_of_text text)))" for b
    using assms by (auto intro!: io_rules usable_ops)
  ultimately show ?thesis
    unfolding run_process_with_current_stdin_def
    by (intro io_ok_bind io_ok_case io_ok_get f usable_tools [OF assms]) auto
qed

lemma execute_llvm_ir_ok: "usable P R sys \<Longrightarrow> io_ok P R (execute_llvm_ir sys llvm_ir)"
  by (auto simp: execute_llvm_ir_def write_nonempty_def
      intro!: io_rules tool_ok usable_temp_file stdin_ok usable_ops)

lemma assemble_ok: "usable P R sys \<Longrightarrow> io_ok P R (assemble_llvm_ir sys llvm_ir path)"
  by (auto simp: assemble_llvm_ir_def Let_def find_llvm_as_def intro!: io_rules tool_ok usable_ops)

lemma link_ok:
  assumes "usable P R sys"
    and "raises_only (\<lambda>e. P (Raised e)) (build_execution_driver_llvm_ir prog llvm_ir files fs vars)"
  shows "io_ok P R (link_reusable_execution_module sys llvm_ir prog files fs vars)"
    "io_ok P R (link_reusable_inspection_module sys llvm_ir prog files fs vars)"
  using assms
  by (auto simp: link_reusable_execution_module_def link_reusable_inspection_module_def assemble_modules_def
      link_modules_def compile_runtime_bitcode_def find_clang_def find_llvm_link_def Let_def
      intro!: io_rules assemble_ok tool_ok usable_temp_dir usable_ops)

lemma inspect_ok:
  assumes "usable P R sys"
  shows "io_ok P R (optimize_ir sys llvm_ir level)" "io_ok P R (emit_assembly sys llvm_ir)"
  using assms
  by (auto simp: optimize_ir_def emit_assembly_def prune_ir_for_assembly_def
      intro!: io_rules with_opt_ok tool_ok usable_ops)

end
