(* ===== verification/Pass_Errors.thy ===== *)
theory Pass_Errors
  imports Semantics_Props Normalization_Props Lowered_Program Driver Parser_Props
begin

text \<open>
  No pass of the compiler runs into the bound of one of the recursions of the model, and no lookup in a
  dictionary fails: \<open>OutOfFuel\<close> and \<open>KeyError\<close> are never raised, by any pass, for any program.
\<close>

fun ordinary :: "exn \<Rightarrow> bool" where
  "ordinary OutOfFuel \<longleftrightarrow> False"
| "ordinary (KeyError _) \<longleftrightarrow> False"
| "ordinary _ \<longleftrightarrow> True"

lemma raises_only_mono: "raises_only Q r \<Longrightarrow> (\<And>e. Q e \<Longrightarrow> P e) \<Longrightarrow> raises_only P r"
  by (cases r) auto

section \<open>The front end\<close>

lemma lex_ordinary: "raises_only ordinary (lex_program src)"
  using scan_tokens_spans [of "lexer_init src"]
  by (auto simp: lex_program_def split: sum.splits)

lemma parse_ordinary:
  assumes "lex_program src = Inr toks"
  shows "raises_only ordinary (parse toks)"
proof -
  have "parser_error toks e \<Longrightarrow> ordinary e" for e by (cases e) simp_all
  then show ?thesis
    using parse_tokens_outcome [OF lexed_stream_valid [OF assms]]
    by (auto simp: parse_def parse_outcome_def split: sum.splits if_splits)
qed

lemma analysis_ordinary: "analysis_error e \<Longrightarrow> ordinary e"
  by (cases e) simp_all

lemma parameters_ordinary: "raises_only ordinary (validate_parameters fname seen ps sps)"
  by (induction fname seen ps sps rule: validate_parameters.induct) auto

lemma collect_ordinary: "raises_only ordinary (collect_functions items fns)"
  by (induction items fns rule: collect_functions.induct)
    (auto simp: validate_function_definition_def parameters_ordinary)

lemma analyze_ordinary: "raises_only ordinary (analyze prog)"
proof -
  have "raises_only ordinary (for_each (validate_item fns (function_scopes fns)) (pr_items prog))"
    if "collect_functions (pr_items prog) [] = Inr fns" for fns
    using validate_items_raise [OF that] analysis_ordinary by (rule raises_only_mono)
  then show ?thesis
    unfolding analyze_def by (intro raises_only_bind collect_ordinary) simp_all
qed

section \<open>Types\<close>

definition visit_ok :: "visit \<Rightarrow> bool" where
  "visit_ok v \<longleftrightarrow> (\<forall>env. raises_only ordinary (v env))"

named_theorems visit_rules

lemma visit_ok_steps [visit_rules]:
  "visit_ok unchanged" "visit_ok (note_assignment name ty locals)" "visit_ok (note_target locals target assigned)"
  "visit_ok (note_substitution locals f args)"
  by (auto simp: visit_ok_def unchanged_def note_assignment_def note_target_def note_substitution_def Let_def
      split: lvalue.split option.split
      intro!: raises_only_bind raises_only_mono [OF lvalue_raises analysis_ordinary])

lemma visit_ok_compose [visit_rules]:
  "visit_ok f \<Longrightarrow> visit_ok g \<Longrightarrow> visit_ok (and_then f g)"
  "visit_ok f \<Longrightarrow> visit_ok g \<Longrightarrow> visit_ok (or_else f g)"
  by (auto simp: visit_ok_def and_then_def or_else_def split: prod.splits)

lemma visit_ok_lists [visit_rules]:
  "(\<And>x. x \<in> set xs \<Longrightarrow> visit_ok (f x)) \<Longrightarrow> visit_ok (all_of f xs)"
  "(\<And>x. x \<in> set xs \<Longrightarrow> visit_ok (f x)) \<Longrightarrow> visit_ok (any_of f xs)"
  by (induction xs) (auto intro!: visit_rules)

lemma visit_ok_converge [visit_rules]: "visit_ok step \<Longrightarrow> visit_ok (converge step)"
proof -
  assume step: "visit_ok step"
  have "raises_only ordinary (converge_within n step env)" for n env
    using step by (induction n arbitrary: env) (auto simp: visit_ok_def split: prod.splits)
  then show ?thesis by (simp add: visit_ok_def converge_def)
qed

lemma visit_expression_ok [visit_rules]:
  "visit_ok (visit_expression_types locals e)" "visit_ok (visit_lvalue_types locals lv)"
  by (induction locals e and locals lv rule: visit_expression_types_visit_lvalue_types.induct)
    (auto intro!: visit_rules split: option.split)

lemma visit_parts_ok [visit_rules]:
  "visit_ok (visit_optional_types locals v)" "visit_ok (visit_output_types locals es redirect)"
  by (auto simp: visit_optional_types_def visit_output_types_def intro!: visit_rules split: option.split)

lemma visit_statement_ok [visit_rules]: "visit_ok (visit_statement_types locals s)"
  by (induction locals s rule: visit_statement_types.induct) (auto intro!: visit_rules split: option.split)

lemma visit_pattern_ok [visit_rules]: "visit_ok (visit_pattern_types p)"
  by (induction p) (auto intro!: visit_rules)

lemma types_ordinary: "raises_only ordinary (infer_variable_types prog)"
proof -
  have "visit_ok (visit_item_types item)" for item
    by (auto simp: visit_item_types_def visit_action_types_def intro!: visit_rules split: item.split option.split)
  then have "visit_ok (all_of visit_item_types (pr_items prog))" by (intro visit_rules)
  then show ?thesis
    by (auto simp: infer_variable_types_def visit_ok_def split: prod.splits)
qed

section \<open>Normalization\<close>

lemma slots_ordinary: "raises_only ordinary (allocate_slots_for_variable_indexes indexes)"
proof -
  have "raises_only ordinary (check_distinct_slots names seen slots)" for names seen slots
    by (induction names seen slots rule: check_distinct_slots.induct) auto
  moreover have "raises_only ordinary (map_each (\<lambda>(name, index). mk_variable_slot name index ty storage) xs)"
    for ty storage xs
    by (induction xs) (auto simp: mk_variable_slot_def)
  ultimately show ?thesis
    by (auto simp: allocate_slots_for_variable_indexes_def mk_slot_allocation_def
        render_slot_state_struct_type_def)
qed

lemma normalize_ordinary: "raises_only ordinary (normalize_program_for_lowering prog)"
proof -
  have "raises_only ordinary (fold_each normalize_item items s)" for items s
    by (induction items arbitrary: s)
      (auto simp: normalize_item_def Let_def split: item.split option.split pattern.split)
  moreover have "raises_only ordinary (collect_variable_indexes prog extra)" for extra
    by (auto simp: indexes_number_occurrences endpoint_error_def)
  ultimately show ?thesis
    by (auto simp: normalize_program_for_lowering_def slots_ordinary)
qed

section \<open>Residency and the backend\<close>

lemma residency_ordinary:
  "raises_only ordinary (classify_local_numeric_scalar_residency prog (Some np) (Some types))"
proof -
  have pat: "raises_only ordinary (analyze_pattern tracked p assigned)" for tracked p assigned
    by (induction p arbitrary: assigned) (auto split: option.split)
  then have "raises_only ordinary (analyze_record_item tracked item current)" for tracked item current
    by (auto simp: analyze_record_item_def Let_def split: option.split)
  then have "raises_only ordinary (analyze_record_loop tracked items current)" for tracked items current
    by (induction items arbitrary: current) (auto split: prod.split)
  then show ?thesis
    by (auto simp: classify_local_numeric_scalar_residency_def analyze_record_items_def Let_def)
qed

lemma module_ordinary: "raises_only ordinary (lower_reusable_program_to_llvm_ir prog np types)"
proof (cases "classify_local_numeric_scalar_residency prog (Some np) (Some types)")
  case (Inl e)
  then show ?thesis
    using residency_ordinary [of prog np types] by (simp add: lower_reusable_program_to_llvm_ir_def)
next
  case (Inr residency)
  then show ?thesis
    using module_succeeds [OF Inr]
    by (auto simp: succeeds_with_def backend_error_def raises_only_def split: sum.splits exn.splits)
qed

lemma driver_ordinary:
  "raises_only ordinary (build_execution_driver_llvm_ir prog llvm_ir files fs vars)"
  unfolding build_execution_driver_llvm_ir_def Let_def
  by (intro raises_only_bind normalize_ordinary types_ordinary) simp

end
