(* ===== verification/Cli_Props.thy ===== *)
theory Cli_Props
  imports Cli Io_Contract Pass_Errors
begin

text \<open>
  The command as a whole: which exceptions leave it, that it leaves no temporary files behind, that tools
  run for accepted programs only, and what the \<open>-v\<close> assignments mean.
\<close>

section \<open>The stages\<close>

text \<open>The pure passes between the program text and the module.\<close>

definition passes_ok :: "(exn \<Rightarrow> bool) \<Rightarrow> bool" where
  "passes_ok Q \<longleftrightarrow>
     (\<forall>assignments. raises_only Q (parse_assignments assignments)) \<and> (\<forall>src. raises_only Q (lex_program src))
     \<and> (\<forall>src toks. lex_program src = Inr toks \<longrightarrow> raises_only Q (parse toks))
     \<and> (\<forall>prog. raises_only Q (analyze prog)) \<and> (\<forall>vars an. raises_only Q (validate_assignment_targets vars an))
     \<and> (\<forall>prog. raises_only Q (lower_to_llvm_ir prog))
     \<and> (\<forall>prog llvm_ir files fs vars. raises_only Q (build_execution_driver_llvm_ir prog llvm_ir files fs vars))"

lemma build_ok:
  assumes "usable P R sys" and "passes_ok (\<lambda>e. P (Raised e))"
  shows "io_ok P R (build_public_execution_llvm_ir sys prog files fs vars optimize)"
    "io_ok P R (build_public_inspection_llvm_ir sys prog files fs vars optimize)"
  using assms
  by (auto simp: build_public_execution_llvm_ir_def build_public_inspection_llvm_ir_def build_public_llvm_ir_def
      passes_ok_def intro!: io_rules link_ok inspect_ok usable_ops)

definition stage_raises :: "(raised \<Rightarrow> bool) \<Rightarrow> bool" where
  "stage_raises P \<longleftrightarrow> (\<forall>m. P (OSError None m)) \<and> P (SystemExit 2)"

lemma usable_reads_ok: "usable P R sys \<Longrightarrow> reads_ok P R sys"
  by (simp add: usable_def)

lemma print_ok: "usable P R sys \<Longrightarrow> io_ok P R (print_and_stop sys text)"
  by (auto simp: print_and_stop_def intro!: io_rules usable_ops)

lemma run_backend_ok:
  assumes "usable P R sys" and "passes_ok (\<lambda>e. P (Raised e))"
  shows "io_ok P R (run_backend sys args vars prog an)"
  using assms build_ok [OF assms]
  by (auto simp: run_backend_def execute_with_inputs_def passes_ok_def
      intro!: io_rules print_ok inspect_ok execute_llvm_ir_ok usable_ops)

lemma load_ok:
  assumes f: "frame R" and "reads_ok P R sys" and "stage_raises P"
  shows "io_ok P R (load_program_source sys files inline)"
proof -
  have "io_ok P R (read_program_file sys path)" for path
    unfolding read_program_file_def
    by (rule io_ok_bind [OF f io_ok_catch [OF f, where Q = P]])
      (use assms in \<open>auto simp: reads_ok_def stage_raises_def Let_def intro!: io_rules split: raised.split\<close>)
  then show ?thesis
    using f by (auto simp: load_program_source_def intro!: io_rules)
qed

lemma usage_error_ok: "usable P R sys \<Longrightarrow> stage_raises P \<Longrightarrow> io_ok P R (usage_error sys message)"
  by (auto simp: usage_error_def stage_raises_def intro!: io_rules usable_ops)

lemma run_stages_ok:
  assumes "usable P R sys" and passes: "passes_ok (\<lambda>e. P (Raised e))" and "stage_raises P"
  shows "io_ok P R (run_stages sys args)"
proof -
  note f = usable_frame [OF assms(1)]
  have lift: "io_ok P R (liftI (parse_assignments xs))" "io_ok P R (liftI (lex_program src))"
    "io_ok P R (liftI (analyze prog))" for xs src prog
    using passes by (auto simp: passes_ok_def intro: io_ok_lift [OF f])
  have front: "io_ok P R (if ar_lex args then print_and_stop sys (format_tokens tokens)
       else bindI (liftI (parse tokens)) (\<lambda>prog.
         if ar_parse args then print_and_stop sys (format_program prog)
         else bindI (liftI (analyze prog)) (\<lambda>analysis.
           run_backend sys args vars prog analysis)))" if "lex_program src = Inr tokens" for vars src tokens
  proof -
    have "io_ok P R (liftI (parse tokens))"
      using passes that by (auto simp: passes_ok_def intro: io_ok_lift [OF f])
    then show ?thesis
      by (intro io_ok_case io_ok_bind f print_ok lift run_backend_ok assms(1,2))
  qed
  have rest: "io_ok P R (bindI (liftI (lex_program src)) (\<lambda>tokens.
       if ar_lex args then print_and_stop sys (format_tokens tokens)
       else bindI (liftI (parse tokens)) (\<lambda>prog.
         if ar_parse args then print_and_stop sys (format_program prog)
         else bindI (liftI (analyze prog)) (\<lambda>analysis.
           run_backend sys args vars prog analysis))))" for vars src
    using passes front by (cases "lex_program src") (auto simp: passes_ok_def intro!: io_ok_raise f dest!: spec [of _ src])
  have source: "io_ok P R (case source of
      None \<Rightarrow> usage_error sys ''missing AWK program text or -f progfile'' | Some src \<Rightarrow> retI src)" for source
    by (intro io_ok_case usage_error_ok io_ok_ret f assms)
  show ?thesis
    unfolding run_stages_def
    by (rule io_ok_bind [OF f lift(1)], rule io_ok_bind [OF f load_ok [OF f usable_reads_ok [OF assms(1)] assms(3)]],
        rule io_ok_bind [OF f source], rule rest)
qed

lemma lower_ordinary: "raises_only ordinary (lower_to_llvm_ir prog)"
  by (auto simp: lower_to_llvm_ir_def normalize_ordinary types_ordinary module_ordinary)

lemma assignments_ordinary: "raises_only ordinary (parse_assignments xs)"
  by (induction xs) (auto simp: parse_assignments_def parse_assignment_def Let_def)

lemma passes_ordinary: "(\<And>e. ordinary e \<Longrightarrow> Q e) \<Longrightarrow> passes_ok Q"
  using raises_only_mono [OF assignments_ordinary] raises_only_mono [OF lex_ordinary]
    raises_only_mono [OF parse_ordinary] raises_only_mono [OF analyze_ordinary]
    raises_only_mono [OF lower_ordinary] raises_only_mono [OF driver_ordinary]
  by (auto simp: passes_ok_def validate_assignment_targets_def)

section \<open>The exceptions that leave the command\<close>

fun escapes :: "raised \<Rightarrow> bool" where
  "escapes (Raised e) \<longleftrightarrow>
     (case e of
        IndexError \<Rightarrow> True | OverflowError _ \<Rightarrow> True | AssertionError _ \<Rightarrow> True | AttributeError _ \<Rightarrow> True
      | UnboundLocalError _ \<Rightarrow> True | _ \<Rightarrow> False)"
| "escapes (CalledProcessError _) \<longleftrightarrow> True"
| "escapes (SystemExit _) \<longleftrightarrow> True"
| "escapes (OSError _ _) \<longleftrightarrow> False"
| "escapes KeyboardInterrupt \<longleftrightarrow> False"

text \<open>Those that are passed on only in the debug mode.\<close>

fun passed_on :: "raised \<Rightarrow> bool" where
  "passed_on (Raised e) \<longleftrightarrow> (case e of ValueError _ \<Rightarrow> True | RuntimeError _ \<Rightarrow> True | _ \<Rightarrow> False)"
| "passed_on (OSError _ _) \<longleftrightarrow> True"
| "passed_on KeyboardInterrupt \<longleftrightarrow> True"
| "passed_on (CalledProcessError _) \<longleftrightarrow> False"
| "passed_on (SystemExit _) \<longleftrightarrow> False"

text \<open>Neither the bound of a recursion of the model nor a missing key.\<close>

fun ordinary_raise :: "raised \<Rightarrow> bool" where
  "ordinary_raise (Raised e) \<longleftrightarrow> ordinary e"
| "ordinary_raise _ \<longleftrightarrow> True"

definition system_raises :: "(raised \<Rightarrow> bool) \<Rightarrow> 'w system \<Rightarrow> bool" where
  "system_raises P sys \<longleftrightarrow>
     reads_ok P (\<lambda>_ _. True) sys \<and> tools_ok P (\<lambda>_ _. True) sys
     \<and> io_ok P (\<lambda>_ _. True) (sys_make_temp_dir sys) \<and> (\<forall>d. io_ok P (\<lambda>_ _. True) (sys_remove_temp_dir sys d))
     \<and> (\<forall>suffix. io_ok P (\<lambda>_ _. True) (sys_make_temp_file sys suffix))
     \<and> (\<forall>path. io_ok P (\<lambda>_ _. True) (sys_unlink sys path))"

lemma frame_True [simp]: "frame (\<lambda>_ _. True)"
  by (simp add: frame_def)

lemma system_raises_usable:
  assumes "system_raises P sys" and "backend_raises P"
  shows "usable P (\<lambda>_ _. True) sys"
  using assms
  by (auto simp: usable_def system_raises_def temps_ok_def with_temp_dir_def with_temp_file_def tools_ok_def
      intro!: io_rules io_ok_finally)

lemma handle_ok:
  assumes "\<And>text. io_ok (\<lambda>_. False) (\<lambda>_ _. True) (sys_write_stderr sys text)" and "ordinary_raise e"
  shows "io_ok (\<lambda>e. escapes e \<or> debug \<and> passed_on e) (\<lambda>_ _. True) (handle sys debug e)"
proof -
  have "io_ok Q (\<lambda>_ _. True) (report sys on e m status)" if "on \<Longrightarrow> Q e" for Q on e m status
    using that io_ok_weaken [OF assms(1)] by (auto simp: report_def intro!: io_rules)
  then show ?thesis
    using assms(2) by (cases e) (auto split: exn.split intro!: io_rules)
qed

text \<open>C29: Outside the debug mode the command ends with an exit status, except for the exceptions of argument
  parsing and of the C compiler and for \<open>IndexError\<close>, \<open>OverflowError\<close>, \<open>AssertionError\<close>, \<open>AttributeError\<close> and
  \<open>UnboundLocalError\<close>, which leave it as tracebacks; errors of the source, of files, values and tools and
  interrupts do not, where the standard error can be written and the version is not asked for.  In the debug
  mode only the errors of the source are still reported.  No recursion of the model is cut off and no
  lookup fails anywhere between the arguments and the execution.\<close>

theorem escaping_exceptions:
  assumes "system_raises ordinary_raise sys"
    and "\<And>text. io_ok (\<lambda>_. False) (\<lambda>_ _. True) (sys_write_stderr sys text)"
    and "sys_parse_args sys (normalize_arguments argv) w = (Inr args, w1)" and "\<not> ar_version args"
  shows "case fst (main sys argv w) of
      Inl e \<Rightarrow> escapes e \<or> (ar_debug args \<or> sys_environ sys ''QUAWK_DEBUG'' = Some ''1'') \<and> passed_on e
    | Inr _ \<Rightarrow> True"
proof -
  let ?debug = "ar_debug args \<or> sys_environ sys ''QUAWK_DEBUG'' = Some ''1''"
  have "usable ordinary_raise (\<lambda>_ _. True) sys"
    using assms(1) by (rule system_raises_usable) (simp add: backend_raises_def)
  then have "io_ok ordinary_raise (\<lambda>_ _. True) (run_stages sys (reclassify args))"
    by (rule run_stages_ok) (auto simp: stage_raises_def intro!: passes_ordinary)
  then have "io_ok (\<lambda>e. escapes e \<or> ?debug \<and> passed_on e) (\<lambda>_ _. True)
      (catchI (run_stages sys (reclassify args)) (handle sys ?debug))"
    using handle_ok [OF assms(2)] by (rule io_ok_catch [OF frame_True]) blast
  moreover have "ar_debug (reclassify args) = ar_debug args"
    by (simp add: reclassify_def split: option.split)
  ultimately show ?thesis
    using assms(3,4) by (auto simp: main_def bindI_def Let_def io_ok_def split: sum.split)
      (metis prod.collapse)+
qed

section \<open>Temporary files\<close>

definition same :: "('w \<Rightarrow> 'b) \<Rightarrow> 'w \<Rightarrow> 'w \<Rightarrow> bool" where
  "same view w w' \<longleftrightarrow> view w' = view w"

lemma frame_same [simp]: "frame (same view)"
  by (simp add: frame_def same_def)

lemma io_same:
  "io_ok (\<lambda>_. True) (same view) m \<longleftrightarrow> (\<forall>w r w'. m w = (r, w') \<longrightarrow> view w' = view w)"
  by (simp add: io_ok_def same_def)

lemma io_sameD: "io_ok (\<lambda>_. True) (same view) m \<Longrightarrow> view (snd (m w)) = view w"
  by (cases "m w") (simp add: io_same)

text \<open>What \<open>tempfile\<close> and \<open>os\<close> document, for two views of the system: \<open>live\<close>, the temporary files and
  directories that exist, and \<open>failed\<close>, the log of the names on which a call to write or to remove
  raised.  A new file has a new name.  Removing a name removes it and nothing else; when the call
  raises, the name may be there or not.  Writing, reading and running the tools leaves \<open>live\<close> as it is.\<close>

definition creates :: "('w \<Rightarrow> string set) \<Rightarrow> ('w \<Rightarrow> string list) \<Rightarrow> ('w, string) io \<Rightarrow> bool" where
  "creates live failed m \<longleftrightarrow>
     (\<forall>w w' name. m w = (Inr name, w') \<longrightarrow>
        name \<notin> live w \<and> live w' = insert name (live w) \<and> failed w' = failed w)
     \<and> (\<forall>w w' e. m w = (Inl e, w') \<longrightarrow> live w' = live w \<and> failed w' = failed w)"

definition removes :: "('w \<Rightarrow> string set) \<Rightarrow> ('w \<Rightarrow> string list) \<Rightarrow> (string \<Rightarrow> ('w, unit) io) \<Rightarrow> bool" where
  "removes live failed m \<longleftrightarrow>
     (\<forall>name w w'. m name w = (Inr (), w') \<longrightarrow> live w' = live w - {name} \<and> failed w' = failed w)
     \<and> (\<forall>name w w' e. m name w = (Inl e, w') \<longrightarrow>
          live w - {name} \<subseteq> live w' \<and> live w' \<subseteq> live w \<and> failed w' = failed w @ [name])"

definition writes :: "('w \<Rightarrow> string set) \<Rightarrow> ('w \<Rightarrow> string list) \<Rightarrow> (string \<Rightarrow> string \<Rightarrow> ('w, unit) io) \<Rightarrow> bool" where
  "writes live failed m \<longleftrightarrow>
     (\<forall>name text w r w'. m name text w = (r, w') \<longrightarrow>
        live w' = live w \<and> failed w' = failed w @ (case r of Inl _ \<Rightarrow> [name] | Inr _ \<Rightarrow> []))"

definition unchanged_files :: "('w \<Rightarrow> string set) \<Rightarrow> ('w \<Rightarrow> string list) \<Rightarrow> 'w \<Rightarrow> 'w \<Rightarrow> bool" where
  "unchanged_files live failed = same (\<lambda>w. (live w, failed w))"

definition tempfile_laws :: "('w \<Rightarrow> string set) \<Rightarrow> ('w \<Rightarrow> string list) \<Rightarrow> 'w system \<Rightarrow> bool" where
  "tempfile_laws live failed sys \<longleftrightarrow>
     reads_ok (\<lambda>_. True) (unchanged_files live failed) sys
     \<and> tools_ok (\<lambda>_. True) (unchanged_files live failed) (sys\<lparr>sys_write_text := \<lambda>_ _. retI ()\<rparr>)
     \<and> writes live failed (sys_write_text sys)
     \<and> creates live failed (sys_make_temp_dir sys) \<and> (\<forall>suffix. creates live failed (sys_make_temp_file sys suffix))
     \<and> removes live failed (sys_remove_temp_dir sys) \<and> removes live failed (sys_unlink sys)"

text \<open>Nothing that existed is gone, and what is left over are names of failed calls in between.\<close>

definition leaves :: "('w \<Rightarrow> string set) \<Rightarrow> ('w \<Rightarrow> string list) \<Rightarrow> 'w \<Rightarrow> 'w \<Rightarrow> bool" where
  "leaves live failed w w' \<longleftrightarrow>
     live w \<subseteq> live w' \<and> (\<exists>names. failed w' = failed w @ names \<and> live w' \<subseteq> live w \<union> set names)"

lemma frame_leaves [simp]: "frame (leaves live failed)"
  unfolding frame_def
proof (intro conjI allI impI)
  fix u v w
  assume "leaves live failed u v" "leaves live failed v w"
  then obtain ns ms where "live u \<subseteq> live v" "failed v = failed u @ ns" "live v \<subseteq> live u \<union> set ns"
    "live v \<subseteq> live w" "failed w = failed v @ ms" "live w \<subseteq> live v \<union> set ms"
    unfolding leaves_def by blast
  then show "leaves live failed u w"
    unfolding leaves_def by (intro conjI exI [of _ "ns @ ms"]) auto
qed (simp add: leaves_def)

lemma unchanged_leaves: "unchanged_files live failed w w' \<Longrightarrow> leaves live failed w w'"
  by (simp add: unchanged_files_def same_def leaves_def)

lemma writes_leaves:
  "writes live failed m \<Longrightarrow> m name text w = (r, w') \<Longrightarrow> leaves live failed w w'"
  unfolding writes_def leaves_def by blast

lemma removed_leaves:
  assumes "name \<notin> live w" "live v = insert name (live w)" "failed v = failed w"
    and "leaves live failed v v'" and "removes live failed m" and "m name v' = (r, w')"
  shows "leaves live failed w w'"
proof -
  obtain ns where v': "insert name (live w) \<subseteq> live v'" "failed v' = failed w @ ns"
    "live v' \<subseteq> insert name (live w) \<union> set ns"
    using assms(2-4) unfolding leaves_def by auto
  show ?thesis
  proof (cases r)
    case (Inl e)
    then have "live v' - {name} \<subseteq> live w'" "live w' \<subseteq> live v'" "failed w' = failed v' @ [name]"
      using assms(5,6) unfolding removes_def by blast+
    then show ?thesis
      using v' assms(1) unfolding leaves_def by (intro conjI exI [of _ "ns @ [name]"]) auto
  next
    case (Inr u)
    then have "live w' = live v' - {name}" "failed w' = failed v'"
      using assms(5,6) unfolding removes_def by auto
    then show ?thesis
      using v' assms(1) unfolding leaves_def by (intro conjI exI [of _ ns]) auto
  qed
qed

lemma finally_leaves:
  assumes "creates live failed create" and "create w = (Inr name, v)" and "leaves live failed v u"
    and "io_ok (\<lambda>_. True) (leaves live failed) m" and "removes live failed f"
    and "finallyI m (f name) u = (r, w')"
  shows "leaves live failed w w'"
proof -
  have new: "name \<notin> live w" "live v = insert name (live w)" "failed v = failed w"
    using assms(1,2) unfolding creates_def by blast+
  obtain q u' where m: "m u = (q, u')" by force
  obtain x u'' where f: "f name u' = (x, u'')" by force
  have "w' = u''" using assms(6) m f by (auto simp: finallyI_def split: sum.splits)
  have "leaves live failed v u'"
    using frame_trans [OF frame_leaves assms(3) io_okD(1) [OF assms(4) m]] .
  then show ?thesis
    unfolding \<open>w' = u''\<close> using removed_leaves [where live = live, OF new _ assms(5) f] by blast
qed

lemma creation_failed:
  assumes "creates live failed create" and "create w = (Inl e, w')"
  shows "leaves live failed w w'"
  using assms unfolding creates_def leaves_def by fastforce

lemma temp_dir_leaves:
  assumes "tempfile_laws live failed sys" and body: "\<And>d. io_ok (\<lambda>_. True) (leaves live failed) (body d)"
  shows "io_ok (\<lambda>_. True) (leaves live failed) (with_temp_dir sys body)"
proof -
  have laws: "creates live failed (sys_make_temp_dir sys)" "removes live failed (sys_remove_temp_dir sys)"
    using assms(1) by (simp_all add: tempfile_laws_def)
  have "leaves live failed w w'" if "with_temp_dir sys body w = (r, w')" for w r w'
    using that creation_failed [OF laws(1)] finally_leaves [OF laws(1) _ frame_refl [OF frame_leaves] body laws(2)]
    by (auto simp: with_temp_dir_def bindI_def split: prod.splits sum.splits)
  then show ?thesis by (simp add: io_ok_def)
qed

lemma temp_file_leaves:
  assumes "tempfile_laws live failed sys" and body: "\<And>d. io_ok (\<lambda>_. True) (leaves live failed) (body d)"
  shows "io_ok (\<lambda>_. True) (leaves live failed) (with_temp_file sys suffix text body)"
proof -
  have laws: "creates live failed (sys_make_temp_file sys suffix)" "removes live failed (sys_unlink sys)"
    "writes live failed (sys_write_text sys)"
    using assms(1) by (simp_all add: tempfile_laws_def)
  have "leaves live failed w w'" if run: "with_temp_file sys suffix text body w = (r, w')" for w r w'
  proof (cases "sys_make_temp_file sys suffix w")
    case (Pair q v)
    show ?thesis
    proof (cases q)
      case (Inl e)
      with run Pair have "w' = v" by (simp add: with_temp_file_def bindI_def)
      with creation_failed [OF laws(1)] Pair Inl show ?thesis by simp
    next
      case (Inr name)
      obtain x u where wrote: "sys_write_text sys name text v = (x, u)" by force
      show ?thesis
      proof (cases x)
        case (Inl e)
        with run Pair Inr wrote have "w' = u" by (simp add: with_temp_file_def bindI_def)
        moreover have "live u = live v" "failed u = failed v @ [name]"
          using laws(3) wrote Inl unfolding writes_def by force+
        moreover have "live v = insert name (live w)" "failed v = failed w"
          using laws(1) Pair Inr unfolding creates_def by blast+
        ultimately show ?thesis unfolding leaves_def by auto
      next
        case (Inr y)
        with run Pair \<open>q = Inr name\<close> wrote have "finallyI (body name) (sys_unlink sys name) u = (r, w')"
          by (simp add: with_temp_file_def bindI_def)
        then show ?thesis
          using Pair \<open>q = Inr name\<close> finally_leaves [OF laws(1) _ writes_leaves [OF laws(3) wrote] body laws(2)]
          by blast
      qed
    qed
  qed
  then show ?thesis by (simp add: io_ok_def)
qed

lemma tempfile_usable:
  assumes "tempfile_laws live failed sys"
  shows "usable (\<lambda>_. True) (leaves live failed) sys"
proof -
  have weaken: "io_ok (\<lambda>_. True) (unchanged_files live failed) m \<Longrightarrow> io_ok (\<lambda>_. True) (leaves live failed) m" for m
    by (rule io_ok_relation [OF _ unchanged_leaves])
  have "io_ok (\<lambda>_. True) (leaves live failed) (sys_write_text sys path content)" for path content
    using assms writes_leaves by (fastforce simp: tempfile_laws_def io_ok_def)
  then have "reads_ok (\<lambda>_. True) (leaves live failed) sys" "tools_ok (\<lambda>_. True) (leaves live failed) sys"
    using assms by (simp_all add: tempfile_laws_def reads_ok_def tools_ok_def weaken)
  moreover have "temps_ok (\<lambda>_. True) (leaves live failed) sys"
    unfolding temps_ok_def
    by (intro conjI allI impI temp_dir_leaves [OF assms] temp_file_leaves [OF assms]; elim allE)
  ultimately show ?thesis by (simp add: usable_def backend_raises_def)
qed

text \<open>C30: Whatever operation raises, and whether it is a tool, a write, a removal or an interrupt, the
  command leaves nothing behind but the temporary files and directories on which a call to write or to
  remove raised in the run, and it removes nothing that was there before; in particular a run in which
  none of these calls raises leaves the temporary files as it found them.\<close>

theorem temporary_files_removed:
  assumes "tempfile_laws live failed sys"
  shows "\<exists>names. failed (snd (main sys argv w)) = failed w @ names
    \<and> live w \<subseteq> live (snd (main sys argv w)) \<and> live (snd (main sys argv w)) \<subseteq> live w \<union> set names"
proof -
  note u = tempfile_usable [OF assms] and f = frame_leaves [of live failed]
  have stages: "io_ok (\<lambda>_. True) (leaves live failed) (run_stages sys args)" for args
    by (rule run_stages_ok [OF u]) (auto simp: stage_raises_def intro!: passes_ordinary)
  have "io_ok (\<lambda>_. True) (leaves live failed) (report sys on e m status)" for on e m status
    unfolding report_def by (intro io_ok_case io_ok_raise io_ok_bind io_ok_ret f usable_reads [OF u] TrueI)
  then have "io_ok (\<lambda>_. True) (leaves live failed) (handle sys debug e)" for debug e
    by (cases e) (auto split: exn.split option.split intro!: io_ok_raise)
  then have "io_ok (\<lambda>_. True) (leaves live failed) (main sys argv)"
    unfolding main_def Let_def
    by (intro io_ok_bind io_ok_case print_ok [OF u] f usable_reads [OF u] io_ok_catch [OF f stages])
  then have "leaves live failed w (snd (main sys argv w))"
    by (rule io_okD(1)) (rule prod.collapse [symmetric])
  then show ?thesis unfolding leaves_def by blast
qed

text \<open>A file that cannot be written stays behind: the \<open>finally\<close> that removes it starts after the writing.\<close>

lemma unwritable_file_is_left:
  assumes "creates live failed (sys_make_temp_file sys suffix)" and "sys_make_temp_file sys suffix w = (Inr name, w1)"
    and "sys_write_text sys name text w1 = (Inl e, w2)" and "live w2 = live w1"
  shows "live (snd (with_temp_file sys suffix text body w)) \<noteq> live w"
proof -
  have "name \<notin> live w" "name \<in> live w1" using assms(1,2) unfolding creates_def by blast+
  with assms show ?thesis by (auto simp: with_temp_file_def bindI_def)
qed

section \<open>Tools run for accepted programs only\<close>

text \<open>The front end and the lowering accept the source.\<close>

definition compiles :: "program_source \<Rightarrow> bool" where
  "compiles src \<longleftrightarrow>
     (case bindE (lex_program src) (\<lambda>toks. bindE (parse toks) (\<lambda>prog.
             bindE (analyze prog) (\<lambda>_. lower_to_llvm_ir prog))) of
        Inl _ \<Rightarrow> False
      | Inr _ \<Rightarrow> True)"

lemma rejected_stages:
  assumes reads: "reads_ok (\<lambda>_. True) R sys" and f: "frame R"
    and stop: "ar_lex args \<or> ar_parse args \<or> \<not> compiles src"
  shows "io_ok (\<lambda>_. True) R (bindI (liftI (lex_program src)) (\<lambda>tokens.
       if ar_lex args then print_and_stop sys (format_tokens tokens)
       else bindI (liftI (parse tokens)) (\<lambda>prog.
         if ar_parse args then print_and_stop sys (format_program prog)
         else bindI (liftI (analyze prog)) (\<lambda>analysis.
           run_backend sys args vars prog analysis))))"
proof -
  have out: "io_ok (\<lambda>_. True) R (print_and_stop sys s)" for s
    using reads f by (auto simp: print_and_stop_def reads_ok_def intro!: io_ok_bind io_ok_ret)
  have err: "io_ok (\<lambda>_. True) R (raiseI e)" for e
    using f by (intro io_ok_raise) auto
  show ?thesis
  proof (cases "lex_program src")
    case toks: (Inr toks)
    show ?thesis
    proof (cases "parse toks")
      case prog: (Inr prog)
      have "io_ok (\<lambda>_. True) R (run_backend sys args vars prog an)"
        if "\<not> ar_lex args" "\<not> ar_parse args" "analyze prog = Inr an" for an
      proof -
        from stop toks prog that obtain e where "lower_to_llvm_ir prog = Inl e"
          by (auto simp: compiles_def split: sum.splits)
        then show ?thesis
          using err f
          by (auto simp: run_backend_def execute_with_inputs_def build_public_execution_llvm_ir_def
              build_public_inspection_llvm_ir_def build_public_llvm_ir_def intro!: io_ok_bind io_ok_lift)
            (auto simp: raises_only_def split: sum.split)
      qed
      with toks prog out err show ?thesis by (cases "analyze prog") auto
    qed (use toks out err in auto)
  qed (use err in auto)
qed

text \<open>C31: The tools run for accepted programs only.  When the source has an error, or the lowering does not
  support it, or only its tokens or its tree are asked for, the command does nothing but read the program
  and write to the standard streams: what those leave unchanged is unchanged after it.\<close>

theorem rejected_programs_run_nothing:
  assumes "reads_ok (\<lambda>_. True) (same runs) sys"
    and "sys_parse_args sys (normalize_arguments argv) w = (Inr args, w1)"
    and "load_program_source sys (ar_program_files (reclassify args)) (ar_program (reclassify args)) w1
      = (Inr (Some src), w2)"
    and "ar_lex args \<or> ar_parse args \<or> \<not> compiles src"
  shows "runs (snd (main sys argv w)) = runs w"
proof -
  note f = frame_same
  have out: "io_ok (\<lambda>_. True) (same runs) (print_and_stop sys s)"
    and err: "io_ok (\<lambda>_. True) (same runs) (sys_write_stderr sys s)" for s
    using assms(1) by (auto simp: print_and_stop_def reads_ok_def intro!: io_ok_bind io_ok_ret)
  have "io_ok (\<lambda>_. True) (same runs) (report sys on e m status)" for on e m status
    unfolding report_def by (intro io_ok_case io_ok_raise io_ok_bind io_ok_ret f err TrueI)
  then have handle: "io_ok (\<lambda>_. True) (same runs) (handle sys debug e)" for debug e
    by (cases e) (auto split: exn.split option.split intro!: io_ok_raise)
  have w1: "runs w1 = runs w"
    using assms(1,2) by (auto simp: reads_ok_def io_same)
  have "io_ok (\<lambda>_. True) (same runs)
      (load_program_source sys (ar_program_files (reclassify args)) (ar_program (reclassify args)))"
    by (rule load_ok [OF f assms(1)]) (simp add: stage_raises_def)
  with assms(3) w1 have w2: "runs w2 = runs w" by (auto simp: io_same)
  have "ar_lex (reclassify args) \<or> ar_parse (reclassify args) \<or> \<not> compiles src"
    using assms(4) by (auto simp: reclassify_def split: option.split)
  note stages = rejected_stages [OF assms(1) f this]
  have "runs (snd (run_stages sys (reclassify args) w1)) = runs w"
  proof (cases "parse_assignments (ar_assignments (reclassify args))")
    case (Inr vars)
    then have "run_stages sys (reclassify args) w1 =
        bindI (liftI (lex_program src)) (\<lambda>tokens.
          if ar_lex (reclassify args) then print_and_stop sys (format_tokens tokens)
          else bindI (liftI (parse tokens)) (\<lambda>prog.
            if ar_parse (reclassify args) then print_and_stop sys (format_program prog)
            else bindI (liftI (analyze prog)) (\<lambda>analysis.
              run_backend sys (reclassify args) vars prog analysis))) w2"
      using assms(3) by (simp add: run_stages_def) (simp add: bindI_def)
    then show ?thesis using io_sameD [OF stages [of vars], of w2] w2 by simp
  qed (simp add: run_stages_def raiseI_def w1)
  then have "runs (snd (catchI (run_stages sys (reclassify args)) (handle sys debug) w1)) = runs w" for debug
    proof (cases "run_stages sys (reclassify args) w1")
    case (Pair q v)
    with io_sameD [OF handle [of debug]] \<open>runs (snd (run_stages sys (reclassify args) w1)) = runs w\<close>
    show ?thesis by (cases q) (simp_all add: catchI_def)
  qed
  moreover have "runs (snd (print_and_stop sys s w1)) = runs w" for s
    using io_sameD [OF out] w1 by simp
  ultimately show ?thesis using assms(2) by (simp add: main_def bindI_def Let_def)
qed

section \<open>Assignments\<close>

lemma identifier_characters: "is_identifier name \<Longrightarrow> c \<in> set name \<Longrightarrow> c \<noteq> CHR ''=''"
  by (auto simp: is_identifier_def list_all_iff is_identifier_start_def is_ascii_digit_def)

definition assigned_value :: "string \<Rightarrow> initial_value" where
  "assigned_value raw = (case py_float_text raw of Some v \<Rightarrow> v | None \<Rightarrow> StringValue raw)"

lemma split_at_equals:
  "is_identifier name \<Longrightarrow> takeWhile (\<lambda>c. c \<noteq> CHR ''='') (name @ CHR ''='' # raw) = name"
proof -
  assume "is_identifier name"
  then have "takeWhile (\<lambda>c. c \<noteq> CHR ''='') (name @ (CHR ''='' # raw)) = name @ takeWhile (\<lambda>c. c \<noteq> CHR ''='') (CHR ''='' # raw)"
    by (intro takeWhile_append2) (rule identifier_characters)
  then show ?thesis by simp
qed

lemma drop_while_not: "a \<in> set xs \<Longrightarrow> dropWhile (\<lambda>c. c \<noteq> a) xs = a # drop (length (takeWhile (\<lambda>c. c \<noteq> a) xs) + 1) xs"
  by (induction xs) auto

lemma parse_assignment_iff:
  "parse_assignment x = Inr (name, v) \<longleftrightarrow>
     is_identifier name \<and> (\<exists>raw. x = name @ ''='' @ raw \<and> v = assigned_value raw)"
proof
  assume l: "parse_assignment x = Inr (name, v)"
  let ?name = "takeWhile (\<lambda>c. c \<noteq> CHR ''='') x"
  from l have eq: "CHR ''='' \<in> set x" and n: "name = ?name" "is_identifier name"
    and v: "v = assigned_value (drop (length ?name + 1) x)"
    by (auto simp: parse_assignment_def Let_def assigned_value_def split: if_splits)
  have "dropWhile (\<lambda>c. c \<noteq> CHR ''='') x = CHR ''='' # drop (length ?name + 1) x"
    using eq by (rule drop_while_not)
  then have "x = name @ ''='' @ drop (length ?name + 1) x"
    using n takeWhile_dropWhile_id [of "\<lambda>c. c \<noteq> CHR ''=''" x] by simp
  with n v show "is_identifier name \<and> (\<exists>raw. x = name @ ''='' @ raw \<and> v = assigned_value raw)" by blast
next
  assume "is_identifier name \<and> (\<exists>raw. x = name @ ''='' @ raw \<and> v = assigned_value raw)"
  then obtain raw where "x = name @ CHR ''='' # raw" "is_identifier name" "v = assigned_value raw" by auto
  with split_at_equals [of name raw] show "parse_assignment x = Inr (name, v)"
    by (simp add: parse_assignment_def Let_def assigned_value_def split: option.split)
qed

text \<open>C32: The \<open>-v\<close> arguments are accepted exactly when each is an identifier, an equals sign and a value,
  and are then assigned in their order: a value that \<open>float\<close> reads as a number, any other as it is, also
  when it has further equals signs.\<close>

theorem assignments_parsed:
  "parse_assignments xs = Inr vars \<longleftrightarrow>
     list_all2 (\<lambda>x (name, v). is_identifier name \<and> (\<exists>raw. x = name @ ''='' @ raw \<and> v = assigned_value raw)) xs vars"
proof -
  have "(parse_assignment x = Inr y) =
      (case y of (name, v) \<Rightarrow> is_identifier name \<and> (\<exists>raw. x = name @ ''='' @ raw \<and> v = assigned_value raw))" for x y
    by (cases y) (simp add: parse_assignment_iff)
  then show ?thesis by (simp add: parse_assignments_def map_each_ok)
qed

lemma assignment_values:
  "parse_assignments [''a=1_0.5e1'', ''b= -Inf '', ''c=x=1'', ''d=0x10''] =
     Inr [(''a'', NumberValue (False, Double 7388718138654720 (- 46))), (''b'', NumberValue (True, Infinity)),
          (''c'', StringValue ''x=1''), (''d'', StringValue ''0x10'')]"
  by code_simp

section \<open>A sample system\<close>

text \<open>Its state is the list of temporary names, a new name is longer than every other, and every tool ends
  with status zero and no output.\<close>

definition sample_args :: cli_args where
  "sample_args =
     \<lparr>ar_field_separator = None, ar_program_files = [], ar_assignments = [], ar_optimize = False, ar_version = False,
      ar_debug = False, ar_lex = False, ar_parse = False, ar_ir = False, ar_optimized_ir = False, ar_asm = False,
      ar_program = Some [], ar_files = []\<rparr>"

definition fresh_name :: "(string list, string) io" where
  "fresh_name names = (Inr (concat names @ ''x''), (concat names @ ''x'') # names)"

definition drop_name :: "string \<Rightarrow> (string list, unit) io" where
  "drop_name name names = (Inr (), filter (\<lambda>n. n \<noteq> name) names)"

text \<open>A system with the given operations on temporary files, on which every tool succeeds and prints nothing.\<close>

definition quiet_system ::
  "('w, string) io \<Rightarrow> (string \<Rightarrow> string \<Rightarrow> ('w, unit) io) \<Rightarrow> (string \<Rightarrow> ('w, unit) io) \<Rightarrow> (string \<Rightarrow> ('w, unit) io) \<Rightarrow> 'w system"
where
  "quiet_system create write remove_dir unlink =
     (let done = \<lparr>cp_returncode = 0, cp_stdout = [], cp_stderr = []\<rparr> in
      \<lparr>sys_parse_args = (\<lambda>argv. retI (sample_args\<lparr>ar_lex := argv \<noteq> []\<rparr>)), sys_environ = (\<lambda>_. None),
       sys_metadata_version = None, sys_package_directory = ''quawk'',
       sys_which = (\<lambda>name w. Some (''/usr/bin/'' @ name)),
       sys_run_captured = (\<lambda>cmd input. retI done), sys_run_inherited = (\<lambda>cmd. retI 0),
       sys_run_stdin_handle = (\<lambda>cmd. retI done), sys_run_stdin_bytes = (\<lambda>cmd input. retI done),
       sys_stdin_fileno = retI (), sys_stdin_has_buffer = (\<lambda>w. True),
       sys_stdin_read_bytes = retI [], sys_stdin_read_text = retI [],
       sys_read_text = (\<lambda>path. retI []), sys_write_text = write, sys_mkdir = (\<lambda>path. retI ()),
       sys_make_temp_dir = create, sys_remove_temp_dir = remove_dir,
       sys_make_temp_file = (\<lambda>suffix. create), sys_unlink = unlink,
       sys_write_stdout = (\<lambda>s. retI ()), sys_write_stderr = (\<lambda>s. retI ()), sys_warn = (\<lambda>s. retI ())\<rparr>)"

definition sample_system :: "string list system" where
  "sample_system = quiet_system fresh_name (\<lambda>path s. retI ()) drop_name drop_name"

lemma fresh_name_new: "concat names @ ''x'' \<notin> set names"
proof
  assume "concat names @ ''x'' \<in> set names"
  then have "length (concat names @ ''x'') \<le> sum_list (map length names)"
    by (intro member_le_sum_list) (simp_all del: length_append)
  then show False by (simp add: length_concat)
qed

lemma sample_ops:
  "frame R \<Longrightarrow> reads_ok P R sample_system" "frame R \<Longrightarrow> tools_ok P R sample_system"
  by (auto simp: reads_ok_def tools_ok_def sample_system_def quiet_system_def Let_def intro: io_ok_ret)

text \<open>The empty program.\<close>

lemma escaping_exceptions_witness:
  "fst (main sample_system [] []) = Inl (Raised IndexError) \<and> escapes (Raised IndexError)"
proof -
  have r: "system_raises ordinary_raise sample_system"
    by (simp add: system_raises_def sample_ops)
      (auto simp: sample_system_def quiet_system_def Let_def io_ok_def fresh_name_def drop_name_def)
  have "case fst (main sample_system [] []) of
      Inl e \<Rightarrow> escapes e \<or> (ar_debug (sample_args\<lparr>ar_lex := False\<rparr>)
        \<or> sys_environ sample_system ''QUAWK_DEBUG'' = Some ''1'') \<and> passed_on e
    | Inr _ \<Rightarrow> True"
    by (rule escaping_exceptions [OF r, where ?w1.0 = "[]"])
      (auto simp: sample_system_def quiet_system_def Let_def normalize_arguments_def retI_def io_ok_def sample_args_def)
  moreover have "fst (main sample_system [] []) = Inl (Raised IndexError)"
  proof -
    have "(case lex_program (from_inline 0 []) of Inl _ \<Rightarrow> False | Inr toks \<Rightarrow> parse toks = Inl IndexError)"
      by code_simp
    then obtain toks where "lex_program (from_inline 0 []) = Inr toks" "parse toks = Inl IndexError"
      by (auto split: sum.splits)
    then show ?thesis
      by (simp add: main_def sample_system_def quiet_system_def Let_def normalize_arguments_def sample_args_def reclassify_def
          run_stages_def parse_assignments_def load_program_source_def)
        (simp add: catchI_def raiseI_def)
  qed
  ultimately show ?thesis by simp
qed

text \<open>A system whose disk is full and whose files are locked: it logs the names of the failed calls.\<close>

type_synonym full_disk = "string list \<times> string list"

definition log_failure :: "string \<Rightarrow> (full_disk, unit) io" where
  "log_failure name w = (Inl (OSError None name), (fst w, snd w @ [name]))"

definition full_disk_system :: "full_disk system" where
  "full_disk_system =
     quiet_system (\<lambda>w. case fresh_name (fst w) of (r, names) \<Rightarrow> (r, (names, snd w)))
       (\<lambda>path s. log_failure path) (\<lambda>name w. case drop_name name (fst w) of (r, names) \<Rightarrow> (r, (names, snd w))) log_failure"

lemma full_disk_laws: "tempfile_laws (\<lambda>w. set (fst w)) snd full_disk_system"
proof -
  let ?live = "\<lambda>w :: full_disk. set (fst w)"
  have "creates ?live snd (\<lambda>w. case fresh_name (fst w) of (r, names) \<Rightarrow> (r, (names, snd w)))"
    by (simp add: creates_def fresh_name_def) (use fresh_name_new in auto)
  moreover have "removes ?live snd (\<lambda>name w. case drop_name name (fst w) of (r, names) \<Rightarrow> (r, (names, snd w)))"
    "removes ?live snd log_failure"
    by (auto simp: removes_def drop_name_def log_failure_def)
  moreover have "writes ?live snd (\<lambda>path s. log_failure path)"
    by (simp add: writes_def log_failure_def)
  moreover have "frame (unchanged_files ?live snd)" by (simp add: unchanged_files_def)
  ultimately show ?thesis
    unfolding tempfile_laws_def reads_ok_def tools_ok_def full_disk_system_def quiet_system_def Let_def
    by (auto intro: io_ok_ret)
qed

lemma temporary_files_removed_witness:
  "let (names, failures) = snd (main full_disk_system [] ([''kept''], []))
   in ''kept'' \<in> set names \<and> set names \<subseteq> {''kept''} \<union> set failures"
  using temporary_files_removed [OF full_disk_laws, of "[]" "([''kept''], [])"] by auto

text \<open>\<open>--lex\<close> runs no tool, here seen as creating no names.\<close>

lemma rejected_programs_run_nothing_witness: "length (snd (main sample_system [''--lex''] [])) = 0"
proof -
  have "length (snd (main sample_system [''--lex''] [])) = length ([] :: string list)"
    by (rule rejected_programs_run_nothing [where runs = length and args = "sample_args\<lparr>ar_lex := True\<rparr>"
          and ?w1.0 = "[]" and ?w2.0 = "[]" and src = "from_inline 0 []", OF sample_ops(1) [OF frame_same]])
      (simp_all add: sample_system_def quiet_system_def Let_def normalize_arguments_def sample_args_def reclassify_def
        load_program_source_def retI_def)
  then show ?thesis by simp
qed

end
