(* ===== verification/Ir_Machine.thy ===== *)
theory Ir_Machine
  imports Runtime_Abi "HOL-Library.Sublist"
begin

text \<open>
  A machine for the lines that the backend emits for numeric code: what the LLVM reference manual says of
  the arithmetic, comparisons, selects, casts, loads, stores, branches and phis on \<open>double\<close> and \<open>i1\<close>.  The
  floating-point operations, the reading of literals included, are a parameter.  A call of a runtime
  function without a result is an event of the trace, with the values of its operands.
\<close>

section \<open>Values\<close>

record 'f float_ops =
  fo_add :: "'f \<Rightarrow> 'f \<Rightarrow> 'f"
  fo_sub :: "'f \<Rightarrow> 'f \<Rightarrow> 'f"
  fo_mul :: "'f \<Rightarrow> 'f \<Rightarrow> 'f"
  fo_div :: "'f \<Rightarrow> 'f \<Rightarrow> 'f"
  fo_pow :: "'f \<Rightarrow> 'f \<Rightarrow> 'f"
  fo_trunc :: "'f \<Rightarrow> 'f"
  fo_less :: "'f \<Rightarrow> 'f \<Rightarrow> bool"
  fo_less_equal :: "'f \<Rightarrow> 'f \<Rightarrow> bool"
  fo_equal :: "'f \<Rightarrow> 'f \<Rightarrow> bool"
  fo_unequal :: "'f \<Rightarrow> 'f \<Rightarrow> bool"
  fo_of_bit :: "bool \<Rightarrow> 'f"
  fo_number :: "py_float \<Rightarrow> 'f"
  fo_read :: "string \<Rightarrow> 'f option"

text \<open>A pointer: to the runtime, to the state record, to one of its fields, to a cell of the frame.\<close>

datatype location = Runtime | State | Field string | Cell string

datatype 'f val = Num 'f | Bit bool | Addr location

type_synonym 'f registers = "string \<rightharpoonup> 'f val"
type_synonym 'f memory = "location \<rightharpoonup> 'f"

text \<open>An operand is a register or a constant.\<close>

definition is_register :: "string \<Rightarrow> bool" where
  "is_register x \<longleftrightarrow> take 1 x = ''%''"

definition constant_value :: "'f float_ops \<Rightarrow> string \<Rightarrow> 'f val option" where
  "constant_value ops x =
     (if x = ''true'' then Some (Bit True) else if x = ''false'' then Some (Bit False)
      else map_option Num (fo_read ops x))"

definition operand_value :: "'f float_ops \<Rightarrow> 'f registers \<Rightarrow> string \<Rightarrow> 'f val option" where
  "operand_value ops regs x = (if is_register x then regs x else constant_value ops x)"

section \<open>Instructions\<close>

text \<open>The text of an instruction with its operands left out, and the operands.\<close>

fun skeleton :: "piece list \<Rightarrow> string" where
  "skeleton [] = []"
| "skeleton (Txt t # ps) = t @ skeleton ps"
| "skeleton (Opd _ # ps) = ''_'' @ skeleton ps"

fun operands_of :: "piece list \<Rightarrow> string list" where
  "operands_of [] = []"
| "operands_of (Txt _ # ps) = operands_of ps"
| "operands_of (Opd x # ps) = x # operands_of ps"

fun all_some :: "'a option list \<Rightarrow> 'a list option" where
  "all_some [] = Some []"
| "all_some (None # _) = None"
| "all_some (Some x # xs) = map_option ((#) x) (all_some xs)"

definition operand_values :: "'f float_ops \<Rightarrow> 'f registers \<Rightarrow> piece list \<Rightarrow> 'f val list option" where
  "operand_values ops regs ps = all_some (map (operand_value ops regs) (operands_of ps))"

definition arithmetic_instructions :: "'f float_ops \<Rightarrow> (string \<times> ('f \<Rightarrow> 'f \<Rightarrow> 'f)) list" where
  "arithmetic_instructions ops =
     [(''fadd double _, _'', fo_add ops), (''fsub double _, _'', fo_sub ops),
      (''fmul double _, _'', fo_mul ops), (''fdiv double _, _'', fo_div ops),
      (''call double @llvm.pow.f64(double _, double _)'', fo_pow ops)]"

text \<open>The comparisons are the ordered ones.\<close>

definition comparison_instructions :: "'f float_ops \<Rightarrow> (string \<times> ('f \<Rightarrow> 'f \<Rightarrow> bool)) list" where
  "comparison_instructions ops =
     [(''fcmp olt double _, _'', fo_less ops), (''fcmp ole double _, _'', fo_less_equal ops),
      (''fcmp ogt double _, _'', \<lambda>x y. fo_less ops y x), (''fcmp oge double _, _'', \<lambda>x y. fo_less_equal ops y x),
      (''fcmp oeq double _, _'', fo_equal ops), (''fcmp one double _, _'', fo_unequal ops)]"

definition state_field_text :: string where
  "state_field_text = ''getelementptr inbounds %quawk.state, ptr _, i32 0, i32 ''"

text \<open>The value that a line gives to its register \<open>t\<close>.\<close>

fun instruction :: "'f float_ops \<Rightarrow> 'f memory \<Rightarrow> string \<Rightarrow> string \<Rightarrow> 'f val list \<Rightarrow> 'f val option" where
  "instruction ops mem t text [] = (if text = ''alloca double'' then Some (Addr (Cell t)) else None)"
| "instruction ops mem t text [Num x] =
     (if text = ''call double @llvm.trunc.f64(double _)'' then Some (Num (fo_trunc ops x)) else None)"
| "instruction ops mem t text [Bit b] =
     (if text = ''uitofp i1 _ to double'' then Some (Num (fo_of_bit ops b)) else None)"
| "instruction ops mem t text [Addr l] =
     (if text = ''load double, ptr _'' then map_option Num (mem l)
      else if l = State \<and> prefix state_field_text text
      then Some (Addr (Field (drop (length state_field_text) text)))
      else None)"
| "instruction ops mem t text [Num x, Num y] =
     (case map_of (arithmetic_instructions ops) text of
        Some f \<Rightarrow> Some (Num (f x y))
      | None \<Rightarrow> map_option (\<lambda>f. Bit (f x y)) (map_of (comparison_instructions ops) text))"
| "instruction ops mem t text [Bit b, Num x, Num y] =
     (if text = ''select i1 _, double _, double _'' then Some (Num (if b then x else y)) else None)"
| "instruction ops mem t text [Bit b, Bit x, Bit y] =
     (if text = ''select i1 _, i1 _, i1 _'' then Some (Bit (if b then x else y)) else None)"
| "instruction ops mem t text _ = None"

definition rhs_value :: "'f float_ops \<Rightarrow> 'f registers \<Rightarrow> 'f memory \<Rightarrow> string \<Rightarrow> piece list \<Rightarrow> 'f val option" where
  "rhs_value ops regs mem t ps =
     (case operand_values ops regs ps of None \<Rightarrow> None | Some vs \<Rightarrow> instruction ops mem t (skeleton ps) vs)"

section \<open>Steps\<close>

type_synonym 'f call_event = "string \<times> 'f val list"

record 'f machine =
  ms_pc :: nat
  ms_block :: string
  ms_from :: string
  ms_regs :: "'f registers"
  ms_mem :: "'f memory"
  ms_trace :: "'f call_event list"

fun find_label :: "string \<Rightarrow> line list \<Rightarrow> nat option" where
  "find_label l [] = None"
| "find_label l (x # xs) = (if x = Lab l then Some 0 else map_option Suc (find_label l xs))"

definition jump :: "line list \<Rightarrow> string \<Rightarrow> 'f machine \<Rightarrow> 'f machine option" where
  "jump P l c =
     map_option (\<lambda>i. c\<lparr>ms_pc := Suc i, ms_block := l, ms_from := ms_block c\<rparr>) (find_label l P)"

definition define_register :: "string \<Rightarrow> 'f val option \<Rightarrow> 'f machine \<Rightarrow> 'f machine option" where
  "define_register t v c =
     map_option (\<lambda>x. c\<lparr>ms_pc := Suc (ms_pc c), ms_regs := (ms_regs c)(t \<mapsto> x)\<rparr>) v"

text \<open>A store to a field or a cell, or an event.\<close>

definition perform :: "string \<Rightarrow> 'f val list \<Rightarrow> 'f machine \<Rightarrow> 'f machine option" where
  "perform text vs c =
     (if text = ''store double _, ptr _''
      then (case vs of
              [Num x, Addr l] \<Rightarrow>
                if l = Runtime \<or> l = State then None
                else Some (c\<lparr>ms_pc := Suc (ms_pc c), ms_mem := (ms_mem c)(l \<mapsto> x)\<rparr>)
            | _ \<Rightarrow> None)
      else if prefix ''call void @'' text
      then Some (c\<lparr>ms_pc := Suc (ms_pc c), ms_trace := ms_trace c @ [(text, vs)]\<rparr>)
      else None)"

text \<open>A label is entered by a branch only, and a phi looks at the block that the branch came from.\<close>

definition step :: "'f float_ops \<Rightarrow> line list \<Rightarrow> 'f machine \<Rightarrow> 'f machine option" where
  "step ops P c =
     (if ms_pc c < length P
      then (case P ! ms_pc c of
              Def t ps \<Rightarrow> define_register t (rhs_value ops (ms_regs c) (ms_mem c) t ps) c
            | Phi t _ incomings \<Rightarrow>
                define_register t
                  (case map_of (map prod.swap incomings) (ms_from c) of
                     None \<Rightarrow> None
                   | Some x \<Rightarrow> operand_value ops (ms_regs c) x) c
            | Eff ps \<Rightarrow>
                (case operand_values ops (ms_regs c) ps of
                   None \<Rightarrow> None
                 | Some vs \<Rightarrow> perform (skeleton ps) vs c)
            | Br l \<Rightarrow> jump P l c
            | CondBr x l1 l2 \<Rightarrow>
                (case operand_value ops (ms_regs c) x of
                   Some (Bit b) \<Rightarrow> jump P (if b then l1 else l2) c
                 | _ \<Rightarrow> None)
            | Lab _ \<Rightarrow> None
            | Ret _ \<Rightarrow> None)
      else None)"

text \<open>A number of steps.\<close>

primrec machine_steps :: "'f float_ops \<Rightarrow> line list \<Rightarrow> nat \<Rightarrow> 'f machine \<Rightarrow> 'f machine option" where
  "machine_steps ops P 0 c = Some c"
| "machine_steps ops P (Suc n) c = Option.bind (step ops P c) (machine_steps ops P n)"

lemma steps_add: "machine_steps ops P (m + n) c = Option.bind (machine_steps ops P m c) (machine_steps ops P n)"
  by (induction m arbitrary: c) (auto split: bind_splits)

lemma steps_one: "machine_steps ops P (Suc 0) c = step ops P c"
  by (cases "step ops P c") simp_all

definition reaches :: "'f float_ops \<Rightarrow> line list \<Rightarrow> 'f machine \<Rightarrow> 'f machine \<Rightarrow> bool" where
  "reaches ops P c c' \<longleftrightarrow> (\<exists>n. machine_steps ops P n c = Some c')"

lemma reaches_refl [simp]: "reaches ops P c c"
  unfolding reaches_def by (metis machine_steps.simps(1))

lemma reaches_trans [trans]: "reaches ops P c c' \<Longrightarrow> reaches ops P c' c'' \<Longrightarrow> reaches ops P c c''"
  unfolding reaches_def by (metis bind.bind_lunit steps_add)

lemma reaches_one: "step ops P c = Some c' \<Longrightarrow> reaches ops P c c'"
  unfolding reaches_def by (metis steps_one)

lemma reaches_step: "step ops P c = Some c' \<Longrightarrow> reaches ops P c' c'' \<Longrightarrow> reaches ops P c c''"
  using reaches_one reaches_trans by blast

text \<open>A run that goes on for at least \<open>n\<close> steps, and a machine that stops.\<close>

definition runs_on :: "'f float_ops \<Rightarrow> line list \<Rightarrow> nat \<Rightarrow> 'f machine \<Rightarrow> bool" where
  "runs_on ops P n c \<longleftrightarrow> machine_steps ops P n c \<noteq> None"

lemma steps_initial: "machine_steps ops P (m + n) c \<noteq> None \<Longrightarrow> machine_steps ops P m c \<noteq> None"
  by (auto simp: steps_add bind_eq_Some_conv)

lemma runs_on_less: "runs_on ops P n c \<Longrightarrow> m \<le> n \<Longrightarrow> runs_on ops P m c"
  unfolding runs_on_def by (metis le_add_diff_inverse steps_initial)

lemma runs_on_reaches:
  assumes "reaches ops P c c'" "runs_on ops P n c'"
  shows "runs_on ops P n c"
proof -
  obtain m where "machine_steps ops P m c = Some c'" using assms(1) by (auto simp: reaches_def)
  then have "runs_on ops P (m + n) c" using assms(2) by (simp add: runs_on_def steps_add)
  then show ?thesis by (rule runs_on_less) simp
qed

lemma runs_on_Suc:
  assumes "step ops P c = Some c'" "reaches ops P c' c''" "runs_on ops P n c''"
  shows "runs_on ops P (Suc n) c"
  using runs_on_reaches [OF assms(2,3)] assms(1) by (simp add: runs_on_def)

section \<open>The forms of the emitted instructions\<close>

text \<open>A right-hand side whose operands have values.\<close>

lemma rhs_valueI:
  "operand_values ops regs ps = Some vs \<Longrightarrow> instruction ops mem t (skeleton ps) vs = v
     \<Longrightarrow> rhs_value ops regs mem t ps = v"
  by (simp add: rhs_value_def)

lemmas pieces_simps =
  binop_rhs_def load_rhs_def store_text_def select_rhs_def cast_rhs_def call_rhs_def operand_values_def

lemma value_arithmetic:
  assumes "operand_value ops regs x = Some (Num u)" "operand_value ops regs y = Some (Num v)"
  shows "rhs_value ops regs mem t (binop_rhs ''fadd'' ''double'' x y) = Some (Num (fo_add ops u v))"
    "rhs_value ops regs mem t (binop_rhs ''fsub'' ''double'' x y) = Some (Num (fo_sub ops u v))"
    "rhs_value ops regs mem t (binop_rhs ''fmul'' ''double'' x y) = Some (Num (fo_mul ops u v))"
    "rhs_value ops regs mem t (binop_rhs ''fdiv'' ''double'' x y) = Some (Num (fo_div ops u v))"
    "rhs_value ops regs mem t (call_rhs ''double'' ''@llvm.pow.f64'' [(''double'', x), (''double'', y)])
       = Some (Num (fo_pow ops u v))"
  using assms by (simp_all add: rhs_value_def pieces_simps arithmetic_instructions_def)

lemma value_trunc:
  "operand_value ops regs x = Some (Num u) \<Longrightarrow>
     rhs_value ops regs mem t (call_rhs ''double'' ''@llvm.trunc.f64'' [(''double'', x)])
       = Some (Num (fo_trunc ops u))"
  by (simp add: rhs_value_def pieces_simps)

lemma value_comparison:
  assumes "operand_value ops regs x = Some (Num u)" "operand_value ops regs y = Some (Num v)"
  shows "rhs_value ops regs mem t (binop_rhs (''fcmp '' @ p) ''double'' x y)
    = map_option (\<lambda>f. Bit (f u v)) (map_of
        [(''olt'', fo_less ops), (''ole'', fo_less_equal ops), (''ogt'', \<lambda>x y. fo_less ops y x),
         (''oge'', \<lambda>x y. fo_less_equal ops y x), (''oeq'', fo_equal ops), (''one'', fo_unequal ops)] p)"
  using assms by (simp add: rhs_value_def pieces_simps arithmetic_instructions_def comparison_instructions_def)

end
