(* ===== verification/Core_Semantics.thy ===== *)
theory Core_Semantics
  imports Ir_Machine Lower_Stmt
begin

text \<open>
  What numeric programs mean: an interpreter for the expressions and statements whose values are numbers
  kept in the state record or in the frame, and the predicates that say which these are.  The interpreter
  follows the order of evaluation of the language and knows nothing of the lowering; loops take a bound on
  the number of their rounds, and \<open>None\<close> is a run that has not ended within it.
\<close>

section \<open>Expressions\<close>

type_synonym 'f env = "string \<Rightarrow> 'f"

fun arithmetic_value :: "'f float_ops \<Rightarrow> binary_op \<Rightarrow> 'f \<Rightarrow> 'f \<Rightarrow> 'f" where
  "arithmetic_value ops OpAdd x y = fo_add ops x y"
| "arithmetic_value ops OpSub x y = fo_sub ops x y"
| "arithmetic_value ops OpMul x y = fo_mul ops x y"
| "arithmetic_value ops OpDiv x y = fo_div ops x y"
| "arithmetic_value ops OpMod x y = fo_sub ops x (fo_mul ops (fo_trunc ops (fo_div ops x y)) y)"
| "arithmetic_value ops _ x y = fo_pow ops x y"

fun comparison_value :: "'f float_ops \<Rightarrow> binary_op \<Rightarrow> 'f \<Rightarrow> 'f \<Rightarrow> bool" where
  "comparison_value ops OpLess x y = fo_less ops x y"
| "comparison_value ops OpLessEqual x y = fo_less_equal ops x y"
| "comparison_value ops OpGreater x y = fo_less ops y x"
| "comparison_value ops OpGreaterEqual x y = fo_less_equal ops y x"
| "comparison_value ops OpEqual x y = fo_equal ops x y"
| "comparison_value ops _ x y = fo_unequal ops x y"

fun updated_value :: "'f float_ops \<Rightarrow> assign_op \<Rightarrow> 'f \<Rightarrow> 'f \<Rightarrow> 'f" where
  "updated_value ops AssignPlain old new = new"
| "updated_value ops AssignAdd old new = arithmetic_value ops OpAdd old new"
| "updated_value ops AssignSub old new = arithmetic_value ops OpSub old new"
| "updated_value ops AssignMul old new = arithmetic_value ops OpMul old new"
| "updated_value ops AssignDiv old new = arithmetic_value ops OpDiv old new"
| "updated_value ops AssignMod old new = arithmetic_value ops OpMod old new"
| "updated_value ops AssignPow old new = arithmetic_value ops OpPow old new"

definition zero_of :: "'f float_ops \<Rightarrow> 'f" where
  "zero_of ops = fo_of_bit ops False"

definition one_of :: "'f float_ops \<Rightarrow> 'f" where
  "one_of ops = fo_of_bit ops True"

definition is_true :: "'f float_ops \<Rightarrow> 'f \<Rightarrow> bool" where
  "is_true ops x = fo_unequal ops x (zero_of ops)"

definition incremented :: "'f float_ops \<Rightarrow> bool \<Rightarrow> 'f \<Rightarrow> 'f" where
  "incremented ops up x = (if up then fo_add ops x (one_of ops) else fo_sub ops x (one_of ops))"

definition increment_value :: "'f float_ops \<Rightarrow> bool \<Rightarrow> bool \<Rightarrow> expr \<Rightarrow> 'f env \<Rightarrow> 'f \<times> 'f env" where
  "increment_value ops up return_old operand \<rho> =
     (case operand of
        NameExpr x _ \<Rightarrow>
          (if return_old then \<rho> x else incremented ops up (\<rho> x), \<rho>(x := incremented ops up (\<rho> x)))
      | _ \<Rightarrow> (zero_of ops, \<rho>))"

text \<open>The value and the variables afterwards.  A compound assignment takes the value of its target before
  it evaluates the right-hand side.\<close>

fun eval :: "'f float_ops \<Rightarrow> expr \<Rightarrow> 'f env \<Rightarrow> 'f \<times> 'f env" where
  "eval ops (NumericLiteralExpr v _ _) \<rho> = (fo_number ops v, \<rho>)"
| "eval ops (NameExpr x _) \<rho> = (\<rho> x, \<rho>)"
| "eval ops (AssignExpr target op e _) \<rho> =
     (case target of
        NameLValue x _ \<Rightarrow>
          let (v, \<rho>1) = eval ops e \<rho>; w = updated_value ops op (\<rho> x) v in (w, \<rho>1(x := w))
      | _ \<Rightarrow> (zero_of ops, \<rho>))"
| "eval ops (UnaryExpr op e _) \<rho> =
     (case op of
        UPlus \<Rightarrow> eval ops e \<rho>
      | UMinus \<Rightarrow> (let (v, \<rho>1) = eval ops e \<rho> in (fo_sub ops (zero_of ops) v, \<rho>1))
      | UNot \<Rightarrow> (let (v, \<rho>1) = eval ops e \<rho> in (fo_of_bit ops (\<not> is_true ops v), \<rho>1))
      | PreInc \<Rightarrow> increment_value ops True False e \<rho>
      | PreDec \<Rightarrow> increment_value ops False False e \<rho>)"
| "eval ops (PostfixExpr e op _) \<rho> = increment_value ops (op = PostInc) True e \<rho>"
| "eval ops (BinaryExpr l op r _) \<rho> =
     (let (v, \<rho>1) = eval ops l \<rho> in
      if op = OpLogicalAnd
      then (if is_true ops v then let (w, \<rho>2) = eval ops r \<rho>1 in (fo_of_bit ops (is_true ops w), \<rho>2)
            else (fo_of_bit ops False, \<rho>1))
      else if op = OpLogicalOr
      then (if is_true ops v then (fo_of_bit ops True, \<rho>1)
            else let (w, \<rho>2) = eval ops r \<rho>1 in (fo_of_bit ops (is_true ops w), \<rho>2))
      else let (w, \<rho>2) = eval ops r \<rho>1 in
           (if is_arithmetic_op op then arithmetic_value ops op v w
            else fo_of_bit ops (comparison_value ops op v w), \<rho>2))"
| "eval ops (ConditionalExpr test if_true if_false _) \<rho> =
     (let (v, \<rho>1) = eval ops test \<rho> in
      if is_true ops v then eval ops if_true \<rho>1 else eval ops if_false \<rho>1)"
| "eval ops _ \<rho> = (zero_of ops, \<rho>)"

section \<open>Statements\<close>

datatype outcome = Done | Broke | Continued

datatype 'f printed_item = Printed 'f | Separator | RecordSeparator

type_synonym 'f run = "(outcome \<times> 'f env \<times> 'f printed_item list) option"

text \<open>At most \<open>k\<close> rounds of a loop with the given test, body and step.\<close>

primrec rounds ::
  "nat \<Rightarrow> ('f env \<Rightarrow> bool \<times> 'f env) \<Rightarrow> ('f env \<Rightarrow> 'f run) \<Rightarrow> ('f env \<Rightarrow> 'f env) \<Rightarrow> 'f env \<Rightarrow> 'f run"
where
  "rounds 0 test body after \<rho> = None"
| "rounds (Suc k) test body after \<rho> =
     (let (b, \<rho>1) = test \<rho> in
      if \<not> b then Some (Done, \<rho>1, [])
      else case body \<rho>1 of
             None \<Rightarrow> None
           | Some (result, \<rho>2, out) \<Rightarrow>
               if result = Broke then Some (Done, \<rho>2, out)
               else case rounds k test body after (after \<rho>2) of
                      None \<Rightarrow> None
                    | Some (result', \<rho>3, out') \<Rightarrow> Some (result', \<rho>3, out @ out'))"

definition then_run :: "'f run \<Rightarrow> ('f env \<Rightarrow> 'f run) \<Rightarrow> 'f run" where
  "then_run r next_run =
     (case r of
        None \<Rightarrow> None
      | Some (result, \<rho>, out) \<Rightarrow>
          if result \<noteq> Done then r
          else case next_run \<rho> of
                 None \<Rightarrow> None
               | Some (result', \<rho>', out') \<Rightarrow> Some (result', \<rho>', out @ out'))"

definition test_value :: "'f float_ops \<Rightarrow> expr \<Rightarrow> 'f env \<Rightarrow> bool \<times> 'f env" where
  "test_value ops e \<rho> = (let (v, \<rho>1) = eval ops e \<rho> in (is_true ops v, \<rho>1))"

definition effects_of :: "'f float_ops \<Rightarrow> expr list \<Rightarrow> 'f env \<Rightarrow> 'f env" where
  "effects_of ops es \<rho> = fold (\<lambda>e \<rho>. snd (eval ops e \<rho>)) es \<rho>"

text \<open>The arguments of \<open>print\<close>, with a separator before each but the first.\<close>

fun printed :: "'f float_ops \<Rightarrow> bool \<Rightarrow> expr list \<Rightarrow> 'f env \<Rightarrow> 'f printed_item list \<times> 'f env" where
  "printed ops first [] \<rho> = ([], \<rho>)"
| "printed ops first (e # es) \<rho> =
     (let (v, \<rho>1) = eval ops e \<rho>; (out, \<rho>2) = printed ops False es \<rho>1 in
      ((if first then [] else [Separator]) @ Printed v # out, \<rho>2))"

text \<open>As a statement, a compound assignment takes the value of its target after the right-hand side; the
  two forms of the assignment differ in this in the program.\<close>

fun run_statement :: "'f float_ops \<Rightarrow> nat \<Rightarrow> stmt \<Rightarrow> 'f env \<Rightarrow> 'f run"
and run_statements :: "'f float_ops \<Rightarrow> nat \<Rightarrow> stmt list \<Rightarrow> 'f env \<Rightarrow> 'f run"
where
  "run_statement ops n (AssignStmt target op e _) \<rho> =
     (case target of
        NameLValue x _ \<Rightarrow>
          let (v, \<rho>1) = eval ops e \<rho> in Some (Done, \<rho>1(x := updated_value ops op (\<rho>1 x) v), [])
      | _ \<Rightarrow> Some (Done, \<rho>, []))"
| "run_statement ops n (ExprStmt e _) \<rho> = Some (Done, snd (eval ops e \<rho>), [])"
| "run_statement ops n (PrintStmt es _ _) \<rho> =
     (let (out, \<rho>1) = printed ops True es \<rho> in Some (Done, \<rho>1, out @ [RecordSeparator]))"
| "run_statement ops n (BlockStmt statements _) \<rho> = run_statements ops n statements \<rho>"
| "run_statement ops n (IfStmt test then_branch else_branch _) \<rho> =
     (let (b, \<rho>1) = test_value ops test \<rho> in
      if b then run_statement ops n then_branch \<rho>1
      else case else_branch of None \<Rightarrow> Some (Done, \<rho>1, []) | Some st \<Rightarrow> run_statement ops n st \<rho>1)"
| "run_statement ops n (WhileStmt test body _) \<rho> =
     rounds n (test_value ops test) (run_statement ops n body) (\<lambda>\<rho>. \<rho>) \<rho>"
| "run_statement ops n (DoWhileStmt body test _) \<rho> =
     (case run_statement ops n body \<rho> of
        None \<Rightarrow> None
      | Some (result, \<rho>1, out) \<Rightarrow>
          if result = Broke then Some (Done, \<rho>1, out)
          else then_run (Some (Done, \<rho>1, out))
                 (rounds n (test_value ops test) (run_statement ops n body) (\<lambda>\<rho>. \<rho>)))"
| "run_statement ops n (ForStmt init test update body _) \<rho> =
     rounds n (case test of None \<Rightarrow> Pair True | Some e \<Rightarrow> test_value ops e) (run_statement ops n body)
       (effects_of ops update) (effects_of ops init \<rho>)"
| "run_statement ops n (BreakStmt _) \<rho> = Some (Broke, \<rho>, [])"
| "run_statement ops n (ContinueStmt _) \<rho> = Some (Continued, \<rho>, [])"
| "run_statement ops n _ \<rho> = Some (Done, \<rho>, [])"
| "run_statements ops n [] \<rho> = Some (Done, \<rho>, [])"
| "run_statements ops n (statement # statements) \<rho> =
     then_run (run_statement ops n statement \<rho>) (run_statements ops n statements)"

section \<open>The core of the language\<close>

text \<open>A name whose value is a double in the state record or in the frame.\<close>

definition core_name :: "lowering_state \<Rightarrow> string \<Rightarrow> bool" where
  "core_name s x \<longleftrightarrow>
     runtime_name_uses_numeric_slot_state x s \<and> map_of (ls_variable_indexes s) x \<noteq> None"

definition core_target :: "lowering_state \<Rightarrow> expr \<Rightarrow> bool" where
  "core_target s e = (case e of NameExpr x _ \<Rightarrow> core_name s x | _ \<Rightarrow> False)"

text \<open>The literal is written such that reading it gives the number.\<close>

definition exact_literal :: "'f float_ops \<Rightarrow> py_float \<Rightarrow> bool" where
  "exact_literal ops v \<longleftrightarrow>
     (let x = format_double_literal (False, v) in
      \<not> is_register x \<and> constant_value ops x = Some (Num (fo_number ops v)))"

text \<open>An expression whose lowering opens no block.\<close>

fun one_block :: "lowering_state \<Rightarrow> expr \<Rightarrow> bool" where
  "one_block s (AssignExpr _ _ e _) = one_block s e"
| "one_block s (UnaryExpr _ e _) = one_block s e"
| "one_block s (BinaryExpr l op r _) \<longleftrightarrow>
     op \<noteq> OpLogicalAnd \<and> op \<noteq> OpLogicalOr \<and> one_block s l \<and> one_block s r"
| "one_block s (ConditionalExpr test if_true if_false _) \<longleftrightarrow>
     \<not> runtime_expression_has_side_effects if_true s \<and> \<not> runtime_expression_has_side_effects if_false s
     \<and> one_block s test \<and> one_block s if_true \<and> one_block s if_false"
| "one_block s _ = True"

fun core :: "'f float_ops \<Rightarrow> lowering_state \<Rightarrow> expr \<Rightarrow> bool" where
  "core ops s (NumericLiteralExpr v _ _) = exact_literal ops v"
| "core ops s (NameExpr x _) = core_name s x"
| "core ops s (AssignExpr target _ e _) =
     (case target of NameLValue x _ \<Rightarrow> core_name s x \<and> core ops s e | _ \<Rightarrow> False)"
| "core ops s (UnaryExpr op e _) = (if op = PreInc \<or> op = PreDec then core_target s e else core ops s e)"
| "core ops s (PostfixExpr e _ _) = core_target s e"
| "core ops s (BinaryExpr l op r _) \<longleftrightarrow>
     core ops s l \<and> core ops s r
     \<and> (is_arithmetic_op op \<or> op = OpLogicalAnd \<or> op = OpLogicalOr
        \<or> is_comparison_op op \<and> runtime_expression_is_definitely_numeric l s
          \<and> runtime_expression_is_definitely_numeric r s)"
| "core ops s (ConditionalExpr test if_true if_false _) \<longleftrightarrow>
     core ops s test \<and> core ops s if_true \<and> core ops s if_false
     \<and> (runtime_expression_has_side_effects if_true s \<or> runtime_expression_has_side_effects if_false s
        \<longrightarrow> one_block s if_true \<and> one_block s if_false)"
| "core ops s _ = False"

fun core_statement :: "'f float_ops \<Rightarrow> lowering_state \<Rightarrow> bool \<Rightarrow> stmt \<Rightarrow> bool" where
  "core_statement ops s in_loop (AssignStmt target _ e _) =
     (case target of NameLValue x _ \<Rightarrow> core_name s x \<and> core ops s e | _ \<Rightarrow> False)"
| "core_statement ops s in_loop (ExprStmt e _) = core ops s e"
| "core_statement ops s in_loop (PrintStmt es _ redirect) \<longleftrightarrow>
     redirect = None \<and> es \<noteq> [] \<and> list_all (core ops s) es"
| "core_statement ops s in_loop (BlockStmt statements _) = list_all (core_statement ops s in_loop) statements"
| "core_statement ops s in_loop (IfStmt test then_branch else_branch _) \<longleftrightarrow>
     core ops s test \<and> core_statement ops s in_loop then_branch
     \<and> (case else_branch of None \<Rightarrow> True | Some st \<Rightarrow> core_statement ops s in_loop st)"
| "core_statement ops s in_loop (WhileStmt test body _) \<longleftrightarrow> core ops s test \<and> core_statement ops s True body"
| "core_statement ops s in_loop (DoWhileStmt body test _) \<longleftrightarrow> core ops s test \<and> core_statement ops s True body"
| "core_statement ops s in_loop (ForStmt init test update body _) \<longleftrightarrow>
     list_all (core ops s) init \<and> (case test of None \<Rightarrow> True | Some e \<Rightarrow> core ops s e)
     \<and> list_all (core ops s) update \<and> core_statement ops s True body"
| "core_statement ops s in_loop (BreakStmt _) = in_loop"
| "core_statement ops s in_loop (ContinueStmt _) = in_loop"
| "core_statement ops s in_loop _ = False"

end
