(* ===== verification/Code_Simulation.thy ===== *)
theory Code_Simulation
  imports Core_Semantics Lowered_Program
begin

text \<open>
  How emitted code simulates the interpreter: where the variables are, what is known of operands, and the
  judgement that a lowering function succeeds and that the machine, wherever the emitted lines stand in a
  function, runs through them with the effect of the interpreter.  One rule per primitive step.
\<close>

section \<open>The predicates read the context only\<close>

lemma context_fields [simp]:
  "ls_runtime_param (context_of s) = ls_runtime_param s" "ls_state_param (context_of s) = ls_state_param s"
  "ls_variable_indexes (context_of s) = ls_variable_indexes s"
  "ls_slot_allocation (context_of s) = ls_slot_allocation s" "ls_type_info (context_of s) = ls_type_info s"
  "ls_loop_string_bindings (context_of s) = ls_loop_string_bindings s"
  "ls_function_param_strings (context_of s) = ls_function_param_strings s"
  "ls_function_defs (context_of s) = ls_function_defs s"
  "ls_local_numeric_names (context_of s) = ls_local_numeric_names s"
  "ls_break_label (context_of s) = ls_break_label s" "ls_continue_label (context_of s) = ls_continue_label s"
  by (simp_all add: context_of_def)

lemmas name_predicates =
  runtime_name_slot_index_def runtime_name_uses_scalar_runtime_def runtime_name_is_inferred_numeric_def
  runtime_name_is_inferred_string_def runtime_name_uses_numeric_slot_state_def
  runtime_name_uses_local_numeric_storage_def runtime_name_uses_string_slot_runtime_def
  runtime_name_uses_slot_cached_runtime_def runtime_name_uses_only_scalar_runtime_def

lemma names_read_context:
  "runtime_name_uses_numeric_slot_state x (context_of s) = runtime_name_uses_numeric_slot_state x s"
  "runtime_name_uses_local_numeric_storage x (context_of s) = runtime_name_uses_local_numeric_storage x s"
  "core_name (context_of s) x = core_name s x"
  by (simp_all add: name_predicates core_name_def cong: option.case_cong)

lemma numeric_reads_context:
  "runtime_expression_is_definitely_numeric e (context_of s) = runtime_expression_is_definitely_numeric e s"
  by (induction e s rule: runtime_expression_is_definitely_numeric.induct)
    (auto simp: name_predicates list_all_iff cong: option.case_cong split: lvalue.splits)

lemma effects_read_context:
  "runtime_expression_has_side_effects e (context_of s) = runtime_expression_has_side_effects e s"
  by (induction e s rule: runtime_expression_has_side_effects.induct) (auto simp: list_ex_iff)

lemma same_context:
  assumes "context_of s = context_of K"
  shows "runtime_name_uses_numeric_slot_state x s = runtime_name_uses_numeric_slot_state x K"
    "runtime_name_uses_local_numeric_storage x s = runtime_name_uses_local_numeric_storage x K"
    "core_name s x = core_name K x"
    "runtime_expression_is_definitely_numeric e s = runtime_expression_is_definitely_numeric e K"
    "runtime_expression_has_side_effects e s = runtime_expression_has_side_effects e K"
    "ls_runtime_param s = ls_runtime_param K" "ls_state_param s = ls_state_param K"
    "ls_variable_indexes s = ls_variable_indexes K"
    "ls_function_param_strings s = ls_function_param_strings K"
    "ls_loop_string_bindings s = ls_loop_string_bindings K"
    "ls_break_label s = ls_break_label K" "ls_continue_label s = ls_continue_label K"
  using assms names_read_context numeric_reads_context effects_read_context context_fields by metis+

section \<open>Variables in the memory\<close>

abbreviation is_local :: "lowering_state \<Rightarrow> string \<Rightarrow> bool" where
  "is_local K x \<equiv> runtime_name_uses_local_numeric_storage x K"

text \<open>The place of a variable, in a function with the slots \<open>\<sigma>\<close> for its local names.\<close>

definition place :: "lowering_state \<Rightarrow> (string \<rightharpoonup> string) \<Rightarrow> string \<Rightarrow> location" where
  "place K \<sigma> x =
     (if is_local K x then Cell (the (\<sigma> x))
      else Field (int_to_string (the (map_of (ls_variable_indexes K) x))))"

definition placed :: "lowering_state \<Rightarrow> (string \<rightharpoonup> string) \<Rightarrow> string \<Rightarrow> bool" where
  "placed K \<sigma> x \<longleftrightarrow> core_name K x \<and> (is_local K x \<longrightarrow> \<sigma> x \<noteq> None)"

definition ready :: "lowering_state \<Rightarrow> (string \<rightharpoonup> string) \<Rightarrow> 'f machine \<Rightarrow> 'f env \<Rightarrow> bool" where
  "ready K \<sigma> c \<rho> \<longleftrightarrow>
     ms_regs c ''%rt'' = Some (Addr Runtime) \<and> ms_regs c ''%state'' = Some (Addr State)
     \<and> (\<forall>t\<in>ran \<sigma>. ms_regs c t = Some (Addr (Cell t)))
     \<and> (\<forall>x. placed K \<sigma> x \<longrightarrow> ms_mem c (place K \<sigma> x) = Some (\<rho> x))"

text \<open>The slots of a state are those of local names, each with its allocation and its zero.\<close>

definition slot_name :: "string \<Rightarrow> nat \<Rightarrow> string" where
  "slot_name x n = temp_name (''localvar.'' @ x) n"

definition slots_ok :: "lowering_state \<Rightarrow> (string \<rightharpoonup> string) \<Rightarrow> bool" where
  "slots_ok K \<sigma> \<longleftrightarrow>
     (\<forall>x t. \<sigma> x = Some t \<longrightarrow> is_local K x \<and> (\<exists>n. t = slot_name x n))"

definition alloca_line :: "string \<Rightarrow> line" where
  "alloca_line t = Def t [Txt ''alloca double'']"

definition clear_line :: "string \<Rightarrow> line" where
  "clear_line t = Eff (store_text ''double'' ZERO t)"

definition slots_recorded :: "lowering_state \<Rightarrow> bool" where
  "slots_recorded s \<longleftrightarrow>
     slots_ok s (ls_variable_slots s)
     \<and> (\<exists>ts. ls_allocas s = map alloca_line ts \<and> ls_entry_instructions s = map clear_line ts
             \<and> set ts = ran (ls_variable_slots s))"

lemma slots_recorded_fields:
  assumes "ls_allocas s' = ls_allocas s" "ls_entry_instructions s' = ls_entry_instructions s"
    "ls_variable_slots s' = ls_variable_slots s" "context_of s' = context_of s"
  shows "slots_recorded s' = slots_recorded s"
  using assms by (simp add: slots_recorded_def slots_ok_def same_context(2) [OF assms(4)])

text \<open>The lines of a function around the place where some of them begin.\<close>

definition layout :: "lowering_state \<Rightarrow> (string \<rightharpoonup> string) \<Rightarrow> line list \<Rightarrow> line list \<Rightarrow> bool" where
  "layout K \<sigma> P before \<longleftrightarrow>
     distinct (defined_names P) \<and> distinct (defined_labels P)
     \<and> ''%rt'' \<notin> set (defined_names P) \<and> ''%state'' \<notin> set (defined_names P)
     \<and> ran \<sigma> \<subseteq> set (defined_names before)
     \<and> slots_ok K \<sigma> \<and> inj_on (place K \<sigma>) {x. placed K \<sigma> x}
     \<and> (\<exists>rest. P = before @ rest)"

lemma layoutD:
  assumes "layout K \<sigma> P before"
  shows "distinct (defined_names P)" "distinct (defined_labels P)"
    "''%rt'' \<notin> set (defined_names P)" "''%state'' \<notin> set (defined_names P)"
    "ran \<sigma> \<subseteq> set (defined_names before)" "slots_ok K \<sigma>" "inj_on (place K \<sigma>) {x. placed K \<sigma> x}"
  using assms by (simp_all add: layout_def)

lemma layout_later:
  assumes "layout K \<sigma> (before @ code @ after) before"
  shows "layout K \<sigma> (before @ code @ after) (before @ code)"
  using assms by (auto simp: layout_def)

section \<open>What is known of operands\<close>

datatype 'f fact = Holds "'f val" | Points string

type_synonym 'f facts = "(string \<times> 'f fact) list"

fun fact_ok ::
  "'f float_ops \<Rightarrow> lowering_state \<Rightarrow> (string \<rightharpoonup> string) \<Rightarrow> 'f registers \<Rightarrow> string \<Rightarrow> 'f fact \<Rightarrow> bool" where
  "fact_ok ops K \<sigma> regs a (Holds v) \<longleftrightarrow> operand_value ops regs a = Some v"
| "fact_ok ops K \<sigma> regs a (Points x) \<longleftrightarrow>
     placed K \<sigma> x \<and> operand_value ops regs a = Some (Addr (place K \<sigma> x))"

definition knows ::
  "'f float_ops \<Rightarrow> lowering_state \<Rightarrow> (string \<rightharpoonup> string) \<Rightarrow> 'f machine \<Rightarrow> 'f facts \<Rightarrow> bool" where
  "knows ops K \<sigma> c \<Gamma> \<longleftrightarrow> (\<forall>(a, f)\<in>set \<Gamma>. fact_ok ops K \<sigma> (ms_regs c) a f)"

definition older :: "line list \<Rightarrow> 'f facts \<Rightarrow> bool" where
  "older before \<Gamma> \<longleftrightarrow> (\<forall>a\<in>fst ` set \<Gamma>. is_register a \<longrightarrow> a \<in> set (defined_names before))"

lemma knows_simps [simp]:
  "knows ops K \<sigma> c []" "knows ops K \<sigma> c ((a, f) # \<Gamma>) \<longleftrightarrow> fact_ok ops K \<sigma> (ms_regs c) a f \<and> knows ops K \<sigma> c \<Gamma>"
  "knows ops K \<sigma> c (\<Gamma> @ \<Delta>) \<longleftrightarrow> knows ops K \<sigma> c \<Gamma> \<and> knows ops K \<sigma> c \<Delta>"
  by (auto simp: knows_def)

lemma older_simps [simp]:
  "older before []"
  "older before ((a, f) # \<Gamma>) \<longleftrightarrow> (is_register a \<longrightarrow> a \<in> set (defined_names before)) \<and> older before \<Gamma>"
  "older before (\<Gamma> @ \<Delta>) \<longleftrightarrow> older before \<Gamma> \<and> older before \<Delta>"
  by (auto simp: older_def)

lemma knows_subset: "knows ops K \<sigma> c \<Gamma> \<Longrightarrow> set \<Delta> \<subseteq> set \<Gamma> \<Longrightarrow> knows ops K \<sigma> c \<Delta>"
  by (auto simp: knows_def)

lemma older_subset: "older before \<Gamma> \<Longrightarrow> set \<Delta> \<subseteq> set \<Gamma> \<Longrightarrow> older before \<Delta>"
  by (fastforce simp: older_def)

lemma older_later: "older before \<Gamma> \<Longrightarrow> older (before @ code) \<Gamma>"
  by (auto simp: older_def)

text \<open>What code leaves alone: the registers that it does not define, and the block when it opens none.\<close>

definition carried :: "line list \<Rightarrow> 'f machine \<Rightarrow> 'f machine \<Rightarrow> bool" where
  "carried code c c' \<longleftrightarrow>
     (\<forall>a. a \<notin> set (defined_names code) \<longrightarrow> ms_regs c' a = ms_regs c a)
     \<and> (defined_labels code = [] \<longrightarrow> ms_block c' = ms_block c)"

lemma carried_Nil [simp]: "carried [] c c"
  by (simp add: carried_def)

lemma carried_append: "carried code c c' \<Longrightarrow> carried code' c' c'' \<Longrightarrow> carried (code @ code') c c''"
  by (simp add: carried_def)

lemma knows_carried:
  assumes "layout K \<sigma> (before @ code @ after) before" "knows ops K \<sigma> c \<Gamma>" "older before \<Gamma>" "carried code c c'"
  shows "knows ops K \<sigma> c' \<Gamma>"
proof -
  have "operand_value ops (ms_regs c') a = operand_value ops (ms_regs c) a" if "a \<in> fst ` set \<Gamma>" for a
  proof (cases "is_register a")
    case True
    then have "a \<notin> set (defined_names code)"
      using assms(1,3) that by (auto simp: layout_def older_def)
    then show ?thesis using assms(4) by (simp add: operand_value_def carried_def)
  qed (simp add: operand_value_def)
  then have "fact_ok ops K \<sigma> (ms_regs c') a f" if "(a, f) \<in> set \<Gamma>" for a f
    using assms(2) that by (cases f) (force simp: knows_def)+
  then show ?thesis by (auto simp: knows_def)
qed

section \<open>The judgement\<close>

definition extends :: "lowering_state \<Rightarrow> line list \<Rightarrow> lowering_state \<Rightarrow> bool" where
  "extends s code s' \<longleftrightarrow>
     ls_instructions s' = ls_instructions s @ code \<and> context_of s' = context_of s
     \<and> ls_variable_slots s \<subseteq>\<^sub>m ls_variable_slots s' \<and> (slots_recorded s \<longrightarrow> slots_recorded s')"

lemma extends_refl [simp]: "extends s [] s"
  by (simp add: extends_def)

lemma extends_trans: "extends s code s' \<Longrightarrow> extends s' code' s'' \<Longrightarrow> extends s (code @ code') s''"
  unfolding extends_def by (auto intro: map_le_trans)

fun event_of :: "'f printed_item \<Rightarrow> 'f call_event" where
  "event_of (Printed v) = (''call void @qk_print_number_fragment(ptr _, double _)'', [Addr Runtime, Num v])"
| "event_of Separator = (''call void @qk_print_output_separator(ptr _)'', [Addr Runtime])"
| "event_of RecordSeparator = (''call void @qk_print_output_record_separator(ptr _)'', [Addr Runtime])"

text \<open>Run from the start of \<open>code\<close>: the machine comes to its end, with the given facts and output.\<close>

definition passes ::
  "'f float_ops \<Rightarrow> lowering_state \<Rightarrow> (string \<rightharpoonup> string) \<Rightarrow> line list \<Rightarrow> 'f facts \<Rightarrow> 'f env
     \<Rightarrow> 'f facts \<Rightarrow> 'f env \<Rightarrow> 'f printed_item list \<Rightarrow> bool" where
  "passes ops K \<sigma> code \<Gamma> \<rho> \<Delta> \<rho>' out \<longleftrightarrow>
     (\<forall>before after c.
        layout K \<sigma> (before @ code @ after) before \<longrightarrow> ms_pc c = length before \<longrightarrow> ready K \<sigma> c \<rho>
        \<longrightarrow> knows ops K \<sigma> c \<Gamma> \<longrightarrow> older before \<Gamma> \<longrightarrow>
        (\<exists>c'. reaches ops (before @ code @ after) c c' \<and> ms_pc c' = length (before @ code) \<and> ready K \<sigma> c' \<rho>'
              \<and> knows ops K \<sigma> c' \<Delta> \<and> older (before @ code) \<Delta> \<and> carried code c c'
              \<and> ms_trace c' = ms_trace c @ map event_of out))"

lemma passesI:
  assumes "\<And>before after c. layout K \<sigma> (before @ code @ after) before \<Longrightarrow> ms_pc c = length before
      \<Longrightarrow> ready K \<sigma> c \<rho> \<Longrightarrow> knows ops K \<sigma> c \<Gamma> \<Longrightarrow> older before \<Gamma> \<Longrightarrow>
      \<exists>c'. reaches ops (before @ code @ after) c c' \<and> ms_pc c' = length (before @ code) \<and> ready K \<sigma> c' \<rho>'
           \<and> knows ops K \<sigma> c' \<Delta> \<and> older (before @ code) \<Delta> \<and> carried code c c'
           \<and> ms_trace c' = ms_trace c @ map event_of out"
  shows "passes ops K \<sigma> code \<Gamma> \<rho> \<Delta> \<rho>' out"
  using assms by (simp add: passes_def)

lemma passesE:
  assumes "passes ops K \<sigma> code \<Gamma> \<rho> \<Delta> \<rho>' out" "layout K \<sigma> (before @ code @ after) before"
    "ms_pc c = length before" "ready K \<sigma> c \<rho>" "knows ops K \<sigma> c \<Gamma>" "older before \<Gamma>"
  obtains c' where "reaches ops (before @ code @ after) c c'" "ms_pc c' = length (before @ code)"
    "ready K \<sigma> c' \<rho>'" "knows ops K \<sigma> c' \<Delta>" "older (before @ code) \<Delta>" "carried code c c'"
    "ms_trace c' = ms_trace c @ map event_of out"
  using assms unfolding passes_def by blast

text \<open>With \<open>flat\<close> the emitted lines hold no label.\<close>

definition sim ::
  "'f float_ops \<Rightarrow> lowering_state \<Rightarrow> (string \<rightharpoonup> string) \<Rightarrow> bool \<Rightarrow> lowering_state \<Rightarrow> 'f facts \<Rightarrow> 'f env \<Rightarrow> 'a low
     \<Rightarrow> ('a \<Rightarrow> 'f facts) \<Rightarrow> 'f env \<Rightarrow> 'f printed_item list \<Rightarrow> bool" where
  "sim ops K \<sigma> flat s \<Gamma> \<rho> m G \<rho>' out \<longleftrightarrow>
     (context_of s = context_of K \<longrightarrow>
        (\<exists>x s' code. m s = (Inr x, s') \<and> extends s code s' \<and> (flat \<longrightarrow> defined_labels code = [])
           \<and> (ls_variable_slots s' \<subseteq>\<^sub>m \<sigma> \<longrightarrow> passes ops K \<sigma> code \<Gamma> \<rho> (G x) \<rho>' out)))"

lemma passes_bind:
  assumes first: "passes ops K \<sigma> code \<Gamma> \<rho> \<Delta> \<rho>1 out"
    and rest: "passes ops K \<sigma> code' (\<Delta> @ \<Gamma>) \<rho>1 \<Theta> \<rho>2 out'"
  shows "passes ops K \<sigma> (code @ code') \<Gamma> \<rho> \<Theta> \<rho>2 (out @ out')"
proof (rule passesI, goal_cases)
  case (1 before after c)
  let ?P = "before @ code @ code' @ after"
  have lay: "layout K \<sigma> ?P before" using 1(1) by simp
  then have lay': "layout K \<sigma> ((before @ code) @ code' @ after) (before @ code)"
    using layout_later [of K \<sigma> before code "code' @ after"] by simp
  obtain c1 where c1: "reaches ops ?P c c1" "ms_pc c1 = length (before @ code)" "ready K \<sigma> c1 \<rho>1"
    "knows ops K \<sigma> c1 \<Delta>" "older (before @ code) \<Delta>" "carried code c c1"
    "ms_trace c1 = ms_trace c @ map event_of out"
    using passesE [OF first lay 1(2-5)] by blast
  have kept: "knows ops K \<sigma> c1 \<Gamma>" using knows_carried [OF lay 1(4,5) c1(6)] .
  have "older (before @ code) \<Gamma>" using older_later [OF 1(5)] .
  then obtain c2 where c2: "reaches ops ((before @ code) @ code' @ after) c1 c2"
    "ms_pc c2 = length ((before @ code) @ code')" "ready K \<sigma> c2 \<rho>2"
    "knows ops K \<sigma> c2 \<Theta>" "older ((before @ code) @ code') \<Theta>" "carried code' c1 c2"
    "ms_trace c2 = ms_trace c1 @ map event_of out'"
    using passesE [OF rest lay' c1(2,3)] kept c1(4,5) by (metis knows_simps(3) older_simps(3))
  show ?case
    using reaches_trans [OF c1(1)] c2 carried_append [OF c1(6) c2(6)] c1(7) by (intro exI [of _ c2]) simp
qed

lemma sim_bind:
  assumes first: "sim ops K \<sigma> fl s \<Gamma> \<rho> m G \<rho>1 out"
    and rest: "\<And>x s1. sim ops K \<sigma> fl s1 (G x @ \<Gamma>) \<rho>1 (k x) H \<rho>2 out'"
  shows "sim ops K \<sigma> fl s \<Gamma> \<rho> (bindL m k) H \<rho>2 (out @ out')"
  unfolding sim_def
proof
  assume ctx: "context_of s = context_of K"
  then obtain x s1 code where m: "m s = (Inr x, s1)" "extends s code s1" "fl \<longrightarrow> defined_labels code = []"
    "ls_variable_slots s1 \<subseteq>\<^sub>m \<sigma> \<Longrightarrow> passes ops K \<sigma> code \<Gamma> \<rho> (G x) \<rho>1 out"
    using first unfolding sim_def by blast
  have "context_of s1 = context_of K" using m(2) ctx by (simp add: extends_def)
  then obtain y s2 code' where k: "k x s1 = (Inr y, s2)" "extends s1 code' s2"
    "fl \<longrightarrow> defined_labels code' = []"
    "ls_variable_slots s2 \<subseteq>\<^sub>m \<sigma> \<Longrightarrow> passes ops K \<sigma> code' (G x @ \<Gamma>) \<rho>1 (H y) \<rho>2 out'"
    using rest [of s1 x] unfolding sim_def by blast
  have "passes ops K \<sigma> (code @ code') \<Gamma> \<rho> (H y) \<rho>2 (out @ out')" if "ls_variable_slots s2 \<subseteq>\<^sub>m \<sigma>"
  proof -
    have "ls_variable_slots s1 \<subseteq>\<^sub>m \<sigma>"
      using k(2) that unfolding extends_def by (blast intro: map_le_trans)
    then show ?thesis using passes_bind m(4) k(4) that by blast
  qed
  then show "\<exists>y s' code. bindL m k s = (Inr y, s') \<and> extends s code s' \<and> (fl \<longrightarrow> defined_labels code = []) \<and>
      (ls_variable_slots s' \<subseteq>\<^sub>m \<sigma> \<longrightarrow> passes ops K \<sigma> code \<Gamma> \<rho> (H y) \<rho>2 (out @ out'))"
    using m k extends_trans [OF m(2) k(2)]
    by (intro exI [of _ y] exI [of _ s2] exI [of _ "code @ code'"]) (simp add: bindL_def)
qed

section \<open>Computations without code\<close>

lemma sim_ret:
  assumes "set (G x) \<subseteq> set \<Gamma>"
  shows "sim ops K \<sigma> fl s \<Gamma> \<rho> (retL x) G \<rho> []"
proof -
  have "passes ops K \<sigma> [] \<Gamma> \<rho> (G x) \<rho> []"
    by (rule passesI) (use assms in \<open>auto intro: knows_subset older_subset reaches_refl\<close>)
  then show ?thesis unfolding sim_def retL_def by (metis defined_simps(4) extends_refl)
qed

lemma sim_constant:
  assumes "\<not> is_register x" "constant_value ops x = Some v"
  shows "sim ops K \<sigma> fl s \<Gamma> \<rho> (retL x) (\<lambda>a. [(a, Holds v)]) \<rho> []"
proof -
  have "passes ops K \<sigma> [] \<Gamma> \<rho> [(x, Holds v)] \<rho> []"
    by (rule passesI) (use assms in \<open>auto simp: operand_value_def intro: reaches_refl\<close>)
  then show ?thesis unfolding sim_def retL_def by (metis defined_simps(4) extends_refl)
qed

lemma sim_get: "sim ops K \<sigma> fl s \<Gamma> \<rho> (bindL (getL f) g) G \<rho>' out = sim ops K \<sigma> fl s \<Gamma> \<rho> (g (f s)) G \<rho>' out"
  by (simp add: sim_def bindL_def getL_def)

lemma sim_catch: "sim ops K \<sigma> fl s \<Gamma> \<rho> m G \<rho>' out \<Longrightarrow> sim ops K \<sigma> fl s \<Gamma> \<rho> (catch_runtime_error m h) G \<rho>' out"
  by (auto simp: sim_def catch_runtime_error_def)

lemma sim_context:
  "(context_of s = context_of K \<Longrightarrow> sim ops K \<sigma> fl s \<Gamma> \<rho> m G \<rho>' out) \<Longrightarrow> sim ops K \<sigma> fl s \<Gamma> \<rho> m G \<rho>' out"
  by (auto simp: sim_def)

lemma sim_weaken:
  assumes "sim ops K \<sigma> fl s \<Delta> \<rho> m G \<rho>' out" "set \<Delta> \<subseteq> set \<Gamma>"
  shows "sim ops K \<sigma> fl s \<Gamma> \<rho> m G \<rho>' out"
proof -
  have "passes ops K \<sigma> code \<Gamma> \<rho> \<Theta> \<rho>' out" if "passes ops K \<sigma> code \<Delta> \<rho> \<Theta> \<rho>' out" for code \<Theta>
    using that assms(2) knows_subset older_subset unfolding passes_def by blast
  then show ?thesis using assms(1) unfolding sim_def by blast
qed

lemma is_register_temp [simp]: "is_register (temp_name p n)"
  by (simp add: is_register_def temp_name_def)

lemma is_register_slot [simp]: "is_register (slot_name x n)"
  by (simp add: slot_name_def del: append_Cons append_Nil)

lemma slots_okD: "slots_ok K \<sigma> \<Longrightarrow> \<sigma> x = Some t \<Longrightarrow> is_local K x \<and> is_register t"
  unfolding slots_ok_def by (metis is_register_slot)

lemma sim_counter:
  assumes "sim ops K \<sigma> fl (s\<lparr>ls_temp_index := i, ls_label_index := j\<rparr>) \<Gamma> \<rho> m G \<rho>' out"
    and "m' s = m (s\<lparr>ls_temp_index := i, ls_label_index := j\<rparr>)"
  shows "sim ops K \<sigma> fl s \<Gamma> \<rho> m' G \<rho>' out"
proof -
  let ?s = "s\<lparr>ls_temp_index := i, ls_label_index := j\<rparr>"
  have "context_of ?s = context_of s" by (simp add: context_of_eq)
  moreover have "slots_recorded ?s = slots_recorded s"
    by (rule slots_recorded_fields) (simp_all add: context_of_eq)
  ultimately have "extends s code s' = extends ?s code s'" for code s'
    by (simp add: extends_def)
  then show ?thesis
    using assms \<open>context_of ?s = context_of s\<close> by (simp add: sim_def)
qed

lemma sim_temp:
  assumes "\<And>t s1. is_register t \<Longrightarrow> sim ops K \<sigma> fl s1 \<Gamma> \<rho> (f t) G \<rho>' out"
  shows "sim ops K \<sigma> fl s \<Gamma> \<rho> (bindL (next_temp p) f) G \<rho>' out"
  by (rule sim_counter [where i = "Suc (ls_temp_index s)" and j = "ls_label_index s"
        and m = "f (temp_name p (ls_temp_index s))"])
    (simp_all add: assms bindL_def next_temp_def)

lemma sim_label:
  assumes "\<And>l s1. sim ops K \<sigma> fl s1 \<Gamma> \<rho> (f l) G \<rho>' out"
  shows "sim ops K \<sigma> fl s \<Gamma> \<rho> (bindL (next_label p) f) G \<rho>' out"
  by (rule sim_counter [where i = "ls_temp_index s" and j = "Suc (ls_label_index s)"
        and m = "f (label_name p (ls_label_index s))"])
    (simp_all add: assms bindL_def next_label_def)

lemma sim_bind_simple:
  assumes "sim ops K \<sigma> fl s \<Gamma> \<rho> m G \<rho>1 []" "\<And>x s1. sim ops K \<sigma> fl s1 (G x @ \<Gamma>) \<rho>1 (k x) H \<rho>2 out"
  shows "sim ops K \<sigma> fl s \<Gamma> \<rho> (bindL m k) H \<rho>2 out"
  using sim_bind [OF assms] by simp

section \<open>Single lines\<close>

lemma nth_at: "P = before @ l # after \<Longrightarrow> i = length before \<Longrightarrow> P ! i = l \<and> i < length P"
  by simp

lemma sim_line:
  assumes "line_label l = []"
    and "\<And>before after c. layout K \<sigma> (before @ [l] @ after) before \<Longrightarrow> ms_pc c = length before
      \<Longrightarrow> ready K \<sigma> c \<rho> \<Longrightarrow> knows ops K \<sigma> c \<Gamma> \<Longrightarrow> older before \<Gamma> \<Longrightarrow>
      \<exists>c'. step ops (before @ [l] @ after) c = Some c' \<and> ms_pc c' = Suc (length before) \<and> ready K \<sigma> c' \<rho>'
           \<and> knows ops K \<sigma> c' \<Delta> \<and> older (before @ [l]) \<Delta> \<and> carried [l] c c'
           \<and> ms_trace c' = ms_trace c @ map event_of out"
  shows "sim ops K \<sigma> fl s \<Gamma> \<rho> (emit l) (\<lambda>_. \<Delta>) \<rho>' out"
proof -
  have "passes ops K \<sigma> [l] \<Gamma> \<rho> \<Delta> \<rho>' out"
    by (rule passesI, drule (4) assms(2)) (auto intro: reaches_one)
  moreover have "emit l s = (Inr (), s\<lparr>ls_instructions := ls_instructions s @ [l]\<rparr>)"
    by (simp add: emit_def modifyL_def)
  moreover have "extends s [l] (s\<lparr>ls_instructions := ls_instructions s @ [l]\<rparr>)"
    using slots_recorded_fields [of "s\<lparr>ls_instructions := ls_instructions s @ [l]\<rparr>" s]
    by (simp add: extends_def context_of_eq)
  moreover have "defined_labels [l] = []" using assms(1) by simp
  ultimately show ?thesis unfolding sim_def by blast
qed

lemma sim_def_line:
  assumes "is_register t"
    and "\<And>c. ready K \<sigma> c \<rho> \<Longrightarrow> knows ops K \<sigma> c \<Gamma> \<Longrightarrow> rhs_value ops (ms_regs c) (ms_mem c) t ps = Some v"
  shows "sim ops K \<sigma> fl s \<Gamma> \<rho> (emit (Def t ps)) (\<lambda>_. [(t, Holds v)]) \<rho> []"
proof (rule sim_line, simp, goal_cases)
  case (1 before after c)
  let ?c = "c\<lparr>ms_pc := Suc (ms_pc c), ms_regs := (ms_regs c)(t \<mapsto> v)\<rparr>"
  have "step ops (before @ [Def t ps] @ after) c = Some ?c"
    using 1(2) assms(2) [OF 1(3,4)] by (simp add: step_def define_register_def)
  moreover have "ready K \<sigma> ?c \<rho>"
    using 1(1,3) by (auto simp: ready_def layout_def)
  ultimately show ?case
    using 1(2) assms(1) by (intro exI [of _ ?c]) (simp add: operand_value_def carried_def)
qed

lemma sim_define:
  assumes "\<And>t c. ready K \<sigma> c \<rho> \<Longrightarrow> knows ops K \<sigma> c \<Gamma> \<Longrightarrow> rhs_value ops (ms_regs c) (ms_mem c) t ps = Some v"
  shows "sim ops K \<sigma> fl s \<Gamma> \<rho> (define_temp p ps) (\<lambda>t. [(t, Holds v)]) \<rho> []"
  unfolding define_temp_def
  by (rule sim_temp, rule sim_bind_simple, rule sim_def_line, assumption, rule assms, assumption+)
    (rule sim_ret, simp)

lemma sim_store:
  assumes "(a, Points x) \<in> set \<Gamma>" "(v, Holds (Num u)) \<in> set \<Gamma>"
  shows "sim ops K \<sigma> fl s \<Gamma> \<rho> (store ''double'' v a) (\<lambda>_. []) (\<rho>(x := u)) []"
  unfolding store_def
proof (rule sim_line, simp, goal_cases)
  case (1 before after c)
  let ?c = "c\<lparr>ms_pc := Suc (ms_pc c), ms_mem := (ms_mem c)(place K \<sigma> x \<mapsto> u)\<rparr>"
  have facts: "fact_ok ops K \<sigma> (ms_regs c) a (Points x)" "fact_ok ops K \<sigma> (ms_regs c) v (Holds (Num u))"
    using 1(4) assms unfolding knows_def by blast+
  have "step ops (before @ [Eff (store_text ''double'' v a)] @ after) c = Some ?c"
    using 1(2) facts by (simp add: step_def pieces_simps perform_def place_def)
  moreover have "ready K \<sigma> ?c (\<rho>(x := u))"
    using 1(3) facts(1) layoutD(7) [OF 1(1)] by (auto simp: ready_def inj_on_def)
  ultimately show ?case
    using 1(2) by (intro exI [of _ ?c]) (simp add: carried_def)
qed

lemma sim_event:
  assumes "\<And>c. ready K \<sigma> c \<rho> \<Longrightarrow> knows ops K \<sigma> c \<Gamma> \<Longrightarrow> operand_values ops (ms_regs c) ps = Some vs"
    and "(skeleton ps, vs) = event_of item"
  shows "sim ops K \<sigma> fl s \<Gamma> \<rho> (emit (Eff ps)) (\<lambda>_. []) \<rho> [item]"
proof (rule sim_line, simp, goal_cases)
  case (1 before after c)
  let ?c = "c\<lparr>ms_pc := Suc (ms_pc c), ms_trace := ms_trace c @ [(skeleton ps, vs)]\<rparr>"
  have "prefix ''call void @'' (skeleton ps)" "skeleton ps \<noteq> ''store double _, ptr _''"
    using assms(2) by (cases item; simp)+
  then have "step ops (before @ [Eff ps] @ after) c = Some ?c"
    using 1(2) assms(1) [OF 1(3,4)] by (simp add: step_def perform_def)
  moreover have "ready K \<sigma> ?c \<rho>" using 1(3) by (simp add: ready_def)
  ultimately show ?case
    using 1(2) assms(2) by (intro exI [of _ ?c]) (simp add: carried_def)
qed

end
