(* ===== verification/Expression_Code.thy ===== *)
theory Expression_Code
  imports Code_Simulation
begin

text \<open>
  The code of an expression of the core computes the value of the expression, as a number and as a
  condition, and leaves the variables as the interpreter does.
\<close>

section \<open>Contexts and constants\<close>

definition phase_context :: "lowering_state \<Rightarrow> bool" where
  "phase_context K \<longleftrightarrow> ls_runtime_param K = Some ''%rt'' \<and> ls_state_param K = Some ''%state''"

text \<open>The constants of the backend are read as zero and one, and the number of a bit is true when the bit
  is.\<close>

definition ops_ok :: "'f float_ops \<Rightarrow> bool" where
  "ops_ok ops \<longleftrightarrow>
     constant_value ops ZERO = Some (Num (zero_of ops)) \<and> constant_value ops ONE = Some (Num (one_of ops))
     \<and> (\<forall>b. is_true ops (fo_of_bit ops b) = b)"

lemma constant_operands:
  assumes "ops_ok ops"
  shows "operand_value ops regs ZERO = Some (Num (zero_of ops))"
    "operand_value ops regs ONE = Some (Num (one_of ops))"
    "operand_value ops regs ''true'' = Some (Bit True)" "operand_value ops regs ''false'' = Some (Bit False)"
    "is_true ops (fo_of_bit ops b) = b"
  using assms by (simp_all add: ops_ok_def operand_value_def is_register_def ONE_def constant_value_def)

lemma sim_runtime:
  assumes "phase_context K" "sim ops K \<sigma> fl s \<Gamma> \<rho> (f ()) G \<rho>' out"
  shows "sim ops K \<sigma> fl s \<Gamma> \<rho> (bindL assert_runtime f) G \<rho>' out"
proof (rule sim_context)
  assume "context_of s = context_of K"
  then have "bindL assert_runtime f s = f () s"
    using assms(1) same_context(6) [of s K]
    by (simp add: assert_runtime_def phase_context_def bindL_def getL_def some_or_assert_def retL_def)
  then show ?thesis using assms(2) by (simp add: sim_def)
qed

lemma sim_runtime_param:
  assumes "phase_context K" "sim ops K \<sigma> fl s \<Gamma> \<rho> (f ''%rt'') G \<rho>' out"
  shows "sim ops K \<sigma> fl s \<Gamma> \<rho> (bindL runtime_param f) G \<rho>' out"
proof (rule sim_context)
  assume "context_of s = context_of K"
  then have "bindL runtime_param f s = f ''%rt'' s"
    using assms(1) same_context(6) [of s K] by (simp add: runtime_param_def phase_context_def bindL_def getL_def)
  then show ?thesis using assms(2) by (simp add: sim_def)
qed

lemma sim_eq: "m s = m' s \<Longrightarrow> sim ops K \<sigma> fl s \<Gamma> \<rho> m G \<rho>' out = sim ops K \<sigma> fl s \<Gamma> \<rho> m' G \<rho>' out"
  by (simp add: sim_def)

lemma sim_facts:
  assumes "sim ops K \<sigma> fl s \<Gamma> \<rho> m G \<rho>' out"
    and "\<And>x c. knows ops K \<sigma> c (G x) \<Longrightarrow> knows ops K \<sigma> c (H x)" "\<And>x. fst ` set (H x) \<subseteq> fst ` set (G x)"
  shows "sim ops K \<sigma> fl s \<Gamma> \<rho> m H \<rho>' out"
proof -
  have "passes ops K \<sigma> code \<Gamma> \<rho> (H x) \<rho>' out" if "passes ops K \<sigma> code \<Gamma> \<rho> (G x) \<rho>' out" for code x
  proof -
    have "older before (H x)" if "older before (G x)" for before
      using that assms(3) [of x] unfolding older_def by blast
    then show ?thesis using that assms(2) unfolding passes_def by blast
  qed
  then show ?thesis using assms(1) unfolding sim_def by blast
qed

section \<open>Addresses\<close>

lemma map_le_Some: "m \<subseteq>\<^sub>m m' \<Longrightarrow> m x = Some t \<Longrightarrow> m' x = Some t"
  unfolding map_le_def by (metis domI)

lemma existing_slot:
  assumes "core_name K x" "\<sigma> x = Some t"
  shows "passes ops K \<sigma> [] \<Gamma> \<rho> [(t, Points x)] \<rho> []"
proof (rule passesI, goal_cases)
  case (1 before after c)
  have "is_local K x" "is_register t"
    using slots_okD [OF layoutD(6) [OF 1(1)] assms(2)] by auto
  moreover have "t \<in> ran \<sigma>" using assms(2) by (rule ranI)
  ultimately have "ms_regs c t = Some (Addr (place K \<sigma> x))" "t \<in> set (defined_names before)"
    using 1(3) layoutD(5) [OF 1(1)] assms(2) by (auto simp: ready_def place_def)
  then show ?case
    using 1(2,3) assms \<open>is_register t\<close>
    by (intro exI [of _ c]) (simp add: placed_def operand_value_def)
qed

lemma local_slot_extends:
  assumes "ls_variable_slots s x = None" "is_local s x"
  defines "t \<equiv> slot_name x (ls_temp_index s)"
  shows "\<exists>s'. local_slot ''localvar.'' x s = (Inr t, s') \<and> extends s [] s' \<and> ls_variable_slots s' x = Some t"
proof -
  let ?s = "s\<lparr>ls_temp_index := ls_temp_index s + 1, ls_allocas := ls_allocas s @ [alloca_line t],
             ls_entry_instructions := ls_entry_instructions s @ [clear_line t],
             ls_variable_slots := (ls_variable_slots s)(x \<mapsto> t)\<rparr>"
  have ctx: "context_of ?s = context_of s" by (simp add: context_of_eq)
  have "slots_recorded ?s" if rec: "slots_recorded s"
  proof -
    obtain ts where ts: "ls_allocas s = map alloca_line ts" "ls_entry_instructions s = map clear_line ts"
      "set ts = ran (ls_variable_slots s)" using rec by (auto simp: slots_recorded_def)
    have "slots_ok s ((ls_variable_slots s)(x \<mapsto> t))"
      using rec assms(2) by (auto simp: slots_recorded_def slots_ok_def t_def)
    then have "slots_ok ?s (ls_variable_slots ?s)"
      unfolding slots_ok_def same_context(2) [OF ctx] by simp
    then show ?thesis
      using ts assms(1) unfolding slots_recorded_def by (intro conjI exI [of _ "ts @ [t]"]) simp_all
  qed
  then have "extends s [] ?s" using ctx assms(1) by (auto simp: extends_def map_le_def)
  moreover have "local_slot ''localvar.'' x s = (Inr t, ?s)"
    by (simp add: local_slot_def bindL_def next_temp_def emit_alloca_def emit_entry_def modifyL_def retL_def
        t_def slot_name_def alloca_line_def clear_line_def)
  ultimately show ?thesis by (intro exI [of _ ?s]) simp
qed

lemma skeleton_state_field: "skeleton (state_field_rhs p i) = state_field_text @ int_to_string i"
  by (simp add: state_field_rhs_def state_field_text_def)

lemma instruction_state_field:
  "instruction ops mem t (state_field_text @ i) [Addr State] = Some (Addr (Field i))"
proof -
  have "hd (state_field_text @ i) \<noteq> hd ''load double, ptr _''" by (simp add: state_field_text_def)
  then have "state_field_text @ i \<noteq> ''load double, ptr _''" by (rule contrapos_nn) (erule arg_cong)
  then show ?thesis by simp
qed

lemma value_state_field:
  assumes "ms_regs c ''%state'' = Some (Addr State)"
  shows "rhs_value ops (ms_regs c) mem t (state_field_rhs ''%state'' i) = Some (Addr (Field (int_to_string i)))"
proof -
  have "operand_values ops (ms_regs c) (state_field_rhs ''%state'' i) = Some [Addr State]"
    using assms by (simp add: state_field_rhs_def operand_values_def operand_value_def is_register_def)
  then show ?thesis by (simp add: rhs_value_def skeleton_state_field instruction_state_field del: instruction.simps)
qed

lemma sim_address:
  assumes "phase_context K" "core_name K x"
  shows "sim ops K \<sigma> fl s \<Gamma> \<rho> (variable_address x) (\<lambda>a. [(a, Points x)]) \<rho> []"
proof (rule sim_context)
  assume ctx: "context_of s = context_of K"
  note same = same_context [OF ctx]
  show ?thesis
  proof (cases "ls_variable_slots s x")
    case (Some t)
    then have "variable_address x s = (Inr t, s)"
      by (simp add: variable_address_def bindL_def getL_def retL_def)
    moreover have "ls_variable_slots s \<subseteq>\<^sub>m \<sigma> \<Longrightarrow> passes ops K \<sigma> [] \<Gamma> \<rho> [(t, Points x)] \<rho> []"
      by (rule existing_slot [OF assms(2)]) (erule map_le_Some, rule Some)
    ultimately show ?thesis
      unfolding sim_def by (intro impI exI [of _ t] exI [of _ s] exI [of _ "[]"]) simp
  next
    case None
    show ?thesis
    proof (cases "is_local K x")
      case True
      then obtain t s' where s': "local_slot ''localvar.'' x s = (Inr t, s')" "extends s [] s'"
        "ls_variable_slots s' x = Some t"
        using local_slot_extends [OF None] same(2) by blast
      moreover have "variable_address x s = local_slot ''localvar.'' x s"
        using None True assms(1) same(2,7) by (simp add: variable_address_def bindL_def getL_def phase_context_def)
      moreover have "ls_variable_slots s' \<subseteq>\<^sub>m \<sigma> \<Longrightarrow> passes ops K \<sigma> [] \<Gamma> \<rho> [(t, Points x)] \<rho> []"
        by (rule existing_slot [OF assms(2)]) (erule map_le_Some, rule s'(3))
      ultimately show ?thesis
        unfolding sim_def by (intro impI exI [of _ t] exI [of _ s'] exI [of _ "[]"]) simp
    next
      case False
      obtain i where i: "map_of (ls_variable_indexes K) x = Some i"
        using assms(2) by (auto simp: core_name_def)
      have "variable_address x s = define_temp (''varptr.'' @ x) (state_field_rhs ''%state'' i) s"
        using None False i assms(1) same(2,7,8)
        by (simp add: variable_address_def bindL_def getL_def phase_context_def)
      moreover have "sim ops K \<sigma> fl s \<Gamma> \<rho> (define_temp (''varptr.'' @ x) (state_field_rhs ''%state'' i))
          (\<lambda>a. [(a, Points x)]) \<rho> []"
        by (rule sim_facts [OF sim_define [where v = "Addr (Field (int_to_string i))"]])
          (use False i assms(2) in \<open>simp_all add: value_state_field ready_def placed_def place_def\<close>)
      ultimately show ?thesis by (simp add: sim_def)
    qed
  qed
qed

lemma sim_load:
  assumes "(a, Points x) \<in> set \<Gamma>"
  shows "sim ops K \<sigma> fl s \<Gamma> \<rho> (load p ''double'' a) (\<lambda>t. [(t, Holds (Num (\<rho> x)))]) \<rho> []"
  unfolding load_def
proof (rule sim_define)
  fix t :: string and c :: "'a machine" assume "ready K \<sigma> c \<rho>" "knows ops K \<sigma> c \<Gamma>"
  then have "placed K \<sigma> x" "operand_value ops (ms_regs c) a = Some (Addr (place K \<sigma> x))"
    "ms_mem c (place K \<sigma> x) = Some (\<rho> x)"
    using assms by (force simp: knows_def ready_def)+
  then show "rhs_value ops (ms_regs c) (ms_mem c) t (load_rhs ''double'' a) = Some (Num (\<rho> x))"
    by (simp add: rhs_value_def pieces_simps)
qed

section \<open>Arithmetic\<close>

text \<open>What is known of two operands.\<close>

lemma knowsD: "knows ops K \<sigma> c \<Gamma> \<Longrightarrow> (a, Holds v) \<in> set \<Gamma> \<Longrightarrow> operand_value ops (ms_regs c) a = Some v"
  by (force simp: knows_def)

lemma sim_def_value:
  assumes "is_register t"
    and "\<And>c. knows ops K \<sigma> c \<Gamma> \<Longrightarrow> rhs_value ops (ms_regs c) (ms_mem c) t ps = Some v"
    and "\<And>s1. sim ops K \<sigma> fl s1 ((t, Holds v) # \<Gamma>) \<rho> (f ()) G \<rho>' out"
  shows "sim ops K \<sigma> fl s \<Gamma> \<rho> (bindL (emit (Def t ps)) f) G \<rho>' out"
  by (rule sim_bind_simple [OF sim_def_line [OF assms(1,2)]]) (simp_all add: assms(3))

lemma sim_mod_lines:
  assumes "is_register q" "is_register tr" "is_register p" "is_register t"
    and known: "(x, Holds (Num u)) \<in> set \<Gamma>" "(y, Holds (Num v)) \<in> set \<Gamma>"
    and rest: "\<And>s1 \<Delta>. set \<Gamma> \<subseteq> set \<Delta> \<Longrightarrow> (t, Holds (Num (arithmetic_value ops OpMod u v))) \<in> set \<Delta> \<Longrightarrow>
                  sim ops K \<sigma> fl s1 \<Delta> \<rho> (f ()) G \<rho>' out"
  shows "sim ops K \<sigma> fl s \<Gamma> \<rho> (bindL (emit_many (mod_lines q tr p t x y)) f) G \<rho>' out"
proof -
  let ?q = "fo_div ops u v" and ?\<Delta> = "\<lambda>facts. facts @ \<Gamma>"
  have known: "operand_value ops (ms_regs c) x = Some (Num u)" "operand_value ops (ms_regs c) y = Some (Num v)"
    if "knows ops K \<sigma> c (\<Delta> @ \<Gamma>)" for c \<Delta>
    using that knowsD [OF _ known(1)] knowsD [OF _ known(2)] by auto
  have quot: "rhs_value ops (ms_regs c) (ms_mem c) q (binop_rhs ''fdiv'' ''double'' x y) = Some (Num ?q)"
    if "knows ops K \<sigma> c \<Gamma>" for c
    by (rule value_arithmetic; rule known [of _ "[]"]) (use that in simp_all)
  have prod: "rhs_value ops (ms_regs c) (ms_mem c) p (binop_rhs ''fmul'' ''double'' tr y)
      = Some (Num (fo_mul ops (fo_trunc ops ?q) v))"
    if "knows ops K \<sigma> c ([(tr, Holds (Num (fo_trunc ops ?q))), (q, Holds (Num ?q))] @ \<Gamma>)" for c
    by (rule value_arithmetic) (use that known(2) [OF that] in simp_all)
  have diff: "rhs_value ops (ms_regs c) (ms_mem c) t (binop_rhs ''fsub'' ''double'' x p)
      = Some (Num (arithmetic_value ops OpMod u v))"
    if "knows ops K \<sigma> c ([(p, Holds (Num (fo_mul ops (fo_trunc ops ?q) v))), (tr, Holds (Num (fo_trunc ops ?q))),
                          (q, Holds (Num ?q))] @ \<Gamma>)" for c
    unfolding arithmetic_value.simps
    by (rule value_arithmetic) (use that known(1) [OF that] in simp_all)
  show ?thesis
    unfolding mod_lines_def emit_many.simps bindL_assoc bindL_ret
    apply (rule sim_def_value [OF assms(1) quot], assumption)
    apply (rule sim_def_value [OF assms(2)], rule value_trunc, simp)
    apply (rule sim_def_value [OF assms(3) prod], simp)
    apply (rule sim_def_value [OF assms(4) diff], simp)
    apply (rule rest; auto)
    done
qed

lemma sim_mod:
  assumes "(x, Holds (Num u)) \<in> set \<Gamma>" "(y, Holds (Num v)) \<in> set \<Gamma>"
  shows "sim ops K \<sigma> fl s \<Gamma> \<rho> (lower_mod x y) (\<lambda>t. [(t, Holds (Num (arithmetic_value ops OpMod u v)))]) \<rho> []"
  unfolding lower_mod_def
  by (rule sim_temp)+ (rule sim_mod_lines [OF _ _ _ _ assms]; (assumption | rule sim_ret; simp))

lemma sim_arithmetic:
  assumes "is_arithmetic_op op"
    and left: "\<And>s \<Gamma>. sim ops K \<sigma> fl s \<Gamma> \<rho> (lower l) (\<lambda>x. [(x, Holds (Num u))]) \<rho>1 []"
    and right: "\<And>s \<Gamma>. sim ops K \<sigma> fl s \<Gamma> \<rho>1 (lower r) (\<lambda>x. [(x, Holds (Num v))]) \<rho>2 []"
  shows "sim ops K \<sigma> fl s \<Gamma> \<rho> (lower_arithmetic lower l op r)
           (\<lambda>t. [(t, Holds (Num (arithmetic_value ops op u v)))]) \<rho>2 []"
  unfolding lower_arithmetic_def
proof (rule sim_bind_simple [OF left], rule sim_bind_simple [OF right], goal_cases)
  case (1 x s1 y s2)
  let ?\<Delta> = "[(y, Holds (Num v))] @ [(x, Holds (Num u))] @ \<Gamma>"
  have known: "operand_value ops (ms_regs c) x = Some (Num u)" "operand_value ops (ms_regs c) y = Some (Num v)"
    if "knows ops K \<sigma> c ?\<Delta>" for c using that by simp_all
  have op: "op = OpAdd \<or> op = OpSub \<or> op = OpMul \<or> op = OpDiv \<or> op = OpMod \<or> op = OpPow"
    using assms(1) by (auto simp: is_arithmetic_op_def)
  have mod: "sim ops K \<sigma> fl s2 ?\<Delta> \<rho>2 (lower_mod x y) (\<lambda>t. [(t, Holds (Num (arithmetic_value ops OpMod u v)))]) \<rho>2 []"
    by (rule sim_mod) simp_all
  show ?case
    using op mod
    by (auto simp: binop_def pow_rhs_def intro!: sim_define value_arithmetic known simp del: knows_simps)
qed

end
