(* ===== verification/Branch_Code.thy ===== *)
theory Branch_Code
  imports Expression_Code
begin

text \<open>
  Jumps between the blocks of a function, and the code of the operators that evaluate an operand only
  when they need it.
\<close>

section \<open>Jumps\<close>

definition jumped :: "nat \<Rightarrow> string \<Rightarrow> 'f machine \<Rightarrow> 'f machine" where
  "jumped i l c = c\<lparr>ms_pc := Suc i, ms_block := l, ms_from := ms_block c\<rparr>"

lemma jumped_simps [simp]:
  "ms_pc (jumped i l c) = Suc i" "ms_block (jumped i l c) = l" "ms_from (jumped i l c) = ms_block c"
  "ms_regs (jumped i l c) = ms_regs c" "ms_mem (jumped i l c) = ms_mem c"
  "ms_trace (jumped i l c) = ms_trace c"
  "ready K \<sigma> (jumped i l c) \<rho> = ready K \<sigma> c \<rho>" "knows ops K \<sigma> (jumped i l c) \<Gamma> = knows ops K \<sigma> c \<Gamma>"
  by (simp_all add: jumped_def ready_def knows_def)

lemma find_label_at: "distinct (defined_labels (u @ Lab l # w)) \<Longrightarrow> find_label l (u @ Lab l # w) = Some (length u)"
proof (induction u)
  case (Cons x u)
  then have "x \<noteq> Lab l" by auto
  then show ?case using Cons by (cases x) simp_all
qed simp

lemma jump_at:
  assumes "distinct (defined_labels P)" "P = u @ Lab l # w"
  shows "jump P l c = Some (jumped (length u) l c)"
  using find_label_at [of u l w] assms by (simp add: jump_def jumped_def)

lemma step_br:
  assumes "distinct (defined_labels P)" "ms_pc c = length v" "P = v @ Br l # v'" "P = u @ Lab l # w"
  shows "step ops P c = Some (jumped (length u) l c)"
  using jump_at [OF assms(1,4)] assms(2,3) by (simp add: step_def)

lemma step_cond_br:
  assumes "distinct (defined_labels P)" "ms_pc c = length v" "P = v @ CondBr x l1 l2 # v'"
    "operand_value ops (ms_regs c) x = Some (Bit b)" "P = u @ Lab (if b then l1 else l2) # w"
  shows "step ops P c = Some (jumped (length u) (if b then l1 else l2) c)"
  using jump_at [OF assms(1,5), of c] assms(2-4) by (cases b) (simp_all add: step_def)

lemma step_phi:
  assumes "ms_pc c = length v" "P = v @ Phi t ty incomings # v'"
    "map_of (map prod.swap incomings) (ms_from c) = Some x" "operand_value ops (ms_regs c) x = Some value"
  shows "step ops P c = Some (c\<lparr>ms_pc := Suc (length v), ms_regs := (ms_regs c)(t \<mapsto> value)\<rparr>)"
  using assms by (simp add: step_def define_register_def)

lemma ready_define:
  assumes "layout K \<sigma> P before" "P = v @ l # v'" "t \<in> set (line_def l)" "length before \<le> length v"
    "ready K \<sigma> c \<rho>"
  shows "ready K \<sigma> (c\<lparr>ms_pc := i, ms_regs := (ms_regs c)(t \<mapsto> x)\<rparr>) \<rho>"
proof -
  have t: "t \<in> set (defined_names P)" using assms(2,3) by simp
  have "t \<notin> ran \<sigma>"
  proof
    assume "t \<in> ran \<sigma>"
    then have old: "t \<in> set (defined_names before)" using layoutD(5) [OF assms(1)] by blast
    obtain rest where "P = before @ rest" using assms(1) by (auto simp: layout_def)
    then have "take (length before) v = before"
      using assms(2,4) by (metis append_eq_append_conv_if append_take_drop_id)
    then have "defined_names v = defined_names before @ defined_names (drop (length before) v)"
      by (metis append_take_drop_id defined_simps(3))
    then show False using layoutD(1) [OF assms(1)] assms(2,3) old by auto
  qed
  then show ?thesis using assms(5) t layoutD(3,4) [OF assms(1)] by (auto simp: ready_def)
qed

section \<open>Lines around a computation\<close>

lemma emit_many_run: "emit_many ls s = (Inr (), s\<lparr>ls_instructions := ls_instructions s @ ls\<rparr>)"
  by (induction ls arbitrary: s) (simp_all add: retL_def bindL_def emit_def modifyL_def)

lemma extends_lines: "extends s ls (s\<lparr>ls_instructions := ls_instructions s @ ls\<rparr>)"
  using slots_recorded_fields [of "s\<lparr>ls_instructions := ls_instructions s @ ls\<rparr>" s]
  by (simp add: extends_def context_of_eq)

lemma extends_context: "extends s code s' \<Longrightarrow> context_of s' = context_of s"
  by (simp add: extends_def)

lemma extends_slots: "extends s code s' \<Longrightarrow> ls_variable_slots s' \<subseteq>\<^sub>m \<sigma> \<Longrightarrow> ls_variable_slots s \<subseteq>\<^sub>m \<sigma>"
  unfolding extends_def by (blast intro: map_le_trans)

lemma simE:
  assumes "sim ops K \<sigma> fl s \<Gamma> \<rho> m G \<rho>' out" "context_of s = context_of K"
  obtains x s' code where "m s = (Inr x, s')" "extends s code s'" "fl \<Longrightarrow> defined_labels code = []"
    "context_of s' = context_of K"
    "ls_variable_slots s' \<subseteq>\<^sub>m \<sigma> \<Longrightarrow> passes ops K \<sigma> code \<Gamma> \<rho> (G x) \<rho>' out"
  using assms extends_context unfolding sim_def by metis

lemma simI:
  assumes "m s = (Inr x, s')" "extends s code s'" "fl \<Longrightarrow> defined_labels code = []"
    "ls_variable_slots s' \<subseteq>\<^sub>m \<sigma> \<Longrightarrow> passes ops K \<sigma> code \<Gamma> \<rho> (G x) \<rho>' out"
  shows "sim ops K \<sigma> fl s \<Gamma> \<rho> m G \<rho>' out"
  using assms unfolding sim_def by blast

lemma sim_around:
  assumes m: "\<And>s. sim ops K \<sigma> fl' s [] \<rho>1 m (\<lambda>y. [(y, Holds w)]) \<rho>2 []"
    and run: "\<And>code y. passes ops K \<sigma> code [] \<rho>1 [(y, Holds w)] \<rho>2 [] \<Longrightarrow>
                passes ops K \<sigma> (ls1 @ code @ ls2 y) \<Gamma> \<rho>1 (G t) \<rho>' []"
  shows "sim ops K \<sigma> False s \<Gamma> \<rho>1
           (bindL (emit_many ls1) (\<lambda>_. bindL m (\<lambda>y. bindL (emit_many (ls2 y)) (\<lambda>_. retL t)))) G \<rho>' []"
proof (rule sim_context)
  let ?s1 = "s\<lparr>ls_instructions := ls_instructions s @ ls1\<rparr>"
  assume ctx: "context_of s = context_of K"
  note e1 = extends_lines [of s ls1]
  obtain y s2 code where m': "m ?s1 = (Inr y, s2)" "extends ?s1 code s2"
    "ls_variable_slots s2 \<subseteq>\<^sub>m \<sigma> \<Longrightarrow> passes ops K \<sigma> code [] \<rho>1 [(y, Holds w)] \<rho>2 []"
    using simE [OF m, of ?s1] extends_context [OF e1] ctx by metis
  show ?thesis
    by (rule simI [where code = "ls1 @ code @ ls2 y"
          and s' = "s2\<lparr>ls_instructions := ls_instructions s2 @ ls2 y\<rparr>" and x = t])
      (use run m' extends_trans [OF e1 extends_trans [OF m'(2) extends_lines]] in
        \<open>simp_all add: bindL_def emit_many_run retL_def\<close>)
qed

text \<open>Lines that come to a phi with the operand of the block they came from.\<close>

definition joins ::
  "'f float_ops \<Rightarrow> lowering_state \<Rightarrow> (string \<rightharpoonup> string) \<Rightarrow> line list \<Rightarrow> 'f machine \<Rightarrow> nat \<Rightarrow> 'f env
     \<Rightarrow> (string \<times> string) list \<Rightarrow> 'f val \<Rightarrow> line list \<Rightarrow> bool" where
  "joins ops K \<sigma> P c i \<rho>' incomings v body \<longleftrightarrow>
     (\<exists>c1 z. reaches ops P c c1 \<and> ms_pc c1 = i \<and> ready K \<sigma> c1 \<rho>' \<and> ms_trace c1 = ms_trace c
        \<and> (\<forall>a. a \<notin> set (defined_names body) \<longrightarrow> ms_regs c1 a = ms_regs c a)
        \<and> map_of (map prod.swap incomings) (ms_from c1) = Some z \<and> operand_value ops (ms_regs c1) z = Some v)"

lemma joinsI:
  assumes "reaches ops P c c1" "ms_pc c1 = i" "ready K \<sigma> c1 \<rho>'" "ms_trace c1 = ms_trace c"
    "\<And>a. a \<notin> set (defined_names body) \<Longrightarrow> ms_regs c1 a = ms_regs c a"
    "map_of (map prod.swap incomings) (ms_from c1) = Some z" "operand_value ops (ms_regs c1) z = Some v"
  shows "joins ops K \<sigma> P c i \<rho>' incomings v body"
  using assms unfolding joins_def by blast

lemma passes_phi:
  assumes t: "is_register t" and labels: "defined_labels body \<noteq> []"
    and body: "\<And>before after c. layout K \<sigma> (before @ body @ Phi t ty incomings # after) before \<Longrightarrow>
      ms_pc c = length before \<Longrightarrow> ready K \<sigma> c \<rho> \<Longrightarrow> knows ops K \<sigma> c \<Gamma> \<Longrightarrow>
      joins ops K \<sigma> (before @ body @ Phi t ty incomings # after) c (length (before @ body)) \<rho>' incomings v body"
  shows "passes ops K \<sigma> (body @ [Phi t ty incomings]) \<Gamma> \<rho> [(t, Holds v)] \<rho>' []"
proof (rule passesI, goal_cases)
  case (1 before after c)
  let ?P = "before @ body @ Phi t ty incomings # after"
  have lay: "layout K \<sigma> ?P before" using 1(1) by simp
  obtain c1 z where c1: "reaches ops ?P c c1" "ms_pc c1 = length (before @ body)" "ready K \<sigma> c1 \<rho>'"
    "ms_trace c1 = ms_trace c" "\<forall>a. a \<notin> set (defined_names body) \<longrightarrow> ms_regs c1 a = ms_regs c a"
    "map_of (map prod.swap incomings) (ms_from c1) = Some z" "operand_value ops (ms_regs c1) z = Some v"
    using body [OF lay 1(2-4)] unfolding joins_def by blast
  let ?c2 = "c1\<lparr>ms_pc := Suc (length (before @ body)), ms_regs := (ms_regs c1)(t \<mapsto> v)\<rparr>"
  have split: "?P = (before @ body) @ Phi t ty incomings # after" by simp
  have "step ops ?P c1 = Some ?c2" by (rule step_phi [OF c1(2) split c1(6,7)])
  then have "reaches ops ?P c ?c2" using reaches_trans [OF c1(1) reaches_one] by blast
  moreover have "ready K \<sigma> ?c2 \<rho>'" by (rule ready_define [OF lay split _ _ c1(3)]) simp_all
  ultimately show ?case
    using c1(4,5) t labels by (intro exI [of _ ?c2]) (simp add: carried_def operand_value_def)
qed

text \<open>Code of a part, entered by a jump to its first block.\<close>

lemma enter_part:
  assumes part: "passes ops K \<sigma> code [] \<rho> \<Delta> \<rho>' []"
    and P: "P = u @ code @ w" and lay: "layout K \<sigma> P before" and u: "\<exists>r. u = before @ r"
    and c: "ms_pc c = length u" "ready K \<sigma> c \<rho>"
  obtains c' where "reaches ops P c c'" "ms_pc c' = length (u @ code)" "ready K \<sigma> c' \<rho>'" "knows ops K \<sigma> c' \<Delta>"
    "\<And>a. a \<notin> set (defined_names code) \<Longrightarrow> ms_regs c' a = ms_regs c a"
    "defined_labels code = [] \<Longrightarrow> ms_block c' = ms_block c" "ms_trace c' = ms_trace c"
proof -
  obtain r where "u = before @ r" using u by blast
  then have "layout K \<sigma> (u @ code @ w) u"
    using layout_later [of K \<sigma> before r "code @ w"] lay P by simp
  from passesE [OF part this c] show ?thesis
    using that P by (auto simp: carried_def)
qed

section \<open>Conjunction and disjunction\<close>

lemma passes_and:
  assumes t: "is_register t" and x: "(x, Holds (Bit b)) \<in> set \<Gamma>"
    and code: "passes ops K \<sigma> code [] \<rho>1 [(y, Holds (Bit b2))] \<rho>2 []"
  shows "passes ops K \<sigma>
     (([CondBr x rhs no, Lab rhs] @ code @ [Br val, Lab val, Br fin, Lab no, Br fin, Lab fin])
       @ [Phi t ''i1'' [(''false'', no), (y, val)]])
     \<Gamma> \<rho>1 [(t, Holds (Bit (b \<and> b2)))] (if b then \<rho>2 else \<rho>1) []"
proof (rule passes_phi [OF t], simp, goal_cases)
  case (1 before after c)
  let ?h = "[CondBr x rhs no, Lab rhs]" and ?v = "[Br val, Lab val, Br fin, Lab no, Br fin, Lab fin]"
  define P where "P = before @ (?h @ code @ ?v) @ Phi t ''i1'' [(''false'', no), (y, val)] # after"
  have lay: "layout K \<sigma> P before" using 1(1) by (simp add: P_def)
  note labels = layoutD(2) [OF lay]
  have test: "operand_value ops (ms_regs c) x = Some (Bit b)" using knowsD [OF 1(4) x] .
  show ?case
  proof (cases b)
    case True
    let ?c0 = "jumped (length before + 1) rhs c"
    have s0: "step ops P c = Some ?c0"
      using step_cond_br [OF labels 1(2) _ test, of rhs no _ "before @ [CondBr x rhs no]"] True by (simp add: P_def)
    obtain c1 where c1: "reaches ops P ?c0 c1" "ms_pc c1 = length ((before @ ?h) @ code)"
      "ready K \<sigma> c1 \<rho>2" "knows ops K \<sigma> c1 [(y, Holds (Bit b2))]" "ms_trace c1 = ms_trace ?c0"
      "\<And>a. a \<notin> set (defined_names code) \<Longrightarrow> ms_regs c1 a = ms_regs ?c0 a"
      by (rule enter_part [OF code, of P "before @ ?h" _ before ?c0]) (use lay 1(3) in \<open>auto simp: P_def\<close>)
    let ?c2 = "jumped (length (before @ ?h @ code) + 1) val c1"
    have s1: "step ops P c1 = Some ?c2"
      using step_br [OF labels c1(2), of val _ "before @ ?h @ code @ [Br val]"] by (simp add: P_def)
    let ?c3 = "jumped (length (before @ ?h @ code) + 5) fin ?c2"
    have s2: "step ops P ?c2 = Some ?c3"
      using step_br [OF labels, of ?c2 "before @ ?h @ code @ [Br val, Lab val]" fin _
          "before @ ?h @ code @ [Br val, Lab val, Br fin, Lab no, Br fin]"] by (simp add: P_def)
    have run: "reaches ops P c ?c3"
      using reaches_step [OF s0 reaches_trans [OF c1(1) reaches_step [OF s1 reaches_one [OF s2]]]] .
    have "val \<noteq> no" using labels by (simp add: P_def)
    then show ?thesis
      unfolding P_def [symmetric] by (intro joinsI [OF run, where z = y]) (use c1 True in simp_all)
  next
    case False
    let ?c0 = "jumped (length (before @ ?h @ code) + 3) no c"
    have s0: "step ops P c = Some ?c0"
      using step_cond_br [OF labels 1(2) _ test, of rhs no _ "before @ ?h @ code @ [Br val, Lab val, Br fin]"]
        False by (simp add: P_def)
    let ?c1 = "jumped (length (before @ ?h @ code) + 5) fin ?c0"
    have s1: "step ops P ?c0 = Some ?c1"
      using step_br [OF labels, of ?c0 "before @ ?h @ code @ [Br val, Lab val, Br fin, Lab no]" fin _
          "before @ ?h @ code @ [Br val, Lab val, Br fin, Lab no, Br fin]"] by (simp add: P_def)
    show ?thesis
      unfolding P_def [symmetric]
      by (rule joinsI [OF reaches_step [OF s0 reaches_one [OF s1]], where z = "''false''"])
        (use 1(3) False in \<open>simp_all add: operand_value_def is_register_def constant_value_def\<close>)
  qed
qed

lemma passes_or:
  assumes t: "is_register t" and x: "(x, Holds (Bit b)) \<in> set \<Gamma>"
    and code: "passes ops K \<sigma> code [] \<rho>1 [(y, Holds (Bit b2))] \<rho>2 []"
  shows "passes ops K \<sigma>
     (([CondBr x yes rhs, Lab yes, Br fin, Lab rhs] @ code @ [Br val, Lab val, Br fin, Lab fin])
       @ [Phi t ''i1'' [(''true'', yes), (y, val)]])
     \<Gamma> \<rho>1 [(t, Holds (Bit (b \<or> b2)))] (if b then \<rho>1 else \<rho>2) []"
proof (rule passes_phi [OF t], simp, goal_cases)
  case (1 before after c)
  let ?h = "[CondBr x yes rhs, Lab yes, Br fin, Lab rhs]" and ?v = "[Br val, Lab val, Br fin, Lab fin]"
  define P where "P = before @ (?h @ code @ ?v) @ Phi t ''i1'' [(''true'', yes), (y, val)] # after"
  have lay: "layout K \<sigma> P before" using 1(1) by (simp add: P_def)
  note labels = layoutD(2) [OF lay]
  have test: "operand_value ops (ms_regs c) x = Some (Bit b)" using knowsD [OF 1(4) x] .
  show ?case
  proof (cases b)
    case False
    let ?c0 = "jumped (length before + 3) rhs c"
    have s0: "step ops P c = Some ?c0"
      using step_cond_br [OF labels 1(2) _ test, of yes rhs _ "before @ [CondBr x yes rhs, Lab yes, Br fin]"] False
      by (simp add: P_def)
    obtain c1 where c1: "reaches ops P ?c0 c1" "ms_pc c1 = length ((before @ ?h) @ code)"
      "ready K \<sigma> c1 \<rho>2" "knows ops K \<sigma> c1 [(y, Holds (Bit b2))]" "ms_trace c1 = ms_trace ?c0"
      "\<And>a. a \<notin> set (defined_names code) \<Longrightarrow> ms_regs c1 a = ms_regs ?c0 a"
      by (rule enter_part [OF code, of P "before @ ?h" _ before ?c0]) (use lay 1(3) in \<open>auto simp: P_def\<close>)
    let ?c2 = "jumped (length (before @ ?h @ code) + 1) val c1"
    have s1: "step ops P c1 = Some ?c2"
      using step_br [OF labels c1(2), of val _ "before @ ?h @ code @ [Br val]"] by (simp add: P_def)
    let ?c3 = "jumped (length (before @ ?h @ code) + 3) fin ?c2"
    have s2: "step ops P ?c2 = Some ?c3"
      using step_br [OF labels, of ?c2 "before @ ?h @ code @ [Br val, Lab val]" fin _
          "before @ ?h @ code @ [Br val, Lab val, Br fin]"] by (simp add: P_def)
    have run: "reaches ops P c ?c3"
      using reaches_step [OF s0 reaches_trans [OF c1(1) reaches_step [OF s1 reaches_one [OF s2]]]] .
    have "val \<noteq> yes" using labels by (auto simp: P_def)
    then show ?thesis
      unfolding P_def [symmetric] by (intro joinsI [OF run, where z = y]) (use c1 False in simp_all)
  next
    case True
    let ?c0 = "jumped (length before + 1) yes c"
    have s0: "step ops P c = Some ?c0"
      using step_cond_br [OF labels 1(2) _ test, of yes rhs _ "before @ [CondBr x yes rhs]"] True
      by (simp add: P_def)
    let ?c1 = "jumped (length (before @ ?h @ code) + 3) fin ?c0"
    have s1: "step ops P ?c0 = Some ?c1"
      using step_br [OF labels, of ?c0 "before @ [CondBr x yes rhs, Lab yes]" fin _
          "before @ ?h @ code @ [Br val, Lab val, Br fin]"] by (simp add: P_def)
    show ?thesis
      unfolding P_def [symmetric]
      by (rule joinsI [OF reaches_step [OF s0 reaches_one [OF s1]], where z = "''true''"])
        (use 1(3) True in \<open>simp_all add: operand_value_def is_register_def constant_value_def\<close>)
  qed
qed

section \<open>Branches\<close>

lemma passes_branches:
  assumes t: "is_register t" and x: "(x, Holds (Bit b)) \<in> set \<Gamma>"
    and code1: "passes ops K \<sigma> code1 [] \<rho>1 [(y1, Holds v1)] \<rho>2 []" "defined_labels code1 = []"
    and code2: "passes ops K \<sigma> code2 [] \<rho>1 [(y2, Holds v2)] \<rho>3 []" "defined_labels code2 = []"
  shows "passes ops K \<sigma>
     (([CondBr x yes no, Lab yes] @ code1 @ [Br fin, Lab no] @ code2 @ [Br fin, Lab fin])
       @ [Phi t ty [(y1, yes), (y2, no)]])
     \<Gamma> \<rho>1 [(t, Holds (if b then v1 else v2))] (if b then \<rho>2 else \<rho>3) []"
proof (rule passes_phi [OF t], simp, goal_cases)
  case (1 before after c)
  let ?h = "[CondBr x yes no, Lab yes]" and ?m = "[Br fin, Lab no]" and ?v = "[Br fin, Lab fin]"
  define P where "P = before @ (?h @ code1 @ ?m @ code2 @ ?v) @ Phi t ty [(y1, yes), (y2, no)] # after"
  have lay: "layout K \<sigma> P before" using 1(1) by (simp add: P_def)
  note labels = layoutD(2) [OF lay]
  have test: "operand_value ops (ms_regs c) x = Some (Bit b)" using knowsD [OF 1(4) x] .
  have ne: "yes \<noteq> no" using labels by (simp add: P_def)
  show ?case
  proof (cases b)
    case True
    let ?c0 = "jumped (length before + 1) yes c"
    have s0: "step ops P c = Some ?c0"
      using step_cond_br [OF labels 1(2) _ test, of yes no _ "before @ [CondBr x yes no]"] True by (simp add: P_def)
    obtain c1 where c1: "reaches ops P ?c0 c1" "ms_pc c1 = length ((before @ ?h) @ code1)"
      "ready K \<sigma> c1 \<rho>2" "knows ops K \<sigma> c1 [(y1, Holds v1)]" "ms_trace c1 = ms_trace ?c0" "ms_block c1 = yes"
      "\<And>a. a \<notin> set (defined_names code1) \<Longrightarrow> ms_regs c1 a = ms_regs ?c0 a"
      by (rule enter_part [OF code1(1), of P "before @ ?h" _ before ?c0])
        (use lay 1(3) code1(2) in \<open>auto simp: P_def\<close>)
    let ?c2 = "jumped (length (before @ ?h @ code1 @ ?m @ code2) + 1) fin c1"
    have s1: "step ops P c1 = Some ?c2"
      using step_br [OF labels c1(2), of fin _ "before @ ?h @ code1 @ ?m @ code2 @ [Br fin]"] by (simp add: P_def)
    show ?thesis
      unfolding P_def [symmetric]
      by (rule joinsI [OF reaches_step [OF s0 reaches_trans [OF c1(1) reaches_one [OF s1]]], where z = y1])
        (use c1 True ne in simp_all)
  next
    case False
    let ?c0 = "jumped (length (before @ ?h @ code1) + 1) no c"
    have s0: "step ops P c = Some ?c0"
      using step_cond_br [OF labels 1(2) _ test, of yes no _ "before @ ?h @ code1 @ [Br fin]"] False
      by (simp add: P_def)
    obtain c1 where c1: "reaches ops P ?c0 c1" "ms_pc c1 = length ((before @ ?h @ code1 @ ?m) @ code2)"
      "ready K \<sigma> c1 \<rho>3" "knows ops K \<sigma> c1 [(y2, Holds v2)]" "ms_trace c1 = ms_trace ?c0" "ms_block c1 = no"
      "\<And>a. a \<notin> set (defined_names code2) \<Longrightarrow> ms_regs c1 a = ms_regs ?c0 a"
      by (rule enter_part [OF code2(1), of P "before @ ?h @ code1 @ ?m" _ before ?c0])
        (use lay 1(3) code2(2) in \<open>auto simp: P_def\<close>)
    let ?c2 = "jumped (length (before @ ?h @ code1 @ ?m @ code2) + 1) fin c1"
    have s1: "step ops P c1 = Some ?c2"
      using step_br [OF labels c1(2), of fin _ "before @ ?h @ code1 @ ?m @ code2 @ [Br fin]"] by (simp add: P_def)
    show ?thesis
      unfolding P_def [symmetric]
      by (rule joinsI [OF reaches_step [OF s0 reaches_trans [OF c1(1) reaches_one [OF s1]]], where z = y2])
        (use c1 False ne in simp_all)
  qed
qed

end
