(* ===== verification/Expression_Correct.thy ===== *)
theory Expression_Correct
  imports Branch_Code
begin

text \<open>
  Every expression of the core: its numeric code gives the value of the interpreter, its condition code
  whether that value is true.
\<close>

section \<open>Core expressions and names\<close>

lemma core_name_facts:
  assumes "core_name s x"
  shows "ls_function_param_strings s x = None" "ls_loop_string_bindings s x = None" "\<not> is_state_name x"
    "x \<notin> {''NR'', ''FNR'', ''NF'', ''FILENAME''}" "runtime_name_uses_numeric_slot_state x s"
    "\<not> runtime_name_uses_only_scalar_runtime x s" "\<not> runtime_name_uses_string_slot_runtime x s"
    "\<not> runtime_name_is_inferred_string x s" "\<not> runtime_name_uses_slot_cached_runtime x s"
  using assms by (auto simp: core_name_def name_predicates)

lemma core_context:
  assumes "context_of s = context_of K"
  shows "core ops s e = core ops K e" "one_block s e = one_block K e"
proof -
  note same = same_context [OF assms]
  have "core ops s e = core ops K e \<and> one_block s e = one_block K e"
  proof (induction "size e" arbitrary: e rule: less_induct)
    case (less e)
    show ?case
      by (cases e) (auto simp: less same core_target_def split: expr.split lvalue.split)
  qed
  then show "core ops s e = core ops K e" "one_block s e = one_block K e" by simp_all
qed

lemma core_not_string:
  "core ops s e \<Longrightarrow> \<not> runtime_expression_is_known_string e s \<and> \<not> runtime_assignment_preserves_string e s
     \<and> \<not> runtime_expression_has_string_result e s \<and> \<not> expression_forces_string_comparison e"
proof (induction "size e" arbitrary: e rule: less_induct)
  case (less e)
  then show ?case
    by (cases e) (auto simp: core_name_facts expression_forces_string_comparison_def is_arithmetic_op_def
        is_comparison_op_def dest: core_name_facts(4) split: lvalue.splits)
qed

lemma pure_core:
  assumes "core ops s e" "\<not> runtime_expression_has_side_effects e s"
  shows "snd (eval ops e \<rho>) = \<rho>"
  using assms
proof (induction "size e" arbitrary: e \<rho> rule: less_induct)
  case (less e)
  then show ?case
    by (cases e) (auto simp: split_beta Let_def split: unary_op.splits if_splits)
qed

section \<open>The two views of an expression\<close>

definition numeric_sim :: "'f float_ops \<Rightarrow> lowering_state \<Rightarrow> (string \<rightharpoonup> string) \<Rightarrow> expr \<Rightarrow> bool" where
  "numeric_sim ops K \<sigma> e \<longleftrightarrow>
     (\<forall>fl s \<Gamma> \<rho>. (fl \<longrightarrow> one_block K e) \<longrightarrow>
        sim ops K \<sigma> fl s \<Gamma> \<rho> (lw_numeric lowering e) (\<lambda>v. [(v, Holds (Num (fst (eval ops e \<rho>))))])
          (snd (eval ops e \<rho>)) [])"

definition condition_sim :: "'f float_ops \<Rightarrow> lowering_state \<Rightarrow> (string \<rightharpoonup> string) \<Rightarrow> expr \<Rightarrow> bool" where
  "condition_sim ops K \<sigma> e \<longleftrightarrow>
     (\<forall>fl s \<Gamma> \<rho>. (fl \<longrightarrow> one_block K e) \<longrightarrow>
        sim ops K \<sigma> fl s \<Gamma> \<rho> (lw_condition lowering e)
          (\<lambda>v. [(v, Holds (Bit (is_true ops (fst (eval ops e \<rho>)))))]) (snd (eval ops e \<rho>)) [])"

lemma numeric_simD:
  "numeric_sim ops K \<sigma> e \<Longrightarrow> (fl \<Longrightarrow> one_block K e) \<Longrightarrow>
     sim ops K \<sigma> fl s \<Gamma> \<rho> (lw_numeric lowering e) (\<lambda>v. [(v, Holds (Num (fst (eval ops e \<rho>))))])
       (snd (eval ops e \<rho>)) []"
  by (simp add: numeric_sim_def)

lemma condition_simD:
  "condition_sim ops K \<sigma> e \<Longrightarrow> (fl \<Longrightarrow> one_block K e) \<Longrightarrow>
     sim ops K \<sigma> fl s \<Gamma> \<rho> (lw_condition lowering e) (\<lambda>v. [(v, Holds (Bit (is_true ops (fst (eval ops e \<rho>)))))])
       (snd (eval ops e \<rho>)) []"
  by (simp add: condition_sim_def)

text \<open>The dispatch of the two functions.\<close>

lemma numeric_dispatch:
  assumes "phase_context K" "sim ops K \<sigma> fl s \<Gamma> \<rho> m G \<rho>' out"
    and "lower_runtime_numeric_expression lowering e = bindL assert_runtime (\<lambda>_. m)"
  shows "sim ops K \<sigma> fl s \<Gamma> \<rho> (lw_numeric lowering e) G \<rho>' out"
  unfolding lowering_equations(1) assms(3) using sim_runtime [OF assms(1,2)] by simp

lemma condition_dispatch:
  assumes "phase_context K" "core ops K e"
    and "context_of s = context_of K \<Longrightarrow>
           sim ops K \<sigma> fl s \<Gamma> \<rho> (lower_structured_condition lowering True e) G \<rho>' out"
  shows "sim ops K \<sigma> fl s \<Gamma> \<rho> (lw_condition lowering e) G \<rho>' out"
proof (rule sim_context)
  assume ctx: "context_of s = context_of K"
  then have core: "core ops s e" using assms(2) core_context by blast
  have "lower_condition_expression lowering e s = lower_structured_condition lowering True e s"
    using core core_not_string [OF core] assms(1) same_context(6) [OF ctx]
    by (cases e) (auto simp: lower_condition_expression_def bindL_def getL_def phase_context_def core_name_facts)
  then show ?thesis
    using assms(3) [OF ctx] sim_eq unfolding lowering_equations by metis
qed

lemma sim_truthy:
  assumes "ops_ok ops" "numeric_sim ops K \<sigma> e" "fl \<Longrightarrow> one_block K e"
  shows "sim ops K \<sigma> fl s \<Gamma> \<rho> (truthy (lw_numeric lowering) e)
    (\<lambda>v. [(v, Holds (Bit (is_true ops (fst (eval ops e \<rho>)))))]) (snd (eval ops e \<rho>)) []"
  unfolding truthy_def
proof (rule sim_bind_simple [OF numeric_simD [OF assms(2,3)]], assumption, rule sim_define, goal_cases)
  case (1 x s1 t c)
  then have "operand_value ops (ms_regs c) x = Some (Num (fst (eval ops e \<rho>)))" by simp
  from value_comparison [OF this constant_operands(1) [OF assms(1)], of _ t "''one''"]
  show ?case by (simp add: is_true_def)
qed

lemma sim_bool_to_number:
  assumes "(x, Holds (Bit b)) \<in> set \<Gamma>"
  shows "sim ops K \<sigma> fl s \<Gamma> \<rho> (bool_to_number x) (\<lambda>t. [(t, Holds (Num (fo_of_bit ops b)))]) \<rho> []"
  unfolding bool_to_number_def
proof (rule sim_define, goal_cases)
  case (1 t c)
  then show ?case using knowsD [OF 1(2) assms] by (simp add: rhs_value_def pieces_simps)
qed

text \<open>An expression whose number is that of its condition.\<close>

lemma numeric_of_condition:
  assumes "condition_sim ops K \<sigma> e" "fl \<Longrightarrow> one_block K e"
    and "\<And>\<rho>. fo_of_bit ops (is_true ops (fst (eval ops e \<rho>))) = fst (eval ops e \<rho>)"
  shows "sim ops K \<sigma> fl s \<Gamma> \<rho> (bindL (lw_condition lowering e) bool_to_number)
    (\<lambda>t. [(t, Holds (Num (fst (eval ops e \<rho>))))]) (snd (eval ops e \<rho>)) []"
proof (rule sim_bind_simple [OF condition_simD [OF assms(1,2)]], assumption)
  fix x s1
  let ?b = "is_true ops (fst (eval ops e \<rho>))"
  have "sim ops K \<sigma> fl s1 ([(x, Holds (Bit ?b))] @ \<Gamma>) (snd (eval ops e \<rho>)) (bool_to_number x)
      (\<lambda>t. [(t, Holds (Num (fo_of_bit ops ?b)))]) (snd (eval ops e \<rho>)) []"
    by (rule sim_bool_to_number) simp
  then show "sim ops K \<sigma> fl s1 ([(x, Holds (Bit ?b))] @ \<Gamma>) (snd (eval ops e \<rho>)) (bool_to_number x)
      (\<lambda>t. [(t, Holds (Num (fst (eval ops e \<rho>))))]) (snd (eval ops e \<rho>)) []"
    by (simp add: assms(3))
qed

section \<open>Names, assignments, increments\<close>

lemma sim_load_name:
  assumes "phase_context K" "core_name K x"
  shows "sim ops K \<sigma> fl s \<Gamma> \<rho> (load_numeric_slot p x) (\<lambda>t. [(t, Holds (Num (\<rho> x)))]) \<rho> []"
  unfolding load_numeric_slot_def
  by (rule sim_bind_simple [OF sim_address [OF assms]]) (rule sim_load, simp)

lemma sim_numeric_name:
  assumes "phase_context K" "core_name K x"
  shows "sim ops K \<sigma> fl s \<Gamma> \<rho> (lower_runtime_numeric_name x) (\<lambda>t. [(t, Holds (Num (\<rho> x)))]) \<rho> []"
proof (rule sim_context)
  assume "context_of s = context_of K"
  then have "core_name s x" using assms(2) same_context(3) by blast
  then have "lower_runtime_numeric_name x s = load_numeric_slot ''slot.num'' x s"
    using core_name_facts [of s x] by (simp add: lower_runtime_numeric_name_def bindL_def getL_def)
  then show ?thesis using sim_load_name [OF assms] by (simp add: sim_def)
qed

lemma sim_combine:
  assumes "(x, Holds (Num u)) \<in> set \<Gamma>" "(y, Holds (Num v)) \<in> set \<Gamma>"
  shows "sim ops K \<sigma> fl s \<Gamma> \<rho> (combine_numeric_assignment op x y)
    (\<lambda>t. [(t, Holds (Num (updated_value ops op u v)))]) \<rho> []"
proof -
  have known: "operand_value ops (ms_regs c) x = Some (Num u)" "operand_value ops (ms_regs c) y = Some (Num v)"
    if "knows ops K \<sigma> c \<Gamma>" for c using knowsD [OF that] assms by auto
  consider "op = AssignPlain" | "op = AssignMod" | "op \<noteq> AssignPlain" "op \<noteq> AssignMod" by blast
  then show ?thesis
  proof cases
    case 1
    then show ?thesis using assms(2) by (simp add: combine_numeric_assignment_def sim_ret)
  next
    case 2
    show ?thesis
      unfolding 2 combine_numeric_assignment_def
      by (simp, rule sim_temp, rule sim_temp, rule sim_temp, rule sim_temp, rule sim_mod_lines [OF _ _ _ _ assms])
        (assumption | rule sim_ret; simp)+
  next
    case 3
    then show ?thesis
      unfolding combine_numeric_assignment_def
      by (cases op) (auto simp: pow_rhs_def intro!: sim_temp sim_def_value sim_ret value_arithmetic known)
  qed
qed

lemma sim_assign:
  assumes "phase_context K" "core_name K x" "numeric_sim ops K \<sigma> e" "fl \<Longrightarrow> one_block K e"
  shows "sim ops K \<sigma> fl s \<Gamma> \<rho> (assign_numeric_slot lowering x op e)
    (\<lambda>t. [(t, Holds (Num (updated_value ops op (\<rho> x) (fst (eval ops e \<rho>)))))])
    ((snd (eval ops e \<rho>))(x := updated_value ops op (\<rho> x) (fst (eval ops e \<rho>)))) []"
  unfolding assign_numeric_slot_def
  apply (rule sim_bind_simple [OF sim_address [OF assms(1,2)]])
  apply (rule sim_bind_simple [OF sim_load [where x = x]], simp)
  apply (rule sim_bind_simple [OF numeric_simD [OF assms(3,4)]], assumption)
  apply (rule sim_bind_simple [OF sim_combine [where u = "\<rho> x" and v = "fst (eval ops e \<rho>)"]], simp, simp)
  apply (rule sim_bind_simple [OF sim_store [where x = x and u = "updated_value ops op (\<rho> x) (fst (eval ops e \<rho>))"]])
    apply (simp, simp)
  apply (rule sim_ret, simp)
  done

lemma value_step:
  assumes "ops_ok ops" "operand_value ops regs x = Some (Num u)"
  shows "rhs_value ops regs mem t (step_rhs up x) = Some (Num (incremented ops up u))"
  using value_arithmetic [OF assms(2) constant_operands(2) [OF assms(1)]]
  by (simp add: step_rhs_def incremented_def)

lemma sim_increment_slot:
  assumes "phase_context K" "ops_ok ops" "core_name K x"
  shows "sim ops K \<sigma> fl s \<Gamma> \<rho> (increment_numeric_slot up old x)
    (\<lambda>t. [(t, Holds (Num (if old then \<rho> x else incremented ops up (\<rho> x))))])
    (\<rho>(x := incremented ops up (\<rho> x))) []"
  unfolding increment_numeric_slot_def emit_many.simps bindL_assoc bindL_ret
proof (rule sim_bind_simple [OF sim_address [OF assms(1,3)]], (rule sim_temp)+, goal_cases)
  case (1 a s1 o1 s2 n s3)
  have load: "sim ops K \<sigma> fl s' ([(a, Points x)] @ \<Gamma>) \<rho> (emit (Def o1 (load_rhs ''double'' a)))
      (\<lambda>_. [(o1, Holds (Num (\<rho> x)))]) \<rho> []" for s'
    by (rule sim_def_line [OF 1(1)]) (auto simp: rhs_value_def pieces_simps ready_def)
  have store: "sim ops K \<sigma> fl s' \<Delta> \<rho> (emit (Eff (store_text ''double'' n a))) (\<lambda>_. []) (\<rho>(x := u)) []"
    if "(a, Points x) \<in> set \<Delta>" "(n, Holds (Num u)) \<in> set \<Delta>" for s' \<Delta> u
    using sim_store [OF that] by (simp add: store_def)
  show ?case
    apply (rule sim_bind_simple [OF load])
    apply (rule sim_def_value [OF 1(2)], rule value_step [OF assms(2)], simp)
    apply (rule sim_bind_simple [OF store [where u = "incremented ops up (\<rho> x)"]], simp, simp)
    apply (rule sim_ret, simp)
    done
qed

lemma sim_increment:
  assumes "phase_context K" "ops_ok ops" "core_target K e"
  shows "sim ops K \<sigma> fl s \<Gamma> \<rho> (lower_runtime_increment_expression lowering e up old)
    (\<lambda>t. [(t, Holds (Num (fst (increment_value ops up old e \<rho>))))]) (snd (increment_value ops up old e \<rho>)) []"
proof (rule sim_context)
  assume ctx: "context_of s = context_of K"
  obtain x sp where e: "e = NameExpr x sp" and x: "core_name K x"
    using assms(3) by (auto simp: core_target_def split: expr.splits)
  have "lower_runtime_increment_expression lowering e up old s = increment_numeric_slot up old x s"
    using core_name_facts [of s x] x same_context(3) [OF ctx]
    by (simp add: e lower_runtime_increment_expression_def bindL_def getL_def)
  then show ?thesis
    using sim_increment_slot [OF assms(1,2) x] by (simp add: sim_def e increment_value_def)
qed

end
