(* ===== verification/Expression_Views.thy ===== *)
theory Expression_Views
  imports Expression_Correct
begin

text \<open>
  Comparisons, the logical operators and the conditional expression, and the theorem for all expressions
  of the core.
\<close>

section \<open>Comparisons\<close>

lemma sim_compare_numbers:
  assumes "is_comparison_op op"
    and l: "numeric_sim ops K \<sigma> l" "fl \<Longrightarrow> one_block K l" and r: "numeric_sim ops K \<sigma> r" "fl \<Longrightarrow> one_block K r"
  shows "sim ops K \<sigma> fl s \<Gamma> \<rho> (compare_numbers (lw_numeric lowering) l op r)
    (\<lambda>t. [(t, Holds (Bit (comparison_value ops op (fst (eval ops l \<rho>))
                                              (fst (eval ops r (snd (eval ops l \<rho>)))))))])
    (snd (eval ops r (snd (eval ops l \<rho>)))) []"
  unfolding compare_numbers_def
proof (rule sim_bind_simple [OF numeric_simD [OF l]], assumption,
    rule sim_bind_simple [OF numeric_simD [OF r]], assumption, rule sim_define, goal_cases)
  case (1 x s1 y s2 t c)
  let ?u = "fst (eval ops l \<rho>)" and ?v = "fst (eval ops r (snd (eval ops l \<rho>)))"
  have "operand_value ops (ms_regs c) x = Some (Num ?u)" "operand_value ops (ms_regs c) y = Some (Num ?v)"
    using 1(2) by simp_all
  from value_comparison [OF this, of _ t "comparison_predicate op"] show ?case
    using assms(1) by (auto simp: is_comparison_op_def)
qed

lemma comparison_condition:
  assumes "phase_context K" "ops_ok ops" "core ops K (BinaryExpr l op r sp)" "is_comparison_op op"
    and "numeric_sim ops K \<sigma> l" "numeric_sim ops K \<sigma> r" "fl \<Longrightarrow> one_block K l \<and> one_block K r"
  shows "sim ops K \<sigma> fl s \<Gamma> \<rho> (lower_comparison lowering l op r)
    (\<lambda>t. [(t, Holds (Bit (is_true ops (fst (eval ops (BinaryExpr l op r sp) \<rho>)))))])
    (snd (eval ops (BinaryExpr l op r sp) \<rho>)) []"
proof (rule sim_context)
  assume ctx: "context_of s = context_of K"
  have op: "op \<noteq> OpLogicalAnd" "op \<noteq> OpLogicalOr" "\<not> is_arithmetic_op op"
    using assms(4) by (auto simp: is_comparison_op_def is_arithmetic_op_def)
  have numeric: "runtime_expression_is_definitely_numeric l s" "runtime_expression_is_definitely_numeric r s"
    "core ops s l" "core ops s r"
    using assms(3) op same_context(4) [OF ctx] core_context(1) [OF ctx] by auto
  have "lower_comparison lowering l op r s = compare_numbers (lw_numeric lowering) l op r s"
    using numeric assms(1) same_context(6) [OF ctx] core_not_string [OF numeric(3)] core_not_string [OF numeric(4)]
    by (simp add: lower_comparison_def bindL_def getL_def phase_context_def)
  moreover have "fst (eval ops (BinaryExpr l op r sp) \<rho>)
      = fo_of_bit ops (comparison_value ops op (fst (eval ops l \<rho>)) (fst (eval ops r (snd (eval ops l \<rho>)))))"
    "snd (eval ops (BinaryExpr l op r sp) \<rho>) = snd (eval ops r (snd (eval ops l \<rho>)))"
    using op by (simp_all add: split_beta)
  ultimately show ?thesis
    using sim_compare_numbers [OF assms(4,5) _ assms(6), of fl s \<Gamma> \<rho>] assms(7) constant_operands(5) [OF assms(2)]
    by (simp add: sim_def)
qed

section \<open>The logical operators\<close>

lemma and_condition:
  assumes "ops_ok ops" "condition_sim ops K \<sigma> l" "condition_sim ops K \<sigma> r"
    and e: "e = BinaryExpr l OpLogicalAnd r sp"
  shows "sim ops K \<sigma> False s \<Gamma> \<rho> (lower_logical_and lowering l r)
    (\<lambda>t. [(t, Holds (Bit (is_true ops (fst (eval ops e \<rho>)))))]) (snd (eval ops e \<rho>)) []"
proof -
  let ?\<rho>1 = "snd (eval ops l \<rho>)" and ?b = "is_true ops (fst (eval ops l \<rho>))"
  let ?b2 = "is_true ops (fst (eval ops r ?\<rho>1))"
  have result: "is_true ops (fst (eval ops e \<rho>)) = (?b \<and> ?b2)"
    "snd (eval ops e \<rho>) = (if ?b then snd (eval ops r ?\<rho>1) else ?\<rho>1)"
    using constant_operands(5) [OF assms(1)] by (simp_all add: e split_beta)
  show ?thesis
    unfolding lower_logical_and_def result
  proof (rule sim_bind_simple [OF condition_simD [OF assms(2)]], simp, (rule sim_label)+, rule sim_temp,
      rule sim_around [OF condition_simD [OF assms(3)], where fl' = False], simp, goal_cases)
    case (1 x s1 rhs s2 val s3 no s4 fin s5 t s6 code y)
    from passes_and [OF 1(1) _ 1(2), where x = x and b = ?b and \<Gamma> = "[(x, Holds (Bit ?b))] @ \<Gamma>"
        and rhs = rhs and no = no and val = val and fin = fin]
    show ?case by (simp split del: if_split)
  qed
qed

lemma or_condition:
  assumes "ops_ok ops" "condition_sim ops K \<sigma> l" "condition_sim ops K \<sigma> r"
    and e: "e = BinaryExpr l OpLogicalOr r sp"
  shows "sim ops K \<sigma> False s \<Gamma> \<rho> (lower_logical_or lowering l r)
    (\<lambda>t. [(t, Holds (Bit (is_true ops (fst (eval ops e \<rho>)))))]) (snd (eval ops e \<rho>)) []"
proof -
  let ?\<rho>1 = "snd (eval ops l \<rho>)" and ?b = "is_true ops (fst (eval ops l \<rho>))"
  let ?b2 = "is_true ops (fst (eval ops r ?\<rho>1))"
  have result: "is_true ops (fst (eval ops e \<rho>)) = (?b \<or> ?b2)"
    "snd (eval ops e \<rho>) = (if ?b then ?\<rho>1 else snd (eval ops r ?\<rho>1))"
    using constant_operands(5) [OF assms(1)] by (simp_all add: e split_beta)
  show ?thesis
    unfolding lower_logical_or_def result
  proof (rule sim_bind_simple [OF condition_simD [OF assms(2)]], simp, (rule sim_label)+, rule sim_temp,
      rule sim_around [OF condition_simD [OF assms(3)], where fl' = False], simp, goal_cases)
    case (1 x s1 yes s2 rhs s3 val s4 fin s5 t s6 code y)
    from passes_or [OF 1(1) _ 1(2), where x = x and b = ?b and \<Gamma> = "[(x, Holds (Bit ?b))] @ \<Gamma>"
        and rhs = rhs and yes = yes and val = val and fin = fin]
    show ?case by (simp split del: if_split)
  qed
qed

section \<open>The conditional expression\<close>

lemma sim_two_parts:
  assumes a: "\<And>s. sim ops K \<sigma> True s [] \<rho>1 ma (\<lambda>y. [(y, Holds v1)]) \<rho>2 []"
    and b: "\<And>s. sim ops K \<sigma> True s [] \<rho>1 mb (\<lambda>y. [(y, Holds v2)]) \<rho>3 []"
    and run: "\<And>code1 code2 y1 y2 t. is_register t \<Longrightarrow>
      passes ops K \<sigma> code1 [] \<rho>1 [(y1, Holds v1)] \<rho>2 [] \<Longrightarrow> defined_labels code1 = [] \<Longrightarrow>
      passes ops K \<sigma> code2 [] \<rho>1 [(y2, Holds v2)] \<rho>3 [] \<Longrightarrow> defined_labels code2 = [] \<Longrightarrow>
      passes ops K \<sigma> ((ls1 @ code1 @ ls2 @ code2 @ ls3) @ [Phi t ty (incomings y1 y2)]) \<Gamma> \<rho>1 [(t, Holds v)] \<rho>' []"
  shows "sim ops K \<sigma> False s \<Gamma> \<rho>1
    (bindL (emit_many ls1) (\<lambda>_. bindL ma (\<lambda>y1. bindL (emit_many ls2) (\<lambda>_. bindL mb (\<lambda>y2.
       bindL (emit_many ls3) (\<lambda>_. phi p ty (incomings y1 y2))))))) (\<lambda>t. [(t, Holds v)]) \<rho>' []"
proof (rule sim_context)
  let ?s1 = "s\<lparr>ls_instructions := ls_instructions s @ ls1\<rparr>"
  assume ctx: "context_of s = context_of K"
  note e1 = extends_lines [of s ls1]
  obtain y1 s2 code1 where c1: "ma ?s1 = (Inr y1, s2)" "extends ?s1 code1 s2" "defined_labels code1 = []"
    "context_of s2 = context_of K"
    "ls_variable_slots s2 \<subseteq>\<^sub>m \<sigma> \<Longrightarrow> passes ops K \<sigma> code1 [] \<rho>1 [(y1, Holds v1)] \<rho>2 []"
    using simE [OF a, of ?s1] extends_context [OF e1] ctx by metis
  let ?s3 = "s2\<lparr>ls_instructions := ls_instructions s2 @ ls2\<rparr>"
  note e3 = extends_lines [of s2 ls2]
  obtain y2 s4 code2 where c2: "mb ?s3 = (Inr y2, s4)" "extends ?s3 code2 s4" "defined_labels code2 = []"
    "ls_variable_slots s4 \<subseteq>\<^sub>m \<sigma> \<Longrightarrow> passes ops K \<sigma> code2 [] \<rho>1 [(y2, Holds v2)] \<rho>3 []"
    using simE [OF b, of ?s3] extends_context [OF e3] c1(4) by metis
  have slots: "ls_variable_slots s2 \<subseteq>\<^sub>m \<sigma>" if "ls_variable_slots s4 \<subseteq>\<^sub>m \<sigma>"
    using extends_slots [OF e3 extends_slots [OF c2(2) that]] .
  let ?t = "temp_name p (ls_temp_index s4)"
  let ?s5 = "s4\<lparr>ls_instructions := ls_instructions s4 @ ls3\<rparr>"
  let ?l = "Phi ?t ty (incomings y1 y2)"
  let ?s6 = "?s5\<lparr>ls_temp_index := Suc (ls_temp_index s4)\<rparr>"
  let ?s7 = "?s6\<lparr>ls_instructions := ls_instructions ?s6 @ [?l]\<rparr>"
  have e6: "extends ?s5 [] ?s6"
    using slots_recorded_fields [of ?s6 ?s5] by (simp add: extends_def context_of_eq)
  have ext: "extends s ((ls1 @ code1 @ ls2 @ code2 @ ls3) @ [?l]) ?s7"
    using extends_trans [OF e1 extends_trans [OF c1(2) extends_trans [OF e3 extends_trans [OF c2(2)
          extends_trans [OF extends_lines [of s4 ls3] extends_trans [OF e6 extends_lines [of ?s6 "[?l]"]]]]]]]
    by simp
  show ?thesis
    by (rule simI [OF _ ext, where x = ?t])
      (use run c1 c2 slots in \<open>simp_all add: bindL_def emit_many_run phi_def next_temp_def emit_def modifyL_def retL_def\<close>)
qed

text \<open>A view of the value of an expression, lowered by \<open>lower\<close> to a value of the type \<open>ty\<close>.\<close>

definition view_sim ::
  "'f float_ops \<Rightarrow> lowering_state \<Rightarrow> (string \<rightharpoonup> string) \<Rightarrow> (expr \<Rightarrow> string low) \<Rightarrow> ('f \<Rightarrow> 'f val) \<Rightarrow> expr \<Rightarrow> bool" where
  "view_sim ops K \<sigma> lower view e \<longleftrightarrow>
     (\<forall>fl s \<Gamma> \<rho>. (fl \<longrightarrow> one_block K e) \<longrightarrow>
        sim ops K \<sigma> fl s \<Gamma> \<rho> (lower e) (\<lambda>v. [(v, Holds (view (fst (eval ops e \<rho>))))]) (snd (eval ops e \<rho>)) [])"

lemma view_simD:
  "view_sim ops K \<sigma> lower view e \<Longrightarrow> (fl \<Longrightarrow> one_block K e) \<Longrightarrow>
     sim ops K \<sigma> fl s \<Gamma> \<rho> (lower e) (\<lambda>v. [(v, Holds (view (fst (eval ops e \<rho>))))]) (snd (eval ops e \<rho>)) []"
  by (simp add: view_sim_def)

lemma views:
  "numeric_sim ops K \<sigma> e \<longleftrightarrow> view_sim ops K \<sigma> (lw_numeric lowering) Num e"
  "condition_sim ops K \<sigma> e \<longleftrightarrow> view_sim ops K \<sigma> (lw_condition lowering) (\<lambda>v. Bit (is_true ops v)) e"
  by (simp_all add: numeric_sim_def condition_sim_def view_sim_def)

lemma sim_branches:
  assumes "condition_sim ops K \<sigma> test" "view_sim ops K \<sigma> lower view a" "view_sim ops K \<sigma> lower view b"
    and "one_block K a" "one_block K b"
    and e: "e = ConditionalExpr test a b sp"
  shows "sim ops K \<sigma> False s \<Gamma> \<rho> (lower_branches lowering lp pp ty lower test a b)
    (\<lambda>t. [(t, Holds (view (fst (eval ops e \<rho>))))]) (snd (eval ops e \<rho>)) []"
proof -
  let ?\<rho>1 = "snd (eval ops test \<rho>)" and ?b = "is_true ops (fst (eval ops test \<rho>))"
  have result: "view (fst (eval ops e \<rho>)) = (if ?b then view (fst (eval ops a ?\<rho>1)) else view (fst (eval ops b ?\<rho>1)))"
    "snd (eval ops e \<rho>) = (if ?b then snd (eval ops a ?\<rho>1) else snd (eval ops b ?\<rho>1))"
    by (simp_all add: e split_beta)
  have parts: "sim ops K \<sigma> False s1 ([(x, Holds (Bit ?b))] @ \<Gamma>) ?\<rho>1
     (bindL (emit_many [CondBr x yes no, Lab yes]) (\<lambda>_. bindL (lower a) (\<lambda>y1.
      bindL (emit_many [Br fin, Lab no]) (\<lambda>_. bindL (lower b) (\<lambda>y2.
      bindL (emit_many [Br fin, Lab fin]) (\<lambda>_. phi pp ty [(y1, yes), (y2, no)]))))))
     (\<lambda>t. [(t, Holds (view (fst (eval ops e \<rho>))))]) (snd (eval ops e \<rho>)) []" for s1 x yes no fin
    unfolding result
  proof (rule sim_two_parts [OF view_simD [OF assms(2)] view_simD [OF assms(3)]], goal_cases)
    case (3 code1 code2 y1 y2 t)
    then show ?case by (intro passes_branches) simp_all
  qed (use assms(4,5) in simp_all)
  show ?thesis
    unfolding lower_branches_def cond_branch_def mark_label_def branch_def
    by (rule sim_bind_simple [OF condition_simD [OF assms(1)]], simp, (rule sim_label)+)
      (use parts in simp)
qed

lemma sim_select:
  assumes "condition_sim ops K \<sigma> test" "view_sim ops K \<sigma> lower view a" "view_sim ops K \<sigma> lower view b"
    and pure: "\<And>\<rho>. snd (eval ops a \<rho>) = \<rho>" "\<And>\<rho>. snd (eval ops b \<rho>) = \<rho>"
    and fl: "fl \<Longrightarrow> one_block K test \<and> one_block K a \<and> one_block K b"
    and ty: "\<And>regs mem t x y z u v w. operand_value ops regs x = Some (Bit u) \<Longrightarrow>
      operand_value ops regs y = Some (view v) \<Longrightarrow> operand_value ops regs z = Some (view w) \<Longrightarrow>
      rhs_value ops regs mem t (select_rhs x ty y z) = Some (view (if u then v else w))"
    and e: "e = ConditionalExpr test a b sp"
  shows "sim ops K \<sigma> fl s \<Gamma> \<rho>
    (bindL (lw_condition lowering test) (\<lambda>x. bindL (lower a) (\<lambda>y. bindL (lower b) (\<lambda>z. select p x ty y z))))
    (\<lambda>t. [(t, Holds (view (fst (eval ops e \<rho>))))]) (snd (eval ops e \<rho>)) []"
proof -
  let ?\<rho>1 = "snd (eval ops test \<rho>)" and ?b = "is_true ops (fst (eval ops test \<rho>))"
  have result: "fst (eval ops e \<rho>) = (if ?b then fst (eval ops a ?\<rho>1) else fst (eval ops b ?\<rho>1))"
    "snd (eval ops e \<rho>) = ?\<rho>1"
    by (simp_all add: e split_beta pure)
  have a: "sim ops K \<sigma> fl s1 \<Delta> ?\<rho>1 (lower a) (\<lambda>v. [(v, Holds (view (fst (eval ops a ?\<rho>1))))]) ?\<rho>1 []" for s1 \<Delta>
    using view_simD [OF assms(2), of fl s1 \<Delta> ?\<rho>1] fl pure by simp
  have b: "sim ops K \<sigma> fl s1 \<Delta> ?\<rho>1 (lower b) (\<lambda>v. [(v, Holds (view (fst (eval ops b ?\<rho>1))))]) ?\<rho>1 []" for s1 \<Delta>
    using view_simD [OF assms(3), of fl s1 \<Delta> ?\<rho>1] fl pure by simp
  show ?thesis
    unfolding result select_def
    by (rule sim_bind_simple [OF condition_simD [OF assms(1)]], use fl in simp, rule sim_bind_simple [OF a],
        rule sim_bind_simple [OF b], rule sim_define, rule ty; simp)
qed

lemma value_select:
  assumes "operand_value ops regs x = Some (Bit u)"
  shows "operand_value ops regs y = Some (Num v) \<Longrightarrow> operand_value ops regs z = Some (Num w) \<Longrightarrow>
      rhs_value ops regs mem t (select_rhs x ''double'' y z) = Some (Num (if u then v else w))"
    "operand_value ops regs y = Some (Bit b) \<Longrightarrow> operand_value ops regs z = Some (Bit b') \<Longrightarrow>
      rhs_value ops regs mem t (select_rhs x ''i1'' y z) = Some (Bit (if u then b else b'))"
  using assms by (simp_all add: rhs_value_def pieces_simps)

lemma select_condition:
  assumes "operand_value ops regs x = Some (Bit u)" "operand_value ops regs y = Some (Bit (is_true ops v))"
    "operand_value ops regs z = Some (Bit (is_true ops w))"
  shows "rhs_value ops regs mem t (select_rhs x ''i1'' y z) = Some (Bit (is_true ops (if u then v else w)))"
  using value_select(2) [OF assms, of mem t] by (cases u) simp_all

section \<open>All expressions of the core\<close>

lemma ternary_condition:
  assumes K: "phase_context K" and parts: "condition_sim ops K \<sigma> test" "condition_sim ops K \<sigma> a" "condition_sim ops K \<sigma> b"
    and core: "core ops K (ConditionalExpr test a b sp)" and fl: "fl \<Longrightarrow> one_block K (ConditionalExpr test a b sp)"
  shows "sim ops K \<sigma> fl s \<Gamma> \<rho> (lower_structured_condition lowering True (ConditionalExpr test a b sp))
    (\<lambda>t. [(t, Holds (Bit (is_true ops (fst (eval ops (ConditionalExpr test a b sp) \<rho>)))))])
    (snd (eval ops (ConditionalExpr test a b sp) \<rho>)) []"
proof (rule sim_context)
  let ?effects = "\<lambda>K. runtime_expression_has_side_effects a K \<or> runtime_expression_has_side_effects b K"
  assume ctx: "context_of s = context_of K"
  note v = parts(2,3) [unfolded views]
  show ?thesis
  proof (cases "?effects K")
    case True
    then have "sim ops K \<sigma> False s \<Gamma> \<rho> (lower_runtime_condition_conditional_expression lowering test a b)
        (\<lambda>t. [(t, Holds (Bit (is_true ops (fst (eval ops (ConditionalExpr test a b sp) \<rho>)))))])
        (snd (eval ops (ConditionalExpr test a b sp) \<rho>)) []"
      using sim_branches [OF parts(1) v _ _ refl] core
      unfolding lower_runtime_condition_conditional_expression_def by simp
    moreover have "\<not> fl" using True fl by auto
    ultimately show ?thesis
      using True same_context(5) [OF ctx] by (simp add: lower_structured_condition_def sim_get)
  next
    case False
    then have pure: "\<And>\<rho>. snd (eval ops a \<rho>) = \<rho>" "\<And>\<rho>. snd (eval ops b \<rho>) = \<rho>"
      using pure_core core by auto
    have "sim ops K \<sigma> fl s \<Gamma> \<rho>
        (bindL (lw_condition lowering test) (\<lambda>x. bindL (lw_condition lowering a) (\<lambda>y.
           bindL (lw_condition lowering b) (\<lambda>z. select ''cond'' x ''i1'' y z))))
        (\<lambda>t. [(t, Holds (Bit (is_true ops (fst (eval ops (ConditionalExpr test a b sp) \<rho>)))))])
        (snd (eval ops (ConditionalExpr test a b sp) \<rho>)) []"
      by (rule sim_select [OF parts(1) v pure _ _ refl]) (use fl in simp, rule select_condition)
    then show ?thesis
      using False same_context(5) [OF ctx] by (simp add: lower_structured_condition_def sim_get)
  qed
qed

lemma ternary_number:
  assumes K: "phase_context K" and parts: "condition_sim ops K \<sigma> test" "numeric_sim ops K \<sigma> a" "numeric_sim ops K \<sigma> b"
    and core: "core ops K (ConditionalExpr test a b sp)" and fl: "fl \<Longrightarrow> one_block K (ConditionalExpr test a b sp)"
  shows "sim ops K \<sigma> fl s \<Gamma> \<rho> (lower_numeric_ternary lowering test a b)
    (\<lambda>t. [(t, Holds (Num (fst (eval ops (ConditionalExpr test a b sp) \<rho>))))])
    (snd (eval ops (ConditionalExpr test a b sp) \<rho>)) []"
proof (rule sim_context)
  let ?effects = "\<lambda>K. runtime_expression_has_side_effects a K \<or> runtime_expression_has_side_effects b K"
  assume ctx: "context_of s = context_of K"
  note v = parts(2,3) [unfolded views]
  show ?thesis
  proof (cases "?effects K")
    case True
    then have "sim ops K \<sigma> False s \<Gamma> \<rho> (lower_runtime_numeric_conditional_expression lowering test a b)
        (\<lambda>t. [(t, Holds (Num (fst (eval ops (ConditionalExpr test a b sp) \<rho>))))])
        (snd (eval ops (ConditionalExpr test a b sp) \<rho>)) []"
      using sim_branches [OF parts(1) v _ _ refl] core
      unfolding lower_runtime_numeric_conditional_expression_def by simp
    moreover have "\<not> fl" using True fl by auto
    ultimately show ?thesis
      using True same_context(5) [OF ctx] by (simp add: lower_numeric_ternary_def sim_get)
  next
    case False
    then have pure: "\<And>\<rho>. snd (eval ops a \<rho>) = \<rho>" "\<And>\<rho>. snd (eval ops b \<rho>) = \<rho>"
      using pure_core core by auto
    have "sim ops K \<sigma> fl s \<Gamma> \<rho>
        (bindL (lw_condition lowering test) (\<lambda>x. bindL (lw_numeric lowering a) (\<lambda>y.
           bindL (lw_numeric lowering b) (\<lambda>z. select ''ternary.num'' x ''double'' y z))))
        (\<lambda>t. [(t, Holds (Num (fst (eval ops (ConditionalExpr test a b sp) \<rho>))))])
        (snd (eval ops (ConditionalExpr test a b sp) \<rho>)) []"
      by (rule sim_select [OF parts(1) v pure _ _ refl]) (use fl in simp, rule value_select)
    then show ?thesis
      using False same_context(5) [OF ctx] by (simp add: lower_numeric_ternary_def sim_get)
  qed
qed

text \<open>Expressions that have no condition of their own.\<close>

definition plain_condition :: "expr \<Rightarrow> bool" where
  "plain_condition e =
     (case e of
        BinaryExpr _ op _ _ \<Rightarrow> is_arithmetic_op op
      | ConditionalExpr _ _ _ _ \<Rightarrow> False
      | _ \<Rightarrow> True)"

lemma condition_of_number:
  assumes "phase_context K" "ops_ok ops" "core ops K e" "plain_condition e" "numeric_sim ops K \<sigma> e"
  shows "condition_sim ops K \<sigma> e"
  unfolding condition_sim_def
proof (intro allI impI)
  fix fl s and \<Gamma> :: "'a facts" and \<rho> assume fl: "fl \<longrightarrow> one_block K e"
  have "lower_structured_condition lowering True e = truthy (lw_numeric lowering) e"
    using assms(3,4) by (cases e) (auto simp: lower_structured_condition_def plain_condition_def
        is_arithmetic_op_def is_comparison_op_def)
  then show "sim ops K \<sigma> fl s \<Gamma> \<rho> (lw_condition lowering e)
      (\<lambda>v. [(v, Holds (Bit (is_true ops (fst (eval ops e \<rho>)))))]) (snd (eval ops e \<rho>)) []"
    using condition_dispatch [OF assms(1,3)] sim_truthy [OF assms(2,5)] fl by metis
qed

text \<open>The operators that have one: their condition first, then their number.\<close>

lemma binary_condition:
  assumes "phase_context K" "ops_ok ops" "core ops K e" and e: "e = BinaryExpr l op r sp" "\<not> is_arithmetic_op op"
    and parts: "numeric_sim ops K \<sigma> l" "numeric_sim ops K \<sigma> r" "condition_sim ops K \<sigma> l" "condition_sim ops K \<sigma> r"
  shows "condition_sim ops K \<sigma> e"
  unfolding condition_sim_def
proof (intro allI impI, rule condition_dispatch [OF assms(1,3)])
  fix fl s and \<Gamma> :: "'a facts" and \<rho> assume fl: "fl \<longrightarrow> one_block K e"
  consider "op = OpLogicalAnd" "\<not> fl" | "op = OpLogicalOr" "\<not> fl" | "is_comparison_op op"
    using assms(3) e fl by auto
  then show "sim ops K \<sigma> fl s \<Gamma> \<rho> (lower_structured_condition lowering True e)
      (\<lambda>v. [(v, Holds (Bit (is_true ops (fst (eval ops e \<rho>)))))]) (snd (eval ops e \<rho>)) []"
  proof cases
    case 1 then show ?thesis
      using and_condition [OF assms(2) parts(3,4) refl]
      by (simp add: lower_structured_condition_def e is_comparison_op_def del: eval.simps)
  next
    case 2 then show ?thesis
      using or_condition [OF assms(2) parts(3,4) refl]
      by (simp add: lower_structured_condition_def e is_comparison_op_def del: eval.simps)
  next
    case 3
    moreover have "fl \<Longrightarrow> one_block K l \<and> one_block K r" using fl e(1) by auto
    ultimately show ?thesis
      using comparison_condition [OF assms(1,2) _ _ parts(1,2), of op sp fl s \<Gamma> \<rho>] assms(3)
      by (simp add: lower_structured_condition_def e(1) del: eval.simps core.simps)
  qed
qed

lemma truth_number:
  assumes "ops_ok ops" "core ops K (BinaryExpr l op r sp)" "\<not> is_arithmetic_op op"
  shows "fo_of_bit ops (is_true ops (fst (eval ops (BinaryExpr l op r sp) \<rho>)))
    = fst (eval ops (BinaryExpr l op r sp) \<rho>)"
  using assms(3) constant_operands(5) [OF assms(1)] by (simp add: split_beta)

lemma binary_number:
  assumes "phase_context K" "ops_ok ops" "core ops K e" and e: "e = BinaryExpr l op r sp"
    and parts: "numeric_sim ops K \<sigma> l" "numeric_sim ops K \<sigma> r" and whole: "\<not> is_arithmetic_op op \<Longrightarrow> condition_sim ops K \<sigma> e"
  shows "numeric_sim ops K \<sigma> e"
  unfolding numeric_sim_def
proof (intro allI impI)
  fix fl s and \<Gamma> :: "'a facts" and \<rho> assume fl: "fl \<longrightarrow> one_block K e"
  show "sim ops K \<sigma> fl s \<Gamma> \<rho> (lw_numeric lowering e)
      (\<lambda>v. [(v, Holds (Num (fst (eval ops e \<rho>))))]) (snd (eval ops e \<rho>)) []"
  proof (cases "is_arithmetic_op op")
    case True
    then have op: "op \<noteq> OpLogicalAnd" "op \<noteq> OpLogicalOr" by (auto simp: is_arithmetic_op_def)
    have "sim ops K \<sigma> fl s \<Gamma> \<rho> (lower_arithmetic (lw_numeric lowering) l op r)
        (\<lambda>v. [(v, Holds (Num (fst (eval ops e \<rho>))))]) (snd (eval ops e \<rho>)) []"
      using sim_arithmetic [OF True numeric_simD [OF parts(1)] numeric_simD [OF parts(2)]] fl e True op
      by (simp add: split_beta)
    then show ?thesis
      by (rule numeric_dispatch [OF assms(1)]) (simp add: lower_runtime_numeric_expression_def e True)
  next
    case False
    have "sim ops K \<sigma> fl s \<Gamma> \<rho> (bindL (lw_condition lowering e) bool_to_number)
        (\<lambda>v. [(v, Holds (Num (fst (eval ops e \<rho>))))]) (snd (eval ops e \<rho>)) []"
      using numeric_of_condition [OF whole [OF False]] fl truth_number [OF assms(2)] assms(3) False e by blast
    moreover have "op \<noteq> OpConcat" using assms(3) e False by (auto simp: is_comparison_op_def)
    ultimately show ?thesis
      by (intro numeric_dispatch [OF assms(1)]) (simp_all add: lower_runtime_numeric_expression_def e False)
  qed
qed

lemma unary_number:
  assumes "phase_context K" "ops_ok ops" "core ops K (UnaryExpr op e sp)"
    and parts: "core ops K e \<Longrightarrow> numeric_sim ops K \<sigma> e" "core ops K e \<Longrightarrow> condition_sim ops K \<sigma> e"
    and fl: "fl \<Longrightarrow> one_block K e"
  shows "sim ops K \<sigma> fl s \<Gamma> \<rho> (lower_numeric_unary lowering op e)
    (\<lambda>v. [(v, Holds (Num (fst (eval ops (UnaryExpr op e sp) \<rho>))))]) (snd (eval ops (UnaryExpr op e sp) \<rho>)) []"
proof (cases op)
  case UPlus
  then show ?thesis using assms(3) numeric_simD [OF parts(1) fl] by (simp add: lower_numeric_unary_def)
next
  case UMinus
  have "sim ops K \<sigma> fl s \<Gamma> \<rho> (bindL (lw_numeric lowering e) (binop ''neg'' ''fsub'' ''double'' ZERO))
      (\<lambda>v. [(v, Holds (Num (fo_sub ops (zero_of ops) (fst (eval ops e \<rho>)))))]) (snd (eval ops e \<rho>)) []"
    unfolding binop_def
  proof (rule sim_bind_simple [OF numeric_simD [OF parts(1) fl]], goal_cases)
    case (3 x s1)
    show ?case
      by (rule sim_define, rule value_arithmetic [OF constant_operands(1) [OF assms(2)]]) simp
  qed (use assms(3) UMinus in simp_all)
  then show ?thesis using UMinus by (simp add: lower_numeric_unary_def split_beta)
next
  case UNot
  let ?v = "fst (eval ops e \<rho>)"
  have bit: "fo_of_bit ops (\<not> is_true ops ?v) = (if is_true ops ?v then zero_of ops else one_of ops)"
    by (simp add: zero_of_def one_of_def)
  have "sim ops K \<sigma> fl s \<Gamma> \<rho> (bindL (lw_condition lowering e) (\<lambda>c. select ''notnum'' c ''double'' ZERO ONE))
      (\<lambda>v. [(v, Holds (Num (fo_of_bit ops (\<not> is_true ops ?v))))]) (snd (eval ops e \<rho>)) []"
    unfolding select_def bit
  proof (rule sim_bind_simple [OF condition_simD [OF parts(2) fl]], goal_cases)
    case (3 x s1)
    show ?case
      by (rule sim_define, rule value_select(1) [OF _ constant_operands(1,2) [OF assms(2)]]) simp
  qed (use assms(3) UNot in simp_all)
  then show ?thesis using UNot by (simp add: lower_numeric_unary_def split_beta)
qed (use assms(3) sim_increment [OF assms(1,2)] in \<open>simp_all add: lower_numeric_unary_def\<close>)

lemma numeric_simI:
  assumes "phase_context K" "lower_runtime_numeric_expression lowering e = bindL assert_runtime (\<lambda>_. m)"
    and "\<And>fl s \<Gamma> \<rho>. (fl \<Longrightarrow> one_block K e) \<Longrightarrow>
      sim ops K \<sigma> fl s \<Gamma> \<rho> m (\<lambda>v. [(v, Holds (Num (fst (eval ops e \<rho>))))]) (snd (eval ops e \<rho>)) []"
  shows "numeric_sim ops K \<sigma> e"
  unfolding numeric_sim_def by (intro allI impI numeric_dispatch [OF assms(1) assms(3) assms(2)]) simp

lemma expression_sim:
  assumes K: "phase_context K" and ops: "ops_ok ops"
  shows "core ops K e \<Longrightarrow> numeric_sim ops K \<sigma> e \<and> condition_sim ops K \<sigma> e"
proof (induction "size e" arbitrary: e rule: less_induct)
  case (less e)
  have via_number: ?case if "numeric_sim ops K \<sigma> e" "plain_condition e"
    using condition_of_number [OF K ops less.prems that(2,1)] that(1) by simp
  show ?case
  proof (cases e)
    case (NumericLiteralExpr v t sp)
    have "sim ops K \<sigma> fl s \<Gamma> \<rho> (retL (format_double_literal (False, v))) (\<lambda>x. [(x, Holds (Num (fo_number ops v)))]) \<rho> []"
      for fl s \<rho> and \<Gamma> :: "'a facts"
      using less.prems by (intro sim_constant) (simp_all add: NumericLiteralExpr exact_literal_def Let_def)
    then show ?thesis
      by (intro via_number numeric_simI [OF K])
        (simp_all add: plain_condition_def NumericLiteralExpr lower_runtime_numeric_expression_def)
  next
    case (NameExpr x sp)
    then show ?thesis
      using sim_numeric_name [OF K, of x] less.prems
      by (intro via_number numeric_simI [OF K]) (simp_all add: plain_condition_def lower_runtime_numeric_expression_def)
  next
    case (AssignExpr target op v sp)
    then obtain x sp' where target: "target = NameLValue x sp'" and x: "core_name K x" "core ops K v"
      using less.prems by (cases target) auto
    have v: "numeric_sim ops K \<sigma> v" using less.hyps [of v] x(2) AssignExpr by simp
    have assign: "sim ops K \<sigma> fl s \<Gamma> \<rho> (lower_runtime_assignment_expression lowering target op v)
        (\<lambda>t. [(t, Holds (Num (fst (eval ops e \<rho>))))]) (snd (eval ops e \<rho>)) []"
      if "fl \<Longrightarrow> one_block K v" for fl s \<rho> and \<Gamma> :: "'a facts"
    proof (rule sim_context)
      assume "context_of s = context_of K"
      then have "core_name s x" using x(1) same_context(3) by blast
      then have "lower_runtime_assignment_expression lowering target op v s = assign_numeric_slot lowering x op v s"
        using core_name_facts [of s x]
        by (simp add: target lower_runtime_assignment_expression_def bindL_def getL_def)
      then show ?thesis
        using sim_assign [OF K x(1) v, of fl] that by (simp add: sim_def AssignExpr target split_beta Let_def)
    qed
    have "numeric_sim ops K \<sigma> e"
      by (rule numeric_simI [OF K _ assign]) (simp_all add: AssignExpr lower_runtime_numeric_expression_def)
    then show ?thesis by (rule via_number) (simp add: plain_condition_def AssignExpr)
  next
    case (UnaryExpr op a sp)
    have parts: "core ops K a \<Longrightarrow> numeric_sim ops K \<sigma> a" "core ops K a \<Longrightarrow> condition_sim ops K \<sigma> a"
      using less.hyps [of a] UnaryExpr by auto
    have "numeric_sim ops K \<sigma> e"
      unfolding UnaryExpr
      by (rule numeric_simI [OF K _ unary_number [OF K ops less.prems [unfolded UnaryExpr] parts]])
        (simp_all add: lower_runtime_numeric_expression_def)
    then show ?thesis by (rule via_number) (simp add: plain_condition_def UnaryExpr)
  next
    case (PostfixExpr a op sp)
    then show ?thesis
      using sim_increment [OF K ops, of a] less.prems
      by (intro via_number numeric_simI [OF K]) (simp_all add: plain_condition_def lower_runtime_numeric_expression_def)
  next
    case (BinaryExpr l op r sp)
    have parts: "numeric_sim ops K \<sigma> l" "numeric_sim ops K \<sigma> r" "condition_sim ops K \<sigma> l" "condition_sim ops K \<sigma> r"
      using less.hyps [of l] less.hyps [of r] less.prems BinaryExpr by auto
    have cond: "condition_sim ops K \<sigma> e" if "\<not> is_arithmetic_op op"
      using binary_condition [OF K ops less.prems BinaryExpr that parts] .
    have number: "numeric_sim ops K \<sigma> e"
      using binary_number [OF K ops less.prems BinaryExpr parts(1,2) cond] .
    show ?thesis
      using cond number via_number by (cases "is_arithmetic_op op") (simp_all add: plain_condition_def BinaryExpr)
  next
    case (ConditionalExpr t a b sp)
    have parts: "condition_sim ops K \<sigma> t" "numeric_sim ops K \<sigma> a" "numeric_sim ops K \<sigma> b"
      "condition_sim ops K \<sigma> a" "condition_sim ops K \<sigma> b"
      using less.hyps [of t] less.hyps [of a] less.hyps [of b] less.prems ConditionalExpr by auto
    note prem = less.prems [unfolded ConditionalExpr]
    have "numeric_sim ops K \<sigma> e"
      unfolding ConditionalExpr
      by (rule numeric_simI [OF K _ ternary_number [OF K parts(1-3) prem]])
        (simp_all add: lower_runtime_numeric_expression_def)
    moreover have "condition_sim ops K \<sigma> e"
      unfolding condition_sim_def ConditionalExpr
      by (intro allI impI, rule condition_dispatch [OF K prem], rule ternary_condition [OF K parts(1,4,5) prem]) simp
    ultimately show ?thesis by simp
  qed (use less.prems in simp_all)
qed

end
