(* ===== verification/Statement_Code.thy ===== *)
theory Statement_Code
  imports Expression_Views
begin

text \<open>
  The judgement for statements, whose code may also leave by a jump to the labels of the enclosing loop,
  and may run on for ever; statements without jumps, sequences and the rounds of a loop.
\<close>

section \<open>The judgement\<close>

text \<open>The machine has come to the block of a label.\<close>

definition entered :: "line list \<Rightarrow> string option \<Rightarrow> 'f machine \<Rightarrow> bool" where
  "entered P l c \<longleftrightarrow> (\<exists>x i. l = Some x \<and> find_label x P = Some i \<and> ms_pc c = Suc i)"

fun left_at :: "lowering_state \<Rightarrow> line list \<Rightarrow> nat \<Rightarrow> outcome \<Rightarrow> 'f machine \<Rightarrow> bool" where
  "left_at K P fin Done c \<longleftrightarrow> ms_pc c = fin"
| "left_at K P fin Broke c \<longleftrightarrow> entered P (ls_break_label K) c"
| "left_at K P fin Continued c \<longleftrightarrow> entered P (ls_continue_label K) c"

definition arrives ::
  "'f float_ops \<Rightarrow> lowering_state \<Rightarrow> (string \<rightharpoonup> string) \<Rightarrow> line list \<Rightarrow> 'f machine \<Rightarrow> nat \<Rightarrow> nat \<Rightarrow> 'f run \<Rightarrow> bool" where
  "arrives ops K \<sigma> P c fin n result \<longleftrightarrow>
     (case result of
        None \<Rightarrow> runs_on ops P n c
      | Some (r, \<rho>', out) \<Rightarrow>
          \<exists>c'. reaches ops P c c' \<and> ready K \<sigma> c' \<rho>' \<and> ms_trace c' = ms_trace c @ map event_of out
               \<and> left_at K P fin r c')"

lemma arrives_Some:
  assumes "reaches ops P c c'" "ready K \<sigma> c' \<rho>'" "ms_trace c' = ms_trace c @ map event_of out" "left_at K P fin r c'"
  shows "arrives ops K \<sigma> P c fin n (Some (r, \<rho>', out))"
  using assms by (auto simp: arrives_def)

lemma arrivesE:
  assumes "arrives ops K \<sigma> P c fin n (Some (r, \<rho>', out))"
  obtains c' where "reaches ops P c c'" "ready K \<sigma> c' \<rho>'" "ms_trace c' = ms_trace c @ map event_of out"
    "left_at K P fin r c'"
  using assms by (auto simp: arrives_def)

definition labels_there :: "lowering_state \<Rightarrow> line list \<Rightarrow> bool" where
  "labels_there K P \<longleftrightarrow>
     (\<forall>l. ls_break_label K = Some l \<or> ls_continue_label K = Some l \<longrightarrow> l \<in> set (defined_labels P))"

definition run_passes ::
  "'f float_ops \<Rightarrow> lowering_state \<Rightarrow> (string \<rightharpoonup> string) \<Rightarrow> line list \<Rightarrow> nat \<Rightarrow> ('f env \<Rightarrow> 'f run) \<Rightarrow> bool" where
  "run_passes ops K \<sigma> code n F \<longleftrightarrow>
     (\<forall>before after c \<rho>. layout K \<sigma> (before @ code @ after) before \<longrightarrow> labels_there K (before @ code @ after)
        \<longrightarrow> ms_pc c = length before \<longrightarrow> ready K \<sigma> c \<rho>
        \<longrightarrow> arrives ops K \<sigma> (before @ code @ after) c (length (before @ code)) n (F \<rho>))"

lemma run_passesD:
  "run_passes ops K \<sigma> code n F \<Longrightarrow> P = before @ code @ after \<Longrightarrow> layout K \<sigma> P before \<Longrightarrow> labels_there K P
     \<Longrightarrow> ms_pc c = length before \<Longrightarrow> ready K \<sigma> c \<rho> \<Longrightarrow> arrives ops K \<sigma> P c (length (before @ code)) n (F \<rho>)"
  by (simp add: run_passes_def)

definition stmt_sim ::
  "'f float_ops \<Rightarrow> lowering_state \<Rightarrow> (string \<rightharpoonup> string) \<Rightarrow> lowering_state \<Rightarrow> unit low \<Rightarrow> nat \<Rightarrow> ('f env \<Rightarrow> 'f run) \<Rightarrow> bool" where
  "stmt_sim ops K \<sigma> s m n F \<longleftrightarrow>
     (context_of s = context_of K \<longrightarrow>
        (\<exists>s' code. m s = (Inr (), s') \<and> extends s code s'
           \<and> (ls_variable_slots s' \<subseteq>\<^sub>m \<sigma> \<longrightarrow> run_passes ops K \<sigma> code n F)))"

lemma stmt_simE:
  assumes "stmt_sim ops K \<sigma> s m n F" "context_of s = context_of K"
  obtains s' code where "m s = (Inr (), s')" "extends s code s'" "context_of s' = context_of K"
    "ls_variable_slots s' \<subseteq>\<^sub>m \<sigma> \<Longrightarrow> run_passes ops K \<sigma> code n F"
  using assms extends_context unfolding stmt_sim_def by metis

lemma stmt_simI:
  assumes "m s = (Inr (), s')" "extends s code s'" "ls_variable_slots s' \<subseteq>\<^sub>m \<sigma> \<Longrightarrow> run_passes ops K \<sigma> code n F"
  shows "stmt_sim ops K \<sigma> s m n F"
  using assms unfolding stmt_sim_def by blast

lemma stmt_context:
  "(context_of s = context_of K \<Longrightarrow> stmt_sim ops K \<sigma> s m n F) \<Longrightarrow> stmt_sim ops K \<sigma> s m n F"
  by (auto simp: stmt_sim_def)

lemma stmt_eq: "m s = m' s \<Longrightarrow> stmt_sim ops K \<sigma> s m n F = stmt_sim ops K \<sigma> s m' n F"
  by (simp add: stmt_sim_def)

section \<open>Statements without jumps\<close>

text \<open>The code of a computation does not depend on the values of the variables.\<close>

lemma sim_all:
  assumes "\<And>\<rho>. sim ops K \<sigma> fl s [] \<rho> m (\<lambda>x. G x \<rho>) (f \<rho>) (out \<rho>)" "context_of s = context_of K"
  obtains x s' code where "m s = (Inr x, s')" "extends s code s'" "context_of s' = context_of K"
    "\<And>\<rho>. ls_variable_slots s' \<subseteq>\<^sub>m \<sigma> \<Longrightarrow> passes ops K \<sigma> code [] \<rho> (G x \<rho>) (f \<rho>) (out \<rho>)"
proof -
  obtain x s' code where one: "m s = (Inr x, s')" "extends s code s'" "context_of s' = context_of K"
    using simE [OF assms(1) assms(2)] by metis
  have "passes ops K \<sigma> code [] \<rho> (G x \<rho>) (f \<rho>) (out \<rho>)" if "ls_variable_slots s' \<subseteq>\<^sub>m \<sigma>" for \<rho>
  proof -
    obtain x' s'' code' where two: "m s = (Inr x', s'')" "extends s code' s''"
      "ls_variable_slots s'' \<subseteq>\<^sub>m \<sigma> \<Longrightarrow> passes ops K \<sigma> code' [] \<rho> (G x' \<rho>) (f \<rho>) (out \<rho>)"
      using simE [OF assms(1) [of \<rho>] assms(2)] by metis
    have "code' = code" using one(1,2) two(1,2) by (simp add: extends_def)
    then show ?thesis using one(1) two that by simp
  qed
  then show ?thesis using one that by blast
qed

lemma stmt_of_sim:
  assumes "\<And>\<rho>. sim ops K \<sigma> False s [] \<rho> m (\<lambda>_. []) (f \<rho>) (out \<rho>)"
  shows "stmt_sim ops K \<sigma> s m n (\<lambda>\<rho>. Some (Done, f \<rho>, out \<rho>))"
proof (rule stmt_context)
  assume ctx: "context_of s = context_of K"
  obtain u s' code where m: "m s = (Inr u, s')" "extends s code s'" "context_of s' = context_of K"
    "\<And>\<rho>. ls_variable_slots s' \<subseteq>\<^sub>m \<sigma> \<Longrightarrow> passes ops K \<sigma> code [] \<rho> [] (f \<rho>) (out \<rho>)"
    by (rule sim_all [OF assms ctx]) (rule that; assumption)
  then have run: "m s = (Inr (), s')" by simp
  have "run_passes ops K \<sigma> code n (\<lambda>\<rho>. Some (Done, f \<rho>, out \<rho>))" if "ls_variable_slots s' \<subseteq>\<^sub>m \<sigma>"
    unfolding run_passes_def
  proof (intro allI impI)
    fix before after \<rho> and c :: "'a machine"
    assume c: "layout K \<sigma> (before @ code @ after) before" "ms_pc c = length before" "ready K \<sigma> c \<rho>"
    note code = m(4) [OF that, of \<rho>]
    obtain c' where "reaches ops (before @ code @ after) c c'" "ms_pc c' = length (before @ code)"
      "ready K \<sigma> c' (f \<rho>)" "ms_trace c' = ms_trace c @ map event_of (out \<rho>)"
      by (rule passesE [OF code c knows_simps(1) older_simps(1)])
    then show "arrives ops K \<sigma> (before @ code @ after) c (length (before @ code)) n (Some (Done, f \<rho>, out \<rho>))"
      by (intro arrives_Some) simp_all
  qed
  then show ?thesis by (rule stmt_simI [of m, OF run m(2)])
qed

section \<open>Sequences\<close>

lemma arrives_later:
  assumes "reaches ops P c c1" "ms_trace c1 = ms_trace c @ map event_of out"
    "arrives ops K \<sigma> P c1 fin n r"
  shows "arrives ops K \<sigma> P c fin n
    (case r of None \<Rightarrow> None | Some (result, \<rho>, out') \<Rightarrow> Some (result, \<rho>, out @ out'))"
proof (cases r)
  case None
  then show ?thesis using assms(3) runs_on_reaches [OF assms(1)] by (simp add: arrives_def)
next
  case (Some x)
  obtain result \<rho> out' where x: "x = (result, \<rho>, out')" by (cases x)
  from arrivesE [OF assms(3) [unfolded Some x]] obtain c' where
    "reaches ops P c1 c'" "ready K \<sigma> c' \<rho>" "ms_trace c' = ms_trace c1 @ map event_of out'" "left_at K P fin result c'" .
  then show ?thesis
    using assms(2) by (simp add: Some x) (rule arrives_Some [OF reaches_trans [OF assms(1)]]; simp)
qed

lemma run_passes_seq:
  assumes one: "run_passes ops K \<sigma> code1 n F1" and two: "run_passes ops K \<sigma> code2 n F2"
  shows "run_passes ops K \<sigma> (code1 @ code2) n (\<lambda>\<rho>. then_run (F1 \<rho>) F2)"
  unfolding run_passes_def
proof (intro allI impI)
  fix before after \<rho> and c :: "'a machine"
  let ?P = "before @ (code1 @ code2) @ after"
  assume lay: "layout K \<sigma> ?P before" and there: "labels_there K ?P" and c: "ms_pc c = length before" "ready K \<sigma> c \<rho>"
  have first: "arrives ops K \<sigma> ?P c (length (before @ code1)) n (F1 \<rho>)"
    by (rule run_passesD [OF one _ lay there c]) simp
  have lay2: "layout K \<sigma> ?P (before @ code1)"
    using layout_later [of K \<sigma> before code1 "code2 @ after"] lay by simp
  show "arrives ops K \<sigma> ?P c (length (before @ code1 @ code2)) n (then_run (F1 \<rho>) F2)"
  proof (cases "F1 \<rho>")
    case None
    then show ?thesis using first by (simp add: arrives_def then_run_def)
  next
    case (Some x)
    obtain r \<rho>1 out where x: "x = (r, \<rho>1, out)" by (cases x)
    obtain c1 where c1: "reaches ops ?P c c1" "ready K \<sigma> c1 \<rho>1" "ms_trace c1 = ms_trace c @ map event_of out"
      "left_at K ?P (length (before @ code1)) r c1"
      using arrivesE [OF first [unfolded Some x]] .
    show ?thesis
    proof (cases "r = Done")
      case True
      then have "arrives ops K \<sigma> ?P c1 (length ((before @ code1) @ code2)) n (F2 \<rho>1)"
        using c1(2,4) by (intro run_passesD [OF two _ lay2 there]) simp_all
      from arrives_later [OF c1(1,3) this] show ?thesis
        using True by (simp add: then_run_def Some x)
    next
      case False
      then show ?thesis
        using c1 by (cases r) (auto simp: then_run_def Some x intro: arrives_Some)
    qed
  qed
qed

lemma stmt_bind:
  assumes "stmt_sim ops K \<sigma> s m1 n F1" "\<And>s1. stmt_sim ops K \<sigma> s1 m2 n F2"
  shows "stmt_sim ops K \<sigma> s (bindL m1 (\<lambda>_. m2)) n (\<lambda>\<rho>. then_run (F1 \<rho>) F2)"
proof (rule stmt_context)
  assume ctx: "context_of s = context_of K"
  obtain s1 code1 where one: "m1 s = (Inr (), s1)" "extends s code1 s1" "context_of s1 = context_of K"
    "ls_variable_slots s1 \<subseteq>\<^sub>m \<sigma> \<Longrightarrow> run_passes ops K \<sigma> code1 n F1"
    using stmt_simE [OF assms(1) ctx] by metis
  obtain s2 code2 where two: "m2 s1 = (Inr (), s2)" "extends s1 code2 s2"
    "ls_variable_slots s2 \<subseteq>\<^sub>m \<sigma> \<Longrightarrow> run_passes ops K \<sigma> code2 n F2"
    using stmt_simE [OF assms(2) one(3)] by metis
  show ?thesis
    by (rule stmt_simI [OF _ extends_trans [OF one(2) two(2)]])
      (use one two extends_slots [OF two(2)] run_passes_seq in \<open>auto simp: bindL_def\<close>)
qed

section \<open>The rounds of a loop\<close>

text \<open>One or more steps.\<close>

definition proceeds :: "'f float_ops \<Rightarrow> line list \<Rightarrow> 'f machine \<Rightarrow> 'f machine \<Rightarrow> bool" where
  "proceeds ops P c c' \<longleftrightarrow> (\<exists>c0 c1. reaches ops P c c0 \<and> step ops P c0 = Some c1 \<and> reaches ops P c1 c')"

lemma proceeds_reaches: "proceeds ops P c c' \<Longrightarrow> reaches ops P c c'"
  unfolding proceeds_def by (blast intro: reaches_trans reaches_step)

lemma proceeds_runs_on: "proceeds ops P c c' \<Longrightarrow> runs_on ops P n c' \<Longrightarrow> runs_on ops P (Suc n) c"
  unfolding proceeds_def by (blast intro: runs_on_reaches runs_on_Suc)

text \<open>The test leads from \<open>head_pc\<close> to the body or to the end, the body and the step back to \<open>head_pc\<close>.\<close>

lemma rounds_run:
  assumes test: "\<And>c \<rho>. ms_pc c = head_pc \<Longrightarrow> ready K \<sigma> c \<rho> \<Longrightarrow>
      \<exists>c'. proceeds ops P c c' \<and> ms_pc c' = (if fst (test \<rho>) then inside else fin) \<and> ready K \<sigma> c' (snd (test \<rho>))
           \<and> ms_trace c' = ms_trace c"
    and none: "\<And>c \<rho>. ms_pc c = inside \<Longrightarrow> ready K \<sigma> c \<rho> \<Longrightarrow> body \<rho> = None \<Longrightarrow> runs_on ops P n c"
    and some: "\<And>c \<rho> r \<rho>' out. ms_pc c = inside \<Longrightarrow> ready K \<sigma> c \<rho> \<Longrightarrow> body \<rho> = Some (r, \<rho>', out) \<Longrightarrow>
      \<exists>c'. reaches ops P c c' \<and> ms_trace c' = ms_trace c @ map event_of out
           \<and> (if r = Broke then ms_pc c' = fin \<and> ready K \<sigma> c' \<rho>' else ms_pc c' = head_pc \<and> ready K \<sigma> c' (after \<rho>'))"
  shows "k \<le> n \<Longrightarrow> ms_pc c = head_pc \<Longrightarrow> ready K \<sigma> c \<rho> \<Longrightarrow> arrives ops K \<sigma> P c fin k (rounds k test body after \<rho>)"
proof (induction k arbitrary: c \<rho>)
  case 0
  then show ?case by (simp add: arrives_def runs_on_def)
next
  case (Suc k)
  obtain b \<rho>1 where t: "test \<rho> = (b, \<rho>1)" by (cases "test \<rho>")
  obtain c1 where c1: "proceeds ops P c c1" "ms_pc c1 = (if b then inside else fin)" "ready K \<sigma> c1 \<rho>1"
    "ms_trace c1 = ms_trace c"
    using test [OF Suc.prems(2,3)] t by auto
  note r1 = proceeds_reaches [OF c1(1)]
  show ?case
  proof (cases "b")
    case False
    then show ?thesis using c1 r1 by (auto simp: t intro: arrives_Some)
  next
    case True
    show ?thesis
    proof (cases "body \<rho>1")
      case None
      have "runs_on ops P k c1"
        using none [OF _ c1(3) None] c1(2) True Suc.prems(1) by (auto elim: runs_on_less)
      then show ?thesis using proceeds_runs_on [OF c1(1)] True None by (simp add: t arrives_def)
    next
      case (Some x)
      obtain r \<rho>2 out where x: "body \<rho>1 = Some (r, \<rho>2, out)" using Some by (cases x) auto
      obtain c2 where c2: "reaches ops P c1 c2" "ms_trace c2 = ms_trace c @ map event_of out"
        "if r = Broke then ms_pc c2 = fin \<and> ready K \<sigma> c2 \<rho>2 else ms_pc c2 = head_pc \<and> ready K \<sigma> c2 (after \<rho>2)"
        using some [OF _ c1(3) x] c1(2,4) True by auto
      note r2 = reaches_trans [OF r1 c2(1)]
      show ?thesis
      proof (cases "r = Broke")
        case True
        then show ?thesis using c2 r2 \<open>b\<close> by (auto simp: t x intro: arrives_Some)
      next
        case False
        have next_round: "arrives ops K \<sigma> P c2 fin k (rounds k test body after (after \<rho>2))"
          using Suc.IH [of c2] Suc.prems(1) c2(3) False by simp
        show ?thesis
        proof (cases "rounds k test body after (after \<rho>2)")
          case None
          then have "runs_on ops P k c1"
            using next_round runs_on_reaches [OF c2(1)] by (simp add: arrives_def)
          then show ?thesis using proceeds_runs_on [OF c1(1)] None False \<open>b\<close> by (simp add: t x arrives_def)
        next
          case (Some y)
          then show ?thesis
            using arrives_later [OF r2 c2(2) next_round] False \<open>b\<close>
            by (cases y) (simp add: t x arrives_def)
        qed
      qed
    qed
  qed
qed

end
