(* ===== verification/Statement_Parts.thy ===== *)
theory Statement_Parts
  imports Statement_Code
begin

text \<open>The statements of the core that have no part which is a statement, and the parts of loops.\<close>

section \<open>The labels of a context\<close>

text \<open>A context without its labels, of which names, expressions and places depend only.\<close>

definition unlabelled :: "lowering_state \<Rightarrow> lowering_state" where
  "unlabelled K = K\<lparr>ls_break_label := None, ls_continue_label := None, ls_phase_exit_label := None,
     ls_action_exit_label := None, ls_label_index := 0, ls_string_index := 0\<rparr>"

lemma unlabelled_names:
  "runtime_name_uses_numeric_slot_state x (unlabelled K) = runtime_name_uses_numeric_slot_state x K"
  "is_local (unlabelled K) x = is_local K x" "core_name (unlabelled K) x = core_name K x"
  "ls_runtime_param (unlabelled K) = ls_runtime_param K" "ls_state_param (unlabelled K) = ls_state_param K"
  "ls_variable_indexes (unlabelled K) = ls_variable_indexes K"
  "ls_variable_slots (unlabelled K) = ls_variable_slots K"
  "ls_instructions (unlabelled K) = ls_instructions K"
  "ls_allocas (unlabelled K) = ls_allocas K" "ls_entry_instructions (unlabelled K) = ls_entry_instructions K"
  by (simp_all add: unlabelled_def name_predicates core_name_def cong: option.case_cong)

lemma unlabelled_views:
  "runtime_expression_is_definitely_numeric e (unlabelled K) = runtime_expression_is_definitely_numeric e K"
  "runtime_expression_has_side_effects e (unlabelled K) = runtime_expression_has_side_effects e K"
proof -
  show "runtime_expression_is_definitely_numeric e (unlabelled K) = runtime_expression_is_definitely_numeric e K"
    by (induction e K rule: runtime_expression_is_definitely_numeric.induct)
      (auto simp: unlabelled_def name_predicates list_all_iff cong: option.case_cong split: lvalue.splits)
  show "runtime_expression_has_side_effects e (unlabelled K) = runtime_expression_has_side_effects e K"
    by (induction e K rule: runtime_expression_has_side_effects.induct) (auto simp: unlabelled_def list_ex_iff)
qed

lemma size_in_block: "st \<in> set sts \<Longrightarrow> size st < Suc (size_list size sts)"
  by (induction sts) auto

lemma unlabelled_core:
  "core ops (unlabelled K) e = core ops K e" "one_block (unlabelled K) e = one_block K e"
  "core_statement ops (unlabelled K) in_loop st = core_statement ops K in_loop st"
proof -
  have both: "core ops (unlabelled K) e = core ops K e \<and> one_block (unlabelled K) e = one_block K e" for e
  proof (induction "size e" arbitrary: e rule: less_induct)
    case (less e)
    show ?case
      by (cases e) (auto simp: less unlabelled_names unlabelled_views core_target_def split: expr.split lvalue.split)
  qed
  then show core: "core ops (unlabelled K) e = core ops K e" "one_block (unlabelled K) e = one_block K e" for e
    by simp_all
  show "core_statement ops (unlabelled K) in_loop st = core_statement ops K in_loop st"
  proof (induction "size st" arbitrary: st in_loop rule: less_induct)
    case less
    show ?case
      by (cases st) (auto simp: less core unlabelled_names size_in_block list_all_iff split: lvalue.split option.split)
  qed
qed

lemma unlabelled_places:
  "place (unlabelled K) = place K" "placed (unlabelled K) = placed K"
  "ready (unlabelled K) \<sigma> m \<rho> = ready K \<sigma> m \<rho>" "layout (unlabelled K) \<sigma> P before = layout K \<sigma> P before"
  "slots_ok (unlabelled K) \<sigma> = slots_ok K \<sigma>" "slots_recorded (unlabelled K) = slots_recorded K"
  "phase_context (unlabelled K) = phase_context K"
proof -
  show place: "place (unlabelled K) = place K" and placed: "placed (unlabelled K) = placed K"
    by (simp_all add: place_def placed_def fun_eq_iff unlabelled_names)
  show slots: "slots_ok (unlabelled K) \<sigma> = slots_ok K \<sigma>" for \<sigma> by (simp add: slots_ok_def unlabelled_names)
  show "ready (unlabelled K) \<sigma> m \<rho> = ready K \<sigma> m \<rho>" "layout (unlabelled K) \<sigma> P before = layout K \<sigma> P before"
    by (simp_all add: ready_def layout_def place placed slots)
  show "slots_recorded (unlabelled K) = slots_recorded K" by (simp add: slots_recorded_def slots unlabelled_names)
  show "phase_context (unlabelled K) = phase_context K" by (simp add: phase_context_def unlabelled_names)
qed

lemma same_labelling:
  assumes "unlabelled K' = unlabelled K"
  shows "core ops K' e = core ops K e" "core_name K' x = core_name K x" "is_local K' x = is_local K x"
    "core_statement ops K' in_loop st = core_statement ops K in_loop st" "place K' = place K" "placed K' = placed K"
    "ready K' \<sigma> m \<rho> = ready K \<sigma> m \<rho>" "layout K' \<sigma> P before = layout K \<sigma> P before"
    "slots_recorded K' = slots_recorded K" "phase_context K' = phase_context K"
  using assms unlabelled_names [where K = K'] unlabelled_names [where K = K] unlabelled_core [where K = K']
    unlabelled_core [where K = K] unlabelled_places [where K = K'] unlabelled_places [where K = K] by metis+

text \<open>The labels of a loop.\<close>

definition labelled :: "lowering_state \<Rightarrow> string \<Rightarrow> string \<Rightarrow> lowering_state" where
  "labelled K b c = K\<lparr>ls_break_label := Some b, ls_continue_label := Some c\<rparr>"

lemma unlabelled_labelled: "unlabelled (labelled K b c) = unlabelled K"
  by (simp add: unlabelled_def labelled_def)

lemmas labelled_same [simp] = same_labelling [OF unlabelled_labelled]

lemma labelled_fields [simp]:
  "ls_variable_slots (labelled K b c) = ls_variable_slots K" "ls_instructions (labelled K b c) = ls_instructions K"
  "ls_break_label (labelled K b c) = Some b" "ls_continue_label (labelled K b c) = Some c"
  by (simp_all add: labelled_def)

lemma labelled_context:
  "context_of s = context_of K \<Longrightarrow> context_of (labelled s b c) = context_of (labelled K b c)"
  by (simp add: context_of_eq labelled_def)

lemma with_loop_labelsE:
  assumes body: "stmt_sim ops (labelled K b c) \<sigma> (labelled s b c) m n F" and ctx: "context_of s = context_of K"
  obtains s' code where "with_loop_labels b c m s = (Inr (), s')" "extends s code s'" "context_of s' = context_of K"
    "ls_variable_slots s' \<subseteq>\<^sub>m \<sigma> \<Longrightarrow> run_passes ops (labelled K b c) \<sigma> code n F"
proof -
  obtain s1 code where m: "m (labelled s b c) = (Inr (), s1)" "extends (labelled s b c) code s1"
    "ls_variable_slots s1 \<subseteq>\<^sub>m \<sigma> \<Longrightarrow> run_passes ops (labelled K b c) \<sigma> code n F"
    by (rule stmt_simE [OF body labelled_context [OF ctx]]) (rule that; assumption)
  let ?s = "s1\<lparr>ls_break_label := ls_break_label s, ls_continue_label := ls_continue_label s\<rparr>"
  have run: "with_loop_labels b c m s = (Inr (), ?s)"
    using m(1) by (simp add: with_loop_labels_def labelled_def)
  have ctx': "context_of ?s = context_of s"
    using m(2) by (simp add: extends_def context_of_eq labelled_def)
  have same: "slots_recorded ?s = slots_recorded s1"
  proof -
    have "slots_recorded ?s = slots_recorded (labelled ?s b c)" by simp
    also have "\<dots> = slots_recorded s1"
      by (rule slots_recorded_fields)
        (use m(2) in \<open>simp_all add: extends_def context_of_eq labelled_def\<close>)
    finally show ?thesis .
  qed
  have ext: "extends s code ?s"
    using m(2) ctx' same by (simp add: extends_def)
  show ?thesis
    by (rule that [OF run ext]) (use ctx' ctx m(3) in simp_all)
qed

section \<open>Simple statements\<close>

lemma sim_side_effect:
  assumes K: "phase_context K" and ops: "ops_ok ops" and e: "core ops K e"
  shows "sim ops K \<sigma> False s \<Gamma> \<rho> (lower_runtime_side_effect_expression e) (\<lambda>_. []) (snd (eval ops e \<rho>)) []"
proof (rule sim_context)
  assume ctx: "context_of s = context_of K"
  then have "\<not> runtime_expression_has_string_result e s" using core_not_string core_context(1) e by blast
  then have run: "lower_runtime_side_effect_expression e s
      = catch_runtime_error (bindL (lw_numeric lowering e) (\<lambda>_. retL ()))
          (\<lambda>_. raiseL (RuntimeError ''expression statements are not supported by the runtime-backed backend'')) s"
    by (simp add: lower_runtime_side_effect_expression_def bindL_def getL_def)
  have "sim ops K \<sigma> False s \<Gamma> \<rho> (bindL (lw_numeric lowering e) (\<lambda>_. retL ())) (\<lambda>_. []) (snd (eval ops e \<rho>)) []"
    by (rule sim_bind_simple [OF numeric_simD]) (use expression_sim [OF K ops e] in \<open>auto intro: sim_ret\<close>)
  from sim_catch [OF this] show ?thesis using run by (simp add: sim_def)
qed

lemma sim_side_effects:
  assumes K: "phase_context K" and ops: "ops_ok ops"
  shows "list_all (core ops K) es \<Longrightarrow>
    sim ops K \<sigma> False s \<Gamma> \<rho> (each_low lower_runtime_side_effect_expression es) (\<lambda>_. []) (effects_of ops es \<rho>) []"
proof (induction es arbitrary: s \<Gamma> \<rho>)
  case Nil
  then show ?case by (simp add: effects_of_def sim_ret)
next
  case (Cons e es)
  then have "sim ops K \<sigma> False s \<Gamma> \<rho>
      (bindL (lower_runtime_side_effect_expression e) (\<lambda>_. each_low lower_runtime_side_effect_expression es))
      (\<lambda>_. []) (effects_of ops es (snd (eval ops e \<rho>))) []"
    by (intro sim_bind_simple [OF sim_side_effect [OF K ops]]) simp_all
  then show ?case by (simp add: effects_of_def)
qed

lemma sim_assign_statement:
  assumes K: "phase_context K" and ops: "ops_ok ops" and x: "core_name K x" and e: "core ops K e"
  shows "sim ops K \<sigma> False s \<Gamma> \<rho> (assign_numeric_slot_statement x op e) (\<lambda>_. [])
    ((snd (eval ops e \<rho>))(x := updated_value ops op (snd (eval ops e \<rho>) x) (fst (eval ops e \<rho>)))) []"
  unfolding assign_numeric_slot_statement_def
proof (rule sim_bind_simple [OF sim_address [OF K x]], rule sim_bind_simple [OF numeric_simD], goal_cases)
  case 1
  then show ?case using expression_sim [OF K ops e] by blast
next
  case (3 a s1 v s2)
  let ?\<rho> = "snd (eval ops e \<rho>)" and ?v = "fst (eval ops e \<rho>)"
  let ?\<Delta> = "[(v, Holds (Num ?v))] @ [(a, Points x)] @ \<Gamma>" and ?w = "updated_value ops op (?\<rho> x) ?v"
  have "sim ops K \<sigma> False s2 ?\<Delta> ?\<rho>
      (if op = AssignPlain then retL v
       else bindL (load ''state.current'' ''double'' a) (\<lambda>current. combine_numeric_assignment op current v))
      (\<lambda>t. [(t, Holds (Num ?w))]) ?\<rho> []"
  proof (cases "op = AssignPlain")
    case True
    then show ?thesis by (simp add: sim_ret)
  next
    case False
    have "sim ops K \<sigma> False s2 ?\<Delta> ?\<rho>
        (bindL (load ''state.current'' ''double'' a) (\<lambda>current. combine_numeric_assignment op current v))
        (\<lambda>t. [(t, Holds (Num ?w))]) ?\<rho> []"
      by (rule sim_bind_simple [OF sim_load [where x = x]], simp, rule sim_combine) simp_all
    then show ?thesis using False by simp
  qed
  then show ?case
    by (rule sim_bind_simple) (rule sim_store; simp)
qed simp

lemma sim_call_void:
  assumes K: "phase_context K" and "(''call void '' @ callee @ ''('' @ skeleton (comma_pieces ((''ptr'', ''%rt'') # args)) @ '')'', vs)
      = event_of item"
    and "\<And>c. ready K \<sigma> c \<rho> \<Longrightarrow> knows ops K \<sigma> c \<Gamma> \<Longrightarrow>
      operand_values ops (ms_regs c) (comma_pieces ((''ptr'', ''%rt'') # args)) = Some vs"
  shows "sim ops K \<sigma> False s \<Gamma> \<rho> (runtime_call_void callee args) (\<lambda>_. []) \<rho> [item]"
proof -
  have skel: "skeleton (ps @ [Txt t]) = skeleton ps @ t" for ps t
    by (induction ps rule: skeleton.induct) simp_all
  have opds: "operands_of (ps @ [Txt t]) = operands_of ps" for ps t
    by (induction ps rule: skeleton.induct) simp_all
  let ?ps = "call_rhs ''void'' callee ((''ptr'', ''%rt'') # args)"
  have "skeleton ?ps = ''call void '' @ callee @ ''('' @ skeleton (comma_pieces ((''ptr'', ''%rt'') # args)) @ '')''"
    "operand_values ops regs ?ps = operand_values ops regs (comma_pieces ((''ptr'', ''%rt'') # args))" for regs
    by (simp_all add: call_rhs_def skel opds operand_values_def)
  then show ?thesis
    unfolding runtime_call_void_def call_void_def
    by (intro sim_runtime_param [OF K] sim_event) (use assms(2,3) in simp_all)
qed

lemma sim_print_number:
  assumes "phase_context K" "(x, Holds (Num v)) \<in> set \<Gamma>"
  shows "sim ops K \<sigma> False s \<Gamma> \<rho> (runtime_call_void ''@qk_print_number_fragment'' [(''double'', x)]) (\<lambda>_. []) \<rho>
    [Printed v]"
proof (rule sim_call_void [OF assms(1)])
  fix c :: "'a machine" assume "ready K \<sigma> c \<rho>" "knows ops K \<sigma> c \<Gamma>"
  then show "operand_values ops (ms_regs c) (comma_pieces [(''ptr'', ''%rt''), (''double'', x)]) = Some [Addr Runtime, Num v]"
    using knowsD [OF _ assms(2)] by (simp add: operand_values_def operand_value_def is_register_def ready_def)
qed simp

lemma sim_separators:
  assumes "phase_context K"
  shows "sim ops K \<sigma> False s \<Gamma> \<rho> (runtime_call_void ''@qk_print_output_separator'' []) (\<lambda>_. []) \<rho> [Separator]"
    "sim ops K \<sigma> False s \<Gamma> \<rho> (runtime_call_void ''@qk_print_output_record_separator'' []) (\<lambda>_. []) \<rho> [RecordSeparator]"
  by (rule sim_call_void [OF assms, where vs = "[Addr Runtime]"];
      simp add: operand_values_def operand_value_def is_register_def ready_def)+

end
