(* ===== verification/Statement_Loops.thy ===== *)
theory Statement_Loops
  imports Statement_Parts
begin

text \<open>The statements with parts: conditionals and loops, as lines around the code of their parts.\<close>

section \<open>Lines in sequence\<close>

definition gives :: "lowering_state \<Rightarrow> 'a low \<Rightarrow> 'a \<Rightarrow> line list \<Rightarrow> lowering_state \<Rightarrow> bool" where
  "gives s m x code s' \<longleftrightarrow> m s = (Inr x, s') \<and> extends s code s'"

definition with_line :: "lowering_state \<Rightarrow> line \<Rightarrow> lowering_state" where
  "with_line s l = s\<lparr>ls_instructions := ls_instructions s @ [l]\<rparr>"

lemma gives_bind: "gives s m x code s1 \<Longrightarrow> gives s1 (f x) y code' s2 \<Longrightarrow> gives s (bindL m f) y (code @ code') s2"
  unfolding gives_def by (auto simp: bindL_def intro: extends_trans)

lemma gives_emit: "gives s (emit l) () [l] (with_line s l)"
  using extends_lines [of s "[l]"] by (simp add: gives_def with_line_def emit_def modifyL_def)

lemma gives_context: "gives s m x code s' \<Longrightarrow> context_of s' = context_of s"
  by (simp add: gives_def extends_def)

lemma context_with_line [simp]: "context_of (with_line s l) = context_of s"
  by (rule gives_context [OF gives_emit])

lemma slots_with_line [simp]: "ls_variable_slots (with_line s l) = ls_variable_slots s"
  by (simp add: with_line_def)

lemma gives_slots: "gives s m x code s' \<Longrightarrow> ls_variable_slots s' \<subseteq>\<^sub>m \<sigma> \<Longrightarrow> ls_variable_slots s \<subseteq>\<^sub>m \<sigma>"
  unfolding gives_def using extends_slots by blast

lemmas gives_lines = gives_bind [OF gives_emit]

lemma gives_test:
  assumes "\<And>\<rho>. sim ops K \<sigma> False s [] \<rho> t (\<lambda>v. G v \<rho>) (f \<rho>) []" "context_of s = context_of K"
  obtains v code s' where "gives s t v code s'" "context_of s' = context_of K"
    "\<And>\<rho>. ls_variable_slots s' \<subseteq>\<^sub>m \<sigma> \<Longrightarrow> passes ops K \<sigma> code [] \<rho> (G v \<rho>) (f \<rho>) []"
proof -
  obtain v s' code where "t s = (Inr v, s')" "extends s code s'" "context_of s' = context_of K"
    "\<And>\<rho>. ls_variable_slots s' \<subseteq>\<^sub>m \<sigma> \<Longrightarrow> passes ops K \<sigma> code [] \<rho> (G v \<rho>) (f \<rho>) []"
    by (rule sim_all [OF assms]) (rule that; assumption)
  then show ?thesis using that [of v code s'] by (simp add: gives_def)
qed

lemma gives_statement:
  assumes "stmt_sim ops K \<sigma> s m n F" "context_of s = context_of K"
  obtains code s' where "gives s m () code s'" "context_of s' = context_of K"
    "ls_variable_slots s' \<subseteq>\<^sub>m \<sigma> \<Longrightarrow> run_passes ops K \<sigma> code n F"
proof -
  obtain s' code where "m s = (Inr (), s')" "extends s code s'" "context_of s' = context_of K"
    "ls_variable_slots s' \<subseteq>\<^sub>m \<sigma> \<Longrightarrow> run_passes ops K \<sigma> code n F"
    by (rule stmt_simE [OF assms]) (rule that; assumption)
  then show ?thesis using that [of code s'] by (simp add: gives_def)
qed

lemma gives_body:
  assumes "stmt_sim ops (labelled K b c) \<sigma> (labelled s b c) m n F" "context_of s = context_of K"
  obtains code s' where "gives s (with_loop_labels b c m) () code s'" "context_of s' = context_of K"
    "ls_variable_slots s' \<subseteq>\<^sub>m \<sigma> \<Longrightarrow> run_passes ops (labelled K b c) \<sigma> code n F"
proof -
  obtain s' code where "with_loop_labels b c m s = (Inr (), s')" "extends s code s'" "context_of s' = context_of K"
    "ls_variable_slots s' \<subseteq>\<^sub>m \<sigma> \<Longrightarrow> run_passes ops (labelled K b c) \<sigma> code n F"
    by (rule with_loop_labelsE [OF assms]) (rule that; assumption)
  then show ?thesis using that [of code s'] by (simp add: gives_def)
qed

lemma stmt_gives:
  assumes "gives s m () code s'" "ls_variable_slots s' \<subseteq>\<^sub>m \<sigma> \<Longrightarrow> run_passes ops K \<sigma> code n F"
  shows "stmt_sim ops K \<sigma> s m n F"
  using assms by (auto simp: gives_def intro: stmt_simI)

lemma stmt_label:
  assumes "\<And>l s1. stmt_sim ops K \<sigma> s1 (f l) n F"
  shows "stmt_sim ops K \<sigma> s (bindL (next_label p) f) n F"
proof -
  let ?s = "s\<lparr>ls_label_index := Suc (ls_label_index s)\<rparr>"
  have "context_of ?s = context_of s" by (simp add: context_of_eq)
  moreover have "slots_recorded ?s = slots_recorded s"
    by (rule slots_recorded_fields) (simp_all add: context_of_eq)
  ultimately have "extends s code s' = extends ?s code s'" for code s'
    by (simp add: extends_def)
  then show ?thesis
    using assms [of ?s] \<open>context_of ?s = context_of s\<close>
    by (simp add: stmt_sim_def bindL_def next_label_def)
qed

section \<open>Runs through parts\<close>

lemma layout_at:
  assumes "layout K \<sigma> P before" "P = before @ r @ rest"
  shows "layout K \<sigma> P (before @ r)"
  using layout_later [of K \<sigma> before r rest] assms by simp

lemma arrives_reaches:
  assumes "reaches ops P c c1" "ms_trace c1 = ms_trace c" "arrives ops K \<sigma> P c1 fin n r"
  shows "arrives ops K \<sigma> P c fin n r"
  using arrives_later [OF assms(1) _ assms(3), of "[]"] assms(2) by (cases r) auto

lemma entered_at:
  assumes "distinct (defined_labels P)" "P = u @ Lab l # w"
  shows "entered P (Some l) c \<longleftrightarrow> ms_pc c = Suc (length u)"
  using find_label_at [of u l w] assms by (simp add: entered_def)

lemma test_run:
  assumes lay: "layout K \<sigma> P before" and P: "P = before @ r @ code @ CondBr v l1 l2 # w"
    and code: "passes ops K \<sigma> code [] \<rho> [(v, Holds (Bit b))] \<rho>1 []"
    and c: "ms_pc c = length (before @ r)" "ready K \<sigma> c \<rho>"
    and at: "P = u1 @ Lab l1 # w1" "P = u2 @ Lab l2 # w2"
  shows "\<exists>c'. proceeds ops P c c' \<and> ms_pc c' = Suc (length (if b then u1 else u2)) \<and> ready K \<sigma> c' \<rho>1
    \<and> ms_trace c' = ms_trace c"
proof -
  let ?u = "if b then u1 else u2"
  have at': "P = ?u @ Lab (if b then l1 else l2) # (if b then w1 else w2)" using at by simp
  obtain c1 where c1: "reaches ops P c c1" "ms_pc c1 = length ((before @ r) @ code)" "ready K \<sigma> c1 \<rho>1"
    "knows ops K \<sigma> c1 [(v, Holds (Bit b))]" "ms_trace c1 = ms_trace c"
    by (rule enter_part [OF code, of P "before @ r" _ before c]) (use P lay c in auto)
  have "step ops P c1 = Some (jumped (length ?u) (if b then l1 else l2) c1)"
    by (rule step_cond_br [OF layoutD(2) [OF lay] c1(2) _ _ at']) (use P c1(4) in simp_all)
  then show ?thesis
    using c1 unfolding proceeds_def by (intro exI [of _ "jumped (length ?u) (if b then l1 else l2) c1"]) auto
qed

lemma part_run:
  assumes lay: "layout K \<sigma> P before" and P: "P = before @ r @ code @ Br l # w" and at: "P = u @ Lab l # w'"
    and code: "run_passes ops K \<sigma> code n F" and there: "labels_there K P"
    and c: "ms_pc c = length (before @ r)" "ready K \<sigma> c \<rho>"
  shows "arrives ops K \<sigma> P c (Suc (length u)) n (F \<rho>)"
proof -
  have run: "arrives ops K \<sigma> P c (length ((before @ r) @ code)) n (F \<rho>)"
    using run_passesD [OF code, of P "before @ r" "Br l # w"] layout_at [OF lay P] P there c by simp
  show ?thesis
  proof (cases "F \<rho>")
    case None
    then show ?thesis using run by (simp add: arrives_def)
  next
    case (Some x)
    obtain res \<rho>1 out where x: "x = (res, \<rho>1, out)" by (cases x)
    obtain c1 where c1: "reaches ops P c c1" "ready K \<sigma> c1 \<rho>1" "ms_trace c1 = ms_trace c @ map event_of out"
      "left_at K P (length ((before @ r) @ code)) res c1"
      using arrivesE [OF run [unfolded Some x]] .
    show ?thesis
    proof (cases "res = Done")
      case True
      have "step ops P c1 = Some (jumped (length u) l c1)"
        by (rule step_br [where v = "before @ r @ code" and v' = w, OF layoutD(2) [OF lay] _ _ at])
          (use True c1(4) P in simp_all)
      from arrives_Some [OF reaches_trans [OF c1(1) reaches_one [OF this]]] show ?thesis
        unfolding Some x using c1 True by simp
    next
      case False
      then show ?thesis unfolding Some x using c1 by (cases res) (auto intro: arrives_Some)
    qed
  qed
qed

text \<open>The body of a loop ends at the continue label or at the end.\<close>

lemma body_run:
  assumes lay: "layout K \<sigma> P before" and P: "P = before @ r @ code @ Br l # w"
    and at: "P = u @ Lab l # w'" "P = u2 @ Lab b # w2"
    and code: "run_passes ops (labelled K b l) \<sigma> code n F"
    and c: "ms_pc c = length (before @ r)" "ready K \<sigma> c \<rho>"
  shows "case F \<rho> of
      None \<Rightarrow> runs_on ops P n c
    | Some (res, \<rho>', out) \<Rightarrow>
        \<exists>c'. reaches ops P c c' \<and> ready K \<sigma> c' \<rho>' \<and> ms_trace c' = ms_trace c @ map event_of out
             \<and> ms_pc c' = Suc (length (if res = Broke then u2 else u))"
proof -
  have "b \<in> set (defined_labels P)" "l \<in> set (defined_labels P)"
    by (simp add: at(2), simp add: at(1))
  then have "labels_there (labelled K b l) P" by (auto simp: labels_there_def)
  then have run: "arrives ops (labelled K b l) \<sigma> P c (Suc (length u)) n (F \<rho>)"
    by (intro part_run [OF _ P at(1) code]) (use lay c in simp_all)
  show ?thesis
  proof (cases "F \<rho>")
    case None
    then show ?thesis using run by (simp add: arrives_def)
  next
    case (Some x)
    obtain res \<rho>1 out where x: "x = (res, \<rho>1, out)" by (cases x)
    note ent = entered_at [OF layoutD(2) [OF lay] at(1)] entered_at [OF layoutD(2) [OF lay] at(2)]
    show ?thesis
      using run by (cases res) (auto simp: Some x arrives_def ent)
  qed
qed

section \<open>Conditionals\<close>

text \<open>The test gives its operand and the two labels.\<close>

lemma stmt_if_labels:
  fixes v l1 l2 :: "'b \<Rightarrow> string"
  assumes test: "\<And>s \<rho>. sim ops K \<sigma> False s [] \<rho> t (\<lambda>x. [(v x, Holds (Bit (fst (T \<rho>))))]) (snd (T \<rho>)) []"
    and yes: "\<And>s. stmt_sim ops K \<sigma> s m n F"
  shows "stmt_sim ops K \<sigma> s
     (bindL t (\<lambda>x. bindL (emit (CondBr (v x) (l1 x) (l2 x))) (\<lambda>_. bindL (emit (Lab (l1 x))) (\<lambda>_. bindL m (\<lambda>_.
        bindL (emit (Br (l2 x))) (\<lambda>_. emit (Lab (l2 x)))))))) n
     (\<lambda>\<rho>. let (b, \<rho>1) = T \<rho> in if b then F \<rho>1 else Some (Done, \<rho>1, []))"
  (is "stmt_sim _ _ _ _ ?m _ ?F")
proof (rule stmt_context)
  assume ctx: "context_of s = context_of K"
  obtain x cc s1 where g1: "gives s t x cc s1" "context_of s1 = context_of K"
    "\<And>\<rho>. ls_variable_slots s1 \<subseteq>\<^sub>m \<sigma> \<Longrightarrow> passes ops K \<sigma> cc [] \<rho> [(v x, Holds (Bit (fst (T \<rho>))))] (snd (T \<rho>)) []"
    using gives_test [OF test ctx] by metis
  let ?s2 = "with_line (with_line s1 (CondBr (v x) (l1 x) (l2 x))) (Lab (l1 x))"
  obtain cm s3 where g2: "gives ?s2 m () cm s3" "context_of s3 = context_of K"
    "ls_variable_slots s3 \<subseteq>\<^sub>m \<sigma> \<Longrightarrow> run_passes ops K \<sigma> cm n F"
    using gives_statement [OF yes, of ?s2] g1(2) by (metis context_with_line)
  let ?code = "cc @ [CondBr (v x) (l1 x) (l2 x)] @ [Lab (l1 x)] @ cm @ [Br (l2 x)] @ [Lab (l2 x)]"
  have g: "gives s ?m () ?code (with_line (with_line s3 (Br (l2 x))) (Lab (l2 x)))"
    by (rule gives_bind [OF g1(1)] gives_lines gives_bind [OF g2(1)] gives_emit)+
  show ?thesis
  proof (rule stmt_gives [OF g])
    assume "ls_variable_slots (with_line (with_line s3 (Br (l2 x))) (Lab (l2 x))) \<subseteq>\<^sub>m \<sigma>"
    then have sl3: "ls_variable_slots s3 \<subseteq>\<^sub>m \<sigma>" by simp
    then have sl1: "ls_variable_slots s1 \<subseteq>\<^sub>m \<sigma>" using gives_slots [OF g2(1)] by simp
    show "run_passes ops K \<sigma> ?code n (\<lambda>\<rho>. let (b, \<rho>1) = T \<rho> in if b then F \<rho>1 else Some (Done, \<rho>1, []))"
      unfolding run_passes_def
    proof (intro allI impI)
      fix before after \<rho> and c :: "'a machine"
      define P where "P = before @ ?code @ after"
      assume a: "layout K \<sigma> (before @ ?code @ after) before" "labels_there K (before @ ?code @ after)"
        "ms_pc c = length before" "ready K \<sigma> c \<rho>"
      then have lay: "layout K \<sigma> P before" and there: "labels_there K P" by (simp_all add: P_def)
      let ?e = "before @ cc @ [CondBr (v x) (l1 x) (l2 x), Lab (l1 x)] @ cm @ [Br (l2 x)]"
      have e: "P = ?e @ Lab (l2 x) # after" by (simp add: P_def)
      have P: "P = before @ cc @ CondBr (v x) (l1 x) (l2 x) # Lab (l1 x) # cm @ Br (l2 x) # Lab (l2 x) # after"
        "P = (before @ cc @ [CondBr (v x) (l1 x) (l2 x)]) @ Lab (l1 x) # cm @ Br (l2 x) # Lab (l2 x) # after" by (simp_all add: P_def)
      obtain c1 where c1: "proceeds ops P c c1" "ready K \<sigma> c1 (snd (T \<rho>))" "ms_trace c1 = ms_trace c"
        "ms_pc c1 = Suc (length (if fst (T \<rho>) then before @ cc @ [CondBr (v x) (l1 x) (l2 x)] else ?e))"
        using test_run [OF lay _ g1(3) [OF sl1] _ a(4) P(2) e, of "[]"] P(1) a(3) by auto
      have "arrives ops K \<sigma> P c1 (Suc (length ?e)) n (if fst (T \<rho>) then F (snd (T \<rho>)) else Some (Done, snd (T \<rho>), []))"
      proof (cases "fst (T \<rho>)")
        case True
        have "arrives ops K \<sigma> P c1 (Suc (length ?e)) n (F (snd (T \<rho>)))"
          by (rule part_run [OF lay _ e g2(3) [OF sl3] there, where r = "cc @ [CondBr (v x) (l1 x) (l2 x), Lab (l1 x)]"
                and w = "Lab (l2 x) # after"]) (use c1 True in \<open>simp_all add: P_def\<close>)
        then show ?thesis using True by simp
      next
        case False
        then show ?thesis using c1 by (auto intro: arrives_Some [OF reaches_refl])
      qed
      from arrives_reaches [OF proceeds_reaches [OF c1(1)] c1(3) this]
      show "arrives ops K \<sigma> (before @ ?code @ after) c (length (before @ ?code)) n
          (let (b, \<rho>1) = T \<rho> in if b then F \<rho>1 else Some (Done, \<rho>1, []))"
        by (simp add: P_def split_beta Let_def)
    qed
  qed
qed

lemma stmt_if:
  assumes "\<And>s \<rho>. sim ops K \<sigma> False s [] \<rho> t (\<lambda>v. [(v, Holds (Bit (fst (T \<rho>))))]) (snd (T \<rho>)) []"
    and "\<And>s. stmt_sim ops K \<sigma> s m n F"
  shows "stmt_sim ops K \<sigma> s
     (bindL t (\<lambda>v. bindL (emit (CondBr v l1 l2)) (\<lambda>_. bindL (emit (Lab l1)) (\<lambda>_. bindL m (\<lambda>_.
        bindL (emit (Br l2)) (\<lambda>_. emit (Lab l2))))))) n
     (\<lambda>\<rho>. let (b, \<rho>1) = T \<rho> in if b then F \<rho>1 else Some (Done, \<rho>1, []))"
  by (rule stmt_if_labels [where v = "\<lambda>v. v", OF assms])

lemma stmt_if_late:
  assumes "\<And>s \<rho>. sim ops K \<sigma> False s [] \<rho> t (\<lambda>v. [(v, Holds (Bit (fst (T \<rho>))))]) (snd (T \<rho>)) []"
    and "\<And>s. stmt_sim ops K \<sigma> s m n F"
  shows "stmt_sim ops K \<sigma> s
     (bindL t (\<lambda>v. bindL (next_label p) (\<lambda>l1. bindL (next_label q) (\<lambda>l2.
        bindL (emit (CondBr v l1 l2)) (\<lambda>_. bindL (emit (Lab l1)) (\<lambda>_. bindL m (\<lambda>_.
        bindL (emit (Br l2)) (\<lambda>_. emit (Lab l2))))))))) n
     (\<lambda>\<rho>. let (b, \<rho>1) = T \<rho> in if b then F \<rho>1 else Some (Done, \<rho>1, []))"
proof -
  let ?t = "bindL t (\<lambda>v. bindL (next_label p) (\<lambda>l1. bindL (next_label q) (\<lambda>l2. retL (v, l1, l2))))"
  have "sim ops K \<sigma> False s [] \<rho> ?t (\<lambda>x. [(fst x, Holds (Bit (fst (T \<rho>))))]) (snd (T \<rho>)) []" for s \<rho>
    by (rule sim_bind_simple [OF assms(1)], (rule sim_label)+, rule sim_ret, simp)
  from stmt_if_labels [where v = fst and ?l1.0 = "\<lambda>x. fst (snd x)" and ?l2.0 = "\<lambda>x. snd (snd x)", OF this assms(2)]
  show ?thesis by simp
qed

lemma stmt_if_else:
  assumes test: "\<And>s \<rho>. sim ops K \<sigma> False s [] \<rho> t (\<lambda>v. [(v, Holds (Bit (fst (T \<rho>))))]) (snd (T \<rho>)) []"
    and yes: "\<And>s. stmt_sim ops K \<sigma> s m n F" and no: "\<And>s. stmt_sim ops K \<sigma> s m' n F'"
  shows "stmt_sim ops K \<sigma> s
     (bindL t (\<lambda>v. bindL (emit (CondBr v l1 l2)) (\<lambda>_. bindL (emit (Lab l1)) (\<lambda>_. bindL m (\<lambda>_.
        bindL (emit (Br l3)) (\<lambda>_. bindL (emit (Lab l2)) (\<lambda>_. bindL m' (\<lambda>_.
        bindL (emit (Br l3)) (\<lambda>_. emit (Lab l3)))))))))) n
     (\<lambda>\<rho>. let (b, \<rho>1) = T \<rho> in if b then F \<rho>1 else F' \<rho>1)"
  (is "stmt_sim _ _ _ _ ?m _ ?F")
proof (rule stmt_context)
  assume ctx: "context_of s = context_of K"
  obtain v cc s1 where g1: "gives s t v cc s1" "context_of s1 = context_of K"
    "\<And>\<rho>. ls_variable_slots s1 \<subseteq>\<^sub>m \<sigma> \<Longrightarrow> passes ops K \<sigma> cc [] \<rho> [(v, Holds (Bit (fst (T \<rho>))))] (snd (T \<rho>)) []"
    using gives_test [OF test ctx] by metis
  let ?s2 = "with_line (with_line s1 (CondBr v l1 l2)) (Lab l1)"
  obtain cm s3 where g2: "gives ?s2 m () cm s3" "context_of s3 = context_of K"
    "ls_variable_slots s3 \<subseteq>\<^sub>m \<sigma> \<Longrightarrow> run_passes ops K \<sigma> cm n F"
    using gives_statement [OF yes, of ?s2] g1(2) by (metis context_with_line)
  let ?s4 = "with_line (with_line s3 (Br l3)) (Lab l2)"
  obtain cn s5 where g3: "gives ?s4 m' () cn s5" "context_of s5 = context_of K"
    "ls_variable_slots s5 \<subseteq>\<^sub>m \<sigma> \<Longrightarrow> run_passes ops K \<sigma> cn n F'"
    using gives_statement [OF no, of ?s4] g2(2) by (metis context_with_line)
  let ?code = "cc @ [CondBr v l1 l2] @ [Lab l1] @ cm @ [Br l3] @ [Lab l2] @ cn @ [Br l3] @ [Lab l3]"
  have g: "gives s ?m () ?code (with_line (with_line s5 (Br l3)) (Lab l3))"
    by (rule gives_bind [OF g1(1)] gives_lines gives_bind [OF g2(1)] gives_bind [OF g3(1)] gives_emit)+
  show ?thesis
  proof (rule stmt_gives [OF g])
    assume "ls_variable_slots (with_line (with_line s5 (Br l3)) (Lab l3)) \<subseteq>\<^sub>m \<sigma>"
    then have sl5: "ls_variable_slots s5 \<subseteq>\<^sub>m \<sigma>" by simp
    then have sl3: "ls_variable_slots s3 \<subseteq>\<^sub>m \<sigma>" using gives_slots [OF g3(1)] by simp
    then have sl1: "ls_variable_slots s1 \<subseteq>\<^sub>m \<sigma>" using gives_slots [OF g2(1)] by simp
    show "run_passes ops K \<sigma> ?code n ?F"
      unfolding run_passes_def
    proof (intro allI impI)
      fix before after \<rho> and c :: "'a machine"
      define P where "P = before @ ?code @ after"
      assume a: "layout K \<sigma> (before @ ?code @ after) before" "labels_there K (before @ ?code @ after)"
        "ms_pc c = length before" "ready K \<sigma> c \<rho>"
      then have lay: "layout K \<sigma> P before" and there: "labels_there K P" by (simp_all add: P_def)
      let ?y = "cc @ [CondBr v l1 l2]" and ?n = "cc @ [CondBr v l1 l2, Lab l1] @ cm @ [Br l3]"
      let ?e = "before @ ?n @ Lab l2 # cn @ [Br l3]"
      have P: "P = before @ cc @ CondBr v l1 l2 # Lab l1 # cm @ Br l3 # Lab l2 # cn @ Br l3 # Lab l3 # after"
        "P = (before @ ?y) @ Lab l1 # cm @ Br l3 # Lab l2 # cn @ Br l3 # Lab l3 # after"
        "P = (before @ ?n) @ Lab l2 # cn @ Br l3 # Lab l3 # after"
        "P = ?e @ Lab l3 # after" by (simp_all add: P_def)
      obtain c1 where c1: "proceeds ops P c c1" "ready K \<sigma> c1 (snd (T \<rho>))" "ms_trace c1 = ms_trace c"
        "ms_pc c1 = Suc (length (if fst (T \<rho>) then before @ ?y else before @ ?n))"
        using test_run [OF lay _ g1(3) [OF sl1] _ a(4) P(2,3), of "[]"] P(1) a(3) by auto
      have "arrives ops K \<sigma> P c1 (Suc (length ?e)) n (if fst (T \<rho>) then F (snd (T \<rho>)) else F' (snd (T \<rho>)))"
      proof (cases "fst (T \<rho>)")
        case True
        have "arrives ops K \<sigma> P c1 (Suc (length ?e)) n (F (snd (T \<rho>)))"
          by (rule part_run [OF lay _ P(4) g2(3) [OF sl3] there, where r = "?y @ [Lab l1]"
                and w = "Lab l2 # cn @ Br l3 # Lab l3 # after"]) (use c1 True in \<open>simp_all add: P_def\<close>)
        then show ?thesis using True by simp
      next
        case False
        have "arrives ops K \<sigma> P c1 (Suc (length ?e)) n (F' (snd (T \<rho>)))"
          by (rule part_run [OF lay _ P(4) g3(3) [OF sl5] there, where r = "?n @ [Lab l2]" and w = "Lab l3 # after"])
            (use c1 False in \<open>simp_all add: P_def\<close>)
        then show ?thesis using False by simp
      qed
      from arrives_reaches [OF proceeds_reaches [OF c1(1)] c1(3) this]
      show "arrives ops K \<sigma> (before @ ?code @ after) c (length (before @ ?code)) n (?F \<rho>)"
        by (simp add: P_def split_beta Let_def)
    qed
  qed
qed

section \<open>Loops\<close>

text \<open>The rounds of a loop whose test begins after \<open>r1\<close> and whose body begins after \<open>r2\<close>.\<close>

lemma rounds_code:
  assumes lay: "layout K \<sigma> P before"
    and head: "P = before @ r1 @ cc @ CondBr v lb le # w1"
      "\<And>\<rho>. passes ops K \<sigma> cc [] \<rho> [(v, Holds (Bit (fst (T \<rho>))))] (snd (T \<rho>)) []"
    and body: "P = before @ r2 @ cb @ Br lk # w2" "run_passes ops (labelled K le lk) \<sigma> cb n F"
    and at: "P = ub @ Lab lb # wb" "P = ue @ Lab le # we" "P = uk @ Lab lk # wk"
    and inside: "length (before @ r2) = Suc (length ub)"
    and home: "\<And>c \<rho>. ms_pc c = Suc (length uk) \<Longrightarrow> ready K \<sigma> c \<rho> \<Longrightarrow>
      \<exists>c'. reaches ops P c c' \<and> ms_pc c' = length (before @ r1) \<and> ready K \<sigma> c' (after \<rho>) \<and> ms_trace c' = ms_trace c"
    and c: "ms_pc c = length (before @ r1)" "ready K \<sigma> c \<rho>"
  shows "arrives ops K \<sigma> P c (Suc (length ue)) n (rounds n T F after \<rho>)"
proof (rule rounds_run [OF _ _ _ le_refl c, where inside = "length (before @ r2)"], goal_cases)
  case (1 c \<rho>)
  show ?case
    using test_run [OF lay head(1) head(2) [of \<rho>] 1 at(1,2)] inside by auto
next
  case (2 c \<rho>)
  show ?case using body_run [OF lay body(1) at(3,2) body(2) 2(1,2)] 2(3) by simp
next
  case (3 c \<rho> r \<rho>' out)
  obtain c1 where c1: "reaches ops P c c1" "ready K \<sigma> c1 \<rho>'" "ms_trace c1 = ms_trace c @ map event_of out"
    "ms_pc c1 = Suc (length (if r = Broke then ue else uk))"
    using body_run [OF lay body(1) at(3,2) body(2) 3(1,2)] 3(3) by auto
  show ?case
  proof (cases "r = Broke")
    case True
    then show ?thesis using c1 by auto
  next
    case False
    then obtain c2 where c2: "reaches ops P c1 c2" "ms_pc c2 = length (before @ r1)" "ready K \<sigma> c2 (after \<rho>')"
      "ms_trace c2 = ms_trace c1"
      using home [OF _ c1(2)] c1(4) by auto
    show ?thesis
      using False reaches_trans [OF c1(1) c2(1)] c2(2-4) c1(3) by (intro exI [of _ c2]) simp
  qed
qed

lemma stmt_while:
  assumes test: "\<And>s \<rho>. sim ops K \<sigma> False s [] \<rho> t (\<lambda>v. [(v, Holds (Bit (fst (T \<rho>))))]) (snd (T \<rho>)) []"
    and body: "\<And>s. stmt_sim ops (labelled K le lc) \<sigma> s m n F"
  shows "stmt_sim ops K \<sigma> s
     (bindL (emit (Br lc)) (\<lambda>_. bindL (emit (Lab lc)) (\<lambda>_. bindL t (\<lambda>v.
      bindL (emit (CondBr v lb le)) (\<lambda>_. bindL (emit (Lab lb)) (\<lambda>_.
      bindL (with_loop_labels le lc m) (\<lambda>_. bindL (emit (Br lc)) (\<lambda>_. emit (Lab le)))))))))
     n (rounds n T F (\<lambda>\<rho>. \<rho>))"
  (is "stmt_sim _ _ _ _ ?m _ ?F")
proof (rule stmt_context)
  assume ctx: "context_of s = context_of K"
  let ?s0 = "with_line (with_line s (Br lc)) (Lab lc)"
  obtain v cc s1 where g1: "gives ?s0 t v cc s1" "context_of s1 = context_of K"
    "\<And>\<rho>. ls_variable_slots s1 \<subseteq>\<^sub>m \<sigma> \<Longrightarrow> passes ops K \<sigma> cc [] \<rho> [(v, Holds (Bit (fst (T \<rho>))))] (snd (T \<rho>)) []"
    using gives_test [OF test, of ?s0] ctx by (metis context_with_line)
  let ?s2 = "with_line (with_line s1 (CondBr v lb le)) (Lab lb)"
  obtain cm s3 where g2: "gives ?s2 (with_loop_labels le lc m) () cm s3" "context_of s3 = context_of K"
    "ls_variable_slots s3 \<subseteq>\<^sub>m \<sigma> \<Longrightarrow> run_passes ops (labelled K le lc) \<sigma> cm n F"
    using gives_body [OF body, of ?s2] g1(2) by (metis context_with_line)
  let ?code = "[Br lc] @ [Lab lc] @ cc @ [CondBr v lb le] @ [Lab lb] @ cm @ [Br lc] @ [Lab le]"
  have g: "gives s ?m () ?code (with_line (with_line s3 (Br lc)) (Lab le))"
    by (rule gives_lines gives_bind [OF g1(1)] gives_bind [OF g2(1)] gives_emit)+
  show ?thesis
  proof (rule stmt_gives [OF g])
    assume "ls_variable_slots (with_line (with_line s3 (Br lc)) (Lab le)) \<subseteq>\<^sub>m \<sigma>"
    then have sl3: "ls_variable_slots s3 \<subseteq>\<^sub>m \<sigma>" by simp
    then have sl1: "ls_variable_slots s1 \<subseteq>\<^sub>m \<sigma>" using gives_slots [OF g2(1)] by simp
    show "run_passes ops K \<sigma> ?code n ?F"
      unfolding run_passes_def
    proof (intro allI impI)
      fix before after \<rho> and c :: "'a machine"
      define P where "P = before @ ?code @ after"
      assume a: "layout K \<sigma> (before @ ?code @ after) before" "labels_there K (before @ ?code @ after)"
        "ms_pc c = length before" "ready K \<sigma> c \<rho>"
      then have lay: "layout K \<sigma> P before" by (simp add: P_def)
      let ?b = "[Br lc, Lab lc] @ cc @ [CondBr v lb le]"
      let ?e = "before @ ?b @ Lab lb # cm @ [Br lc]"
      have at: "P = (before @ [Br lc]) @ Lab lc # cc @ CondBr v lb le # Lab lb # cm @ Br lc # Lab le # after"
        "P = (before @ ?b) @ Lab lb # cm @ Br lc # Lab le # after" "P = ?e @ Lab le # after"
        by (simp_all add: P_def)
      let ?c = "jumped (length (before @ [Br lc])) lc c"
      have start: "step ops P c = Some ?c"
        by (rule step_br [OF layoutD(2) [OF lay] a(3) _ at(1)]) (simp add: P_def)
      have "arrives ops K \<sigma> P ?c (Suc (length ?e)) n (?F \<rho>)"
        by (rule rounds_code [OF lay _ g1(3) [OF sl1] _ g2(3) [OF sl3] at(2,3,1), where ?r1.0 = "[Br lc, Lab lc]"
              and ?r2.0 = "?b @ [Lab lb]" and ?w2.0 = "Lab le # after"])
          (use a in \<open>auto simp: P_def intro: reaches_refl\<close>)
      from arrives_reaches [OF reaches_one [OF start] _ this]
      show "arrives ops K \<sigma> (before @ ?code @ after) c (length (before @ ?code)) n (?F \<rho>)"
        by (simp add: P_def)
    qed
  qed
qed

lemma stmt_do_while:
  assumes test: "\<And>s \<rho>. sim ops K \<sigma> False s [] \<rho> t (\<lambda>v. [(v, Holds (Bit (fst (T \<rho>))))]) (snd (T \<rho>)) []"
    and body: "\<And>s. stmt_sim ops (labelled K le lc) \<sigma> s m n F"
  shows "stmt_sim ops K \<sigma> s
     (bindL (emit (Br lb)) (\<lambda>_. bindL (emit (Lab lb)) (\<lambda>_. bindL (with_loop_labels le lc m) (\<lambda>_.
      bindL (emit (Br lc)) (\<lambda>_. bindL (emit (Lab lc)) (\<lambda>_. bindL t (\<lambda>v.
      bindL (emit (CondBr v lb le)) (\<lambda>_. emit (Lab le)))))))))
     n (\<lambda>\<rho>. case F \<rho> of
               None \<Rightarrow> None
             | Some (result, \<rho>1, out) \<Rightarrow>
                 if result = Broke then Some (Done, \<rho>1, out)
                 else then_run (Some (Done, \<rho>1, out)) (rounds n T F (\<lambda>\<rho>. \<rho>)))"
  (is "stmt_sim _ _ _ _ ?m _ ?F")
proof (rule stmt_context)
  assume ctx: "context_of s = context_of K"
  let ?s0 = "with_line (with_line s (Br lb)) (Lab lb)"
  obtain cm s1 where g1: "gives ?s0 (with_loop_labels le lc m) () cm s1" "context_of s1 = context_of K"
    "ls_variable_slots s1 \<subseteq>\<^sub>m \<sigma> \<Longrightarrow> run_passes ops (labelled K le lc) \<sigma> cm n F"
    using gives_body [OF body, of ?s0] ctx by (metis context_with_line)
  let ?s2 = "with_line (with_line s1 (Br lc)) (Lab lc)"
  obtain v cc s3 where g2: "gives ?s2 t v cc s3" "context_of s3 = context_of K"
    "\<And>\<rho>. ls_variable_slots s3 \<subseteq>\<^sub>m \<sigma> \<Longrightarrow> passes ops K \<sigma> cc [] \<rho> [(v, Holds (Bit (fst (T \<rho>))))] (snd (T \<rho>)) []"
    using gives_test [OF test, of ?s2] g1(2) by (metis context_with_line)
  let ?code = "[Br lb] @ [Lab lb] @ cm @ [Br lc] @ [Lab lc] @ cc @ [CondBr v lb le] @ [Lab le]"
  have g: "gives s ?m () ?code (with_line (with_line s3 (CondBr v lb le)) (Lab le))"
    by (rule gives_lines gives_bind [OF g1(1)] gives_bind [OF g2(1)] gives_emit)+
  show ?thesis
  proof (rule stmt_gives [OF g])
    assume "ls_variable_slots (with_line (with_line s3 (CondBr v lb le)) (Lab le)) \<subseteq>\<^sub>m \<sigma>"
    then have sl3: "ls_variable_slots s3 \<subseteq>\<^sub>m \<sigma>" by simp
    then have sl1: "ls_variable_slots s1 \<subseteq>\<^sub>m \<sigma>" using gives_slots [OF g2(1)] by simp
    show "run_passes ops K \<sigma> ?code n ?F"
      unfolding run_passes_def
    proof (intro allI impI)
      fix before after \<rho> and c :: "'a machine"
      define P where "P = before @ ?code @ after"
      assume a: "layout K \<sigma> (before @ ?code @ after) before" "labels_there K (before @ ?code @ after)"
        "ms_pc c = length before" "ready K \<sigma> c \<rho>"
      then have lay: "layout K \<sigma> P before" by (simp add: P_def)
      let ?h = "[Br lb, Lab lb] @ cm @ [Br lc]" and ?e = "before @ [Br lb, Lab lb] @ cm @ [Br lc, Lab lc] @ cc @ [CondBr v lb le]"
      have at: "P = (before @ [Br lb]) @ Lab lb # cm @ Br lc # Lab lc # cc @ CondBr v lb le # Lab le # after"
        "P = (before @ ?h) @ Lab lc # cc @ CondBr v lb le # Lab le # after" "P = ?e @ Lab le # after"
        by (simp_all add: P_def)
      have inside: "P = before @ [Br lb, Lab lb] @ cm @ Br lc # Lab lc # cc @ CondBr v lb le # Lab le # after"
        by (simp add: P_def)
      let ?c = "jumped (length (before @ [Br lb])) lb c"
      have start: "step ops P c = Some ?c"
        by (rule step_br [OF layoutD(2) [OF lay] a(3) _ at(1)]) (simp add: P_def)
      have loop: "arrives ops K \<sigma> P c1 (Suc (length ?e)) n (rounds n T F (\<lambda>\<rho>. \<rho>) \<rho>1)"
        if "ms_pc c1 = length (before @ ?h @ [Lab lc])" "ready K \<sigma> c1 \<rho>1" for c1 \<rho>1
        by (rule rounds_code [OF lay _ g2(3) [OF sl3] inside g1(3) [OF sl1] at(1,3,2), where ?r1.0 = "?h @ [Lab lc]"
              and ?w1.0 = "Lab le # after"])
          (use that in \<open>auto simp: P_def intro: reaches_refl\<close>)
      have "arrives ops K \<sigma> P ?c (Suc (length ?e)) n (?F \<rho>)"
      proof (cases "F \<rho>")
        case None
        then show ?thesis
          using body_run [OF lay inside at(2,3) g1(3) [OF sl1], of ?c \<rho>] a(4) by (simp add: arrives_def)
      next
        case (Some x)
        obtain res \<rho>1 out where x: "F \<rho> = Some (res, \<rho>1, out)" using Some by (cases x) auto
        obtain c1 where c1: "reaches ops P ?c c1" "ready K \<sigma> c1 \<rho>1" "ms_trace c1 = ms_trace ?c @ map event_of out"
          "ms_pc c1 = Suc (length (if res = Broke then ?e else before @ ?h))"
          using body_run [OF lay inside at(2,3) g1(3) [OF sl1], of ?c \<rho>] a(4) by (auto simp: x)
        show ?thesis
        proof (cases "res = Broke")
          case True
          then show ?thesis using c1 by (simp add: x) (rule arrives_Some; simp)
        next
          case False
          then have "arrives ops K \<sigma> P c1 (Suc (length ?e)) n (rounds n T F (\<lambda>\<rho>. \<rho>) \<rho>1)"
            using c1(2,4) by (intro loop) simp_all
          from arrives_later [OF c1(1,3) this] show ?thesis using False by (simp add: x then_run_def)
        qed
      qed
      from arrives_reaches [OF reaches_one [OF start] _ this]
      show "arrives ops K \<sigma> (before @ ?code @ after) c (length (before @ ?code)) n (?F \<rho>)"
        by (simp add: P_def)
    qed
  qed
qed

lemma stmt_for:
  assumes test: "\<And>s \<rho>. sim ops K \<sigma> False s [] \<rho> t (\<lambda>v. [(v, Holds (Bit (fst (T \<rho>))))]) (snd (T \<rho>)) []"
    and body: "\<And>s. stmt_sim ops (labelled K le lk) \<sigma> s m n F"
    and update: "\<And>s \<rho>. sim ops K \<sigma> False s [] \<rho> u (\<lambda>_. []) (U \<rho>) []"
  shows "stmt_sim ops K \<sigma> s
     (bindL (emit (Br lc)) (\<lambda>_. bindL (emit (Lab lc)) (\<lambda>_. bindL t (\<lambda>v.
      bindL (emit (CondBr v lb le)) (\<lambda>_. bindL (emit (Lab lb)) (\<lambda>_.
      bindL (with_loop_labels le lk m) (\<lambda>_. bindL (emit (Br lk)) (\<lambda>_. bindL (emit (Lab lk)) (\<lambda>_.
      bindL u (\<lambda>_. bindL (emit (Br lc)) (\<lambda>_. emit (Lab le))))))))))))
     n (rounds n T F U)"
  (is "stmt_sim _ _ _ _ ?m _ ?F")
proof (rule stmt_context)
  assume ctx: "context_of s = context_of K"
  let ?s0 = "with_line (with_line s (Br lc)) (Lab lc)"
  obtain v cc s1 where g1: "gives ?s0 t v cc s1" "context_of s1 = context_of K"
    "\<And>\<rho>. ls_variable_slots s1 \<subseteq>\<^sub>m \<sigma> \<Longrightarrow> passes ops K \<sigma> cc [] \<rho> [(v, Holds (Bit (fst (T \<rho>))))] (snd (T \<rho>)) []"
    using gives_test [OF test, of ?s0] ctx by (metis context_with_line)
  let ?s2 = "with_line (with_line s1 (CondBr v lb le)) (Lab lb)"
  obtain cm s3 where g2: "gives ?s2 (with_loop_labels le lk m) () cm s3" "context_of s3 = context_of K"
    "ls_variable_slots s3 \<subseteq>\<^sub>m \<sigma> \<Longrightarrow> run_passes ops (labelled K le lk) \<sigma> cm n F"
    using gives_body [OF body, of ?s2] g1(2) by (metis context_with_line)
  let ?s4 = "with_line (with_line s3 (Br lk)) (Lab lk)"
  obtain y cu s5 where g3: "gives ?s4 u y cu s5" "context_of s5 = context_of K"
    "\<And>\<rho>. ls_variable_slots s5 \<subseteq>\<^sub>m \<sigma> \<Longrightarrow> passes ops K \<sigma> cu [] \<rho> [] (U \<rho>) []"
    using gives_test [OF update, of ?s4] g2(2) by (metis context_with_line)
  let ?code = "[Br lc] @ [Lab lc] @ cc @ [CondBr v lb le] @ [Lab lb] @ cm @ [Br lk] @ [Lab lk] @ cu @ [Br lc] @ [Lab le]"
  have g: "gives s ?m () ?code (with_line (with_line s5 (Br lc)) (Lab le))"
    by (rule gives_lines gives_bind [OF g1(1)] gives_bind [OF g2(1)] gives_bind [OF g3(1)] gives_emit)+
  show ?thesis
  proof (rule stmt_gives [OF g])
    assume "ls_variable_slots (with_line (with_line s5 (Br lc)) (Lab le)) \<subseteq>\<^sub>m \<sigma>"
    then have sl5: "ls_variable_slots s5 \<subseteq>\<^sub>m \<sigma>" by simp
    then have sl3: "ls_variable_slots s3 \<subseteq>\<^sub>m \<sigma>" using gives_slots [OF g3(1)] by simp
    then have sl1: "ls_variable_slots s1 \<subseteq>\<^sub>m \<sigma>" using gives_slots [OF g2(1)] by simp
    show "run_passes ops K \<sigma> ?code n ?F"
      unfolding run_passes_def
    proof (intro allI impI)
      fix before after \<rho> and c :: "'a machine"
      define P where "P = before @ ?code @ after"
      assume a: "layout K \<sigma> (before @ ?code @ after) before" "labels_there K (before @ ?code @ after)"
        "ms_pc c = length before" "ready K \<sigma> c \<rho>"
      then have lay: "layout K \<sigma> P before" by (simp add: P_def)
      let ?b = "[Br lc, Lab lc] @ cc @ [CondBr v lb le]"
      let ?k = "?b @ Lab lb # cm @ [Br lk]"
      let ?e = "before @ ?k @ Lab lk # cu @ [Br lc]"
      have at: "P = (before @ [Br lc]) @ Lab lc # cc @ CondBr v lb le # Lab lb # cm @ Br lk # Lab lk # cu @ Br lc # Lab le # after"
        "P = (before @ ?b) @ Lab lb # cm @ Br lk # Lab lk # cu @ Br lc # Lab le # after" "P = ?e @ Lab le # after"
        "P = (before @ ?k) @ Lab lk # cu @ Br lc # Lab le # after"
        by (simp_all add: P_def)
      have jump_back: "step ops P c1 = Some (jumped (length (before @ [Br lc])) lc c1)"
        if "ms_pc c1 = length w" "P = w @ Br lc # w'" for c1 w w'
        by (rule step_br [OF layoutD(2) [OF lay] that at(1)])
      let ?c = "jumped (length (before @ [Br lc])) lc c"
      have start: "step ops P c = Some ?c"
        by (rule jump_back [OF a(3)]) (simp add: P_def)
      have home: "\<exists>c'. reaches ops P c1 c' \<and> ms_pc c' = length (before @ [Br lc, Lab lc]) \<and> ready K \<sigma> c' (U \<rho>1)
          \<and> ms_trace c' = ms_trace c1"
        if c1: "ms_pc c1 = Suc (length (before @ ?k))" "ready K \<sigma> c1 \<rho>1" for c1 \<rho>1
      proof -
        obtain c2 where c2: "reaches ops P c1 c2" "ms_pc c2 = length ((before @ ?k @ [Lab lk]) @ cu)" "ready K \<sigma> c2 (U \<rho>1)"
          "ms_trace c2 = ms_trace c1"
          by (rule enter_part [OF g3(3) [OF sl5], of P "before @ ?k @ [Lab lk]" _ before c1 \<rho>1])
            (use lay c1 in \<open>auto simp: P_def\<close>)
        have "step ops P c2 = Some (jumped (length (before @ [Br lc])) lc c2)"
          by (rule jump_back [OF c2(2)]) (simp add: P_def)
        then show ?thesis using reaches_trans [OF c2(1) reaches_one] c2(3,4)
          by (intro exI [of _ "jumped (length (before @ [Br lc])) lc c2"]) auto
      qed
      have "arrives ops K \<sigma> P ?c (Suc (length ?e)) n (?F \<rho>)"
        by (rule rounds_code [OF lay _ g1(3) [OF sl1] _ g2(3) [OF sl3] at(2,3,4) _ home, where ?r2.0 = "?b @ [Lab lb]" and ?w2.0 = "Lab lk # cu @ Br lc # Lab le # after"])
          (use a in \<open>auto simp: P_def\<close>)
      from arrives_reaches [OF reaches_one [OF start] _ this]
      show "arrives ops K \<sigma> (before @ ?code @ after) c (length (before @ ?code)) n (?F \<rho>)"
        by (simp add: P_def)
    qed
  qed
qed

end
