(* ===== verification/Statement_Correct.thy ===== *)
theory Statement_Correct
  imports Statement_Loops
begin

text \<open>Every statement of the core: its code does what the interpreter does, for ever or not.\<close>

section \<open>Printing\<close>

lemma sim_print_fragment:
  assumes K: "phase_context K" and ops: "ops_ok ops" and e: "core ops K e"
  shows "sim ops K \<sigma> False s \<Gamma> \<rho> (lower_runtime_print_fragment e) (\<lambda>_. []) (snd (eval ops e \<rho>))
    [Printed (fst (eval ops e \<rho>))]"
proof (rule sim_context)
  assume ctx: "context_of s = context_of K"
  then have "\<not> runtime_expression_has_string_result e s" using core_not_string core_context(1) e by blast
  then have run: "lower_runtime_print_fragment e s
      = bindL (lw_numeric lowering e) (\<lambda>v. runtime_call_void ''@qk_print_number_fragment'' [(''double'', v)]) s"
    by (simp add: lower_runtime_print_fragment_def bindL_def getL_def)
  have "sim ops K \<sigma> False s \<Gamma> \<rho>
      (bindL (lw_numeric lowering e) (\<lambda>v. runtime_call_void ''@qk_print_number_fragment'' [(''double'', v)]))
      (\<lambda>_. []) (snd (eval ops e \<rho>)) [Printed (fst (eval ops e \<rho>))]"
    by (rule sim_bind_simple [OF numeric_simD], use expression_sim [OF K ops e] in blast, simp)
      (rule sim_print_number [OF K], simp)
  then show ?thesis using run by (simp add: sim_def)
qed

lemma sim_print_arguments:
  assumes K: "phase_context K" and ops: "ops_ok ops"
  shows "list_all (core ops K) es \<Longrightarrow>
    sim ops K \<sigma> False s \<Gamma> \<rho>
      (lower_print_arguments (runtime_call_void ''@qk_print_output_separator'' []) lower_runtime_print_fragment first es)
      (\<lambda>_. []) (snd (printed ops first es \<rho>)) (fst (printed ops first es \<rho>))"
proof (induction es arbitrary: s \<Gamma> \<rho> first)
  case Nil
  then show ?case by (simp add: sim_ret)
next
  case (Cons e es)
  let ?sep = "if first then [] else [Separator]"
  have sep: "sim ops K \<sigma> False s \<Gamma> \<rho> (if first then retL () else runtime_call_void ''@qk_print_output_separator'' [])
      (\<lambda>_. []) \<rho> ?sep" for s \<Gamma>
    using sim_separators(1) [OF K] sim_ret [of "\<lambda>_. []" "()"] by (cases first) simp_all
  let ?rest = "lower_print_arguments (runtime_call_void ''@qk_print_output_separator'' []) lower_runtime_print_fragment False es"
  have "sim ops K \<sigma> False s \<Gamma> \<rho>
      (bindL (if first then retL () else runtime_call_void ''@qk_print_output_separator'' [])
        (\<lambda>_. bindL (lower_runtime_print_fragment e) (\<lambda>_. ?rest)))
      (\<lambda>_. []) (snd (printed ops False es (snd (eval ops e \<rho>))))
      (?sep @ [Printed (fst (eval ops e \<rho>))] @ fst (printed ops False es (snd (eval ops e \<rho>))))"
    by (rule sim_bind [OF sep sim_bind [OF sim_print_fragment [OF K ops]]]; use Cons in simp)
  then show ?case by (simp add: split_beta Let_def)
qed

lemma sim_print:
  assumes K: "phase_context K" and ops: "ops_ok ops" and es: "list_all (core ops K) es" "es \<noteq> []"
  shows "sim ops K \<sigma> False s \<Gamma> \<rho> (lower_runtime_print_statement es None) (\<lambda>_. [])
    (snd (printed ops True es \<rho>)) (fst (printed ops True es \<rho>) @ [RecordSeparator])"
proof -
  have "sim ops K \<sigma> False s \<Gamma> \<rho>
      (bindL (lower_print_arguments (runtime_call_void ''@qk_print_output_separator'' []) lower_runtime_print_fragment True es)
        (\<lambda>_. runtime_call_void ''@qk_print_output_record_separator'' []))
      (\<lambda>_. []) (snd (printed ops True es \<rho>)) (fst (printed ops True es \<rho>) @ [RecordSeparator])" for s
    by (rule sim_bind [OF sim_print_arguments [OF K ops es(1)] sim_separators(2) [OF K]])
  then show ?thesis
    unfolding lower_runtime_print_statement_def using es(2) by (intro sim_runtime [OF K]) simp
qed

section \<open>Dispatch\<close>

lemma stmt_get:
  assumes "context_of s = context_of K \<Longrightarrow> stmt_sim ops K \<sigma> s (g (f s)) n F"
  shows "stmt_sim ops K \<sigma> s (bindL (getL f) g) n F"
  using assms by (auto simp: stmt_sim_def bindL_def getL_def)

lemma stmt_require_runtime:
  assumes "phase_context K" "stmt_sim ops K \<sigma> s m n F"
  shows "stmt_sim ops K \<sigma> s (require_runtime what m) n F"
  unfolding require_runtime_def
  by (rule stmt_get) (use assms same_context(6) [of s K] in \<open>simp add: phase_context_def\<close>)

lemma sim_assignment:
  assumes K: "phase_context K" and ops: "ops_ok ops" and x: "core_name K x" and e: "core ops K e"
  shows "sim ops K \<sigma> False s \<Gamma> \<rho> (lower_runtime_assignment_statement (NameLValue x sp) op e) (\<lambda>_. [])
    ((snd (eval ops e \<rho>))(x := updated_value ops op (snd (eval ops e \<rho>) x) (fst (eval ops e \<rho>)))) []"
  unfolding lower_runtime_assignment_statement_def
proof (rule sim_runtime [OF K], rule sim_context)
  assume ctx: "context_of s = context_of K"
  have "core_name s x" using x same_context(3) [OF ctx] by blast
  then show "sim ops K \<sigma> False s \<Gamma> \<rho>
      (bindL (getL (\<lambda>s. s)) (\<lambda>s.
         case target_field_index (NameLValue x sp) of
           Some index \<Rightarrow> assign_field_statement index op e
         | None \<Rightarrow>
             (case target_name (NameLValue x sp) of
                None \<Rightarrow> raiseL (RuntimeError ''non-scalar assignments are not supported by the runtime-backed backend'')
              | Some name \<Rightarrow>
                  if ls_function_param_strings s name \<noteq> None then assign_param_statement name op e
                  else case target_index (NameLValue x sp) of
                         Some index \<Rightarrow> assign_array_statement name (index # target_extra_indexes (NameLValue x sp)) op e
                       | None \<Rightarrow>
                           if is_state_name name \<or> runtime_name_uses_numeric_slot_state name s
                           then assign_numeric_slot_statement name op e
                           else assign_scalar_statement name op e)))
      (\<lambda>_. [])
      ((snd (eval ops e \<rho>))(x := updated_value ops op (snd (eval ops e \<rho>) x) (fst (eval ops e \<rho>)))) []"
    using sim_assign_statement [OF K ops x e] by (simp add: sim_get core_name_facts)
qed

text \<open>A jump to the label of the enclosing loop.\<close>

lemma defined_label_split:
  assumes "l \<in> set (defined_labels P)"
  obtains u w where "P = u @ Lab l # w"
proof -
  have "Lab l \<in> set P"
    using assms
  proof (induction P)
    case (Cons x P)
    then show ?case by (cases x) auto
  qed simp
  then show ?thesis using that split_list by metis
qed

lemma stmt_jump:
  fixes ops :: "'f float_ops"
  assumes "l = Some x" and "\<And>P fin (c :: 'f machine). left_at K P fin r c \<longleftrightarrow> entered P (Some x) c"
    and "\<And>P. labels_there K P \<Longrightarrow> x \<in> set (defined_labels P)"
  shows "stmt_sim ops K \<sigma> s (jump_to what l) n (\<lambda>\<rho>. Some (r, \<rho>, []))"
proof -
  have "run_passes ops K \<sigma> [Br x] n (\<lambda>\<rho>. Some (r, \<rho>, []))"
    unfolding run_passes_def
  proof (intro allI impI)
    fix before after \<rho> and c :: "'f machine"
    let ?P = "before @ [Br x] @ after"
    assume a: "layout K \<sigma> ?P before" "labels_there K ?P" "ms_pc c = length before" "ready K \<sigma> c \<rho>"
    note labels = layoutD(2) [OF a(1)]
    have "x \<in> set (defined_labels ?P)" using assms(3) a(2) by blast
    then obtain u w where P: "?P = u @ Lab x # w" using defined_label_split by metis
    have "step ops ?P c = Some (jumped (length u) x c)"
      by (rule step_br [OF labels a(3) _ P]) simp
    then show "arrives ops K \<sigma> ?P c (length (before @ [Br x])) n (Some (r, \<rho>, []))"
      using a(4) assms(2) entered_at [OF labels P, of "jumped (length u) x c"]
      by (intro arrives_Some [of _ _ _ "jumped (length u) x c"]) (auto intro: reaches_one)
  qed
  then show ?thesis
    using assms(1) stmt_gives [OF gives_emit [of s "Br x"]] by (simp add: jump_to_def branch_def)
qed

section \<open>Statements\<close>

lemma test_sim:
  assumes "phase_context K" "ops_ok ops" "core ops K e"
  shows "sim ops K \<sigma> False s [] \<rho> (lw_condition lowering e) (\<lambda>v. [(v, Holds (Bit (fst (test_value ops e \<rho>))))])
    (snd (test_value ops e \<rho>)) []"
  using condition_simD [of ops K \<sigma> e False s "[]" \<rho>] expression_sim [OF assms]
  by (simp add: test_value_def split_beta Let_def)

lemma stmt_block:
  assumes "\<And>s st. st \<in> set sts \<Longrightarrow> stmt_sim ops K \<sigma> s (lower_statement st) n (run_statement ops n st)"
  shows "stmt_sim ops K \<sigma> s (lower_statements sts) n (run_statements ops n sts)"
  using assms
proof (induction sts arbitrary: s)
  case Nil
  have "stmt_sim ops K \<sigma> s (retL ()) n (\<lambda>\<rho>. Some (Done, \<rho>, []))"
    by (rule stmt_of_sim) (rule sim_ret, simp)
  moreover have "run_statements ops n [] = (\<lambda>\<rho>. Some (Done, \<rho>, []))" by (simp add: fun_eq_iff)
  ultimately show ?case by simp
next
  case (Cons st sts)
  have "run_statements ops n (st # sts) = (\<lambda>\<rho>. then_run (run_statement ops n st \<rho>) (run_statements ops n sts))"
    by (simp add: fun_eq_iff)
  then show ?case using Cons by (auto intro!: stmt_bind)
qed

definition loop_labels :: "lowering_state \<Rightarrow> bool \<Rightarrow> bool" where
  "loop_labels K in_loop \<longleftrightarrow> (in_loop \<longrightarrow> ls_break_label K \<noteq> None \<and> ls_continue_label K \<noteq> None)"

lemma loop_labels_labelled [simp]: "loop_labels (labelled K b c) in_loop"
  by (simp add: loop_labels_def)

theorem statement_sim:
  assumes "ops_ok ops"
  shows "core_statement ops K in_loop st \<Longrightarrow> phase_context K \<Longrightarrow> loop_labels K in_loop \<Longrightarrow>
    stmt_sim ops K \<sigma> s (lower_statement st) n (run_statement ops n st)"
proof (induction "size st" arbitrary: st K in_loop s rule: less_induct)
  case less
  note K = less.prems(2) and ok = less.prems(1)
  note test = test_sim [OF K assms]
  have part: "stmt_sim ops K \<sigma> s (lower_statement st') n (run_statement ops n st')"
    if "size st' < size st" "core_statement ops K in_loop st'" for st' s
    using less.hyps [OF that(1,2) K less.prems(3)] .
  have body: "stmt_sim ops (labelled K b c) \<sigma> s (lower_statement st') n (run_statement ops n st')"
    if "size st' < size st" "core_statement ops K True st'" for st' s b c
    using less.hyps [OF that(1), of "labelled K b c" True] that(2) K by simp
  show ?case
  proof (cases st)
    case (AssignStmt target op e sp)
    then obtain x xsp where x: "target = NameLValue x xsp" "core_name K x" "core ops K e"
      using ok by (cases target) auto
    have "run_statement ops n st = (\<lambda>\<rho>. Some (Done,
        (snd (eval ops e \<rho>))(x := updated_value ops op (snd (eval ops e \<rho>) x) (fst (eval ops e \<rho>))), []))"
      by (simp add: AssignStmt x(1) fun_eq_iff split_beta Let_def)
    then have "stmt_sim ops K \<sigma> s (lower_runtime_assignment_statement target op e) n (run_statement ops n st)"
      using stmt_of_sim [OF sim_assignment [OF K assms x(2,3)]] x(1) by simp
    then show ?thesis
      unfolding AssignStmt lower_statement.simps
      by (intro stmt_get) (use K same_context(6) [of s K] in \<open>simp add: phase_context_def\<close>)
  next
    case (BlockStmt sts sp)
    have "run_statement ops n st = run_statements ops n sts" by (simp add: BlockStmt fun_eq_iff)
    moreover have "stmt_sim ops K \<sigma> s (lower_statements sts) n (run_statements ops n sts)"
      by (rule stmt_block, rule part) (use BlockStmt ok size_in_block in \<open>auto simp: list_all_iff\<close>)
    ultimately show ?thesis by (simp add: BlockStmt)
  next
    case (BreakStmt sp)
    obtain l where l: "ls_break_label K = Some l"
      using ok less.prems(3) by (auto simp: BreakStmt loop_labels_def)
    have "run_statement ops n st = (\<lambda>\<rho>. Some (Broke, \<rho>, []))" by (simp add: BreakStmt fun_eq_iff)
    then show ?thesis
      unfolding BreakStmt lower_statement.simps
      by simp (rule stmt_get, rule stmt_jump [of _ l],
          use l same_context(11) [of s K] in \<open>auto simp: labels_there_def\<close>)
  next
    case (ContinueStmt sp)
    obtain l where l: "ls_continue_label K = Some l"
      using ok less.prems(3) by (auto simp: ContinueStmt loop_labels_def)
    have "run_statement ops n st = (\<lambda>\<rho>. Some (Continued, \<rho>, []))" by (simp add: ContinueStmt fun_eq_iff)
    then show ?thesis
      unfolding ContinueStmt lower_statement.simps
      by simp (rule stmt_get, rule stmt_jump [of _ l],
          use l same_context(12) [of s K] in \<open>auto simp: labels_there_def\<close>)
  next
    case (ExprStmt e sp)
    have "run_statement ops n st = (\<lambda>\<rho>. Some (Done, snd (eval ops e \<rho>), []))" by (simp add: ExprStmt fun_eq_iff)
    then show ?thesis
      unfolding ExprStmt lower_statement.simps
      by simp (rule stmt_require_runtime [OF K], rule stmt_of_sim, rule sim_side_effect [OF K assms],
          use ok ExprStmt in simp)
  next
    case (PrintStmt es sp redirect)
    have es: "list_all (core ops K) es" "es \<noteq> []" "redirect = None" using ok by (auto simp: PrintStmt)
    have "run_statement ops n st
        = (\<lambda>\<rho>. Some (Done, snd (printed ops True es \<rho>), fst (printed ops True es \<rho>) @ [RecordSeparator]))"
      by (simp add: PrintStmt fun_eq_iff split_beta Let_def)
    then have "stmt_sim ops K \<sigma> s (lower_runtime_print_statement es None) n (run_statement ops n st)"
      using stmt_of_sim [OF sim_print [OF K assms es(1,2)]] by simp
    then show ?thesis
      unfolding PrintStmt lower_statement.simps es(3)
      by (intro stmt_get) (use K same_context(6) [of s K] in \<open>simp add: phase_context_def\<close>)
  next
    case (IfStmt e yes no sp)
    show ?thesis
    proof (cases no)
      case None
      have run: "run_statement ops n st = (\<lambda>\<rho>. let (b, \<rho>1) = test_value ops e \<rho> in
          if b then run_statement ops n yes \<rho>1 else Some (Done, \<rho>1, []))"
        by (simp add: IfStmt None fun_eq_iff split_beta Let_def)
      show ?thesis
        unfolding run unfolding IfStmt None lower_statement.simps lower_if_statement_def option.case
          cond_branch_def mark_label_def branch_def
        by (intro stmt_label stmt_if test part; use ok IfStmt in simp)
    next
      case (Some st')
      have run: "run_statement ops n st = (\<lambda>\<rho>. let (b, \<rho>1) = test_value ops e \<rho> in
          if b then run_statement ops n yes \<rho>1 else run_statement ops n st' \<rho>1)"
        by (simp add: IfStmt Some fun_eq_iff split_beta Let_def)
      show ?thesis
        unfolding run unfolding IfStmt Some lower_statement.simps lower_if_statement_def option.case
          cond_branch_def mark_label_def branch_def
        by (intro stmt_label stmt_if_else test part; use ok IfStmt Some in simp)
    qed
  next
    case (WhileStmt e st' sp)
    have "run_statement ops n st = rounds n (test_value ops e) (run_statement ops n st') (\<lambda>\<rho>. \<rho>)"
      by (simp add: WhileStmt fun_eq_iff)
    then show ?thesis
      unfolding WhileStmt lower_statement.simps lower_while_statement_def cond_branch_def mark_label_def branch_def
      by simp (intro stmt_label stmt_while test body; use ok WhileStmt in simp)
  next
    case (DoWhileStmt st' e sp)
    have "run_statement ops n st = (\<lambda>\<rho>. case run_statement ops n st' \<rho> of
               None \<Rightarrow> None
             | Some (result, \<rho>1, out) \<Rightarrow>
                 if result = Broke then Some (Done, \<rho>1, out)
                 else then_run (Some (Done, \<rho>1, out)) (rounds n (test_value ops e) (run_statement ops n st') (\<lambda>\<rho>. \<rho>)))"
      by (simp add: DoWhileStmt fun_eq_iff)
    then show ?thesis
      unfolding DoWhileStmt lower_statement.simps lower_do_while_statement_def cond_branch_def mark_label_def branch_def
      by simp (intro stmt_label stmt_do_while test body; use ok DoWhileStmt in simp)
  next
    case (ForStmt init e update st' sp)
    let ?t = "case e of None \<Rightarrow> retL ''true'' | Some e' \<Rightarrow> lw_condition lowering e'"
    let ?T = "case e of None \<Rightarrow> Pair True | Some e' \<Rightarrow> test_value ops e'"
    let ?R = "rounds n ?T (run_statement ops n st') (effects_of ops update)"
    have t: "sim ops K \<sigma> False s [] \<rho> ?t (\<lambda>v. [(v, Holds (Bit (fst (?T \<rho>))))]) (snd (?T \<rho>)) []" for s \<rho>
      by (cases e) (use test ok ForStmt in \<open>simp_all add: sim_constant is_register_def constant_value_def\<close>)
    have loop: "stmt_sim ops K \<sigma> s
       (bindL (emit (Br lc)) (\<lambda>_. bindL (emit (Lab lc)) (\<lambda>_. bindL ?t (\<lambda>v.
        bindL (emit (CondBr v lb le)) (\<lambda>_. bindL (emit (Lab lb)) (\<lambda>_.
        bindL (with_loop_labels le lk (lower_statement st')) (\<lambda>_. bindL (emit (Br lk)) (\<lambda>_. bindL (emit (Lab lk)) (\<lambda>_.
        bindL (each_low lower_runtime_side_effect_expression update) (\<lambda>_. bindL (emit (Br lc)) (\<lambda>_. emit (Lab le))))))))))))
       n ?R" for s lc lb le lk
      by (intro stmt_for t body sim_side_effects [OF K assms]) (use ok ForStmt in simp_all)
    have init: "stmt_sim ops K \<sigma> s (each_low lower_runtime_side_effect_expression init) n
        (\<lambda>\<rho>. Some (Done, effects_of ops init \<rho>, []))" for s
      by (rule stmt_of_sim, rule sim_side_effects [OF K assms]) (use ok ForStmt in simp)
    have "run_statement ops n st = (\<lambda>\<rho>. then_run (Some (Done, effects_of ops init \<rho>, [])) ?R)"
      by (auto simp: ForStmt fun_eq_iff then_run_def split: option.splits)
    then show ?thesis
      unfolding ForStmt lower_statement.simps lower_runtime_for_statement_def
        cond_branch_def mark_label_def branch_def
      by simp (intro stmt_require_runtime [OF K] stmt_bind [OF init] stmt_label loop)
  qed (use ok in simp_all)
qed

end
