(* ===== verification/Phase_Code.thy ===== *)
theory Phase_Code
  imports Statement_Correct
begin

text \<open>
  The functions of the phases: the slots of the frame, the actions, and the block of the exit label.
\<close>

section \<open>Actions\<close>

definition acting :: "lowering_state \<Rightarrow> string \<Rightarrow> lowering_state" where
  "acting K l = K\<lparr>ls_action_exit_label := Some l\<rparr>"

lemma unlabelled_acting: "unlabelled (acting K l) = unlabelled K"
  by (simp add: unlabelled_def acting_def)

lemmas acting_same [simp] = same_labelling [OF unlabelled_acting]

lemma acting_fields [simp]:
  "ls_variable_slots (acting K l) = ls_variable_slots K" "ls_instructions (acting K l) = ls_instructions K"
  "ls_break_label (acting K l) = ls_break_label K" "ls_continue_label (acting K l) = ls_continue_label K"
  by (simp_all add: acting_def)

lemma left_at_acting [simp]: "left_at (acting K l) P fin r c = left_at K P fin r c"
  by (cases r) simp_all

lemma run_passes_acting: "run_passes ops (acting K l) \<sigma> code n F = run_passes ops K \<sigma> code n F"
  by (simp add: run_passes_def arrives_def labels_there_def cong: option.case_cong)

lemma stmt_acting:
  assumes "\<And>s. stmt_sim ops (acting K l) \<sigma> s m n F"
  shows "stmt_sim ops K \<sigma> s
    (restoring_action_exit (bindL (modifyL (\<lambda>s. s\<lparr>ls_action_exit_label := Some l\<rparr>)) (\<lambda>_. m))) n F"
proof (rule stmt_context)
  assume ctx: "context_of s = context_of K"
  then have "context_of (acting s l) = context_of (acting K l)" by (simp add: context_of_eq acting_def)
  with assms obtain s1 code where m: "m (acting s l) = (Inr (), s1)" "extends (acting s l) code s1"
    "ls_variable_slots s1 \<subseteq>\<^sub>m \<sigma> \<Longrightarrow> run_passes ops (acting K l) \<sigma> code n F"
    by (rule stmt_simE) (rule that; assumption)
  let ?s = "s1\<lparr>ls_action_exit_label := ls_action_exit_label s\<rparr>"
  have run: "restoring_action_exit (bindL (modifyL (\<lambda>s. s\<lparr>ls_action_exit_label := Some l\<rparr>)) (\<lambda>_. m)) s = (Inr (), ?s)"
    using m(1) by (simp add: restoring_action_exit_def bindL_def modifyL_def acting_def)
  have ctx': "context_of ?s = context_of s"
    using m(2) by (simp add: extends_def context_of_eq acting_def)
  have "unlabelled ?s = unlabelled s1" by (simp add: unlabelled_def)
  then have "extends s code ?s"
    using m(2) ctx' same_labelling(9) [of ?s s1] by (simp add: extends_def)
  note sim = stmt_simI [where m = "restoring_action_exit (bindL (modifyL (\<lambda>s. s\<lparr>ls_action_exit_label := Some l\<rparr>)) (\<lambda>_. m))",
      OF run this]
  show ?thesis by (rule sim) (use m(3) in \<open>simp add: run_passes_acting\<close>)
qed

text \<open>A statement before a jump to the label that follows.\<close>

lemma stmt_then_label:
  assumes "stmt_sim ops K \<sigma> s m n F"
  shows "stmt_sim ops K \<sigma> s (bindL m (\<lambda>_. bindL (emit (Br l)) (\<lambda>_. emit (Lab l)))) n F"
proof (rule stmt_context)
  assume ctx: "context_of s = context_of K"
  obtain cm s1 where g1: "gives s m () cm s1" "ls_variable_slots s1 \<subseteq>\<^sub>m \<sigma> \<Longrightarrow> run_passes ops K \<sigma> cm n F"
    using gives_statement [OF assms ctx] by metis
  let ?code = "cm @ [Br l] @ [Lab l]"
  have g: "gives s (bindL m (\<lambda>_. bindL (emit (Br l)) (\<lambda>_. emit (Lab l)))) () ?code (with_line (with_line s1 (Br l)) (Lab l))"
    by (rule gives_bind [OF g1(1)] gives_lines gives_emit)+
  show ?thesis
  proof (rule stmt_gives [OF g])
    assume "ls_variable_slots (with_line (with_line s1 (Br l)) (Lab l)) \<subseteq>\<^sub>m \<sigma>"
    then have code: "run_passes ops K \<sigma> cm n F" using g1(2) by simp
    show "run_passes ops K \<sigma> ?code n F"
      unfolding run_passes_def
    proof (intro allI impI)
      fix before after \<rho> and c :: "'a machine"
      let ?P = "before @ ?code @ after"
      assume a: "layout K \<sigma> ?P before" "labels_there K ?P" "ms_pc c = length before" "ready K \<sigma> c \<rho>"
      have "arrives ops K \<sigma> ?P c (Suc (length (before @ cm @ [Br l]))) n (F \<rho>)"
        by (rule part_run [OF a(1) _ _ code a(2), where r = "[]" and w = "Lab l # after" and w' = after])
          (use a(3,4) in simp_all)
      then show "arrives ops K \<sigma> ?P c (length (before @ ?code)) n (F \<rho>)" by simp
    qed
  qed
qed

lemma core_no_exit: "core_statement ops K in_loop st \<Longrightarrow> \<not> is_phase_exit st"
  by (cases st) (simp_all add: is_phase_exit_def)

lemma lower_until_core:
  "list_all (core_statement ops K in_loop) sts \<Longrightarrow>
     lower_until is_phase_exit sts = bindL (lower_statements sts) (\<lambda>_. retL False)"
  by (induction sts) (auto simp: core_no_exit)

definition core_action :: "'f float_ops \<Rightarrow> lowering_state \<Rightarrow> action \<Rightarrow> bool" where
  "core_action ops K a \<longleftrightarrow> list_all (core_statement ops K False) (ac_statements a)"

lemma action_sim:
  assumes ops: "ops_ok ops" and K: "phase_context K" and a: "core_action ops K a"
  shows "stmt_sim ops K \<sigma> s (lower_action a) n (run_statements ops n (ac_statements a))"
proof -
  note core = a [unfolded core_action_def]
  have body: "stmt_sim ops (acting K l) \<sigma> s
      (bindL (lower_statements (ac_statements a)) (\<lambda>_. bindL (emit (Br l)) (\<lambda>_. emit (Lab l)))) n
      (run_statements ops n (ac_statements a))" for l s
    by (rule stmt_then_label, rule stmt_block, rule statement_sim [OF ops, where in_loop = False])
      (use core K in \<open>simp_all add: list_all_iff loop_labels_def\<close>)
  have "stmt_sim ops K \<sigma> s
      (bindL (next_label ''action.exit'') (\<lambda>l.
           restoring_action_exit
             (bindL (modifyL (\<lambda>s. s\<lparr>ls_action_exit_label := Some l\<rparr>)) (\<lambda>_.
              bindL (lower_until is_phase_exit (ac_statements a)) (\<lambda>terminated.
              bindL (if terminated then retL () else branch l) (\<lambda>_.
                mark_label l)))))) n (run_statements ops n (ac_statements a))"
    by (rule stmt_label, rule stmt_acting)
      (use body in \<open>simp add: lower_until_core [OF core] branch_def mark_label_def\<close>)
  then show ?thesis
    unfolding lower_action_def
    by (intro stmt_get) (use K same_context(6) [of s K] in \<open>simp add: phase_context_def\<close>)
qed

lemma run_statements_append:
  "run_statements ops n (xs @ ys) \<rho> = then_run (run_statements ops n xs \<rho>) (run_statements ops n ys)"
proof (induction xs arbitrary: \<rho>)
  case Nil
  then show ?case by (simp add: then_run_def split: option.splits)
next
  case (Cons x xs)
  then show ?case by (auto simp: then_run_def split: option.splits if_splits)
qed

definition phase_statements :: "action list \<Rightarrow> stmt list" where
  "phase_statements actions = concat (map ac_statements actions)"

lemma actions_sim:
  assumes "ops_ok ops" "phase_context K" "list_all (core_action ops K) actions"
  shows "stmt_sim ops K \<sigma> s (each_low lower_action actions) n (run_statements ops n (phase_statements actions))"
  using assms(3)
proof (induction actions arbitrary: s)
  case Nil
  have "stmt_sim ops K \<sigma> s (retL ()) n (\<lambda>\<rho>. Some (Done, \<rho>, []))"
    by (rule stmt_of_sim) (rule sim_ret, simp)
  moreover have "run_statements ops n (phase_statements []) = (\<lambda>\<rho>. Some (Done, \<rho>, []))"
    by (simp add: fun_eq_iff phase_statements_def)
  ultimately show ?case by simp
next
  case (Cons a as)
  have "run_statements ops n (phase_statements (a # as))
      = (\<lambda>\<rho>. then_run (run_statements ops n (ac_statements a) \<rho>) (run_statements ops n (phase_statements as)))"
    by (simp add: fun_eq_iff phase_statements_def run_statements_append)
  then show ?case
    using Cons by (auto intro!: stmt_bind action_sim [OF assms(1,2)])
qed

section \<open>Record items\<close>

text \<open>A record item with a condition is a conditional statement.\<close>

definition item_statement :: "normalized_record_item \<Rightarrow> stmt" where
  "item_statement item =
     (let a = the (nr_action item); body = BlockStmt (ac_statements a) (ac_span a) in
      case nr_pattern item of
        Some (ExprPattern test sp) \<Rightarrow> IfStmt test body None sp
      | _ \<Rightarrow> body)"

definition core_item :: "'f float_ops \<Rightarrow> lowering_state \<Rightarrow> normalized_record_item \<Rightarrow> bool" where
  "core_item ops K item \<longleftrightarrow>
     (case nr_action item of None \<Rightarrow> False | Some a \<Rightarrow> core_action ops K a)
     \<and> (case nr_pattern item of None \<Rightarrow> True | Some (ExprPattern test _) \<Rightarrow> core ops K test | _ \<Rightarrow> False)"

lemma lower_record_pattern_core: "core ops K e \<Longrightarrow> lower_record_pattern lowering e = lw_condition lowering e"
  by (cases e) (simp_all add: lower_record_pattern_def)

lemma item_sim:
  assumes ops: "ops_ok ops" and K: "phase_context K" and item: "core_item ops K item"
  shows "stmt_sim ops K \<sigma> s (lower_runtime_record_item (nr_pattern item) (nr_action item) name) n
    (run_statement ops n (item_statement item))"
proof -
  obtain a where a: "nr_action item = Some a" "core_action ops K a"
    using item by (auto simp: core_item_def split: option.splits)
  let ?F = "run_statements ops n (ac_statements a)"
  note action = action_sim [OF ops K a(2)]
  show ?thesis
  proof (cases "nr_pattern item")
    case None
    have "run_statement ops n (item_statement item) = ?F"
      by (simp add: item_statement_def a(1) None fun_eq_iff)
    then show ?thesis
      using action by (simp add: lower_runtime_record_item_def lower_runtime_action_or_default_def None a(1))
  next
    case (Some pat)
    then obtain e sp where e: "nr_pattern item = Some (ExprPattern e sp)" "core ops K e"
      using item by (auto simp: core_item_def split: option.splits pattern.splits)
    have run: "run_statement ops n (item_statement item) = (\<lambda>\<rho>. let (b, \<rho>1) = test_value ops e \<rho> in
        if b then ?F \<rho>1 else Some (Done, \<rho>1, []))"
      by (simp add: item_statement_def a(1) e(1) fun_eq_iff split_beta Let_def)
    have labels_after: "sim ops K \<sigma> False s [] \<rho> (lw_condition lowering e)
        (\<lambda>v. [(v, Holds (Bit (fst (test_value ops e \<rho>))))]) (snd (test_value ops e \<rho>)) []" for s \<rho>
      using test_sim [OF K ops e(2)] .
    have "stmt_sim ops K \<sigma> s
       (bindL (lw_condition lowering e) (\<lambda>v. bindL (next_label ''record.match'') (\<lambda>l1. bindL (next_label ''record.next'') (\<lambda>l2.
          bindL (emit (CondBr v l1 l2)) (\<lambda>_. bindL (emit (Lab l1)) (\<lambda>_. bindL (lower_action a) (\<lambda>_.
          bindL (emit (Br l2)) (\<lambda>_. emit (Lab l2))))))))) n
       (\<lambda>\<rho>. let (b, \<rho>1) = test_value ops e \<rho> in if b then ?F \<rho>1 else Some (Done, \<rho>1, []))"
      by (rule stmt_if_late [OF labels_after action])
    then show ?thesis
      unfolding run
      by (simp add: lower_runtime_record_item_def lower_runtime_action_or_default_def e(1) a(1)
          lower_record_pattern_core [OF e(2)] cond_branch_def mark_label_def branch_def)
  qed
qed

section \<open>The entry block\<close>

lemma run_allocas:
  assumes "P = pre @ map alloca_line ts @ rest" "ms_pc c = length pre" "distinct ts"
  shows "\<exists>c'. reaches ops P c c' \<and> ms_pc c' = length (pre @ map alloca_line ts) \<and> ms_mem c' = ms_mem c
    \<and> ms_trace c' = ms_trace c \<and> (\<forall>t\<in>set ts. ms_regs c' t = Some (Addr (Cell t)))
    \<and> (\<forall>a. a \<notin> set ts \<longrightarrow> ms_regs c' a = ms_regs c a)"
  using assms
proof (induction ts arbitrary: pre c)
  case Nil
  then show ?case by (intro exI [of _ c]) simp
next
  case (Cons t ts)
  let ?c = "c\<lparr>ms_pc := Suc (ms_pc c), ms_regs := (ms_regs c)(t \<mapsto> Addr (Cell t))\<rparr>"
  have "step ops P c = Some ?c"
    using Cons.prems(1,2)
    by (simp add: step_def alloca_line_def define_register_def rhs_value_def operand_values_def)
  then have first: "reaches ops P c ?c" by (rule reaches_one)
  obtain c' where c': "reaches ops P ?c c'" "ms_pc c' = length ((pre @ [alloca_line t]) @ map alloca_line ts)"
    "ms_mem c' = ms_mem c" "ms_trace c' = ms_trace c" "\<forall>t\<in>set ts. ms_regs c' t = Some (Addr (Cell t))"
    "\<forall>a. a \<notin> set ts \<longrightarrow> ms_regs c' a = ((ms_regs c)(t \<mapsto> Addr (Cell t))) a"
    using Cons.IH [of "pre @ [alloca_line t]" ?c] Cons.prems by auto
  show ?case
    using reaches_trans [OF first c'(1)] c' Cons.prems(3) by (intro exI [of _ c']) auto
qed

lemma run_clears:
  assumes ops: "ops_ok ops"
    and "P = pre @ map clear_line ts @ rest" "ms_pc c = length pre"
    and "\<And>t. t \<in> set ts \<Longrightarrow> is_register t \<and> ms_regs c t = Some (Addr (Cell t))"
  shows "\<exists>c'. reaches ops P c c' \<and> ms_pc c' = length (pre @ map clear_line ts) \<and> ms_regs c' = ms_regs c
    \<and> ms_trace c' = ms_trace c \<and> (\<forall>t\<in>set ts. ms_mem c' (Cell t) = Some (zero_of ops))
    \<and> (\<forall>l. l \<notin> Cell ` set ts \<longrightarrow> ms_mem c' l = ms_mem c l)"
  using assms(2-4)
proof (induction ts arbitrary: pre c)
  case Nil
  then show ?case by (intro exI [of _ c]) simp
next
  case (Cons t ts)
  let ?c = "c\<lparr>ms_pc := Suc (ms_pc c), ms_mem := (ms_mem c)(Cell t \<mapsto> zero_of ops)\<rparr>"
  have "operand_value ops (ms_regs c) t = Some (Addr (Cell t))"
    using Cons.prems(3) [of t] by (simp add: operand_value_def)
  then have "step ops P c = Some ?c"
    using Cons.prems(1,2) constant_operands(1) [OF ops]
    by (simp add: step_def clear_line_def pieces_simps perform_def)
  then have first: "reaches ops P c ?c" by (rule reaches_one)
  obtain c' where c': "reaches ops P ?c c'" "ms_pc c' = length ((pre @ [clear_line t]) @ map clear_line ts)"
    "ms_regs c' = ms_regs c" "ms_trace c' = ms_trace c" "\<forall>t\<in>set ts. ms_mem c' (Cell t) = Some (zero_of ops)"
    "\<forall>l. l \<notin> Cell ` set ts \<longrightarrow> ms_mem c' l = ((ms_mem c)(Cell t \<mapsto> zero_of ops)) l"
    using Cons.IH [of "pre @ [clear_line t]" ?c] Cons.prems by auto
  have "ms_mem c' (Cell u) = Some (zero_of ops)" if "u \<in> set (t # ts)" for u
    using that c'(5,6) by (cases "u \<in> set ts") auto
  moreover have "ms_mem c' l = ms_mem c l" if "l \<notin> Cell ` set (t # ts)" for l
    using that c'(6) by auto
  ultimately show ?case
    using reaches_trans [OF first c'(1)] c'(2-4) by (intro exI [of _ c']) auto
qed

section \<open>Whole phases\<close>

text \<open>The fields of the state record hold the variables of the program.\<close>

definition state_holds :: "lowering_state \<Rightarrow> 'f machine \<Rightarrow> 'f env \<Rightarrow> bool" where
  "state_holds K c \<rho> \<longleftrightarrow>
     (\<forall>x. core_name K x \<longrightarrow> \<not> is_local K x \<longrightarrow>
        ms_mem c (Field (int_to_string (the (map_of (ls_variable_indexes K) x)))) = Some (\<rho> x))"

definition at_phase_entry :: "lowering_state \<Rightarrow> 'f machine \<Rightarrow> 'f env \<Rightarrow> bool" where
  "at_phase_entry K c \<rho> \<longleftrightarrow>
     ms_pc c = 0 \<and> ms_regs c ''%rt'' = Some (Addr Runtime) \<and> ms_regs c ''%state'' = Some (Addr State)
     \<and> state_holds K c \<rho>"

text \<open>The variables at the start of a phase: those of its frame are zero.\<close>

definition phase_env :: "'f float_ops \<Rightarrow> lowering_state \<Rightarrow> 'f env \<Rightarrow> 'f env" where
  "phase_env ops K \<rho> = (\<lambda>x. if is_local K x then zero_of ops else \<rho> x)"

lemma nat_to_string_digits: "nat_to_string n = c # cs \<Longrightarrow> is_ascii_digit c"
  using set_nat_to_string [of c n] by auto

lemma int_to_string_inject [simp]: "int_to_string i = int_to_string j \<longleftrightarrow> i = j"
proof -
  have minus: "CHR ''-'' # x \<noteq> nat_to_string n" for x n
    using nat_to_string_digits [of n "CHR ''-''" x] by (auto simp: is_ascii_digit_def)
  then have "nat_to_string n \<noteq> CHR ''-'' # x" for x n by metis
  with minus show ?thesis by (auto simp: int_to_string_def)
qed

lemma places_differ:
  assumes "distinct (map snd (ls_variable_indexes K))" "slots_ok K \<sigma>"
  shows "inj_on (place K \<sigma>) {x. placed K \<sigma> x}"
proof (rule inj_onI)
  fix x y assume xy: "x \<in> {x. placed K \<sigma> x}" "y \<in> {x. placed K \<sigma> x}" "place K \<sigma> x = place K \<sigma> y"
  show "x = y"
  proof (cases "is_local K x")
    case True
    then have "is_local K y" using xy(3) by (auto simp: place_def split: if_splits)
    then obtain t where "\<sigma> x = Some t" "\<sigma> y = Some t"
      using xy True by (auto simp: place_def placed_def)
    then obtain m n where "t = slot_name x m" "t = slot_name y n"
      using assms(2) unfolding slots_ok_def by blast
    then show ?thesis by (simp add: slot_name_def)
  next
    case False
    then have "\<not> is_local K y" using xy(3) by (auto simp: place_def split: if_splits)
    then have same: "map_of (ls_variable_indexes K) x = map_of (ls_variable_indexes K) y"
      using xy False by (auto simp: place_def placed_def core_name_def)
    obtain i where i: "map_of (ls_variable_indexes K) x = Some i"
      using xy(1) by (auto simp: placed_def core_name_def)
    then have "(x, i) \<in> set (ls_variable_indexes K)" "(y, i) \<in> set (ls_variable_indexes K)"
      using same by (auto dest: map_of_SomeD)
    then show ?thesis using assms(1) by (fastforce simp: distinct_map inj_on_def)
  qed
qed

end
