(* ===== verification/Compiled_Core.thy ===== *)
theory Compiled_Core
  imports Phase_Code Normalization_Shape
begin

text \<open>
  Correctness of the backend on the numeric core: the emitted lines, run by the machine, do what the
  interpreter does.
\<close>

section \<open>Phases\<close>

lemma phase_run:
  fixes ops :: "'f float_ops"
  assumes ops: "ops_ok ops" and K: "phase_context K" and idx: "distinct (map snd (ls_variable_indexes K))"
    and ctx: "context_of s = context_of K" and slots: "slots_recorded s"
    and named: "well_named [''%rt'', ''%state''] (phase_lines s)" and exit: "ls_phase_exit_label s = Some l"
    and code: "ls_instructions s = code" "run_passes ops K (ls_variable_slots s) code n F"
    and labels: "ls_break_label K = None" "ls_continue_label K = None"
    and c: "at_phase_entry K c \<rho>"
  shows "case F (phase_env ops K \<rho>) of
      None \<Rightarrow> runs_on ops (phase_lines s) n c
    | Some (r, \<rho>', out) \<Rightarrow>
        \<exists>c'. reaches ops (phase_lines s) c c' \<and> ms_pc c' = length (phase_lines s)
             \<and> ms_trace c' = ms_trace c @ map event_of out \<and> state_holds K c' \<rho>'"
proof -
  let ?\<sigma> = "ls_variable_slots s" and ?P = "phase_lines s" and ?\<rho> = "phase_env ops K \<rho>"
  obtain ts where ts: "ls_allocas s = map alloca_line ts" "ls_entry_instructions s = map clear_line ts"
    "set ts = ran ?\<sigma>" and ok: "slots_ok s ?\<sigma>"
    using slots unfolding slots_recorded_def by blast
  have okK: "slots_ok K ?\<sigma>"
    using ok same_context(2) [OF ctx] by (simp add: slots_ok_def)
  have P: "?P = map alloca_line ts @ map clear_line ts @ code @ [Br l, Lab l]"
    by (simp add: phase_lines_def exit body_lines_def ts code)
  have names: "defined_names (map alloca_line ts) = ts" for ts
    by (induction ts) (simp_all add: alloca_line_def)
  have dist: "distinct (defined_names ?P)" "distinct (defined_labels ?P)"
    "''%rt'' \<notin> set (defined_names ?P)" "''%state'' \<notin> set (defined_names ?P)"
    using named by (auto simp: well_named_def)
  then have ts': "distinct ts" "''%rt'' \<notin> set ts" "''%state'' \<notin> set ts" by (auto simp: P names)
  have regs: "is_register t" if "t \<in> set ts" for t
    using that ts(3) slots_okD [OF ok] by (auto simp: ran_def)
  have entry: "ms_pc c = length []" "ms_regs c ''%rt'' = Some (Addr Runtime)" "ms_regs c ''%state'' = Some (Addr State)"
    "state_holds K c \<rho>"
    using c by (simp_all add: at_phase_entry_def)
  obtain c1 where c1: "reaches ops ?P c c1" "ms_pc c1 = length (map alloca_line ts)" "ms_mem c1 = ms_mem c"
    "ms_trace c1 = ms_trace c" "\<forall>t\<in>set ts. ms_regs c1 t = Some (Addr (Cell t))"
    "\<forall>a. a \<notin> set ts \<longrightarrow> ms_regs c1 a = ms_regs c a"
    using run_allocas [OF _ entry(1) ts'(1), of ?P "map clear_line ts @ code @ [Br l, Lab l]" ops] P by auto
  obtain c2 where c2: "reaches ops ?P c1 c2" "ms_pc c2 = length (map alloca_line ts @ map clear_line ts)"
    "ms_regs c2 = ms_regs c1" "ms_trace c2 = ms_trace c1" "\<forall>t\<in>set ts. ms_mem c2 (Cell t) = Some (zero_of ops)"
    "\<forall>l. l \<notin> Cell ` set ts \<longrightarrow> ms_mem c2 l = ms_mem c1 l"
    using run_clears [OF ops P c1(2)] c1(5) regs by blast
  let ?before = "map alloca_line ts @ map clear_line ts"
  have ready: "ready K ?\<sigma> c2 ?\<rho>"
    unfolding ready_def
  proof (intro conjI allI impI ballI)
    show "ms_regs c2 ''%rt'' = Some (Addr Runtime)" "ms_regs c2 ''%state'' = Some (Addr State)"
      using c2(3) c1(6) ts'(2,3) entry(2,3) by simp_all
    show "ms_regs c2 t = Some (Addr (Cell t))" if "t \<in> ran ?\<sigma>" for t
      using that c2(3) c1(5) ts(3) by simp
    show "ms_mem c2 (place K ?\<sigma> x) = Some (?\<rho> x)" if x: "placed K ?\<sigma> x" for x
    proof (cases "is_local K x")
      case True
      then obtain t where "?\<sigma> x = Some t" using x by (auto simp: placed_def)
      then show ?thesis using True c2(5) ts(3) by (auto simp: place_def phase_env_def intro: ranI)
    next
      case False
      then have "ms_mem c2 (place K ?\<sigma> x) = ms_mem c (place K ?\<sigma> x)"
        using c2(6) c1(3) by (auto simp: place_def)
      then show ?thesis
        using False x entry(4) by (simp add: place_def phase_env_def state_holds_def placed_def)
    qed
  qed
  have lay: "layout K ?\<sigma> ?P ?before"
    using dist okK places_differ [OF idx okK] by (simp add: layout_def P names ts(3))
  let ?u = "?before @ code @ [Br l]"
  have run: "arrives ops K ?\<sigma> ?P c2 (Suc (length ?u)) n (F ?\<rho>)"
    by (rule part_run [OF lay _ _ code(2), where r = "[]" and w = "[Lab l]" and w' = "[]" and l = l])
      (use P c2(2) ready labels in \<open>simp_all add: labels_there_def\<close>)
  have reach: "reaches ops ?P c c2" by (rule reaches_trans [OF c1(1) c2(1)])
  show ?thesis
  proof (cases "F ?\<rho>")
    case None
    then show ?thesis using run runs_on_reaches [OF reach] by (simp add: arrives_def)
  next
    case (Some x)
    obtain r \<rho>' out where x: "x = (r, \<rho>', out)" by (cases x)
    obtain c3 where c3: "reaches ops ?P c2 c3" "ready K ?\<sigma> c3 \<rho>'" "ms_trace c3 = ms_trace c2 @ map event_of out"
      "left_at K ?P (Suc (length ?u)) r c3"
      using arrivesE [OF run [unfolded Some x]] .
    have "ms_pc c3 = length ?P" using c3(4) labels by (cases r) (simp_all add: P entered_def)
    moreover have "state_holds K c3 \<rho>'"
      using c3(2) by (auto simp: state_holds_def ready_def placed_def place_def)
    ultimately show ?thesis
      using reaches_trans [OF reach c3(1)] c3(3) c2(4) c1(4) by (auto simp: Some x)
  qed
qed

text \<open>Code with the meaning of the statements \<open>sts\<close>: from its entry the machine comes to the end of the
  function with the output and the variables of the interpreter, and when the interpreter has not ended
  within its bound the machine is not stuck before it has made as many steps.\<close>

definition implements :: "'f float_ops \<Rightarrow> lowering_state \<Rightarrow> line list \<Rightarrow> stmt list \<Rightarrow> bool" where
  "implements ops K P sts \<longleftrightarrow>
     (\<forall>c \<rho> n. at_phase_entry K c \<rho> \<longrightarrow>
        (case run_statements ops n sts (phase_env ops K \<rho>) of
           None \<Rightarrow> runs_on ops P n c
         | Some (_, \<rho>', out) \<Rightarrow>
             \<exists>c'. reaches ops P c c' \<and> ms_pc c' = length P
                  \<and> ms_trace c' = ms_trace c @ map event_of out \<and> state_holds K c' \<rho>'))"

lemma phase_correct:
  fixes ops :: "'f float_ops"
  assumes ops: "ops_ok ops" and idx: "distinct (map snd (mc_variable_indexes mc))"
    and lawful: "\<And>A L. lawful names_once backend_error A L m" "\<And>A L. lawful keeps_context backend_error A L m"
      "\<And>A L. lawful constants_in_order backend_error A L m"
    and sim: "\<And>K \<sigma> n. phase_context K \<Longrightarrow> unlabelled K = unlabelled (phase_state mc k names) \<Longrightarrow>
      stmt_sim ops K \<sigma> K m n (run_statements ops n sts)"
  obtains s where "run_low (with_phase_exit m) (phase_state mc k names) = Inr s"
    "implements ops (phase_state mc k names) (phase_lines s) sts"
proof -
  let ?K = "phase_state mc k names" and ?l = "label_name ''phase.exit'' 0"
  let ?F = "\<lambda>n. run_statements ops n sts"
  define t where "t = ?K\<lparr>ls_label_index := 1, ls_phase_exit_label := Some ?l\<rparr>"
  have t: "unlabelled t = unlabelled ?K" by (simp add: t_def unlabelled_def)
  note same = same_labelling [OF t]
  have fields: "ls_variable_indexes t = mc_variable_indexes mc" "ls_variable_indexes ?K = mc_variable_indexes mc"
    "ls_variable_slots t = Map.empty" "ls_allocas t = []" "ls_entry_instructions t = []" "ls_instructions t = []"
    "ls_phase_exit_label t = Some ?l" "ls_break_label t = None" "ls_continue_label t = None"
    by (simp_all add: t_def phase_state_def module_state_def initial_state_def)
  have K: "phase_context t" by (simp add: phase_context_def t_def phase_state_def module_state_def)
  have holds: "at_phase_entry t = (at_phase_entry ?K :: 'f machine \<Rightarrow> _)" "state_holds t = (state_holds ?K :: 'f machine \<Rightarrow> _)"
    "phase_env ops t = phase_env ops ?K"
    by (simp_all add: fun_eq_iff at_phase_entry_def state_holds_def phase_env_def same fields(1,2))
  have "run_low (with_phase_exit m) ?K = run_low m t"
    by (simp add: with_phase_exit_def run_low_def bindL_def next_label_def modifyL_def t_def phase_state_def
        module_state_def initial_state_def)
  moreover obtain s code where s: "m t = (Inr (), s)" "extends t code s"
    using stmt_simE [OF sim [OF K t] refl] by metis
  ultimately have run: "run_low (with_phase_exit m) ?K = Inr s" by (simp add: run_low_def)
  have named: "well_named [''%rt'', ''%state''] (phase_lines s)"
    using with_phase_exit_run [OF lawful, of k mc names] run by (simp add: phase_ok_def)
  have ctx: "context_of s = context_of t" using extends_context [OF s(2)] .
  have slots: "slots_recorded s"
    using s(2) by (simp add: extends_def slots_recorded_def [of t] fields slots_ok_def)
  have exit: "ls_phase_exit_label s = Some ?l" using ctx fields(7) by (simp add: context_of_eq)
  have code: "ls_instructions s = code" using s(2) by (simp add: extends_def fields)
  have "run_passes ops t (ls_variable_slots s) code n (?F n)" for n
  proof -
    obtain s' code' where s': "m t = (Inr (), s')" "extends t code' s'"
      "ls_variable_slots s' \<subseteq>\<^sub>m ls_variable_slots s \<Longrightarrow> run_passes ops t (ls_variable_slots s) code' n (?F n)"
      by (rule stmt_simE [OF sim [OF K t, of "ls_variable_slots s" n] refl]) (rule that; assumption)
    then show ?thesis using s by (simp add: extends_def)
  qed
  from phase_run [OF ops K _ ctx slots named exit code this fields(8,9), unfolded holds fields(1), OF idx]
  have "implements ops ?K (phase_lines s) sts"
    unfolding implements_def by blast
  then show ?thesis using that run by blast
qed

definition core_phase :: "'f float_ops \<Rightarrow> lowering_state \<Rightarrow> action list \<Rightarrow> bool" where
  "core_phase ops K actions \<longleftrightarrow> list_all (core_action ops K) actions"

definition record_statements :: "normalized_record_item list \<Rightarrow> stmt list" where
  "record_statements items = map item_statement items"

lemma items_sim:
  assumes "ops_ok ops" "phase_context K" "list_all (core_item ops K) items"
  shows "stmt_sim ops K \<sigma> s (lower_record_items items) n (run_statements ops n (record_statements items))"
  using assms(3)
proof (induction items arbitrary: s)
  case Nil
  have "stmt_sim ops K \<sigma> s (retL ()) n (\<lambda>\<rho>. Some (Done, \<rho>, []))"
    by (rule stmt_of_sim) (rule sim_ret, simp)
  moreover have "run_statements ops n (record_statements []) = (\<lambda>\<rho>. Some (Done, \<rho>, []))"
    by (simp add: fun_eq_iff record_statements_def)
  ultimately show ?case by (simp add: lower_record_items_def)
next
  case (Cons item items)
  have "run_statements ops n (record_statements (item # items)) = (\<lambda>\<rho>. then_run
      (run_statement ops n (item_statement item) \<rho>) (run_statements ops n (record_statements items)))"
    by (simp add: fun_eq_iff record_statements_def)
  then show ?case
    using Cons by (auto simp: lower_record_items_def intro!: stmt_bind item_sim [OF assms(1,2)])
qed

definition core_items :: "'f float_ops \<Rightarrow> lowering_state \<Rightarrow> normalized_record_item list \<Rightarrow> bool" where
  "core_items ops K items \<longleftrightarrow> list_all (core_item ops K) items"

lemma core_same:
  assumes "unlabelled K' = unlabelled K"
  shows "core_phase ops K' actions = core_phase ops K actions" "core_items ops K' items = core_items ops K items"
proof -
  have action: "core_action ops K' = core_action ops K"
    by (simp add: fun_eq_iff core_action_def list_all_iff same_labelling(4) [OF assms])
  have "core_item ops K' item = core_item ops K item" for item
    unfolding core_item_def action
    by (cases "nr_pattern item"; cases "the (nr_pattern item)") (simp_all add: same_labelling(1) [OF assms])
  then have "core_item ops K' = core_item ops K" by blast
  then show "core_phase ops K' actions = core_phase ops K actions" "core_items ops K' items = core_items ops K items"
    by (simp_all add: core_phase_def core_items_def action)
qed

lemma phase_view: "unlabelled (phase_state mc k names) = unlabelled (phase_state mc j names)"
  by (simp add: unlabelled_def phase_state_def module_state_def initial_state_def)

lemma implements_view: "implements ops (phase_state mc k names) = implements ops (phase_state mc j names)"
proof -
  note same = same_labelling [OF phase_view [of mc k names j]]
  have "ls_variable_indexes (phase_state mc k names) = ls_variable_indexes (phase_state mc j names)"
    by (simp add: phase_state_def module_state_def)
  then show ?thesis
    by (simp add: fun_eq_iff implements_def at_phase_entry_def state_holds_def phase_env_def same cong: option.case_cong)
qed

lemma normalized_indexes_distinct:
  "normalize_program_for_lowering prog = Inr np \<Longrightarrow> distinct (map snd (np_variable_indexes np))"
  by (simp add: normalized_fields(6) distinct_map)

text \<open>C1: The backend is correct on the numeric core.  For a normalized program whose three phases consist of
  assignments, increments, arithmetic, comparisons, logical operators, conditional expressions, \<open>print\<close>,
  \<open>if\<close>, \<open>while\<close>, \<open>do\<close>, \<open>for\<close>, \<open>break\<close> and \<open>continue\<close> on numbers, and of records selected by conditions on
  numbers, all three phases are lowered, and the function of each does, run from its entry, what the
  interpreter does with the phase: the same output, the same variables, and no end where it has none.\<close>

theorem phases_implement_program:
  assumes "ops_ok ops" and "normalize_program_for_lowering prog = Inr np"
    and "core_phase ops (phase_state (module_context_of prog np types) 0 (begin_local_numeric_names residency))
           (np_begin_actions np)"
    and "core_items ops (phase_state (module_context_of prog np types) 0 (record_local_numeric_names residency))
           (np_record_items np)"
    and "core_phase ops (phase_state (module_context_of prog np types) 0 (end_local_numeric_names residency))
           (np_end_actions np)"
  shows "\<exists>b r e. lower_phases (module_context_of prog np types) np residency k = Inr (b, r, e)
    \<and> implements ops (phase_state (module_context_of prog np types) 0 (begin_local_numeric_names residency))
        (phase_lines b) (phase_statements (np_begin_actions np))
    \<and> implements ops (phase_state (module_context_of prog np types) 0 (record_local_numeric_names residency))
        (phase_lines r) (record_statements (np_record_items np))
    \<and> implements ops (phase_state (module_context_of prog np types) 0 (end_local_numeric_names residency))
        (phase_lines e) (phase_statements (np_end_actions np))"
proof -
  let ?mc = "module_context_of prog np types"
  have idx: "distinct (map snd (mc_variable_indexes ?mc))"
    using normalized_indexes_distinct [OF assms(2)] by (simp add: module_context_of_def)
  have actions: "\<exists>s. run_low (with_phase_exit (each_low lower_action as)) (phase_state ?mc j names) = Inr s
      \<and> implements ops (phase_state ?mc 0 names) (phase_lines s) (phase_statements as)"
    if core: "core_phase ops (phase_state ?mc 0 names) as" for j names as
  proof -
    have "stmt_sim ops K \<sigma> K (each_low lower_action as) n (run_statements ops n (phase_statements as))"
      if "phase_context K" "unlabelled K = unlabelled (phase_state ?mc j names)" for K \<sigma> n
      using that(1) core core_same(1) [OF that(2), of ops as]
        core_same(1) [OF phase_view [of ?mc j names 0], of ops as]
      by (intro actions_sim [OF assms(1)]) (simp_all add: core_phase_def)
    from phase_correct [OF assms(1) idx phase_computations(1-3) this]
    show ?thesis using implements_view [of ops ?mc j names 0] by metis
  qed
  have items: "\<exists>s. run_low (with_phase_exit (lower_record_items (np_record_items np))) (phase_state ?mc j names) = Inr s
      \<and> implements ops (phase_state ?mc 0 names) (phase_lines s) (record_statements (np_record_items np))"
    if core: "core_items ops (phase_state ?mc 0 names) (np_record_items np)" for j names
  proof -
    have "stmt_sim ops K \<sigma> K (lower_record_items (np_record_items np)) n
        (run_statements ops n (record_statements (np_record_items np)))"
      if "phase_context K" "unlabelled K = unlabelled (phase_state ?mc j names)" for K \<sigma> n
      using that(1) core core_same(2) [OF that(2), of ops "np_record_items np"]
        core_same(2) [OF phase_view [of ?mc j names 0], of ops "np_record_items np"]
      by (intro items_sim [OF assms(1)]) (simp_all add: core_items_def)
    from phase_correct [OF assms(1) idx phase_computations(4-6) this]
    show ?thesis using implements_view [of ops ?mc j names 0] by metis
  qed
  obtain b where b: "run_low (with_phase_exit (each_low lower_action (np_begin_actions np)))
      (phase_state ?mc k (begin_local_numeric_names residency)) = Inr b"
    "implements ops (phase_state ?mc 0 (begin_local_numeric_names residency)) (phase_lines b)
      (phase_statements (np_begin_actions np))"
    using actions [OF assms(3)] by blast
  obtain r where r: "run_low (with_phase_exit (lower_record_items (np_record_items np)))
      (phase_state ?mc (ls_string_index b) (record_local_numeric_names residency)) = Inr r"
    "implements ops (phase_state ?mc 0 (record_local_numeric_names residency)) (phase_lines r)
      (record_statements (np_record_items np))"
    using items [OF assms(4)] by blast
  obtain e where e: "run_low (with_phase_exit (each_low lower_action (np_end_actions np)))
      (phase_state ?mc (ls_string_index r) (end_local_numeric_names residency)) = Inr e"
    "implements ops (phase_state ?mc 0 (end_local_numeric_names residency)) (phase_lines e)
      (phase_statements (np_end_actions np))"
    using actions [OF assms(5)] by blast
  have "lower_phases ?mc np residency k = Inr (b, r, e)"
    by (simp add: lower_phases_def names_for_phase_def b(1) r(1) e(1))
  then show ?thesis using b(2) r(2) e(2) by blast
qed

section \<open>Expressions\<close>

text \<open>C2: The code of a numeric expression is correct wherever it stands in a function.  The lowering succeeds
  and only appends lines; from the first of them the machine comes to the end of them with the value of
  the expression in the operand that the lowering returns, with the variables that the interpreter
  leaves, and without output.\<close>

theorem expression_code_correct:
  fixes ops :: "'f float_ops"
  assumes "phase_context s" "ops_ok ops" "core ops s e"
  shows "\<exists>v s' code. lw_numeric lowering e s = (Inr v, s') \<and> ls_instructions s' = ls_instructions s @ code
    \<and> (\<forall>\<sigma> before after c \<rho>. ls_variable_slots s' \<subseteq>\<^sub>m \<sigma> \<longrightarrow> layout s \<sigma> (before @ code @ after) before
        \<longrightarrow> ms_pc c = length before \<longrightarrow> ready s \<sigma> c \<rho> \<longrightarrow>
        (\<exists>c'. reaches ops (before @ code @ after) c c' \<and> ms_pc c' = length (before @ code)
              \<and> operand_value ops (ms_regs c') v = Some (Num (fst (eval ops e \<rho>)))
              \<and> ready s \<sigma> c' (snd (eval ops e \<rho>)) \<and> ms_trace c' = ms_trace c))"
proof -
  have sim: "sim ops s \<sigma> False s [] \<rho> (lw_numeric lowering e) (\<lambda>v. [(v, Holds (Num (fst (eval ops e \<rho>))))])
      (snd (eval ops e \<rho>)) []" for \<sigma> \<rho>
    using expression_sim [OF assms] by (simp add: numeric_simD)
  obtain v s' code where run: "lw_numeric lowering e s = (Inr v, s')" "extends s code s'"
    using simE [OF sim refl] by metis
  have passes: "passes ops s \<sigma> code [] \<rho> [(v, Holds (Num (fst (eval ops e \<rho>))))] (snd (eval ops e \<rho>)) []"
    if "ls_variable_slots s' \<subseteq>\<^sub>m \<sigma>" for \<sigma> \<rho>
  proof -
    obtain v2 s2 code2 where "lw_numeric lowering e s = (Inr v2, s2)" "extends s code2 s2"
      "ls_variable_slots s2 \<subseteq>\<^sub>m \<sigma> \<Longrightarrow>
        passes ops s \<sigma> code2 [] \<rho> [(v2, Holds (Num (fst (eval ops e \<rho>))))] (snd (eval ops e \<rho>)) []"
      using simE [OF sim [of \<sigma> \<rho>] refl] by metis
    then show ?thesis using run that by (simp add: extends_def)
  qed
  show ?thesis
  proof (intro exI [of _ v] exI [of _ s'] exI [of _ code] conjI allI impI)
    show "lw_numeric lowering e s = (Inr v, s')" "ls_instructions s' = ls_instructions s @ code"
      using run by (simp_all add: extends_def)
    fix \<sigma> before after \<rho> and c :: "'f machine"
    assume a: "ls_variable_slots s' \<subseteq>\<^sub>m \<sigma>" "layout s \<sigma> (before @ code @ after) before" "ms_pc c = length before"
      "ready s \<sigma> c \<rho>"
    obtain c' where "reaches ops (before @ code @ after) c c'" "ms_pc c' = length (before @ code)"
      "ready s \<sigma> c' (snd (eval ops e \<rho>))" "knows ops s \<sigma> c' [(v, Holds (Num (fst (eval ops e \<rho>))))]"
      "ms_trace c' = ms_trace c @ map event_of []"
      by (rule passesE [OF passes [OF a(1)] a(2-4) knows_simps(1) older_simps(1)])
    then show "\<exists>c'. reaches ops (before @ code @ after) c c' \<and> ms_pc c' = length (before @ code)
        \<and> operand_value ops (ms_regs c') v = Some (Num (fst (eval ops e \<rho>)))
        \<and> ready s \<sigma> c' (snd (eval ops e \<rho>)) \<and> ms_trace c' = ms_trace c"
      by (intro exI [of _ c']) simp
  qed
qed

section \<open>A program\<close>

text \<open>Numbers are integers, and the literals are \<open>0\<close>, \<open>1\<close> and \<open>10\<close>.\<close>

definition sample_literals :: "(string \<times> int) list" where
  "sample_literals = [(ZERO, 0), (ONE, 1), (''1.000000000000000e+01'', 10)]"

definition integer_ops :: "int float_ops" where
  "integer_ops =
     \<lparr>fo_add = (+), fo_sub = (-), fo_mul = (*), fo_div = (div), fo_pow = (\<lambda>x y. x ^ nat y), fo_trunc = (\<lambda>x. x),
      fo_less = (<), fo_less_equal = (\<le>), fo_equal = (=), fo_unequal = (\<noteq>), fo_of_bit = of_bool,
      fo_number = (\<lambda>v. the (map_of sample_literals (format_double_literal (False, v)))),
      fo_read = map_of sample_literals\<rparr>"

lemma integer_ops_ok: "ops_ok integer_ops"
  by (simp add: ops_ok_def constant_value_def integer_ops_def sample_literals_def zero_of_def one_of_def is_true_def ONE_def)

text \<open>\<open>BEGIN { x = 1; while (x < 10) x += x; print x }\<close>\<close>

definition doubling_action :: action where
  "doubling_action =
     (let x = NameExpr ''x'' inline_span; target = NameLValue ''x'' inline_span;
          one = NumericLiteralExpr (Double 1 0) ''1'' inline_span;
          ten = NumericLiteralExpr (Double 5 1) ''10'' inline_span in
      \<lparr>ac_statements =
         [AssignStmt target AssignPlain one inline_span,
          WhileStmt (BinaryExpr x OpLess ten inline_span) (AssignStmt target AssignAdd x inline_span) inline_span,
          PrintStmt [x] inline_span None],
       ac_span = inline_span\<rparr>)"

definition doubling_program :: program where
  "doubling_program =
     \<lparr>pr_items =
        [PatternAction \<lparr>pa_pattern = Some (BeginPattern inline_span), pa_action = Some doubling_action,
           pa_span = inline_span\<rparr>],
      pr_span = inline_span\<rparr>"

definition all_in_state :: local_scalar_residency where
  "all_in_state =
     \<lparr>begin_local_numeric_names = {}, record_local_numeric_names = {}, end_local_numeric_names = {},
      function_local_numeric_names = Map.empty, state_backed_numeric_names = {''x''}\<rparr>"

lemma doubling_lowerable:
  "case normalize_program_for_lowering doubling_program of
     Inl _ \<Rightarrow> False
   | Inr np \<Rightarrow> np_begin_actions np = [doubling_action] \<and> np_record_items np = [] \<and> np_end_actions np = []"
  by code_simp

lemma char_digits: "char_of (48 :: nat) = CHR ''0''" "char_of (49 :: nat) = CHR ''1''"
  by code_simp+

lemma sample_formats:
  "format_double_literal (False, Double 1 0) = ONE"
  "format_double_literal (False, Double 5 1) = ''1.000000000000000e+01''"
  by (simp_all add: format_double_literal_def ratio_of_def decimal_exponent_def sixteen_digits_def
      round_half_even_def render_scientific_def nat_to_string.simps Let_def char_digits ONE_def)

lemma sample_numbers [simp]:
  "fo_number integer_ops (Double 1 0) = 1" "fo_number integer_ops (Double 5 1) = 10"
  "exact_literal integer_ops (Double 1 0)" "exact_literal integer_ops (Double 5 1)"
  by (simp_all add: exact_literal_def Let_def integer_ops_def sample_literals_def sample_formats ONE_def
      is_register_def constant_value_def)

lemma sample_operations [simp]:
  "fo_add integer_ops = (+)" "fo_less integer_ops = (<)" "fo_of_bit integer_ops = of_bool"
  "is_true integer_ops x \<longleftrightarrow> x \<noteq> 0"
  by (simp_all add: integer_ops_def is_true_def zero_of_def)

lemma doubling_core:
  assumes "normalize_program_for_lowering doubling_program = Inr np"
  shows "core_phase integer_ops (phase_state (module_context_of doubling_program np [''x'' \<mapsto> TyNumeric]) 0 {})
    [doubling_action]"
proof -
  let ?K = "phase_state (module_context_of doubling_program np [''x'' \<mapsto> TyNumeric]) 0 {}"
  have "case normalize_program_for_lowering doubling_program of
      Inl _ \<Rightarrow> False
    | Inr np \<Rightarrow> runtime_name_slot_index ''x''
          (phase_state (module_context_of doubling_program np [''x'' \<mapsto> TyNumeric]) 0 {}) = Some 0
        \<and> map_of (np_variable_indexes np) ''x'' = Some 0"
    by code_simp
  then have "runtime_name_slot_index ''x'' ?K = Some 0" "map_of (np_variable_indexes np) ''x'' = Some 0"
    using assms by simp_all
  moreover have x: "ls_type_info ?K ''x'' = Some TyNumeric" "runtime_name_uses_scalar_runtime ''x'' ?K"
    by (simp_all add: runtime_name_uses_scalar_runtime_def phase_state_def module_state_def module_context_of_def
        initial_state_def is_state_name_def starts_with_def)
  ultimately have "core_name ?K ''x''"
    by (simp add: core_name_def runtime_name_uses_numeric_slot_state_def runtime_name_is_inferred_numeric_def
        phase_state_def module_state_def module_context_of_def)
  then show ?thesis
    using x by (simp add: core_phase_def core_action_def doubling_action_def Let_def is_arithmetic_op_def
        is_comparison_op_def runtime_name_is_inferred_numeric_def core_name_facts)
qed

lemma phases_implement_program_witness:
  "\<exists>np b r e. lower_phases (module_context_of doubling_program np [''x'' \<mapsto> TyNumeric]) np all_in_state 0 = Inr (b, r, e)
    \<and> implements integer_ops (phase_state (module_context_of doubling_program np [''x'' \<mapsto> TyNumeric]) 0 {})
        (phase_lines b) (ac_statements doubling_action)"
proof -
  obtain np where np: "normalize_program_for_lowering doubling_program = Inr np" "np_begin_actions np = [doubling_action]"
    "np_record_items np = []" "np_end_actions np = []"
    using doubling_lowerable by (auto split: sum.splits)
  have "\<exists>b r e. lower_phases (module_context_of doubling_program np [''x'' \<mapsto> TyNumeric]) np all_in_state 0 = Inr (b, r, e)
    \<and> implements integer_ops (phase_state (module_context_of doubling_program np [''x'' \<mapsto> TyNumeric]) 0
          (begin_local_numeric_names all_in_state))
        (phase_lines b) (phase_statements (np_begin_actions np))
    \<and> implements integer_ops (phase_state (module_context_of doubling_program np [''x'' \<mapsto> TyNumeric]) 0
          (record_local_numeric_names all_in_state))
        (phase_lines r) (record_statements (np_record_items np))
    \<and> implements integer_ops (phase_state (module_context_of doubling_program np [''x'' \<mapsto> TyNumeric]) 0
          (end_local_numeric_names all_in_state))
        (phase_lines e) (phase_statements (np_end_actions np))"
    by (rule phases_implement_program [OF integer_ops_ok np(1)])
      (use doubling_core [OF np(1)] in \<open>simp_all add: all_in_state_def np core_phase_def core_items_def\<close>)
  then show ?thesis by (auto simp: all_in_state_def np phase_statements_def)
qed

text \<open>\<open>x++ < 10 && x\<close> with \<open>x\<close> in the frame.\<close>

definition frame_state :: lowering_state where
  "frame_state = initial_state\<lparr>ls_runtime_param := Some ''%rt'', ls_state_param := Some ''%state'',
     ls_variable_indexes := [(''x'', 0)], ls_type_info := [''x'' \<mapsto> TyNumeric],
     ls_local_numeric_names := {''x''}\<rparr>"

definition sample_condition :: expr where
  "sample_condition =
     (let x = NameExpr ''x'' inline_span; ten = NumericLiteralExpr (Double 5 1) ''10'' inline_span in
      BinaryExpr (BinaryExpr (PostfixExpr x PostInc inline_span) OpLess ten inline_span) OpLogicalAnd x inline_span)"

lemma expression_code_correct_witness:
  "\<exists>v s' code. lw_numeric lowering sample_condition frame_state = (Inr v, s')
     \<and> ls_instructions s' = ls_instructions frame_state @ code
     \<and> (\<forall>\<sigma> before after c \<rho>. ls_variable_slots s' \<subseteq>\<^sub>m \<sigma> \<longrightarrow> layout frame_state \<sigma> (before @ code @ after) before
        \<longrightarrow> ms_pc c = length before \<longrightarrow> ready frame_state \<sigma> c \<rho> \<longrightarrow>
        (\<exists>c'. reaches integer_ops (before @ code @ after) c c' \<and> ms_pc c' = length (before @ code)
              \<and> operand_value integer_ops (ms_regs c') v = Some (Num (fst (eval integer_ops sample_condition \<rho>)))
              \<and> ready frame_state \<sigma> c' (snd (eval integer_ops sample_condition \<rho>)) \<and> ms_trace c' = ms_trace c))"
proof (rule expression_code_correct [OF _ integer_ops_ok])
  show "phase_context frame_state" by (simp add: phase_context_def frame_state_def)
  have x: "ls_type_info frame_state ''x'' = Some TyNumeric" "runtime_name_uses_scalar_runtime ''x'' frame_state"
    "runtime_name_slot_index ''x'' frame_state = Some 0"
    by (code_simp)+
  have "core_name frame_state ''x''"
    using x by (simp add: core_name_def runtime_name_uses_numeric_slot_state_def runtime_name_is_inferred_numeric_def)
      (simp add: frame_state_def)
  then show "core integer_ops frame_state sample_condition"
    using x by (simp add: sample_condition_def Let_def is_arithmetic_op_def is_comparison_op_def core_target_def
        runtime_name_is_inferred_numeric_def core_name_facts is_increment_operand_def)
qed

end
