(* ===== verification/Spec2Isabelle.thy ===== *)
theory Spec2Isabelle
  imports Source_Props Lexer_Roundtrip Parser_Props Semantics_Props
    Analysis_Errors Normalization_Shape Type_Inference_Props Residency_Units Driver Lowered_Program Ast_Format_Props Cli_Props
    Compiled_Core
begin

text \<open>
  \<^bold>\<open>A verification library for quawk\<close>, an ahead-of-time compiler for AWK written in Python.  Paths
  below are relative to \<^verbatim>\<open>src/quawk\<close> in the repository.

  \<^bold>\<open>The program.\<close>  A program text goes through a pipeline of pure passes:
  \<^item> \<^verbatim>\<open>source.py\<close> presents ordered source files as one logical character stream with positions;
  \<^item> \<^verbatim>\<open>lexer.py\<close> turns the stream into tokens, \<^verbatim>\<open>parser.py\<close> the tokens into the tree of \<^verbatim>\<open>ast.py\<close>;
  \<^item> \<^verbatim>\<open>semantics.py\<close> accepts or rejects the tree, with the errors of \<^verbatim>\<open>diagnostics.py\<close>;
  \<^item> \<^verbatim>\<open>normalization.py\<close> splits the rules into the phases \<open>BEGIN\<close>, record and \<open>END\<close> and numbers the
    variables, for which \<^verbatim>\<open>slot_allocation.py\<close> builds the slot table;
  \<^item> \<^verbatim>\<open>type_inference.py\<close> infers a value type for each variable, and
    \<^verbatim>\<open>local_scalar_residency.py\<close> decides which numeric variables can live in one lowered function;
  \<^item> \<^verbatim>\<open>backend/\<close> emits LLVM IR text, and \<^verbatim>\<open>jit.py\<close> and \<^verbatim>\<open>cli.py\<close> run it.

  \<^bold>\<open>The theories\<close>, in the order of the pipeline (the definitions keep the names of the source; a
  method of a class takes the object as an argument and returns it updated):
  \<^item> \<open>Prelude\<close>: results (\<open>error + 'a\<close>) and their bind, loops that may fail, numbers as strings.
  \<^item> \<open>Source\<close>, \<open>Char_Stream\<close>, \<open>Source_Lemmas\<close>, \<open>Source_Props\<close>: files with their line starts, points
    and spans, the cursor.  \<open>Char_Stream\<close> states the interface of a character stream as a locale; the
    cursor over the files interprets it.
  \<^item> \<open>Diagnostics\<close>: error codes and the exceptions, one datatype \<open>exn\<close> for the error classes of quawk
    and the built-in exceptions that the code can raise.
  \<^item> \<open>Tokens\<close>, \<open>Lexer\<close>: token kinds, tables and the scanner.  \<open>Lex_Spec\<close> is an independent grammar of the
    lexemes over the list of characters; \<open>Lexer_Refine\<close> and \<open>Lexer_Props\<close> show that the scanner
    implements it, \<open>Lexer_Roundtrip\<close> that rendering tokens and lexing them gives them back.
  \<^item> \<open>Py_Float\<close>, \<open>Ast\<close>, \<open>Builtins\<close>: number conversion, the tree, the tables of predefined names.
  \<^item> \<open>Parser\<close>: the recursive descent, method by method.  The methods that call each other in a cycle
    are tied by a depth bound; \<open>Parser_Total\<close> shows that a bound linear in the number of tokens is
    never reached, so the model raises the exhaustion error on no input.
  \<^item> \<open>Semantics\<close>, \<open>Semantics_Spec\<close>, \<open>Semantics_Props\<close>: the validators; the legality of every node of a
    tree as an independent predicate; runs of statements with the jumps that end them.  \<open>Analysis_Errors\<close>:
    the exceptions of the analysis on parsed programs.
  \<^item> \<open>Slot_Allocation\<close>, \<open>Normalization\<close>, \<open>Normalization_Props\<close>, \<open>Normalization_Shape\<close>: the slot table and
    the normalized program; the occurrences of names in a program as an independent list, and the part of
    a program that the visitors read.
  \<^item> \<open>Type_Inference\<close>, \<open>Type_Lattice\<close>, \<open>Type_Inference_Props\<close>: the value types form a bounded
    semilattice (an instance of the library's classes); the visitors share the contract of the locale
    \<open>type_visitor\<close>, interpreted for expressions, statements and loops.
  \<^item> \<open>Residency\<close>, \<open>Residency_Props\<close>: the definite-assignment analysis and the classification.  \<open>Runs\<close>,
    \<open>Residency_Sound\<close>, \<open>Residency_Units\<close>: runs as sequences of reads and writes, and the soundness of
    the analysis for them.

  \<^item> \<open>Ast_Format\<close>, \<open>Ast_Format_Props\<close>: the text that \<open>--parse\<close> prints, with \<open>repr\<close> of the numbers; it is
    read back as the outline of the tree.
  \<^item> \<open>Ir\<close>, \<open>Lowering_State\<close>, \<open>Runtime_Abi\<close>: the lines of the emitted LLVM IR with the values and labels
    they define (\<^verbatim>\<open>backend/ir_builder.py\<close>), the mutable state of one lowered function with computations
    that update it and may raise (\<^verbatim>\<open>backend/state.py\<close>), declarations, literals and string constants
    (\<^verbatim>\<open>backend/runtime_abi.py\<close>).
  \<^item> \<open>Lower_Names\<close>, \<open>Lower_Lvalue\<close>, \<open>Lower_Expr\<close>, \<open>Lower_Builtins\<close>, \<open>Lowering\<close>: \<^verbatim>\<open>lower_lvalue.py\<close>,
    \<^verbatim>\<open>lower_expr.py\<close> and \<^verbatim>\<open>lower_builtins.py\<close>.  The four functions that lower an expression (to a
    number, a string, a condition, a plain value) call each other: each function takes the record
    \<open>lowerers\<close> of the four, and \<open>lowering\<close> ties the knot.
  \<^item> \<open>Lower_Stmt\<close>, \<open>Lower_Program\<close>, \<open>Driver\<close>: statements, record items, user-defined functions, the three
    phases, the rendered module and the module that drives it.
  \<^item> \<open>Lowering_Contract\<close>, \<open>Lowering_Lawful\<close>, \<open>Statement_Contract\<close>: the locale \<open>lowering_contract\<close> of a
    relation on states that the builder methods keep; every lowering function keeps it.
    \<open>Lowering_Invariants\<close> interprets it by relations for unique names and labels, the numbering of constants
    and the context of a statement; \<open>Lowered_Program\<close> draws the consequences for modules.
  \<^item> \<open>Lowering_Depth\<close>: the recursion between the four functions is well founded.
  \<^item> \<open>Ir_Machine\<close>: a machine that runs the lines of the numeric part of the IR: arithmetic, comparisons,
    casts, selects, loads, stores, branches and phis on \<open>double\<close> and \<open>i1\<close>, calls of runtime functions
    as events.  The floating-point operations are the parameter \<open>float_ops\<close>; what the code relies on is
    \<open>ops_ok\<close>.  \<open>Core_Semantics\<close>: an interpreter for numeric programs and the predicates that delimit
    them (\<open>core\<close>, \<open>core_statement\<close>); both theories describe the meaning, not lines of the source.
  \<^item> \<open>Code_Simulation\<close>, \<open>Expression_Code\<close>, \<open>Branch_Code\<close>, \<open>Expression_Correct\<close>, \<open>Expression_Views\<close>: the
    judgement \<open>sim\<close> that emitted lines simulate the interpreter wherever they stand, with one rule per
    builder method, and the four views of an expression.  \<open>Statement_Code\<close>, \<open>Statement_Parts\<close>,
    \<open>Statement_Loops\<close>, \<open>Statement_Correct\<close>: the judgement \<open>stmt_sim\<close>, with jumps out of loops and runs that
    do not end.  \<open>Phase_Code\<close>, \<open>Compiled_Core\<close>: the functions of the phases.
  \<^item> \<open>Effects\<close>, \<open>Tools\<close>, \<open>Cli\<close>: the operating system as a record of operations on an arbitrary state,
    each of which may raise; \<^verbatim>\<open>runtime_support.py\<close>, \<^verbatim>\<open>backend/tools.py\<close>, \<^verbatim>\<open>jit.py\<close> and
    \<^verbatim>\<open>cli.py\<close> as computations over it.  \<open>Io_Contract\<close> has the judgement about their exceptions and the
    states around them, \<open>Pass_Errors\<close> the exceptions of the pure passes, \<open>Cli_Props\<close> the command.

  \<^bold>\<open>What is shown.\<close>
  \<^item> Source: the cursor reads the logical text, and a point resolves to the line and column that hold
    its character, for every offset.
  \<^item> Lexer: its tokens and its errors are those of the grammar, spans are ordered and disjoint, and
    every renderable token sequence is read back.
  \<^item> Parser: for every source the front end ends with a program for the whole token stream or with
    one of the listed exceptions; the empty program is the one that ends in an \<open>IndexError\<close>.
  \<^item> Semantic analysis: it accepts exactly the programs that are legal outside the patterns of rules
    without an action, which it does not check; on parsed programs it raises only semantic errors and the
    overflow of a huge field number; and no run of an accepted program leaves an action or a body by a jump
    that nothing catches.
  \<^item> Normalization and slots: no rule is lost or duplicated, indexes number the first occurrences outside
    the operands of \<open>exit\<close> and the patterns of rules without an action, whose names get no slot of their
    own, the slot table is dense, and the only errors are those of rules the backend does not support.
  \<^item> Type inference: \<open>join\<close> is the least upper bound, visits are inflationary and report changes
    exactly, and a loop converges within the bound of eight rounds when it assigns at most three names.
  \<^item> Residency: the classification is a partition of the tracked names; in programs without a few
    named constructs a local name is assigned before it is read in every run of its function, and no
    other function mentions it.
  \<^item> Backend: the functions of a module define every value and label once, constants are numbered
    without a gap, a statement leaves the context as it found it also when it raises, the equations of
    the lowering of expressions have exactly one solution, and only the listed exceptions occur.
  \<^item> Backend on numeric programs: the code of an expression computes its value with its side effects, and
    the function of a phase prints what the interpreter prints, leaves the variables it leaves, and runs
    on for ever where the interpreter does not end.
  \<^item> Command: which exceptions leave it, that it leaves no temporary file behind but those on which
    writing or removing raised, that no tool runs for a rejected program, what the \<open>-v\<close> assignments mean;
    the text of \<open>--parse\<close> determines the outline of the tree.

  \<^bold>\<open>Conventions.\<close>  Python's unbounded integers are \<open>int\<close>, strings are lists of characters, a dictionary is
  an association list where its order is used and a map otherwise, a \<open>frozenset\<close> is a set, an \<open>Enum\<close> or a
  union of dataclasses is a datatype, a dataclass a record.  An exception is a value \<open>Inl e\<close> of
  \<open>exn + 'a\<close>; the \<open>RecursionError\<close> that Python raises on deeply nested input is not among the exceptions,
  so the theorems about errors and termination hold for input within the limit of its stack.  The identity of
  source objects, which \<open>combine_spans\<close> compares, is a number in the record.
  Fuel occurs in four places: the depth bound of the parser and the call depth of the lowering, both
  shown to be enough for every input (\<open>Pass_Errors\<close>: no pass ever runs out of it), the eight rounds of
  the type inference, which are the bound of the code itself, and the rounds of a loop in the
  interpreter of \<open>Core_Semantics\<close>: the emitted code is related to it for every bound, and a run that no
  bound ends is one in which the machine never stops.

  \<^bold>\<open>Not modelled.\<close>  What \<^verbatim>\<open>argparse\<close> does with the command line is an operation of the system whose
  result is the namespace; so are subprocesses, files and streams.  The C runtime
  \<^verbatim>\<open>runtime/qk_runtime.c\<close>, which the emitted code calls, is not modelled, nor is LLVM; the code
  for strings, fields, arrays, regular expressions and calls of functions with a result is modelled as
  emitted text but not run by the machine.  The test tooling in \<^verbatim>\<open>compat/\<close>, the scripts and the
  repository lint \<^verbatim>\<open>architecture_audit.py\<close> work around the compiler and are left out.
\<close>

end
